(* ===== verification/Prelude.thy ===== *)
theory Prelude
  imports Complex_Main "HOL-Library.AList" "HOL-Library.Multiset"
begin

text \<open>
  Shared vocabulary of the development: the values a TypeScript program computes with
  (numbers, strings, JSON-like values, insertion-ordered maps, sets as duplicate-free lists,
  stable sorting) and the lemmas every component uses about them.

  An optional field \<open>f?: T\<close> is an \<open>option\<close>; a field that holds an arbitrary JSON value is a
  \<open>json\<close> with the constructor \<open>JUndef\<close> for \<open>undefined\<close>, since reading an absent
  property yields \<open>undefined\<close>. Objects are association lists in insertion order.
  A finite JavaScript number is the rational it denotes; rounding is not modelled.
  Strings are lists of code units (ASCII in every literal of the program).
\<close>

named_theorems js_simps \<open>rewrite rules on the JavaScript vocabulary\<close>
named_theorems scope_intros \<open>introduction rules for scope inclusion\<close>

section \<open>Numbers\<close>

datatype jsnum = Fin rat | NaN | PosInf | NegInf

fun js_is_finite :: "jsnum \<Rightarrow> bool" where
  "js_is_finite (Fin r) = True"
| "js_is_finite _ = False"

fun js_is_integer :: "jsnum \<Rightarrow> bool" where
  "js_is_integer (Fin r) = (of_int \<lfloor>r\<rfloor> = r)"
| "js_is_integer _ = False"

section \<open>Sets as lists without duplicates\<close>

text \<open>\<open>[...new Set(xs)]\<close> keeps the first occurrence of every element.\<close>

fun uniq :: "'a list \<Rightarrow> 'a list" where
  "uniq [] = []"
| "uniq (x # xs) = x # filter (\<lambda>y. y \<noteq> x) (uniq xs)"

lemma set_uniq [simp, js_simps]: "set (uniq xs) = set xs"
  by (induction xs) auto

lemma distinct_uniq [simp, js_simps]: "distinct (uniq xs)"
  by (induction xs) auto

lemma uniq_Nil_iff [simp, js_simps]: "uniq xs = [] \<longleftrightarrow> xs = []"
  by (cases xs) auto

lemma uniq_distinct: "distinct xs \<Longrightarrow> uniq xs = xs"
  by (induction xs) (auto intro!: filter_True)

lemma uniq_idem [simp]: "uniq (uniq xs) = uniq xs"
  by (simp add: uniq_distinct)

lemma uniq_filter: "uniq (filter P xs) = filter P (uniq xs)"
proof (induction xs)
  case (Cons x xs)
  have "filter (\<lambda>y. y \<noteq> x) (filter P (uniq xs)) = filter P (filter (\<lambda>y. y \<noteq> x) (uniq xs))"
    by (simp add: conj_commute)
  moreover have "filter P (filter (\<lambda>y. y \<noteq> x) (uniq xs)) = filter P (uniq xs)" if "\<not> P x"
    using that by (auto intro: filter_cong)
  ultimately show ?case using Cons by simp
qed simp

lemma length_uniq_le: "length (uniq xs) \<le> length xs"
  by (metis card_length distinct_card distinct_uniq set_uniq)

text \<open>\<open>if (!xs.includes(x)) xs.push(x)\<close>\<close>

definition add_unique :: "'a list \<Rightarrow> 'a \<Rightarrow> 'a list" where
  "add_unique xs x = (if x \<in> set xs then xs else xs @ [x])"

lemma set_add_unique [simp, js_simps]: "set (add_unique xs x) = insert x (set xs)"
  by (auto simp: add_unique_def)

lemma distinct_add_unique [simp, js_simps]: "distinct (add_unique xs x) \<longleftrightarrow> distinct xs"
  by (auto simp: add_unique_def)

lemma set_fold_add_unique [simp, js_simps]:
  "set (fold (\<lambda>x acc. add_unique acc x) ys xs) = set xs \<union> set ys"
  by (induction ys arbitrary: xs) auto

lemma distinct_fold_add_unique [simp, js_simps]:
  "distinct (fold (\<lambda>x acc. add_unique acc x) ys xs) \<longleftrightarrow> distinct xs"
  by (induction ys arbitrary: xs) auto

section \<open>Maps\<close>

text \<open>
  A \<open>Map\<close> (or a \<open>Record<string, T>\<close> built by \<open>Object.fromEntries\<close>) is an association list
  in insertion order: \<open>set\<close> overwrites in place or appends, which is \<open>AList.update\<close>, and
  \<open>delete\<close> is \<open>AList.delete\<close>; \<open>get\<close> is \<open>map_of\<close>.
\<close>

type_synonym ('k, 'v) jsmap = "('k \<times> 'v) list"

definition index_by :: "('a \<Rightarrow> 'k) \<Rightarrow> ('a \<Rightarrow> 'v) \<Rightarrow> 'a list \<Rightarrow> ('k, 'v) jsmap" where
  "index_by key val xs = fold (\<lambda>x m. AList.update (key x) (val x) m) xs []"

lemma index_by_append:
  "index_by key val (xs @ [x]) = AList.update (key x) (val x) (index_by key val xs)"
  by (simp add: index_by_def)

lemma map_of_index_by:
  "map_of (index_by key val xs) = map_of (rev (map (\<lambda>x. (key x, val x)) xs))"
  by (induction xs rule: rev_induct)
    (simp_all add: index_by_append update_conv', simp add: index_by_def)

lemma index_by_Some:
  "map_of (index_by key val xs) k = Some v \<Longrightarrow> \<exists>x \<in> set xs. key x = k \<and> val x = v"
  by (auto simp: map_of_index_by dest!: map_of_SomeD)

lemma index_by_None:
  "map_of (index_by key val xs) k = None \<longleftrightarrow> k \<notin> key ` set xs"
  by (auto simp: map_of_index_by map_of_eq_None_iff image_iff)

lemma index_by_distinct_Some:
  "distinct (map key xs) \<Longrightarrow> x \<in> set xs \<Longrightarrow> map_of (index_by key val xs) (key x) = Some (val x)"
  by (simp add: map_of_index_by rev_map[symmetric] map_of_eq_Some_iff comp_def image_iff)
    (metis)

lemma keys_index_by: "fst ` set (index_by key val xs) = key ` set xs"
  by (induction xs rule: rev_induct) (auto simp: index_by_append dom_update, simp add: index_by_def)

lemma distinct_index_by: "distinct (map fst (index_by key val xs))"
  by (induction xs rule: rev_induct) (auto simp: index_by_append distinct_update, simp add: index_by_def)

lemma in_set_concat_map: "y \<in> set (f x) \<Longrightarrow> x \<in> set xs \<Longrightarrow> y \<in> set (concat (map f xs))"
  by auto

definition js_lookup :: "('k, 'v) jsmap \<Rightarrow> 'k \<Rightarrow> 'v \<Rightarrow> 'v" where
  "js_lookup m k d = (case map_of m k of None \<Rightarrow> d | Some v \<Rightarrow> v)"

section \<open>Stable sorting with a comparator\<close>

fun js_insert :: "('a \<Rightarrow> 'a \<Rightarrow> int) \<Rightarrow> 'a \<Rightarrow> 'a list \<Rightarrow> 'a list" where
  "js_insert cmp x [] = [x]"
| "js_insert cmp x (y # ys) = (if cmp x y \<le> 0 then x # y # ys else y # js_insert cmp x ys)"

definition js_sort :: "('a \<Rightarrow> 'a \<Rightarrow> int) \<Rightarrow> 'a list \<Rightarrow> 'a list" where
  "js_sort cmp xs = foldr (js_insert cmp) xs []"

lemma mset_js_insert: "mset (js_insert cmp x xs) = add_mset x (mset xs)"
  by (induction xs) auto

lemma set_js_insert: "set (js_insert cmp x xs) = insert x (set xs)"
  by (induction xs) auto

lemma mset_js_sort [simp, js_simps]: "mset (js_sort cmp xs) = mset xs"
  by (induction xs) (auto simp: js_sort_def mset_js_insert)

lemma set_js_sort [simp, js_simps]: "set (js_sort cmp xs) = set xs"
  by (metis mset_js_sort set_mset_mset)

lemma length_js_sort [simp, js_simps]: "length (js_sort cmp xs) = length xs"
  by (metis mset_js_sort size_mset)

lemma js_sort_Nil_iff [simp]: "js_sort cmp xs = [] \<longleftrightarrow> xs = []"
  by (metis length_0_conv length_js_sort)

text \<open>With a comparator that measures a key, sorting is sorting by that key.\<close>

lemma js_insert_sorted:
  assumes "\<And>a b. cmp a b = f a - f b" and "sorted (map f xs)"
  shows "sorted (map f (js_insert cmp x xs))"
  using assms(2)
proof (induction xs)
  case (Cons y ys)
  then show ?case by (auto simp: assms(1) set_js_insert)
qed simp

lemma js_sort_sorted:
  assumes "\<And>a b. cmp a b = f a - f b"
  shows "sorted (map f (js_sort cmp xs))"
  by (induction xs) (auto simp: js_sort_def intro: js_insert_sorted assms)

section \<open>Strings\<close>

definition js_ws :: "char \<Rightarrow> bool" where
  "js_ws c \<longleftrightarrow> of_char c \<in> {9 :: nat, 10, 11, 12, 13, 32, 160}"

definition js_trim :: "string \<Rightarrow> string" where
  "js_trim s = rev (dropWhile js_ws (rev (dropWhile js_ws s)))"

lemma js_trim_Nil [simp]: "js_trim [] = []"
  by (simp add: js_trim_def)

text \<open>\<open>s.trim().length > 0\<close>\<close>

definition non_blank :: "string \<Rightarrow> bool" where
  "non_blank s \<longleftrightarrow> js_trim s \<noteq> []"

lemma non_blank_iff: "non_blank s \<longleftrightarrow> (\<exists>c \<in> set s. \<not> js_ws c)"
proof -
  have "js_trim s = [] \<longleftrightarrow> (\<forall>c \<in> set (dropWhile js_ws s). js_ws c)"
    by (simp add: js_trim_def dropWhile_eq_Nil_conv)
  also have "\<dots> \<longleftrightarrow> (\<forall>c \<in> set s. js_ws c)"
    by (induction s) auto
  finally show ?thesis by (auto simp: non_blank_def)
qed

definition starts_with :: "string \<Rightarrow> string \<Rightarrow> bool" where
  "starts_with pre s \<longleftrightarrow> take (length pre) s = pre"

fun join :: "string \<Rightarrow> string list \<Rightarrow> string" where
  "join sep [] = []"
| "join sep [x] = x"
| "join sep (x # y # ys) = x @ sep @ join sep (y # ys)"

fun show_nat :: "nat \<Rightarrow> string" where
  "show_nat n = (if n < 10 then [char_of (48 + n)] else show_nat (n div 10) @ [char_of (48 + n mod 10)])"

declare show_nat.simps [simp del]

definition show_int :: "int \<Rightarrow> string" where
  "show_int i = (if i < 0 then CHR ''-'' # show_nat (nat (- i)) else show_nat (nat i))"

lemma show_nat_digit:
  "c \<in> set (show_nat n) \<Longrightarrow> 48 \<le> (of_char c :: nat) \<and> (of_char c :: nat) \<le> 57"
  by (induction n rule: show_nat.induct)
    (subst (asm) (2) show_nat.simps, auto simp: of_char_of split: if_splits)

text \<open>Decimal text determines the number.\<close>

fun read_nat :: "nat \<Rightarrow> string \<Rightarrow> nat" where
  "read_nat acc [] = acc"
| "read_nat acc (c # cs) = read_nat (10 * acc + (of_char c - 48)) cs"

lemma read_nat_append: "read_nat acc (xs @ ys) = read_nat (read_nat acc xs) ys"
  by (induction xs arbitrary: acc) auto

lemma read_show_nat: "read_nat 0 (show_nat n) = n"
proof (induction n rule: show_nat.induct)
  case (1 n)
  show ?case
  proof (cases "n < 10")
    case True
    then show ?thesis by (simp add: show_nat.simps[of n] of_char_of)
  next
    case False
    with 1 show ?thesis
      by (simp add: show_nat.simps[of n] read_nat_append of_char_of)
  qed
qed

lemma show_nat_inject [simp]: "show_nat m = show_nat n \<longleftrightarrow> m = n"
  by (metis read_show_nat)

section \<open>JSON-like values\<close>

datatype json = JUndef | JNull | JBool bool | JNum jsnum | JStr string
  | JArr "json list" | JObj "(string \<times> json) list"

fun is_record :: "json \<Rightarrow> bool" where
  "is_record (JObj _) = True"
| "is_record _ = False"

fun is_array :: "json \<Rightarrow> bool" where
  "is_array (JArr _) = True"
| "is_array _ = False"

fun is_string :: "json \<Rightarrow> bool" where
  "is_string (JStr _) = True"
| "is_string _ = False"

fun is_boolean :: "json \<Rightarrow> bool" where
  "is_boolean (JBool _) = True"
| "is_boolean _ = False"

text \<open>Property access, and the own-property test \<open>hasOwnProperty\<close>.\<close>

fun jget :: "json \<Rightarrow> string \<Rightarrow> json" where
  "jget (JObj m) k = js_lookup m k JUndef"
| "jget _ k = JUndef"

fun has_key :: "json \<Rightarrow> string \<Rightarrow> bool" where
  "has_key (JObj m) k = (map_of m k \<noteq> None)"
| "has_key _ k = False"

text \<open>\<open>a ?? b\<close>: the second operand only for \<open>null\<close> and \<open>undefined\<close>.\<close>

fun nullish :: "json \<Rightarrow> json \<Rightarrow> json" where
  "nullish JUndef b = b"
| "nullish JNull b = b"
| "nullish a b = a"

text \<open>An optional field read with a default: \<open>field ?? d\<close>.\<close>

definition opt_or :: "'a option \<Rightarrow> 'a \<Rightarrow> 'a" where
  "opt_or x d = (case x of None \<Rightarrow> d | Some v \<Rightarrow> v)"

lemma opt_or_simps [simp, js_simps]: "opt_or None d = d" "opt_or (Some v) d = v"
  by (simp_all add: opt_or_def)

section \<open>The host\<close>

text \<open>
  What the program takes from Node: SHA-256 hex digests, \<open>String.prototype.localeCompare\<close>,
  the text of a number, and the clock, read by its \<open>k\<close>-th call. Proofs never depend on which
  functions these are; a witness instantiates them.
\<close>

record host =
  h_sha256 :: "string \<Rightarrow> string"
  h_locale_compare :: "string \<Rightarrow> string \<Rightarrow> int"
  h_num_text :: "jsnum \<Rightarrow> string"
  h_clock :: "nat \<Rightarrow> int"

end
