(* ===== verification/Contracts.thy ===== *)
theory Contracts
  imports Prelude
begin

text \<open>
  The data model of \<open>contracts/enterprise-topology.ts\<close>: enumerations as datatypes, interfaces as
  records whose fields carry the interface's initials (\<open>wo_objective\<close> is
  \<open>WorkOrder.objective\<close>). Every entity interface extends \<open>EnterpriseBaseEntity\<close>; its record
  extends \<open>base_entity\<close>; the literal fields \<open>schemaVersion\<close> and \<open>entityType\<close> of an entity are
  constants of its type and have no field here. A field holding \<open>EnterpriseMetadata\<close> is a \<open>json\<close>, \<open>JUndef\<close> when absent.
  The text functions give the source's string for each constructor.
\<close>

section \<open>Enumerations\<close>

datatype entity_status = ES_draft | ES_active | ES_inactive | ES_archived

fun entity_status_text :: "entity_status \<Rightarrow> string" where
  "entity_status_text ES_draft = ''draft''"
| "entity_status_text ES_active = ''active''"
| "entity_status_text ES_inactive = ''inactive''"
| "entity_status_text ES_archived = ''archived''"

datatype timestamp = TNum jsnum | TStr string

datatype entity_type = ET_topology | ET_topology_version | ET_node | ET_team | ET_org_unit
  | ET_position | ET_person | ET_membership | ET_authority_rule | ET_responsibility_matrix_entry
  | ET_enterprise_system | ET_enterprise_tool | ET_process_definition | ET_relation

fun entity_type_text :: "entity_type \<Rightarrow> string" where
  "entity_type_text ET_topology = ''topology''"
| "entity_type_text ET_topology_version = ''topology_version''"
| "entity_type_text ET_node = ''node''"
| "entity_type_text ET_team = ''team''"
| "entity_type_text ET_org_unit = ''org_unit''"
| "entity_type_text ET_position = ''position''"
| "entity_type_text ET_person = ''person''"
| "entity_type_text ET_membership = ''membership''"
| "entity_type_text ET_authority_rule = ''authority_rule''"
| "entity_type_text ET_responsibility_matrix_entry = ''responsibility_matrix_entry''"
| "entity_type_text ET_enterprise_system = ''enterprise_system''"
| "entity_type_text ET_enterprise_tool = ''enterprise_tool''"
| "entity_type_text ET_process_definition = ''process_definition''"
| "entity_type_text ET_relation = ''relation''"

datatype node_type = NT_function | NT_process_step | NT_approval_node | NT_review_node
  | NT_decision_node | NT_automation_node | NT_data_owner_node | NT_external_node
  | NT_system_interface_node

fun node_type_text :: "node_type \<Rightarrow> string" where
  "node_type_text NT_function = ''function''"
| "node_type_text NT_process_step = ''process_step''"
| "node_type_text NT_approval_node = ''approval_node''"
| "node_type_text NT_review_node = ''review_node''"
| "node_type_text NT_decision_node = ''decision_node''"
| "node_type_text NT_automation_node = ''automation_node''"
| "node_type_text NT_data_owner_node = ''data_owner_node''"
| "node_type_text NT_external_node = ''external_node''"
| "node_type_text NT_system_interface_node = ''system_interface_node''"

datatype relation_type = RT_reports_to | RT_belongs_to | RT_delegates_to | RT_approves | RT_owns
  | RT_collaborates_with | RT_escalates_to | RT_informs | RT_uses_system | RT_uses_tool
  | RT_has_access_to | RT_depends_on | RT_consults | RT_accountable_for

fun relation_type_text :: "relation_type \<Rightarrow> string" where
  "relation_type_text RT_reports_to = ''reports_to''"
| "relation_type_text RT_belongs_to = ''belongs_to''"
| "relation_type_text RT_delegates_to = ''delegates_to''"
| "relation_type_text RT_approves = ''approves''"
| "relation_type_text RT_owns = ''owns''"
| "relation_type_text RT_collaborates_with = ''collaborates_with''"
| "relation_type_text RT_escalates_to = ''escalates_to''"
| "relation_type_text RT_informs = ''informs''"
| "relation_type_text RT_uses_system = ''uses_system''"
| "relation_type_text RT_uses_tool = ''uses_tool''"
| "relation_type_text RT_has_access_to = ''has_access_to''"
| "relation_type_text RT_depends_on = ''depends_on''"
| "relation_type_text RT_consults = ''consults''"
| "relation_type_text RT_accountable_for = ''accountable_for''"

datatype target_type = WT_node | WT_enterprise_tool | WT_enterprise_system | WT_position
  | WT_person | WT_org_unit

fun target_type_text :: "target_type \<Rightarrow> string" where
  "target_type_text WT_node = ''node''"
| "target_type_text WT_enterprise_tool = ''enterprise_tool''"
| "target_type_text WT_enterprise_system = ''enterprise_system''"
| "target_type_text WT_position = ''position''"
| "target_type_text WT_person = ''person''"
| "target_type_text WT_org_unit = ''org_unit''"

datatype validation_kind = VK_manual | VK_schema | VK_evidence | VK_tool | VK_policy

fun validation_kind_text :: "validation_kind \<Rightarrow> string" where
  "validation_kind_text VK_manual = ''manual''"
| "validation_kind_text VK_schema = ''schema''"
| "validation_kind_text VK_evidence = ''evidence''"
| "validation_kind_text VK_tool = ''tool''"
| "validation_kind_text VK_policy = ''policy''"

datatype result_status = RS_completed | RS_partial_success | RS_failed_candidate
  | RS_permission_limited | RS_needs_revision | RS_failed

fun result_status_text :: "result_status \<Rightarrow> string" where
  "result_status_text RS_completed = ''completed''"
| "result_status_text RS_partial_success = ''partial_success''"
| "result_status_text RS_failed_candidate = ''failed_candidate''"
| "result_status_text RS_permission_limited = ''permission_limited''"
| "result_status_text RS_needs_revision = ''needs_revision''"
| "result_status_text RS_failed = ''failed''"

datatype runtime_state = ST_created | ST_work_order_received | ST_analyzing | ST_planning
  | ST_permission_checking | ST_self_executing | ST_child_delegating | ST_tool_executing
  | ST_aggregating | ST_validating | ST_reporting | ST_completed | ST_partial_success
  | ST_failed_candidate | ST_exhaustion_checking | ST_failed

fun runtime_state_text :: "runtime_state \<Rightarrow> string" where
  "runtime_state_text ST_created = ''created''"
| "runtime_state_text ST_work_order_received = ''work_order_received''"
| "runtime_state_text ST_analyzing = ''analyzing''"
| "runtime_state_text ST_planning = ''planning''"
| "runtime_state_text ST_permission_checking = ''permission_checking''"
| "runtime_state_text ST_self_executing = ''self_executing''"
| "runtime_state_text ST_child_delegating = ''child_delegating''"
| "runtime_state_text ST_tool_executing = ''tool_executing''"
| "runtime_state_text ST_aggregating = ''aggregating''"
| "runtime_state_text ST_validating = ''validating''"
| "runtime_state_text ST_reporting = ''reporting''"
| "runtime_state_text ST_completed = ''completed''"
| "runtime_state_text ST_partial_success = ''partial_success''"
| "runtime_state_text ST_failed_candidate = ''failed_candidate''"
| "runtime_state_text ST_exhaustion_checking = ''exhaustion_checking''"
| "runtime_state_text ST_failed = ''failed''"

datatype attempt_kind = AK_self_execution | AK_child_delegation | AK_tool_execution | AK_retry
  | AK_fallback | AK_partial_success_review | AK_parent_recovery

fun attempt_kind_text :: "attempt_kind \<Rightarrow> string" where
  "attempt_kind_text AK_self_execution = ''self_execution''"
| "attempt_kind_text AK_child_delegation = ''child_delegation''"
| "attempt_kind_text AK_tool_execution = ''tool_execution''"
| "attempt_kind_text AK_retry = ''retry''"
| "attempt_kind_text AK_fallback = ''fallback''"
| "attempt_kind_text AK_partial_success_review = ''partial_success_review''"
| "attempt_kind_text AK_parent_recovery = ''parent_recovery''"

datatype attempt_status = AS_attempted | AS_skipped | AS_blocked | AS_succeeded | AS_failed

datatype failure_issue_kind = FI_success_criteria_unmet | FI_runtime_risk
  | FI_execution_incomplete | FI_permission_or_tool_blocked | FI_unknown

datatype recovery_action_kind = RA_retry | RA_delegate_to_next_executor | RA_add_tool_permission
  | RA_add_fallback_path | RA_pass_partial_result | RA_return_to_parent | RA_review_trace | RA_none

datatype next_action_kind = NA_add_permission | NA_pass_partial | NA_add_fallback
  | NA_revise_description | NA_review_trace | NA_user_review

datatype trace_phase = TP_topology_run | TP_work_order | TP_permission | TP_authority
  | TP_self_execution | TP_child_delegation | TP_tool_execution | TP_aggregation | TP_validation
  | TP_recovery | TP_exhaustion | TP_reporting

datatype risk_level = RL_low | RL_medium | RL_high | RL_critical | RL_unknown

datatype output_status = OS_satisfied | OS_partial | OS_missing

fun output_status_text :: "output_status \<Rightarrow> string" where
  "output_status_text OS_satisfied = ''satisfied''"
| "output_status_text OS_partial = ''partial''"
| "output_status_text OS_missing = ''missing''"

section \<open>Entities\<close>

record base_entity =
  be_id :: string
  be_name :: string
  be_displayName :: "string option"
  be_status :: entity_status
  be_createdAt :: timestamp
  be_updatedAt :: timestamp
  be_metadata :: json

record entity_ref =
  er_entityType :: entity_type
  er_id :: string

record failure_policy =
  fp_failureReportRequired :: bool
  fp_allowPartialSuccess :: bool
  fp_fallbackNodeIds :: "string list"

record recovery_policy =
  rp_retryAllowed :: bool
  rp_redelegationAllowed :: bool
  rp_fallbackAllowed :: bool
  rp_partialSuccessAllowed :: bool

record node_contract = base_entity +
  nc_nodeType :: node_type
  nc_owner :: "entity_ref option"
  nc_instruction :: "string option"
  nc_description :: "string option"
  nc_tags :: "string list"
  nc_children :: "string list"
  nc_template :: json
  nc_allowedToolIds :: "string list"
  nc_allowedSystemIds :: "string list"
  nc_failurePolicy :: "failure_policy option"
  nc_recoveryPolicy :: "recovery_policy option"

datatype tool_type = TT_read_only | TT_write | TT_external_action | TT_analysis | TT_unknown

fun tool_type_text :: "tool_type \<Rightarrow> string" where
  "tool_type_text TT_read_only = ''read_only''"
| "tool_type_text TT_write = ''write''"
| "tool_type_text TT_external_action = ''external_action''"
| "tool_type_text TT_analysis = ''analysis''"
| "tool_type_text TT_unknown = ''unknown''"

datatype system_type = SY_internal | SY_external | SY_data_store | SY_communication
  | SY_automation | SY_unknown

datatype availability = AV_available | AV_limited | AV_unavailable | AV_unknown

record enterprise_system = base_entity +
  sy_systemType :: system_type
  sy_dataDomainIds :: "string list"
  sy_criticality :: risk_level

record enterprise_tool = base_entity +
  tl_toolType :: tool_type
  tl_systemId :: "string option"
  tl_inputSchema :: json
  tl_outputSchema :: json

record enterprise_team = base_entity +
  tm_purpose :: "string option"
  tm_nodeIds :: "string list"
  tm_tags :: "string list"

record org_unit = base_entity +
  un_parentOrgUnitId :: "string option"
  un_positionIds :: "string list"
  un_personIds :: "string list"
  un_budget :: json
  un_kpiIds :: "string list"
  un_authorityScope :: json
  un_responsibilityArea :: "string option"

record position = base_entity +
  po_orgUnitId :: string
  po_reportsToPositionId :: "string option"
  po_personIds :: "string list"
  po_approvalLimit :: "jsnum option"
  po_responsibilityIds :: "string list"
  po_backupPositionId :: "string option"

record person = base_entity +
  pe_positionIds :: "string list"
  pe_orgUnitIds :: "string list"
  pe_availability :: "availability option"

record membership = base_entity +
  mb_personId :: string
  mb_positionId :: "string option"
  mb_orgUnitId :: "string option"
  mb_teamId :: "string option"
  mb_validFrom :: "timestamp option"
  mb_validTo :: "timestamp option"
  mb_allocationPercent :: "jsnum option"

record authority_rule = base_entity +
  ar_subject :: entity_ref
  ar_action :: string
  ar_object :: entity_ref
  ar_condition :: json
  ar_delegable :: bool
  ar_requiresAuditLog :: bool

record responsibility_entry = base_entity +
  re_scope :: entity_ref
  re_responsible :: entity_ref
  re_accountable :: "entity_ref option"
  re_consulted :: "entity_ref list"
  re_informed :: "entity_ref list"

record process_definition = base_entity +
  pd_ownerNodeId :: "string option"
  pd_stepNodeIds :: "string list"
  pd_accountablePositionId :: "string option"
  pd_slaMs :: "jsnum option"

record enterprise_relation = base_entity +
  rel_relationType :: relation_type
  rel_from :: entity_ref
  rel_to :: entity_ref
  rel_label :: "string option"
  rel_scope :: json
  rel_condition :: json

record enterprise_topology = base_entity +
  tp_description :: "string option"
  tp_nodes :: "node_contract list"
  tp_teams :: "enterprise_team list"
  tp_orgUnits :: "org_unit list"
  tp_positions :: "position list"
  tp_persons :: "person list"
  tp_memberships :: "membership list"
  tp_authorityRules :: "authority_rule list"
  tp_responsibilities :: "responsibility_entry list"
  tp_systems :: "enterprise_system list"
  tp_tools :: "enterprise_tool list"
  tp_processes :: "process_definition list"
  tp_relations :: "enterprise_relation list"

section \<open>Work orders\<close>

record work_order_target =
  wt_type :: target_type
  wt_id :: string

record work_order_scope =
  sc_included :: "string list"
  sc_excluded :: "string list"

record success_criterion =
  cr_criterionId :: string
  cr_description :: string
  cr_required :: bool
  cr_validationKind :: validation_kind
  cr_metadata :: json

record permission_scope =
  ps_allowedToolIds :: "string list"
  ps_allowedSystemIds :: "string list"
  ps_dataDomainIds :: "string list"
  ps_riskLevel :: "risk_level option"

record authority_scope =
  as_requiredAuthorityRuleIds :: "string list"
  as_approvalRequired :: bool
  as_approvedBy :: "entity_ref list option"

record work_order =
  wo_workOrderId :: string
  wo_topologyRunId :: string
  wo_parentWorkOrderId :: "string option"
  wo_fromNodeId :: string
  wo_to :: work_order_target
  wo_objective :: string
  wo_scope :: work_order_scope
  wo_input :: json
  wo_expectedOutputSchema :: json
  wo_successCriteria :: "success_criterion list"
  wo_permissionScope :: permission_scope
  wo_authorityScope :: authority_scope
  wo_failureReportRequired :: bool
  wo_delegationPath :: "string list"
  wo_createdAt :: timestamp

record attempt_record =
  at_attemptId :: string
  at_kind :: attempt_kind
  at_status :: attempt_status
  at_at :: timestamp
  at_reasonCode :: "string option"
  at_summary :: "string option"
  at_target :: "work_order_target option"

record exhaustion_summary =
  xs_selfExecutionAttempted :: bool
  xs_childDelegationAttempted :: bool
  xs_toolExecutionAttempted :: bool
  xs_retryAttempted :: bool
  xs_fallbackAttempted :: bool
  xs_partialSuccessChecked :: bool
  xs_parentRecoveryPossibleChecked :: bool
  xs_successCriteriaStillNotMet :: bool
  xs_complete :: bool

record node_output =
  ou_outputId :: string
  ou_status :: output_status
  ou_value :: json

record node_result_report =
  nr_resultReportId :: string
  nr_topologyRunId :: string
  nr_nodeRunId :: string
  nr_workOrderId :: string
  nr_nodeId :: string
  nr_status :: result_status
  nr_outputs :: "node_output list"
  nr_unmetSuccessCriteriaIds :: "string list"
  nr_risksOrGaps :: "string list"
  nr_partialResult :: json
  nr_failureReportId :: "string option"
  nr_createdAt :: timestamp

record failure_report =
  fr_failureReportId :: string
  fr_topologyRunId :: string
  fr_nodeRunId :: string
  fr_workOrderId :: string
  fr_nodeId :: string
  fr_exhaustionSummary :: exhaustion_summary
  fr_attempts :: "attempt_record list"
  fr_untriedOptions :: "string list"
  fr_partialResult :: json
  fr_issueKind :: "failure_issue_kind option"
  fr_recoveryActionKind :: "recovery_action_kind option"
  fr_nextActionKind :: "next_action_kind option"
  fr_recommendedAction :: string
  fr_createdAt :: timestamp

record trace_event =
  te_traceEventId :: string
  te_topologyRunId :: string
  te_nodeRunId :: string
  te_workOrderId :: string
  te_parentWorkOrderId :: "string option"
  te_delegationPath :: "string list"
  te_phase :: trace_phase
  te_component :: string
  te_at :: timestamp
  te_reasonCode :: string
  te_payload :: json

record runtime_profile =
  pf_profileSnapshotId :: string
  pf_topologyId :: string
  pf_compiledTopologySnapshotId :: string
  pf_nodeId :: string
  pf_workOrderId :: string
  pf_permissionScope :: permission_scope
  pf_authorityScope :: authority_scope
  pf_allowedToolIds :: "string list"
  pf_allowedSystemIds :: "string list"
  pf_delegationPath :: "string list"
  pf_createdAt :: timestamp
  pf_sourceNodeContractId :: string
  pf_sourceWorkOrderId :: string
  pf_sourceCompiledTopologySnapshotId :: string

section \<open>Output helpers\<close>

text \<open>\<open>cloneOutput\<close>: the structured clone of an output is the same value.\<close>

definition clone_output :: "node_output \<Rightarrow> node_output" where
  "clone_output ou = \<lparr>ou_outputId = ou_outputId ou, ou_status = ou_status ou, ou_value = ou_value ou\<rparr>"

lemma clone_output_id [simp, js_simps]: "clone_output ou = ou"
  by (simp add: clone_output_def)

text \<open>
  The required criteria whose output is not satisfied; the outputs are read through a
  \<open>Map\<close> by id, so the last output with an id decides.
\<close>

definition unmet_success_criteria_ids :: "work_order \<Rightarrow> node_output list \<Rightarrow> string list" where
  "unmet_success_criteria_ids wo outs =
     (let outputsById = index_by ou_outputId (\<lambda>ou. ou) outs in
      map cr_criterionId
        (filter (\<lambda>cr. map_option ou_status (map_of outputsById (cr_criterionId cr)) \<noteq> Some OS_satisfied)
          (filter cr_required (wo_successCriteria wo))))"

lemma unmet_Nil_iff:
  "unmet_success_criteria_ids wo outs = [] \<longleftrightarrow>
   (\<forall>cr \<in> set (wo_successCriteria wo). cr_required cr \<longrightarrow>
      (\<exists>ou. map_of (index_by ou_outputId (\<lambda>ou. ou) outs) (cr_criterionId cr) = Some ou
        \<and> ou_status ou = OS_satisfied))"
  by (auto simp: unmet_success_criteria_ids_def Let_def filter_empty_conv)

definition enterprise_value_matches_schema_type :: "json \<Rightarrow> string \<Rightarrow> bool" where
  "enterprise_value_matches_schema_type v expected =
     (if expected = ''string'' then is_string v
      else if expected = ''number'' then (case v of JNum n \<Rightarrow> js_is_finite n | _ \<Rightarrow> False)
      else if expected = ''integer'' then (case v of JNum n \<Rightarrow> js_is_integer n | _ \<Rightarrow> False)
      else if expected = ''boolean'' then is_boolean v
      else if expected = ''object'' then is_record v
      else if expected = ''array'' then is_array v
      else if expected = ''null'' then v = JNull
      else True)"

text \<open>\<open>Array.isArray(schema.required) ? schema.required.filter(non-blank string) : []\<close>\<close>

fun required_keys :: "json \<Rightarrow> string list" where
  "required_keys (JArr xs) =
     concat (map (\<lambda>x. case x of JStr s \<Rightarrow> if non_blank s then [s] else [] | _ \<Rightarrow> []) xs)"
| "required_keys _ = []"

lemma required_keys_non_blank: "k \<in> set (required_keys v) \<Longrightarrow> non_blank k"
  by (cases v) (auto split: json.splits if_splits)

end
