(* ===== verification/Compiler.thy ===== *)
theory Compiler
  imports Contracts
begin

text \<open>
  The topology compiler, \<open>topology/compiler.ts\<close>: the delegation graph with its parent index, the
  breadth-first descendant sets with their depth, the per-node tool scope, the authority scope
  index and the node index of a compiled snapshot. The validation that precedes compilation, and
  the indexes that only copy organisation entities, are not part of this theory.
\<close>

section \<open>Graph exploration as an interface\<close>

text \<open>
  A worklist search returns every vertex it visits. What its callers rely on: the roots are
  visited, everything visited is reachable from a root, and the visited set is closed under
  successors. The order of the search (breadth-first here, a stack in the agent hierarchy)
  does not matter to them.
\<close>

locale exploration =
  fixes succs :: "'a \<Rightarrow> 'a list"
    and explore :: "'a list \<Rightarrow> 'a list"
  assumes explore_roots: "set rs \<subseteq> set (explore rs)"
    and explore_sound: "x \<in> set (explore rs) \<Longrightarrow> \<exists>r \<in> set rs. (r, x) \<in> {(a, b). b \<in> set (succs a)}\<^sup>*"
    and explore_closed: "x \<in> set (explore rs) \<Longrightarrow> set (succs x) \<subseteq> set (explore rs)"
    and explore_distinct: "distinct (explore rs)"
begin

lemma explore_complete:
  assumes "r \<in> set rs" "(r, x) \<in> {(a, b). b \<in> set (succs a)}\<^sup>*"
  shows "x \<in> set (explore rs)"
  using assms(2)
proof (induction rule: rtrancl_induct)
  case base then show ?case using assms(1) explore_roots by blast
next
  case (step y z) then show ?case using explore_closed by blast
qed

lemma explore_eq:
  "set (explore rs) = {x. \<exists>r \<in> set rs. (r, x) \<in> {(a, b). b \<in> set (succs a)}\<^sup>*}"
  using explore_sound explore_complete by blast

text \<open>Exploring the successors of a vertex finds what a non-empty path from it reaches.\<close>

lemma explore_succs_eq:
  "set (explore (succs v)) = {x. (v, x) \<in> {(a, b). b \<in> set (succs a)}\<^sup>+}"
  by (auto simp: explore_eq dest: tranclD intro: rtrancl_into_trancl2)

lemma explore_succs_acyclic:
  "(\<forall>v. v \<notin> set (explore (succs v))) \<longleftrightarrow> acyclic {(a, b). b \<in> set (succs a)}"
  by (simp add: explore_succs_eq acyclic_def)

end

section \<open>Compiled data\<close>

record compiled_node =
  cn_id :: string
  cn_name :: string
  cn_displayName :: "string option"
  cn_nodeType :: node_type
  cn_owner :: "entity_ref option"
  cn_parentNodeIds :: "string list"
  cn_childNodeIds :: "string list"
  cn_allowedToolIds :: "string list"
  cn_allowedSystemIds :: "string list"
  cn_failurePolicy :: "failure_policy option"
  cn_recoveryPolicy :: "recovery_policy option"
  cn_tags :: "string list"

record compiled_team =
  cm_id :: string
  cm_name :: string
  cm_nodeIds :: "string list"
  cm_tags :: "string list"

record compiled_org_unit =
  cu_id :: string
  cu_name :: string
  cu_parentOrgUnitId :: "string option"
  cu_positionIds :: "string list"
  cu_personIds :: "string list"

record compiled_position =
  cp_id :: string
  cp_name :: string
  cp_orgUnitId :: string
  cp_reportsToPositionId :: "string option"
  cp_personIds :: "string list"
  cp_approvalLimit :: "jsnum option"

record compiled_person =
  ce_id :: string
  ce_name :: string
  ce_positionIds :: "string list"
  ce_orgUnitIds :: "string list"
  ce_availability :: "availability option"

record compiled_tool =
  ct_id :: string
  ct_name :: string
  ct_toolType :: tool_type
  ct_systemId :: "string option"

record compiled_system =
  cy_id :: string
  cy_name :: string
  cy_systemType :: system_type
  cy_dataDomainIds :: "string list"
  cy_criticality :: risk_level

record compiled_process =
  cx_id :: string
  cx_name :: string
  cx_ownerNodeId :: "string option"
  cx_stepNodeIds :: "string list"
  cx_accountablePositionId :: "string option"
  cx_slaMs :: "jsnum option"

record compiled_authority_rule =
  ck_id :: string
  ck_name :: string
  ck_subject :: entity_ref
  ck_action :: string
  ck_object :: entity_ref
  ck_condition :: json
  ck_delegable :: bool
  ck_requiresAuditLog :: bool

record delegation_tree =
  dt_rootNodeIds :: "string list"
  dt_rootChildNodeIds :: "string list"
  dt_entryNodeId :: "string option"
  dt_exitNodeIds :: "string list"
  dt_edges :: "(string, string list) jsmap"
  dt_parents :: "(string, string list) jsmap"
  dt_incomingEdgeCountByNodeId :: "(string, nat) jsmap"

record delegation_scope =
  ds_nodeId :: string
  ds_directChildNodeIds :: "string list"
  ds_descendantNodeIds :: "string list"
  ds_maxDepth :: nat

record compiled_authority_scope =
  ca_target :: entity_ref
  ca_authorityRuleIds :: "string list"
  ca_approvalRelationIds :: "string list"
  ca_approverRefs :: "entity_ref list"

record tool_scope =
  ts_nodeId :: string
  ts_allowedToolIds :: "string list"
  ts_declaredToolIds :: "string list"
  ts_effectiveToolIds :: "string list"
  ts_allowedSystemIds :: "string list"
  ts_declaredSystemIds :: "string list"
  ts_backingSystemIds :: "string list"
  ts_effectiveSystemIds :: "string list"
  ts_declaredDataDomainIds :: "string list"
  ts_effectiveDataDomainIds :: "string list"
  ts_toolRelationIds :: "string list"
  ts_systemRelationIds :: "string list"

record process_flow =
  pw_processId :: string
  pw_ownerNodeId :: "string option"
  pw_stepNodeIds :: "string list"
  pw_accountablePositionId :: "string option"
  pw_transitionRelationIds :: "string list"

record responsibility_scope =
  rs_scope :: entity_ref
  rs_responsibilityEntryIds :: "string list"
  rs_responsibleRefs :: "entity_ref list"
  rs_accountableRefs :: "entity_ref list"
  rs_consultedRefs :: "entity_ref list"
  rs_informedRefs :: "entity_ref list"

record responsibility_index =
  ri_byScopeKey :: "(string, responsibility_scope) jsmap"
  ri_byResponsibleKey :: "(string, string list) jsmap"

record execution_context =
  xc_topologyId :: string
  xc_entryNodeId :: "string option"
  xc_rootChildNodeIds :: "string list"
  xc_exitNodeIds :: "string list"
  xc_nodeCount :: nat
  xc_delegationEdgeCount :: nat

record compiled_topology =
  cs_compiledTopologySnapshotId :: string
  cs_topologyId :: string
  cs_nodeIndex :: "(string, compiled_node) jsmap"
  cs_teamIndex :: "(string, compiled_team) jsmap"
  cs_orgUnitIndex :: "(string, compiled_org_unit) jsmap"
  cs_positionIndex :: "(string, compiled_position) jsmap"
  cs_personIndex :: "(string, compiled_person) jsmap"
  cs_toolIndex :: "(string, compiled_tool) jsmap"
  cs_systemIndex :: "(string, compiled_system) jsmap"
  cs_processIndex :: "(string, compiled_process) jsmap"
  cs_authorityIndex :: "(string, compiled_authority_rule) jsmap"
  cs_parentChildTree :: delegation_tree
  cs_delegationScopeMap :: "(string, delegation_scope) jsmap"
  cs_authorityScopeIndex :: "(string, compiled_authority_scope) jsmap"
  cs_toolScopeIndex :: "(string, tool_scope) jsmap"
  cs_processFlowIndex :: "(string, process_flow) jsmap"
  cs_responsibilityIndex :: responsibility_index
  cs_runtimeExecutionContext :: execution_context

section \<open>The delegation graph\<close>

record delegation_graph =
  dg_edges :: "(string, string list) jsmap"
  dg_parents :: "(string, string list) jsmap"
  dg_relationIdsByPair :: "(string, string list) jsmap"

definition push_unique :: "(string, string list) jsmap \<Rightarrow> string \<Rightarrow> string \<Rightarrow> (string, string list) jsmap" where
  "push_unique m k x = AList.update k (add_unique (js_lookup m k []) x) m"

definition add_delegation_edge ::
  "delegation_graph \<Rightarrow> string \<Rightarrow> string \<Rightarrow> string option \<Rightarrow> delegation_graph" where
  "add_delegation_edge g parentNodeId childNodeId relationId =
     \<lparr>dg_edges = push_unique (dg_edges g) parentNodeId childNodeId,
      dg_parents = push_unique (dg_parents g) childNodeId parentNodeId,
      dg_relationIdsByPair =
        (case relationId of None \<Rightarrow> dg_relationIdsByPair g
         | Some r \<Rightarrow> push_unique (dg_relationIdsByPair g) (parentNodeId @ ''->'' @ childNodeId) r)\<rparr>"

definition is_delegation_relation :: "enterprise_relation \<Rightarrow> bool" where
  "is_delegation_relation r \<longleftrightarrow> rel_relationType r = RT_delegates_to
     \<and> er_entityType (rel_from r) = ET_node \<and> er_entityType (rel_to r) = ET_node"

definition build_delegation_graph :: "enterprise_topology \<Rightarrow> delegation_graph" where
  "build_delegation_graph tp =
     (let empty = index_by be_id (\<lambda>_. []) (tp_nodes tp);
          g0 = \<lparr>dg_edges = empty, dg_parents = empty, dg_relationIdsByPair = []\<rparr>;
          delegationRelations = filter is_delegation_relation (tp_relations tp);
          g1 = (if delegationRelations = []
                then fold (\<lambda>n g. fold (\<lambda>c g. add_delegation_edge g (be_id n) c None) (nc_children n) g)
                       (tp_nodes tp) g0
                else g0)
      in fold (\<lambda>r g. add_delegation_edge g (er_id (rel_from r)) (er_id (rel_to r)) (Some (be_id r)))
           delegationRelations g1)"

definition build_compiled_delegation_tree :: "enterprise_topology \<Rightarrow> delegation_graph \<Rightarrow> delegation_tree" where
  "build_compiled_delegation_tree tp g =
     (let nodeIds = map be_id (tp_nodes tp);
          childIds = concat (map snd (dg_edges g));
          rootNodeIds = filter (\<lambda>n. n \<notin> set childIds) nodeIds
      in \<lparr>dt_rootNodeIds = rootNodeIds,
          dt_rootChildNodeIds = rootNodeIds,
          dt_entryNodeId = None,
          dt_exitNodeIds = filter (\<lambda>n. length (js_lookup (dg_edges g) n []) = 0) nodeIds,
          dt_edges = dg_edges g,
          dt_parents = dg_parents g,
          dt_incomingEdgeCountByNodeId = index_by (\<lambda>n. n) (\<lambda>n. length (js_lookup (dg_parents g) n [])) nodeIds\<rparr>)"

section \<open>Descendants\<close>

text \<open>
  The queue of \<open>collectDescendants\<close>, front first. \<open>visited\<close> and \<open>descendants\<close> always hold the
  same ids, the latter in order, so one list models both.
\<close>

function collect_loop ::
  "(string, string list) jsmap \<Rightarrow> (string \<times> nat) list \<Rightarrow> string list \<Rightarrow> nat \<Rightarrow> string list \<times> nat" where
  "collect_loop E [] visited maxDepth = (visited, maxDepth)"
| "collect_loop E ((nodeId, depth) # queue) visited maxDepth =
     (if nodeId \<in> set visited then collect_loop E queue visited maxDepth
      else collect_loop E (queue @ map (\<lambda>c. (c, depth + 1)) (js_lookup E nodeId []))
             (visited @ [nodeId]) (max maxDepth depth))"
  by pat_completeness auto
termination
proof (relation "measures [\<lambda>(E, q, v, m). card (fst ` set E - set v), \<lambda>(E, q, v, m). length q]")
  fix E :: "(string, string list) jsmap" and x :: string and d :: nat
    and q :: "(string \<times> nat) list" and v :: "string list" and m :: nat
  assume x: "x \<notin> set v"
  have fin: "finite (fst ` set E)" by simp
  show "((E, q @ map (\<lambda>c. (c, d + 1)) (js_lookup E x []), v @ [x], max m d), E, (x, d) # q, v, m)
    \<in> measures [\<lambda>(E, q, v, m). card (fst ` set E - set v), \<lambda>(E, q, v, m). length q]"
  proof (cases "x \<in> fst ` set E")
    case True
    then have "card (fst ` set E - insert x (set v)) < card (fst ` set E - set v)"
      using x fin by (intro psubset_card_mono) auto
    then show ?thesis by simp
  next
    case False
    then have "js_lookup E x [] = []" by (simp add: js_lookup_def map_of_eq_None_iff[symmetric] split: option.split)
    moreover have "fst ` set E - insert x (set v) = fst ` set E - set v" using False by auto
    ultimately show ?thesis by simp
  qed
qed auto

definition collect_descendants :: "string \<Rightarrow> (string, string list) jsmap \<Rightarrow> string list \<times> nat" where
  "collect_descendants nodeId E = collect_loop E (map (\<lambda>c. (c, 1)) (js_lookup E nodeId [])) [] 0"

definition build_delegation_scope_map :: "enterprise_topology \<Rightarrow> delegation_tree \<Rightarrow> (string, delegation_scope) jsmap" where
  "build_delegation_scope_map tp tree =
     index_by be_id (\<lambda>n. let r = collect_descendants (be_id n) (dt_edges tree) in
       \<lparr>ds_nodeId = be_id n,
        ds_directChildNodeIds = js_lookup (dt_edges tree) (be_id n) [],
        ds_descendantNodeIds = fst r,
        ds_maxDepth = snd r\<rparr>) (tp_nodes tp)"

text \<open>The search seen through the exploration interface.\<close>

definition bfs_explore :: "(string, string list) jsmap \<Rightarrow> string list \<Rightarrow> string list" where
  "bfs_explore E rs = fst (collect_loop E (map (\<lambda>c. (c, 1)) rs) [] 0)"

abbreviation delegation_rel :: "(string, string list) jsmap \<Rightarrow> (string \<times> string) set" where
  "delegation_rel E \<equiv> {(a, b). b \<in> set (js_lookup E a [])}"

lemma collect_loop_distinct: "distinct v \<Longrightarrow> distinct (fst (collect_loop E q v m))"
  by (induction E q v m rule: collect_loop.induct) auto

lemma collect_loop_incl: "set v \<union> fst ` set q \<subseteq> set (fst (collect_loop E q v m))"
  by (induction E q v m rule: collect_loop.induct) auto

lemma fst_queue_append: "fst ` set (q @ map (\<lambda>c. (c, d)) cs) = fst ` set q \<union> set cs"
  by force

lemma collect_loop_sound:
  "x \<in> set (fst (collect_loop E q v m)) \<Longrightarrow>
   x \<in> set v \<or> (\<exists>r \<in> fst ` set q. (r, x) \<in> (delegation_rel E)\<^sup>*)"
proof (induction E q v m rule: collect_loop.induct)
  case (2 E y d q v m)
  show ?case
  proof (cases "y \<in> set v")
    case True
    with 2 show ?thesis by auto
  next
    case False
    with 2 have "x \<in> set (v @ [y]) \<or> (\<exists>r \<in> fst ` set (q @ map (\<lambda>c. (c, d + 1)) (js_lookup E y [])).
      (r, x) \<in> (delegation_rel E)\<^sup>*)" by simp
    then show ?thesis by (auto simp: image_iff intro: converse_rtrancl_into_rtrancl)
  qed
qed simp

lemma collect_loop_closed:
  "(\<forall>x \<in> set v. set (js_lookup E x []) \<subseteq> set v \<union> fst ` set q) \<Longrightarrow>
   x \<in> set (fst (collect_loop E q v m)) \<Longrightarrow>
   set (js_lookup E x []) \<subseteq> set (fst (collect_loop E q v m))"
proof (induction E q v m rule: collect_loop.induct)
  case (2 E y d q v m)
  show ?case
  proof (cases "y \<in> set v")
    case True
    with 2 show ?thesis by auto
  next
    case False
    have "\<forall>x \<in> set (v @ [y]). set (js_lookup E x []) \<subseteq>
      set (v @ [y]) \<union> fst ` set (q @ map (\<lambda>c. (c, d + 1)) (js_lookup E y []))"
      using "2.prems"(1) unfolding fst_queue_append by auto
    with False 2 show ?thesis by simp
  qed
qed auto

interpretation bfs: exploration "\<lambda>a. js_lookup E a []" "bfs_explore E"
proof unfold_locales
  fix rs show "set rs \<subseteq> set (bfs_explore E rs)"
    using collect_loop_incl[of "[]" "map (\<lambda>c. (c, 1)) rs" E 0] by (auto simp: bfs_explore_def image_iff)
next
  fix x rs assume "x \<in> set (bfs_explore E rs)"
  then show "\<exists>r \<in> set rs. (r, x) \<in> (delegation_rel E)\<^sup>*"
    by (auto simp: bfs_explore_def dest!: collect_loop_sound)
next
  fix x rs assume "x \<in> set (bfs_explore E rs)"
  then show "set (js_lookup E x []) \<subseteq> set (bfs_explore E rs)"
    unfolding bfs_explore_def by (rule collect_loop_closed[rotated]) simp
next
  fix rs show "distinct (bfs_explore E rs)" by (simp add: bfs_explore_def collect_loop_distinct)
qed

lemma collect_descendants_explore: "fst (collect_descendants v E) = bfs_explore E (js_lookup E v [])"
  by (simp add: collect_descendants_def bfs_explore_def)

section \<open>Node, organisation and tool indexes\<close>

definition build_compiled_entity_ref_key :: "entity_ref \<Rightarrow> string" where
  "build_compiled_entity_ref_key r = entity_type_text (er_entityType r) @ ''|'' @ er_id r"

definition build_node_index :: "enterprise_topology \<Rightarrow> delegation_tree \<Rightarrow> (string, compiled_node) jsmap" where
  "build_node_index tp tree = index_by be_id (\<lambda>n.
     \<lparr>cn_id = be_id n,
      cn_name = be_name n,
      cn_displayName = be_displayName n,
      cn_nodeType = nc_nodeType n,
      cn_owner = nc_owner n,
      cn_parentNodeIds = js_lookup (dt_parents tree) (be_id n) [],
      cn_childNodeIds = js_lookup (dt_edges tree) (be_id n) [],
      cn_allowedToolIds = nc_allowedToolIds n,
      cn_allowedSystemIds = nc_allowedSystemIds n,
      cn_failurePolicy = nc_failurePolicy n,
      cn_recoveryPolicy = nc_recoveryPolicy n,
      cn_tags = nc_tags n\<rparr>) (tp_nodes tp)"

definition build_team_index :: "enterprise_topology \<Rightarrow> (string, compiled_team) jsmap" where
  "build_team_index tp = index_by be_id (\<lambda>t.
     \<lparr>cm_id = be_id t, cm_name = be_name t, cm_nodeIds = tm_nodeIds t, cm_tags = tm_tags t\<rparr>) (tp_teams tp)"

definition build_org_unit_index :: "enterprise_topology \<Rightarrow> (string, compiled_org_unit) jsmap" where
  "build_org_unit_index tp = index_by be_id (\<lambda>u.
     \<lparr>cu_id = be_id u, cu_name = be_name u, cu_parentOrgUnitId = un_parentOrgUnitId u,
      cu_positionIds = un_positionIds u, cu_personIds = un_personIds u\<rparr>) (tp_orgUnits tp)"

definition build_position_index :: "enterprise_topology \<Rightarrow> (string, compiled_position) jsmap" where
  "build_position_index tp = index_by be_id (\<lambda>p.
     \<lparr>cp_id = be_id p, cp_name = be_name p, cp_orgUnitId = po_orgUnitId p,
      cp_reportsToPositionId = po_reportsToPositionId p, cp_personIds = po_personIds p,
      cp_approvalLimit = po_approvalLimit p\<rparr>) (tp_positions tp)"

definition build_person_index :: "enterprise_topology \<Rightarrow> (string, compiled_person) jsmap" where
  "build_person_index tp = index_by be_id (\<lambda>p.
     \<lparr>ce_id = be_id p, ce_name = be_name p, ce_positionIds = pe_positionIds p,
      ce_orgUnitIds = pe_orgUnitIds p, ce_availability = pe_availability p\<rparr>) (tp_persons tp)"

definition build_tool_index :: "enterprise_topology \<Rightarrow> (string, compiled_tool) jsmap" where
  "build_tool_index tp = index_by be_id (\<lambda>t.
     \<lparr>ct_id = be_id t, ct_name = be_name t, ct_toolType = tl_toolType t,
      ct_systemId = tl_systemId t\<rparr>) (tp_tools tp)"

definition build_system_index :: "enterprise_topology \<Rightarrow> (string, compiled_system) jsmap" where
  "build_system_index tp = index_by be_id (\<lambda>y.
     \<lparr>cy_id = be_id y, cy_name = be_name y, cy_systemType = sy_systemType y,
      cy_dataDomainIds = sy_dataDomainIds y, cy_criticality = sy_criticality y\<rparr>) (tp_systems tp)"

definition build_process_index :: "enterprise_topology \<Rightarrow> (string, compiled_process) jsmap" where
  "build_process_index tp = index_by be_id (\<lambda>p.
     \<lparr>cx_id = be_id p, cx_name = be_name p, cx_ownerNodeId = pd_ownerNodeId p,
      cx_stepNodeIds = pd_stepNodeIds p, cx_accountablePositionId = pd_accountablePositionId p,
      cx_slaMs = pd_slaMs p\<rparr>) (tp_processes tp)"

definition build_authority_index :: "enterprise_topology \<Rightarrow> (string, compiled_authority_rule) jsmap" where
  "build_authority_index tp = index_by be_id (\<lambda>r.
     \<lparr>ck_id = be_id r, ck_name = be_name r, ck_subject = ar_subject r, ck_action = ar_action r,
      ck_object = ar_object r, ck_condition = ar_condition r, ck_delegable = ar_delegable r,
      ck_requiresAuditLog = ar_requiresAuditLog r\<rparr>) (tp_authorityRules tp)"

section \<open>Authority scopes\<close>

definition add_unique_refs :: "entity_ref list \<Rightarrow> entity_ref list \<Rightarrow> entity_ref list" where
  "add_unique_refs rs nexts = fold (\<lambda>r acc.
     if \<exists>v \<in> set acc. build_compiled_entity_ref_key v = build_compiled_entity_ref_key r
     then acc else acc @ [\<lparr>er_entityType = er_entityType r, er_id = er_id r\<rparr>]) nexts rs"

definition ensure_authority_scope ::
  "(string, compiled_authority_scope) jsmap \<Rightarrow> entity_ref \<Rightarrow> compiled_authority_scope" where
  "ensure_authority_scope ix target = js_lookup ix (build_compiled_entity_ref_key target)
     \<lparr>ca_target = target, ca_authorityRuleIds = [], ca_approvalRelationIds = [], ca_approverRefs = []\<rparr>"

definition add_approval_relation ::
  "enterprise_relation \<Rightarrow> (string, compiled_authority_scope) jsmap \<Rightarrow> (string, compiled_authority_scope) jsmap" where
  "add_approval_relation r ix =
     (if rel_relationType r \<noteq> RT_approves then ix
      else let sc = ensure_authority_scope ix (rel_to r) in
        AList.update (build_compiled_entity_ref_key (rel_to r))
          (sc\<lparr>ca_approvalRelationIds := add_unique (ca_approvalRelationIds sc) (be_id r),
             ca_approverRefs := add_unique_refs (ca_approverRefs sc) [rel_from r]\<rparr>) ix)"

definition add_authority_rule ::
  "authority_rule \<Rightarrow> (string, compiled_authority_scope) jsmap \<Rightarrow> (string, compiled_authority_scope) jsmap" where
  "add_authority_rule r ix =
     (let sc = ensure_authority_scope ix (ar_object r) in
      AList.update (build_compiled_entity_ref_key (ar_object r))
        (sc\<lparr>ca_authorityRuleIds := add_unique (ca_authorityRuleIds sc) (be_id r),
           ca_approverRefs := add_unique_refs (ca_approverRefs sc) [ar_subject r]\<rparr>) ix)"

definition build_authority_scope_index :: "enterprise_topology \<Rightarrow> (string, compiled_authority_scope) jsmap" where
  "build_authority_scope_index tp =
     fold add_authority_rule (tp_authorityRules tp) (fold add_approval_relation (tp_relations tp) [])"

section \<open>Tool scopes\<close>

record tool_scope_builder =
  tb_declaredToolIds :: "string list"
  tb_declaredSystemIds :: "string list"
  tb_backingSystemIds :: "string list"
  tb_toolRelationIds :: "string list"
  tb_systemRelationIds :: "string list"

definition declare_tool :: "enterprise_relation \<Rightarrow> tool_scope_builder \<Rightarrow> tool_scope_builder" where
  "declare_tool r b = b\<lparr>tb_declaredToolIds := add_unique (tb_declaredToolIds b) (er_id (rel_to r)),
     tb_toolRelationIds := add_unique (tb_toolRelationIds b) (be_id r)\<rparr>"

definition declare_system :: "enterprise_relation \<Rightarrow> tool_scope_builder \<Rightarrow> tool_scope_builder" where
  "declare_system r b = b\<lparr>tb_declaredSystemIds := add_unique (tb_declaredSystemIds b) (er_id (rel_to r)),
     tb_systemRelationIds := add_unique (tb_systemRelationIds b) (be_id r)\<rparr>"

text \<open>Only \<open>uses_tool\<close> records the system behind the tool; \<open>has_access_to\<close> does not.\<close>

definition builder_add ::
  "(string, enterprise_tool) jsmap \<Rightarrow> enterprise_relation \<Rightarrow> tool_scope_builder \<Rightarrow> tool_scope_builder" where
  "builder_add toolById r b =
     (let rt = rel_relationType r; target = er_entityType (rel_to r) in
      if rt = RT_uses_tool \<and> target = ET_enterprise_tool then
        let b1 = declare_tool r b in
        (case map_of toolById (er_id (rel_to r)) of
           Some t \<Rightarrow> (case tl_systemId t of
             Some y \<Rightarrow> b1\<lparr>tb_backingSystemIds := add_unique (tb_backingSystemIds b1) y\<rparr>
           | None \<Rightarrow> b1)
         | None \<Rightarrow> b1)
      else if rt = RT_uses_system \<and> target = ET_enterprise_system then declare_system r b
      else if rt = RT_has_access_to \<and> target = ET_enterprise_tool then declare_tool r b
      else if rt = RT_has_access_to \<and> target = ET_enterprise_system then declare_system r b
      else b)"

definition add_scope_relation ::
  "(string, enterprise_tool) jsmap \<Rightarrow> enterprise_relation \<Rightarrow>
   (string, tool_scope_builder) jsmap \<Rightarrow> (string, tool_scope_builder) jsmap" where
  "add_scope_relation toolById r builders =
     (if er_entityType (rel_from r) \<noteq> ET_node then builders
      else case map_of builders (er_id (rel_from r)) of
        None \<Rightarrow> builders
      | Some b \<Rightarrow> AList.update (er_id (rel_from r)) (builder_add toolById r b) builders)"

definition empty_builder :: tool_scope_builder where
  "empty_builder = \<lparr>tb_declaredToolIds = [], tb_declaredSystemIds = [], tb_backingSystemIds = [],
     tb_toolRelationIds = [], tb_systemRelationIds = []\<rparr>"

definition data_domain_ids_for_systems ::
  "(string, enterprise_system) jsmap \<Rightarrow> string list \<Rightarrow> string list" where
  "data_domain_ids_for_systems systemById systemIds =
     fold (\<lambda>y domains. case map_of systemById y of
         None \<Rightarrow> domains
       | Some s \<Rightarrow> fold (\<lambda>d acc. add_unique acc d) (sy_dataDomainIds s) domains) systemIds []"

definition tool_scope_of ::
  "(string, enterprise_system) jsmap \<Rightarrow> tool_scope_builder \<Rightarrow> node_contract \<Rightarrow> tool_scope" where
  "tool_scope_of systemById b n =
     (let allDeclared = fold (\<lambda>y acc. add_unique acc y) (tb_backingSystemIds b) (tb_declaredSystemIds b);
          effective = filter (\<lambda>y. y \<in> set allDeclared) (nc_allowedSystemIds n)
      in \<lparr>ts_nodeId = be_id n,
          ts_allowedToolIds = nc_allowedToolIds n,
          ts_declaredToolIds = tb_declaredToolIds b,
          ts_effectiveToolIds = filter (\<lambda>t. t \<in> set (tb_declaredToolIds b)) (nc_allowedToolIds n),
          ts_allowedSystemIds = nc_allowedSystemIds n,
          ts_declaredSystemIds = tb_declaredSystemIds b,
          ts_backingSystemIds = tb_backingSystemIds b,
          ts_effectiveSystemIds = effective,
          ts_declaredDataDomainIds = data_domain_ids_for_systems systemById allDeclared,
          ts_effectiveDataDomainIds = data_domain_ids_for_systems systemById effective,
          ts_toolRelationIds = tb_toolRelationIds b,
          ts_systemRelationIds = tb_systemRelationIds b\<rparr>)"

definition build_tool_scope_index :: "enterprise_topology \<Rightarrow> (string, tool_scope) jsmap" where
  "build_tool_scope_index tp =
     (let toolById = index_by be_id (\<lambda>t. t) (tp_tools tp);
          systemById = index_by be_id (\<lambda>y. y) (tp_systems tp);
          builders = fold (add_scope_relation toolById) (tp_relations tp)
            (index_by be_id (\<lambda>_. empty_builder) (tp_nodes tp))
      in index_by be_id (\<lambda>n. tool_scope_of systemById (js_lookup builders (be_id n) empty_builder) n)
           (tp_nodes tp))"

section \<open>Process flows and responsibilities\<close>

definition add_transition :: "string \<Rightarrow> string \<Rightarrow> (string, process_flow) jsmap \<Rightarrow> (string, process_flow) jsmap" where
  "add_transition processId relationId ix =
     (case map_of ix processId of
        None \<Rightarrow> ix
      | Some f \<Rightarrow> AList.update processId
          (f\<lparr>pw_transitionRelationIds := add_unique (pw_transitionRelationIds f) relationId\<rparr>) ix)"

definition build_process_flow_index :: "enterprise_topology \<Rightarrow> (string, process_flow) jsmap" where
  "build_process_flow_index tp = fold (\<lambda>r ix.
     if rel_relationType r \<noteq> RT_depends_on then ix
     else
       let ix1 = (if er_entityType (rel_from r) = ET_process_definition
                  then add_transition (er_id (rel_from r)) (be_id r) ix else ix)
       in if er_entityType (rel_to r) = ET_process_definition
          then add_transition (er_id (rel_to r)) (be_id r) ix1 else ix1)
     (tp_relations tp)
     (index_by be_id (\<lambda>p. \<lparr>pw_processId = be_id p, pw_ownerNodeId = pd_ownerNodeId p,
        pw_stepNodeIds = pd_stepNodeIds p, pw_accountablePositionId = pd_accountablePositionId p,
        pw_transitionRelationIds = []\<rparr>) (tp_processes tp))"

definition add_responsibility :: "responsibility_entry \<Rightarrow> responsibility_index \<Rightarrow> responsibility_index" where
  "add_responsibility e ix =
     (let scopeKey = build_compiled_entity_ref_key (re_scope e);
          sc = js_lookup (ri_byScopeKey ix) scopeKey
            \<lparr>rs_scope = re_scope e, rs_responsibilityEntryIds = [], rs_responsibleRefs = [],
             rs_accountableRefs = [], rs_consultedRefs = [], rs_informedRefs = []\<rparr>;
          sc1 = sc\<lparr>rs_responsibilityEntryIds := add_unique (rs_responsibilityEntryIds sc) (be_id e),
             rs_responsibleRefs := add_unique_refs (rs_responsibleRefs sc) [re_responsible e],
             rs_accountableRefs := (case re_accountable e of None \<Rightarrow> rs_accountableRefs sc
               | Some a \<Rightarrow> add_unique_refs (rs_accountableRefs sc) [a]),
             rs_consultedRefs := add_unique_refs (rs_consultedRefs sc) (re_consulted e),
             rs_informedRefs := add_unique_refs (rs_informedRefs sc) (re_informed e)\<rparr>;
          responsibleKey = build_compiled_entity_ref_key (re_responsible e)
      in \<lparr>ri_byScopeKey = AList.update scopeKey sc1 (ri_byScopeKey ix),
          ri_byResponsibleKey = push_unique (ri_byResponsibleKey ix) responsibleKey (be_id e)\<rparr>)"

definition build_responsibility_index :: "enterprise_topology \<Rightarrow> responsibility_index" where
  "build_responsibility_index tp =
     fold add_responsibility (tp_responsibilities tp) \<lparr>ri_byScopeKey = [], ri_byResponsibleKey = []\<rparr>"

section \<open>The snapshot\<close>

text \<open>
  The indexes \<open>compileTopology\<close> builds once validation has accepted the topology; the snapshot id,
  a hash of the topology's canonical text, is an argument.
\<close>

definition compiled_snapshot :: "string \<Rightarrow> enterprise_topology \<Rightarrow> compiled_topology" where
  "compiled_snapshot snapshotId tp =
     (let graph = build_delegation_graph tp;
          tree = build_compiled_delegation_tree tp graph
      in \<lparr>cs_compiledTopologySnapshotId = snapshotId,
          cs_topologyId = be_id tp,
          cs_nodeIndex = build_node_index tp tree,
          cs_teamIndex = build_team_index tp,
          cs_orgUnitIndex = build_org_unit_index tp,
          cs_positionIndex = build_position_index tp,
          cs_personIndex = build_person_index tp,
          cs_toolIndex = build_tool_index tp,
          cs_systemIndex = build_system_index tp,
          cs_processIndex = build_process_index tp,
          cs_authorityIndex = build_authority_index tp,
          cs_parentChildTree = tree,
          cs_delegationScopeMap = build_delegation_scope_map tp tree,
          cs_authorityScopeIndex = build_authority_scope_index tp,
          cs_toolScopeIndex = build_tool_scope_index tp,
          cs_processFlowIndex = build_process_flow_index tp,
          cs_responsibilityIndex = build_responsibility_index tp,
          cs_runtimeExecutionContext =
            \<lparr>xc_topologyId = be_id tp, xc_entryNodeId = None,
             xc_rootChildNodeIds = dt_rootChildNodeIds tree,
             xc_exitNodeIds = dt_exitNodeIds tree,
             xc_nodeCount = length (tp_nodes tp),
             xc_delegationEdgeCount = foldl (\<lambda>n children. n + length children) 0 (map snd (dt_edges tree))\<rparr>\<rparr>)"

definition get_compiled_entry_node :: "compiled_topology \<Rightarrow> compiled_node option" where
  "get_compiled_entry_node cs = (case xc_entryNodeId (cs_runtimeExecutionContext cs) of
     None \<Rightarrow> None | Some n \<Rightarrow> map_of (cs_nodeIndex cs) n)"

definition get_compiled_child_candidates :: "compiled_topology \<Rightarrow> string \<Rightarrow> compiled_node list" where
  "get_compiled_child_candidates cs nodeId =
     List.map_filter (map_of (cs_nodeIndex cs)) (js_lookup (dt_edges (cs_parentChildTree cs)) nodeId [])"

section \<open>Lemmas on the delegation graph\<close>

lemma js_lookup_update:
  "js_lookup (AList.update k v m) k' d = (if k' = k then v else js_lookup m k' d)"
  by (simp add: js_lookup_def update_conv')

lemma js_lookup_push_unique:
  "set (js_lookup (push_unique m k x) k' []) = set (js_lookup m k' []) \<union> (if k' = k then {x} else {})"
  by (simp add: push_unique_def js_lookup_update)

text \<open>Edges and parents are the two directions of one relation.\<close>

definition graph_consistent :: "delegation_graph \<Rightarrow> bool" where
  "graph_consistent g \<longleftrightarrow>
     (\<forall>a b. b \<in> set (js_lookup (dg_edges g) a []) \<longleftrightarrow> a \<in> set (js_lookup (dg_parents g) b []))"

lemma add_delegation_edge_consistent:
  "graph_consistent g \<Longrightarrow> graph_consistent (add_delegation_edge g p c r)"
  by (simp add: graph_consistent_def add_delegation_edge_def js_lookup_push_unique)

lemma fold_consistent:
  "(\<And>x g. graph_consistent g \<Longrightarrow> graph_consistent (f x g)) \<Longrightarrow> graph_consistent g \<Longrightarrow>
   graph_consistent (fold f xs g)"
  by (induction xs arbitrary: g) auto

lemma js_lookup_index_const: "js_lookup (index_by key (\<lambda>_. d) xs) k d = d"
  by (auto simp: js_lookup_def split: option.split dest: index_by_Some)

lemma build_delegation_graph_consistent: "graph_consistent (build_delegation_graph tp)"
proof -
  let ?empty = "index_by be_id (\<lambda>_. []) (tp_nodes tp) :: (string, string list) jsmap"
  let ?g0 = "\<lparr>dg_edges = ?empty, dg_parents = ?empty, dg_relationIdsByPair = []\<rparr>"
  let ?children = "fold (\<lambda>n g. fold (\<lambda>c g. add_delegation_edge g (be_id n) c None) (nc_children n) g)
    (tp_nodes tp) ?g0"
  have g0: "graph_consistent ?g0" by (simp add: graph_consistent_def js_lookup_index_const)
  have "graph_consistent ?children"
    by (intro fold_consistent g0 add_delegation_edge_consistent)
  with g0 have "graph_consistent (if filter is_delegation_relation (tp_relations tp) = [] then ?children else ?g0)"
    by simp
  then show ?thesis unfolding build_delegation_graph_def Let_def
    by (intro fold_consistent add_delegation_edge_consistent)
qed

lemma fold_edges:
  "set (js_lookup (dg_edges (fold (\<lambda>x g. add_delegation_edge g (p x) (c x) (r x)) xs g)) a []) =
   set (js_lookup (dg_edges g) a []) \<union> {c x | x. x \<in> set xs \<and> p x = a}"
  by (induction xs arbitrary: g)
    (auto simp: add_delegation_edge_def js_lookup_push_unique split: if_splits)

section \<open>Lemmas on tool scopes\<close>

lemma map_of_add_scope_relation:
  "map_of (add_scope_relation tools r m) k =
   (if er_entityType (rel_from r) = ET_node \<and> er_id (rel_from r) = k
    then map_option (builder_add tools r) (map_of m k) else map_of m k)"
  by (auto simp: add_scope_relation_def update_conv' split: option.split)

lemma map_of_add_scope_relations:
  "map_of (fold (add_scope_relation tools) rels m) k =
   map_option (fold (builder_add tools)
     (filter (\<lambda>r. er_entityType (rel_from r) = ET_node \<and> er_id (rel_from r) = k) rels)) (map_of m k)"
proof (induction rels arbitrary: m)
  case Nil
  show ?case by (simp add: option.map_ident)
next
  case (Cons r rels)
  show ?case by (simp add: Cons.IH map_of_add_scope_relation option.map_comp comp_def)
qed

lemma builder_tools:
  "set (tb_declaredToolIds (fold (builder_add tools) rels b)) = set (tb_declaredToolIds b) \<union>
     {er_id (rel_to r) | r. r \<in> set rels \<and> rel_relationType r \<in> {RT_uses_tool, RT_has_access_to}
        \<and> er_entityType (rel_to r) = ET_enterprise_tool}"
proof (induction rels arbitrary: b)
  case (Cons r rels)
  have "set (tb_declaredToolIds (builder_add tools r b)) = set (tb_declaredToolIds b) \<union>
     (if rel_relationType r \<in> {RT_uses_tool, RT_has_access_to}
        \<and> er_entityType (rel_to r) = ET_enterprise_tool then {er_id (rel_to r)} else {})"
    by (simp add: builder_add_def Let_def declare_tool_def declare_system_def split: option.split)
  then show ?case by (auto simp: Cons.IH)
qed simp

text \<open>A tool the node uses brings the system behind it.\<close>

definition system_behind :: "(string, enterprise_tool) jsmap \<Rightarrow> string \<Rightarrow> string option" where
  "system_behind tools t = (case map_of tools t of None \<Rightarrow> None | Some tool \<Rightarrow> tl_systemId tool)"

lemma builder_systems:
  "set (tb_declaredSystemIds (fold (builder_add tools) rels b))
     \<union> set (tb_backingSystemIds (fold (builder_add tools) rels b)) =
   set (tb_declaredSystemIds b) \<union> set (tb_backingSystemIds b) \<union>
     {er_id (rel_to r) | r. r \<in> set rels \<and> rel_relationType r \<in> {RT_uses_system, RT_has_access_to}
        \<and> er_entityType (rel_to r) = ET_enterprise_system} \<union>
     {y. \<exists>r \<in> set rels. rel_relationType r = RT_uses_tool \<and> er_entityType (rel_to r) = ET_enterprise_tool
        \<and> system_behind tools (er_id (rel_to r)) = Some y}"
proof (induction rels arbitrary: b)
  case (Cons r rels)
  have "set (tb_declaredSystemIds (builder_add tools r b)) \<union> set (tb_backingSystemIds (builder_add tools r b)) =
     set (tb_declaredSystemIds b) \<union> set (tb_backingSystemIds b) \<union>
     (if rel_relationType r \<in> {RT_uses_system, RT_has_access_to}
        \<and> er_entityType (rel_to r) = ET_enterprise_system then {er_id (rel_to r)} else {}) \<union>
     {y. rel_relationType r = RT_uses_tool \<and> er_entityType (rel_to r) = ET_enterprise_tool
        \<and> system_behind tools (er_id (rel_to r)) = Some y}"
    by (auto simp: builder_add_def Let_def declare_tool_def declare_system_def system_behind_def
        split: option.splits)
  then show ?case by (auto simp: Cons.IH)
qed simp

lemma set_data_domain_fold:
  "set (fold (\<lambda>y domains. case map_of m y of None \<Rightarrow> domains
       | Some s \<Rightarrow> fold (\<lambda>d acc. add_unique acc d) (sy_dataDomainIds s) domains) ys acc) =
   set acc \<union> {d. \<exists>y \<in> set ys. \<exists>s. map_of m y = Some s \<and> d \<in> set (sy_dataDomainIds s)}"
  by (induction ys arbitrary: acc) (auto split: option.splits)

lemma set_data_domain_ids:
  "set (data_domain_ids_for_systems m ys) =
   {d. \<exists>y \<in> set ys. \<exists>s. map_of m y = Some s \<and> d \<in> set (sy_dataDomainIds s)}"
  by (simp add: data_domain_ids_for_systems_def set_data_domain_fold)

lemma tool_scope_lookup:
  assumes "distinct (map be_id (tp_nodes tp))" "n \<in> set (tp_nodes tp)"
  shows "map_of (build_tool_scope_index tp) (be_id n) =
    Some (tool_scope_of (index_by be_id (\<lambda>y. y) (tp_systems tp))
      (fold (builder_add (index_by be_id (\<lambda>t. t) (tp_tools tp)))
        (filter (\<lambda>r. er_entityType (rel_from r) = ET_node \<and> er_id (rel_from r) = be_id n) (tp_relations tp))
        empty_builder) n)"
  using index_by_distinct_Some[OF assms, of "\<lambda>_. empty_builder"]
  by (simp add: build_tool_scope_index_def Let_def index_by_distinct_Some[OF assms]
      js_lookup_def map_of_add_scope_relations)

text \<open>The declarations of a node, read off the relations.\<close>

definition declares_tool :: "enterprise_topology \<Rightarrow> string \<Rightarrow> string \<Rightarrow> bool" where
  "declares_tool tp n t \<longleftrightarrow> (\<exists>r \<in> set (tp_relations tp). rel_from r = \<lparr>er_entityType = ET_node, er_id = n\<rparr>
     \<and> rel_to r = \<lparr>er_entityType = ET_enterprise_tool, er_id = t\<rparr>
     \<and> rel_relationType r \<in> {RT_uses_tool, RT_has_access_to})"

definition declares_system :: "enterprise_topology \<Rightarrow> string \<Rightarrow> string \<Rightarrow> bool" where
  "declares_system tp n y \<longleftrightarrow> (\<exists>r \<in> set (tp_relations tp). rel_from r = \<lparr>er_entityType = ET_node, er_id = n\<rparr>
     \<and> (rel_to r = \<lparr>er_entityType = ET_enterprise_system, er_id = y\<rparr>
          \<and> rel_relationType r \<in> {RT_uses_system, RT_has_access_to}
        \<or> er_entityType (rel_to r) = ET_enterprise_tool \<and> rel_relationType r = RT_uses_tool
          \<and> system_behind (index_by be_id (\<lambda>t. t) (tp_tools tp)) (er_id (rel_to r)) = Some y))"

lemma entity_ref_eq_iff: "r = \<lparr>er_entityType = t, er_id = i\<rparr> \<longleftrightarrow> er_entityType r = t \<and> er_id r = i"
  by (cases r) auto

lemma tool_scope_effective:
  assumes "distinct (map be_id (tp_nodes tp))" "n \<in> set (tp_nodes tp)"
    and "map_of (build_tool_scope_index tp) (be_id n) = Some sc"
  shows "set (ts_effectiveToolIds sc) = {t \<in> set (nc_allowedToolIds n). declares_tool tp (be_id n) t}"
    and "set (ts_effectiveSystemIds sc) = {y \<in> set (nc_allowedSystemIds n). declares_system tp (be_id n) y}"
    and "set (ts_effectiveDataDomainIds sc) = {d. \<exists>y \<in> set (ts_effectiveSystemIds sc). \<exists>s.
      map_of (index_by be_id (\<lambda>y. y) (tp_systems tp)) y = Some s \<and> d \<in> set (sy_dataDomainIds s)}"
proof -
  note sc = assms(3)[unfolded tool_scope_lookup[OF assms(1,2)] option.inject, symmetric]
  show "set (ts_effectiveToolIds sc) = {t \<in> set (nc_allowedToolIds n). declares_tool tp (be_id n) t}"
    by (auto simp: sc tool_scope_of_def Let_def builder_tools empty_builder_def declares_tool_def
        entity_ref_eq_iff)
  show "set (ts_effectiveDataDomainIds sc) = {d. \<exists>y \<in> set (ts_effectiveSystemIds sc). \<exists>s.
      map_of (index_by be_id (\<lambda>y. y) (tp_systems tp)) y = Some s \<and> d \<in> set (sy_dataDomainIds s)}"
    by (simp add: sc tool_scope_of_def Let_def set_data_domain_ids)
  show "set (ts_effectiveSystemIds sc) = {y \<in> set (nc_allowedSystemIds n). declares_system tp (be_id n) y}"
    by (auto simp: sc tool_scope_of_def Let_def builder_systems empty_builder_def declares_system_def
        entity_ref_eq_iff)
qed

section \<open>A sample topology\<close>

text \<open>
  A coordinator \<open>a\<close> delegates to \<open>b\<close>, which delegates to \<open>c\<close>; \<open>a\<close> uses the tool \<open>t\<close>, backed by the
  system \<open>y\<close>, and may also use a tool \<open>u\<close> it never declared.
\<close>

definition sample_node :: "string \<Rightarrow> string list \<Rightarrow> string list \<Rightarrow> string list \<Rightarrow> node_contract" where
  "sample_node i children tools systems = \<lparr>be_id = i, be_name = i, be_displayName = None, be_status = ES_active,
     be_createdAt = TNum (Fin 0), be_updatedAt = TNum (Fin 0), be_metadata = JUndef,
     nc_nodeType = NT_function, nc_owner = None, nc_instruction = None, nc_description = None,
     nc_tags = [], nc_children = children, nc_template = JUndef, nc_allowedToolIds = tools,
     nc_allowedSystemIds = systems, nc_failurePolicy = None, nc_recoveryPolicy = None\<rparr>"

definition sample_relation :: "string \<Rightarrow> relation_type \<Rightarrow> entity_ref \<Rightarrow> entity_ref \<Rightarrow> enterprise_relation" where
  "sample_relation i rt src target = \<lparr>be_id = i, be_name = i, be_displayName = None, be_status = ES_active,
     be_createdAt = TNum (Fin 0), be_updatedAt = TNum (Fin 0), be_metadata = JUndef,
     rel_relationType = rt, rel_from = src, rel_to = target, rel_label = None, rel_scope = JUndef,
     rel_condition = JUndef\<rparr>"

definition sample_topology :: enterprise_topology where
  "sample_topology = \<lparr>be_id = ''topology'', be_name = ''sample'', be_displayName = None, be_status = ES_active,
     be_createdAt = TNum (Fin 0), be_updatedAt = TNum (Fin 0), be_metadata = JUndef,
     tp_description = None,
     tp_nodes = [sample_node ''a'' [''b''] [''t'', ''u''] [''y'', ''z''], sample_node ''b'' [''c''] [] [],
       sample_node ''c'' [] [] []],
     tp_teams = [], tp_orgUnits = [], tp_positions = [], tp_persons = [], tp_memberships = [], tp_authorityRules = [],
     tp_responsibilities = [],
     tp_systems = [\<lparr>be_id = ''y'', be_name = ''y'', be_displayName = None, be_status = ES_active,
       be_createdAt = TNum (Fin 0), be_updatedAt = TNum (Fin 0), be_metadata = JUndef,
       sy_systemType = SY_internal, sy_dataDomainIds = [''d''], sy_criticality = RL_low\<rparr>],
     tp_tools = [\<lparr>be_id = ''t'', be_name = ''t'', be_displayName = None, be_status = ES_active,
       be_createdAt = TNum (Fin 0), be_updatedAt = TNum (Fin 0), be_metadata = JUndef,
       tl_toolType = TT_write, tl_systemId = Some ''y'', tl_inputSchema = JUndef, tl_outputSchema = JUndef\<rparr>],
     tp_processes = [],
     tp_relations = [sample_relation ''r1'' RT_uses_tool
       \<lparr>er_entityType = ET_node, er_id = ''a''\<rparr> \<lparr>er_entityType = ET_enterprise_tool, er_id = ''t''\<rparr>]\<rparr>"

lemma sample_topology_nodes:
  "tp_nodes sample_topology = [sample_node ''a'' [''b''] [''t'', ''u''] [''y'', ''z''],
     sample_node ''b'' [''c''] [] [], sample_node ''c'' [] [] []]"
  "be_id (sample_node i ch ts ys) = i"
  by (simp_all add: sample_topology_def sample_node_def)

section \<open>Properties\<close>

text \<open>
  C16: the descendants of a node are exactly the nodes a non-empty delegation path reaches,
  each listed once.
\<close>

theorem collect_descendants_correct:
  "set (fst (collect_descendants v E)) = {x. (v, x) \<in> (delegation_rel E)\<^sup>+}
   \<and> distinct (fst (collect_descendants v E))"
  by (simp add: collect_descendants_explore bfs.explore_succs_eq bfs.explore_distinct)

text \<open>
  The edges and the parents of the compiled delegation tree are converse to each other, whether
  the edges came from \<open>delegates_to\<close> relations or from the nodes' children lists.
\<close>

lemma compiled_tree_edges_parents:
  "b \<in> set (js_lookup (dt_edges (cs_parentChildTree (compiled_snapshot sid tp))) a []) \<longleftrightarrow>
   a \<in> set (js_lookup (dt_parents (cs_parentChildTree (compiled_snapshot sid tp))) b [])"
  using build_delegation_graph_consistent
  by (simp add: compiled_snapshot_def Let_def build_compiled_delegation_tree_def graph_consistent_def)

text \<open>
  C17: the effective scope a node gets in the compiled snapshot. Its effective tools are the allowed
  tools it also declares through a \<open>uses_tool\<close> or \<open>has_access_to\<close> relation, its effective systems
  the allowed systems it declares or that stand behind a tool it uses, and its effective data
  domains are those of the effective systems, nothing else.
\<close>

theorem compiled_tool_scope_exact:
  assumes "distinct (map be_id (tp_nodes tp))" "n \<in> set (tp_nodes tp)"
  shows "\<exists>sc. map_of (cs_toolScopeIndex (compiled_snapshot sid tp)) (be_id n) = Some sc
    \<and> set (ts_effectiveToolIds sc) = {t \<in> set (nc_allowedToolIds n). declares_tool tp (be_id n) t}
    \<and> set (ts_effectiveSystemIds sc) = {y \<in> set (nc_allowedSystemIds n). declares_system tp (be_id n) y}
    \<and> set (ts_effectiveDataDomainIds sc) = {d. \<exists>y \<in> set (ts_effectiveSystemIds sc). \<exists>s.
        map_of (index_by be_id (\<lambda>y. y) (tp_systems tp)) y = Some s \<and> d \<in> set (sy_dataDomainIds s)}"
  using tool_scope_lookup[OF assms] tool_scope_effective[OF assms]
  by (simp add: compiled_snapshot_def Let_def)

theorem compiled_tool_scope_exact_witness:
  "\<exists>sc. map_of (cs_toolScopeIndex (compiled_snapshot ''s'' sample_topology)) ''a'' = Some sc
     \<and> set (ts_effectiveToolIds sc) = {t \<in> {''t'', ''u''}. declares_tool sample_topology ''a'' t}
     \<and> set (ts_effectiveSystemIds sc) = {y \<in> {''y'', ''z''}. declares_system sample_topology ''a'' y}"
proof -
  let ?n = "sample_node ''a'' [''b''] [''t'', ''u''] [''y'', ''z'']"
  have n: "?n \<in> set (tp_nodes sample_topology)" "distinct (map be_id (tp_nodes sample_topology))"
    "set (nc_allowedToolIds ?n) = {''t'', ''u''}" "set (nc_allowedSystemIds ?n) = {''y'', ''z''}"
    by (simp_all add: sample_topology_nodes) (simp_all add: sample_node_def)
  from compiled_tool_scope_exact[OF n(2,1), of "''s''"] show ?thesis
    by (auto simp: n sample_topology_nodes)
qed

end
