(* ===== verification/Contract_Validation.thy ===== *)
theory Contract_Validation
  imports Contracts
begin

text \<open>
  The validators of \<open>contracts/enterprise-topology.ts\<close> for node contracts, work orders, result
  reports, failure reports and trace events. They read an arbitrary JSON-like value and append
  issues; here each check returns the list of issues it would append, so a validator is the
  concatenation of its checks in the source's order. The encoders give the object a typed
  record is at run time.
\<close>

record validation_issue =
  vi_path :: string
  vi_code :: string
  vi_message :: string

definition issue :: "string \<Rightarrow> string \<Rightarrow> string \<Rightarrow> validation_issue list" where
  "issue path code message = [\<lparr>vi_path = path, vi_code = code, vi_message = message\<rparr>]"

lemma issue_not_Nil [simp]: "issue p c m \<noteq> []"
  by (simp add: issue_def)

section \<open>Checks\<close>

fun is_non_blank_string :: "json \<Rightarrow> bool" where
  "is_non_blank_string (JStr s) = non_blank s"
| "is_non_blank_string _ = False"

fun is_finite_number :: "json \<Rightarrow> bool" where
  "is_finite_number (JNum n) = js_is_finite n"
| "is_finite_number _ = False"

definition validate_required_string :: "json \<Rightarrow> string \<Rightarrow> string \<Rightarrow> validation_issue list" where
  "validate_required_string r k path =
     (if is_non_blank_string (jget r k) then []
      else issue (path @ ''.'' @ k) ''missing_required_field'' (k @ '' must be a non-empty string.''))"

definition validate_timestamp :: "json \<Rightarrow> string \<Rightarrow> string \<Rightarrow> validation_issue list" where
  "validate_timestamp r k path =
     (if is_finite_number (jget r k) \<or> is_non_blank_string (jget r k) then []
      else issue (path @ ''.'' @ k) ''missing_required_field'' (k @ '' must be a timestamp.''))"

definition validate_schema_version :: "json \<Rightarrow> string \<Rightarrow> validation_issue list" where
  "validate_schema_version r path =
     (if jget r ''schemaVersion'' = JNum (Fin 1) then []
      else issue (path @ ''.schemaVersion'') ''unsupported_enterprise_topology_schema_version''
        ''Unsupported enterprise topology schema version.'')"

definition entity_statuses :: "string list" where
  "entity_statuses = [''draft'', ''active'', ''inactive'', ''archived'']"

fun is_one_of :: "json \<Rightarrow> string list \<Rightarrow> bool" where
  "is_one_of (JStr s) xs = (s \<in> set xs)"
| "is_one_of _ xs = False"

definition validate_base_entity :: "json \<Rightarrow> string \<Rightarrow> string \<Rightarrow> validation_issue list" where
  "validate_base_entity r expectedType path =
     validate_schema_version r path
     @ (if jget r ''entityType'' = JStr expectedType then []
        else issue (path @ ''.entityType'') ''invalid_entity_type''
          (''Expected entityType '' @ expectedType @ ''.''))
     @ validate_required_string r ''id'' path
     @ validate_required_string r ''name'' path
     @ (if is_one_of (jget r ''status'') entity_statuses then []
        else issue (path @ ''.status'') ''invalid_entity_status'' ''Unsupported enterprise entity status.'')
     @ validate_timestamp r ''createdAt'' path
     @ validate_timestamp r ''updatedAt'' path"

definition forbidden_key_issues ::
  "json \<Rightarrow> string list \<Rightarrow> string \<Rightarrow> string \<Rightarrow> string \<Rightarrow> validation_issue list" where
  "forbidden_key_issues r keys path code message =
     concat (map (\<lambda>k. if has_key r k then issue (path @ ''.'' @ k) code message else []) keys)"

fun is_string_array :: "json \<Rightarrow> bool" where
  "is_string_array (JArr xs) = list_all is_string xs"
| "is_string_array _ = False"

definition validate_string_array :: "json \<Rightarrow> string \<Rightarrow> validation_issue list" where
  "validate_string_array v path =
     (if is_string_array v then []
      else issue path ''enterprise_contract_validation_failed'' ''Expected a string array.'')"

definition validate_required_boolean :: "json \<Rightarrow> string \<Rightarrow> string \<Rightarrow> validation_issue list" where
  "validate_required_boolean r k path =
     (if is_boolean (jget r k) then []
      else issue (path @ ''.'' @ k) ''missing_required_field'' (k @ '' must be a boolean.''))"

definition validate_optional_enum_string ::
  "json \<Rightarrow> string \<Rightarrow> string list \<Rightarrow> string \<Rightarrow> validation_issue list" where
  "validate_optional_enum_string r k allowed path =
     (if \<not> has_key r k \<or> jget r k = JUndef then []
      else if is_one_of (jget r k) allowed then []
      else issue (path @ ''.'' @ k) ''enterprise_contract_validation_failed''
        (k @ '' has an unsupported value.''))"

text \<open>The continuation of \<open>validateRequiredRecord\<close> runs only on a record.\<close>

definition with_required_record ::
  "json \<Rightarrow> string \<Rightarrow> string \<Rightarrow> validation_issue list \<Rightarrow> validation_issue list" where
  "with_required_record v path code rest =
     (if is_record v then rest else issue path code (path @ '' must be an object.''))"

definition validate_entity_ref :: "json \<Rightarrow> string \<Rightarrow> validation_issue list" where
  "validate_entity_ref v path =
     (if \<not> is_record v then issue path ''enterprise_contract_validation_failed'' ''Expected an entity reference.''
      else validate_required_string v ''entityType'' path @ validate_required_string v ''id'' path)"

definition validate_failure_policy :: "json \<Rightarrow> string \<Rightarrow> validation_issue list" where
  "validate_failure_policy v path = with_required_record v path ''enterprise_contract_validation_failed''
     (validate_required_boolean v ''failureReportRequired'' path
      @ validate_required_boolean v ''allowPartialSuccess'' path
      @ validate_string_array (jget v ''fallbackNodeIds'') (path @ ''.fallbackNodeIds''))"

definition validate_recovery_policy :: "json \<Rightarrow> string \<Rightarrow> validation_issue list" where
  "validate_recovery_policy v path = with_required_record v path ''enterprise_contract_validation_failed''
     (validate_required_boolean v ''retryAllowed'' path
      @ validate_required_boolean v ''redelegationAllowed'' path
      @ validate_required_boolean v ''fallbackAllowed'' path
      @ validate_required_boolean v ''partialSuccessAllowed'' path)"

section \<open>Node contracts\<close>

definition node_types :: "string list" where
  "node_types = [''function'', ''process_step'', ''approval_node'', ''review_node'', ''decision_node'',
     ''automation_node'', ''data_owner_node'', ''external_node'', ''system_interface_node'']"

definition fixed_role_catalog_keys :: "string list" where
  "fixed_role_catalog_keys = [''fixedRoleAgentCatalog'', ''roleAgentCatalog'', ''requiredRoleAgents'',
     ''plannerAgentId'', ''researcherAgentId'', ''validatorAgentId'']"

definition validate_node_owner :: "json \<Rightarrow> validation_issue list" where
  "validate_node_owner owner =
     (if owner = JUndef \<or> owner = JNull then []
      else validate_entity_ref owner ''$.owner''
        @ (if is_string (jget owner ''entityType'') \<and> is_string (jget owner ''id'')
              \<and> \<not> is_one_of (jget owner ''entityType'') [''position'', ''org_unit'', ''person'', ''enterprise_system'']
           then issue ''$.owner.entityType'' ''invalid_node_owner''
             ''Node owner must reference Position, OrgUnit, Person, or System.''
           else []))"

definition validate_node_contract :: "json \<Rightarrow> validation_issue list" where
  "validate_node_contract v =
     (if \<not> is_record v then issue ''$'' ''enterprise_contract_validation_failed'' ''Node contract must be an object.''
      else validate_base_entity v ''node'' ''$''
        @ (if is_one_of (jget v ''nodeType'') node_types then []
           else issue ''$.nodeType'' ''invalid_node_type'' ''Unsupported node type.'')
        @ validate_string_array (jget v ''tags'') ''$.tags''
        @ validate_string_array (jget v ''children'') ''$.children''
        @ validate_string_array (jget v ''allowedToolIds'') ''$.allowedToolIds''
        @ validate_string_array (jget v ''allowedSystemIds'') ''$.allowedSystemIds''
        @ (if jget v ''failurePolicy'' \<noteq> JUndef
           then validate_failure_policy (jget v ''failurePolicy'') ''$.failurePolicy'' else [])
        @ (if jget v ''recoveryPolicy'' \<noteq> JUndef
           then validate_recovery_policy (jget v ''recoveryPolicy'') ''$.recoveryPolicy'' else [])
        @ validate_node_owner (jget v ''owner'')
        @ (if is_record (jget v ''template'') \<and> jget (jget v ''template'') ''fixedRoleCatalog'' \<noteq> JUndef
              \<and> jget (jget v ''template'') ''fixedRoleCatalog'' \<noteq> JBool False
           then issue ''$.template.fixedRoleCatalog'' ''fixed_role_catalog_forbidden''
             ''Node templates cannot require a fixed role agent catalog.''
           else [])
        @ forbidden_key_issues v fixed_role_catalog_keys ''$'' ''fixed_role_catalog_forbidden''
            ''Fixed role agent catalogs are not part of the enterprise topology source model.'')"

section \<open>Work orders\<close>

definition validate_permission_scope :: "json \<Rightarrow> string \<Rightarrow> validation_issue list" where
  "validate_permission_scope v path = with_required_record v path ''missing_required_field''
     (validate_string_array (jget v ''allowedToolIds'') (path @ ''.allowedToolIds'')
      @ validate_string_array (jget v ''allowedSystemIds'') (path @ ''.allowedSystemIds'')
      @ validate_string_array (jget v ''dataDomainIds'') (path @ ''.dataDomainIds''))"

definition validate_authority_scope :: "json \<Rightarrow> string \<Rightarrow> validation_issue list" where
  "validate_authority_scope v path = with_required_record v path ''missing_required_field''
     (validate_string_array (jget v ''requiredAuthorityRuleIds'') (path @ ''.requiredAuthorityRuleIds'')
      @ validate_required_boolean v ''approvalRequired'' path)"

definition validate_work_order_target :: "json \<Rightarrow> string \<Rightarrow> validation_issue list" where
  "validate_work_order_target v path = with_required_record v path ''missing_required_field''
     (validate_required_string v ''type'' path @ validate_required_string v ''id'' path)"

definition index_path :: "string \<Rightarrow> nat \<Rightarrow> string" where
  "index_path path i = path @ ''['' @ show_nat i @ '']''"

definition validate_criterion :: "json \<Rightarrow> string \<Rightarrow> validation_issue list" where
  "validate_criterion v path = with_required_record v path ''missing_required_field''
     (validate_required_string v ''criterionId'' path
      @ validate_required_string v ''description'' path
      @ validate_required_boolean v ''required'' path
      @ validate_required_string v ''validationKind'' path)"

definition validate_success_criteria :: "json \<Rightarrow> string \<Rightarrow> validation_issue list" where
  "validate_success_criteria v path =
     (case v of
        JArr (x # xs) \<Rightarrow> concat (map (\<lambda>ix. validate_criterion (snd ix) (index_path path (fst ix)))
          (enumerate 0 (x # xs)))
      | _ \<Rightarrow> issue path ''missing_success_criteria'' ''WorkOrder must define at least one success criterion.'')"

definition validate_work_order :: "json \<Rightarrow> validation_issue list" where
  "validate_work_order v =
     (if \<not> is_record v then issue ''$'' ''enterprise_contract_validation_failed'' ''WorkOrder must be an object.''
      else validate_schema_version v ''$''
        @ validate_required_string v ''workOrderId'' ''$''
        @ validate_required_string v ''topologyRunId'' ''$''
        @ validate_required_string v ''fromNodeId'' ''$''
        @ validate_work_order_target (jget v ''to'') ''$.to''
        @ validate_required_string v ''objective'' ''$''
        @ with_required_record (jget v ''scope'') ''$.scope'' ''missing_required_field''
            (validate_string_array (jget (jget v ''scope'') ''included'') ''$.scope.included''
             @ validate_string_array (jget (jget v ''scope'') ''excluded'') ''$.scope.excluded'')
        @ with_required_record (jget v ''input'') ''$.input'' ''missing_required_field'' []
        @ with_required_record (jget v ''expectedOutputSchema'') ''$.expectedOutputSchema'' ''missing_required_field'' []
        @ validate_success_criteria (jget v ''successCriteria'') ''$.successCriteria''
        @ validate_permission_scope (jget v ''permissionScope'') ''$.permissionScope''
        @ validate_authority_scope (jget v ''authorityScope'') ''$.authorityScope''
        @ validate_required_boolean v ''failureReportRequired'' ''$''
        @ validate_string_array (jget v ''delegationPath'') ''$.delegationPath''
        @ validate_timestamp v ''createdAt'' ''$'')"

section \<open>Reports and trace events\<close>

definition node_result_statuses :: "string list" where
  "node_result_statuses = [''completed'', ''partial_success'', ''failed_candidate'', ''permission_limited'',
     ''needs_revision'', ''failed'']"

definition validate_node_result_report :: "json \<Rightarrow> validation_issue list" where
  "validate_node_result_report v =
     (if \<not> is_record v then issue ''$'' ''enterprise_contract_validation_failed'' ''NodeResultReport must be an object.''
      else validate_schema_version v ''$''
        @ validate_required_string v ''resultReportId'' ''$''
        @ validate_required_string v ''topologyRunId'' ''$''
        @ validate_required_string v ''nodeRunId'' ''$''
        @ validate_required_string v ''workOrderId'' ''$''
        @ validate_required_string v ''nodeId'' ''$''
        @ (if is_one_of (jget v ''status'') node_result_statuses then []
           else issue ''$.status'' ''invalid_runtime_state'' ''Unsupported node result status.'')
        @ (if jget v ''status'' = JStr ''failed'' \<and> \<not> is_non_blank_string (jget v ''failureReportId'')
           then issue ''$.failureReportId'' ''final_failure_without_failure_report''
             ''Final failed reports require a FailureReport id.''
           else [])
        @ (if is_array (jget v ''outputs'') then []
           else issue ''$.outputs'' ''missing_required_field'' ''outputs must be an array.'')
        @ validate_string_array (jget v ''unmetSuccessCriteriaIds'') ''$.unmetSuccessCriteriaIds''
        @ validate_string_array (jget v ''risksOrGaps'') ''$.risksOrGaps''
        @ validate_timestamp v ''createdAt'' ''$'')"

definition exhaustion_flags :: "string list" where
  "exhaustion_flags = [''selfExecutionAttempted'', ''childDelegationAttempted'', ''toolExecutionAttempted'',
     ''retryAttempted'', ''fallbackAttempted'', ''partialSuccessChecked'', ''parentRecoveryPossibleChecked'',
     ''successCriteriaStillNotMet'', ''complete'']"

definition validate_exhaustion_summary :: "json \<Rightarrow> string \<Rightarrow> validation_issue list" where
  "validate_exhaustion_summary v path = with_required_record v path ''missing_exhaustion_summary''
     (concat (map (\<lambda>k. validate_required_boolean v k path) exhaustion_flags))"

definition failure_issue_kinds :: "string list" where
  "failure_issue_kinds = [''success_criteria_unmet'', ''runtime_risk'', ''execution_incomplete'',
     ''permission_or_tool_blocked'', ''unknown'']"

definition failure_recovery_action_kinds :: "string list" where
  "failure_recovery_action_kinds = [''retry'', ''delegate_to_next_executor'', ''add_tool_permission'',
     ''add_fallback_path'', ''pass_partial_result'', ''return_to_parent'', ''review_trace'', ''none'']"

definition failure_next_action_kinds :: "string list" where
  "failure_next_action_kinds = [''add_permission'', ''pass_partial'', ''add_fallback'', ''revise_description'',
     ''review_trace'', ''user_review'']"

definition validate_failure_report :: "json \<Rightarrow> validation_issue list" where
  "validate_failure_report v =
     (if \<not> is_record v then issue ''$'' ''enterprise_contract_validation_failed'' ''FailureReport must be an object.''
      else validate_schema_version v ''$''
        @ validate_required_string v ''failureReportId'' ''$''
        @ validate_required_string v ''topologyRunId'' ''$''
        @ validate_required_string v ''nodeRunId'' ''$''
        @ validate_required_string v ''workOrderId'' ''$''
        @ validate_required_string v ''nodeId'' ''$''
        @ validate_exhaustion_summary (jget v ''exhaustionSummary'') ''$.exhaustionSummary''
        @ (if is_array (jget v ''attempts'') then []
           else issue ''$.attempts'' ''missing_required_field'' ''attempts must be an array.'')
        @ validate_string_array (jget v ''untriedOptions'') ''$.untriedOptions''
        @ validate_optional_enum_string v ''issueKind'' failure_issue_kinds ''$''
        @ validate_optional_enum_string v ''recoveryActionKind'' failure_recovery_action_kinds ''$''
        @ validate_optional_enum_string v ''nextActionKind'' failure_next_action_kinds ''$''
        @ validate_required_string v ''recommendedAction'' ''$''
        @ validate_timestamp v ''createdAt'' ''$'')"

definition trace_linkage_missing :: "json \<Rightarrow> string \<Rightarrow> bool" where
  "trace_linkage_missing v field =
     (if field = ''delegationPath'' then \<not> is_array (jget v field)
      else \<not> is_non_blank_string (jget v field))"

definition validate_trace_event :: "json \<Rightarrow> validation_issue list" where
  "validate_trace_event v =
     (if \<not> is_record v then issue ''$'' ''enterprise_contract_validation_failed'' ''TraceEvent must be an object.''
      else validate_schema_version v ''$''
        @ validate_required_string v ''traceEventId'' ''$''
        @ validate_required_string v ''topologyRunId'' ''$''
        @ validate_required_string v ''nodeRunId'' ''$''
        @ validate_required_string v ''workOrderId'' ''$''
        @ validate_string_array (jget v ''delegationPath'') ''$.delegationPath''
        @ validate_required_string v ''phase'' ''$''
        @ validate_required_string v ''component'' ''$''
        @ validate_timestamp v ''at'' ''$''
        @ validate_required_string v ''reasonCode'' ''$''
        @ concat (map (\<lambda>field. if trace_linkage_missing v field
            then issue (''$.'' @ field) ''missing_trace_linkage''
              ''TraceEvent must include topology, node, work order, and path linkage.''
            else []) [''topologyRunId'', ''nodeRunId'', ''workOrderId'', ''delegationPath'']))"

section \<open>Typed values as objects\<close>

fun json_of_timestamp :: "timestamp \<Rightarrow> json" where
  "json_of_timestamp (TNum n) = JNum n"
| "json_of_timestamp (TStr s) = JStr s"

definition json_of_strings :: "string list \<Rightarrow> json" where
  "json_of_strings xs = JArr (map JStr xs)"

fun opt_member :: "string \<Rightarrow> json \<Rightarrow> (string \<times> json) list" where
  "opt_member k JUndef = []"
| "opt_member k v = [(k, v)]"

definition json_of_ref :: "entity_ref \<Rightarrow> json" where
  "json_of_ref r = JObj [(''entityType'', JStr (entity_type_text (er_entityType r))), (''id'', JStr (er_id r))]"

definition json_of_target :: "work_order_target \<Rightarrow> json" where
  "json_of_target t = JObj [(''type'', JStr (target_type_text (wt_type t))), (''id'', JStr (wt_id t))]"

definition json_of_scope :: "work_order_scope \<Rightarrow> json" where
  "json_of_scope sc = JObj [(''included'', json_of_strings (sc_included sc)), (''excluded'', json_of_strings (sc_excluded sc))]"

definition json_of_criterion :: "success_criterion \<Rightarrow> json" where
  "json_of_criterion c = JObj ([(''criterionId'', JStr (cr_criterionId c)), (''description'', JStr (cr_description c)),
     (''required'', JBool (cr_required c)), (''validationKind'', JStr (validation_kind_text (cr_validationKind c)))]
     @ opt_member ''metadata'' (cr_metadata c))"

fun risk_level_text :: "risk_level \<Rightarrow> string" where
  "risk_level_text RL_low = ''low''"
| "risk_level_text RL_medium = ''medium''"
| "risk_level_text RL_high = ''high''"
| "risk_level_text RL_critical = ''critical''"
| "risk_level_text RL_unknown = ''unknown''"

definition json_of_permission_scope :: "permission_scope \<Rightarrow> json" where
  "json_of_permission_scope ps = JObj ([(''allowedToolIds'', json_of_strings (ps_allowedToolIds ps)),
     (''allowedSystemIds'', json_of_strings (ps_allowedSystemIds ps)),
     (''dataDomainIds'', json_of_strings (ps_dataDomainIds ps))]
     @ (case ps_riskLevel ps of None \<Rightarrow> [] | Some r \<Rightarrow> [(''riskLevel'', JStr (risk_level_text r))]))"

definition json_of_authority_scope :: "authority_scope \<Rightarrow> json" where
  "json_of_authority_scope a = JObj ([(''requiredAuthorityRuleIds'', json_of_strings (as_requiredAuthorityRuleIds a)),
     (''approvalRequired'', JBool (as_approvalRequired a))]
     @ (case as_approvedBy a of None \<Rightarrow> [] | Some rs \<Rightarrow> [(''approvedBy'', JArr (map json_of_ref rs))]))"

definition json_of_work_order :: "work_order \<Rightarrow> json" where
  "json_of_work_order wo = JObj [
     (''schemaVersion'', JNum (Fin 1)),
     (''workOrderId'', JStr (wo_workOrderId wo)),
     (''topologyRunId'', JStr (wo_topologyRunId wo)),
     (''parentWorkOrderId'', case wo_parentWorkOrderId wo of None \<Rightarrow> JNull | Some p \<Rightarrow> JStr p),
     (''fromNodeId'', JStr (wo_fromNodeId wo)),
     (''to'', json_of_target (wo_to wo)),
     (''objective'', JStr (wo_objective wo)),
     (''scope'', json_of_scope (wo_scope wo)),
     (''input'', wo_input wo),
     (''expectedOutputSchema'', wo_expectedOutputSchema wo),
     (''successCriteria'', JArr (map json_of_criterion (wo_successCriteria wo))),
     (''permissionScope'', json_of_permission_scope (wo_permissionScope wo)),
     (''authorityScope'', json_of_authority_scope (wo_authorityScope wo)),
     (''failureReportRequired'', JBool (wo_failureReportRequired wo)),
     (''delegationPath'', json_of_strings (wo_delegationPath wo)),
     (''createdAt'', json_of_timestamp (wo_createdAt wo))]"

definition json_of_output :: "node_output \<Rightarrow> json" where
  "json_of_output ou = JObj ([(''outputId'', JStr (ou_outputId ou)), (''status'', JStr (output_status_text (ou_status ou)))]
     @ opt_member ''value'' (ou_value ou))"

definition json_of_result_report :: "node_result_report \<Rightarrow> json" where
  "json_of_result_report r = JObj ([
     (''schemaVersion'', JNum (Fin 1)),
     (''resultReportId'', JStr (nr_resultReportId r)),
     (''topologyRunId'', JStr (nr_topologyRunId r)),
     (''nodeRunId'', JStr (nr_nodeRunId r)),
     (''workOrderId'', JStr (nr_workOrderId r)),
     (''nodeId'', JStr (nr_nodeId r)),
     (''status'', JStr (result_status_text (nr_status r))),
     (''outputs'', JArr (map json_of_output (nr_outputs r))),
     (''unmetSuccessCriteriaIds'', json_of_strings (nr_unmetSuccessCriteriaIds r)),
     (''risksOrGaps'', json_of_strings (nr_risksOrGaps r))]
     @ opt_member ''partialResult'' (nr_partialResult r)
     @ (case nr_failureReportId r of None \<Rightarrow> [] | Some f \<Rightarrow> [(''failureReportId'', JStr f)])
     @ [(''createdAt'', json_of_timestamp (nr_createdAt r))])"

section \<open>What the validators accept\<close>

definition timestamp_ok :: "timestamp \<Rightarrow> bool" where
  "timestamp_ok t = (case t of TNum n \<Rightarrow> js_is_finite n | TStr s \<Rightarrow> non_blank s)"

lemma timestamp_json [simp]:
  "is_finite_number (json_of_timestamp t) \<or> is_non_blank_string (json_of_timestamp t) \<longleftrightarrow> timestamp_ok t"
  by (cases t) (auto simp: timestamp_ok_def)

lemma is_string_array_strings [simp]: "is_string_array (json_of_strings xs)"
  by (simp add: json_of_strings_def list_all_iff)

lemma validate_string_array_strings [simp]: "validate_string_array (json_of_strings xs) p = []"
  by (simp add: validate_string_array_def)

lemma validate_required_string_Nil [simp]:
  "validate_required_string r k p = [] \<longleftrightarrow> is_non_blank_string (jget r k)"
  by (simp add: validate_required_string_def)

lemma validate_required_boolean_Nil [simp]:
  "validate_required_boolean r k p = [] \<longleftrightarrow> is_boolean (jget r k)"
  by (simp add: validate_required_boolean_def)

lemma validate_timestamp_Nil [simp]:
  "validate_timestamp r k p = [] \<longleftrightarrow> is_finite_number (jget r k) \<or> is_non_blank_string (jget r k)"
  by (simp add: validate_timestamp_def)

lemma validate_string_array_Nil [simp]:
  "validate_string_array v p = [] \<longleftrightarrow> is_string_array v"
  by (simp add: validate_string_array_def)

lemma with_required_record_Nil [simp]:
  "with_required_record v p c rest = [] \<longleftrightarrow> is_record v \<and> rest = []"
  by (simp add: with_required_record_def)

lemma jget_member: "jget (JObj ((k, v) # m)) k' = (if k' = k then v else jget (JObj m) k')"
  by (simp add: js_lookup_def)

lemma jget_empty: "jget (JObj []) k = JUndef"
  by (simp add: js_lookup_def)

lemma target_type_text_non_blank [simp]: "non_blank (target_type_text t)"
  by (cases t) (simp_all add: non_blank_def js_trim_def js_ws_def)

lemma validation_kind_text_non_blank [simp]: "non_blank (validation_kind_text t)"
  by (cases t) (simp_all add: non_blank_def js_trim_def js_ws_def)

lemma validate_target_json [simp]:
  "validate_work_order_target (json_of_target t) p = [] \<longleftrightarrow> non_blank (wt_id t)"
  by (simp add: validate_work_order_target_def json_of_target_def jget_member del: jget.simps)

lemma validate_permission_json [simp]: "validate_permission_scope (json_of_permission_scope ps) p = []"
  by (simp add: validate_permission_scope_def json_of_permission_scope_def jget_member del: jget.simps)

lemma validate_authority_json [simp]: "validate_authority_scope (json_of_authority_scope a) p = []"
  by (simp add: validate_authority_scope_def json_of_authority_scope_def jget_member del: jget.simps)

definition criterion_ok :: "success_criterion \<Rightarrow> bool" where
  "criterion_ok c \<longleftrightarrow> non_blank (cr_criterionId c) \<and> non_blank (cr_description c)"

lemma validate_criterion_json [simp]: "validate_criterion (json_of_criterion c) p = [] \<longleftrightarrow> criterion_ok c"
  by (simp add: validate_criterion_def json_of_criterion_def jget_member criterion_ok_def del: jget.simps)

lemma concat_map_enumerate_Nil:
  "(\<And>i x. f i x = [] \<longleftrightarrow> P x) \<Longrightarrow>
   concat (map (\<lambda>ix. f (fst ix) (snd ix)) (enumerate n xs)) = [] \<longleftrightarrow> (\<forall>x \<in> set xs. P x)"
  by (induction xs arbitrary: n) auto

lemma validate_criteria_json [simp]:
  "validate_success_criteria (JArr (map json_of_criterion cs)) p = [] \<longleftrightarrow> cs \<noteq> [] \<and> (\<forall>c \<in> set cs. criterion_ok c)"
proof (cases cs)
  case (Cons c cs')
  have "validate_success_criteria (JArr (map json_of_criterion cs)) p =
    concat (map (\<lambda>ix. validate_criterion (snd ix) (index_path p (fst ix))) (enumerate 0 (map json_of_criterion cs)))"
    by (simp add: Cons validate_success_criteria_def)
  also have "\<dots> = [] \<longleftrightarrow> (\<forall>x \<in> set (map json_of_criterion cs). validate_criterion x [] = [])"
    by (rule concat_map_enumerate_Nil) (simp add: validate_criterion_def)
  finally show ?thesis using Cons by auto
qed (simp add: validate_success_criteria_def)

lemma work_order_json:
  "is_record (json_of_work_order wo)"
  "jget (json_of_work_order wo) ''schemaVersion'' = JNum (Fin 1)"
  "jget (json_of_work_order wo) ''workOrderId'' = JStr (wo_workOrderId wo)"
  "jget (json_of_work_order wo) ''topologyRunId'' = JStr (wo_topologyRunId wo)"
  "jget (json_of_work_order wo) ''fromNodeId'' = JStr (wo_fromNodeId wo)"
  "jget (json_of_work_order wo) ''to'' = json_of_target (wo_to wo)"
  "jget (json_of_work_order wo) ''objective'' = JStr (wo_objective wo)"
  "jget (json_of_work_order wo) ''scope'' = json_of_scope (wo_scope wo)"
  "jget (json_of_work_order wo) ''input'' = wo_input wo"
  "jget (json_of_work_order wo) ''expectedOutputSchema'' = wo_expectedOutputSchema wo"
  "jget (json_of_work_order wo) ''successCriteria'' = JArr (map json_of_criterion (wo_successCriteria wo))"
  "jget (json_of_work_order wo) ''permissionScope'' = json_of_permission_scope (wo_permissionScope wo)"
  "jget (json_of_work_order wo) ''authorityScope'' = json_of_authority_scope (wo_authorityScope wo)"
  "jget (json_of_work_order wo) ''failureReportRequired'' = JBool (wo_failureReportRequired wo)"
  "jget (json_of_work_order wo) ''delegationPath'' = json_of_strings (wo_delegationPath wo)"
  "jget (json_of_work_order wo) ''createdAt'' = json_of_timestamp (wo_createdAt wo)"
  by (simp_all add: json_of_work_order_def jget_member del: jget.simps)

lemma json_of_scope_json:
  "is_record (json_of_scope sc)"
  "jget (json_of_scope sc) ''included'' = json_of_strings (sc_included sc)"
  "jget (json_of_scope sc) ''excluded'' = json_of_strings (sc_excluded sc)"
  by (simp_all add: json_of_scope_def jget_member del: jget.simps)

lemma result_report_json:
  "is_record (json_of_result_report r)"
  "jget (json_of_result_report r) ''schemaVersion'' = JNum (Fin 1)"
  "jget (json_of_result_report r) ''resultReportId'' = JStr (nr_resultReportId r)"
  "jget (json_of_result_report r) ''topologyRunId'' = JStr (nr_topologyRunId r)"
  "jget (json_of_result_report r) ''nodeRunId'' = JStr (nr_nodeRunId r)"
  "jget (json_of_result_report r) ''workOrderId'' = JStr (nr_workOrderId r)"
  "jget (json_of_result_report r) ''nodeId'' = JStr (nr_nodeId r)"
  "jget (json_of_result_report r) ''status'' = JStr (result_status_text (nr_status r))"
  "jget (json_of_result_report r) ''outputs'' = JArr (map json_of_output (nr_outputs r))"
  "jget (json_of_result_report r) ''unmetSuccessCriteriaIds'' = json_of_strings (nr_unmetSuccessCriteriaIds r)"
  "jget (json_of_result_report r) ''risksOrGaps'' = json_of_strings (nr_risksOrGaps r)"
  by (simp_all add: json_of_result_report_def jget_member del: jget.simps)

lemma jget_opt_member: "jget (JObj (opt_member k v @ m)) k' = (if k' = k \<and> v \<noteq> JUndef then v else jget (JObj m) k')"
  by (cases v) (simp_all add: jget_member del: jget.simps)

lemma result_report_json_late:
  "jget (json_of_result_report r) ''failureReportId'' =
     (case nr_failureReportId r of None \<Rightarrow> JUndef | Some f \<Rightarrow> JStr f)"
  "jget (json_of_result_report r) ''createdAt'' = json_of_timestamp (nr_createdAt r)"
  by (simp_all add: json_of_result_report_def jget_member jget_opt_member jget_empty del: jget.simps split: option.split)

lemma result_status_text_mem: "result_status_text t \<in> set node_result_statuses"
  by (cases t) (simp_all add: node_result_statuses_def)

lemma result_status_text_failed: "result_status_text t = ''failed'' \<longleftrightarrow> t = RS_failed"
  by (cases t) simp_all

lemma validate_result_report_iff:
  "validate_node_result_report (json_of_result_report r) = [] \<longleftrightarrow>
   non_blank (nr_resultReportId r) \<and> non_blank (nr_topologyRunId r) \<and> non_blank (nr_nodeRunId r)
   \<and> non_blank (nr_workOrderId r) \<and> non_blank (nr_nodeId r)
   \<and> (nr_status r = RS_failed \<longrightarrow> (\<exists>f. nr_failureReportId r = Some f \<and> non_blank f))
   \<and> timestamp_ok (nr_createdAt r)"
  by (auto simp add: validate_node_result_report_def result_report_json result_report_json_late
      validate_schema_version_def result_status_text_mem result_status_text_failed simp del: jget.simps
      split: option.splits)

text \<open>What makes a typed work order acceptable.\<close>

definition work_order_ok :: "work_order \<Rightarrow> bool" where
  "work_order_ok wo \<longleftrightarrow> non_blank (wo_workOrderId wo) \<and> non_blank (wo_topologyRunId wo)
     \<and> non_blank (wo_fromNodeId wo) \<and> non_blank (wt_id (wo_to wo)) \<and> non_blank (wo_objective wo)
     \<and> is_record (wo_input wo) \<and> is_record (wo_expectedOutputSchema wo)
     \<and> wo_successCriteria wo \<noteq> [] \<and> (\<forall>c \<in> set (wo_successCriteria wo). criterion_ok c)
     \<and> timestamp_ok (wo_createdAt wo)"

text \<open>
  C37: the runtime validator accepts a typed work order exactly when its identifiers, objective and
  criteria are non-blank, it has at least one criterion, its input and output schema are objects and
  its timestamp is a finite number or a non-blank string; every other field of a typed work order
  passes unconditionally.
\<close>

theorem validate_work_order_iff: "validate_work_order (json_of_work_order wo) = [] \<longleftrightarrow> work_order_ok wo"
  by (simp add: validate_work_order_def work_order_json validate_schema_version_def work_order_ok_def
      json_of_scope_json del: jget.simps)

text \<open>
  A result report that the validator accepts and whose status is \<open>failed\<close> names a failure
  report; every accepted report has non-blank identifiers.
\<close>

lemma accepted_failed_report_has_failure_report:
  assumes "validate_node_result_report v = []"
  shows "(jget v ''status'' = JStr ''failed'' \<longrightarrow>
      (\<exists>f. jget v ''failureReportId'' = JStr f \<and> non_blank f))
    \<and> (\<forall>k \<in> {''resultReportId'', ''topologyRunId'', ''nodeRunId'', ''workOrderId'', ''nodeId''}.
        \<exists>i. jget v k = JStr i \<and> non_blank i)"
proof -
  have nb: "is_non_blank_string j \<longleftrightarrow> (\<exists>i. j = JStr i \<and> non_blank i)" for j by (cases j) auto
  show ?thesis using assms
    by (simp add: validate_node_result_report_def nb split: if_splits)
qed

lemma accepted_failed_report_has_failure_report_witness:
  "\<exists>v. jget v ''status'' = JStr ''failed'' \<and> validate_node_result_report v = []
     \<and> (\<exists>f. jget v ''failureReportId'' = JStr f \<and> non_blank f)"
proof -
  let ?r = "\<lparr>nr_resultReportId = ''r'', nr_topologyRunId = ''t'', nr_nodeRunId = ''n'', nr_workOrderId = ''w'',
    nr_nodeId = ''x'', nr_status = RS_failed, nr_outputs = [], nr_unmetSuccessCriteriaIds = [],
    nr_risksOrGaps = [], nr_partialResult = JUndef, nr_failureReportId = Some ''f'', nr_createdAt = TNum (Fin 0)\<rparr>"
  have nb: "non_blank [c]" if "\<not> js_ws c" for c using that by (simp add: non_blank_iff)
  have v: "validate_node_result_report (json_of_result_report ?r) = []" "jget (json_of_result_report ?r) ''status'' = JStr ''failed''"
    by (simp_all add: validate_result_report_iff result_report_json nb js_ws_def timestamp_ok_def del: jget.simps)
  note f = accepted_failed_report_has_failure_report[OF v(1), THEN conjunct1, rule_format, OF v(2)]
  show ?thesis
    by (rule exI[of _ "json_of_result_report ?r"], intro conjI v f)
qed

end
