(* ===== verification/Command_Contract.thy ===== *)
theory Command_Contract
  imports Contract_Validation
begin

text \<open>
  The part of \<open>contracts/sub-agent-orchestration.ts\<close> the topology runtime talks to: runtime
  identities, expected outputs, command requests, capability policies and legacy result reports,
  with the validator of command requests. As in \<open>Contract_Validation\<close>, a check returns the issues
  it would append; here every issue has the code \<open>contract_validation_failed\<close>.
\<close>

section \<open>Data\<close>

datatype owner_type = OW_nobie | OW_sub_agent | OW_team | OW_system

fun owner_type_text :: "owner_type \<Rightarrow> string" where
  "owner_type_text OW_nobie = ''nobie''"
| "owner_type_text OW_sub_agent = ''sub_agent''"
| "owner_type_text OW_team = ''team''"
| "owner_type_text OW_system = ''system''"

datatype relationship_entity = RE_nobie | RE_sub_agent | RE_team | RE_session | RE_sub_session
  | RE_capability | RE_data_exchange

fun relationship_entity_text :: "relationship_entity \<Rightarrow> string" where
  "relationship_entity_text RE_nobie = ''nobie''"
| "relationship_entity_text RE_sub_agent = ''sub_agent''"
| "relationship_entity_text RE_team = ''team''"
| "relationship_entity_text RE_session = ''session''"
| "relationship_entity_text RE_sub_session = ''sub_session''"
| "relationship_entity_text RE_capability = ''capability''"
| "relationship_entity_text RE_data_exchange = ''data_exchange''"

record owner_scope =
  os_ownerType :: owner_type
  os_ownerId :: string

record parent_linkage =
  pl_parentRunId :: "string option"
  pl_parentSessionId :: "string option"
  pl_parentSubSessionId :: "string option"
  pl_parentRequestId :: "string option"

record runtime_identity =
  id_entityType :: relationship_entity
  id_entityId :: string
  id_owner :: owner_scope
  id_idempotencyKey :: string
  id_auditCorrelationId :: "string option"
  id_parent :: "parent_linkage option"

datatype output_kind = OK_text | OK_artifact | OK_tool_result | OK_data_package | OK_state_change

fun output_kind_text :: "output_kind \<Rightarrow> string" where
  "output_kind_text OK_text = ''text''"
| "output_kind_text OK_artifact = ''artifact''"
| "output_kind_text OK_tool_result = ''tool_result''"
| "output_kind_text OK_data_package = ''data_package''"
| "output_kind_text OK_state_change = ''state_change''"

record acceptance =
  ac_statusField :: "string option"
  ac_requiredEvidenceKinds :: "string list"
  ac_artifactRequired :: bool
  ac_reasonCodes :: "string list"

record expected_output =
  eo_outputId :: string
  eo_kind :: output_kind
  eo_description :: string
  eo_required :: bool
  eo_acceptance :: acceptance

record task_scope =
  sk_goal :: string
  sk_intentType :: string
  sk_actionType :: string
  sk_constraints :: "string list"
  sk_expectedOutputs :: "expected_output list"
  sk_reasonCodes :: "string list"

record topology_executor =
  tx_graphExecutionPlanId :: string
  tx_executorId :: "string option"
  tx_edgeId :: "string option"
  tx_systemPreparation :: "bool option"

record command_request =
  cq_identity :: runtime_identity
  cq_commandRequestId :: string
  cq_parentRunId :: string
  cq_subSessionId :: string
  cq_targetAgentId :: string
  cq_targetNicknameSnapshot :: "string option"
  cq_topologyExecutor :: "topology_executor option"
  cq_taskScope :: task_scope
  cq_contextPackageIds :: "string list"
  cq_expectedOutputs :: "expected_output list"

datatype capability_risk = CR_safe | CR_moderate | CR_external | CR_sensitive | CR_dangerous

record permission_profile =
  pp_profileId :: string
  pp_riskCeiling :: capability_risk
  pp_approvalRequiredFrom :: capability_risk
  pp_allowExternalNetwork :: bool
  pp_allowFilesystemWrite :: bool
  pp_allowShellExecution :: bool
  pp_allowScreenControl :: bool
  pp_allowedPaths :: "string list"

record skill_mcp_allowlist =
  al_enabledSkillIds :: "string list"
  al_enabledMcpServerIds :: "string list"
  al_enabledToolNames :: "string list"
  al_disabledToolNames :: "string list"
  al_secretScopeId :: "string option"

record capability_policy =
  cap_permissionProfile :: permission_profile
  cap_skillMcpAllowlist :: skill_mcp_allowlist
  cap_maxConcurrentCalls :: jsnum
  cap_maxCallsPerMinute :: "jsnum option"

datatype legacy_status = LS_completed | LS_needs_revision | LS_failed

record legacy_evidence =
  lv_evidenceId :: string
  lv_kind :: string
  lv_sourceRef :: string
  lv_sourceTimestamp :: "string option"

record legacy_result_report =
  lr_identity :: runtime_identity
  lr_resultReportId :: string
  lr_parentRunId :: string
  lr_subSessionId :: string
  lr_status :: legacy_status
  lr_outputs :: "node_output list"
  lr_evidence :: "legacy_evidence list"
  lr_risksOrGaps :: "string list"

section \<open>Checks\<close>

definition add_issue :: "string \<Rightarrow> string \<Rightarrow> validation_issue list" where
  "add_issue path message = issue path ''contract_validation_failed'' message"

lemma add_issue_not_Nil [simp]: "add_issue p m \<noteq> []"
  by (simp add: add_issue_def)

definition has_non_empty_string :: "json \<Rightarrow> string \<Rightarrow> string \<Rightarrow> validation_issue list" where
  "has_non_empty_string r k path =
     (if is_non_blank_string (jget r k) then []
      else add_issue (path @ ''.'' @ k) (k @ '' must be a non-empty string.''))"

text \<open>\<open>value.trim().replace(/\s+/gu, " ")\<close>, then \<open>toLowerCase\<close> on ASCII letters.\<close>

function collapse_ws :: "string \<Rightarrow> string" where
  "collapse_ws [] = []"
| "collapse_ws (c # cs) =
     (if js_ws c then CHR '' '' # collapse_ws (dropWhile js_ws cs) else c # collapse_ws cs)"
  by pat_completeness auto
termination
  by (relation "measure length") (auto simp: less_Suc_eq_le length_dropWhile_le)

definition collapse_nickname_whitespace :: "string \<Rightarrow> string" where
  "collapse_nickname_whitespace s = collapse_ws (js_trim s)"

definition lower_char :: "char \<Rightarrow> char" where
  "lower_char c = (let n = of_char c :: nat in if 65 \<le> n \<and> n \<le> 90 then char_of (n + 32) else c)"

definition normalize_nickname :: "string \<Rightarrow> string" where
  "normalize_nickname s = map lower_char (collapse_nickname_whitespace s)"

lemma normalize_nickname_Nil [simp]: "normalize_nickname s = [] \<longleftrightarrow> \<not> non_blank s"
  by (cases "js_trim s") (simp_all add: normalize_nickname_def collapse_nickname_whitespace_def non_blank_def)

fun is_non_empty_nickname :: "json \<Rightarrow> bool" where
  "is_non_empty_nickname (JStr s) = (normalize_nickname s \<noteq> [])"
| "is_non_empty_nickname _ = False"

definition has_non_empty_nickname :: "json \<Rightarrow> string \<Rightarrow> string \<Rightarrow> validation_issue list" where
  "has_non_empty_nickname r k path =
     (if is_non_empty_nickname (jget r k) then []
      else add_issue (path @ ''.'' @ k) (k @ '' must be a non-empty nickname.''))"

definition has_boolean :: "json \<Rightarrow> string \<Rightarrow> string \<Rightarrow> validation_issue list" where
  "has_boolean r k path =
     (if is_boolean (jget r k) then [] else add_issue (path @ ''.'' @ k) (k @ '' must be a boolean.''))"

text \<open>\<open>path.split(".").pop()\<close>\<close>

definition last_segment :: "string \<Rightarrow> string" where
  "last_segment path = rev (takeWhile (\<lambda>c. c \<noteq> CHR ''.'') (rev path))"

definition string_item_issues :: "bool \<Rightarrow> string \<Rightarrow> json \<Rightarrow> validation_issue list" where
  "string_item_issues requireNonEmptyItems path v =
     (if \<not> is_string v then add_issue path ''Array items must be strings.''
      else if requireNonEmptyItems \<and> \<not> is_non_blank_string v
        then add_issue path ''Array items must be non-empty strings.''
      else [])"

definition validate_contract_strings :: "bool \<Rightarrow> json \<Rightarrow> string \<Rightarrow> validation_issue list" where
  "validate_contract_strings requireNonEmptyItems v path =
     (case v of
        JArr xs \<Rightarrow> concat (map (\<lambda>ix. string_item_issues requireNonEmptyItems (index_path path (fst ix)) (snd ix))
          (enumerate 0 xs))
      | _ \<Rightarrow> add_issue path (last_segment path @ '' must be an array.''))"

definition owner_scope_types :: "string list" where
  "owner_scope_types = [''nobie'', ''sub_agent'', ''team'', ''system'']"

definition validate_owner_scope :: "json \<Rightarrow> string \<Rightarrow> validation_issue list" where
  "validate_owner_scope v path =
     (if \<not> is_record v then add_issue path ''owner scope must be an object.''
      else (if is_one_of (jget v ''ownerType'') owner_scope_types then []
            else add_issue (path @ ''.ownerType'') ''ownerType must be nobie, sub_agent, team, or system.'')
        @ has_non_empty_string v ''ownerId'' path)"

definition expected_output_kinds :: "string list" where
  "expected_output_kinds = [''text'', ''artifact'', ''tool_result'', ''data_package'', ''state_change'']"

definition validate_acceptance :: "json \<Rightarrow> string \<Rightarrow> validation_issue list" where
  "validate_acceptance v path =
     (if \<not> is_record v then add_issue (path @ ''.acceptance'') ''acceptance must be an object.''
      else (if has_key v ''statusField'' \<and> jget v ''statusField'' \<noteq> JUndef \<and> \<not> is_string (jget v ''statusField'')
            then add_issue (path @ ''.acceptance.statusField'') ''statusField must be a string when present.''
            else [])
        @ validate_contract_strings False (jget v ''requiredEvidenceKinds'')
            (path @ ''.acceptance.requiredEvidenceKinds'')
        @ (if is_boolean (jget v ''artifactRequired'') then []
           else add_issue (path @ ''.acceptance.artifactRequired'') ''artifactRequired must be a boolean.'')
        @ validate_contract_strings True (jget v ''reasonCodes'') (path @ ''.acceptance.reasonCodes''))"

definition validate_expected_output :: "json \<Rightarrow> string \<Rightarrow> validation_issue list" where
  "validate_expected_output v path =
     (if \<not> is_record v then add_issue path ''ExpectedOutputContract must be an object.''
      else has_non_empty_string v ''outputId'' path
        @ (if is_one_of (jget v ''kind'') expected_output_kinds then []
           else add_issue (path @ ''.kind'')
             ''kind must be text, artifact, tool_result, data_package, or state_change.'')
        @ has_non_empty_string v ''description'' path
        @ has_boolean v ''required'' path
        @ validate_acceptance (jget v ''acceptance'') path)"

definition validate_expected_outputs :: "json \<Rightarrow> string \<Rightarrow> validation_issue list" where
  "validate_expected_outputs v path =
     (case v of
        JArr xs \<Rightarrow> concat (map (\<lambda>ix. validate_expected_output (snd ix) (index_path path (fst ix))) (enumerate 0 xs))
      | _ \<Rightarrow> add_issue path ''expectedOutputs must be an array.'')"

definition validate_structured_task_scope :: "json \<Rightarrow> string \<Rightarrow> validation_issue list" where
  "validate_structured_task_scope v path =
     (if \<not> is_record v then add_issue path ''taskScope must be an object.''
      else has_non_empty_string v ''goal'' path
        @ has_non_empty_string v ''intentType'' path
        @ has_non_empty_string v ''actionType'' path
        @ validate_contract_strings False (jget v ''constraints'') (path @ ''.constraints'')
        @ validate_expected_outputs (jget v ''expectedOutputs'') (path @ ''.expectedOutputs'')
        @ validate_contract_strings True (jget v ''reasonCodes'') (path @ ''.reasonCodes''))"

definition relationship_entity_types :: "string list" where
  "relationship_entity_types = [''nobie'', ''sub_agent'', ''team'', ''session'', ''sub_session'',
     ''capability'', ''data_exchange'']"

definition validate_runtime_identity :: "json \<Rightarrow> string \<Rightarrow> validation_issue list" where
  "validate_runtime_identity v path =
     (if \<not> is_record v then add_issue path ''identity must be an object.''
      else (if jget v ''schemaVersion'' = JNum (Fin 1) then []
            else add_issue (path @ ''.schemaVersion'') ''Unsupported contract schema version.'')
        @ (if is_one_of (jget v ''entityType'') relationship_entity_types then []
           else add_issue (path @ ''.entityType'')
             ''entityType must be nobie, sub_agent, team, session, sub_session, capability, or data_exchange.'')
        @ has_non_empty_string v ''entityId'' path
        @ has_non_empty_string v ''idempotencyKey'' path
        @ validate_owner_scope (jget v ''owner'') (path @ ''.owner''))"

definition validate_command_request :: "json \<Rightarrow> validation_issue list" where
  "validate_command_request v =
     (if \<not> is_record v then add_issue ''$'' ''CommandRequest must be an object.''
      else validate_runtime_identity (jget v ''identity'') ''$.identity''
        @ has_non_empty_string v ''commandRequestId'' ''$''
        @ has_non_empty_string v ''parentRunId'' ''$''
        @ has_non_empty_string v ''subSessionId'' ''$''
        @ has_non_empty_string v ''targetAgentId'' ''$''
        @ (if has_key v ''targetNicknameSnapshot'' \<and> jget v ''targetNicknameSnapshot'' \<noteq> JUndef
           then has_non_empty_nickname v ''targetNicknameSnapshot'' ''$'' else [])
        @ validate_structured_task_scope (jget v ''taskScope'') ''$.taskScope''
        @ validate_contract_strings True (jget v ''contextPackageIds'') ''$.contextPackageIds''
        @ validate_expected_outputs (jget v ''expectedOutputs'') ''$.expectedOutputs'')"

section \<open>Typed values as objects\<close>

fun opt_string_member :: "string \<Rightarrow> string option \<Rightarrow> (string \<times> json) list" where
  "opt_string_member k None = []"
| "opt_string_member k (Some s) = [(k, JStr s)]"

definition json_of_owner :: "owner_scope \<Rightarrow> json" where
  "json_of_owner ow = JObj [(''ownerType'', JStr (owner_type_text (os_ownerType ow))), (''ownerId'', JStr (os_ownerId ow))]"

definition json_of_parent :: "parent_linkage \<Rightarrow> json" where
  "json_of_parent p = JObj (opt_string_member ''parentRunId'' (pl_parentRunId p)
     @ opt_string_member ''parentSessionId'' (pl_parentSessionId p)
     @ opt_string_member ''parentSubSessionId'' (pl_parentSubSessionId p)
     @ opt_string_member ''parentRequestId'' (pl_parentRequestId p))"

definition json_of_identity :: "runtime_identity \<Rightarrow> json" where
  "json_of_identity i = JObj ([(''schemaVersion'', JNum (Fin 1)),
     (''entityType'', JStr (relationship_entity_text (id_entityType i))),
     (''entityId'', JStr (id_entityId i)),
     (''owner'', json_of_owner (id_owner i)),
     (''idempotencyKey'', JStr (id_idempotencyKey i))]
     @ opt_string_member ''auditCorrelationId'' (id_auditCorrelationId i)
     @ (case id_parent i of None \<Rightarrow> [] | Some p \<Rightarrow> [(''parent'', json_of_parent p)]))"

definition json_of_acceptance :: "acceptance \<Rightarrow> json" where
  "json_of_acceptance a = JObj (opt_string_member ''statusField'' (ac_statusField a)
     @ [(''requiredEvidenceKinds'', json_of_strings (ac_requiredEvidenceKinds a)),
        (''artifactRequired'', JBool (ac_artifactRequired a)),
        (''reasonCodes'', json_of_strings (ac_reasonCodes a))])"

definition json_of_expected_output :: "expected_output \<Rightarrow> json" where
  "json_of_expected_output e = JObj [(''outputId'', JStr (eo_outputId e)),
     (''kind'', JStr (output_kind_text (eo_kind e))),
     (''description'', JStr (eo_description e)),
     (''required'', JBool (eo_required e)),
     (''acceptance'', json_of_acceptance (eo_acceptance e))]"

definition json_of_task_scope :: "task_scope \<Rightarrow> json" where
  "json_of_task_scope k = JObj [(''goal'', JStr (sk_goal k)),
     (''intentType'', JStr (sk_intentType k)),
     (''actionType'', JStr (sk_actionType k)),
     (''constraints'', json_of_strings (sk_constraints k)),
     (''expectedOutputs'', JArr (map json_of_expected_output (sk_expectedOutputs k))),
     (''reasonCodes'', json_of_strings (sk_reasonCodes k))]"

definition json_of_executor :: "topology_executor \<Rightarrow> json" where
  "json_of_executor x = JObj ([(''graphExecutionPlanId'', JStr (tx_graphExecutionPlanId x))]
     @ opt_string_member ''executorId'' (tx_executorId x)
     @ opt_string_member ''edgeId'' (tx_edgeId x)
     @ (case tx_systemPreparation x of None \<Rightarrow> [] | Some b \<Rightarrow> [(''systemPreparation'', JBool b)]))"

definition json_of_command :: "command_request \<Rightarrow> json" where
  "json_of_command c = JObj ([(''identity'', json_of_identity (cq_identity c)),
     (''commandRequestId'', JStr (cq_commandRequestId c)),
     (''parentRunId'', JStr (cq_parentRunId c)),
     (''subSessionId'', JStr (cq_subSessionId c)),
     (''targetAgentId'', JStr (cq_targetAgentId c)),
     (''taskScope'', json_of_task_scope (cq_taskScope c)),
     (''contextPackageIds'', json_of_strings (cq_contextPackageIds c)),
     (''expectedOutputs'', JArr (map json_of_expected_output (cq_expectedOutputs c)))]
     @ opt_string_member ''targetNicknameSnapshot'' (cq_targetNicknameSnapshot c)
     @ (case cq_topologyExecutor c of None \<Rightarrow> [] | Some x \<Rightarrow> [(''topologyExecutor'', json_of_executor x)]))"

section \<open>What the validator accepts\<close>

lemma has_non_empty_string_Nil [simp]: "has_non_empty_string r k p = [] \<longleftrightarrow> is_non_blank_string (jget r k)"
  by (simp add: has_non_empty_string_def)

lemma has_boolean_Nil [simp]: "has_boolean r k p = [] \<longleftrightarrow> is_boolean (jget r k)"
  by (simp add: has_boolean_def)

lemma validate_contract_strings_json [simp]:
  "validate_contract_strings b (json_of_strings xs) p = [] \<longleftrightarrow> (b \<longrightarrow> (\<forall>x \<in> set xs. non_blank x))"
proof -
  have "validate_contract_strings b (json_of_strings xs) p =
    concat (map (\<lambda>ix. string_item_issues b (index_path p (fst ix)) (snd ix)) (enumerate 0 (map JStr xs)))"
    by (simp add: validate_contract_strings_def json_of_strings_def)
  also have "\<dots> = [] \<longleftrightarrow> (\<forall>v \<in> set (map JStr xs). string_item_issues b [] v = [])"
    by (rule concat_map_enumerate_Nil[where f = "\<lambda>i v. string_item_issues b (index_path p i) v"])
      (simp add: string_item_issues_def)
  finally show ?thesis by (auto simp: string_item_issues_def)
qed

lemma owner_type_text_mem [simp]: "owner_type_text t \<in> set owner_scope_types"
  by (cases t) (simp_all add: owner_scope_types_def)

lemma relationship_entity_text_mem [simp]: "relationship_entity_text t \<in> set relationship_entity_types"
  by (cases t) (simp_all add: relationship_entity_types_def)

lemma output_kind_text_mem [simp]: "output_kind_text t \<in> set expected_output_kinds"
  by (cases t) (simp_all add: expected_output_kinds_def)

lemma validate_owner_json [simp]:
  "validate_owner_scope (json_of_owner ow) p = [] \<longleftrightarrow> non_blank (os_ownerId ow)"
  by (simp add: validate_owner_scope_def json_of_owner_def jget_member del: jget.simps)

definition identity_ok :: "runtime_identity \<Rightarrow> bool" where
  "identity_ok i \<longleftrightarrow> non_blank (id_entityId i) \<and> non_blank (id_idempotencyKey i) \<and> non_blank (os_ownerId (id_owner i))"

lemma validate_identity_json [simp]:
  "validate_runtime_identity (json_of_identity i) p = [] \<longleftrightarrow> identity_ok i"
  by (simp add: validate_runtime_identity_def json_of_identity_def jget_member identity_ok_def del: jget.simps)

definition expected_output_ok :: "expected_output \<Rightarrow> bool" where
  "expected_output_ok e \<longleftrightarrow> non_blank (eo_outputId e) \<and> non_blank (eo_description e)
     \<and> (\<forall>r \<in> set (ac_reasonCodes (eo_acceptance e)). non_blank r)"

lemma jget_opt_string_member:
  "jget (JObj (opt_string_member k v @ m)) k' =
   (if k' = k then (case v of None \<Rightarrow> jget (JObj m) k' | Some s \<Rightarrow> JStr s) else jget (JObj m) k')"
  by (cases v) (simp_all add: jget_member del: jget.simps)

lemma validate_acceptance_json [simp]:
  "validate_acceptance (json_of_acceptance a) p = [] \<longleftrightarrow> (\<forall>r \<in> set (ac_reasonCodes a). non_blank r)"
proof -
  have "is_string (jget (json_of_acceptance a) ''statusField'') \<or> jget (json_of_acceptance a) ''statusField'' = JUndef"
    by (cases "ac_statusField a")
      (simp_all add: json_of_acceptance_def jget_opt_string_member jget_member jget_empty del: jget.simps)
  then show ?thesis
    by (auto simp: validate_acceptance_def json_of_acceptance_def jget_opt_string_member jget_member simp del: jget.simps)
qed

lemma validate_expected_output_json [simp]:
  "validate_expected_output (json_of_expected_output e) p = [] \<longleftrightarrow> expected_output_ok e"
  by (simp add: validate_expected_output_def json_of_expected_output_def jget_member expected_output_ok_def
      del: jget.simps)

lemma concat_map_enumerate_map_Nil:
  "(\<And>i x. f i (g x) = [] \<longleftrightarrow> P x) \<Longrightarrow>
   concat (map (\<lambda>ix. f (fst ix) (snd ix)) (enumerate n (map g xs))) = [] \<longleftrightarrow> (\<forall>x \<in> set xs. P x)"
  by (induction xs arbitrary: n) auto

lemma validate_expected_outputs_json [simp]:
  "validate_expected_outputs (JArr (map json_of_expected_output es)) p = [] \<longleftrightarrow> (\<forall>e \<in> set es. expected_output_ok e)"
proof -
  have "concat (map (\<lambda>ix. validate_expected_output (snd ix) (index_path p (fst ix)))
      (enumerate 0 (map json_of_expected_output es))) = [] \<longleftrightarrow> (\<forall>e \<in> set es. expected_output_ok e)"
    by (rule concat_map_enumerate_map_Nil[where f = "\<lambda>i v. validate_expected_output v (index_path p i)"]) simp
  then show ?thesis by (simp add: validate_expected_outputs_def)
qed

definition task_scope_ok :: "task_scope \<Rightarrow> bool" where
  "task_scope_ok k \<longleftrightarrow> non_blank (sk_goal k) \<and> non_blank (sk_intentType k) \<and> non_blank (sk_actionType k)
     \<and> (\<forall>e \<in> set (sk_expectedOutputs k). expected_output_ok e) \<and> (\<forall>r \<in> set (sk_reasonCodes k). non_blank r)"

lemma validate_task_scope_json [simp]:
  "validate_structured_task_scope (json_of_task_scope k) p = [] \<longleftrightarrow> task_scope_ok k"
  by (simp add: validate_structured_task_scope_def json_of_task_scope_def jget_member task_scope_ok_def
      del: jget.simps)

definition command_ok :: "command_request \<Rightarrow> bool" where
  "command_ok c \<longleftrightarrow> identity_ok (cq_identity c) \<and> non_blank (cq_commandRequestId c) \<and> non_blank (cq_parentRunId c)
     \<and> non_blank (cq_subSessionId c) \<and> non_blank (cq_targetAgentId c)
     \<and> (\<forall>n. cq_targetNicknameSnapshot c = Some n \<longrightarrow> non_blank n)
     \<and> task_scope_ok (cq_taskScope c) \<and> (\<forall>i \<in> set (cq_contextPackageIds c). non_blank i)
     \<and> (\<forall>e \<in> set (cq_expectedOutputs c). expected_output_ok e)"

lemma command_json:
  "is_record (json_of_command c)"
  "jget (json_of_command c) ''identity'' = json_of_identity (cq_identity c)"
  "jget (json_of_command c) ''commandRequestId'' = JStr (cq_commandRequestId c)"
  "jget (json_of_command c) ''parentRunId'' = JStr (cq_parentRunId c)"
  "jget (json_of_command c) ''subSessionId'' = JStr (cq_subSessionId c)"
  "jget (json_of_command c) ''targetAgentId'' = JStr (cq_targetAgentId c)"
  "jget (json_of_command c) ''taskScope'' = json_of_task_scope (cq_taskScope c)"
  "jget (json_of_command c) ''contextPackageIds'' = json_of_strings (cq_contextPackageIds c)"
  "jget (json_of_command c) ''expectedOutputs'' = JArr (map json_of_expected_output (cq_expectedOutputs c))"
  by (simp_all add: json_of_command_def jget_member del: jget.simps)

lemma has_key_jget: "jget r k \<noteq> JUndef \<Longrightarrow> has_key r k"
  by (cases r) (auto simp: js_lookup_def split: option.splits)

lemma command_json_nickname:
  "jget (json_of_command c) ''targetNicknameSnapshot'' =
   (case cq_targetNicknameSnapshot c of None \<Rightarrow> JUndef | Some n \<Rightarrow> JStr n)"
  by (simp add: json_of_command_def jget_member jget_opt_string_member jget_empty del: jget.simps split: option.split)

lemma validate_command_iff: "validate_command_request (json_of_command c) = [] \<longleftrightarrow> command_ok c"
proof -
  have nick: "(if has_key (json_of_command c) ''targetNicknameSnapshot'' \<and>
      jget (json_of_command c) ''targetNicknameSnapshot'' \<noteq> JUndef
    then has_non_empty_nickname (json_of_command c) ''targetNicknameSnapshot'' p else []) = [] \<longleftrightarrow>
    (\<forall>n. cq_targetNicknameSnapshot c = Some n \<longrightarrow> non_blank n)" for p
    using has_key_jget[of "json_of_command c" "''targetNicknameSnapshot''"]
    by (cases "cq_targetNicknameSnapshot c") (auto simp: command_json_nickname has_non_empty_nickname_def simp del: jget.simps)
  show ?thesis
    unfolding validate_command_request_def command_ok_def
    by (simp add: command_json nick del: jget.simps split del: if_split)
qed

end
