(* ===== verification/Json_Text.thy ===== *)
theory Json_Text
  imports Prelude
begin

text \<open>
  The JSON helpers that \<open>topology/compiler.ts\<close>, \<open>topology-runtime/work-order.ts\<close> and
  \<open>topology-runtime/aggregation.ts\<close> share: the canonical text of a JSON-like value (keys sorted,
  undefined members dropped) and the sanitised copy of a value. Number text and the collation order
  come from the host.
\<close>

section \<open>Canonical order\<close>

function sort_json_value :: "(string \<Rightarrow> string \<Rightarrow> int) \<Rightarrow> json \<Rightarrow> json" where
  "sort_json_value lc (JArr xs) = JArr (map (sort_json_value lc) xs)"
| "sort_json_value lc (JObj m) = JObj (map (\<lambda>kv. (fst kv, sort_json_value lc (snd kv)))
     (js_sort (\<lambda>a b. lc (fst a) (fst b)) (filter (\<lambda>kv. snd kv \<noteq> JUndef) m)))"
| "sort_json_value lc JUndef = JUndef"
| "sort_json_value lc JNull = JNull"
| "sort_json_value lc (JBool b) = JBool b"
| "sort_json_value lc (JNum n) = JNum n"
| "sort_json_value lc (JStr s) = JStr s"
  by pat_completeness auto

lemma json_size_arr: "x \<in> set xs \<Longrightarrow> size x < Suc (size_list size xs)"
  by (induction xs) auto

lemma json_size_obj: "kv \<in> set m \<Longrightarrow> size (snd kv) < Suc (size_list (size_prod (\<lambda>_. 0) size) m)"
  by (induction m) auto

termination sort_json_value
  by (relation "measure (size \<circ> snd)") (auto dest!: json_size_arr json_size_obj simp: less_Suc_eq_le)

section \<open>Text\<close>

definition hex_digit :: "nat \<Rightarrow> char" where
  "hex_digit n = char_of (if n < 10 then 48 + n else 87 + n)"

definition quote_char :: "char \<Rightarrow> string" where
  "quote_char c =
     (let n = of_char c :: nat; esc = char_of (92 :: nat) in
      if n = 34 \<or> n = 92 then [esc, c]
      else if n = 8 then [esc, CHR ''b'']
      else if n = 9 then [esc, CHR ''t'']
      else if n = 10 then [esc, CHR ''n'']
      else if n = 12 then [esc, CHR ''f'']
      else if n = 13 then [esc, CHR ''r'']
      else if n < 32 then [esc, CHR ''u'', CHR ''0'', CHR ''0'', hex_digit (n div 16), hex_digit (n mod 16)]
      else [c])"

definition quote_string :: "string \<Rightarrow> string" where
  "quote_string s = [char_of (34 :: nat)] @ concat (map quote_char s) @ [char_of (34 :: nat)]"

text \<open>
  \<open>JSON.stringify\<close> of a value that is not \<open>undefined\<close>: numbers that are not finite and undefined
  array items print as \<open>null\<close>, undefined members are dropped.
\<close>

function stringify :: "host \<Rightarrow> json \<Rightarrow> string" where
  "stringify h JUndef = ''null''"
| "stringify h JNull = ''null''"
| "stringify h (JBool b) = (if b then ''true'' else ''false'')"
| "stringify h (JNum n) = (if js_is_finite n then h_num_text h n else ''null'')"
| "stringify h (JStr s) = quote_string s"
| "stringify h (JArr xs) = ''['' @ join '','' (map (stringify h) xs) @ '']''"
| "stringify h (JObj m) = ''{'' @ join '',''
     (map (\<lambda>kv. quote_string (fst kv) @ '':'' @ stringify h (snd kv)) (filter (\<lambda>kv. snd kv \<noteq> JUndef) m)) @ ''}''"
  by pat_completeness auto

termination stringify
  by (relation "measure (size \<circ> snd)") (auto dest!: json_size_arr json_size_obj simp: less_Suc_eq_le)

definition stable_stringify :: "host \<Rightarrow> json \<Rightarrow> string" where
  "stable_stringify h v = stringify h (sort_json_value (h_locale_compare h) v)"

definition hash_json :: "host \<Rightarrow> json \<Rightarrow> string" where
  "hash_json h v = h_sha256 h (stable_stringify h v)"

section \<open>Sanitised copies\<close>

function sanitize_json_value :: "json \<Rightarrow> json" where
  "sanitize_json_value (JArr xs) = JArr (map sanitize_json_value xs)"
| "sanitize_json_value (JObj m) =
     JObj (map (\<lambda>kv. (fst kv, sanitize_json_value (snd kv))) (filter (\<lambda>kv. snd kv \<noteq> JUndef) m))"
| "sanitize_json_value JUndef = JNull"
| "sanitize_json_value JNull = JNull"
| "sanitize_json_value (JBool b) = JBool b"
| "sanitize_json_value (JNum n) = JNum n"
| "sanitize_json_value (JStr s) = JStr s"
  by pat_completeness auto

termination sanitize_json_value
  by (relation "measure size") (auto dest!: json_size_arr json_size_obj simp: less_Suc_eq_le)

text \<open>A value without \<open>undefined\<close> anywhere.\<close>

function json_defined :: "json \<Rightarrow> bool" where
  "json_defined (JArr xs) = (\<forall>x \<in> set xs. json_defined x)"
| "json_defined (JObj m) = (\<forall>kv \<in> set m. json_defined (snd kv))"
| "json_defined JUndef = False"
| "json_defined JNull = True"
| "json_defined (JBool b) = True"
| "json_defined (JNum n) = True"
| "json_defined (JStr s) = True"
  by pat_completeness auto

termination json_defined
  by (relation "measure size") (auto dest!: json_size_arr json_size_obj simp: less_Suc_eq_le)

lemma sanitize_defined: "json_defined (sanitize_json_value v)"
  by (induction v rule: sanitize_json_value.induct) auto

lemma sanitize_id: "json_defined v \<Longrightarrow> sanitize_json_value v = v"
proof (induction v rule: sanitize_json_value.induct)
  case (1 xs)
  then show ?case by (auto intro: map_idI)
next
  case (2 m)
  have "filter (\<lambda>kv. snd kv \<noteq> JUndef) m = m"
    using 2 by (intro filter_True) auto
  with 2 show ?case by (auto intro!: map_idI)
qed auto

text \<open>A sanitised copy holds no undefined value, and sanitising it again changes nothing.\<close>

lemma sanitize_json_idempotent:
  "json_defined (sanitize_json_value v)
   \<and> sanitize_json_value (sanitize_json_value v) = sanitize_json_value v"
  by (simp add: sanitize_defined sanitize_id)

end
