(* ===== verification/Work_Order.thy ===== *)
theory Work_Order
  imports Compiler Command_Contract Json_Text
begin

text \<open>
  \<open>topology-runtime/work-order.ts\<close>: building work orders, the effective permission scope of a work
  order on a node, the authority preflight, the capability policy, and the runtime envelope with its
  validation; then the two checkers that wrap them (\<open>permission-checker.ts\<close>, \<open>authority-checker.ts\<close>)
  and the runtime profile snapshot (\<open>runtime-profile.ts\<close>).

  \<open>structuredClone\<close> and the spread copies give equal values, so a copy is the value itself. A call
  of the clock reads \<open>h_clock\<close> at the next tick; the tick counter is passed along.
\<close>

section \<open>Narrowing a scope\<close>

text \<open>
  Three components narrow a list of identifiers to the ones another list allows: the work order to
  the node, the work order to a child, the tool request to the node. What they promise: nothing is
  gained, nothing allowed is lost and the order of first occurrences is kept; whether repetitions
  survive is left to the implementation.
\<close>

locale scope_narrowing =
  fixes narrow :: "string list \<Rightarrow> string list \<Rightarrow> string list"
  assumes narrow_law: "uniq (narrow xs ys) = filter (\<lambda>x. x \<in> set ys) (uniq xs)"
begin

lemma set_narrow: "set (narrow xs ys) = set xs \<inter> set ys"
  using arg_cong[OF narrow_law, of set] by auto

lemma narrow_left: "set (narrow xs ys) \<subseteq> set xs"
  by (simp add: set_narrow)

lemma narrow_right: "set (narrow xs ys) \<subseteq> set ys"
  by (simp add: set_narrow)

lemma narrow_all: "set xs \<subseteq> set ys \<Longrightarrow> set (narrow xs ys) = set xs"
  by (auto simp: set_narrow)

lemma narrow_twice: "set (narrow (narrow xs ys) ys) = set (narrow xs ys)"
  by (auto simp: set_narrow)

lemma narrow_commute: "set (narrow (narrow xs ys) zs) = set (narrow (narrow xs zs) ys)"
  by (auto simp: set_narrow)

lemma narrow_mono: "set xs \<subseteq> set xs' \<Longrightarrow> set ys \<subseteq> set ys' \<Longrightarrow> set (narrow xs ys) \<subseteq> set (narrow xs' ys')"
  by (auto simp: set_narrow)

text \<open>What a narrowed list leaves out is empty exactly when everything was allowed.\<close>

lemma removed_Nil_iff: "filter (\<lambda>x. x \<notin> set (narrow xs ys)) xs = [] \<longleftrightarrow> set xs \<subseteq> set ys"
  by (auto simp: filter_empty_conv set_narrow)

lemma removed_partition:
  "set (narrow xs ys) \<union> set (filter (\<lambda>x. x \<notin> set (narrow xs ys)) xs) = set xs"
  "set (narrow xs ys) \<inter> set (filter (\<lambda>x. x \<notin> set (narrow xs ys)) xs) = {}"
  by (auto simp: set_narrow)

end

definition intersect_stable :: "string list \<Rightarrow> string list \<Rightarrow> string list" where
  "intersect_stable xs ys = filter (\<lambda>x. x \<in> set ys) xs"

interpretation scope: scope_narrowing intersect_stable
  by unfold_locales (simp add: intersect_stable_def uniq_filter)

section \<open>Data\<close>

record bridge_issue =
  bi_code :: string
  bi_message :: string
  bi_path :: "string option"
  bi_reasonCode :: "string option"

record effective_scope =
  ef_allowedToolIds :: "string list"
  ef_allowedSystemIds :: "string list"
  ef_dataDomainIds :: "string list"
  ef_riskLevel :: "risk_level option"
  ef_removedToolIds :: "string list"
  ef_removedSystemIds :: "string list"
  ef_removedDataDomainIds :: "string list"
  ef_reasonCodes :: "string list"

record preflight_input =
  pi_grantedAuthorityRuleIds :: "string list option"
  pi_deniedAuthorityRuleIds :: "string list option"
  pi_approvedBy :: "entity_ref list option"

datatype authority_status = AD_not_required | AD_approved | AD_denied

fun authority_status_text :: "authority_status \<Rightarrow> string" where
  "authority_status_text AD_not_required = ''not_required''"
| "authority_status_text AD_approved = ''approved''"
| "authority_status_text AD_denied = ''denied''"

record authority_decision =
  ad_allowed :: bool
  ad_status :: authority_status
  ad_reasonCode :: string
  ad_requiredAuthorityRuleIds :: "string list"
  ad_grantedAuthorityRuleIds :: "string list"
  ad_deniedAuthorityRuleIds :: "string list"
  ad_missingAuthorityRuleIds :: "string list"
  ad_approvedBy :: "entity_ref list"

record prompt_fragment =
  pf_kind :: string
  pf_title :: string
  pf_content :: string

record prompt_bridge =
  pb_completionCriteria :: "expected_output list"
  pb_successCriterionIds :: "string list"
  pb_promptContextRefs :: "string list"
  pb_promptFragments :: "prompt_fragment list"

record review_bridge =
  rb_expectedOutputs :: "expected_output list"
  rb_additionalContextRefs :: "string list"
  rb_successCriterionIds :: "string list"

record data_exchange =
  dx_identity :: runtime_identity
  dx_exchangeId :: string
  dx_sourceOwner :: owner_scope
  dx_recipientOwner :: owner_scope
  dx_purpose :: string
  dx_allowedUse :: string
  dx_retentionPolicy :: string
  dx_redactionState :: string
  dx_provenanceRefs :: "string list"
  dx_payload :: json
  dx_expiresAt :: "int option"
  dx_createdAt :: int

record envelope =
  en_workOrder :: work_order
  en_nodeContractSnapshot :: node_contract
  en_compiledTopologySnapshotId :: string
  en_parentWorkOrderId :: "string option"
  en_delegationPath :: "string list"
  en_inputDataExchangePackage :: data_exchange
  en_expectedOutputs :: "expected_output list"
  en_effectivePermissionScope :: effective_scope
  en_capabilityPolicy :: capability_policy
  en_authorityDecision :: authority_decision
  en_promptBridge :: prompt_bridge
  en_resultReviewBridge :: review_bridge
  en_subSessionCommandRequest :: command_request
  en_subSessionIdempotencyKey :: string

record envelope_input =
  ei_workOrder :: work_order
  ei_nodeContractSnapshot :: node_contract
  ei_compiledTopologySnapshot :: compiled_topology
  ei_parentRunId :: "string option"
  ei_parentSessionId :: "string option"
  ei_parentSubSessionId :: "string option"
  ei_commandRequestId :: "string option"
  ei_subSessionId :: "string option"
  ei_targetAgentId :: "string option"
  ei_targetNicknameSnapshot :: "string option"
  ei_contextPackageId :: "string option"
  ei_authorityPreflight :: "preflight_input option"
  ei_baseCapabilityPolicy :: "capability_policy option"

section \<open>Building a work order\<close>

text \<open>
  \<open>buildWorkOrder\<close> copies its input field by field; an absent parent id becomes \<open>null\<close>, which
  \<open>None\<close> stands for on both sides.
\<close>

definition build_work_order :: "work_order \<Rightarrow> work_order" where
  "build_work_order i =
     \<lparr>wo_workOrderId = wo_workOrderId i, wo_topologyRunId = wo_topologyRunId i,
      wo_parentWorkOrderId = wo_parentWorkOrderId i, wo_fromNodeId = wo_fromNodeId i, wo_to = wo_to i,
      wo_objective = wo_objective i,
      wo_scope = \<lparr>sc_included = sc_included (wo_scope i), sc_excluded = sc_excluded (wo_scope i)\<rparr>,
      wo_input = wo_input i, wo_expectedOutputSchema = wo_expectedOutputSchema i,
      wo_successCriteria = wo_successCriteria i,
      wo_permissionScope = \<lparr>ps_allowedToolIds = ps_allowedToolIds (wo_permissionScope i),
        ps_allowedSystemIds = ps_allowedSystemIds (wo_permissionScope i),
        ps_dataDomainIds = ps_dataDomainIds (wo_permissionScope i),
        ps_riskLevel = ps_riskLevel (wo_permissionScope i)\<rparr>,
      wo_authorityScope = \<lparr>as_requiredAuthorityRuleIds = as_requiredAuthorityRuleIds (wo_authorityScope i),
        as_approvalRequired = as_approvalRequired (wo_authorityScope i),
        as_approvedBy = as_approvedBy (wo_authorityScope i)\<rparr>,
      wo_failureReportRequired = wo_failureReportRequired i, wo_delegationPath = wo_delegationPath i,
      wo_createdAt = wo_createdAt i\<rparr>"

lemma build_work_order_id [simp]: "build_work_order i = i"
  by (simp add: build_work_order_def)

section \<open>Expected outputs\<close>

definition schema_output_id :: "work_order \<Rightarrow> string" where
  "schema_output_id wo = wo_workOrderId wo @ '':expected-output-schema''"

definition schema_expected_output :: "host \<Rightarrow> work_order \<Rightarrow> expected_output" where
  "schema_expected_output h wo =
     \<lparr>eo_outputId = schema_output_id wo,
      eo_kind = OK_data_package,
      eo_description = ''Satisfy WorkOrder expected output schema ''
        @ stable_stringify h (wo_expectedOutputSchema wo) @ ''.'',
      eo_required = True,
      eo_acceptance = \<lparr>ac_statusField = Some ''schema'', ac_requiredEvidenceKinds = [], ac_artifactRequired = False,
        ac_reasonCodes = [''work_order_expected_output_schema'', ''work_order:'' @ wo_workOrderId wo,
          ''schema_hash:'' @ take 12 (hash_json h (wo_expectedOutputSchema wo))]\<rparr>\<rparr>"

fun expected_output_kind :: "validation_kind \<Rightarrow> output_kind" where
  "expected_output_kind VK_tool = OK_tool_result"
| "expected_output_kind VK_schema = OK_data_package"
| "expected_output_kind VK_evidence = OK_artifact"
| "expected_output_kind VK_policy = OK_state_change"
| "expected_output_kind VK_manual = OK_text"

fun required_evidence_kinds :: "validation_kind \<Rightarrow> string list" where
  "required_evidence_kinds VK_evidence = [''evidence'']"
| "required_evidence_kinds VK_tool = [''tool_result'']"
| "required_evidence_kinds VK_schema = [''schema_validation'']"
| "required_evidence_kinds VK_policy = [''policy_check'']"
| "required_evidence_kinds VK_manual = []"

definition criterion_expected_output :: "success_criterion \<Rightarrow> expected_output" where
  "criterion_expected_output c =
     \<lparr>eo_outputId = cr_criterionId c,
      eo_kind = expected_output_kind (cr_validationKind c),
      eo_description = cr_description c,
      eo_required = cr_required c,
      eo_acceptance = \<lparr>ac_statusField = Some (cr_criterionId c),
        ac_requiredEvidenceKinds = required_evidence_kinds (cr_validationKind c),
        ac_artifactRequired = (cr_validationKind c = VK_evidence),
        ac_reasonCodes = [''success_criterion:'' @ cr_criterionId c,
          ''validation:'' @ validation_kind_text (cr_validationKind c)]\<rparr>\<rparr>"

definition build_expected_outputs :: "host \<Rightarrow> work_order \<Rightarrow> expected_output list" where
  "build_expected_outputs h wo = schema_expected_output h wo # map criterion_expected_output (wo_successCriteria wo)"

section \<open>Effective permission scope\<close>

definition snapshot_data_domains :: "compiled_topology \<Rightarrow> string list \<Rightarrow> string list" where
  "snapshot_data_domains cs systemIds =
     fold (\<lambda>y result. case map_of (cs_systemIndex cs) y of
         None \<Rightarrow> result
       | Some s \<Rightarrow> fold (\<lambda>d acc. add_unique acc d) (cy_dataDomainIds s) result) systemIds []"

definition node_allowed_tools :: "compiled_topology \<Rightarrow> node_contract \<Rightarrow> string list" where
  "node_allowed_tools cs n = (case map_of (cs_toolScopeIndex cs) (be_id n) of
     None \<Rightarrow> nc_allowedToolIds n | Some sc \<Rightarrow> ts_effectiveToolIds sc)"

definition node_allowed_systems :: "compiled_topology \<Rightarrow> node_contract \<Rightarrow> string list" where
  "node_allowed_systems cs n = (case map_of (cs_toolScopeIndex cs) (be_id n) of
     None \<Rightarrow> nc_allowedSystemIds n | Some sc \<Rightarrow> ts_effectiveSystemIds sc)"

definition node_allowed_domains :: "compiled_topology \<Rightarrow> node_contract \<Rightarrow> string list" where
  "node_allowed_domains cs n = (case map_of (cs_toolScopeIndex cs) (be_id n) of
     None \<Rightarrow> snapshot_data_domains cs (node_allowed_systems cs n)
   | Some sc \<Rightarrow> ts_effectiveDataDomainIds sc)"

definition derive_effective_scope :: "work_order \<Rightarrow> node_contract \<Rightarrow> compiled_topology \<Rightarrow> effective_scope" where
  "derive_effective_scope wo n cs =
     (let ps = wo_permissionScope wo;
          allowedToolIds = intersect_stable (ps_allowedToolIds ps) (node_allowed_tools cs n);
          allowedSystemIds = intersect_stable (ps_allowedSystemIds ps) (node_allowed_systems cs n);
          dataDomainIds = intersect_stable (ps_dataDomainIds ps) (node_allowed_domains cs n);
          removedToolIds = filter (\<lambda>t. t \<notin> set allowedToolIds) (ps_allowedToolIds ps);
          removedSystemIds = filter (\<lambda>y. y \<notin> set allowedSystemIds) (ps_allowedSystemIds ps);
          removedDataDomainIds = filter (\<lambda>d. d \<notin> set dataDomainIds) (ps_dataDomainIds ps)
      in \<lparr>ef_allowedToolIds = allowedToolIds,
          ef_allowedSystemIds = allowedSystemIds,
          ef_dataDomainIds = dataDomainIds,
          ef_riskLevel = ps_riskLevel ps,
          ef_removedToolIds = removedToolIds,
          ef_removedSystemIds = removedSystemIds,
          ef_removedDataDomainIds = removedDataDomainIds,
          ef_reasonCodes = [''permission_scope_narrowed_to_node_contract'']
            @ (if map_of (cs_toolScopeIndex cs) (be_id n) \<noteq> None
               then [''permission_scope_narrowed_to_compiled_tool_scope''] else [])
            @ (if removedToolIds \<noteq> [] then [''work_order_tool_scope_reduced''] else [])
            @ (if removedSystemIds \<noteq> [] then [''work_order_system_scope_reduced''] else [])
            @ (if removedDataDomainIds \<noteq> [] then [''work_order_data_domain_scope_reduced''] else [])\<rparr>)"

section \<open>Capability policy\<close>

fun risk_level_to_capability :: "risk_level option \<Rightarrow> capability_risk" where
  "risk_level_to_capability (Some RL_low) = CR_safe"
| "risk_level_to_capability (Some RL_medium) = CR_moderate"
| "risk_level_to_capability (Some RL_high) = CR_sensitive"
| "risk_level_to_capability (Some RL_critical) = CR_dangerous"
| "risk_level_to_capability (Some RL_unknown) = CR_moderate"
| "risk_level_to_capability None = CR_moderate"

definition base_list :: "(capability_policy \<Rightarrow> string list) \<Rightarrow> capability_policy option \<Rightarrow> string list" where
  "base_list f base = (case base of None \<Rightarrow> [] | Some b \<Rightarrow> f b)"

definition base_flag :: "(permission_profile \<Rightarrow> bool) \<Rightarrow> capability_policy option \<Rightarrow> bool" where
  "base_flag f base = (case base of None \<Rightarrow> False | Some b \<Rightarrow> f (cap_permissionProfile b))"

definition derive_capability_policy ::
  "work_order \<Rightarrow> effective_scope \<Rightarrow> capability_policy option \<Rightarrow> capability_policy" where
  "derive_capability_policy wo eff base =
     \<lparr>cap_permissionProfile =
        \<lparr>pp_profileId = (case base of None \<Rightarrow> ''permission:'' @ wo_workOrderId wo
           | Some b \<Rightarrow> pp_profileId (cap_permissionProfile b)),
         pp_riskCeiling = risk_level_to_capability (ef_riskLevel eff),
         pp_approvalRequiredFrom = (if as_approvalRequired (wo_authorityScope wo) then CR_safe
           else case base of None \<Rightarrow> CR_dangerous | Some b \<Rightarrow> pp_approvalRequiredFrom (cap_permissionProfile b)),
         pp_allowExternalNetwork = base_flag pp_allowExternalNetwork base,
         pp_allowFilesystemWrite = base_flag pp_allowFilesystemWrite base,
         pp_allowShellExecution = base_flag pp_allowShellExecution base,
         pp_allowScreenControl = base_flag pp_allowScreenControl base,
         pp_allowedPaths = base_list (pp_allowedPaths \<circ> cap_permissionProfile) base\<rparr>,
      cap_skillMcpAllowlist =
        \<lparr>al_enabledSkillIds = base_list (al_enabledSkillIds \<circ> cap_skillMcpAllowlist) base,
         al_enabledMcpServerIds = base_list (al_enabledMcpServerIds \<circ> cap_skillMcpAllowlist) base,
         al_enabledToolNames = uniq (base_list (al_enabledToolNames \<circ> cap_skillMcpAllowlist) base
           @ ef_allowedToolIds eff @ ef_allowedSystemIds eff),
         al_disabledToolNames = uniq (base_list (al_disabledToolNames \<circ> cap_skillMcpAllowlist) base
           @ ef_removedToolIds eff @ ef_removedSystemIds eff),
         al_secretScopeId = (case base of None \<Rightarrow> None | Some b \<Rightarrow> al_secretScopeId (cap_skillMcpAllowlist b))\<rparr>,
      cap_maxConcurrentCalls = (case base of None \<Rightarrow> Fin 1 | Some b \<Rightarrow> cap_maxConcurrentCalls b),
      cap_maxCallsPerMinute = (case base of None \<Rightarrow> None | Some b \<Rightarrow> cap_maxCallsPerMinute b)\<rparr>"

section \<open>Authority preflight\<close>

definition empty_preflight :: preflight_input where
  "empty_preflight = \<lparr>pi_grantedAuthorityRuleIds = None, pi_deniedAuthorityRuleIds = None, pi_approvedBy = None\<rparr>"

definition evaluate_authority_preflight :: "work_order \<Rightarrow> preflight_input option \<Rightarrow> authority_decision" where
  "evaluate_authority_preflight wo pre =
     (let i = opt_or pre empty_preflight;
          required = as_requiredAuthorityRuleIds (wo_authorityScope wo);
          granted = opt_or (pi_grantedAuthorityRuleIds i) [];
          denied = opt_or (pi_deniedAuthorityRuleIds i) [];
          missing = filter (\<lambda>r. r \<notin> set granted) required;
          approvedBy = opt_or (pi_approvedBy i) (opt_or (as_approvedBy (wo_authorityScope wo)) []);
          decision = (\<lambda>allowed status reason.
            \<lparr>ad_allowed = allowed, ad_status = status, ad_reasonCode = reason,
             ad_requiredAuthorityRuleIds = required, ad_grantedAuthorityRuleIds = granted,
             ad_deniedAuthorityRuleIds = denied, ad_missingAuthorityRuleIds = missing,
             ad_approvedBy = approvedBy\<rparr>)
      in if denied \<noteq> [] then decision False AD_denied ''authority_rule_denied''
         else if missing \<noteq> [] then decision False AD_denied ''required_authority_rule_missing''
         else if as_approvalRequired (wo_authorityScope wo) \<and> approvedBy = []
           then decision False AD_denied ''approval_required_without_approver''
         else if as_approvalRequired (wo_authorityScope wo)
           then decision True AD_approved ''authority_preflight_approved''
         else decision True AD_not_required ''authority_preflight_not_required'')"

definition sub_session_idempotency_key :: "host \<Rightarrow> work_order \<Rightarrow> string \<Rightarrow> string" where
  "sub_session_idempotency_key h wo subSessionId =
     ''work-order:'' @ h_sha256 h (wo_topologyRunId wo @ ''|'' @ wo_workOrderId wo @ ''|'' @ subSessionId
       @ ''|'' @ target_type_text (wt_type (wo_to wo)) @ ''|'' @ wt_id (wo_to wo))"

section \<open>The runtime envelope\<close>

definition of_validation_issue :: "string \<Rightarrow> validation_issue \<Rightarrow> bridge_issue" where
  "of_validation_issue code i = \<lparr>bi_code = code, bi_message = vi_message i, bi_path = Some (vi_path i),
     bi_reasonCode = Some (vi_code i)\<rparr>"

definition validate_envelope_input :: "envelope_input \<Rightarrow> bridge_issue list" where
  "validate_envelope_input i =
     (let wo = ei_workOrder i; n = ei_nodeContractSnapshot i;
          decision = evaluate_authority_preflight wo (ei_authorityPreflight i)
      in map (of_validation_issue ''invalid_work_order'') (validate_work_order (json_of_work_order wo))
        @ (if wt_type (wo_to wo) \<noteq> WT_node
           then [\<lparr>bi_code = ''work_order_target_not_node'',
                  bi_message = ''WorkOrder runtime bridge currently supports node targets only.'',
                  bi_path = Some ''$.workOrder.to.type'', bi_reasonCode = None\<rparr>] else [])
        @ (if wt_type (wo_to wo) = WT_node \<and> wt_id (wo_to wo) \<noteq> be_id n
           then [\<lparr>bi_code = ''node_contract_mismatch'',
                  bi_message = ''NodeContract snapshot id must match WorkOrder target node id.'',
                  bi_path = Some ''$.nodeContractSnapshot.id'', bi_reasonCode = None\<rparr>] else [])
        @ (if map_of (cs_nodeIndex (ei_compiledTopologySnapshot i)) (be_id n) = None
           then [\<lparr>bi_code = ''compiled_topology_mismatch'',
                  bi_message = ''CompiledTopologySnapshot does not contain the target node.'',
                  bi_path = Some ''$.compiledTopologySnapshot.nodeIndex'', bi_reasonCode = None\<rparr>] else [])
        @ (if \<not> ad_allowed decision
           then [\<lparr>bi_code = ''authority_preflight_denied'',
                  bi_message = ''WorkOrder authority preflight denied execution.'',
                  bi_path = Some ''$.workOrder.authorityScope'',
                  bi_reasonCode = Some (ad_reasonCode decision)\<rparr>] else []))"

fun str_member :: "json \<Rightarrow> string option" where
  "str_member (JStr s) = Some s"
| "str_member _ = None"

fun bool_member :: "json \<Rightarrow> bool option" where
  "bool_member (JBool b) = Some b"
| "bool_member _ = None"

definition executor_metadata :: "work_order \<Rightarrow> topology_executor option" where
  "executor_metadata wo =
     (let md = jget (wo_input wo) ''executorGraph'' in
      if \<not> is_record md then None
      else case str_member (jget md ''graphExecutionPlanId'') of
        None \<Rightarrow> None
      | Some p \<Rightarrow> Some \<lparr>tx_graphExecutionPlanId = p, tx_executorId = str_member (jget md ''executorId''),
          tx_edgeId = str_member (jget md ''edgeId''),
          tx_systemPreparation = bool_member (jget md ''systemPreparation'')\<rparr>)"

definition bool_text :: "bool \<Rightarrow> string" where
  "bool_text b = (if b then ''true'' else ''false'')"

definition build_constraints :: "work_order \<Rightarrow> string list" where
  "build_constraints wo =
     map (\<lambda>x. ''include:'' @ x) (sc_included (wo_scope wo))
     @ map (\<lambda>x. ''exclude:'' @ x) (sc_excluded (wo_scope wo))
     @ map (\<lambda>x. ''allowed_tool:'' @ x) (ps_allowedToolIds (wo_permissionScope wo))
     @ map (\<lambda>x. ''allowed_system:'' @ x) (ps_allowedSystemIds (wo_permissionScope wo))
     @ map (\<lambda>x. ''required_authority:'' @ x) (as_requiredAuthorityRuleIds (wo_authorityScope wo))
     @ [''failure_report_required:'' @ bool_text (wo_failureReportRequired wo)]"

text \<open>A template inserts the code only for a non-empty id: \<open>topologyExecutor?.executorId ? ...\<close>.\<close>

definition truthy_code :: "string \<Rightarrow> string option \<Rightarrow> string list" where
  "truthy_code pre v = (case v of None \<Rightarrow> [] | Some s \<Rightarrow> if s = [] then [] else [pre @ s])"

definition build_command_request ::
  "work_order \<Rightarrow> runtime_identity \<Rightarrow> string \<Rightarrow> string \<Rightarrow> string \<Rightarrow> string option \<Rightarrow> string list \<Rightarrow>
   expected_output list \<Rightarrow> command_request" where
  "build_command_request wo identity commandRequestId subSessionId targetAgentId nick contextIds outs =
     (let x = executor_metadata wo; target = target_type_text (wt_type (wo_to wo)) in
      \<lparr>cq_identity = identity,
       cq_commandRequestId = commandRequestId,
       cq_parentRunId = wo_topologyRunId wo,
       cq_subSessionId = subSessionId,
       cq_targetAgentId = targetAgentId,
       cq_targetNicknameSnapshot = nick,
       cq_topologyExecutor = x,
       cq_taskScope =
         \<lparr>sk_goal = wo_objective wo,
          sk_intentType = ''topology_work_order'',
          sk_actionType = ''execute_'' @ target,
          sk_constraints = build_constraints wo,
          sk_expectedOutputs = outs,
          sk_reasonCodes = [''topology_work_order'', ''work_order:'' @ wo_workOrderId wo,
            ''target:'' @ target @ '':'' @ wt_id (wo_to wo)]
            @ (case x of None \<Rightarrow> [] | Some y \<Rightarrow> truthy_code ''executor:'' (tx_executorId y)
                 @ truthy_code ''edge:'' (tx_edgeId y))\<rparr>,
       cq_contextPackageIds = contextIds,
       cq_expectedOutputs = outs\<rparr>)"

definition work_order_payload :: "work_order \<Rightarrow> json" where
  "work_order_payload wo = sanitize_json_value (JObj [
     (''workOrderId'', JStr (wo_workOrderId wo)),
     (''objective'', JStr (wo_objective wo)),
     (''scope'', json_of_scope (wo_scope wo)),
     (''input'', wo_input wo),
     (''expectedOutputSchema'', wo_expectedOutputSchema wo),
     (''permissionScope'', json_of_permission_scope (wo_permissionScope wo)),
     (''authorityScope'', json_of_authority_scope (wo_authorityScope wo)),
     (''delegationPath'', json_of_strings (wo_delegationPath wo))])"

definition build_input_exchange ::
  "work_order \<Rightarrow> string \<Rightarrow> int \<Rightarrow> runtime_identity \<Rightarrow> data_exchange" where
  "build_input_exchange wo exchangeId now identity =
     \<lparr>dx_identity = identity,
      dx_exchangeId = exchangeId,
      dx_sourceOwner = \<lparr>os_ownerType = OW_system, os_ownerId = wo_fromNodeId wo\<rparr>,
      dx_recipientOwner = \<lparr>os_ownerType = OW_system, os_ownerId = wt_id (wo_to wo)\<rparr>,
      dx_purpose = ''Input context for '' @ wo_workOrderId wo @ ''.'',
      dx_allowedUse = ''temporary_context'',
      dx_retentionPolicy = ''session_only'',
      dx_redactionState = ''not_sensitive'',
      dx_provenanceRefs = [''work_order:'' @ wo_workOrderId wo, ''topology_run:'' @ wo_topologyRunId wo],
      dx_payload = work_order_payload wo,
      dx_expiresAt = None,
      dx_createdAt = now\<rparr>"

definition build_runtime_identity ::
  "relationship_entity \<Rightarrow> string \<Rightarrow> string \<Rightarrow> string \<Rightarrow> string option \<Rightarrow> string option \<Rightarrow> string option \<Rightarrow>
   string option \<Rightarrow> runtime_identity" where
  "build_runtime_identity entity i key parentRunId parentSessionId parentSubSessionId parentRequestId audit =
     \<lparr>id_entityType = entity, id_entityId = i,
      id_owner = \<lparr>os_ownerType = OW_system, os_ownerId = ''topology-runtime''\<rparr>,
      id_idempotencyKey = key, id_auditCorrelationId = audit,
      id_parent = Some \<lparr>pl_parentRunId = Some parentRunId, pl_parentSessionId = parentSessionId,
        pl_parentSubSessionId = parentSubSessionId, pl_parentRequestId = parentRequestId\<rparr>\<rparr>"

definition newline :: string where
  "newline = [char_of (10 :: nat)]"

definition build_prompt_bridge :: "work_order \<Rightarrow> expected_output list \<Rightarrow> string list \<Rightarrow> prompt_bridge" where
  "build_prompt_bridge wo outs contextRefs =
     \<lparr>pb_completionCriteria = outs,
      pb_successCriterionIds = map cr_criterionId (wo_successCriteria wo),
      pb_promptContextRefs = contextRefs,
      pb_promptFragments = [
        \<lparr>pf_kind = ''completion_criteria'', pf_title = ''WorkOrder success criteria'',
         pf_content = join newline
           (map (\<lambda>c. ''- '' @ cr_criterionId c @ '': '' @ cr_description c) (wo_successCriteria wo))\<rparr>,
        \<lparr>pf_kind = ''permission_profile'', pf_title = ''WorkOrder permission scope'',
         pf_content = join newline [
           ''tools='' @ join '','' (ps_allowedToolIds (wo_permissionScope wo)),
           ''systems='' @ join '','' (ps_allowedSystemIds (wo_permissionScope wo)),
           ''dataDomains='' @ join '','' (ps_dataDomainIds (wo_permissionScope wo))]\<rparr>,
        \<lparr>pf_kind = ''authority'', pf_title = ''WorkOrder authority scope'',
         pf_content = join newline [
           ''approvalRequired='' @ bool_text (as_approvalRequired (wo_authorityScope wo)),
           ''requiredRules='' @ join '','' (as_requiredAuthorityRuleIds (wo_authorityScope wo))]\<rparr>]\<rparr>"

text \<open>
  \<open>createWorkOrderRuntimeEnvelope\<close>: \<open>Inl\<close> the issues, \<open>Inr\<close> the envelope; the clock ticks once, and
  only when the input passed its validation.
\<close>

definition create_envelope :: "host \<Rightarrow> envelope_input \<Rightarrow> nat \<Rightarrow> (bridge_issue list + envelope) \<times> nat" where
  "create_envelope h i tick =
     (let wo = ei_workOrder i; n = ei_nodeContractSnapshot i; issues = validate_envelope_input i in
      if issues \<noteq> [] then (Inl issues, tick)
      else
        let now = h_clock h tick;
            commandRequestId = opt_or (ei_commandRequestId i) (''command:'' @ wo_workOrderId wo);
            subSessionId = opt_or (ei_subSessionId i) (''sub-session:'' @ wo_workOrderId wo);
            contextPackageId = opt_or (ei_contextPackageId i) (''exchange:'' @ wo_workOrderId wo @ '':input'');
            key = sub_session_idempotency_key h wo subSessionId;
            outs = build_expected_outputs h wo;
            eff = derive_effective_scope wo n (ei_compiledTopologySnapshot i);
            policy = derive_capability_policy wo eff (ei_baseCapabilityPolicy i);
            decision = evaluate_authority_preflight wo (ei_authorityPreflight i);
            parentRunId = opt_or (ei_parentRunId i) (wo_topologyRunId wo);
            identity = build_runtime_identity RE_sub_session subSessionId key parentRunId
              (ei_parentSessionId i) (ei_parentSubSessionId i) (Some (wo_workOrderId wo)) (Some (wo_topologyRunId wo));
            exchange = build_input_exchange wo contextPackageId now
              (build_runtime_identity RE_data_exchange contextPackageId (key @ '':input'') parentRunId
                (ei_parentSessionId i) (ei_parentSubSessionId i) (Some (wo_workOrderId wo)) (Some (wo_topologyRunId wo)));
            command = build_command_request wo identity commandRequestId subSessionId
              (opt_or (ei_targetAgentId i) (be_id n)) (ei_targetNicknameSnapshot i) [contextPackageId] outs;
            commandIssues = validate_command_request (json_of_command command)
        in if commandIssues \<noteq> [] then (Inl (map (of_validation_issue ''invalid_command_request'') commandIssues), tick + 1)
           else (Inr \<lparr>en_workOrder = wo,
              en_nodeContractSnapshot = n,
              en_compiledTopologySnapshotId = cs_compiledTopologySnapshotId (ei_compiledTopologySnapshot i),
              en_parentWorkOrderId = wo_parentWorkOrderId wo,
              en_delegationPath = wo_delegationPath wo,
              en_inputDataExchangePackage = exchange,
              en_expectedOutputs = outs,
              en_effectivePermissionScope = eff,
              en_capabilityPolicy = policy,
              en_authorityDecision = decision,
              en_promptBridge = build_prompt_bridge wo outs [contextPackageId],
              en_resultReviewBridge = \<lparr>rb_expectedOutputs = outs, rb_additionalContextRefs = [contextPackageId],
                rb_successCriterionIds = map cr_criterionId (wo_successCriteria wo)\<rparr>,
              en_subSessionCommandRequest = command,
              en_subSessionIdempotencyKey = key\<rparr>, tick + 1))"

section \<open>Permission and authority checks\<close>

record permission_decision =
  pd_allowed :: bool
  pd_status :: string
  pd_reasonCode :: string
  pd_missingToolIds :: "string list"
  pd_missingSystemIds :: "string list"
  pd_missingDataDomainIds :: "string list"
  pd_effectivePermissionScope :: effective_scope
  pd_reasonCodes :: "string list"

definition check_permission :: "work_order \<Rightarrow> node_contract \<Rightarrow> compiled_topology \<Rightarrow> permission_decision" where
  "check_permission wo n cs =
     (let eff = derive_effective_scope wo n cs;
          denied = (ef_removedToolIds eff \<noteq> [] \<or> ef_removedSystemIds eff \<noteq> [] \<or> ef_removedDataDomainIds eff \<noteq> [])
      in \<lparr>pd_allowed = (\<not> denied),
          pd_status = (if denied then ''denied'' else ''allowed''),
          pd_reasonCode = (if denied then ''permission_scope_denied'' else ''permission_scope_allowed''),
          pd_missingToolIds = ef_removedToolIds eff,
          pd_missingSystemIds = ef_removedSystemIds eff,
          pd_missingDataDomainIds = ef_removedDataDomainIds eff,
          pd_effectivePermissionScope = eff,
          pd_reasonCodes = ef_reasonCodes eff
            @ [if denied then ''node_runtime_permission_denied'' else ''node_runtime_permission_allowed'']\<rparr>)"

text \<open>
  The decision the envelope carries stands unless the runtime is given a preflight of its own.
\<close>

definition check_authority ::
  "work_order \<Rightarrow> preflight_input option \<Rightarrow> authority_decision option \<Rightarrow> authority_decision" where
  "check_authority wo pre decision =
     (case decision of
        Some d \<Rightarrow> if pre = None then d else evaluate_authority_preflight wo pre
      | None \<Rightarrow> evaluate_authority_preflight wo pre)"

section \<open>Runtime profiles\<close>

definition timestamp_text :: "host \<Rightarrow> timestamp \<Rightarrow> string" where
  "timestamp_text h t = (case t of TNum n \<Rightarrow> h_num_text h n | TStr s \<Rightarrow> s)"

definition clock_time :: "host \<Rightarrow> nat \<Rightarrow> timestamp" where
  "clock_time h tick = TNum (Fin (of_int (h_clock h tick)))"

definition build_profile_snapshot_id :: "host \<Rightarrow> string \<Rightarrow> string \<Rightarrow> string \<Rightarrow> timestamp \<Rightarrow> string" where
  "build_profile_snapshot_id h workOrderId nodeId snapshotId createdAt =
     ''profile-snapshot:'' @ take 16 (h_sha256 h
       (workOrderId @ ''|'' @ nodeId @ ''|'' @ snapshotId @ ''|'' @ timestamp_text h createdAt))"

definition create_profile ::
  "host \<Rightarrow> work_order \<Rightarrow> node_contract \<Rightarrow> compiled_topology \<Rightarrow> effective_scope \<Rightarrow> string option \<Rightarrow>
   timestamp \<Rightarrow> runtime_profile" where
  "create_profile h wo n cs eff profileId createdAt =
     \<lparr>pf_profileSnapshotId = opt_or profileId
        (build_profile_snapshot_id h (wo_workOrderId wo) (be_id n) (cs_compiledTopologySnapshotId cs) createdAt),
      pf_topologyId = cs_topologyId cs,
      pf_compiledTopologySnapshotId = cs_compiledTopologySnapshotId cs,
      pf_nodeId = be_id n,
      pf_workOrderId = wo_workOrderId wo,
      pf_permissionScope = \<lparr>ps_allowedToolIds = ef_allowedToolIds eff, ps_allowedSystemIds = ef_allowedSystemIds eff,
        ps_dataDomainIds = ef_dataDomainIds eff, ps_riskLevel = ef_riskLevel eff\<rparr>,
      pf_authorityScope = wo_authorityScope wo,
      pf_allowedToolIds = ef_allowedToolIds eff,
      pf_allowedSystemIds = ef_allowedSystemIds eff,
      pf_delegationPath = wo_delegationPath wo,
      pf_createdAt = createdAt,
      pf_sourceNodeContractId = be_id n,
      pf_sourceWorkOrderId = wo_workOrderId wo,
      pf_sourceCompiledTopologySnapshotId = cs_compiledTopologySnapshotId cs\<rparr>"

section \<open>Lemmas\<close>

lemma derive_effective_scope_fields:
  "ef_allowedToolIds (derive_effective_scope wo n cs) =
     intersect_stable (ps_allowedToolIds (wo_permissionScope wo)) (node_allowed_tools cs n)"
  "ef_allowedSystemIds (derive_effective_scope wo n cs) =
     intersect_stable (ps_allowedSystemIds (wo_permissionScope wo)) (node_allowed_systems cs n)"
  "ef_dataDomainIds (derive_effective_scope wo n cs) =
     intersect_stable (ps_dataDomainIds (wo_permissionScope wo)) (node_allowed_domains cs n)"
  "ef_removedToolIds (derive_effective_scope wo n cs) =
     filter (\<lambda>x. x \<notin> set (intersect_stable (ps_allowedToolIds (wo_permissionScope wo)) (node_allowed_tools cs n)))
       (ps_allowedToolIds (wo_permissionScope wo))"
  "ef_removedSystemIds (derive_effective_scope wo n cs) =
     filter (\<lambda>x. x \<notin> set (intersect_stable (ps_allowedSystemIds (wo_permissionScope wo)) (node_allowed_systems cs n)))
       (ps_allowedSystemIds (wo_permissionScope wo))"
  "ef_removedDataDomainIds (derive_effective_scope wo n cs) =
     filter (\<lambda>x. x \<notin> set (intersect_stable (ps_dataDomainIds (wo_permissionScope wo)) (node_allowed_domains cs n)))
       (ps_dataDomainIds (wo_permissionScope wo))"
  "ef_riskLevel (derive_effective_scope wo n cs) = ps_riskLevel (wo_permissionScope wo)"
  by (simp_all add: derive_effective_scope_def Let_def)

lemma check_permission_allowed:
  "pd_allowed (check_permission wo n cs) \<longleftrightarrow>
     set (ps_allowedToolIds (wo_permissionScope wo)) \<subseteq> set (node_allowed_tools cs n)
     \<and> set (ps_allowedSystemIds (wo_permissionScope wo)) \<subseteq> set (node_allowed_systems cs n)
     \<and> set (ps_dataDomainIds (wo_permissionScope wo)) \<subseteq> set (node_allowed_domains cs n)"
  unfolding check_permission_def Let_def derive_effective_scope_fields scope.removed_Nil_iff
  by simp blast

lemma check_permission_scope [simp]:
  "pd_effectivePermissionScope (check_permission wo n cs) = derive_effective_scope wo n cs"
  by (simp add: check_permission_def Let_def)

text \<open>What a node of a topology can use: allowed, and declared by its relations.\<close>

definition usable_tools :: "enterprise_topology \<Rightarrow> node_contract \<Rightarrow> string set" where
  "usable_tools tp n = {t \<in> set (nc_allowedToolIds n). declares_tool tp (be_id n) t}"

definition usable_systems :: "enterprise_topology \<Rightarrow> node_contract \<Rightarrow> string set" where
  "usable_systems tp n = {y \<in> set (nc_allowedSystemIds n). declares_system tp (be_id n) y}"

definition usable_domains :: "enterprise_topology \<Rightarrow> node_contract \<Rightarrow> string set" where
  "usable_domains tp n = {d. \<exists>y \<in> usable_systems tp n. \<exists>s.
     map_of (index_by be_id (\<lambda>y. y) (tp_systems tp)) y = Some s \<and> d \<in> set (sy_dataDomainIds s)}"

lemma compiled_allowed:
  assumes "distinct (map be_id (tp_nodes tp))" "n \<in> set (tp_nodes tp)"
  shows "set (node_allowed_tools (compiled_snapshot sid tp) n) = usable_tools tp n"
    "set (node_allowed_systems (compiled_snapshot sid tp) n) = usable_systems tp n"
    "set (node_allowed_domains (compiled_snapshot sid tp) n) = usable_domains tp n"
proof -
  obtain sc where sc: "map_of (build_tool_scope_index tp) (be_id n) = Some sc"
    using tool_scope_lookup[OF assms] by blast
  have index: "cs_toolScopeIndex (compiled_snapshot sid tp) = build_tool_scope_index tp"
    by (simp add: compiled_snapshot_def Let_def)
  note effective = tool_scope_effective[OF assms sc]
  show "set (node_allowed_tools (compiled_snapshot sid tp) n) = usable_tools tp n"
    "set (node_allowed_systems (compiled_snapshot sid tp) n) = usable_systems tp n"
    "set (node_allowed_domains (compiled_snapshot sid tp) n) = usable_domains tp n"
    by (simp_all add: node_allowed_tools_def node_allowed_systems_def node_allowed_domains_def index sc
        effective(1,2) effective(3)[unfolded effective(2)] usable_tools_def usable_systems_def usable_domains_def)
qed

lemma check_permission_missing:
  "set (pd_missingToolIds (check_permission wo n cs)) =
     set (ps_allowedToolIds (wo_permissionScope wo)) - set (node_allowed_tools cs n)"
  "set (pd_missingSystemIds (check_permission wo n cs)) =
     set (ps_allowedSystemIds (wo_permissionScope wo)) - set (node_allowed_systems cs n)"
  "set (pd_missingDataDomainIds (check_permission wo n cs)) =
     set (ps_dataDomainIds (wo_permissionScope wo)) - set (node_allowed_domains cs n)"
  by (auto simp: check_permission_def Let_def derive_effective_scope_fields scope.set_narrow)

lemma evaluate_authority_allowed:
  "ad_allowed (evaluate_authority_preflight wo pre) \<longleftrightarrow>
     opt_or (pi_deniedAuthorityRuleIds (opt_or pre empty_preflight)) [] = []
     \<and> set (as_requiredAuthorityRuleIds (wo_authorityScope wo))
         \<subseteq> set (opt_or (pi_grantedAuthorityRuleIds (opt_or pre empty_preflight)) [])
     \<and> (as_approvalRequired (wo_authorityScope wo) \<longrightarrow>
         opt_or (pi_approvedBy (opt_or pre empty_preflight)) (opt_or (as_approvedBy (wo_authorityScope wo)) []) \<noteq> [])"
  by (auto simp: evaluate_authority_preflight_def Let_def filter_empty_conv)

lemma non_blank_append [simp]: "non_blank (xs @ ys) \<longleftrightarrow> non_blank xs \<or> non_blank ys"
  by (auto simp: non_blank_iff)

lemma non_blank_Cons [simp]: "non_blank (c # cs) \<longleftrightarrow> \<not> js_ws c \<or> non_blank cs"
  by (auto simp: non_blank_iff)

lemma non_blank_Nil [simp]: "\<not> non_blank []"
  by (simp add: non_blank_iff)

lemma build_expected_outputs_ok:
  "(\<forall>e \<in> set (build_expected_outputs h wo). expected_output_ok e) \<longleftrightarrow> (\<forall>c \<in> set (wo_successCriteria wo). criterion_ok c)"
  by (simp add: build_expected_outputs_def expected_output_ok_def schema_expected_output_def schema_output_id_def
      criterion_expected_output_def criterion_ok_def js_ws_def)

lemma truthy_code_non_blank: "non_blank pre \<Longrightarrow> r \<in> set (truthy_code pre v) \<Longrightarrow> non_blank r"
  by (auto simp: truthy_code_def split: option.splits if_splits)

lemma build_command_fields:
  "cq_identity (build_command_request wo i c s a nk ctx outs) = i"
  "cq_commandRequestId (build_command_request wo i c s a nk ctx outs) = c"
  "cq_parentRunId (build_command_request wo i c s a nk ctx outs) = wo_topologyRunId wo"
  "cq_subSessionId (build_command_request wo i c s a nk ctx outs) = s"
  "cq_targetAgentId (build_command_request wo i c s a nk ctx outs) = a"
  "cq_targetNicknameSnapshot (build_command_request wo i c s a nk ctx outs) = nk"
  "cq_contextPackageIds (build_command_request wo i c s a nk ctx outs) = ctx"
  "cq_expectedOutputs (build_command_request wo i c s a nk ctx outs) = outs"
  by (simp_all add: build_command_request_def Let_def)

lemma build_command_ok:
  assumes "work_order_ok wo" "non_blank key"
  shows "command_ok (build_command_request wo (build_runtime_identity en subSessionId key p ps pss pr au)
      commandRequestId subSessionId agent nick ctx (build_expected_outputs h wo)) \<longleftrightarrow>
    non_blank commandRequestId \<and> non_blank subSessionId \<and> non_blank agent
    \<and> (\<forall>n. nick = Some n \<longrightarrow> non_blank n) \<and> (\<forall>i \<in> set ctx. non_blank i)"
proof -
  have outs: "\<forall>e \<in> set (build_expected_outputs h wo). expected_output_ok e"
    using assms(1) by (simp add: build_expected_outputs_ok work_order_ok_def)
  have codes: "\<forall>r \<in> set (case executor_metadata wo of None \<Rightarrow> []
      | Some y \<Rightarrow> truthy_code ''executor:'' (tx_executorId y) @ truthy_code ''edge:'' (tx_edgeId y)). non_blank r"
    by (auto split: option.splits simp: js_ws_def intro: truthy_code_non_blank[rotated])
  have ids: "non_blank (wo_objective wo)" "non_blank (wo_topologyRunId wo)"
    using assms(1) by (simp_all add: work_order_ok_def)
  have scope: "task_scope_ok (cq_taskScope (build_command_request wo i c s a nk cx (build_expected_outputs h wo)))"
    for i c s a nk cx
    using outs codes ids by (simp add: build_command_request_def Let_def task_scope_ok_def js_ws_def)
  have ident: "identity_ok (build_runtime_identity en subSessionId key p ps pss pr au) \<longleftrightarrow> non_blank subSessionId"
    using assms(2) by (simp add: identity_ok_def build_runtime_identity_def js_ws_def)
  show ?thesis
    unfolding command_ok_def build_command_fields ident using outs ids scope by simp blast
qed

lemma sub_session_key_non_blank [simp]: "non_blank (sub_session_idempotency_key h wo s)"
  by (simp add: sub_session_idempotency_key_def js_ws_def)

text \<open>When the envelope of a work order can be made.\<close>

definition envelope_input_ok :: "envelope_input \<Rightarrow> bool" where
  "envelope_input_ok i \<longleftrightarrow> work_order_ok (ei_workOrder i)
     \<and> wo_to (ei_workOrder i) = \<lparr>wt_type = WT_node, wt_id = be_id (ei_nodeContractSnapshot i)\<rparr>
     \<and> map_of (cs_nodeIndex (ei_compiledTopologySnapshot i)) (be_id (ei_nodeContractSnapshot i)) \<noteq> None
     \<and> ad_allowed (evaluate_authority_preflight (ei_workOrder i) (ei_authorityPreflight i))"

lemma validate_envelope_input_Nil: "validate_envelope_input i = [] \<longleftrightarrow> envelope_input_ok i"
  by (cases "wo_to (ei_workOrder i)")
    (auto simp: validate_envelope_input_def Let_def validate_work_order_iff envelope_input_ok_def)

definition envelope_ids_ok :: "envelope_input \<Rightarrow> bool" where
  "envelope_ids_ok i \<longleftrightarrow>
     (\<forall>v \<in> {ei_commandRequestId i, ei_subSessionId i, ei_contextPackageId i, ei_targetAgentId i, ei_targetNicknameSnapshot i}.
        \<forall>s. v = Some s \<longrightarrow> non_blank s)"

lemma non_blank_opt_or: "non_blank d \<Longrightarrow> non_blank (opt_or v d) \<longleftrightarrow> (\<forall>s. v = Some s \<longrightarrow> non_blank s)"
  by (cases v) auto

lemma create_envelope_ok:
  assumes "envelope_input_ok i"
  shows "\<exists>r. create_envelope h i tick = (r, tick + 1) \<and> (isl r \<longleftrightarrow> \<not> envelope_ids_ok i)"
proof -
  let ?wo = "ei_workOrder i"
  have wo: "work_order_ok ?wo" "non_blank (be_id (ei_nodeContractSnapshot i))" "non_blank (wo_workOrderId ?wo)"
    using assms by (auto simp: envelope_input_ok_def work_order_ok_def)
  note valid = assms[folded validate_envelope_input_Nil]
  show ?thesis
    unfolding create_envelope_def Let_def validate_command_iff
    by (auto simp: valid build_command_ok[OF wo(1)] wo non_blank_opt_or envelope_ids_ok_def js_ws_def)
qed

section \<open>Properties\<close>

text \<open>
  C18: on a compiled topology, a node can use the tools that it is allowed and declares by a relation,
  the systems that it is allowed and declares or reaches through a tool, and the data domains of these
  systems. The permission check allows a work order exactly when it asks for nothing else, and names
  what it asks for beyond that. The profile the runtime then executes under has, in its permission
  scope and in its tool and system lists, exactly the part of the request that the node can use, in
  the order of the request; risk level, authority scope and delegation path are those of the work order.
\<close>

theorem permission_decision_exact:
  assumes "distinct (map be_id (tp_nodes tp))" "n \<in> set (tp_nodes tp)"
    and cs_def: "cs = compiled_snapshot sid tp"
    and d_def: "d = check_permission wo n cs"
    and pf_def: "pf = create_profile h wo n cs (pd_effectivePermissionScope d) p t"
    and ask_def: "ask = wo_permissionScope wo"
  shows "(pd_allowed d \<longleftrightarrow> set (ps_allowedToolIds ask) \<subseteq> usable_tools tp n
      \<and> set (ps_allowedSystemIds ask) \<subseteq> usable_systems tp n \<and> set (ps_dataDomainIds ask) \<subseteq> usable_domains tp n)
    \<and> set (pd_missingToolIds d) = set (ps_allowedToolIds ask) - usable_tools tp n
    \<and> set (pd_missingSystemIds d) = set (ps_allowedSystemIds ask) - usable_systems tp n
    \<and> set (pd_missingDataDomainIds d) = set (ps_dataDomainIds ask) - usable_domains tp n
    \<and> pf_permissionScope pf =
        \<lparr>ps_allowedToolIds = filter (\<lambda>x. x \<in> usable_tools tp n) (ps_allowedToolIds ask),
         ps_allowedSystemIds = filter (\<lambda>y. y \<in> usable_systems tp n) (ps_allowedSystemIds ask),
         ps_dataDomainIds = filter (\<lambda>x. x \<in> usable_domains tp n) (ps_dataDomainIds ask),
         ps_riskLevel = ps_riskLevel ask\<rparr>
    \<and> pf_allowedToolIds pf = filter (\<lambda>x. x \<in> usable_tools tp n) (ps_allowedToolIds ask)
    \<and> pf_allowedSystemIds pf = filter (\<lambda>y. y \<in> usable_systems tp n) (ps_allowedSystemIds ask)
    \<and> pf_authorityScope pf = wo_authorityScope wo \<and> pf_delegationPath pf = wo_delegationPath wo"
proof -
  note usable = compiled_allowed[OF assms(1,2), of sid, folded cs_def]
  have "pd_allowed d \<longleftrightarrow> set (ps_allowedToolIds ask) \<subseteq> usable_tools tp n
      \<and> set (ps_allowedSystemIds ask) \<subseteq> usable_systems tp n \<and> set (ps_dataDomainIds ask) \<subseteq> usable_domains tp n"
    by (simp add: d_def ask_def check_permission_allowed usable)
  moreover have "set (pd_missingToolIds d) = set (ps_allowedToolIds ask) - usable_tools tp n"
    "set (pd_missingSystemIds d) = set (ps_allowedSystemIds ask) - usable_systems tp n"
    "set (pd_missingDataDomainIds d) = set (ps_dataDomainIds ask) - usable_domains tp n"
    unfolding d_def ask_def check_permission_missing by (auto simp: usable)
  ultimately show ?thesis
    by (simp add: pf_def d_def ask_def create_profile_def derive_effective_scope_fields intersect_stable_def usable)
qed

definition sample_request :: work_order where
  "sample_request = \<lparr>wo_workOrderId = ''w'', wo_topologyRunId = ''run'', wo_parentWorkOrderId = None,
     wo_fromNodeId = ''user'', wo_to = \<lparr>wt_type = WT_node, wt_id = ''a''\<rparr>, wo_objective = ''report'',
     wo_scope = \<lparr>sc_included = [], sc_excluded = []\<rparr>, wo_input = JObj [], wo_expectedOutputSchema = JObj [],
     wo_successCriteria = [],
     wo_permissionScope = \<lparr>ps_allowedToolIds = [''u'', ''t''], ps_allowedSystemIds = [''z'', ''y''],
       ps_dataDomainIds = [''d'', ''e''], ps_riskLevel = Some RL_high\<rparr>,
     wo_authorityScope = \<lparr>as_requiredAuthorityRuleIds = [], as_approvalRequired = False, as_approvedBy = None\<rparr>,
     wo_failureReportRequired = True, wo_delegationPath = [''a''], wo_createdAt = TNum (Fin 0)\<rparr>"

lemma sample_usable:
  fixes n :: node_contract
  defines "n \<equiv> sample_node ''a'' [''b''] [''t'', ''u''] [''y'', ''z'']"
  shows "''t'' \<in> usable_tools sample_topology n" "''u'' \<notin> usable_tools sample_topology n"
    "''y'' \<in> usable_systems sample_topology n" "''z'' \<notin> usable_systems sample_topology n"
    "''d'' \<in> usable_domains sample_topology n" "''e'' \<notin> usable_domains sample_topology n"
proof -
  have distinct: "distinct (map be_id (tp_nodes sample_topology))" "n \<in> set (tp_nodes sample_topology)"
    by (simp_all add: sample_topology_nodes n_def)
  note usable = compiled_allowed[OF this, of "[]", symmetric]
  show "''t'' \<in> usable_tools sample_topology n" "''u'' \<notin> usable_tools sample_topology n"
    "''y'' \<in> usable_systems sample_topology n" "''z'' \<notin> usable_systems sample_topology n"
    "''d'' \<in> usable_domains sample_topology n" "''e'' \<notin> usable_domains sample_topology n"
    unfolding usable unfolding n_def by code_simp+
qed

text \<open>Of two tools, two systems and two domains, the coordinator \<open>a\<close> is left one each.\<close>

theorem permission_decision_exact_witness:
  "\<exists>n cs d. n = sample_node ''a'' [''b''] [''t'', ''u''] [''y'', ''z''] \<and> cs = compiled_snapshot ''s'' sample_topology
     \<and> d = check_permission sample_request n cs \<and> \<not> pd_allowed d
     \<and> set (pd_missingToolIds d) = {''u''} \<and> set (pd_missingSystemIds d) = {''z''}
     \<and> set (pd_missingDataDomainIds d) = {''e''}
     \<and> (\<forall>h. pf_permissionScope (create_profile h sample_request n cs (pd_effectivePermissionScope d) None (TNum (Fin 0)))
        = \<lparr>ps_allowedToolIds = [''t''], ps_allowedSystemIds = [''y''], ps_dataDomainIds = [''d''],
           ps_riskLevel = Some RL_high\<rparr>)"
proof -
  let ?n = "sample_node ''a'' [''b''] [''t'', ''u''] [''y'', ''z'']"
  have "distinct (map be_id (tp_nodes sample_topology))" "?n \<in> set (tp_nodes sample_topology)"
    by (simp_all add: sample_topology_nodes)
  note exact = permission_decision_exact[OF this refl refl refl refl, where sid = "''s''" and wo = sample_request
      and p = None and t = "TNum (Fin 0)"]
  let ?d = "check_permission sample_request ?n (compiled_snapshot ''s'' sample_topology)"
  have "\<not> pd_allowed ?d \<and> set (pd_missingToolIds ?d) = {''u''} \<and> set (pd_missingSystemIds ?d) = {''z''}
      \<and> set (pd_missingDataDomainIds ?d) = {''e''}
      \<and> pf_permissionScope (create_profile h sample_request ?n (compiled_snapshot ''s'' sample_topology)
            (pd_effectivePermissionScope ?d) None (TNum (Fin 0)))
        = \<lparr>ps_allowedToolIds = [''t''], ps_allowedSystemIds = [''y''], ps_dataDomainIds = [''d''],
           ps_riskLevel = Some RL_high\<rparr>" for h
    using exact[of h] sample_usable
    by (simp add: sample_request_def insert_Diff_if)
  then show ?thesis by (intro exI conjI allI refl) blast+
qed

text \<open>
  The authority preflight allows a work order exactly when no rule was denied, every required
  rule was granted and, where approval is required, somebody approved.
\<close>

lemma authority_decision_exact:
  "ad_allowed (evaluate_authority_preflight wo pre) \<longleftrightarrow>
     opt_or (pi_deniedAuthorityRuleIds (opt_or pre empty_preflight)) [] = []
     \<and> set (as_requiredAuthorityRuleIds (wo_authorityScope wo))
         \<subseteq> set (opt_or (pi_grantedAuthorityRuleIds (opt_or pre empty_preflight)) [])
     \<and> (if as_approvalRequired (wo_authorityScope wo)
         then opt_or (pi_approvedBy (opt_or pre empty_preflight)) (opt_or (as_approvedBy (wo_authorityScope wo)) []) \<noteq> []
         else True)"
  by (simp add: evaluate_authority_allowed)

text \<open>
  C7: an envelope is created exactly for a well-formed work order whose target is the given node, the
  node being compiled and the authority preflight allowing it, provided no identifier the caller
  supplies is blank: past the first validation the command request the code builds never fails its
  own validation for another reason.
\<close>

theorem create_envelope_succeeds_iff:
  "(\<exists>e. fst (create_envelope h i tick) = Inr e) \<longleftrightarrow> envelope_input_ok i \<and> envelope_ids_ok i"
proof (cases "envelope_input_ok i")
  case True
  then obtain r where "create_envelope h i tick = (r, tick + 1)" "isl r \<longleftrightarrow> \<not> envelope_ids_ok i"
    using create_envelope_ok by blast
  then show ?thesis using True by (cases r) auto
next
  case False
  then show ?thesis by (simp add: create_envelope_def Let_def validate_envelope_input_Nil)
qed

end
