(* ===== verification/Delegation.thy ===== *)
theory Delegation
  imports Work_Order
begin

text \<open>
  \<open>topology-runtime/delegation-planner.ts\<close>: which direct children of a node receive a child work
  order, the work order each of them receives, and the delegation depth read off the delegation
  path. A \<open>Record<string, T>\<close> option that is absent is an empty map here, which every lookup treats
  alike.
\<close>

section \<open>Data\<close>

datatype plan_status = DP_planned | DP_partial | DP_blocked | DP_skipped

record plan_issue =
  dp_code :: string
  dp_message :: string
  dp_parentNodeId :: string
  dp_childNodeId :: "string option"

record child_candidate =
  cc_parentNodeId :: string
  cc_childNode :: compiled_node
  cc_delegationDepth :: nat
  cc_reasonCodes :: "string list"

record planned_child =
  pc_parentNodeId :: string
  pc_childNodeId :: string
  pc_childNode :: compiled_node
  pc_workOrder :: work_order
  pc_delegationDepth :: nat
  pc_reasonCodes :: "string list"

record delegation_plan =
  pl_ok :: bool
  pl_status :: plan_status
  pl_parentNodeId :: string
  pl_parentWorkOrderId :: string
  pl_parentDelegationDepth :: nat
  pl_childDelegationDepth :: nat
  pl_maxDelegationDepth :: nat
  pl_directChildCandidates :: "child_candidate list"
  pl_childWorkOrders :: "planned_child list"
  pl_skipped :: "plan_issue list"
  pl_reasonCodes :: "string list"

record plan_input =
  ci_compiledTopologySnapshot :: compiled_topology
  ci_parentWorkOrder :: work_order
  ci_parentNodeId :: "string option"
  ci_targetChildNodeIds :: "string list option"
  ci_maxDelegationDepth :: "jsnum option"
  ci_childObjectiveByNodeId :: "(string, string) jsmap"
  ci_childInputByNodeId :: "(string, json) jsmap"
  ci_childWorkOrderIdByNodeId :: "(string, string) jsmap"

section \<open>Delegation depth\<close>

fun last_index_of :: "'a list \<Rightarrow> 'a \<Rightarrow> nat option" where
  "last_index_of [] x = None"
| "last_index_of (y # ys) x =
     (case last_index_of ys x of Some i \<Rightarrow> Some (Suc i) | None \<Rightarrow> if y = x then Some 0 else None)"

definition node_path :: "work_order \<Rightarrow> string list" where
  "node_path wo = filter (starts_with ''node:'') (wo_delegationPath wo)"

definition delegation_depth :: "work_order \<Rightarrow> nat" where
  "delegation_depth wo =
     (let path = node_path wo in
      case last_index_of path (wt_id (wo_to wo)) of
        None \<Rightarrow> length path - 1
      | Some i \<Rightarrow> i - (if length path > 1 \<and> hd path \<noteq> wt_id (wo_to wo) then 1 else 0))"

definition default_max_delegation_depth :: nat where
  "default_max_delegation_depth = 5"

definition normalized_max_depth :: "jsnum option \<Rightarrow> nat" where
  "normalized_max_depth v = (case v of
     Some (Fin r) \<Rightarrow> if r < 0 then default_max_delegation_depth else nat \<lfloor>r\<rfloor>
   | _ \<Rightarrow> default_max_delegation_depth)"

section \<open>Child work orders\<close>

definition id_char_ok :: "char \<Rightarrow> bool" where
  "id_char_ok c = (let n = of_char c :: nat in
     48 \<le> n \<and> n \<le> 57 \<or> 65 \<le> n \<and> n \<le> 90 \<or> 97 \<le> n \<and> n \<le> 122 \<or> n = 58 \<or> n = 95 \<or> n = 45)"

definition build_child_work_order_id :: "work_order \<Rightarrow> string \<Rightarrow> string" where
  "build_child_work_order_id parent childNodeId =
     wo_workOrderId parent @ '':child:'' @ map (\<lambda>c. if id_char_ok c then c else CHR ''_'') childNodeId"

definition narrow_scope_to_child :: "permission_scope \<Rightarrow> compiled_node \<Rightarrow> permission_scope" where
  "narrow_scope_to_child ps child =
     \<lparr>ps_allowedToolIds = filter (\<lambda>t. t \<in> set (cn_allowedToolIds child)) (ps_allowedToolIds ps),
      ps_allowedSystemIds = filter (\<lambda>y. y \<in> set (cn_allowedSystemIds child)) (ps_allowedSystemIds ps),
      ps_dataDomainIds = ps_dataDomainIds ps,
      ps_riskLevel = ps_riskLevel ps\<rparr>"

definition append_delegation_path :: "string list \<Rightarrow> string \<Rightarrow> string list" where
  "append_delegation_path path childNodeId =
     (if path \<noteq> [] \<and> last path = childNodeId then path else path @ [childNodeId])"

definition build_child_work_order ::
  "work_order \<Rightarrow> string \<Rightarrow> compiled_node \<Rightarrow> string option \<Rightarrow> json option \<Rightarrow> string option \<Rightarrow> timestamp \<Rightarrow> work_order" where
  "build_child_work_order parent parentNodeId child objective inp workOrderId createdAt =
     build_work_order
       \<lparr>wo_workOrderId = opt_or workOrderId (build_child_work_order_id parent (cn_id child)),
        wo_topologyRunId = wo_topologyRunId parent,
        wo_parentWorkOrderId = Some (wo_workOrderId parent),
        wo_fromNodeId = parentNodeId,
        wo_to = \<lparr>wt_type = WT_node, wt_id = cn_id child\<rparr>,
        wo_objective = opt_or objective (wo_objective parent),
        wo_scope = wo_scope parent,
        wo_input = opt_or inp (wo_input parent),
        wo_expectedOutputSchema = wo_expectedOutputSchema parent,
        wo_successCriteria = wo_successCriteria parent,
        wo_permissionScope = narrow_scope_to_child (wo_permissionScope parent) child,
        wo_authorityScope = wo_authorityScope parent,
        wo_failureReportRequired = wo_failureReportRequired parent,
        wo_delegationPath = append_delegation_path (wo_delegationPath parent) (cn_id child),
        wo_createdAt = createdAt\<rparr>"

section \<open>Planning\<close>

definition list_direct_child_candidates ::
  "compiled_topology \<Rightarrow> string \<Rightarrow> work_order \<Rightarrow> child_candidate list" where
  "list_direct_child_candidates cs parentNodeId parent =
     map (\<lambda>child. \<lparr>cc_parentNodeId = parentNodeId, cc_childNode = child,
         cc_delegationDepth = delegation_depth parent + 1,
         cc_reasonCodes = [''compiled_direct_child_candidate'', ''parent_node:'' @ parentNodeId,
           ''child_node:'' @ cn_id child]\<rparr>)
       (get_compiled_child_candidates cs parentNodeId)"

definition is_descendant_but_not_direct :: "compiled_topology \<Rightarrow> string \<Rightarrow> string \<Rightarrow> bool" where
  "is_descendant_but_not_direct cs parentNodeId childNodeId =
     (case map_of (cs_delegationScopeMap cs) parentNodeId of
        None \<Rightarrow> False
      | Some sc \<Rightarrow> childNodeId \<in> set (ds_descendantNodeIds sc) \<and> childNodeId \<notin> set (ds_directChildNodeIds sc))"

definition finalize_plan ::
  "plan_status \<Rightarrow> string \<Rightarrow> work_order \<Rightarrow> nat \<Rightarrow> nat \<Rightarrow> child_candidate list \<Rightarrow> planned_child list \<Rightarrow>
   plan_issue list \<Rightarrow> string list \<Rightarrow> delegation_plan" where
  "finalize_plan statusWhenNoChild parentNodeId parent parentDepth maxDepth candidates planned skipped codes =
     (let status = (if planned \<noteq> [] \<and> skipped \<noteq> [] then DP_partial
                    else if planned \<noteq> [] then DP_planned else statusWhenNoChild)
      in \<lparr>pl_ok = (planned \<noteq> [] \<or> status = DP_skipped),
          pl_status = status,
          pl_parentNodeId = parentNodeId,
          pl_parentWorkOrderId = wo_workOrderId parent,
          pl_parentDelegationDepth = parentDepth,
          pl_childDelegationDepth = parentDepth + 1,
          pl_maxDelegationDepth = maxDepth,
          pl_directChildCandidates = candidates,
          pl_childWorkOrders = planned,
          pl_skipped = skipped,
          pl_reasonCodes = uniq codes\<rparr>)"

text \<open>One iteration of the planning loop: the issue that skips the child, or its planned work order.\<close>

definition plan_one_child ::
  "host \<Rightarrow> plan_input \<Rightarrow> string \<Rightarrow> string set \<Rightarrow> nat \<Rightarrow> string \<Rightarrow> nat \<Rightarrow> plan_issue + planned_child" where
  "plan_one_child h i parentNodeId directChildIds maxDepth childNodeId tick =
     (let cs = ci_compiledTopologySnapshot i;
          parent = ci_parentWorkOrder i;
          childDepth = delegation_depth parent + 1;
          skip = (\<lambda>code message. Inl \<lparr>dp_code = code, dp_message = message, dp_parentNodeId = parentNodeId,
            dp_childNodeId = Some childNodeId\<rparr>)
      in case map_of (cs_nodeIndex cs) childNodeId of
           None \<Rightarrow> skip ''child_node_missing'' ''Requested child node is not present in compiled topology snapshot.''
         | Some childNode \<Rightarrow>
             if childNodeId \<notin> directChildIds then
               skip (if is_descendant_but_not_direct cs parentNodeId childNodeId
                     then ''grandchild_direct_delegation_forbidden'' else ''not_direct_child'')
                 ''Topology runtime can delegate only to compiled direct child nodes.''
             else if childDepth > maxDepth then
               skip ''max_delegation_depth_exceeded'' ''Delegation depth exceeds the topology runtime depth guard.''
             else
               let wo = build_child_work_order parent parentNodeId childNode
                     (map_of (ci_childObjectiveByNodeId i) childNodeId)
                     (map_of (ci_childInputByNodeId i) childNodeId)
                     (map_of (ci_childWorkOrderIdByNodeId i) childNodeId) (clock_time h tick)
               in Inr \<lparr>pc_parentNodeId = parentNodeId, pc_childNodeId = childNodeId, pc_childNode = childNode,
                    pc_workOrder = wo, pc_delegationDepth = childDepth,
                    pc_reasonCodes = [''child_work_order_planned'', ''parent_work_order:'' @ wo_workOrderId parent,
                      ''child_work_order:'' @ wo_workOrderId wo]\<rparr>)"

text \<open>The loop over the requested children; only a planned child reads the clock.\<close>

fun plan_children ::
  "host \<Rightarrow> plan_input \<Rightarrow> string \<Rightarrow> string set \<Rightarrow> nat \<Rightarrow> string list \<Rightarrow> nat \<Rightarrow>
   planned_child list \<times> plan_issue list \<times> nat" where
  "plan_children h i p direct maxDepth [] tick = ([], [], tick)"
| "plan_children h i p direct maxDepth (c # ids) tick =
     (case plan_one_child h i p direct maxDepth c tick of
        Inl skip \<Rightarrow> (let (planned, skipped, tick') = plan_children h i p direct maxDepth ids tick
                      in (planned, skip # skipped, tick'))
      | Inr child \<Rightarrow> (let (planned, skipped, tick') = plan_children h i p direct maxDepth ids (tick + 1)
                      in (child # planned, skipped, tick')))"

definition plan_child_delegation :: "host \<Rightarrow> plan_input \<Rightarrow> nat \<Rightarrow> delegation_plan \<times> nat" where
  "plan_child_delegation h i tick =
     (let cs = ci_compiledTopologySnapshot i;
          parent = ci_parentWorkOrder i;
          parentNodeId = opt_or (ci_parentNodeId i) (wt_id (wo_to parent));
          parentDepth = delegation_depth parent;
          maxDepth = normalized_max_depth (ci_maxDelegationDepth i)
      in if map_of (cs_nodeIndex cs) parentNodeId = None then
           (finalize_plan DP_blocked parentNodeId parent parentDepth maxDepth [] []
              [\<lparr>dp_code = ''parent_node_missing'',
                dp_message = ''Parent node is not present in compiled topology snapshot.'',
                dp_parentNodeId = parentNodeId, dp_childNodeId = None\<rparr>]
              [''parent_node_missing''], tick)
         else
           let candidates = list_direct_child_candidates cs parentNodeId parent;
               directIds = map (\<lambda>c. cn_id (cc_childNode c)) candidates;
               requested = opt_or (ci_targetChildNodeIds i) directIds
           in if requested = [] then
                (finalize_plan DP_skipped parentNodeId parent parentDepth maxDepth candidates []
                   [\<lparr>dp_code = ''no_direct_child_candidates'',
                     dp_message = ''Parent node has no direct child candidates to delegate.'',
                     dp_parentNodeId = parentNodeId, dp_childNodeId = None\<rparr>]
                   [''no_direct_child_candidates''], tick)
              else
                let (planned, skipped, tick') = plan_children h i parentNodeId (set directIds) maxDepth requested tick
                in (finalize_plan DP_blocked parentNodeId parent parentDepth maxDepth candidates planned skipped
                      ([''compiled_direct_child_delegation_checked'']
                       @ (if planned \<noteq> [] then [''child_work_orders_planned''] else [])
                       @ map dp_code skipped), tick'))"

fun is_child_failure_status :: "result_status \<Rightarrow> bool" where
  "is_child_failure_status RS_failed = True"
| "is_child_failure_status RS_failed_candidate = True"
| "is_child_failure_status RS_permission_limited = True"
| "is_child_failure_status _ = False"

section \<open>Lemmas on the plan\<close>

text \<open>The node the plan is made for, its direct children, what is requested, and what may be planned.\<close>

definition plan_parent :: "plan_input \<Rightarrow> string" where
  "plan_parent i = opt_or (ci_parentNodeId i) (wt_id (wo_to (ci_parentWorkOrder i)))"

definition plan_direct_ids :: "plan_input \<Rightarrow> string list" where
  "plan_direct_ids i = map cn_id (get_compiled_child_candidates (ci_compiledTopologySnapshot i) (plan_parent i))"

definition plan_requested :: "plan_input \<Rightarrow> string list" where
  "plan_requested i = opt_or (ci_targetChildNodeIds i) (plan_direct_ids i)"

definition delegable :: "plan_input \<Rightarrow> string \<Rightarrow> bool" where
  "delegable i c \<longleftrightarrow> map_of (cs_nodeIndex (ci_compiledTopologySnapshot i)) c \<noteq> None
     \<and> c \<in> set (plan_direct_ids i)
     \<and> delegation_depth (ci_parentWorkOrder i) + 1 \<le> normalized_max_depth (ci_maxDelegationDepth i)"

definition parent_compiled :: "plan_input \<Rightarrow> bool" where
  "parent_compiled i \<longleftrightarrow> map_of (cs_nodeIndex (ci_compiledTopologySnapshot i)) (plan_parent i) \<noteq> None"

definition child_work_order_of :: "host \<Rightarrow> plan_input \<Rightarrow> string \<Rightarrow> compiled_node \<Rightarrow> nat \<Rightarrow> work_order" where
  "child_work_order_of h i c child tick = build_child_work_order (ci_parentWorkOrder i) (plan_parent i) child
     (map_of (ci_childObjectiveByNodeId i) c) (map_of (ci_childInputByNodeId i) c)
     (map_of (ci_childWorkOrderIdByNodeId i) c) (clock_time h tick)"

abbreviation plan_one :: "host \<Rightarrow> plan_input \<Rightarrow> string \<Rightarrow> nat \<Rightarrow> plan_issue + planned_child" where
  "plan_one h i c tick \<equiv> plan_one_child h i (plan_parent i) (set (plan_direct_ids i))
     (normalized_max_depth (ci_maxDelegationDepth i)) c tick"

lemma plan_one_Inr:
  "plan_one h i c tick = Inr pc \<longleftrightarrow> delegable i c \<and> (\<exists>child.
     map_of (cs_nodeIndex (ci_compiledTopologySnapshot i)) c = Some child \<and>
     pc = \<lparr>pc_parentNodeId = plan_parent i, pc_childNodeId = c, pc_childNode = child,
       pc_workOrder = child_work_order_of h i c child tick,
       pc_delegationDepth = delegation_depth (ci_parentWorkOrder i) + 1,
       pc_reasonCodes = [''child_work_order_planned'',
         ''parent_work_order:'' @ wo_workOrderId (ci_parentWorkOrder i),
         ''child_work_order:'' @ wo_workOrderId (child_work_order_of h i c child tick)]\<rparr>)"
  by (auto simp: plan_one_child_def Let_def delegable_def child_work_order_of_def split: option.splits if_splits)

lemma plan_one_Inl: "plan_one h i c tick = Inl iss \<Longrightarrow> \<not> delegable i c \<and> dp_childNodeId iss = Some c"
  by (auto simp: plan_one_child_def Let_def delegable_def split: option.splits if_splits)

abbreviation plan_loop :: "host \<Rightarrow> plan_input \<Rightarrow> string list \<Rightarrow> nat \<Rightarrow> planned_child list \<times> plan_issue list \<times> nat" where
  "plan_loop h i ids tick \<equiv> plan_children h i (plan_parent i) (set (plan_direct_ids i))
     (normalized_max_depth (ci_maxDelegationDepth i)) ids tick"

lemma plan_loop_split:
  "plan_loop h i ids tick = (planned, skipped, tick') \<Longrightarrow>
     map pc_childNodeId planned = filter (delegable i) ids
     \<and> map dp_childNodeId skipped = map Some (filter (\<lambda>c. \<not> delegable i c) ids)
     \<and> tick' = tick + length planned
     \<and> (\<forall>pc \<in> set planned. \<exists>t. plan_one h i (pc_childNodeId pc) t = Inr pc)"
proof (induction ids arbitrary: tick planned skipped tick')
  case (Cons c ids)
  show ?case
  proof (cases "plan_one h i c tick")
    case (Inl iss)
    from Cons.prems Inl obtain sk where
      rest: "plan_loop h i ids tick = (planned, sk, tick')" "skipped = iss # sk"
      by (auto split: prod.splits)
    from Cons.IH[OF rest(1)] plan_one_Inl[OF Inl] show ?thesis by (simp add: rest(2))
  next
    case (Inr pc)
    from Cons.prems Inr obtain pl where
      rest: "plan_loop h i ids (tick + 1) = (pl, skipped, tick')" "planned = pc # pl"
      by (auto split: prod.splits)
    from Inr have pc: "delegable i c" "pc_childNodeId pc = c"
      by (auto simp: plan_one_Inr)
    have "\<exists>t. plan_one h i (pc_childNodeId pc) t = Inr pc"
      using Inr pc(2) by (intro exI[of _ tick]) simp
    with Cons.IH[OF rest(1)] pc show ?thesis by (simp add: rest(2))
  qed
qed simp

lemma plan_direct_ids_candidates:
  "map (\<lambda>c. cn_id (cc_childNode c))
     (list_direct_child_candidates (ci_compiledTopologySnapshot i) (plan_parent i) (ci_parentWorkOrder i)) =
   plan_direct_ids i"
  by (simp add: list_direct_child_candidates_def plan_direct_ids_def comp_def)

lemma plan_unfold:
  "\<not> parent_compiled i \<Longrightarrow> pl_childWorkOrders (fst (plan_child_delegation h i tick)) = []
     \<and> map dp_childNodeId (pl_skipped (fst (plan_child_delegation h i tick))) = [None]"
  "parent_compiled i \<Longrightarrow> plan_requested i = [] \<Longrightarrow>
     pl_childWorkOrders (fst (plan_child_delegation h i tick)) = []
     \<and> map dp_childNodeId (pl_skipped (fst (plan_child_delegation h i tick))) = [None]"
  "parent_compiled i \<Longrightarrow> plan_requested i \<noteq> [] \<Longrightarrow>
     (\<exists>tick'. plan_loop h i (plan_requested i) tick =
       (pl_childWorkOrders (fst (plan_child_delegation h i tick)),
        pl_skipped (fst (plan_child_delegation h i tick)), tick'))"
  unfolding plan_child_delegation_def Let_def plan_direct_ids_candidates
    plan_parent_def[symmetric] plan_requested_def[symmetric] parent_compiled_def finalize_plan_def
  by (auto split: prod.split simp: plan_direct_ids_candidates plan_requested_def[symmetric])

lemma planned_child_cases:
  assumes "pc \<in> set (pl_childWorkOrders (fst (plan_child_delegation h i tick)))"
  obtains child t where "parent_compiled i" "delegable i (pc_childNodeId pc)"
    "map_of (cs_nodeIndex (ci_compiledTopologySnapshot i)) (pc_childNodeId pc) = Some child"
    "pc_childNode pc = child" "pc_workOrder pc = child_work_order_of h i (pc_childNodeId pc) child t"
    "pc_delegationDepth pc = delegation_depth (ci_parentWorkOrder i) + 1"
proof -
  have pc: "parent_compiled i" "plan_requested i \<noteq> []"
    using assms plan_unfold(1,2)[of i h tick] by (metis empty_iff empty_set)+
  then obtain t where "plan_one h i (pc_childNodeId pc) t = Inr pc"
    using plan_unfold(3)[OF pc, of h tick] plan_loop_split assms by blast
  then obtain child where c: "delegable i (pc_childNodeId pc)"
    "map_of (cs_nodeIndex (ci_compiledTopologySnapshot i)) (pc_childNodeId pc) = Some child"
    and eq: "pc = \<lparr>pc_parentNodeId = plan_parent i, pc_childNodeId = pc_childNodeId pc, pc_childNode = child,
       pc_workOrder = child_work_order_of h i (pc_childNodeId pc) child t,
       pc_delegationDepth = delegation_depth (ci_parentWorkOrder i) + 1,
       pc_reasonCodes = [''child_work_order_planned'',
         ''parent_work_order:'' @ wo_workOrderId (ci_parentWorkOrder i),
         ''child_work_order:'' @ wo_workOrderId (child_work_order_of h i (pc_childNodeId pc) child t)]\<rparr>"
    unfolding plan_one_Inr by blast
  show thesis
    by (rule that[OF pc(1) c]) (subst eq, simp only: planned_child.simps)+
qed

lemma child_work_order_fields:
  "wo_to (child_work_order_of h i c child t) = \<lparr>wt_type = WT_node, wt_id = cn_id child\<rparr>"
  "wo_topologyRunId (child_work_order_of h i c child t) = wo_topologyRunId (ci_parentWorkOrder i)"
  "wo_parentWorkOrderId (child_work_order_of h i c child t) = Some (wo_workOrderId (ci_parentWorkOrder i))"
  "wo_fromNodeId (child_work_order_of h i c child t) = plan_parent i"
  "wo_successCriteria (child_work_order_of h i c child t) = wo_successCriteria (ci_parentWorkOrder i)"
  "wo_expectedOutputSchema (child_work_order_of h i c child t) = wo_expectedOutputSchema (ci_parentWorkOrder i)"
  "wo_authorityScope (child_work_order_of h i c child t) = wo_authorityScope (ci_parentWorkOrder i)"
  "wo_permissionScope (child_work_order_of h i c child t) =
     narrow_scope_to_child (wo_permissionScope (ci_parentWorkOrder i)) child"
  "wo_delegationPath (child_work_order_of h i c child t) =
     append_delegation_path (wo_delegationPath (ci_parentWorkOrder i)) (cn_id child)"
  by (simp_all add: child_work_order_of_def build_child_work_order_def)

section \<open>Delegation chains\<close>

definition index_consistent :: "compiled_topology \<Rightarrow> bool" where
  "index_consistent cs \<longleftrightarrow> (\<forall>k n. map_of (cs_nodeIndex cs) k = Some n \<longrightarrow> cn_id n = k)"

lemma compiled_index_consistent: "index_consistent (compiled_snapshot sid tp)"
  by (auto simp: index_consistent_def compiled_snapshot_def Let_def build_node_index_def dest!: index_by_Some)

lemma plan_direct_ids_edges:
  assumes "index_consistent (ci_compiledTopologySnapshot i)" "c \<in> set (plan_direct_ids i)"
  shows "c \<in> set (js_lookup (dt_edges (cs_parentChildTree (ci_compiledTopologySnapshot i))) (plan_parent i) [])"
  using assms
  by (auto simp: plan_direct_ids_def get_compiled_child_candidates_def List.map_filter_def index_consistent_def)

text \<open>
  One step of a chain: a work order planned for a child, with the depth limit \<open>M\<close>, by the node the
  parent work order is addressed to.
\<close>

inductive delegates :: "host \<Rightarrow> compiled_topology \<Rightarrow> jsnum option \<Rightarrow> work_order \<Rightarrow> work_order \<Rightarrow> bool"
  for h :: host and cs :: compiled_topology and M :: "jsnum option" where
  delegates_step: "ci_compiledTopologySnapshot i = cs \<Longrightarrow> ci_maxDelegationDepth i = M \<Longrightarrow>
    plan_parent i = wt_id (wo_to (ci_parentWorkOrder i)) \<Longrightarrow>
    pc \<in> set (pl_childWorkOrders (fst (plan_child_delegation h i tick))) \<Longrightarrow>
    delegates h cs M (ci_parentWorkOrder i) (pc_workOrder pc)"

inductive_cases delegatesE: "delegates h cs M wo wo'"

lemma delegates_facts:
  assumes "delegates h cs M wo wo'" "index_consistent cs"
  obtains child where "map_of (cs_nodeIndex cs) (wt_id (wo_to wo')) = Some child"
    "wo_to wo' = \<lparr>wt_type = WT_node, wt_id = cn_id child\<rparr>"
    "wt_id (wo_to wo') \<in> set (js_lookup (dt_edges (cs_parentChildTree cs)) (wt_id (wo_to wo)) [])"
    "delegation_depth wo + 1 \<le> normalized_max_depth M"
    "wo_permissionScope wo' = narrow_scope_to_child (wo_permissionScope wo) child"
    "wo_authorityScope wo' = wo_authorityScope wo" "wo_topologyRunId wo' = wo_topologyRunId wo"
    "wo_successCriteria wo' = wo_successCriteria wo"
    "wo_parentWorkOrderId wo' = Some (wo_workOrderId wo)"
    "wo_delegationPath wo' = append_delegation_path (wo_delegationPath wo) (wt_id (wo_to wo'))"
proof -
  from assms(1) obtain i pc tick where d: "ci_compiledTopologySnapshot i = cs" "ci_maxDelegationDepth i = M"
    "plan_parent i = wt_id (wo_to (ci_parentWorkOrder i))" "wo = ci_parentWorkOrder i" "wo' = pc_workOrder pc"
    "pc \<in> set (pl_childWorkOrders (fst (plan_child_delegation h i tick)))"
    by (rule delegatesE) blast
  from d(6) obtain child t where pc: "delegable i (pc_childNodeId pc)"
    "map_of (cs_nodeIndex cs) (pc_childNodeId pc) = Some child"
    "pc_workOrder pc = child_work_order_of h i (pc_childNodeId pc) child t"
    by (rule planned_child_cases) (simp add: d(1))
  have cid: "cn_id child = pc_childNodeId pc"
    using assms(2) pc(2) by (auto simp: index_consistent_def)
  have edge: "pc_childNodeId pc \<in> set (js_lookup (dt_edges (cs_parentChildTree cs)) (wt_id (wo_to wo)) [])"
    using plan_direct_ids_edges[of i "pc_childNodeId pc"] assms(2) pc(1) d by (simp add: delegable_def)
  have depth: "delegation_depth wo + 1 \<le> normalized_max_depth M"
    using pc(1) d by (simp add: delegable_def)
  show thesis
    by (rule that[of child]) (use edge depth in \<open>simp_all add: pc(2,3) cid d(4,5) child_work_order_fields\<close>)
qed

lemma delegates_chain:
  assumes "(delegates h cs M)\<^sup>*\<^sup>* wo wo'" "index_consistent cs"
  shows "set (ps_allowedToolIds (wo_permissionScope wo')) \<subseteq> set (ps_allowedToolIds (wo_permissionScope wo))
    \<and> set (ps_allowedSystemIds (wo_permissionScope wo')) \<subseteq> set (ps_allowedSystemIds (wo_permissionScope wo))
    \<and> ps_dataDomainIds (wo_permissionScope wo') = ps_dataDomainIds (wo_permissionScope wo)
    \<and> wo_authorityScope wo' = wo_authorityScope wo \<and> wo_topologyRunId wo' = wo_topologyRunId wo
    \<and> wo_successCriteria wo' = wo_successCriteria wo
    \<and> (\<exists>suffix. wo_delegationPath wo' = wo_delegationPath wo @ suffix)"
  using assms(1)
proof (induction rule: rtranclp_induct)
  case (step y z)
  from step(2) assms(2) obtain child where
    "wo_permissionScope z = narrow_scope_to_child (wo_permissionScope y) child"
    "wo_authorityScope z = wo_authorityScope y" "wo_topologyRunId z = wo_topologyRunId y"
    "wo_successCriteria z = wo_successCriteria y"
    "wo_delegationPath z = append_delegation_path (wo_delegationPath y) (wt_id (wo_to z))"
    by (rule delegates_facts)
  with step.IH show ?case
    by (auto simp: narrow_scope_to_child_def append_delegation_path_def)
qed simp

section \<open>Depth of a chain\<close>

lemma last_index_of_last: "xs \<noteq> [] \<Longrightarrow> last_index_of xs (last xs) = Some (length xs - 1)"
  by (induction xs) (auto split: option.splits)

definition path_ends_at_target :: "work_order \<Rightarrow> bool" where
  "path_ends_at_target wo \<longleftrightarrow> node_path wo \<noteq> [] \<and> last (node_path wo) = wt_id (wo_to wo)
     \<and> last (wo_delegationPath wo) = wt_id (wo_to wo)"

lemma delegation_depth_lower: "path_ends_at_target wo \<Longrightarrow> length (node_path wo) \<le> delegation_depth wo + 2"
  using last_index_of_last[of "node_path wo"]
  by (auto simp: delegation_depth_def path_ends_at_target_def Let_def)

definition ids_prefixed :: "compiled_topology \<Rightarrow> bool" where
  "ids_prefixed cs \<longleftrightarrow> (\<forall>k \<in> fst ` set (cs_nodeIndex cs). starts_with ''node:'' k)"

definition ids_unprefixed :: "compiled_topology \<Rightarrow> bool" where
  "ids_unprefixed cs \<longleftrightarrow> (\<forall>k \<in> fst ` set (cs_nodeIndex cs). \<not> starts_with ''node:'' k)"

definition no_self_edges :: "compiled_topology \<Rightarrow> bool" where
  "no_self_edges cs \<longleftrightarrow> (\<forall>a. a \<notin> set (js_lookup (dt_edges (cs_parentChildTree cs)) a []))"

lemma map_of_key: "map_of m k = Some v \<Longrightarrow> k \<in> fst ` set m"
  by (force dest: map_of_SomeD)

lemma delegates_path_grows:
  assumes "delegates h cs M wo wo'" "index_consistent cs" "ids_prefixed cs" "no_self_edges cs" "path_ends_at_target wo"
  shows "path_ends_at_target wo'" "length (node_path wo') = length (node_path wo) + 1"
    "length (node_path wo') \<le> normalized_max_depth M + 2"
proof -
  from assms(1,2) obtain child where step: "map_of (cs_nodeIndex cs) (wt_id (wo_to wo')) = Some child"
    "wt_id (wo_to wo') \<in> set (js_lookup (dt_edges (cs_parentChildTree cs)) (wt_id (wo_to wo)) [])"
    "delegation_depth wo + 1 \<le> normalized_max_depth M"
    "wo_delegationPath wo' = append_delegation_path (wo_delegationPath wo) (wt_id (wo_to wo'))"
    by (rule delegates_facts)
  have "wt_id (wo_to wo') \<noteq> wt_id (wo_to wo)"
    using step(2) assms(4) unfolding no_self_edges_def by metis
  moreover have "starts_with ''node:'' (wt_id (wo_to wo'))"
    using map_of_key[OF step(1)] assms(3) unfolding ids_prefixed_def by blast
  ultimately have ne: "wt_id (wo_to wo') \<noteq> wt_id (wo_to wo)" "starts_with ''node:'' (wt_id (wo_to wo'))" by auto
  have path: "node_path wo' = node_path wo @ [wt_id (wo_to wo')]"
    using ne assms(5) by (simp add: node_path_def step(4) append_delegation_path_def path_ends_at_target_def)
  then show "length (node_path wo') = length (node_path wo) + 1" by simp
  show "path_ends_at_target wo'"
    using path ne assms(5) by (auto simp: path_ends_at_target_def step(4) append_delegation_path_def)
  show "length (node_path wo') \<le> normalized_max_depth M + 2"
    using path delegation_depth_lower[OF assms(5)] step(3) by simp
qed

lemma delegates_chain_length:
  assumes "(delegates h cs M ^^ n) wo wo'" "index_consistent cs" "ids_prefixed cs" "no_self_edges cs"
    and "path_ends_at_target wo"
  shows "path_ends_at_target wo' \<and> length (node_path wo') = length (node_path wo) + n
    \<and> (n = 0 \<or> length (node_path wo') \<le> normalized_max_depth M + 2)"
  using assms(1)
proof (induction n arbitrary: wo')
  case (Suc n)
  then obtain y where y: "(delegates h cs M ^^ n) wo y" "delegates h cs M y wo'" by auto
  with Suc.IH[OF y(1)] delegates_path_grows[OF y(2) assms(2-4)] show ?case by simp
qed (use assms(5) in simp)

lemma unprefixed_depth: "node_path wo = [] \<Longrightarrow> delegation_depth wo = 0"
  by (simp add: delegation_depth_def)

lemma unprefixed_chain:
  assumes "(delegates h cs M)\<^sup>*\<^sup>* wo wo'" "index_consistent cs" "ids_unprefixed cs" "node_path wo = []"
  shows "node_path wo' = []"
  using assms(1)
proof (induction rule: rtranclp_induct)
  case (step y z)
  from step(2) assms(2) obtain child where z: "map_of (cs_nodeIndex cs) (wt_id (wo_to z)) = Some child"
    "wo_delegationPath z = append_delegation_path (wo_delegationPath y) (wt_id (wo_to z))"
    by (rule delegates_facts)
  then have "\<not> starts_with ''node:'' (wt_id (wo_to z))"
    using assms(3) map_of_key[OF z(1)] by (auto simp: ids_unprefixed_def)
  with step.IH show ?case by (auto simp: node_path_def z(2) append_delegation_path_def)
qed (use assms(4) in simp)

section \<open>A sample delegation\<close>

definition sample_host :: host where
  "sample_host = \<lparr>h_sha256 = (\<lambda>s. s), h_locale_compare = (\<lambda>a b. int (length a) - int (length b)),
     h_num_text = (\<lambda>n. ''0''), h_clock = int\<rparr>"

definition sample_work_order :: "string \<Rightarrow> work_order" where
  "sample_work_order n = \<lparr>wo_workOrderId = ''w'', wo_topologyRunId = ''run'', wo_parentWorkOrderId = None,
     wo_fromNodeId = ''user'', wo_to = \<lparr>wt_type = WT_node, wt_id = n\<rparr>, wo_objective = ''do'',
     wo_scope = \<lparr>sc_included = [], sc_excluded = []\<rparr>, wo_input = JObj [], wo_expectedOutputSchema = JObj [],
     wo_successCriteria = [\<lparr>cr_criterionId = ''done'', cr_description = ''it is done'', cr_required = True,
       cr_validationKind = VK_manual, cr_metadata = JUndef\<rparr>],
     wo_permissionScope = \<lparr>ps_allowedToolIds = [''t''], ps_allowedSystemIds = [], ps_dataDomainIds = [],
       ps_riskLevel = None\<rparr>,
     wo_authorityScope = \<lparr>as_requiredAuthorityRuleIds = [], as_approvalRequired = False, as_approvedBy = None\<rparr>,
     wo_failureReportRequired = True, wo_delegationPath = [n], wo_createdAt = TNum (Fin 0)\<rparr>"

text \<open>The same three nodes under prefixed ids.\<close>

definition prefixed_topology :: enterprise_topology where
  "prefixed_topology = sample_topology\<lparr>tp_nodes := [sample_node ''node:a'' [''node:b''] [''t''] [],
     sample_node ''node:b'' [''node:c''] [] [], sample_node ''node:c'' [] [] []]\<rparr>"

definition sample_plan_input :: "enterprise_topology \<Rightarrow> string \<Rightarrow> plan_input" where
  "sample_plan_input tp n = \<lparr>ci_compiledTopologySnapshot = compiled_snapshot ''s'' tp,
     ci_parentWorkOrder = sample_work_order n, ci_parentNodeId = None, ci_targetChildNodeIds = None,
     ci_maxDelegationDepth = None, ci_childObjectiveByNodeId = [], ci_childInputByNodeId = [],
     ci_childWorkOrderIdByNodeId = []\<rparr>"

lemma sample_plans:
  "map pc_childNodeId (pl_childWorkOrders (fst (plan_child_delegation sample_host
     (sample_plan_input sample_topology ''a'') 0))) = [''b'']"
  "map pc_childNodeId (pl_childWorkOrders (fst (plan_child_delegation sample_host
     (sample_plan_input prefixed_topology ''node:a'') 0))) = [''node:b'']"
  by code_simp+

lemma planned_delegates:
  assumes "map pc_childNodeId (pl_childWorkOrders (fst (plan_child_delegation sample_host
     (sample_plan_input tp n) 0))) = [m]"
  obtains pc where "pc \<in> set (pl_childWorkOrders (fst (plan_child_delegation sample_host (sample_plan_input tp n) 0)))"
    "delegates sample_host (compiled_snapshot ''s'' tp) None (sample_work_order n) (pc_workOrder pc)"
proof -
  from assms obtain pc where pc: "pc \<in> set (pl_childWorkOrders (fst (plan_child_delegation sample_host
     (sample_plan_input tp n) 0)))" by (metis list.set_intros(1) map_eq_Cons_conv)
  have i: "ci_parentWorkOrder (sample_plan_input tp n) = sample_work_order n"
    "ci_compiledTopologySnapshot (sample_plan_input tp n) = compiled_snapshot ''s'' tp"
    "ci_maxDelegationDepth (sample_plan_input tp n) = None"
    "plan_parent (sample_plan_input tp n) = wt_id (wo_to (ci_parentWorkOrder (sample_plan_input tp n)))"
    by (simp_all add: sample_plan_input_def plan_parent_def)
  show thesis
    by (rule that[OF pc]) (use delegates_step[OF i(2,3,4) pc] in \<open>simp add: i(1)\<close>)
qed

section \<open>Properties\<close>

text \<open>
  the plan splits the requested children without loss and in order: exactly those that are
  compiled, are direct children of the parent and stay within the depth limit receive a work order,
  every other one is reported with a reason.
\<close>

lemma plan_partitions_requests:
  "map pc_childNodeId (pl_childWorkOrders (fst (plan_child_delegation h i tick))) =
     (if parent_compiled i then filter (delegable i) (plan_requested i) else [])
   \<and> map dp_childNodeId (pl_skipped (fst (plan_child_delegation h i tick))) =
     (if parent_compiled i \<and> plan_requested i \<noteq> []
      then map Some (filter (\<lambda>c. \<not> delegable i c) (plan_requested i)) else [None])"
proof (cases "parent_compiled i \<and> plan_requested i \<noteq> []")
  case True
  then obtain tick' where "plan_loop h i (plan_requested i) tick =
    (pl_childWorkOrders (fst (plan_child_delegation h i tick)),
     pl_skipped (fst (plan_child_delegation h i tick)), tick')" using plan_unfold(3) by blast
  from plan_loop_split[OF this] True show ?thesis by simp
next
  case False
  then show ?thesis using plan_unfold(1,2)[of i h tick] by auto
qed

text \<open>
  what a planned child receives: a work order addressed to that direct child, inside the parent's
  run, with the parent's criteria, output schema and authority requirements, the parent's permission
  scope cut down to the tools and systems the child itself allows, and the delegation path extended
  by the child.
\<close>

lemma planned_child_work_order:
  assumes "pc \<in> set (pl_childWorkOrders (fst (plan_child_delegation h i tick)))"
  shows "\<exists>child. map_of (cs_nodeIndex (ci_compiledTopologySnapshot i)) (pc_childNodeId pc) = Some child
    \<and> wo_to (pc_workOrder pc) = \<lparr>wt_type = WT_node, wt_id = cn_id child\<rparr>
    \<and> wo_topologyRunId (pc_workOrder pc) = wo_topologyRunId (ci_parentWorkOrder i)
    \<and> wo_parentWorkOrderId (pc_workOrder pc) = Some (wo_workOrderId (ci_parentWorkOrder i))
    \<and> wo_fromNodeId (pc_workOrder pc) = plan_parent i
    \<and> wo_successCriteria (pc_workOrder pc) = wo_successCriteria (ci_parentWorkOrder i)
    \<and> wo_expectedOutputSchema (pc_workOrder pc) = wo_expectedOutputSchema (ci_parentWorkOrder i)
    \<and> wo_authorityScope (pc_workOrder pc) = wo_authorityScope (ci_parentWorkOrder i)
    \<and> set (ps_allowedToolIds (wo_permissionScope (pc_workOrder pc))) =
        set (ps_allowedToolIds (wo_permissionScope (ci_parentWorkOrder i))) \<inter> set (cn_allowedToolIds child)
    \<and> set (ps_allowedSystemIds (wo_permissionScope (pc_workOrder pc))) =
        set (ps_allowedSystemIds (wo_permissionScope (ci_parentWorkOrder i))) \<inter> set (cn_allowedSystemIds child)
    \<and> last (wo_delegationPath (pc_workOrder pc)) = cn_id child"
proof -
  from assms obtain child t where pc: "map_of (cs_nodeIndex (ci_compiledTopologySnapshot i)) (pc_childNodeId pc) = Some child"
    "pc_workOrder pc = child_work_order_of h i (pc_childNodeId pc) child t"
    by (rule planned_child_cases)
  show ?thesis
    by (rule exI[of _ child]) (auto simp: pc child_work_order_fields narrow_scope_to_child_def append_delegation_path_def)
qed

lemma planned_child_work_order_witness:
  "\<exists>pc (child :: compiled_node). pc \<in> set (pl_childWorkOrders (fst (plan_child_delegation sample_host
       (sample_plan_input sample_topology ''a'') 0)))
     \<and> wo_to (pc_workOrder pc) = \<lparr>wt_type = WT_node, wt_id = cn_id child\<rparr>"
proof -
  obtain pc :: planned_child where pc: "pc \<in> set (pl_childWorkOrders (fst (plan_child_delegation sample_host
       (sample_plan_input sample_topology ''a'') 0)))"
    by (rule planned_delegates[OF sample_plans(1)]) blast
  from planned_child_work_order[OF pc] obtain child :: compiled_node where
    "wo_to (pc_workOrder pc) = \<lparr>wt_type = WT_node, wt_id = cn_id child\<rparr>"
    by (elim exE conjE) (rule that)
  with pc show ?thesis by (intro exI conjI)
qed

text \<open>
  C5: no delegation chain escalates privileges: along any number of planned hand-overs the allowed
  tools and systems only shrink, the authority requirements, the criteria and the run stay, and the
  path records every hand-over.
\<close>

theorem delegation_chain_no_escalation:
  assumes "(delegates h cs M)\<^sup>*\<^sup>* wo wo'" "index_consistent cs"
  shows "set (ps_allowedToolIds (wo_permissionScope wo')) \<subseteq> set (ps_allowedToolIds (wo_permissionScope wo))
    \<and> set (ps_allowedSystemIds (wo_permissionScope wo')) \<subseteq> set (ps_allowedSystemIds (wo_permissionScope wo))
    \<and> ps_dataDomainIds (wo_permissionScope wo') = ps_dataDomainIds (wo_permissionScope wo)
    \<and> wo_authorityScope wo' = wo_authorityScope wo \<and> wo_topologyRunId wo' = wo_topologyRunId wo
    \<and> wo_successCriteria wo' = wo_successCriteria wo
    \<and> (\<exists>suffix. wo_delegationPath wo' = wo_delegationPath wo @ suffix)"
  by (rule delegates_chain[OF assms])

theorem delegation_chain_no_escalation_witness:
  "\<exists>wo'. delegates sample_host (compiled_snapshot ''s'' sample_topology) None (sample_work_order ''a'') wo'
     \<and> set (ps_allowedToolIds (wo_permissionScope wo')) \<subseteq> {''t''}"
proof -
  obtain pc :: planned_child where d: "delegates sample_host (compiled_snapshot ''s'' sample_topology) None
      (sample_work_order ''a'') (pc_workOrder pc)"
    by (rule planned_delegates[OF sample_plans(1)]) blast
  then show ?thesis
    using delegation_chain_no_escalation[OF r_into_rtranclp[of "delegates _ _ _", OF d] compiled_index_consistent]
    by (auto simp: sample_work_order_def)
qed

text \<open>
  C10: the depth limit bounds every chain when the compiled ids carry the \<open>node:\<close> prefix and no node
  delegates to itself: starting from a work order whose path ends at its own target, a chain of \<open>n\<close>
  hand-overs lengthens the path by \<open>n\<close>, and the path never exceeds the limit plus two. Delegation
  therefore terminates even if the delegation graph has longer cycles.
\<close>

theorem delegation_chain_bounded:
  assumes "(delegates h cs M ^^ n) wo wo'" "index_consistent cs" "ids_prefixed cs" "no_self_edges cs"
    and "path_ends_at_target wo"
  shows "length (node_path wo') = length (node_path wo) + n
    \<and> (n = 0 \<or> length (node_path wo) + n \<le> normalized_max_depth M + 2)"
  using delegates_chain_length[OF assms] by auto

lemma prefixed_sample:
  "ids_prefixed (compiled_snapshot ''s'' prefixed_topology)"
  "\<forall>ab \<in> set (dt_edges (cs_parentChildTree (compiled_snapshot ''s'' prefixed_topology))). fst ab \<notin> set (snd ab)"
  "path_ends_at_target (sample_work_order ''node:a'')"
  by code_simp+

lemma no_self_edgesI: "\<forall>ab \<in> set (dt_edges (cs_parentChildTree cs)). fst ab \<notin> set (snd ab) \<Longrightarrow> no_self_edges cs"
  by (fastforce simp: no_self_edges_def js_lookup_def split: option.splits dest: map_of_SomeD[OF sym])

theorem delegation_chain_bounded_witness:
  "\<exists>wo'. (delegates sample_host (compiled_snapshot ''s'' prefixed_topology) None ^^ 1) (sample_work_order ''node:a'') wo'
     \<and> length (node_path wo') = length (node_path (sample_work_order ''node:a'')) + 1"
proof -
  obtain pc :: planned_child where d: "delegates sample_host (compiled_snapshot ''s'' prefixed_topology) None
      (sample_work_order ''node:a'') (pc_workOrder pc)"
    by (rule planned_delegates[OF sample_plans(2)]) blast
  then have "(delegates sample_host (compiled_snapshot ''s'' prefixed_topology) None ^^ 1)
      (sample_work_order ''node:a'') (pc_workOrder pc)" by (auto simp: relcompp_apply)
  with delegation_chain_bounded[OF this compiled_index_consistent prefixed_sample(1)
      no_self_edgesI[OF prefixed_sample(2)] prefixed_sample(3)]
  show ?thesis by blast
qed

text \<open>
  without the prefix the depth limit is inert: if no compiled id and no entry of the starting path
  begins with \<open>node:\<close>, every work order of every chain has depth 0, so no limit of at least one ever
  skips a child. Nothing in the node contract validator requires the prefix.
\<close>

lemma depth_limit_inert_without_prefix:
  assumes "(delegates h cs M)\<^sup>*\<^sup>* wo wo'" "index_consistent cs" "ids_unprefixed cs" "node_path wo = []"
  shows "delegation_depth wo' = 0"
  by (rule unprefixed_depth[OF unprefixed_chain[OF assms]])

lemma unprefixed_sample:
  "ids_unprefixed (compiled_snapshot ''s'' sample_topology)" "node_path (sample_work_order ''a'') = []"
  by code_simp+

lemma depth_limit_inert_without_prefix_witness:
  "\<exists>wo'. delegates sample_host (compiled_snapshot ''s'' sample_topology) None (sample_work_order ''a'') wo'
     \<and> delegation_depth wo' = 0"
proof -
  obtain pc :: planned_child where d: "delegates sample_host (compiled_snapshot ''s'' sample_topology) None
      (sample_work_order ''a'') (pc_workOrder pc)"
    by (rule planned_delegates[OF sample_plans(1)]) blast
  then show ?thesis
    using depth_limit_inert_without_prefix[OF r_into_rtranclp[of "delegates _ _ _", OF d]
        compiled_index_consistent unprefixed_sample] by blast
qed

end
