(* ===== verification/Trace.thy ===== *)
theory Trace
  imports Work_Order
begin

text \<open>
  Trace events of the node runtime, \<open>createNodeRuntimeTraceEvent\<close> and its phase table in
  \<open>topology-runtime/trace.ts\<close>, with the observability evidence that
  \<open>topology/executor-observability.ts\<close> adds to every payload when the work order carries it. Writing
  events to the database is not modelled.
\<close>

section \<open>Observability evidence\<close>

definition observability_key :: string where
  "observability_key = ''executorObservability''"

definition executor_observability :: "work_order \<Rightarrow> json option" where
  "executor_observability wo =
     (let r = jget (wo_input wo) observability_key in
      if \<not> is_record r \<or> jget r ''schemaVersion'' \<noteq> JNum (Fin 1) then None
      else if \<not> is_string (jget r ''evidenceId'') \<or> \<not> is_string (jget r ''topologyRunId'') then None
      else Some r)"

fun object_members :: "json \<Rightarrow> (string \<times> json) list" where
  "object_members (JObj m) = m"
| "object_members _ = []"

definition executor_trace_payload :: "work_order \<Rightarrow> json \<Rightarrow> json" where
  "executor_trace_payload wo payload =
     (case executor_observability wo of
        None \<Rightarrow> payload
      | Some e \<Rightarrow> JObj (AList.update observability_key (JObj [
          (''runEvidenceRef'', jget e ''evidenceId''),
          (''topologyRunId'', jget e ''topologyRunId''),
          (''entryExecutorId'', jget e ''entryExecutorId''),
          (''entryNodeContractId'', jget e ''entryNodeContractId''),
          (''runtimeProfileSnapshotId'', jget e ''runtimeProfileSnapshotId''),
          (''inferenceEvidenceRef'', nullish (jget e ''inferenceEvidenceRef'') JNull)]) (object_members payload)))"

section \<open>Events\<close>

fun trace_phase_for_state :: "runtime_state \<Rightarrow> trace_phase" where
  "trace_phase_for_state ST_created = TP_topology_run"
| "trace_phase_for_state ST_work_order_received = TP_work_order"
| "trace_phase_for_state ST_analyzing = TP_work_order"
| "trace_phase_for_state ST_planning = TP_work_order"
| "trace_phase_for_state ST_permission_checking = TP_permission"
| "trace_phase_for_state ST_self_executing = TP_self_execution"
| "trace_phase_for_state ST_child_delegating = TP_child_delegation"
| "trace_phase_for_state ST_tool_executing = TP_tool_execution"
| "trace_phase_for_state ST_aggregating = TP_aggregation"
| "trace_phase_for_state ST_validating = TP_validation"
| "trace_phase_for_state ST_exhaustion_checking = TP_exhaustion"
| "trace_phase_for_state ST_failed_candidate = TP_exhaustion"
| "trace_phase_for_state ST_reporting = TP_reporting"
| "trace_phase_for_state ST_completed = TP_reporting"
| "trace_phase_for_state ST_partial_success = TP_reporting"
| "trace_phase_for_state ST_failed = TP_reporting"

definition trace_event_id :: "work_order \<Rightarrow> string \<Rightarrow> nat \<Rightarrow> string" where
  "trace_event_id wo nodeRunId sequence =
     ''trace:'' @ wo_topologyRunId wo @ '':'' @ nodeRunId @ '':'' @ show_nat sequence"

definition create_trace_event ::
  "work_order \<Rightarrow> string \<Rightarrow> runtime_state \<Rightarrow> nat \<Rightarrow> timestamp \<Rightarrow> string option \<Rightarrow> trace_phase option \<Rightarrow>
   string option \<Rightarrow> json \<Rightarrow> trace_event" where
  "create_trace_event wo nodeRunId state sequence moment component phase reasonCode payload =
     \<lparr>te_traceEventId = trace_event_id wo nodeRunId sequence,
      te_topologyRunId = wo_topologyRunId wo,
      te_nodeRunId = nodeRunId,
      te_workOrderId = wo_workOrderId wo,
      te_parentWorkOrderId = wo_parentWorkOrderId wo,
      te_delegationPath = wo_delegationPath wo,
      te_phase = opt_or phase (trace_phase_for_state state),
      te_component = opt_or component ''node-runtime'',
      te_at = moment,
      te_reasonCode = opt_or reasonCode (''node_runtime_'' @ runtime_state_text state),
      te_payload = executor_trace_payload wo payload\<rparr>"

lemma create_trace_event_id [simp, js_simps]:
  "te_traceEventId (create_trace_event wo nr st sq t c ph rc pl) = trace_event_id wo nr sq"
  "te_nodeRunId (create_trace_event wo nr st sq t c ph rc pl) = nr"
  "te_workOrderId (create_trace_event wo nr st sq t c ph rc pl) = wo_workOrderId wo"
  by (simp_all add: create_trace_event_def)

lemma trace_event_id_inject [simp]: "trace_event_id wo nr m = trace_event_id wo nr n \<longleftrightarrow> m = n"
  by (simp add: trace_event_id_def)

end
