(* ===== verification/Child_Dispatch.thy ===== *)
theory Child_Dispatch
  imports Delegation Trace
begin

text \<open>
  \<open>topology-runtime/child-dispatcher.ts\<close>: running the planned child work orders one after the other.
  The runner is an argument, as in the code: it receives the plan item, the child's contract and its
  envelope and either returns a result, moving the clock on, or never returns one (\<open>None\<close>).
\<close>

record runner_result =
  rr_status :: result_status
  rr_finalState :: "runtime_state option"
  rr_nodeResultReport :: "node_result_report option"
  rr_traceEvents :: "trace_event list option"
  rr_risksOrGaps :: "string list option"

type_synonym child_runner = "planned_child \<Rightarrow> node_contract \<Rightarrow> envelope \<Rightarrow> nat \<Rightarrow> (runner_result \<times> nat) option"

datatype child_status = CD_completed | CD_partial_success | CD_failed_candidate | CD_permission_limited

fun child_status_text :: "child_status \<Rightarrow> string" where
  "child_status_text CD_completed = ''completed''"
| "child_status_text CD_partial_success = ''partial_success''"
| "child_status_text CD_failed_candidate = ''failed_candidate''"
| "child_status_text CD_permission_limited = ''permission_limited''"

record child_result =
  cd_childNodeId :: string
  cd_childWorkOrderId :: string
  cd_workOrder :: work_order
  cd_status :: child_status
  cd_failureCandidate :: bool
  cd_reasonCodes :: "string list"
  cd_envelope :: "envelope option"
  cd_nodeResultReport :: "node_result_report option"
  cd_traceEvents :: "trace_event list"
  cd_bridgeIssues :: "bridge_issue list"
  cd_risksOrGaps :: "string list"

datatype dispatch_status = DS_dispatched | DS_partial | DS_blocked | DS_skipped

record child_summary =
  sm_status :: dispatch_status
  sm_plan :: delegation_plan
  sm_results :: "child_result list"
  sm_failureCandidateResults :: "child_result list"
  sm_traceEvents :: "trace_event list"
  sm_reasonCodes :: "string list"

record dispatch_input =
  di_plan :: delegation_plan
  di_compiledTopologySnapshot :: compiled_topology
  di_childNodeContractsById :: "(string, node_contract) jsmap"
  di_authorityPreflightByNodeId :: "(string, preflight_input) jsmap"

fun normalize_child_status :: "result_status \<Rightarrow> child_status" where
  "normalize_child_status RS_completed = CD_completed"
| "normalize_child_status RS_partial_success = CD_partial_success"
| "normalize_child_status RS_permission_limited = CD_permission_limited"
| "normalize_child_status _ = CD_failed_candidate"

definition contract_missing_result :: "planned_child \<Rightarrow> child_result" where
  "contract_missing_result pc =
     \<lparr>cd_childNodeId = pc_childNodeId pc,
      cd_childWorkOrderId = wo_workOrderId (pc_workOrder pc),
      cd_workOrder = pc_workOrder pc,
      cd_status = CD_failed_candidate,
      cd_failureCandidate = True,
      cd_reasonCodes = [''child_node_contract_missing''],
      cd_envelope = None,
      cd_nodeResultReport = None,
      cd_traceEvents = [],
      cd_bridgeIssues = [],
      cd_risksOrGaps = [''child_node_contract_missing:'' @ pc_childNodeId pc]\<rparr>"

definition envelope_denied_result :: "planned_child \<Rightarrow> bridge_issue list \<Rightarrow> child_result" where
  "envelope_denied_result pc issues =
     \<lparr>cd_childNodeId = pc_childNodeId pc,
      cd_childWorkOrderId = wo_workOrderId (pc_workOrder pc),
      cd_workOrder = pc_workOrder pc,
      cd_status = CD_failed_candidate,
      cd_failureCandidate = True,
      cd_reasonCodes = map (\<lambda>i. opt_or (bi_reasonCode i) (bi_code i)) issues,
      cd_envelope = None,
      cd_nodeResultReport = None,
      cd_traceEvents = [],
      cd_bridgeIssues = issues,
      cd_risksOrGaps = map (\<lambda>i. bi_code i @ '':'' @ opt_or (bi_reasonCode i) ''unknown'') issues\<rparr>"

definition ran_result :: "planned_child \<Rightarrow> envelope \<Rightarrow> runner_result \<Rightarrow> child_result" where
  "ran_result pc en r =
     (let failureCandidate = is_child_failure_status (rr_status r) in
      \<lparr>cd_childNodeId = pc_childNodeId pc,
       cd_childWorkOrderId = wo_workOrderId (pc_workOrder pc),
       cd_workOrder = pc_workOrder pc,
       cd_status = normalize_child_status (rr_status r),
       cd_failureCandidate = failureCandidate,
       cd_reasonCodes = pc_reasonCodes pc
         @ [if failureCandidate then ''child_result_failure_candidate'' else ''child_result_completed''],
       cd_envelope = Some en,
       cd_nodeResultReport = rr_nodeResultReport r,
       cd_traceEvents = opt_or (rr_traceEvents r) [],
       cd_bridgeIssues = [],
       cd_risksOrGaps = (case rr_risksOrGaps r of Some xs \<Rightarrow> xs
         | None \<Rightarrow> (case rr_nodeResultReport r of Some rep \<Rightarrow> nr_risksOrGaps rep | None \<Rightarrow> []))\<rparr>)"

definition child_envelope_input :: "dispatch_input \<Rightarrow> planned_child \<Rightarrow> node_contract \<Rightarrow> envelope_input" where
  "child_envelope_input i pc contract =
     \<lparr>ei_workOrder = pc_workOrder pc,
      ei_nodeContractSnapshot = contract,
      ei_compiledTopologySnapshot = di_compiledTopologySnapshot i,
      ei_parentRunId = None, ei_parentSessionId = None, ei_parentSubSessionId = None,
      ei_commandRequestId = Some (''command:'' @ wo_workOrderId (pc_workOrder pc)),
      ei_subSessionId = Some (''sub-session:'' @ wo_workOrderId (pc_workOrder pc)),
      ei_targetAgentId = None, ei_targetNicknameSnapshot = None, ei_contextPackageId = None,
      ei_authorityPreflight = map_of (di_authorityPreflightByNodeId i) (pc_childNodeId pc),
      ei_baseCapabilityPolicy = None\<rparr>"

definition dispatch_one_child ::
  "host \<Rightarrow> child_runner \<Rightarrow> dispatch_input \<Rightarrow> planned_child \<Rightarrow> nat \<Rightarrow> (child_result \<times> nat) option" where
  "dispatch_one_child h runner i pc tick =
     (case map_of (di_childNodeContractsById i) (pc_childNodeId pc) of
        None \<Rightarrow> Some (contract_missing_result pc, tick)
      | Some contract \<Rightarrow>
          (case create_envelope h (child_envelope_input i pc contract) tick of
             (Inl issues, tick1) \<Rightarrow> Some (envelope_denied_result pc issues, tick1)
           | (Inr en, tick1) \<Rightarrow>
               (case runner pc contract en tick1 of
                  None \<Rightarrow> None
                | Some (r, tick2) \<Rightarrow> Some (ran_result pc en r, tick2))))"

fun dispatch_children ::
  "host \<Rightarrow> child_runner \<Rightarrow> dispatch_input \<Rightarrow> planned_child list \<Rightarrow> nat \<Rightarrow> (child_result list \<times> nat) option" where
  "dispatch_children h runner i [] tick = Some ([], tick)"
| "dispatch_children h runner i (pc # pcs) tick =
     (case dispatch_one_child h runner i pc tick of
        None \<Rightarrow> None
      | Some (r, tick1) \<Rightarrow>
          (case dispatch_children h runner i pcs tick1 of
             None \<Rightarrow> None
           | Some (rs, tick2) \<Rightarrow> Some (r # rs, tick2)))"

definition summarize_children :: "delegation_plan \<Rightarrow> child_result list \<Rightarrow> child_summary" where
  "summarize_children plan results =
     (let failures = filter cd_failureCandidate results;
          status = (if results = [] then DS_blocked else if failures \<noteq> [] then DS_partial else DS_dispatched)
      in \<lparr>sm_status = status,
          sm_plan = plan,
          sm_results = results,
          sm_failureCandidateResults = failures,
          sm_traceEvents = concat (map cd_traceEvents results),
          sm_reasonCodes = pl_reasonCodes plan @ [if status = DS_dispatched then ''child_dispatch_completed''
            else if status = DS_partial then ''child_dispatch_partial'' else ''child_dispatch_blocked'']\<rparr>)"

definition dispatch_child_work_orders ::
  "host \<Rightarrow> child_runner \<Rightarrow> dispatch_input \<Rightarrow> nat \<Rightarrow> (child_summary \<times> nat) option" where
  "dispatch_child_work_orders h runner i tick =
     (let plan = di_plan i in
      if pl_childWorkOrders plan = [] then
        Some (\<lparr>sm_status = (if pl_status plan = DP_skipped then DS_skipped else DS_blocked),
          sm_plan = plan, sm_results = [], sm_failureCandidateResults = [], sm_traceEvents = [],
          sm_reasonCodes = pl_reasonCodes plan\<rparr>, tick)
      else case dispatch_children h runner i (pl_childWorkOrders plan) tick of
        None \<Rightarrow> None
      | Some (results, tick') \<Rightarrow> Some (summarize_children plan results, tick'))"

section \<open>Lemmas\<close>

text \<open>Which planned children reach the runner.\<close>

definition reaches_runner :: "dispatch_input \<Rightarrow> planned_child \<Rightarrow> bool" where
  "reaches_runner i pc \<longleftrightarrow> (\<exists>contract. map_of (di_childNodeContractsById i) (pc_childNodeId pc) = Some contract
     \<and> envelope_input_ok (child_envelope_input i pc contract))"

lemma child_envelope_ids_ok: "envelope_ids_ok (child_envelope_input i pc contract)"
  by (simp add: envelope_ids_ok_def child_envelope_input_def js_ws_def)

lemma create_envelope_cases:
  "envelope_input_ok i \<Longrightarrow> envelope_ids_ok i \<Longrightarrow> \<exists>en. create_envelope h i tick = (Inr en, tick + 1)"
  "\<not> envelope_input_ok i \<Longrightarrow> create_envelope h i tick = (Inl (validate_envelope_input i), tick)"
proof -
  assume "envelope_input_ok i" "envelope_ids_ok i"
  then obtain r where "create_envelope h i tick = (r, tick + 1)" "\<not> isl r"
    using create_envelope_ok by blast
  then show "\<exists>en. create_envelope h i tick = (Inr en, tick + 1)" by (cases r) auto
next
  assume "\<not> envelope_input_ok i"
  then show "create_envelope h i tick = (Inl (validate_envelope_input i), tick)"
    by (simp add: create_envelope_def Let_def validate_envelope_input_Nil)
qed

lemma create_envelope_fields:
  "create_envelope h i tick = (Inr en, tick') \<Longrightarrow>
     en_workOrder en = ei_workOrder i \<and> en_nodeContractSnapshot en = ei_nodeContractSnapshot i
     \<and> en_expectedOutputs en = build_expected_outputs h (ei_workOrder i)
     \<and> en_authorityDecision en = evaluate_authority_preflight (ei_workOrder i) (ei_authorityPreflight i)"
  by (auto simp: create_envelope_def Let_def split: if_splits)

lemma dispatch_one_denied:
  assumes "\<not> reaches_runner i pc"
  shows "\<exists>r. dispatch_one_child h runner i pc tick = Some (r, tick) \<and> cd_failureCandidate r
    \<and> cd_status r = CD_failed_candidate \<and> cd_nodeResultReport r = None \<and> cd_childNodeId r = pc_childNodeId pc"
proof (cases "map_of (di_childNodeContractsById i) (pc_childNodeId pc)")
  case None
  then show ?thesis by (simp add: dispatch_one_child_def contract_missing_result_def)
next
  case (Some contract)
  with assms have "\<not> envelope_input_ok (child_envelope_input i pc contract)" by (auto simp: reaches_runner_def)
  then show ?thesis
    by (simp add: dispatch_one_child_def Some create_envelope_cases(2) envelope_denied_result_def)
qed

lemma dispatch_one_runs:
  assumes "reaches_runner i pc"
  obtains contract en where "map_of (di_childNodeContractsById i) (pc_childNodeId pc) = Some contract"
    "envelope_input_ok (child_envelope_input i pc contract)"
    "create_envelope h (child_envelope_input i pc contract) tick = (Inr en, tick + 1)"
    "dispatch_one_child h runner i pc tick =
       map_option (\<lambda>rt. (ran_result pc en (fst rt), snd rt)) (runner pc contract en (tick + 1))"
proof -
  from assms obtain contract where c: "map_of (di_childNodeContractsById i) (pc_childNodeId pc) = Some contract"
    "envelope_input_ok (child_envelope_input i pc contract)" by (auto simp: reaches_runner_def)
  from create_envelope_cases(1)[OF c(2) child_envelope_ids_ok, of h tick] obtain en where
    e: "create_envelope h (child_envelope_input i pc contract) tick = (Inr en, tick + 1)" by blast
  show thesis
    by (rule that[OF c e]) (simp add: dispatch_one_child_def c e split: option.split prod.split)
qed

lemma dispatch_one_node: "dispatch_one_child h runner i pc tick = Some (r, tick') \<Longrightarrow>
  cd_childNodeId r = pc_childNodeId pc \<and> cd_workOrder r = pc_workOrder pc"
  by (auto simp: dispatch_one_child_def contract_missing_result_def envelope_denied_result_def ran_result_def Let_def
      split: option.splits prod.splits sum.splits)

lemma dispatch_children_nodes: "dispatch_children h runner i pcs tick = Some (rs, tick') \<Longrightarrow>
  map cd_childNodeId rs = map pc_childNodeId pcs"
  by (induction pcs arbitrary: tick rs tick')
    (auto split: option.splits prod.splits dest: dispatch_one_node)

lemma summarize_children_fields:
  "sm_results (summarize_children plan rs) = rs"
  "sm_failureCandidateResults (summarize_children plan rs) = filter cd_failureCandidate rs"
  "sm_plan (summarize_children plan rs) = plan"
  "sm_status (summarize_children plan rs) = (if rs = [] then DS_blocked
     else if filter cd_failureCandidate rs \<noteq> [] then DS_partial else DS_dispatched)"
  by (simp_all add: summarize_children_def Let_def)

lemma dispatch_children_denied:
  "(\<forall>pc \<in> set pcs. \<not> reaches_runner i pc) \<Longrightarrow>
   \<exists>rs. dispatch_children h runner i pcs tick = Some (rs, tick) \<and> length rs = length pcs
     \<and> (\<forall>r \<in> set rs. cd_failureCandidate r)"
proof (induction pcs)
  case (Cons pc pcs)
  then obtain r rs where "dispatch_one_child h runner i pc tick = Some (r, tick)" "cd_failureCandidate r"
    "dispatch_children h runner i pcs tick = Some (rs, tick)" "length rs = length pcs"
    "\<forall>r \<in> set rs. cd_failureCandidate r"
    using dispatch_one_denied[of i pc h runner tick] by auto
  then show ?case by auto
qed simp

section \<open>Properties\<close>

text \<open>
  a dispatch that returns reports exactly one result per planned child, in plan order, and its
  status is \<open>dispatched\<close> only if no result is a failure candidate; a child whose contract is unknown
  or whose envelope is refused is a failure candidate without any report, and whatever the runner
  would do with it does not matter.
\<close>

lemma child_dispatch_results:
  assumes "dispatch_child_work_orders h runner i tick = Some (sm, tick')"
  shows "map cd_childNodeId (sm_results sm) = map pc_childNodeId (pl_childWorkOrders (di_plan i))
    \<and> sm_failureCandidateResults sm = filter cd_failureCandidate (sm_results sm)
    \<and> (sm_status sm = DS_dispatched \<longleftrightarrow> sm_results sm \<noteq> [] \<and> (\<forall>r \<in> set (sm_results sm). \<not> cd_failureCandidate r))
    \<and> ((\<forall>pc \<in> set (pl_childWorkOrders (di_plan i)). \<not> reaches_runner i pc) \<longrightarrow>
        (\<forall>r \<in> set (sm_results sm). cd_failureCandidate r) \<and> tick' = tick)"
proof (cases "pl_childWorkOrders (di_plan i) = []")
  case True
  with assms show ?thesis by (auto simp: dispatch_child_work_orders_def Let_def split: if_splits)
next
  case False
  with assms obtain rs where rs: "dispatch_children h runner i (pl_childWorkOrders (di_plan i)) tick = Some (rs, tick')"
    "sm = summarize_children (di_plan i) rs"
    by (auto simp: dispatch_child_work_orders_def Let_def split: option.splits)
  have "(\<forall>pc \<in> set (pl_childWorkOrders (di_plan i)). \<not> reaches_runner i pc) \<longrightarrow>
      (\<forall>r \<in> set rs. cd_failureCandidate r) \<and> tick' = tick"
    using dispatch_children_denied[of "pl_childWorkOrders (di_plan i)" i h runner tick] rs(1) by auto
  then show ?thesis
    using dispatch_children_nodes[OF rs(1)]
    by (auto simp: rs(2) summarize_children_fields filter_empty_conv)
qed

definition sample_dispatch_input :: "(string, node_contract) jsmap \<Rightarrow> dispatch_input" where
  "sample_dispatch_input contracts =
     \<lparr>di_plan = fst (plan_child_delegation sample_host (sample_plan_input sample_topology ''a'') 0),
      di_compiledTopologySnapshot = compiled_snapshot ''s'' sample_topology,
      di_childNodeContractsById = contracts, di_authorityPreflightByNodeId = []\<rparr>"

definition sample_runner :: "result_status \<Rightarrow> child_runner" where
  "sample_runner st pc contract en tick = Some (\<lparr>rr_status = st, rr_finalState = None, rr_nodeResultReport = None,
     rr_traceEvents = None, rr_risksOrGaps = None\<rparr>, tick)"

lemma child_dispatch_results_witness:
  "\<exists>sm tick'. dispatch_child_work_orders sample_host (sample_runner RS_completed)
       (sample_dispatch_input [(''b'', sample_node ''b'' [''c''] [] [])]) 0 = Some (sm, tick')
     \<and> map cd_childNodeId (sm_results sm) = [''b''] \<and> sm_status sm = DS_dispatched"
proof -
  let ?i = "sample_dispatch_input [(''b'', sample_node ''b'' [''c''] [] [])]"
  have "case dispatch_child_work_orders sample_host (sample_runner RS_completed) ?i 0 of
      None \<Rightarrow> False | Some (sm, _) \<Rightarrow> sm_status sm = DS_dispatched" by code_simp
  then obtain sm tick' where r: "dispatch_child_work_orders sample_host (sample_runner RS_completed) ?i 0 = Some (sm, tick')"
    "sm_status sm = DS_dispatched" by (auto split: option.splits)
  have "map pc_childNodeId (pl_childWorkOrders (di_plan ?i)) = [''b'']"
    using sample_plans(1) by (simp add: sample_dispatch_input_def)
  with child_dispatch_results[OF r(1)] r show ?thesis by auto
qed

text \<open>
  The two status functions disagree on \<open>needs_revision\<close>: the dispatched result is labelled
  \<open>failed_candidate\<close>, yet it is not a failure candidate and its reason says the child completed. It
  is the only status with that mismatch.
\<close>

lemma needs_revision_mislabelled:
  "cd_status (ran_result pc en r) = CD_failed_candidate \<and> \<not> cd_failureCandidate (ran_result pc en r)
     \<longleftrightarrow> rr_status r = RS_needs_revision"
  by (cases "rr_status r") (simp_all add: ran_result_def Let_def)

end
