(* ===== verification/Tools.thy ===== *)
theory Tools
  imports Trace Delegation
begin

text \<open>
  Tool execution of a node: \<open>topology-runtime/tool-planner.ts\<close> decides which requested tools run and
  which are blocked, \<open>topology-runtime/tool-dispatcher.ts\<close> runs them in order and normalises what
  comes back.

  The injected dispatcher is a parameter: given the tick of the call, the tool name and its input, it
  settles after some milliseconds or never does. \<open>setTimeout\<close> truncates its delay and replaces one
  outside 1..2147483647 by 1. A call that never settles and has no timeout makes the whole dispatch
  never return, the value \<open>None\<close>.
\<close>

section \<open>Planning\<close>

datatype tool_plan_status = TPS_planned | TPS_partial | TPS_blocked | TPS_skipped

datatype approval_status = AP_not_required | AP_approved | AP_denied | AP_missing

fun approval_status_text :: "approval_status \<Rightarrow> string" where
  "approval_status_text AP_not_required = ''not_required''"
| "approval_status_text AP_approved = ''approved''"
| "approval_status_text AP_denied = ''denied''"
| "approval_status_text AP_missing = ''missing''"

record tool_request =
  tq_toolId :: string
  tq_input :: json
  tq_timeoutMs :: "jsnum option"

record tool_issue =
  ti_code :: string
  ti_message :: string
  ti_toolId :: string
  ti_systemId :: "string option"

record tool_call =
  tc_toolId :: string
  tc_dispatcherToolName :: string
  tc_tool :: compiled_tool
  tc_toolType :: tool_type
  tc_systemId :: "string option"
  tc_input :: json
  tc_timeoutMs :: "jsnum option"
  tc_approvalRequired :: bool
  tc_approvalStatus :: approval_status
  tc_fallbackNodeIds :: "string list"
  tc_reasonCodes :: "string list"

record tool_resolution =
  tr_nodeId :: string
  tr_allowedToolIds :: "string list"
  tr_allowedSystemIds :: "string list"
  tr_declaredToolIds :: "string list"
  tr_declaredSystemIds :: "string list"
  tr_effectiveToolIds :: "string list"
  tr_effectiveSystemIds :: "string list"
  tr_removedToolIds :: "string list"
  tr_removedSystemIds :: "string list"
  tr_reasonCodes :: "string list"

record tool_plan =
  tn_ok :: bool
  tn_status :: tool_plan_status
  tn_nodeId :: string
  tn_workOrderId :: string
  tn_allowed :: tool_resolution
  tn_toolCalls :: "tool_call list"
  tn_blocked :: "tool_issue list"
  tn_reasonCodes :: "string list"

datatype approval = Approved | Denied

record tool_plan_input =
  tp_compiledTopologySnapshot :: compiled_topology
  tp_nodeContractSnapshot :: node_contract
  tp_workOrder :: work_order
  tp_toolRequests :: "tool_request list option"
  tp_defaultTimeoutMs :: "jsnum option"
  tp_dispatcherToolNameByToolId :: "(string, string) jsmap"
  tp_approvalDecisionsByToolId :: "(string, approval) jsmap"

text \<open>\<open>left.filter((item, index) => left.indexOf(item) === index && right.includes(item))\<close>\<close>

definition intersect_unique :: "string list \<Rightarrow> string list \<Rightarrow> string list" where
  "intersect_unique xs ys = filter (\<lambda>x. x \<in> set ys) (uniq xs)"

interpretation tool_scope_narrowing: scope_narrowing intersect_unique
  by unfold_locales (simp add: intersect_unique_def uniq_filter)

definition resolve_allowed_node_tools :: "compiled_topology \<Rightarrow> node_contract \<Rightarrow> work_order \<Rightarrow> tool_resolution" where
  "resolve_allowed_node_tools cs n wo =
     (let scope = map_of (cs_toolScopeIndex cs) (be_id n);
          declaredToolIds = (case scope of None \<Rightarrow> nc_allowedToolIds n | Some s \<Rightarrow> ts_declaredToolIds s);
          declaredSystemIds = (case scope of None \<Rightarrow> nc_allowedSystemIds n | Some s \<Rightarrow> ts_declaredSystemIds s);
          effectiveToolIds = (case scope of None \<Rightarrow> nc_allowedToolIds n | Some s \<Rightarrow> ts_effectiveToolIds s);
          effectiveSystemIds = (case scope of None \<Rightarrow> nc_allowedSystemIds n | Some s \<Rightarrow> ts_effectiveSystemIds s);
          allowedToolIds = intersect_unique (ps_allowedToolIds (wo_permissionScope wo)) effectiveToolIds;
          allowedSystemIds = intersect_unique (ps_allowedSystemIds (wo_permissionScope wo)) effectiveSystemIds
      in \<lparr>tr_nodeId = be_id n,
          tr_allowedToolIds = allowedToolIds,
          tr_allowedSystemIds = allowedSystemIds,
          tr_declaredToolIds = declaredToolIds,
          tr_declaredSystemIds = declaredSystemIds,
          tr_effectiveToolIds = effectiveToolIds,
          tr_effectiveSystemIds = effectiveSystemIds,
          tr_removedToolIds = filter (\<lambda>t. t \<notin> set allowedToolIds) (ps_allowedToolIds (wo_permissionScope wo)),
          tr_removedSystemIds = filter (\<lambda>y. y \<notin> set allowedSystemIds) (ps_allowedSystemIds (wo_permissionScope wo)),
          tr_reasonCodes = [''compiled_tool_scope_resolved'', ''work_order_permission_scope_intersected'']
            @ (if scope \<noteq> None then [''compiled_tool_scope_index_used''] else [])\<rparr>)"

fun is_approval_required :: "tool_type \<Rightarrow> bool" where
  "is_approval_required TT_write = True"
| "is_approval_required TT_external_action = True"
| "is_approval_required TT_unknown = True"
| "is_approval_required _ = False"

definition approval_status_for :: "approval option \<Rightarrow> bool \<Rightarrow> approval_status" where
  "approval_status_for decision required =
     (if \<not> required then AP_not_required
      else case decision of Some Approved \<Rightarrow> AP_approved | Some Denied \<Rightarrow> AP_denied | None \<Rightarrow> AP_missing)"

definition plan_one_tool :: "tool_plan_input \<Rightarrow> tool_resolution \<Rightarrow> tool_request \<Rightarrow> tool_issue + tool_call" where
  "plan_one_tool i allowed q =
     (let cs = tp_compiledTopologySnapshot i; t = tq_toolId q in
      case map_of (cs_toolIndex cs) t of
        None \<Rightarrow>
          (if map_of (cs_systemIndex cs) t \<noteq> None
           then Inl \<lparr>ti_code = ''enterprise_system_not_executable_tool'',
             ti_message = ''EnterpriseSystem is not executable as a Tool.'', ti_toolId = t, ti_systemId = None\<rparr>
           else Inl \<lparr>ti_code = ''tool_not_found'',
             ti_message = ''Requested tool is not present in compiled topology snapshot.'',
             ti_toolId = t, ti_systemId = None\<rparr>)
      | Some tool \<Rightarrow>
          if t \<notin> set (tr_allowedToolIds allowed) then
            Inl \<lparr>ti_code = ''tool_permission_denied'',
              ti_message = ''Requested tool is outside compiled node scope or WorkOrder permission scope.'',
              ti_toolId = t, ti_systemId = ct_systemId tool\<rparr>
          else if (case ct_systemId tool of None \<Rightarrow> False | Some y \<Rightarrow> y \<notin> set (tr_allowedSystemIds allowed)) then
            Inl \<lparr>ti_code = ''backing_system_permission_denied'',
              ti_message = ''Requested tool''@ [char_of (39 :: nat)]
                @ ''s backing EnterpriseSystem is outside WorkOrder permission scope.'',
              ti_toolId = t, ti_systemId = ct_systemId tool\<rparr>
          else
            let required = is_approval_required (ct_toolType tool);
                status = approval_status_for (map_of (tp_approvalDecisionsByToolId i) t) required
            in if status = AP_denied then
                 Inl \<lparr>ti_code = ''tool_approval_denied'', ti_message = ''Requested tool execution approval was denied.'',
                   ti_toolId = t, ti_systemId = ct_systemId tool\<rparr>
               else if status = AP_missing then
                 Inl \<lparr>ti_code = ''tool_approval_required'',
                   ti_message = ''Requested write or external tool requires explicit approval.'',
                   ti_toolId = t, ti_systemId = ct_systemId tool\<rparr>
               else
                 Inr \<lparr>tc_toolId = t,
                   tc_dispatcherToolName = js_lookup (tp_dispatcherToolNameByToolId i) t t,
                   tc_tool = tool,
                   tc_toolType = ct_toolType tool,
                   tc_systemId = ct_systemId tool,
                   tc_input = (if tq_input q = JUndef then wo_input (tp_workOrder i) else tq_input q),
                   tc_timeoutMs = (case tq_timeoutMs q of Some m \<Rightarrow> Some m | None \<Rightarrow> tp_defaultTimeoutMs i),
                   tc_approvalRequired = required,
                   tc_approvalStatus = status,
                   tc_fallbackNodeIds = (case nc_failurePolicy (tp_nodeContractSnapshot i) of
                     None \<Rightarrow> [] | Some p \<Rightarrow> fp_fallbackNodeIds p),
                   tc_reasonCodes = [''node_tool_call_planned'', ''tool_type:'' @ tool_type_text (ct_toolType tool),
                     if required then ''tool_approval_policy_required'' else ''tool_approval_policy_not_required'',
                     ''node_retry_policy_unbounded'']\<rparr>)"

fun split_results :: "('a + 'b) list \<Rightarrow> 'a list \<times> 'b list" where
  "split_results [] = ([], [])"
| "split_results (Inl a # xs) = (a # fst (split_results xs), snd (split_results xs))"
| "split_results (Inr b # xs) = (fst (split_results xs), b # snd (split_results xs))"

definition plan_node_tool_execution :: "tool_plan_input \<Rightarrow> tool_plan" where
  "plan_node_tool_execution i =
     (let allowed = resolve_allowed_node_tools (tp_compiledTopologySnapshot i) (tp_nodeContractSnapshot i) (tp_workOrder i);
          requested = opt_or (tp_toolRequests i)
            (map (\<lambda>t. \<lparr>tq_toolId = t, tq_input = JUndef, tq_timeoutMs = None\<rparr>) (tr_allowedToolIds allowed));
          outcome = split_results (map (plan_one_tool i allowed) requested);
          blocked = fst outcome; toolCalls = snd outcome;
          status = (if toolCalls \<noteq> [] \<and> blocked \<noteq> [] then TPS_partial
                    else if toolCalls \<noteq> [] then TPS_planned
                    else if blocked \<noteq> [] then TPS_blocked else TPS_skipped)
      in \<lparr>tn_ok = (toolCalls \<noteq> [] \<or> status = TPS_skipped),
          tn_status = status,
          tn_nodeId = be_id (tp_nodeContractSnapshot i),
          tn_workOrderId = wo_workOrderId (tp_workOrder i),
          tn_allowed = allowed,
          tn_toolCalls = toolCalls,
          tn_blocked = blocked,
          tn_reasonCodes = tr_reasonCodes allowed
            @ (if toolCalls \<noteq> [] then [''node_tool_execution_planned''] else [])
            @ map ti_code blocked\<rparr>)"

section \<open>Dispatching\<close>

record tool_result =
  tx_success :: bool
  tx_output :: string
  tx_error :: "string option"

datatype settlement = Returned tool_result | Threw_error string | Threw_other

type_synonym dispatcher = "nat \<Rightarrow> string \<Rightarrow> json \<Rightarrow> (settlement \<times> rat) option"

datatype execution = Timed_out | Settled settlement

datatype execution_status = XS_succeeded | XS_denied | XS_timeout | XS_execution_error | XS_skipped

fun execution_status_text :: "execution_status \<Rightarrow> string" where
  "execution_status_text XS_succeeded = ''succeeded''"
| "execution_status_text XS_denied = ''denied''"
| "execution_status_text XS_timeout = ''timeout''"
| "execution_status_text XS_execution_error = ''execution_error''"
| "execution_status_text XS_skipped = ''skipped''"

record normalized_result =
  nz_toolId :: string
  nz_dispatcherToolName :: string
  nz_status :: execution_status
  nz_reasonCode :: string
  nz_output :: json
  nz_error :: "string option"
  nz_retryPossible :: bool
  nz_fallbackPossible :: bool
  nz_failureCandidate :: bool
  nz_startedAt :: int
  nz_completedAt :: int
  nz_traceEvents :: "trace_event list"
  nz_failureCandidateInfo :: json

datatype tool_summary_status = TS_completed | TS_partial | TS_failed_candidate | TS_skipped

record tool_summary =
  su_status :: tool_summary_status
  su_plan :: tool_plan
  su_results :: "normalized_result list"
  su_failureCandidateResults :: "normalized_result list"
  su_traceEvents :: "trace_event list"
  su_reasonCodes :: "string list"

fun timer_delay :: "jsnum \<Rightarrow> rat" where
  "timer_delay (Fin r) = (if 1 \<le> r \<and> r \<le> 2147483647 then of_int \<lfloor>r\<rfloor> else 1)"
| "timer_delay _ = 1"

fun no_timeout :: "jsnum option \<Rightarrow> bool" where
  "no_timeout None = True"
| "no_timeout (Some (Fin r)) = (r \<le> 0)"
| "no_timeout (Some NegInf) = True"
| "no_timeout (Some _) = False"

definition dispatch_one_tool :: "dispatcher \<Rightarrow> tool_call \<Rightarrow> nat \<Rightarrow> execution option" where
  "dispatch_one_tool disp call tick =
     (let settled = disp tick (tc_dispatcherToolName call) (tc_input call) in
      if no_timeout (tc_timeoutMs call) then map_option (Settled \<circ> fst) settled
      else case settled of
        None \<Rightarrow> Some Timed_out
      | Some (s, d) \<Rightarrow> if d < timer_delay (the (tc_timeoutMs call)) then Some (Settled s) else Some Timed_out)"

fun has_substring :: "string \<Rightarrow> string \<Rightarrow> bool" where
  "has_substring needle [] = (needle = [])"
| "has_substring needle (c # cs) = (starts_with needle (c # cs) \<or> has_substring needle cs)"

definition is_denied_tool_result :: "tool_result \<Rightarrow> bool" where
  "is_denied_tool_result r =
     (if tx_success r then False
      else let error = map lower_char (opt_or (tx_error r) []) in
        has_substring ''denied'' error \<or> has_substring ''approval'' error
        \<or> has_substring ''not_allowed'' error \<or> has_substring ''policy'' error)"

fun normalize_status :: "execution \<Rightarrow> execution_status" where
  "normalize_status Timed_out = XS_timeout"
| "normalize_status (Settled (Returned r)) =
     (if tx_success r then XS_succeeded else if is_denied_tool_result r then XS_denied else XS_execution_error)"
| "normalize_status (Settled _) = XS_execution_error"

fun execution_error :: "execution \<Rightarrow> string option" where
  "execution_error (Settled (Returned r)) = tx_error r"
| "execution_error _ = None"

fun execution_output :: "execution \<Rightarrow> json" where
  "execution_output (Settled (Returned r)) = JStr (tx_output r)"
| "execution_output _ = JUndef"

fun thrown_text :: "execution \<Rightarrow> string" where
  "thrown_text (Settled (Threw_error m)) = m"
| "thrown_text _ = ''tool_execution_error''"

definition reason_code_for_status :: "execution_status \<Rightarrow> execution \<Rightarrow> string" where
  "reason_code_for_status status x =
     (if status = XS_succeeded then ''tool_execution_succeeded''
      else if status = XS_timeout then ''tool_execution_timeout''
      else if status = XS_denied then opt_or (execution_error x) ''tool_execution_denied''
      else opt_or (execution_error x) (thrown_text x))"

definition tool_event ::
  "work_order \<Rightarrow> string \<Rightarrow> nat \<Rightarrow> int \<Rightarrow> string \<Rightarrow> json \<Rightarrow> trace_event" where
  "tool_event wo nodeRunId sequence moment reasonCode payload =
     create_trace_event wo nodeRunId ST_tool_executing sequence (TNum (Fin (of_int moment)))
       (Some ''node-tool-dispatcher'') (Some TP_tool_execution) (Some reasonCode) payload"

definition result_for_blocked :: "work_order \<Rightarrow> string \<Rightarrow> tool_issue \<Rightarrow> int \<Rightarrow> nat \<Rightarrow> normalized_result" where
  "result_for_blocked wo nodeRunId iss moment sequence =
     \<lparr>nz_toolId = ti_toolId iss,
      nz_dispatcherToolName = ti_toolId iss,
      nz_status = XS_denied,
      nz_reasonCode = ti_code iss,
      nz_output = JUndef,
      nz_error = Some (ti_message iss),
      nz_retryPossible = False,
      nz_fallbackPossible = False,
      nz_failureCandidate = True,
      nz_startedAt = moment,
      nz_completedAt = moment,
      nz_traceEvents = [tool_event wo nodeRunId sequence moment (ti_code iss)
        (JObj ([(''toolId'', JStr (ti_toolId iss)), (''status'', JStr ''denied'')]
          @ opt_string_member ''systemId'' (ti_systemId iss)))],
      nz_failureCandidateInfo = JObj [(''reasonCode'', JStr (ti_code iss)),
        (''retryPossible'', JBool False), (''fallbackPossible'', JBool False)]\<rparr>"

definition result_for_call ::
  "work_order \<Rightarrow> string \<Rightarrow> tool_call \<Rightarrow> execution \<Rightarrow> int \<Rightarrow> int \<Rightarrow> nat \<Rightarrow> normalized_result" where
  "result_for_call wo nodeRunId call x startedAt completedAt sequence =
     (let status = normalize_status x;
          reasonCode = reason_code_for_status status x;
          failureCandidate = (status \<noteq> XS_succeeded);
          retryPossible = (failureCandidate \<and> (status = XS_timeout \<or> status = XS_execution_error));
          fallbackPossible = (failureCandidate \<and> tc_fallbackNodeIds call \<noteq> []);
          startTrace = tool_event wo nodeRunId (sequence + 1) startedAt ''tool_execution_started''
            (JObj [(''toolId'', JStr (tc_toolId call)),
              (''dispatcherToolName'', JStr (tc_dispatcherToolName call)),
              (''toolType'', JStr (tool_type_text (tc_toolType call))),
              (''approvalStatus'', JStr (approval_status_text (tc_approvalStatus call)))]);
          doneTrace = tool_event wo nodeRunId (sequence + 2) completedAt reasonCode
            (JObj ([(''toolId'', JStr (tc_toolId call)),
              (''dispatcherToolName'', JStr (tc_dispatcherToolName call)),
              (''status'', JStr (execution_status_text status)),
              (''retryPossible'', JBool retryPossible),
              (''fallbackPossible'', JBool fallbackPossible)]
              @ opt_string_member ''error'' (execution_error x)))
      in \<lparr>nz_toolId = tc_toolId call,
          nz_dispatcherToolName = tc_dispatcherToolName call,
          nz_status = status,
          nz_reasonCode = reasonCode,
          nz_output = execution_output x,
          nz_error = execution_error x,
          nz_retryPossible = retryPossible,
          nz_fallbackPossible = fallbackPossible,
          nz_failureCandidate = failureCandidate,
          nz_startedAt = startedAt,
          nz_completedAt = completedAt,
          nz_traceEvents = [startTrace, doneTrace],
          nz_failureCandidateInfo = (if failureCandidate
            then JObj [(''reasonCode'', JStr reasonCode), (''retryPossible'', JBool retryPossible),
              (''fallbackPossible'', JBool fallbackPossible),
              (''fallbackNodeIds'', json_of_strings (tc_fallbackNodeIds call))]
            else JUndef)\<rparr>)"

text \<open>The blocked issues first, one clock reading and one trace number each.\<close>

fun dispatch_blocked ::
  "host \<Rightarrow> work_order \<Rightarrow> string \<Rightarrow> tool_issue list \<Rightarrow> nat \<Rightarrow> nat \<Rightarrow> normalized_result list \<times> nat \<times> nat" where
  "dispatch_blocked h wo nodeRunId [] sequence tick = ([], sequence, tick)"
| "dispatch_blocked h wo nodeRunId (b # bs) sequence tick =
     (let (rs, sequence', tick') = dispatch_blocked h wo nodeRunId bs (sequence + 1) (tick + 1)
      in (result_for_blocked wo nodeRunId b (h_clock h tick) (sequence + 1) # rs, sequence', tick'))"

text \<open>Then the calls, one after the other: two clock readings and two trace numbers each.\<close>

fun dispatch_calls ::
  "host \<Rightarrow> dispatcher \<Rightarrow> work_order \<Rightarrow> string \<Rightarrow> tool_call list \<Rightarrow> nat \<Rightarrow> nat \<Rightarrow>
   (normalized_result list \<times> nat) option" where
  "dispatch_calls h disp wo nodeRunId [] sequence tick = Some ([], tick)"
| "dispatch_calls h disp wo nodeRunId (c # cs) sequence tick =
     (case dispatch_one_tool disp c tick of
        None \<Rightarrow> None
      | Some x \<Rightarrow>
          (case dispatch_calls h disp wo nodeRunId cs (sequence + 2) (tick + 2) of
             None \<Rightarrow> None
           | Some (rs, tick') \<Rightarrow>
               Some (result_for_call wo nodeRunId c x (h_clock h tick) (h_clock h (tick + 1)) sequence # rs, tick')))"

definition summarize_tools :: "tool_plan \<Rightarrow> normalized_result list \<Rightarrow> tool_summary" where
  "summarize_tools plan results =
     (let failures = filter nz_failureCandidate results;
          succeeded = length (filter (\<lambda>r. nz_status r = XS_succeeded) results);
          status = (if results = [] then TS_skipped else if failures = [] then TS_completed
                    else if succeeded > 0 then TS_partial else TS_failed_candidate)
      in \<lparr>su_status = status,
          su_plan = plan,
          su_results = results,
          su_failureCandidateResults = failures,
          su_traceEvents = concat (map nz_traceEvents results),
          su_reasonCodes = tn_reasonCodes plan @ [case status of
              TS_completed \<Rightarrow> ''node_tool_execution_completed''
            | TS_partial \<Rightarrow> ''node_tool_execution_partial''
            | TS_failed_candidate \<Rightarrow> ''node_tool_execution_failed_candidate''
            | TS_skipped \<Rightarrow> ''node_tool_execution_skipped'']\<rparr>)"

definition dispatch_planned_node_tools ::
  "host \<Rightarrow> dispatcher \<Rightarrow> tool_plan \<Rightarrow> work_order \<Rightarrow> string \<Rightarrow> nat \<Rightarrow> nat \<Rightarrow> (tool_summary \<times> nat) option" where
  "dispatch_planned_node_tools h disp plan wo nodeRunId traceSequenceStart tick =
     (let (blocked, sequence, tick1) = dispatch_blocked h wo nodeRunId (tn_blocked plan) traceSequenceStart tick
      in case dispatch_calls h disp wo nodeRunId (tn_toolCalls plan) sequence tick1 of
           None \<Rightarrow> None
         | Some (results, tick2) \<Rightarrow> Some (summarize_tools plan (blocked @ results), tick2))"

section \<open>Lemmas on planning\<close>

definition plan_resolution :: "tool_plan_input \<Rightarrow> tool_resolution" where
  "plan_resolution i = resolve_allowed_node_tools (tp_compiledTopologySnapshot i) (tp_nodeContractSnapshot i) (tp_workOrder i)"

definition plan_tool_requests :: "tool_plan_input \<Rightarrow> tool_request list" where
  "plan_tool_requests i = opt_or (tp_toolRequests i)
     (map (\<lambda>t. \<lparr>tq_toolId = t, tq_input = JUndef, tq_timeoutMs = None\<rparr>) (tr_allowedToolIds (plan_resolution i)))"

text \<open>When a requested tool may run.\<close>

definition tool_runnable :: "tool_plan_input \<Rightarrow> string \<Rightarrow> bool" where
  "tool_runnable i t \<longleftrightarrow> (case map_of (cs_toolIndex (tp_compiledTopologySnapshot i)) t of
     None \<Rightarrow> False
   | Some tool \<Rightarrow>
       t \<in> set (ps_allowedToolIds (wo_permissionScope (tp_workOrder i)))
       \<and> t \<in> set (node_allowed_tools (tp_compiledTopologySnapshot i) (tp_nodeContractSnapshot i))
       \<and> (\<forall>y. ct_systemId tool = Some y \<longrightarrow>
            y \<in> set (ps_allowedSystemIds (wo_permissionScope (tp_workOrder i)))
            \<and> y \<in> set (node_allowed_systems (tp_compiledTopologySnapshot i) (tp_nodeContractSnapshot i)))
       \<and> (is_approval_required (ct_toolType tool) \<longrightarrow>
            map_of (tp_approvalDecisionsByToolId i) t = Some Approved))"

lemma resolution_allowed:
  "set (tr_allowedToolIds (plan_resolution i)) = set (ps_allowedToolIds (wo_permissionScope (tp_workOrder i)))
     \<inter> set (node_allowed_tools (tp_compiledTopologySnapshot i) (tp_nodeContractSnapshot i))"
  "set (tr_allowedSystemIds (plan_resolution i)) = set (ps_allowedSystemIds (wo_permissionScope (tp_workOrder i)))
     \<inter> set (node_allowed_systems (tp_compiledTopologySnapshot i) (tp_nodeContractSnapshot i))"
  by (simp_all add: plan_resolution_def resolve_allowed_node_tools_def Let_def tool_scope_narrowing.set_narrow
      node_allowed_tools_def node_allowed_systems_def)

lemma approval_status_for_ok:
  "approval_status_for d r \<noteq> AP_denied \<and> approval_status_for d r \<noteq> AP_missing \<longleftrightarrow> (r \<longrightarrow> d = Some Approved)"
  by (auto simp: approval_status_for_def split: option.splits approval.splits)

lemma plan_one_tool_sum:
  "case plan_one_tool i (plan_resolution i) q of
     Inl iss \<Rightarrow> \<not> tool_runnable i (tq_toolId q) \<and> ti_toolId iss = tq_toolId q
   | Inr c \<Rightarrow> tool_runnable i (tq_toolId q) \<and> tc_toolId c = tq_toolId q
       \<and> map_of (cs_toolIndex (tp_compiledTopologySnapshot i)) (tq_toolId q) = Some (tc_tool c)"
proof (cases "map_of (cs_toolIndex (tp_compiledTopologySnapshot i)) (tq_toolId q)")
  case None
  then show ?thesis by (simp add: plan_one_tool_def Let_def tool_runnable_def)
next
  case (Some tool)
  note ap = approval_status_for_ok[of "map_of (tp_approvalDecisionsByToolId i) (tq_toolId q)" "is_approval_required (ct_toolType tool)"]
  show ?thesis
    using ap by (cases "ct_systemId tool")
      (auto simp: plan_one_tool_def Let_def tool_runnable_def Some resolution_allowed)
qed

lemma split_results_map:
  assumes "\<And>x. case f x of Inl a \<Rightarrow> \<not> P x \<and> ka a = k x | Inr b \<Rightarrow> P x \<and> kb b = k x"
  shows "map kb (snd (split_results (map f xs))) = map k (filter P xs)"
    "map ka (fst (split_results (map f xs))) = map k (filter (\<lambda>x. \<not> P x) xs)"
proof (induction xs)
  case (Cons x xs)
  { case 1 then show ?case using Cons assms[of x] by (cases "f x") auto }
  { case 2 then show ?case using Cons assms[of x] by (cases "f x") auto }
qed simp_all

lemma set_split_results: "b \<in> set (snd (split_results xs)) \<longleftrightarrow> Inr b \<in> set xs"
  by (induction xs rule: split_results.induct) auto

lemma plan_tool_calls:
  "tn_toolCalls (plan_node_tool_execution i) =
     snd (split_results (map (plan_one_tool i (plan_resolution i)) (plan_tool_requests i)))"
  "tn_blocked (plan_node_tool_execution i) =
     fst (split_results (map (plan_one_tool i (plan_resolution i)) (plan_tool_requests i)))"
  by (simp_all add: plan_node_tool_execution_def Let_def plan_tool_requests_def plan_resolution_def)

section \<open>Lemmas on dispatching\<close>

text \<open>The trace events of a list of results carry the numbers from \<open>m + 1\<close> on.\<close>

definition numbered :: "work_order \<Rightarrow> string \<Rightarrow> nat \<Rightarrow> trace_event list \<Rightarrow> bool" where
  "numbered wo nr m es \<longleftrightarrow> map te_traceEventId es = map (trace_event_id wo nr) [Suc m ..< Suc (m + length es)]"

lemma numbered_Nil [simp]: "numbered wo nr m []"
  by (simp add: numbered_def)

lemma upt_split: "[Suc m ..< Suc (m + (a + b))] = [Suc m ..< Suc (m + a)] @ [Suc (m + a) ..< Suc (m + (a + b))]"
  using upt_add_eq_append[of "Suc m" "Suc (m + a)" b] by (simp add: add.assoc)

lemma numbered_append:
  "numbered wo nr m xs \<Longrightarrow> numbered wo nr (m + length xs) ys \<Longrightarrow> numbered wo nr m (xs @ ys)"
  unfolding numbered_def length_append upt_split by (simp add: add.assoc)

lemma numbered_single [simp]: "numbered wo nr m [e] \<longleftrightarrow> te_traceEventId e = trace_event_id wo nr (Suc m)"
  by (simp add: numbered_def)

lemma numbered_distinct: "numbered wo nr m es \<Longrightarrow> distinct (map te_traceEventId es)"
  by (simp add: numbered_def distinct_map inj_on_def)

lemma tool_event_id [simp]: "te_traceEventId (tool_event wo nr sq t rc pl) = trace_event_id wo nr sq"
  by (simp add: tool_event_def)

lemma dispatch_blocked_spec:
  "dispatch_blocked h wo nr bs sq tick = (rs, sq', tick') \<Longrightarrow>
     sq' = sq + length bs \<and> tick' = tick + length bs \<and> map nz_toolId rs = map ti_toolId bs
     \<and> (\<forall>r \<in> set rs. nz_status r = XS_denied \<and> nz_failureCandidate r \<and> \<not> nz_retryPossible r)
     \<and> numbered wo nr sq (concat (map nz_traceEvents rs))
     \<and> length (concat (map nz_traceEvents rs)) = length bs"
proof (induction bs arbitrary: sq tick rs sq' tick')
  case (Cons b bs)
  from Cons.prems obtain rs0 where rs: "dispatch_blocked h wo nr bs (sq + 1) (tick + 1) = (rs0, sq', tick')"
    "rs = result_for_blocked wo nr b (h_clock h tick) (sq + 1) # rs0"
    by (auto split: prod.splits)
  have one: "numbered wo nr sq (nz_traceEvents (result_for_blocked wo nr b (h_clock h tick) (sq + 1)))"
    "length (nz_traceEvents (result_for_blocked wo nr b (h_clock h tick) (sq + 1))) = 1"
    by (simp_all add: result_for_blocked_def)
  from Cons.IH[OF rs(1)] numbered_append[OF one(1)] one(2) show ?case
    by (simp add: rs(2)) (simp add: result_for_blocked_def)
qed simp

lemma result_for_call_fields:
  "nz_toolId (result_for_call wo nr c x s d sq) = tc_toolId c"
  "nz_status (result_for_call wo nr c x s d sq) = normalize_status x"
  "nz_failureCandidate (result_for_call wo nr c x s d sq) \<longleftrightarrow> normalize_status x \<noteq> XS_succeeded"
  "nz_retryPossible (result_for_call wo nr c x s d sq) \<longleftrightarrow> normalize_status x \<in> {XS_timeout, XS_execution_error}"
  "numbered wo nr sq (nz_traceEvents (result_for_call wo nr c x s d sq))"
  "length (nz_traceEvents (result_for_call wo nr c x s d sq)) = 2"
  by (auto simp: result_for_call_def Let_def numbered_def)

lemma dispatch_calls_spec:
  "dispatch_calls h disp wo nr cs sq tick = Some (rs, tick') \<Longrightarrow>
     tick' = tick + 2 * length cs \<and> map nz_toolId rs = map tc_toolId cs
     \<and> (\<forall>r \<in> set rs. (nz_failureCandidate r \<longleftrightarrow> nz_status r \<noteq> XS_succeeded)
          \<and> (nz_retryPossible r \<longleftrightarrow> nz_status r \<in> {XS_timeout, XS_execution_error}))
     \<and> numbered wo nr sq (concat (map nz_traceEvents rs))
     \<and> length (concat (map nz_traceEvents rs)) = 2 * length cs"
proof (induction cs arbitrary: sq tick rs tick')
  case (Cons c cs)
  from Cons.prems obtain x rs0 where rs: "dispatch_one_tool disp c tick = Some x"
    "dispatch_calls h disp wo nr cs (sq + 2) (tick + 2) = Some (rs0, tick')"
    "rs = result_for_call wo nr c x (h_clock h tick) (h_clock h (tick + 1)) sq # rs0"
    by (auto split: option.splits)
  note one = result_for_call_fields[where wo = wo and nr = nr and c = c and x = x
      and s = "h_clock h tick" and d = "h_clock h (tick + 1)" and sq = sq]
  from Cons.IH[OF rs(2)] numbered_append[OF one(5)] one show ?case by (simp add: rs(3))
qed simp

lemma dispatch_one_returns: "\<not> no_timeout (tc_timeoutMs c) \<Longrightarrow> \<exists>x. dispatch_one_tool disp c tick = Some x"
  by (auto simp: dispatch_one_tool_def Let_def split: option.split prod.split)

lemma dispatch_calls_returns:
  "(\<forall>c \<in> set cs. \<not> no_timeout (tc_timeoutMs c)) \<Longrightarrow> \<exists>r. dispatch_calls h disp wo nr cs sq tick = Some r"
proof (induction cs arbitrary: sq tick)
  case (Cons c cs)
  then obtain x where "dispatch_one_tool disp c tick = Some x" using dispatch_one_returns by fastforce
  moreover obtain r where "dispatch_calls h disp wo nr cs (sq + 2) (tick + 2) = Some r" using Cons by fastforce
  ultimately show ?case by (cases r) simp
qed simp

lemma dispatch_tools_cases:
  assumes "dispatch_planned_node_tools h disp plan wo nr sq tick = Some (su, tick')"
  obtains blocked calls sq1 tick1 where
    "dispatch_blocked h wo nr (tn_blocked plan) sq tick = (blocked, sq1, tick1)"
    "dispatch_calls h disp wo nr (tn_toolCalls plan) sq1 tick1 = Some (calls, tick')"
    "su = summarize_tools plan (blocked @ calls)"
  using assms by (auto simp: dispatch_planned_node_tools_def Let_def split: prod.splits option.splits)

lemma summarize_fields:
  "su_results (summarize_tools plan rs) = rs"
  "su_traceEvents (summarize_tools plan rs) = concat (map nz_traceEvents rs)"
  "su_failureCandidateResults (summarize_tools plan rs) = filter nz_failureCandidate rs"
  "su_plan (summarize_tools plan rs) = plan"
  by (simp_all add: summarize_tools_def Let_def)

lemma dispatch_tools_numbered:
  assumes "dispatch_planned_node_tools h disp plan wo nr sq tick = Some (su, tick')"
  shows "numbered wo nr sq (su_traceEvents su)"
  using assms
proof (rule dispatch_tools_cases)
  fix blocked calls sq1 tick1
  assume d: "dispatch_blocked h wo nr (tn_blocked plan) sq tick = (blocked, sq1, tick1)"
    "dispatch_calls h disp wo nr (tn_toolCalls plan) sq1 tick1 = Some (calls, tick')"
    "su = summarize_tools plan (blocked @ calls)"
  from dispatch_blocked_spec[OF d(1)] dispatch_calls_spec[OF d(2)] show ?thesis
    by (simp add: d(3) summarize_fields numbered_append)
qed

section \<open>Properties\<close>

text \<open>
  The tool plan splits the requests in order: a request becomes a call exactly when the tool is
  compiled, lies in both the work order's and the node's scope, its backing system does too, and a
  tool that writes, acts externally or is of unknown type was explicitly approved.
\<close>

lemma tool_plan_partitions_requests:
  "map tc_toolId (tn_toolCalls (plan_node_tool_execution i)) =
     filter (tool_runnable i) (map tq_toolId (plan_tool_requests i))
   \<and> map ti_toolId (tn_blocked (plan_node_tool_execution i)) =
     filter (\<lambda>t. \<not> tool_runnable i t) (map tq_toolId (plan_tool_requests i))"
proof -
  have "case plan_one_tool i (plan_resolution i) q of
      Inl iss \<Rightarrow> \<not> tool_runnable i (tq_toolId q) \<and> ti_toolId iss = tq_toolId q
    | Inr c \<Rightarrow> tool_runnable i (tq_toolId q) \<and> tc_toolId c = tq_toolId q" for q
    using plan_one_tool_sum[of i q] by (auto split: sum.splits)
  note split = split_results_map[where f = "plan_one_tool i (plan_resolution i)" and P = "\<lambda>q. tool_runnable i (tq_toolId q)"
      and k = tq_toolId and ka = ti_toolId and kb = tc_toolId, OF this]
  show ?thesis by (simp add: plan_tool_calls split filter_map comp_def)
qed

text \<open>
  dispatching reports one result per blocked request and per call, in that order; blocked
  requests come back denied without any retry, a result is a failure candidate exactly when it did
  not succeed, a retry is suggested only after a timeout or an execution error, and the trace events
  carry consecutive numbers.
\<close>

lemma tool_dispatch_results:
  assumes "dispatch_planned_node_tools h disp plan wo nr sq tick = Some (su, tick')"
  shows "map nz_toolId (su_results su) = map ti_toolId (tn_blocked plan) @ map tc_toolId (tn_toolCalls plan)
    \<and> (\<forall>r \<in> set (take (length (tn_blocked plan)) (su_results su)). nz_status r = XS_denied)
    \<and> (\<forall>r \<in> set (su_results su). (nz_failureCandidate r \<longleftrightarrow> nz_status r \<noteq> XS_succeeded)
        \<and> (nz_retryPossible r \<longleftrightarrow> nz_status r \<in> {XS_timeout, XS_execution_error}))
    \<and> numbered wo nr sq (su_traceEvents su)
    \<and> tick' = tick + length (tn_blocked plan) + 2 * length (tn_toolCalls plan)"
  using assms
proof (rule dispatch_tools_cases)
  fix blocked calls sq1 tick1
  assume d: "dispatch_blocked h wo nr (tn_blocked plan) sq tick = (blocked, sq1, tick1)"
    "dispatch_calls h disp wo nr (tn_toolCalls plan) sq1 tick1 = Some (calls, tick')"
    "su = summarize_tools plan (blocked @ calls)"
  note b = dispatch_blocked_spec[OF d(1)] and c = dispatch_calls_spec[OF d(2)]
  have "length blocked = length (tn_blocked plan)" using b by (metis length_map)
  with b c dispatch_tools_numbered[OF assms] show ?thesis
    by (auto simp: d(3) summarize_fields)
qed

definition sample_tool_plan :: tool_plan where
  "sample_tool_plan = plan_node_tool_execution
     \<lparr>tp_compiledTopologySnapshot = compiled_snapshot ''s'' sample_topology,
      tp_nodeContractSnapshot = sample_node ''a'' [''b''] [''t'', ''u''] [''y'', ''z''],
      tp_workOrder = (sample_work_order ''a'')\<lparr>wo_permissionScope :=
        \<lparr>ps_allowedToolIds = [''t''], ps_allowedSystemIds = [''y''], ps_dataDomainIds = [], ps_riskLevel = None\<rparr>\<rparr>,
      tp_toolRequests = Some [\<lparr>tq_toolId = ''t'', tq_input = JUndef, tq_timeoutMs = None\<rparr>,
        \<lparr>tq_toolId = ''y'', tq_input = JUndef, tq_timeoutMs = None\<rparr>],
      tp_defaultTimeoutMs = Some (Fin 1000), tp_dispatcherToolNameByToolId = [],
      tp_approvalDecisionsByToolId = [(''t'', Approved)]\<rparr>"

definition sample_dispatcher :: dispatcher where
  "sample_dispatcher k name inp = Some (Returned \<lparr>tx_success = True, tx_output = ''ok'', tx_error = None\<rparr>, 5)"

text \<open>
  C36: with a positive timeout on every planned call the dispatch always returns, whatever the
  dispatcher does.
\<close>

theorem tool_dispatch_terminates:
  assumes "\<forall>c \<in> set (tn_toolCalls plan). \<not> no_timeout (tc_timeoutMs c)"
  shows "\<exists>r. dispatch_planned_node_tools h disp plan wo nr sq tick = Some r"
proof -
  obtain bl sq1 tick1 where b: "dispatch_blocked h wo nr (tn_blocked plan) sq tick = (bl, sq1, tick1)"
    by (cases "dispatch_blocked h wo nr (tn_blocked plan) sq tick") auto
  obtain r where "dispatch_calls h disp wo nr (tn_toolCalls plan) sq1 tick1 = Some r"
    using dispatch_calls_returns[OF assms] by blast
  with b show ?thesis by (cases r) (simp add: dispatch_planned_node_tools_def)
qed

lemma sample_tool_plan_calls:
  "map tc_toolId (tn_toolCalls sample_tool_plan) = [''t'']" "map ti_toolId (tn_blocked sample_tool_plan) = [''y'']"
  "list_all (\<lambda>c. \<not> no_timeout (tc_timeoutMs c)) (tn_toolCalls sample_tool_plan)"
  by code_simp+

theorem tool_dispatch_terminates_witness:
  "\<exists>r. dispatch_planned_node_tools sample_host (\<lambda>_ _ _. None) sample_tool_plan (sample_work_order ''a'') ''run'' 0 0 = Some r"
  by (rule tool_dispatch_terminates) (use sample_tool_plan_calls(3) in \<open>simp add: list_all_iff\<close>)

lemma tool_dispatch_results_witness:
  "\<exists>su tick'. dispatch_planned_node_tools sample_host sample_dispatcher sample_tool_plan (sample_work_order ''a'') ''run'' 0 0
       = Some (su, tick')
     \<and> map nz_toolId (su_results su) = [''y'', ''t''] \<and> tick' = 3"
proof -
  obtain su tick' where r: "dispatch_planned_node_tools sample_host sample_dispatcher sample_tool_plan
      (sample_work_order ''a'') ''run'' 0 0 = Some (su, tick')"
  proof -
    have "dispatch_planned_node_tools sample_host sample_dispatcher sample_tool_plan
      (sample_work_order ''a'') ''run'' 0 0 \<noteq> None" by code_simp
    then show thesis using that by auto
  qed
  have "length (tn_blocked sample_tool_plan) = 1" "length (tn_toolCalls sample_tool_plan) = 1"
    using sample_tool_plan_calls(1,2) by (metis length_map One_nat_def length_Cons list.size(3))+
  with tool_dispatch_results[OF r] r show ?thesis
    by (auto simp: sample_tool_plan_calls)
qed

text \<open>
  a blocked request never reaches the dispatcher: two dispatchers that agree on the names of the
  planned calls give the same outcome, so one that misbehaves on every other tool cannot be noticed.
\<close>

lemma blocked_tools_never_dispatched:
  assumes "\<And>k c inp. c \<in> set (tn_toolCalls plan) \<Longrightarrow>
      disp k (tc_dispatcherToolName c) inp = disp' k (tc_dispatcherToolName c) inp"
  shows "dispatch_planned_node_tools h disp plan wo nr sq tick = dispatch_planned_node_tools h disp' plan wo nr sq tick"
proof -
  have "dispatch_calls h disp wo nr cs sq tick = dispatch_calls h disp' wo nr cs sq tick"
    if "set cs \<subseteq> set (tn_toolCalls plan)" for cs sq tick
    using that
  proof (induction cs arbitrary: sq tick)
    case (Cons c cs)
    then have "dispatch_one_tool disp c tick = dispatch_one_tool disp' c tick"
      using assms by (simp add: dispatch_one_tool_def)
    moreover have "dispatch_calls h disp wo nr cs sq tick = dispatch_calls h disp' wo nr cs sq tick" for sq tick
      using Cons.IH Cons.prems by simp
    ultimately show ?case by (simp cong: option.case_cong)
  qed simp
  then show ?thesis by (simp add: dispatch_planned_node_tools_def)
qed

lemma blocked_tools_never_dispatched_witness:
  "dispatch_planned_node_tools sample_host sample_dispatcher sample_tool_plan (sample_work_order ''a'') ''run'' 0 0 =
   dispatch_planned_node_tools sample_host
     (\<lambda>k name inp. if name = ''t'' then sample_dispatcher k name inp else None)
     sample_tool_plan (sample_work_order ''a'') ''run'' 0 0"
proof (rule blocked_tools_never_dispatched)
  have "list_all (\<lambda>c. tc_dispatcherToolName c = ''t'') (tn_toolCalls sample_tool_plan)" by code_simp
  then show "sample_dispatcher k (tc_dispatcherToolName c) inp =
    (if tc_dispatcherToolName c = ''t'' then sample_dispatcher k (tc_dispatcherToolName c) inp else None)"
    if "c \<in> set (tn_toolCalls sample_tool_plan)" for k c inp
    using that by (simp add: list_all_iff)
qed

end
