(* ===== verification/Aggregation.thy ===== *)
theory Aggregation
  imports Child_Dispatch Tools
begin

text \<open>
  \<open>topology-runtime/aggregation.ts\<close> merges the outputs a node produced itself with those of its
  children and tools, one output per id; \<open>topology-runtime/validation.ts\<close> decides from the merged
  outputs and the recorded issues which status the node reports.
\<close>

section \<open>Source kinds\<close>

datatype source_kind = SK_self | SK_child | SK_tool

fun source_priority :: "source_kind \<Rightarrow> int" where
  "source_priority SK_self = 0"
| "source_priority SK_child = 1"
| "source_priority SK_tool = 2"

lemma source_priority_inject [simp]: "source_priority a = source_priority b \<longleftrightarrow> a = b"
  by (cases a; cases b) simp_all

text \<open>The order in which sources win: a smaller kind is preferred.\<close>

instantiation source_kind :: linorder
begin

definition less_eq_source_kind :: "source_kind \<Rightarrow> source_kind \<Rightarrow> bool" where
  "less_eq_source_kind a b \<longleftrightarrow> source_priority a \<le> source_priority b"

definition less_source_kind :: "source_kind \<Rightarrow> source_kind \<Rightarrow> bool" where
  "less_source_kind a b \<longleftrightarrow> source_priority a < source_priority b"

instance
  by standard (auto simp: less_eq_source_kind_def less_source_kind_def)

end

section \<open>Data\<close>

datatype aggregation_strategy = SG_merge_and_validate | SG_parent_decides | SG_require_all_child_results
  | SG_best_effort_with_warnings | SG_quorum

fun strategy_text :: "aggregation_strategy \<Rightarrow> string" where
  "strategy_text SG_merge_and_validate = ''merge_and_validate''"
| "strategy_text SG_parent_decides = ''parent_decides''"
| "strategy_text SG_require_all_child_results = ''require_all_child_results''"
| "strategy_text SG_best_effort_with_warnings = ''best_effort_with_warnings''"
| "strategy_text SG_quorum = ''quorum''"

datatype severity = SV_info | SV_warning | SV_needs_revision | SV_blocked

datatype aggregation_code = GC_duplicate_output_removed | GC_output_conflict_detected
  | GC_child_result_missing | GC_source_failure_candidate | GC_quorum_not_met

fun aggregation_code_text :: "aggregation_code \<Rightarrow> string" where
  "aggregation_code_text GC_duplicate_output_removed = ''duplicate_output_removed''"
| "aggregation_code_text GC_output_conflict_detected = ''output_conflict_detected''"
| "aggregation_code_text GC_child_result_missing = ''child_result_missing''"
| "aggregation_code_text GC_source_failure_candidate = ''source_failure_candidate''"
| "aggregation_code_text GC_quorum_not_met = ''quorum_not_met''"

record result_source =
  so_sourceKind :: source_kind
  so_sourceId :: string
  so_status :: result_status
  so_outputCount :: nat
  so_failureCandidate :: bool
  so_risksOrGaps :: "string list"

record result_item =
  ai_sourceKind :: source_kind
  ai_sourceId :: string
  ai_output :: node_output
  ai_fingerprint :: string

record aggregation_issue =
  gi_code :: aggregation_code
  gi_severity :: severity
  gi_message :: string
  gi_outputId :: "string option"
  gi_sourceIds :: "string list"

record aggregation =
  ag_strategy :: aggregation_strategy
  ag_workOrderId :: string
  ag_outputs :: "node_output list"
  ag_items :: "result_item list"
  ag_sources :: "result_source list"
  ag_issues :: "aggregation_issue list"
  ag_conflicts :: "aggregation_issue list"
  ag_duplicates :: "aggregation_issue list"
  ag_missingChildNodeIds :: "string list"
  ag_reasonCodes :: "string list"

record aggregate_input =
  gg_workOrder :: work_order
  gg_strategy :: "aggregation_strategy option"
  gg_selfOutputs :: "node_output list option"
  gg_selfStatus :: "result_status option"
  gg_selfRisksOrGaps :: "string list option"
  gg_childReports :: "node_result_report list option"
  gg_childDelegation :: "child_summary option"
  gg_toolExecution :: "tool_summary option"
  gg_expectedChildNodeIds :: "string list option"
  gg_requireAllChildResults :: "bool option"
  gg_quorum :: "jsnum option"

section \<open>Merging\<close>

definition build_item :: "host \<Rightarrow> source_kind \<Rightarrow> string \<Rightarrow> node_output \<Rightarrow> result_item" where
  "build_item h kind sourceId ou =
     \<lparr>ai_sourceKind = kind, ai_sourceId = sourceId, ai_output = clone_output ou,
      ai_fingerprint = stable_stringify h (JObj [(''outputId'', JStr (ou_outputId ou)),
        (''status'', JStr (output_status_text (ou_status ou))), (''value'', nullish (ou_value ou) JNull)])\<rparr>"

definition select_output_for_merge :: "result_item list \<Rightarrow> result_item option" where
  "select_output_for_merge items =
     (case js_sort (\<lambda>a b. source_priority (ai_sourceKind a) - source_priority (ai_sourceKind b)) items of
        [] \<Rightarrow> None | x # _ \<Rightarrow> Some x)"

definition group_by_output :: "result_item list \<Rightarrow> (string, result_item list) jsmap" where
  "group_by_output items = fold (\<lambda>it m. AList.update (ou_outputId (ai_output it))
     (js_lookup m (ou_outputId (ai_output it)) [] @ [it]) m) items []"

definition duplicate_issue :: "string \<Rightarrow> result_item \<Rightarrow> aggregation_issue" where
  "duplicate_issue outputId it =
     \<lparr>gi_code = GC_duplicate_output_removed, gi_severity = SV_info,
      gi_message = ''Duplicate output was removed during aggregation.'',
      gi_outputId = Some outputId, gi_sourceIds = [ai_sourceId it]\<rparr>"

text \<open>The inner loop: the items with a new fingerprint, and an issue for every other one.\<close>

fun split_duplicates ::
  "string \<Rightarrow> string list \<Rightarrow> result_item list \<Rightarrow> result_item list \<times> aggregation_issue list" where
  "split_duplicates outputId seen [] = ([], [])"
| "split_duplicates outputId seen (it # items) =
     (if ai_fingerprint it \<in> set seen then
        (let (unique, dups) = split_duplicates outputId seen items in (unique, duplicate_issue outputId it # dups))
      else
        (let (unique, dups) = split_duplicates outputId (ai_fingerprint it # seen) items in (it # unique, dups)))"

definition conflict_issue :: "aggregation_strategy \<Rightarrow> string \<Rightarrow> result_item list \<Rightarrow> aggregation_issue" where
  "conflict_issue strategy outputId unique =
     \<lparr>gi_code = GC_output_conflict_detected,
      gi_severity = (if strategy = SG_parent_decides then SV_warning else SV_needs_revision),
      gi_message = ''Multiple sources produced conflicting output for the same output id.'',
      gi_outputId = Some outputId, gi_sourceIds = map ai_sourceId unique\<rparr>"

definition merge_group ::
  "aggregation_strategy \<Rightarrow> string \<times> result_item list \<Rightarrow>
   node_output list \<times> aggregation_issue list \<times> aggregation_issue list" where
  "merge_group strategy g =
     (let (unique, dups) = split_duplicates (fst g) [] (snd g) in
      ((case select_output_for_merge unique of None \<Rightarrow> [] | Some it \<Rightarrow> [clone_output (ai_output it)]),
       dups,
       (if length unique > 1 then [conflict_issue strategy (fst g) unique] else [])))"

definition merge_outputs ::
  "result_item list \<Rightarrow> aggregation_strategy \<Rightarrow> node_output list \<times> aggregation_issue list \<times> aggregation_issue list" where
  "merge_outputs items strategy =
     (let gs = map (merge_group strategy) (group_by_output items) in
      (concat (map fst gs), concat (map (fst \<circ> snd) gs), concat (map (snd \<circ> snd) gs)))"

section \<open>Aggregation\<close>

fun is_failure_candidate_status :: "result_status \<Rightarrow> bool" where
  "is_failure_candidate_status RS_failed_candidate = True"
| "is_failure_candidate_status RS_permission_limited = True"
| "is_failure_candidate_status RS_failed = True"
| "is_failure_candidate_status _ = False"

definition all_child_reports :: "aggregate_input \<Rightarrow> node_result_report list" where
  "all_child_reports i = opt_or (gg_childReports i) []
     @ (case gg_childDelegation i of None \<Rightarrow> []
        | Some sm \<Rightarrow> List.map_filter cd_nodeResultReport (sm_results sm))"

definition tool_output :: "normalized_result \<Rightarrow> node_output" where
  "tool_output r = \<lparr>ou_outputId = ''tool:'' @ nz_toolId r,
     ou_status = (if nz_status r = XS_succeeded then OS_satisfied else OS_missing),
     ou_value = nz_output r\<rparr>"

definition all_tool_results :: "aggregate_input \<Rightarrow> normalized_result list" where
  "all_tool_results i = (case gg_toolExecution i of None \<Rightarrow> [] | Some su \<Rightarrow> su_results su)"

definition self_source :: "aggregate_input \<Rightarrow> node_output list \<Rightarrow> result_source" where
  "self_source i outs =
     (let status = opt_or (gg_selfStatus i) RS_completed in
      \<lparr>so_sourceKind = SK_self, so_sourceId = wt_id (wo_to (gg_workOrder i)), so_status = status,
       so_outputCount = length outs, so_failureCandidate = is_failure_candidate_status status,
       so_risksOrGaps = opt_or (gg_selfRisksOrGaps i) []\<rparr>)"

definition child_source :: "node_result_report \<Rightarrow> result_source" where
  "child_source r = \<lparr>so_sourceKind = SK_child, so_sourceId = nr_nodeId r, so_status = nr_status r,
     so_outputCount = length (nr_outputs r), so_failureCandidate = is_failure_candidate_status (nr_status r),
     so_risksOrGaps = nr_risksOrGaps r\<rparr>"

definition tool_source :: "normalized_result \<Rightarrow> result_source" where
  "tool_source r = \<lparr>so_sourceKind = SK_tool, so_sourceId = nz_toolId r,
     so_status = (if nz_failureCandidate r then RS_failed_candidate else RS_completed),
     so_outputCount = 1, so_failureCandidate = nz_failureCandidate r,
     so_risksOrGaps = (case nz_error r of None \<Rightarrow> [] | Some e \<Rightarrow> [e])
       @ (if nz_failureCandidate r then [nz_reasonCode r] else [])\<rparr>"

definition aggregation_sources :: "aggregate_input \<Rightarrow> result_source list" where
  "aggregation_sources i =
     (case gg_selfOutputs i of None \<Rightarrow> [] | Some outs \<Rightarrow> [self_source i outs])
     @ map child_source (all_child_reports i)
     @ map tool_source (all_tool_results i)"

definition aggregation_items :: "host \<Rightarrow> aggregate_input \<Rightarrow> result_item list" where
  "aggregation_items h i =
     (case gg_selfOutputs i of None \<Rightarrow> []
      | Some outs \<Rightarrow> map (build_item h SK_self (wt_id (wo_to (gg_workOrder i)))) outs)
     @ concat (map (\<lambda>r. map (build_item h SK_child (nr_nodeId r)) (nr_outputs r)) (all_child_reports i))
     @ map (\<lambda>r. build_item h SK_tool (nz_toolId r) (tool_output r)) (all_tool_results i)"

fun nat_below :: "nat \<Rightarrow> jsnum \<Rightarrow> bool" where
  "nat_below n (Fin r) = (of_nat n < r)"
| "nat_below n PosInf = True"
| "nat_below n _ = False"

definition aggregate_node_runtime_results :: "host \<Rightarrow> aggregate_input \<Rightarrow> aggregation" where
  "aggregate_node_runtime_results h i =
     (let strategy = opt_or (gg_strategy i) SG_merge_and_validate;
          sources = aggregation_sources i;
          items = aggregation_items h i;
          failureIssues = map (\<lambda>s. \<lparr>gi_code = GC_source_failure_candidate, gi_severity = SV_warning,
              gi_message = ''A source result is a failure candidate and must be reviewed before final failure.'',
              gi_outputId = None, gi_sourceIds = [so_sourceId s]\<rparr>) (filter so_failureCandidate sources);
          actual = map so_sourceId (filter (\<lambda>s. so_sourceKind s = SK_child) sources);
          missing = filter (\<lambda>n. n \<notin> set actual) (opt_or (gg_expectedChildNodeIds i) []);
          missingIssues = (if missing \<noteq> [] \<and> (gg_requireAllChildResults i = Some True
                \<or> strategy = SG_require_all_child_results)
            then [\<lparr>gi_code = GC_child_result_missing, gi_severity = SV_blocked,
                   gi_message = ''A required child result is missing.'', gi_outputId = None, gi_sourceIds = missing\<rparr>]
            else []);
          satisfied = length (uniq (map ai_sourceId (filter (\<lambda>it. ou_status (ai_output it) = OS_satisfied) items)));
          quorumIssues = (case gg_quorum i of None \<Rightarrow> []
            | Some q \<Rightarrow> if strategy = SG_quorum \<and> nat_below satisfied q
                then [\<lparr>gi_code = GC_quorum_not_met, gi_severity = SV_blocked,
                       gi_message = ''Aggregation quorum was not met.'', gi_outputId = None,
                       gi_sourceIds = map so_sourceId sources\<rparr>]
                else []);
          (outputs, duplicates, conflicts) = merge_outputs items strategy
      in \<lparr>ag_strategy = strategy,
          ag_workOrderId = wo_workOrderId (gg_workOrder i),
          ag_outputs = outputs,
          ag_items = items,
          ag_sources = sources,
          ag_issues = failureIssues @ missingIssues @ quorumIssues @ duplicates @ conflicts,
          ag_conflicts = conflicts,
          ag_duplicates = duplicates,
          ag_missingChildNodeIds = missing,
          ag_reasonCodes = [''aggregation_strategy:'' @ strategy_text strategy]
            @ (if duplicates \<noteq> [] then [''duplicate_output_removed''] else [])
            @ (if conflicts \<noteq> [] then [''output_conflict_detected''] else [])
            @ (if missing \<noteq> [] then [''child_result_missing''] else [])\<rparr>)"

section \<open>Validation\<close>

datatype validation_status = VS_valid | VS_needs_revision | VS_partial_success | VS_failed_candidate

fun validation_status_text :: "validation_status \<Rightarrow> string" where
  "validation_status_text VS_valid = ''valid''"
| "validation_status_text VS_needs_revision = ''needs_revision''"
| "validation_status_text VS_partial_success = ''partial_success''"
| "validation_status_text VS_failed_candidate = ''failed_candidate''"

datatype validation_code = VC_required_output_missing | VC_output_schema_value_missing
  | VC_output_schema_type_mismatch | VC_output_schema_required_field_missing | VC_success_criterion_unmet
  | VC_optional_success_criterion_unmet | VC_from_aggregation aggregation_code

fun validation_code_text :: "validation_code \<Rightarrow> string" where
  "validation_code_text VC_required_output_missing = ''required_output_missing''"
| "validation_code_text VC_output_schema_value_missing = ''output_schema_value_missing''"
| "validation_code_text VC_output_schema_type_mismatch = ''output_schema_type_mismatch''"
| "validation_code_text VC_output_schema_required_field_missing = ''output_schema_required_field_missing''"
| "validation_code_text VC_success_criterion_unmet = ''success_criterion_unmet''"
| "validation_code_text VC_optional_success_criterion_unmet = ''optional_success_criterion_unmet''"
| "validation_code_text (VC_from_aggregation c) = aggregation_code_text c"

record node_validation_issue =
  vs_code :: validation_code
  vs_severity :: severity
  vs_message :: string
  vs_outputId :: "string option"
  vs_criterionId :: "string option"
  vs_sourceIds :: "string list option"
  vs_path :: "string option"

record node_validation =
  va_status :: validation_status
  va_nodeResultStatus :: result_status
  va_valid :: bool
  va_outputs :: "node_output list"
  va_unmetSuccessCriteriaIds :: "string list"
  va_risksOrGaps :: "string list"
  va_issues :: "node_validation_issue list"
  va_reasonCodes :: "string list"

fun validation_status_to_result :: "validation_status \<Rightarrow> result_status" where
  "validation_status_to_result VS_valid = RS_completed"
| "validation_status_to_result VS_partial_success = RS_partial_success"
| "validation_status_to_result VS_needs_revision = RS_needs_revision"
| "validation_status_to_result VS_failed_candidate = RS_failed_candidate"

definition decide_validation_status :: "node_validation_issue list \<Rightarrow> bool \<Rightarrow> validation_status" where
  "decide_validation_status issues allowPartialSuccess =
     (if \<exists>i \<in> set issues. vs_code i = VC_success_criterion_unmet then VS_failed_candidate
      else if \<exists>i \<in> set issues. vs_severity i = SV_blocked
        then (if allowPartialSuccess then VS_partial_success else VS_failed_candidate)
      else if \<exists>i \<in> set issues. vs_severity i = SV_needs_revision then VS_needs_revision
      else if \<exists>i \<in> set issues. vs_severity i = SV_warning
        then (if allowPartialSuccess then VS_partial_success else VS_valid)
      else VS_valid)"

definition schema_issue :: "validation_code \<Rightarrow> string \<Rightarrow> string \<Rightarrow> string option \<Rightarrow> node_validation_issue" where
  "schema_issue code message outputId path =
     \<lparr>vs_code = code, vs_severity = SV_blocked, vs_message = message, vs_outputId = Some outputId,
      vs_criterionId = None, vs_sourceIds = None, vs_path = path\<rparr>"

definition schema_expected_type :: "json \<Rightarrow> string option" where
  "schema_expected_type schema =
     (case jget schema ''type'' of JStr t \<Rightarrow> Some t
      | _ \<Rightarrow> (case jget schema ''kind'' of JStr t \<Rightarrow> Some t | _ \<Rightarrow> None))"

definition validate_output_schema_value :: "work_order \<Rightarrow> node_output \<Rightarrow> node_validation_issue list" where
  "validate_output_schema_value wo ou =
     (if ou_value ou = JUndef then
        [schema_issue VC_output_schema_value_missing ''Output schema result has no value.'' (ou_outputId ou) None]
      else
        let schema = wo_expectedOutputSchema wo;
            mismatch = (case schema_expected_type schema of
                None \<Rightarrow> []
              | Some t \<Rightarrow> if enterprise_value_matches_schema_type (ou_value ou) t then []
                  else [schema_issue VC_output_schema_type_mismatch
                    (''Output schema result must be '' @ t @ ''.'') (ou_outputId ou)
                    (Some ''$.expectedOutputSchema.type'')]);
            required = required_keys (jget schema ''required'')
        in if required = [] then mismatch
           else if \<not> is_record (ou_value ou) then
             mismatch @ [schema_issue VC_output_schema_type_mismatch
               ''Output schema result must be an object to validate required fields.'' (ou_outputId ou)
               (Some ''$.expectedOutputSchema.required'')]
           else mismatch @ map (\<lambda>k. schema_issue VC_output_schema_required_field_missing
               (''Output schema required field '' @ k @ '' is missing.'') (ou_outputId ou)
               (Some (''$.outputs.'' @ ou_outputId ou @ ''.'' @ k)))
             (filter (\<lambda>k. \<not> (has_key (ou_value ou) k \<and> jget (ou_value ou) k \<noteq> JUndef)) required))"

definition of_aggregation_issue :: "aggregation_issue \<Rightarrow> node_validation_issue" where
  "of_aggregation_issue g =
     \<lparr>vs_code = VC_from_aggregation (gi_code g),
      vs_severity = (if gi_severity g = SV_info then SV_warning else gi_severity g),
      vs_message = gi_message g, vs_outputId = gi_outputId g, vs_criterionId = None,
      vs_sourceIds = Some (gi_sourceIds g), vs_path = None\<rparr>"

definition criterion_issue :: "success_criterion \<Rightarrow> node_validation_issue" where
  "criterion_issue c =
     \<lparr>vs_code = (if cr_required c then VC_success_criterion_unmet else VC_optional_success_criterion_unmet),
      vs_severity = (if cr_required c then SV_blocked else SV_warning),
      vs_message = (if cr_required c then ''Required success criterion is not satisfied.''
        else ''Optional success criterion is not satisfied.''),
      vs_outputId = Some (cr_criterionId c), vs_criterionId = Some (cr_criterionId c),
      vs_sourceIds = None, vs_path = None\<rparr>"

definition issue_risk :: "node_validation_issue \<Rightarrow> string" where
  "issue_risk i = (let code = validation_code_text (vs_code i) in
     case vs_criterionId i of Some c \<Rightarrow> code @ '':'' @ c
     | None \<Rightarrow> (case vs_outputId i of Some c \<Rightarrow> code @ '':'' @ c
       | None \<Rightarrow> (case vs_sourceIds i of
           Some (s # ss) \<Rightarrow> code @ '':'' @ join '','' (s # ss) | _ \<Rightarrow> code)))"

definition criterion_met :: "(string, node_output) jsmap \<Rightarrow> success_criterion \<Rightarrow> bool" where
  "criterion_met outputById c \<longleftrightarrow> map_option ou_status (map_of outputById (cr_criterionId c)) = Some OS_satisfied"

definition validation_issues_of :: "work_order \<Rightarrow> aggregation \<Rightarrow> node_validation_issue list" where
  "validation_issues_of wo ag =
     (let outputById = index_by ou_outputId (\<lambda>ou. ou) (map clone_output (ag_outputs ag));
          unmet = filter (\<lambda>c. \<not> criterion_met outputById c) (wo_successCriteria wo)
      in map of_aggregation_issue (filter (\<lambda>g. gi_code g \<noteq> GC_duplicate_output_removed) (ag_issues ag))
        @ (case map_of outputById (schema_output_id wo) of
             Some ou \<Rightarrow> if ou_status ou = OS_missing
               then [schema_issue VC_required_output_missing ''Required WorkOrder output schema result is missing.''
                 (schema_output_id wo) None]
               else validate_output_schema_value wo ou
           | None \<Rightarrow> [schema_issue VC_required_output_missing ''Required WorkOrder output schema result is missing.''
                 (schema_output_id wo) None])
        @ map criterion_issue unmet)"

definition validate_aggregated_node_result :: "work_order \<Rightarrow> aggregation \<Rightarrow> bool option \<Rightarrow> node_validation" where
  "validate_aggregated_node_result wo ag allowPartialSuccess =
     (let outputById = index_by ou_outputId (\<lambda>ou. ou) (map clone_output (ag_outputs ag));
          issues = validation_issues_of wo ag;
          status = decide_validation_status issues (allowPartialSuccess = Some True)
      in \<lparr>va_status = status,
          va_nodeResultStatus = validation_status_to_result status,
          va_valid = (status = VS_valid),
          va_outputs = map clone_output (ag_outputs ag),
          va_unmetSuccessCriteriaIds = map cr_criterionId (filter (\<lambda>c. cr_required c)
            (filter (\<lambda>c. \<not> criterion_met outputById c) (wo_successCriteria wo))),
          va_risksOrGaps = map issue_risk issues,
          va_issues = issues,
          va_reasonCodes = (''validation_status:'' @ validation_status_text status)
            # uniq (map (validation_code_text \<circ> vs_code) issues)\<rparr>)"

section \<open>Lemmas on merging\<close>

abbreviation item_id :: "result_item \<Rightarrow> string" where
  "item_id it \<equiv> ou_outputId (ai_output it)"

lemma uniq_append_single: "uniq (xs @ [x]) = (if x \<in> set xs then uniq xs else uniq xs @ [x])"
  by (induction xs) auto

lemma update_map_keys:
  "distinct ks \<Longrightarrow> AList.update k v (map (\<lambda>i. (i, f i)) ks) =
     (if k \<in> set ks then map (\<lambda>i. (i, if i = k then v else f i)) ks else map (\<lambda>i. (i, f i)) ks @ [(k, v)])"
  by (induction ks) (auto intro!: map_cong)

lemma map_of_map_keys: "map_of (map (\<lambda>i. (i, f i)) ks) k = (if k \<in> set ks then Some (f k) else None)"
  by (induction ks) auto

lemma group_by_output_eq:
  "group_by_output items = map (\<lambda>i. (i, filter (\<lambda>it. item_id it = i) items)) (uniq (map item_id items))"
proof (induction items rule: rev_induct)
  case (snoc it items)
  have "group_by_output (items @ [it]) =
      AList.update (item_id it) (js_lookup (group_by_output items) (item_id it) [] @ [it]) (group_by_output items)"
    by (simp add: group_by_output_def)
  also have "js_lookup (group_by_output items) (item_id it) [] = filter (\<lambda>x. item_id x = item_id it) items"
    by (auto simp: snoc js_lookup_def map_of_map_keys image_iff intro!: filter_False[symmetric])
  finally show ?case
    by (auto simp: snoc update_map_keys uniq_append_single intro!: map_cong)
qed (simp add: group_by_output_def)

lemma split_duplicates_set: "set (fst (split_duplicates i seen xs)) \<subseteq> set xs"
  by (induction i seen xs rule: split_duplicates.induct) (auto split: prod.splits)

lemma split_duplicates_sorted: "sorted_wrt P xs \<Longrightarrow> sorted_wrt P (fst (split_duplicates i seen xs))"
proof (induction i seen xs rule: split_duplicates.induct)
  case (2 i seen it items)
  then show ?case
    using split_duplicates_set[of i "ai_fingerprint it # seen" items] by (auto split: prod.splits)
qed simp

lemma split_duplicates_fingerprints:
  "distinct (map ai_fingerprint (fst (split_duplicates i seen xs)))
   \<and> ai_fingerprint ` set (fst (split_duplicates i seen xs)) = ai_fingerprint ` set xs - set seen"
proof (induction i seen xs rule: split_duplicates.induct)
  case (2 i seen it items)
  show ?case
  proof (cases "ai_fingerprint it \<in> set seen")
    case True
    then have "fst (split_duplicates i seen (it # items)) = fst (split_duplicates i seen items)"
      by (simp split: prod.split)
    with 2(1)[OF True] True show ?thesis by auto
  next
    case False
    then have "fst (split_duplicates i seen (it # items)) =
        it # fst (split_duplicates i (ai_fingerprint it # seen) items)"
      by (simp split: prod.split)
    moreover note 2(2)[OF False]
    ultimately show ?thesis using False by auto
  qed
qed simp

lemma split_duplicates_hd: "xs \<noteq> [] \<Longrightarrow> \<exists>rest. fst (split_duplicates i [] xs) = hd xs # rest"
  by (cases xs) (auto split: prod.splits)

lemma js_insert_front: "(\<forall>y \<in> set xs. cmp x y \<le> 0) \<Longrightarrow> js_insert cmp x xs = x # xs"
  by (cases xs) auto

lemma js_sort_sorted_id: "sorted_wrt (\<lambda>a b. cmp a b \<le> 0) xs \<Longrightarrow> js_sort cmp xs = xs"
  by (induction xs) (auto simp: js_sort_def js_insert_front)

definition by_priority :: "result_item list \<Rightarrow> bool" where
  "by_priority items \<longleftrightarrow> sorted_wrt (\<lambda>a b. ai_sourceKind a \<le> ai_sourceKind b) items"

lemma merge_group_output:
  assumes "by_priority xs" "xs \<noteq> []"
  shows "fst (merge_group st (i, xs)) = [ai_output (hd xs)]"
proof -
  obtain rest where u: "fst (split_duplicates i [] xs) = hd xs # rest"
    using split_duplicates_hd[OF assms(2)] by blast
  have "sorted_wrt (\<lambda>a b. source_priority (ai_sourceKind a) - source_priority (ai_sourceKind b) \<le> 0)
      (fst (split_duplicates i [] xs))"
    using assms(1) by (intro split_duplicates_sorted) (simp add: by_priority_def less_eq_source_kind_def)
  from js_sort_sorted_id[OF this] show ?thesis
    using u by (cases "split_duplicates i [] xs") (simp add: merge_group_def select_output_for_merge_def)
qed

lemma by_priority_append:
  "by_priority xs \<Longrightarrow> by_priority ys \<Longrightarrow>
   (\<And>a b. a \<in> set xs \<Longrightarrow> b \<in> set ys \<Longrightarrow> ai_sourceKind a \<le> ai_sourceKind b) \<Longrightarrow> by_priority (xs @ ys)"
  by (simp add: by_priority_def sorted_wrt_append)

lemma by_priority_same: "(\<And>x. x \<in> set xs \<Longrightarrow> ai_sourceKind x = k) \<Longrightarrow> by_priority xs"
  unfolding by_priority_def by (induction xs) auto

lemma build_item_kind [simp]: "ai_sourceKind (build_item h k s ou) = k"
  by (simp add: build_item_def)

lemma source_kind_order [simp]: "SK_self \<le> k" "k \<le> SK_tool"
  by (cases k; simp add: less_eq_source_kind_def)+

lemma aggregation_items_by_priority: "by_priority (aggregation_items h i)"
  unfolding aggregation_items_def
proof (intro by_priority_append)
  show "by_priority (case gg_selfOutputs i of None \<Rightarrow> []
      | Some outs \<Rightarrow> map (build_item h SK_self (wt_id (wo_to (gg_workOrder i)))) outs)"
    by (rule by_priority_same[of _ SK_self]) (auto split: option.splits)
  show "by_priority (concat (map (\<lambda>r. map (build_item h SK_child (nr_nodeId r)) (nr_outputs r)) (all_child_reports i)))"
    by (rule by_priority_same[of _ SK_child]) auto
  show "by_priority (map (\<lambda>r. build_item h SK_tool (nz_toolId r) (tool_output r)) (all_tool_results i))"
    by (rule by_priority_same[of _ SK_tool]) auto
qed (auto split: option.splits)

lemma aggregate_outputs:
  "ag_outputs (aggregate_node_runtime_results h i) =
     fst (merge_outputs (aggregation_items h i) (opt_or (gg_strategy i) SG_merge_and_validate))"
  "ag_conflicts (aggregate_node_runtime_results h i) =
     snd (snd (merge_outputs (aggregation_items h i) (opt_or (gg_strategy i) SG_merge_and_validate)))"
  "ag_duplicates (aggregate_node_runtime_results h i) =
     fst (snd (merge_outputs (aggregation_items h i) (opt_or (gg_strategy i) SG_merge_and_validate)))"
  "ag_items (aggregate_node_runtime_results h i) = aggregation_items h i"
  "ag_strategy (aggregate_node_runtime_results h i) = opt_or (gg_strategy i) SG_merge_and_validate"
  by (simp_all add: aggregate_node_runtime_results_def Let_def split: prod.split)

lemma length_more_than_one:
  assumes "distinct (map f us)"
  shows "length us > 1 \<longleftrightarrow> (\<exists>a \<in> f ` set us. \<exists>b \<in> f ` set us. a \<noteq> b)"
proof (cases us)
  case (Cons u vs)
  show ?thesis
  proof (cases vs)
    case Nil
    with Cons show ?thesis by simp
  next
    case (Cons v ws)
    with \<open>us = u # vs\<close> assms show ?thesis by auto
  qed
qed simp

section \<open>Properties of the aggregation\<close>

text \<open>
  the merge equals its specification: one output per id, ids in the order of their first
  appearance, and for each id the output of its first item, so the node's own output wins over a
  child's and a child's over a tool's, and among equals the earlier one.
\<close>

lemma aggregation_outputs_spec:
  "ag_outputs (aggregate_node_runtime_results h i) =
     map (\<lambda>k. ai_output (hd (filter (\<lambda>it. item_id it = k) (aggregation_items h i))))
       (uniq (map item_id (aggregation_items h i)))
   \<and> (\<forall>a b xs ys zs. aggregation_items h i = xs @ a # ys @ b # zs \<longrightarrow> ai_sourceKind a \<le> ai_sourceKind b)"
proof
  have single: "concat (map F ks) = map G ks" if "\<forall>k \<in> set ks. F k = [G k]" for F G and ks :: "string list"
    using that by (induction ks) auto
  have "fst (merge_group st (k, filter (\<lambda>it. item_id it = k) (aggregation_items h i))) =
      [ai_output (hd (filter (\<lambda>it. item_id it = k) (aggregation_items h i)))]"
    if "k \<in> set (uniq (map item_id (aggregation_items h i)))" for k st
    using that aggregation_items_by_priority[of h i]
    by (intro merge_group_output) (auto simp: by_priority_def sorted_wrt_filter filter_empty_conv)
  then show "ag_outputs (aggregate_node_runtime_results h i) =
     map (\<lambda>k. ai_output (hd (filter (\<lambda>it. item_id it = k) (aggregation_items h i))))
       (uniq (map item_id (aggregation_items h i)))"
    by (simp add: aggregate_outputs merge_outputs_def group_by_output_eq comp_def single)
  show "\<forall>a b xs ys zs. aggregation_items h i = xs @ a # ys @ b # zs \<longrightarrow> ai_sourceKind a \<le> ai_sourceKind b"
    using aggregation_items_by_priority[of h i] by (auto simp: by_priority_def sorted_wrt_append)
qed

definition sample_output :: "string \<Rightarrow> output_status \<Rightarrow> node_output" where
  "sample_output k st = \<lparr>ou_outputId = k, ou_status = st, ou_value = JUndef\<rparr>"

definition sample_report :: "string \<Rightarrow> node_output list \<Rightarrow> node_result_report" where
  "sample_report n outs = \<lparr>nr_resultReportId = ''r'', nr_topologyRunId = ''run'', nr_nodeRunId = ''nr'',
     nr_workOrderId = ''w'', nr_nodeId = n, nr_status = RS_completed, nr_outputs = outs,
     nr_unmetSuccessCriteriaIds = [], nr_risksOrGaps = [], nr_partialResult = JUndef,
     nr_failureReportId = None, nr_createdAt = TNum (Fin 0)\<rparr>"

definition sample_aggregate_input :: aggregate_input where
  "sample_aggregate_input = \<lparr>gg_workOrder = sample_work_order ''a'', gg_strategy = None,
     gg_selfOutputs = Some [sample_output ''done'' OS_missing], gg_selfStatus = None, gg_selfRisksOrGaps = None,
     gg_childReports = Some [sample_report ''b'' [sample_output ''done'' OS_satisfied, sample_output ''more'' OS_satisfied]],
     gg_childDelegation = None, gg_toolExecution = None, gg_expectedChildNodeIds = None,
     gg_requireAllChildResults = None, gg_quorum = None\<rparr>"

lemma aggregation_outputs_spec_witness:
  "ag_outputs (aggregate_node_runtime_results sample_host sample_aggregate_input) =
     [sample_output ''done'' OS_missing, sample_output ''more'' OS_satisfied]"
proof -
  have "map (\<lambda>k. ai_output (hd (filter (\<lambda>it. item_id it = k) (aggregation_items sample_host sample_aggregate_input))))
       (uniq (map item_id (aggregation_items sample_host sample_aggregate_input))) =
     [sample_output ''done'' OS_missing, sample_output ''more'' OS_satisfied]"
    by (simp add: aggregation_items_def sample_aggregate_input_def all_child_reports_def all_tool_results_def
        build_item_def sample_report_def sample_output_def)
  with aggregation_outputs_spec[of sample_host sample_aggregate_input] show ?thesis by simp
qed

text \<open>
  a conflict is reported for exactly the ids under which two items differ, once per id and in
  the order of first appearance.
\<close>

lemma aggregation_conflicts_spec:
  "map gi_outputId (ag_conflicts (aggregate_node_runtime_results h i)) =
     map Some (filter (\<lambda>k. \<exists>a \<in> set (aggregation_items h i). \<exists>b \<in> set (aggregation_items h i).
         item_id a = k \<and> item_id b = k \<and> ai_fingerprint a \<noteq> ai_fingerprint b)
       (uniq (map item_id (aggregation_items h i))))"
proof -
  have group: "map gi_outputId (snd (snd (merge_group st (k, xs)))) =
      (if \<exists>a \<in> set xs. \<exists>b \<in> set xs. ai_fingerprint a \<noteq> ai_fingerprint b then [Some k] else [])" for st k xs
  proof -
    obtain us ds where u: "split_duplicates k [] xs = (us, ds)" by fastforce
    have iff: "length us > 1 \<longleftrightarrow> (\<exists>a \<in> set xs. \<exists>b \<in> set xs. ai_fingerprint a \<noteq> ai_fingerprint b)"
    proof -
      have d: "distinct (map ai_fingerprint us)" and e: "ai_fingerprint ` set us = ai_fingerprint ` set xs"
        using split_duplicates_fingerprints[of k "[]" xs] by (simp_all add: u)
      show ?thesis by (simp only: length_more_than_one[OF d] e bex_simps)
    qed
    have "map gi_outputId (snd (snd (merge_group st (k, xs)))) = (if length us > 1 then [Some k] else [])"
      by (simp add: merge_group_def u conflict_issue_def)
    then show ?thesis by (simp only: iff)
  qed
  have pick: "concat (map (\<lambda>k. if P k then [Some k] else []) ks) = map Some (filter P ks)" for P and ks :: "string list"
    by (induction ks) auto
  have "map gi_outputId (ag_conflicts (aggregate_node_runtime_results h i)) =
      concat (map (\<lambda>k. map gi_outputId (snd (snd (merge_group (opt_or (gg_strategy i) SG_merge_and_validate)
        (k, filter (\<lambda>it. item_id it = k) (aggregation_items h i))))))
      (uniq (map item_id (aggregation_items h i))))"
    by (simp add: aggregate_outputs merge_outputs_def group_by_output_eq map_concat comp_def)
  also have "\<dots> = map Some (filter (\<lambda>k. \<exists>a \<in> set (filter (\<lambda>it. item_id it = k) (aggregation_items h i)).
      \<exists>b \<in> set (filter (\<lambda>it. item_id it = k) (aggregation_items h i)). ai_fingerprint a \<noteq> ai_fingerprint b)
      (uniq (map item_id (aggregation_items h i))))"
    unfolding group pick ..
  also have "\<dots> = map Some (filter (\<lambda>k. \<exists>a \<in> set (aggregation_items h i). \<exists>b \<in> set (aggregation_items h i).
         item_id a = k \<and> item_id b = k \<and> ai_fingerprint a \<noteq> ai_fingerprint b)
       (uniq (map item_id (aggregation_items h i))))"
    by (intro arg_cong[of _ _ "map Some"] filter_cong) auto
  finally show ?thesis .
qed

section \<open>Properties of the validation\<close>

lemma unmet_validation:
  "map cr_criterionId (filter (\<lambda>c. cr_required c)
     (filter (\<lambda>c. \<not> criterion_met (index_by ou_outputId (\<lambda>ou. ou) outs) c) (wo_successCriteria wo))) =
   unmet_success_criteria_ids wo outs"
  by (simp add: unmet_success_criteria_ids_def Let_def criterion_met_def)
    (intro arg_cong[of _ _ "map cr_criterionId"] filter_cong, auto)

lemma clone_outputs [simp]: "map clone_output outs = outs"
  by (simp add: map_idI)

text \<open>The schema output is present and well typed.\<close>

definition schema_output_ok :: "work_order \<Rightarrow> node_output list \<Rightarrow> bool" where
  "schema_output_ok wo outs \<longleftrightarrow> (\<exists>ou. map_of (index_by ou_outputId (\<lambda>ou. ou) outs) (schema_output_id wo) = Some ou
     \<and> ou_status ou \<noteq> OS_missing \<and> validate_output_schema_value wo ou = [])"

lemma schema_issue_blocked: "i \<in> set (validate_output_schema_value wo ou) \<Longrightarrow> vs_severity i = SV_blocked"
  by (auto simp: validate_output_schema_value_def schema_issue_def Let_def split: if_splits option.splits)

lemma no_blocked_schema_ok:
  assumes "\<not> (\<exists>i \<in> set (validation_issues_of wo ag). vs_severity i = SV_blocked)"
  shows "schema_output_ok wo (ag_outputs ag)"
proof -
  from assms have iss: "\<And>i. i \<in> set (validation_issues_of wo ag) \<Longrightarrow> vs_severity i \<noteq> SV_blocked" by blast
  show ?thesis
  proof (cases "map_of (index_by ou_outputId (\<lambda>ou. ou) (ag_outputs ag)) (schema_output_id wo)")
    case None
    with iss show ?thesis by (force simp: validation_issues_of_def Let_def schema_issue_def)
  next
    case (Some ou)
    have "ou_status ou \<noteq> OS_missing" using iss Some by (force simp: validation_issues_of_def Let_def schema_issue_def)
    moreover have "validate_output_schema_value wo ou = []"
    proof (rule ccontr)
      assume "validate_output_schema_value wo ou \<noteq> []"
      then obtain i where "i \<in> set (validate_output_schema_value wo ou)" by (meson list.set_sel(1))
      then show False
        using iss[of i] schema_issue_blocked[of i] Some \<open>ou_status ou \<noteq> OS_missing\<close>
        by (simp add: validation_issues_of_def Let_def)
    qed
    ultimately show ?thesis using Some by (simp add: schema_output_ok_def)
  qed
qed

lemma unmet_has_issue:
  "unmet_success_criteria_ids wo (ag_outputs ag) \<noteq> [] \<longleftrightarrow>
   (\<exists>i \<in> set (validation_issues_of wo ag). vs_code i = VC_success_criterion_unmet)"
proof -
  have schema: "vs_code i \<noteq> VC_success_criterion_unmet" if "i \<in> set (validate_output_schema_value wo ou)" for i ou
    using that by (auto simp: validate_output_schema_value_def schema_issue_def Let_def split: if_splits option.splits)
  have codes: "vs_code (of_aggregation_issue g) \<noteq> VC_success_criterion_unmet"
    "vs_code (schema_issue VC_required_output_missing m k p) \<noteq> VC_success_criterion_unmet"
    "vs_code (criterion_issue c) = VC_success_criterion_unmet \<longleftrightarrow> cr_required c" for g c m k p
    by (simp_all add: of_aggregation_issue_def criterion_issue_def schema_issue_def)
  let ?unmet = "filter (\<lambda>c. \<not> criterion_met (index_by ou_outputId (\<lambda>ou. ou) (ag_outputs ag)) c) (wo_successCriteria wo)"
  have "\<exists>pre. validation_issues_of wo ag = pre @ map criterion_issue ?unmet
      \<and> (\<forall>i \<in> set pre. vs_code i \<noteq> VC_success_criterion_unmet)"
    unfolding validation_issues_of_def Let_def clone_outputs append_assoc[symmetric]
    by (rule exI, rule conjI, rule refl) (auto simp: codes schema split: option.splits if_splits)
  then obtain pre where pre: "validation_issues_of wo ag = pre @ map criterion_issue ?unmet"
    "\<forall>i \<in> set pre. vs_code i \<noteq> VC_success_criterion_unmet" by blast
  have "(\<exists>i \<in> set (validation_issues_of wo ag). vs_code i = VC_success_criterion_unmet) \<longleftrightarrow>
    (\<exists>c \<in> set ?unmet. cr_required c)"
    unfolding pre(1) set_append bex_Un set_map bex_simps codes using pre(2) by blast
  then show ?thesis
    by (auto simp: unmet_validation[symmetric] filter_empty_conv)
qed

text \<open>
  what a validation status guarantees. A node reports \<open>completed\<close> after aggregation only with every
  required criterion satisfied and its schema output present and of the declared type with all
  required fields; a required criterion that is not satisfied makes the result a failure candidate
  whether or not partial success is allowed; \<open>partial_success\<close> needs that permission. The unmet list
  is the one the exhaustion check computes from the same outputs.
\<close>

lemma validation_status_sound:
  "let v = validate_aggregated_node_result wo ag allow in
    va_unmetSuccessCriteriaIds v = unmet_success_criteria_ids wo (ag_outputs ag)
    \<and> (va_nodeResultStatus v = RS_completed \<longrightarrow>
        va_unmetSuccessCriteriaIds v = [] \<and> schema_output_ok wo (va_outputs v))
    \<and> (va_unmetSuccessCriteriaIds v \<noteq> [] \<longrightarrow> va_nodeResultStatus v = RS_failed_candidate)
    \<and> (va_nodeResultStatus v = RS_partial_success \<longrightarrow> allow = Some True)
    \<and> va_nodeResultStatus v \<in> {RS_completed, RS_partial_success, RS_needs_revision, RS_failed_candidate}"
proof -
  let ?v = "validate_aggregated_node_result wo ag allow"
  have fields: "va_unmetSuccessCriteriaIds ?v = unmet_success_criteria_ids wo (ag_outputs ag)"
    "va_outputs ?v = ag_outputs ag"
    "va_nodeResultStatus ?v = validation_status_to_result
       (decide_validation_status (validation_issues_of wo ag) (allow = Some True))"
    by (simp_all add: validate_aggregated_node_result_def Let_def unmet_validation[symmetric])
  show ?thesis
    using no_blocked_schema_ok[of wo ag] unmet_has_issue[of wo ag]
    by (auto simp: fields Let_def decide_validation_status_def)
qed

lemma validation_status_sound_witness:
  "va_nodeResultStatus (validate_aggregated_node_result (sample_work_order ''a'')
     (aggregate_node_runtime_results sample_host sample_aggregate_input) (Some True)) = RS_failed_candidate"
proof -
  have "va_unmetSuccessCriteriaIds (validate_aggregated_node_result (sample_work_order ''a'')
     (aggregate_node_runtime_results sample_host sample_aggregate_input) (Some True)) \<noteq> []" by code_simp
  with validation_status_sound[of "sample_work_order ''a''"
      "aggregate_node_runtime_results sample_host sample_aggregate_input" "Some True"] show ?thesis
    by (simp add: Let_def)
qed

end
