(* ===== verification/Recovery.thy ===== *)
theory Recovery
  imports Aggregation
begin

text \<open>
  What happens before a node may fail for good: \<open>topology-runtime/recovery-controller.ts\<close> reviews the
  seven recovery options, \<open>exhaustion-checker.ts\<close> decides whether the failure may be finalised, and
  \<open>failure-report.ts\<close> writes the report that a final failure carries.
\<close>

section \<open>Recovery review\<close>

record recovery_options =
  ro_selfExecutionAttempted :: "bool option"
  ro_childDelegationAttempted :: "bool option"
  ro_toolExecutionAttempted :: "bool option"
  ro_retryAttempted :: "bool option"
  ro_fallbackAttempted :: "bool option"
  ro_partialSuccessChecked :: "bool option"
  ro_parentRecoveryPossibleChecked :: "bool option"
  ro_requireChildDelegationReview :: "bool option"
  ro_requireToolExecutionReview :: "bool option"
  ro_requireRetryReview :: "bool option"
  ro_requireFallbackReview :: "bool option"
  ro_requirePartialSuccessReview :: "bool option"
  ro_requireParentRecoveryReview :: "bool option"
  ro_recommendedAction :: "string option"

record review_input =
  ri_workOrder :: work_order
  ri_nodeContractSnapshot :: node_contract
  ri_candidateStatus :: result_status
  ri_states :: "runtime_state list"
  ri_childDelegation :: "child_summary option"
  ri_toolExecution :: "tool_summary option"
  ri_validation :: "node_validation option"
  ri_options :: recovery_options

record review_signal =
  sg_kind :: attempt_kind
  sg_possible :: bool
  sg_reviewed :: bool
  sg_blockingIfUnreviewed :: bool
  sg_status :: attempt_status
  sg_reasonCode :: string
  sg_summary :: string

definition build_signal ::
  "attempt_kind \<Rightarrow> bool \<Rightarrow> bool \<Rightarrow> bool \<Rightarrow> attempt_status \<Rightarrow> string \<Rightarrow> string \<Rightarrow> string \<Rightarrow> string \<Rightarrow> review_signal" where
  "build_signal kind possible reviewed blocking attemptedStatus attempted unreviewed notAvailable summary =
     (if \<not> possible then
        \<lparr>sg_kind = kind, sg_possible = False, sg_reviewed = reviewed, sg_blockingIfUnreviewed = False,
         sg_status = (if reviewed then attemptedStatus else AS_skipped),
         sg_reasonCode = (if reviewed then attempted else notAvailable), sg_summary = summary\<rparr>
      else
        \<lparr>sg_kind = kind, sg_possible = True, sg_reviewed = reviewed, sg_blockingIfUnreviewed = blocking,
         sg_status = (if reviewed then attemptedStatus else AS_skipped),
         sg_reasonCode = (if reviewed then attempted else unreviewed), sg_summary = summary\<rparr>)"

definition policy_flag :: "(recovery_policy \<Rightarrow> bool) \<Rightarrow> node_contract \<Rightarrow> bool" where
  "policy_flag f n = (case nc_recoveryPolicy n of None \<Rightarrow> False | Some p \<Rightarrow> f p)"

definition failure_flag :: "(failure_policy \<Rightarrow> bool) \<Rightarrow> node_contract \<Rightarrow> bool" where
  "failure_flag f n = (case nc_failurePolicy n of None \<Rightarrow> False | Some p \<Rightarrow> f p)"

definition pick_summary :: "bool \<Rightarrow> string \<Rightarrow> bool \<Rightarrow> string \<Rightarrow> string \<Rightarrow> string" where
  "pick_summary reviewed a possible b c = (if reviewed then a else if possible then b else c)"

definition review_self_execution :: "review_input \<Rightarrow> review_signal" where
  "review_self_execution i =
     (let reviewed = opt_or (ro_selfExecutionAttempted (ri_options i)) (ST_self_executing \<in> set (ri_states i)) in
      build_signal AK_self_execution True reviewed True
        (if ri_candidateStatus i = RS_completed \<or> ri_candidateStatus i = RS_partial_success then AS_succeeded else AS_failed)
        ''self_execution_attempted'' ''self_execution_untried'' ''self_execution_untried''
        (if reviewed then ''Self execution was attempted before final failure review.''
         else ''Self execution has not been attempted.''))"

definition status_for_child_delegation :: "child_summary option \<Rightarrow> attempt_status" where
  "status_for_child_delegation sm = (case sm of None \<Rightarrow> AS_attempted
     | Some s \<Rightarrow> (case sm_status s of DS_dispatched \<Rightarrow> AS_succeeded | DS_blocked \<Rightarrow> AS_blocked
         | DS_partial \<Rightarrow> AS_failed | DS_skipped \<Rightarrow> AS_skipped))"

definition review_child_delegation :: "review_input \<Rightarrow> review_signal" where
  "review_child_delegation i =
     (let possible = opt_or (ro_requireChildDelegationReview (ri_options i))
            (policy_flag rp_redelegationAllowed (ri_nodeContractSnapshot i) \<or> nc_children (ri_nodeContractSnapshot i) \<noteq> []);
          reviewed = opt_or (ro_childDelegationAttempted (ri_options i)) (ri_childDelegation i \<noteq> None)
      in build_signal AK_child_delegation possible reviewed possible (status_for_child_delegation (ri_childDelegation i))
           ''child_delegation_attempted'' ''child_delegation_untried'' ''child_delegation_not_available''
           (pick_summary reviewed ''Child delegation or redelegation was reviewed.''
             possible ''Child delegation or redelegation remains unreviewed.''
             ''Child delegation is unavailable for this node.''))"

definition status_for_tool_execution :: "tool_summary option \<Rightarrow> attempt_status" where
  "status_for_tool_execution su = (case su of None \<Rightarrow> AS_attempted
     | Some s \<Rightarrow> (case su_status s of TS_completed \<Rightarrow> AS_succeeded | TS_failed_candidate \<Rightarrow> AS_failed
         | TS_partial \<Rightarrow> AS_failed | TS_skipped \<Rightarrow> AS_skipped))"

definition review_tool_execution :: "review_input \<Rightarrow> review_signal" where
  "review_tool_execution i =
     (let possible = opt_or (ro_requireToolExecutionReview (ri_options i))
            (length (uniq (nc_allowedToolIds (ri_nodeContractSnapshot i)
               @ ps_allowedToolIds (wo_permissionScope (ri_workOrder i)))) > 0);
          reviewed = opt_or (ro_toolExecutionAttempted (ri_options i)) (ri_toolExecution i \<noteq> None)
      in build_signal AK_tool_execution possible reviewed possible (status_for_tool_execution (ri_toolExecution i))
           ''tool_execution_attempted'' ''tool_execution_untried'' ''tool_execution_not_available''
           (pick_summary reviewed ''Tool execution possibilities were reviewed.''
             possible ''Tool execution possibilities remain unreviewed.''
             ''No executable tool is available for this work order.''))"

definition review_retry :: "review_input \<Rightarrow> review_signal" where
  "review_retry i =
     (let possible = opt_or (ro_requireRetryReview (ri_options i)) (policy_flag rp_retryAllowed (ri_nodeContractSnapshot i));
          reviewed = (ro_retryAttempted (ri_options i) = Some True)
      in build_signal AK_retry possible reviewed possible AS_attempted
           ''retry_attempted'' ''retry_untried'' ''retry_not_available''
           (pick_summary reviewed ''Retry path was reviewed or attempted.''
             possible ''Retry path remains unreviewed.'' ''Retry is unavailable by node recovery policy.''))"

definition review_fallback :: "review_input \<Rightarrow> review_signal" where
  "review_fallback i =
     (let fallbackNodeIds = (case nc_failurePolicy (ri_nodeContractSnapshot i) of None \<Rightarrow> [] | Some p \<Rightarrow> fp_fallbackNodeIds p);
          possible = opt_or (ro_requireFallbackReview (ri_options i))
            (policy_flag rp_fallbackAllowed (ri_nodeContractSnapshot i) \<and> fallbackNodeIds \<noteq> []);
          reviewed = (ro_fallbackAttempted (ri_options i) = Some True)
      in build_signal AK_fallback possible reviewed possible AS_attempted
           ''fallback_attempted'' ''fallback_untried'' ''fallback_not_available''
           (pick_summary reviewed ''Fallback path was reviewed or attempted.''
             possible ''Fallback path remains unreviewed.'' ''Fallback is unavailable by node policy.''))"

definition review_partial_success :: "review_input \<Rightarrow> review_signal" where
  "review_partial_success i =
     (let policy = (policy_flag rp_partialSuccessAllowed (ri_nodeContractSnapshot i)
            \<or> failure_flag fp_allowPartialSuccess (ri_nodeContractSnapshot i));
          possible = opt_or (ro_requirePartialSuccessReview (ri_options i)) policy;
          reviewed = opt_or (ro_partialSuccessChecked (ri_options i))
            (ri_validation i \<noteq> None \<or> ri_candidateStatus i = RS_partial_success)
      in build_signal AK_partial_success_review possible reviewed possible AS_attempted
           ''partial_success_checked'' ''partial_success_unchecked'' ''partial_success_not_available''
           (pick_summary reviewed ''Partial success was evaluated.''
             possible ''Partial success has not been evaluated.''
             ''Partial success is unavailable by node policy.''))"

definition review_parent_recovery :: "review_input \<Rightarrow> review_signal" where
  "review_parent_recovery i =
     (let possible = opt_or (ro_requireParentRecoveryReview (ri_options i)) True;
          reviewed = (ro_parentRecoveryPossibleChecked (ri_options i) = Some True)
      in build_signal AK_parent_recovery possible reviewed possible AS_attempted
           ''parent_recovery_checked'' ''parent_recovery_unchecked'' ''parent_recovery_unchecked''
           (if reviewed then ''Parent recovery propagation was reviewed.''
            else ''Parent recovery propagation has not been reviewed.''))"

definition recovery_signals :: "review_input \<Rightarrow> review_signal list" where
  "recovery_signals i = [review_self_execution i, review_child_delegation i, review_tool_execution i,
     review_retry i, review_fallback i, review_partial_success i, review_parent_recovery i]"

record recovery_review =
  rv_attempts :: "attempt_record list"
  rv_signals :: "review_signal list"
  rv_untriedOptions :: "string list"
  rv_blockingUntriedOptions :: "string list"
  rv_reasonCodes :: "string list"
  rv_attempted :: "attempt_kind \<Rightarrow> bool"

definition signal_to_attempt :: "review_signal \<Rightarrow> work_order \<Rightarrow> timestamp \<Rightarrow> nat \<Rightarrow> attempt_record" where
  "signal_to_attempt sg wo moment ix =
     \<lparr>at_attemptId = ''attempt:'' @ wo_workOrderId wo @ '':'' @ show_nat (ix + 1) @ '':'' @ attempt_kind_text (sg_kind sg),
      at_kind = sg_kind sg, at_status = sg_status sg, at_at = moment, at_reasonCode = Some (sg_reasonCode sg),
      at_summary = Some (sg_summary sg), at_target = Some (wo_to wo)\<rparr>"

definition signal_attempted :: "review_signal list \<Rightarrow> attempt_kind \<Rightarrow> bool" where
  "signal_attempted signals kind =
     (case filter (\<lambda>s. sg_kind s = kind) signals of [] \<Rightarrow> False | s # _ \<Rightarrow> sg_reviewed s)"

definition option_text :: "review_signal \<Rightarrow> string" where
  "option_text sg = attempt_kind_text (sg_kind sg) @ '':'' @ sg_reasonCode sg"

definition build_node_recovery_review :: "host \<Rightarrow> review_input \<Rightarrow> nat \<Rightarrow> recovery_review \<times> nat" where
  "build_node_recovery_review h i tick =
     (let signals = recovery_signals i in
      (\<lparr>rv_attempts = map (\<lambda>ix. signal_to_attempt (snd ix) (ri_workOrder i) (clock_time h (tick + fst ix)) (fst ix))
           (enumerate 0 signals),
        rv_signals = signals,
        rv_untriedOptions = map option_text (filter (\<lambda>s. \<not> sg_reviewed s) signals),
        rv_blockingUntriedOptions = map option_text
          (filter (\<lambda>s. sg_possible s \<and> sg_blockingIfUnreviewed s \<and> \<not> sg_reviewed s) signals),
        rv_reasonCodes = map sg_reasonCode signals,
        rv_attempted = signal_attempted signals\<rparr>, tick + length signals))"

section \<open>Exhaustion\<close>

record exhaustion_check =
  xk_exhaustionSummary :: exhaustion_summary
  xk_complete :: bool
  xk_canFinalizeFailure :: bool
  xk_successCriteriaStillNotMet :: bool
  xk_unmetSuccessCriteriaIds :: "string list"
  xk_untriedOptions :: "string list"
  xk_blockingUntriedOptions :: "string list"
  xk_reasonCodes :: "string list"

definition check_final_failure_exhaustion :: "work_order \<Rightarrow> node_output list \<Rightarrow> recovery_review \<Rightarrow> exhaustion_check" where
  "check_final_failure_exhaustion wo outs rv =
     (let unmet = unmet_success_criteria_ids wo outs;
          stillNotMet = (unmet \<noteq> []);
          complete = (rv_blockingUntriedOptions rv = []);
          canFinalize = (complete \<and> stillNotMet)
      in \<lparr>xk_exhaustionSummary =
            \<lparr>xs_selfExecutionAttempted = rv_attempted rv AK_self_execution,
             xs_childDelegationAttempted = rv_attempted rv AK_child_delegation,
             xs_toolExecutionAttempted = rv_attempted rv AK_tool_execution,
             xs_retryAttempted = rv_attempted rv AK_retry,
             xs_fallbackAttempted = rv_attempted rv AK_fallback,
             xs_partialSuccessChecked = rv_attempted rv AK_partial_success_review,
             xs_parentRecoveryPossibleChecked = rv_attempted rv AK_parent_recovery,
             xs_successCriteriaStillNotMet = stillNotMet,
             xs_complete = complete\<rparr>,
          xk_complete = complete,
          xk_canFinalizeFailure = canFinalize,
          xk_successCriteriaStillNotMet = stillNotMet,
          xk_unmetSuccessCriteriaIds = unmet,
          xk_untriedOptions = rv_untriedOptions rv,
          xk_blockingUntriedOptions = rv_blockingUntriedOptions rv,
          xk_reasonCodes = [if canFinalize then ''final_failure_guard_passed'' else ''final_failure_guard_blocked'',
              if complete then ''exhaustion_complete'' else ''exhaustion_incomplete'',
              if stillNotMet then ''success_criteria_not_met'' else ''success_criteria_met'']
            @ rv_reasonCodes rv\<rparr>)"

section \<open>Failure reports\<close>

record failure_input =
  fi_workOrder :: work_order
  fi_nodeContractSnapshot :: node_contract
  fi_nodeRunId :: string
  fi_risksOrGaps :: "string list"
  fi_recoveryReview :: recovery_review
  fi_exhaustion :: exhaustion_check
  fi_partialResult :: json
  fi_recommendedAction :: "string option"
  fi_failureReportId :: "string option"

definition failure_issue_kind_of :: "failure_input \<Rightarrow> failure_issue_kind" where
  "failure_issue_kind_of i =
     (if xk_unmetSuccessCriteriaIds (fi_exhaustion i) \<noteq> [] then FI_success_criteria_unmet
      else if fi_risksOrGaps i \<noteq> [] then FI_runtime_risk
      else if rv_attempted (fi_recoveryReview i) AK_tool_execution \<and> \<not> rv_attempted (fi_recoveryReview i) AK_fallback
        then FI_permission_or_tool_blocked
      else FI_execution_incomplete)"

fun recovery_action_for :: "attempt_kind \<Rightarrow> recovery_action_kind" where
  "recovery_action_for AK_retry = RA_retry"
| "recovery_action_for AK_child_delegation = RA_delegate_to_next_executor"
| "recovery_action_for AK_tool_execution = RA_add_tool_permission"
| "recovery_action_for AK_fallback = RA_add_fallback_path"
| "recovery_action_for AK_partial_success_review = RA_pass_partial_result"
| "recovery_action_for AK_parent_recovery = RA_return_to_parent"
| "recovery_action_for AK_self_execution = RA_review_trace"

definition failure_recovery_action_kind :: "recovery_review \<Rightarrow> recovery_action_kind" where
  "failure_recovery_action_kind rv =
     (case filter (\<lambda>s. sg_possible s \<and> \<not> sg_reviewed s) (rv_signals rv) of
        [] \<Rightarrow> RA_review_trace | s # _ \<Rightarrow> recovery_action_for (sg_kind s))"

fun next_action_for :: "recovery_action_kind \<Rightarrow> next_action_kind" where
  "next_action_for RA_add_tool_permission = NA_add_permission"
| "next_action_for RA_add_fallback_path = NA_add_fallback"
| "next_action_for RA_pass_partial_result = NA_pass_partial"
| "next_action_for _ = NA_review_trace"

definition recommended_action_for_failure :: "failure_input \<Rightarrow> string" where
  "recommended_action_for_failure i =
     (if xk_blockingUntriedOptions (fi_exhaustion i) \<noteq> [] then
        ''Review untried recovery options before declaring final failure: ''
        @ join '', '' (xk_blockingUntriedOptions (fi_exhaustion i)) @ ''.''
      else if xk_unmetSuccessCriteriaIds (fi_exhaustion i) \<noteq> [] then
        ''Escalate with unmet success criteria: '' @ join '', '' (xk_unmetSuccessCriteriaIds (fi_exhaustion i)) @ ''.''
      else if fi_risksOrGaps i \<noteq> [] then
        ''Review unresolved runtime risks: '' @ join '', '' (take 3 (fi_risksOrGaps i)) @ ''.''
      else ''Escalate to the accountable owner with the failure report and runtime trace.'')"

definition generate_failure_report :: "failure_input \<Rightarrow> timestamp \<Rightarrow> failure_report" where
  "generate_failure_report i createdAt =
     \<lparr>fr_failureReportId = opt_or (fi_failureReportId i) (''failure:'' @ wo_workOrderId (fi_workOrder i)),
      fr_topologyRunId = wo_topologyRunId (fi_workOrder i),
      fr_nodeRunId = fi_nodeRunId i,
      fr_workOrderId = wo_workOrderId (fi_workOrder i),
      fr_nodeId = be_id (fi_nodeContractSnapshot i),
      fr_exhaustionSummary = xk_exhaustionSummary (fi_exhaustion i),
      fr_attempts = rv_attempts (fi_recoveryReview i),
      fr_untriedOptions = xk_untriedOptions (fi_exhaustion i),
      fr_partialResult = fi_partialResult i,
      fr_issueKind = Some (failure_issue_kind_of i),
      fr_recoveryActionKind = Some (failure_recovery_action_kind (fi_recoveryReview i)),
      fr_nextActionKind = Some (next_action_for (failure_recovery_action_kind (fi_recoveryReview i))),
      fr_recommendedAction = opt_or (fi_recommendedAction i) (recommended_action_for_failure i),
      fr_createdAt = createdAt\<rparr>"

section \<open>Lemmas\<close>

lemma build_signal_fields:
  "sg_kind (build_signal k p r b a att un na su) = k"
  "sg_possible (build_signal k p r b a att un na su) = p"
  "sg_reviewed (build_signal k p r b a att un na su) = r"
  "sg_blockingIfUnreviewed (build_signal k p r b a att un na su) = (p \<and> b)"
  "sg_status (build_signal k p r b a att un na su) = (if r then a else AS_skipped)"
  by (auto simp: build_signal_def)

lemmas review_defs = review_self_execution_def review_child_delegation_def review_tool_execution_def
  review_retry_def review_fallback_def review_partial_success_def review_parent_recovery_def

lemma recovery_signal_kinds:
  "map sg_kind (recovery_signals i) = [AK_self_execution, AK_child_delegation, AK_tool_execution, AK_retry,
     AK_fallback, AK_partial_success_review, AK_parent_recovery]"
  by (simp add: recovery_signals_def review_defs Let_def build_signal_fields)

lemma recovery_signal_blocking: "s \<in> set (recovery_signals i) \<Longrightarrow> sg_blockingIfUnreviewed s = sg_possible s"
  by (auto simp: recovery_signals_def review_defs Let_def build_signal_fields)

lemma blocking_untried_Nil:
  "rv_blockingUntriedOptions (fst (build_node_recovery_review h i tick)) = [] \<longleftrightarrow>
   (\<forall>s \<in> set (recovery_signals i). sg_possible s \<longrightarrow> sg_reviewed s)"
  using recovery_signal_blocking by (auto simp: build_node_recovery_review_def Let_def filter_empty_conv)

section \<open>Properties\<close>

text \<open>
  the guard that lets a node fail for good passes exactly when some required criterion is still
  unmet and every recovery option that is possible for the node has been reviewed; the review covers
  each of the seven kinds of attempt once, with one attempt record per kind.
\<close>

lemma final_failure_guard_exact:
  "(xk_canFinalizeFailure (check_final_failure_exhaustion wo outs (fst (build_node_recovery_review h i tick))) \<longleftrightarrow>
      unmet_success_criteria_ids wo outs \<noteq> []
      \<and> {s \<in> set (recovery_signals i). sg_possible s \<and> \<not> sg_reviewed s} = {})
   \<and> map at_kind (rv_attempts (fst (build_node_recovery_review h i tick))) =
      [AK_self_execution, AK_child_delegation, AK_tool_execution, AK_retry,
       AK_fallback, AK_partial_success_review, AK_parent_recovery]"
proof -
  have "map at_kind (rv_attempts (fst (build_node_recovery_review h i tick))) = map sg_kind (recovery_signals i)"
    by (simp add: build_node_recovery_review_def Let_def signal_to_attempt_def recovery_signals_def)
  moreover have "xk_canFinalizeFailure (check_final_failure_exhaustion wo outs rv) \<longleftrightarrow>
      unmet_success_criteria_ids wo outs \<noteq> [] \<and> rv_blockingUntriedOptions rv = []" for rv
    by (auto simp: check_final_failure_exhaustion_def Let_def)
  ultimately show ?thesis by (auto simp: blocking_untried_Nil recovery_signal_kinds)
qed

end
