(* ===== verification/Node_Decisions.thy ===== *)
theory Node_Decisions
  imports Recovery
begin

text \<open>
  The decisions of \<open>topology-runtime/node-runtime.ts\<close> that need no clock and no trace: the check of the
  work order's input against the node's input schema, the default self execution, the status a self
  execution earns, the risk codes of children and tools; and the reports of \<open>topology-runtime/reporter.ts\<close>.
\<close>

section \<open>Input schema\<close>

record input_issue =
  ii_path :: string
  ii_reasonCode :: string
  ii_message :: string

definition node_runtime_input_schema :: "node_contract \<Rightarrow> json option" where
  "node_runtime_input_schema n =
     (let schema = nullish (jget (be_metadata n) ''inputSchema'') (jget (be_metadata n) ''runtimeInputSchema'')
      in if is_record schema then Some schema else None)"

definition input_present :: "work_order \<Rightarrow> string \<Rightarrow> bool" where
  "input_present wo k \<longleftrightarrow> has_key (wo_input wo) k \<and> jget (wo_input wo) k \<noteq> JUndef"

definition required_input_issues :: "work_order \<Rightarrow> json \<Rightarrow> input_issue list" where
  "required_input_issues wo schema =
     map (\<lambda>k. \<lparr>ii_path = ''$.input.'' @ k, ii_reasonCode = ''input_required_field_missing'',
         ii_message = ''Required input field '' @ k @ '' is missing.''\<rparr>)
       (filter (\<lambda>k. \<not> input_present wo k) (required_keys (jget schema ''required'')))"

definition input_type_issues :: "work_order \<Rightarrow> json \<Rightarrow> input_issue list" where
  "input_type_issues wo schema =
     concat (map (\<lambda>(k, propertySchema).
       (case jget propertySchema ''type'' of
          JStr expectedType \<Rightarrow>
            if is_record propertySchema \<and> input_present wo k
              \<and> \<not> enterprise_value_matches_schema_type (jget (wo_input wo) k) expectedType
            then [\<lparr>ii_path = ''$.input.'' @ k, ii_reasonCode = ''input_field_type_mismatch'',
                   ii_message = ''Input field '' @ k @ '' must be '' @ expectedType @ ''.''\<rparr>]
            else []
        | _ \<Rightarrow> []))
       (object_members (jget schema ''properties'')))"

definition validate_input_schema :: "node_contract \<Rightarrow> work_order \<Rightarrow> input_issue list" where
  "validate_input_schema n wo =
     (case node_runtime_input_schema n of
        None \<Rightarrow> []
      | Some schema \<Rightarrow>
          (if jget schema ''type'' \<noteq> JUndef \<and> jget schema ''type'' \<noteq> JStr ''object''
           then [\<lparr>ii_path = ''$.metadata.inputSchema.type'', ii_reasonCode = ''input_schema_unsupported_type'',
                  ii_message = ''Node runtime input schema must describe an object input.''\<rparr>] else [])
          @ required_input_issues wo schema @ input_type_issues wo schema)"

section \<open>Self execution\<close>

record self_result =
  se_status :: "result_status option"
  se_outputs :: "node_output list option"
  se_risksOrGaps :: "string list option"
  se_partialResult :: json
  se_reasonCode :: "string option"

text \<open>\<open>{ ...base, ...members }\<close>\<close>

definition spread :: "(string \<times> json) list \<Rightarrow> (string \<times> json) list \<Rightarrow> (string \<times> json) list" where
  "spread base members = fold (\<lambda>(k, v) m. AList.update k v m) members base"

definition default_output_value :: "work_order \<Rightarrow> expected_output \<Rightarrow> json" where
  "default_output_value wo eo =
     (let base = [(''generatedBy'', JStr ''node-runtime-mvp''), (''workOrderId'', JStr (wo_workOrderId wo)),
          (''expectedOutputKind'', JStr (output_kind_text (eo_kind eo)))] in
      if eo_outputId eo = schema_output_id wo then
        JObj (spread base (index_by (\<lambda>k. k) (\<lambda>k. JStr (''placeholder:'' @ k))
          (required_keys (jget (wo_expectedOutputSchema wo) ''required''))))
      else JObj base)"

definition default_self_execute :: "envelope \<Rightarrow> self_result" where
  "default_self_execute en =
     \<lparr>se_status = Some RS_completed,
      se_outputs = Some (map (\<lambda>eo. \<lparr>ou_outputId = eo_outputId eo, ou_status = OS_satisfied,
        ou_value = default_output_value (en_workOrder en) eo\<rparr>) (en_expectedOutputs en)),
      se_risksOrGaps = None,
      se_partialResult = JUndef,
      se_reasonCode = Some ''self_execution_completed''\<rparr>"

definition missing_output :: "expected_output \<Rightarrow> node_output" where
  "missing_output eo = \<lparr>ou_outputId = eo_outputId eo, ou_status = OS_missing, ou_value = JUndef\<rparr>"

definition missing_outputs :: "expected_output list \<Rightarrow> node_output list" where
  "missing_outputs eos = map missing_output eos"

text \<open>
  Every expected output the executor did not return is added as missing. The map of known ids is the
  one made before the loop, so an expected id that occurs twice is added twice.
\<close>

definition normalize_outputs :: "self_result \<Rightarrow> expected_output list \<Rightarrow> node_output list" where
  "normalize_outputs se eos =
     (let outs = map clone_output (opt_or (se_outputs se) []);
          outputsById = index_by ou_outputId (\<lambda>ou. ou) outs
      in outs @ missing_outputs (filter (\<lambda>eo. map_of outputsById (eo_outputId eo) = None) eos))"

record self_decision =
  sd_status :: result_status
  sd_reasonCode :: string
  sd_risksOrGaps :: "string list"

definition unmet_required_output_ids :: "expected_output list \<Rightarrow> node_output list \<Rightarrow> string list" where
  "unmet_required_output_ids eos outs =
     (let outputsById = index_by ou_outputId (\<lambda>ou. ou) outs in
      map eo_outputId
        (filter (\<lambda>eo. map_option ou_status (map_of outputsById (eo_outputId eo)) \<noteq> Some OS_satisfied)
          (filter eo_required eos)))"

definition decide_self_execution :: "expected_output list \<Rightarrow> self_result \<Rightarrow> node_output list \<Rightarrow> self_decision" where
  "decide_self_execution eos se outs =
     (let requested = opt_or (se_status se) RS_completed;
          unmet = unmet_required_output_ids eos outs;
          risks = map (\<lambda>k. ''unmet_required_output:'' @ k) unmet
      in if requested = RS_failed then
           \<lparr>sd_status = RS_failed_candidate,
            sd_reasonCode = opt_or (se_reasonCode se) ''self_execution_failed_candidate'',
            sd_risksOrGaps = ''failed_status_normalized_to_failed_candidate'' # risks\<rparr>
         else if requested = RS_completed \<and> unmet \<noteq> [] then
           \<lparr>sd_status = RS_failed_candidate, sd_reasonCode = ''required_outputs_unmet'', sd_risksOrGaps = risks\<rparr>
         else if requested = RS_needs_revision then
           \<lparr>sd_status = RS_failed_candidate,
            sd_reasonCode = opt_or (se_reasonCode se) ''needs_revision_normalized_to_failed_candidate'',
            sd_risksOrGaps = risks\<rparr>
         else if requested = RS_permission_limited then
           \<lparr>sd_status = RS_permission_limited,
            sd_reasonCode = opt_or (se_reasonCode se) ''self_execution_permission_limited'', sd_risksOrGaps = risks\<rparr>
         else if requested = RS_failed_candidate then
           \<lparr>sd_status = RS_failed_candidate,
            sd_reasonCode = opt_or (se_reasonCode se) ''self_execution_failed_candidate'', sd_risksOrGaps = risks\<rparr>
         else if requested = RS_partial_success then
           \<lparr>sd_status = RS_partial_success,
            sd_reasonCode = opt_or (se_reasonCode se) ''self_execution_partial_success'', sd_risksOrGaps = risks\<rparr>
         else
           \<lparr>sd_status = RS_completed,
            sd_reasonCode = opt_or (se_reasonCode se) ''self_execution_completed'', sd_risksOrGaps = []\<rparr>)"

fun final_state_for :: "result_status \<Rightarrow> runtime_state" where
  "final_state_for RS_completed = ST_completed"
| "final_state_for RS_partial_success = ST_partial_success"
| "final_state_for RS_failed = ST_failed"
| "final_state_for _ = ST_failed_candidate"

section \<open>Risks of children and tools\<close>

definition skipped_risk :: "plan_issue \<Rightarrow> string" where
  "skipped_risk p = dp_code p @ '':'' @ opt_or (dp_childNodeId p) (dp_parentNodeId p)"

definition child_delegation_risk_codes :: "child_summary option \<Rightarrow> string list" where
  "child_delegation_risk_codes summary =
     (case summary of None \<Rightarrow> []
      | Some s \<Rightarrow>
          uniq (filter non_blank
            (concat (map (\<lambda>r. (''child_result_'' @ child_status_text (cd_status r) @ '':'' @ cd_childNodeId r)
                # cd_risksOrGaps r) (sm_failureCandidateResults s))
             @ (if sm_status s = DS_blocked \<and> pl_status (sm_plan s) \<noteq> DP_skipped
                then map skipped_risk (pl_skipped (sm_plan s)) else [])
             @ (if pl_status (sm_plan s) = DP_partial then map skipped_risk (pl_skipped (sm_plan s)) else []))))"

definition tool_execution_risk_codes :: "tool_summary option \<Rightarrow> string list" where
  "tool_execution_risk_codes summary =
     (case summary of None \<Rightarrow> []
      | Some s \<Rightarrow>
          uniq (filter non_blank
            (concat (map (\<lambda>r. [''tool_result_'' @ execution_status_text (nz_status r) @ '':'' @ nz_toolId r,
                nz_reasonCode r]
                @ (if nz_retryPossible r then [''tool_retry_possible''] else [])
                @ (if nz_fallbackPossible r then [''tool_fallback_possible''] else [])
                @ (case nz_error r of None \<Rightarrow> [] | Some e \<Rightarrow> [''tool_error:'' @ e]))
              (su_failureCandidateResults s)))))"

definition metadata_string :: "json \<Rightarrow> string option" where
  "metadata_string v = (case v of JStr s \<Rightarrow> if non_blank s then Some s else None | _ \<Rightarrow> None)"

definition work_order_trace_context :: "work_order \<Rightarrow> string list \<Rightarrow> (string \<times> json) list" where
  "work_order_trace_context wo expectedOutputIds =
     (let fallbackReason = (case metadata_string (jget (wo_input wo) ''fallbackReason'') of
            Some s \<Rightarrow> Some s | None \<Rightarrow> metadata_string (jget (wo_input wo) ''routingReasonCode''))
      in (case metadata_string (jget (wo_input wo) ''rootRunId'') of None \<Rightarrow> [] | Some s \<Rightarrow> [(''parent_run_id'', JStr s)])
         @ [(''delegating_executor_id'', JStr (wo_fromNodeId wo)),
            (''target_executor_id'', JStr (wt_id (wo_to wo))),
            (''work_order_id'', JStr (wo_workOrderId wo)),
            (''work_order_goal'', JStr (wo_objective wo)),
            (''expected_output'', json_of_strings expectedOutputIds)]
         @ (case fallbackReason of None \<Rightarrow> [] | Some s \<Rightarrow> [(''fallback_reason'', JStr s)]))"

section \<open>Reports\<close>

definition create_node_result_report ::
  "runtime_profile \<Rightarrow> work_order \<Rightarrow> string \<Rightarrow> result_status \<Rightarrow> node_output list \<Rightarrow> string list \<Rightarrow> string list \<Rightarrow>
   json \<Rightarrow> string option \<Rightarrow> string option \<Rightarrow> timestamp \<Rightarrow> node_result_report" where
  "create_node_result_report profile wo nodeRunId status outs unmet risks partialResult failureReportId resultReportId createdAt =
     \<lparr>nr_resultReportId = opt_or resultReportId (''node-result:'' @ wo_workOrderId wo),
      nr_topologyRunId = wo_topologyRunId wo,
      nr_nodeRunId = nodeRunId,
      nr_workOrderId = wo_workOrderId wo,
      nr_nodeId = pf_nodeId profile,
      nr_status = status,
      nr_outputs = map clone_output outs,
      nr_unmetSuccessCriteriaIds = unmet,
      nr_risksOrGaps = risks,
      nr_partialResult = partialResult,
      nr_failureReportId = failureReportId,
      nr_createdAt = createdAt\<rparr>"

fun legacy_status_for :: "result_status \<Rightarrow> legacy_status" where
  "legacy_status_for RS_completed = LS_completed"
| "legacy_status_for RS_failed = LS_failed"
| "legacy_status_for _ = LS_needs_revision"

definition build_result_report_identity ::
  "string \<Rightarrow> string \<Rightarrow> string \<Rightarrow> string \<Rightarrow> string \<Rightarrow> string \<Rightarrow> runtime_identity" where
  "build_result_report_identity resultReportId workOrderId parentRunId subSessionId idempotencyKey audit =
     \<lparr>id_entityType = RE_sub_session,
      id_entityId = subSessionId,
      id_owner = \<lparr>os_ownerType = OW_system, os_ownerId = ''topology-runtime''\<rparr>,
      id_idempotencyKey = idempotencyKey @ '':result:'' @ resultReportId,
      id_auditCorrelationId = Some audit,
      id_parent = Some \<lparr>pl_parentRunId = Some parentRunId, pl_parentSessionId = None,
        pl_parentSubSessionId = Some subSessionId, pl_parentRequestId = Some workOrderId\<rparr>\<rparr>"

definition create_legacy_result_report :: "host \<Rightarrow> node_result_report \<Rightarrow> envelope \<Rightarrow> legacy_result_report" where
  "create_legacy_result_report h report en =
     (let command = en_subSessionCommandRequest en in
      \<lparr>lr_identity = build_result_report_identity (nr_resultReportId report) (nr_workOrderId report)
          (cq_parentRunId command) (cq_subSessionId command) (en_subSessionIdempotencyKey en) (nr_topologyRunId report),
       lr_resultReportId = ''legacy:'' @ nr_resultReportId report,
       lr_parentRunId = cq_parentRunId command,
       lr_subSessionId = cq_subSessionId command,
       lr_status = legacy_status_for (nr_status report),
       lr_outputs = map clone_output (nr_outputs report),
       lr_evidence = [\<lparr>lv_evidenceId = ''evidence:'' @ nr_resultReportId report @ '':node-result'',
         lv_kind = ''node_result_report'', lv_sourceRef = nr_resultReportId report,
         lv_sourceTimestamp = Some (timestamp_text h (nr_createdAt report))\<rparr>],
       lr_risksOrGaps = nr_risksOrGaps report\<rparr>)"

section \<open>Lemmas\<close>

lemma unmet_required_Nil_iff:
  "unmet_required_output_ids eos outs = [] \<longleftrightarrow>
   (\<forall>eo \<in> set eos. eo_required eo \<longrightarrow>
      map_option ou_status (map_of (index_by ou_outputId (\<lambda>ou. ou) outs) (eo_outputId eo)) = Some OS_satisfied)"
  by (auto simp: unmet_required_output_ids_def Let_def filter_empty_conv)

text \<open>The required criteria of a work order are among its required expected outputs.\<close>

lemma unmet_required_covers_criteria:
  assumes "unmet_required_output_ids (build_expected_outputs h wo) outs = []"
  shows "unmet_success_criteria_ids wo outs = []"
  using assms
  by (auto simp: unmet_required_Nil_iff unmet_Nil_iff build_expected_outputs_def criterion_expected_output_def)

lemma decide_self_execution_completed:
  "sd_status (decide_self_execution eos se outs) = RS_completed \<longleftrightarrow>
     opt_or (se_status se) RS_completed = RS_completed \<and> unmet_required_output_ids eos outs = []"
  by (cases "opt_or (se_status se) RS_completed") (auto simp: decide_self_execution_def Let_def)

lemma decide_self_execution_range:
  "sd_status (decide_self_execution eos se outs) \<in>
     {RS_completed, RS_partial_success, RS_permission_limited, RS_failed_candidate}"
  by (cases "opt_or (se_status se) RS_completed") (auto simp: decide_self_execution_def Let_def)

lemma normalize_outputs_cover:
  assumes "eo \<in> set eos"
  shows "eo_outputId eo \<in> ou_outputId ` set (normalize_outputs se eos)"
proof (cases "map_of (index_by ou_outputId (\<lambda>ou. ou) (opt_or (se_outputs se) [])) (eo_outputId eo)")
  case None
  then have "missing_output eo \<in> set (normalize_outputs se eos)"
    using assms by (simp add: normalize_outputs_def Let_def missing_outputs_def)
  then show ?thesis by (force simp: missing_output_def)
next
  case (Some ou)
  from index_by_Some[OF Some] show ?thesis by (force simp: normalize_outputs_def Let_def)
qed

lemma jget_string_record: "jget p k = JStr t \<Longrightarrow> is_record p"
  by (cases p) auto

text \<open>The typed fields of a schema that an input carries.\<close>

definition typed_inputs :: "work_order \<Rightarrow> json \<Rightarrow> (string \<times> string) set" where
  "typed_inputs wo schema = {(k, t). \<exists>p. (k, p) \<in> set (object_members (jget schema ''properties''))
     \<and> jget p ''type'' = JStr t \<and> input_present wo k}"

lemma input_type_issues_Nil:
  "input_type_issues wo schema = [] \<longleftrightarrow>
   (\<forall>(k, t) \<in> typed_inputs wo schema. enterprise_value_matches_schema_type (jget (wo_input wo) k) t)"
  by (fastforce simp: input_type_issues_def typed_inputs_def dest: jget_string_record split: json.splits if_splits)

section \<open>Properties\<close>

text \<open>
  a node whose contract carries an input schema accepts exactly the inputs that the schema
  describes: the schema is an object schema, every required field is present, and every present field
  whose property schema names a type has a value of that type. Unknown type names accept any value.
\<close>

lemma input_schema_exact:
  "validate_input_schema n wo = [] \<longleftrightarrow>
     (case node_runtime_input_schema n of None \<Rightarrow> True
      | Some schema \<Rightarrow> jget schema ''type'' \<in> {JUndef, JStr ''object''}
          \<and> set (required_keys (jget schema ''required'')) \<subseteq> {k. input_present wo k}
          \<and> typed_inputs wo schema \<subseteq> {(k, t). enterprise_value_matches_schema_type (jget (wo_input wo) k) t})"
proof (cases "node_runtime_input_schema n")
  case (Some schema)
  have "required_input_issues wo schema = [] \<longleftrightarrow> set (required_keys (jget schema ''required'')) \<subseteq> {k. input_present wo k}"
    by (auto simp: required_input_issues_def filter_empty_conv)
  then show ?thesis
    unfolding validate_input_schema_def Some option.case append_is_Nil_conv input_type_issues_Nil
    by (auto simp: subset_iff)
qed (simp add: validate_input_schema_def)

end
