(* ===== verification/Node_Runtime.thy ===== *)
theory Node_Runtime
  imports Node_Decisions Child_Dispatch
begin

text \<open>
  \<open>runNodeRuntime\<close> of \<open>topology-runtime/node-runtime.ts\<close>: one node executes one work order. The run is a
  function of its input and of the clock; its log (transitions, trace events, sequence number, clock
  tick) is threaded through every step. Self executors, tool dispatchers and child runners are
  arguments that may not return (\<open>None\<close>). A child without a runner of its own runs this function
  again, so \<open>run_node\<close> takes fuel; one step, \<open>run_node_with\<close>, takes the recursive call as an argument.
\<close>

section \<open>Inputs, log and result\<close>

type_synonym self_executor =
  "envelope \<Rightarrow> runtime_profile \<Rightarrow> compiled_topology \<Rightarrow> string \<Rightarrow> nat \<Rightarrow> (self_result \<times> nat) option"

record child_options =
  co_enabled :: bool
  co_childNodeContractsById :: "(string, node_contract) jsmap"
  co_targetChildNodeIds :: "string list option"
  co_maxDelegationDepth :: "jsnum option"
  co_recursive :: "bool option"
  co_childRunner :: "child_runner option"
  co_childObjectiveByNodeId :: "(string, string) jsmap"
  co_childInputByNodeId :: "(string, json) jsmap"
  co_childWorkOrderIdByNodeId :: "(string, string) jsmap"
  co_authorityPreflightByNodeId :: "(string, preflight_input) jsmap"

record tool_options =
  to_enabled :: bool
  to_dispatcher :: dispatcher
  to_toolRequests :: "tool_request list option"
  to_defaultTimeoutMs :: "jsnum option"
  to_dispatcherToolNameByToolId :: "(string, string) jsmap"
  to_approvalDecisionsByToolId :: "(string, approval) jsmap"

record aggregation_options =
  ao_enabled :: bool
  ao_strategy :: "aggregation_strategy option"
  ao_expectedChildNodeIds :: "string list option"
  ao_requireAllChildResults :: "bool option"
  ao_allowPartialSuccess :: "bool option"
  ao_quorum :: "jsnum option"

record recovery_settings =
  rx_enabled :: bool
  rx_options :: recovery_options

record run_input =
  ru_envelope :: envelope
  ru_compiledTopologySnapshot :: compiled_topology
  ru_nodeRunId :: "string option"
  ru_profileSnapshotId :: "string option"
  ru_authorityPreflight :: "preflight_input option"
  ru_selfExecute :: "self_executor option"
  ru_childDelegation :: "child_options option"
  ru_toolExecution :: "tool_options option"
  ru_aggregation :: "aggregation_options option"
  ru_recovery :: "recovery_settings option"
  ru_component :: "string option"

record transition =
  ts_state :: runtime_state
  ts_at :: timestamp
  ts_reasonCode :: string

record run_log =
  lg_transitions :: "transition list"
  lg_events :: "trace_event list"
  lg_sequence :: nat
  lg_tick :: nat

record execution_result =
  xr_status :: result_status
  xr_finalState :: runtime_state
  xr_profileSnapshot :: runtime_profile
  xr_nodeResultReport :: node_result_report
  xr_legacyResultReport :: legacy_result_report
  xr_traceEvents :: "trace_event list"
  xr_stateTransitions :: "transition list"
  xr_permissionDecision :: permission_decision
  xr_authorityDecision :: authority_decision
  xr_inputValidation :: "input_issue list"
  xr_envelope :: envelope
  xr_childDelegation :: "child_summary option"
  xr_toolExecution :: "tool_summary option"
  xr_aggregation :: "aggregation option"
  xr_validation :: "node_validation option"
  xr_recovery :: "recovery_review option"
  xr_exhaustion :: "exhaustion_check option"
  xr_failureReport :: "failure_report option"

type_synonym run_outcome = "(execution_result \<times> nat) option"

abbreviation run_work_order :: "run_input \<Rightarrow> work_order" where
  "run_work_order i \<equiv> en_workOrder (ru_envelope i)"

abbreviation run_node_contract :: "run_input \<Rightarrow> node_contract" where
  "run_node_contract i \<equiv> en_nodeContractSnapshot (ru_envelope i)"

definition run_node_run_id :: "run_input \<Rightarrow> string" where
  "run_node_run_id i = opt_or (ru_nodeRunId i) (''node-run:'' @ wo_workOrderId (run_work_order i))"

definition run_component :: "run_input \<Rightarrow> string" where
  "run_component i = opt_or (ru_component i) ''node-runtime''"

section \<open>Logging\<close>

definition record_state :: "host \<Rightarrow> run_input \<Rightarrow> runtime_state \<Rightarrow> string \<Rightarrow> json \<Rightarrow> run_log \<Rightarrow> run_log" where
  "record_state h i state reasonCode payload lg =
     \<lparr>lg_transitions = lg_transitions lg
        @ [\<lparr>ts_state = state, ts_at = clock_time h (lg_tick lg), ts_reasonCode = reasonCode\<rparr>],
      lg_events = lg_events lg @ [create_trace_event (run_work_order i) (run_node_run_id i) state
        (lg_sequence lg + 1) (clock_time h (lg_tick lg)) (Some (run_component i)) None (Some reasonCode) payload],
      lg_sequence = lg_sequence lg + 1,
      lg_tick = lg_tick lg + 1\<rparr>"

definition record_trace ::
  "host \<Rightarrow> run_input \<Rightarrow> runtime_state \<Rightarrow> trace_phase \<Rightarrow> string \<Rightarrow> json \<Rightarrow> run_log \<Rightarrow> run_log" where
  "record_trace h i state phase reasonCode payload lg =
     lg\<lparr>lg_events := lg_events lg @ [create_trace_event (run_work_order i) (run_node_run_id i) state
        (lg_sequence lg + 1) (clock_time h (lg_tick lg)) (Some (run_component i)) (Some phase) (Some reasonCode) payload],
      lg_sequence := lg_sequence lg + 1,
      lg_tick := lg_tick lg + 1\<rparr>"

definition json_nat :: "nat \<Rightarrow> json" where
  "json_nat n = JNum (Fin (of_nat n))"

definition status_json :: "result_status \<Rightarrow> json" where
  "status_json s = JObj [(''nodeResultStatus'', JStr (result_status_text s))]"

section \<open>Preparation\<close>

record preparation =
  pp_permissionDecision :: permission_decision
  pp_authorityDecision :: authority_decision
  pp_profileSnapshot :: runtime_profile
  pp_inputIssues :: "input_issue list"
  pp_log :: run_log

definition prepare_run :: "host \<Rightarrow> run_input \<Rightarrow> nat \<Rightarrow> preparation" where
  "prepare_run h i tick =
     (let wo = run_work_order i;
          node = run_node_contract i;
          log1 = record_state h i ST_created ''node_runtime_created'' JUndef
            \<lparr>lg_transitions = [], lg_events = [], lg_sequence = 0, lg_tick = tick\<rparr>;
          log2 = record_state h i ST_work_order_received ''work_order_received'' JUndef log1;
          permission = check_permission wo node (ru_compiledTopologySnapshot i);
          authority = check_authority wo (ru_authorityPreflight i) (Some (en_authorityDecision (ru_envelope i)));
          profile = create_profile h wo node (ru_compiledTopologySnapshot i)
            (pd_effectivePermissionScope permission) (ru_profileSnapshotId i) (clock_time h (lg_tick log2));
          log3 = log2\<lparr>lg_tick := lg_tick log2 + 1\<rparr>;
          log4 = record_state h i ST_analyzing ''node_contract_analyzing''
            (JObj [(''nodeId'', JStr (be_id node)), (''workOrderId'', JStr (wo_workOrderId wo))]) log3;
          log5 = record_state h i ST_planning ''node_runtime_planning''
            (JObj [(''expectedOutputIds'', json_of_strings (map eo_outputId (en_expectedOutputs (ru_envelope i))))]) log4
      in \<lparr>pp_permissionDecision = permission,
          pp_authorityDecision = authority,
          pp_profileSnapshot = profile,
          pp_inputIssues = validate_input_schema node wo,
          pp_log = log5\<rparr>)"

section \<open>Completion\<close>

record report_draft =
  rd_status :: result_status
  rd_reasonCode :: string
  rd_outputs :: "node_output list"
  rd_risksOrGaps :: "string list"
  rd_partialResult :: json

record run_parts =
  pt_childDelegation :: "child_summary option"
  pt_toolExecution :: "tool_summary option"
  pt_aggregation :: "aggregation option"
  pt_validation :: "node_validation option"

record verdict =
  vd_status :: result_status
  vd_reasonCode :: string
  vd_finalState :: runtime_state
  vd_risksOrGaps :: "string list"
  vd_recovery :: "recovery_review option"
  vd_exhaustion :: "exhaustion_check option"
  vd_failureReport :: "failure_report option"
  vd_log :: run_log

definition unreviewed_verdict :: "report_draft \<Rightarrow> run_log \<Rightarrow> verdict" where
  "unreviewed_verdict d lg =
     \<lparr>vd_status = rd_status d, vd_reasonCode = rd_reasonCode d, vd_finalState = final_state_for (rd_status d),
      vd_risksOrGaps = rd_risksOrGaps d, vd_recovery = None, vd_exhaustion = None, vd_failureReport = None, vd_log = lg\<rparr>"

definition run_review_input :: "run_input \<Rightarrow> run_parts \<Rightarrow> recovery_options \<Rightarrow> result_status \<Rightarrow> run_log \<Rightarrow> review_input" where
  "run_review_input i parts opts status lg =
     \<lparr>ri_workOrder = run_work_order i, ri_nodeContractSnapshot = run_node_contract i, ri_candidateStatus = status,
      ri_states = map ts_state (lg_transitions lg), ri_childDelegation = pt_childDelegation parts,
      ri_toolExecution = pt_toolExecution parts, ri_validation = pt_validation parts, ri_options = opts\<rparr>"

definition exhaustion_payload :: "exhaustion_check \<Rightarrow> json" where
  "exhaustion_payload ex = JObj [
     (''complete'', JBool (xk_complete ex)),
     (''successCriteriaStillNotMet'', JBool (xk_successCriteriaStillNotMet ex)),
     (''untriedOptions'', json_of_strings (xk_untriedOptions ex)),
     (''blockingUntriedOptions'', json_of_strings (xk_blockingUntriedOptions ex))]"

definition review_verdict :: "host \<Rightarrow> run_input \<Rightarrow> run_parts \<Rightarrow> recovery_options \<Rightarrow> report_draft \<Rightarrow> run_log \<Rightarrow> verdict" where
  "review_verdict h i parts opts d lg =
     (let (review, tick1) = build_node_recovery_review h (run_review_input i parts opts (rd_status d) lg) (lg_tick lg);
          ex = check_final_failure_exhaustion (run_work_order i) (rd_outputs d) review;
          log1 = record_trace h i ST_exhaustion_checking TP_exhaustion
            (if xk_canFinalizeFailure ex then ''final_failure_guard_passed'' else ''final_failure_guard_blocked'')
            (exhaustion_payload ex) (lg\<lparr>lg_tick := tick1\<rparr>);
          risks = rd_risksOrGaps d @ xk_reasonCodes ex
            @ map (\<lambda>option. ''untried_option:'' @ option) (xk_blockingUntriedOptions ex)
      in if xk_canFinalizeFailure ex then
           \<lparr>vd_status = RS_failed, vd_reasonCode = ''final_failure_after_exhaustion'', vd_finalState = ST_failed,
            vd_risksOrGaps = risks, vd_recovery = Some review, vd_exhaustion = Some ex,
            vd_failureReport = Some (generate_failure_report
              \<lparr>fi_workOrder = run_work_order i, fi_nodeContractSnapshot = run_node_contract i,
               fi_nodeRunId = run_node_run_id i, fi_risksOrGaps = risks, fi_recoveryReview = review,
               fi_exhaustion = ex, fi_partialResult = rd_partialResult d,
               fi_recommendedAction = ro_recommendedAction opts, fi_failureReportId = None\<rparr>
              (clock_time h (lg_tick log1))),
            vd_log = log1\<lparr>lg_tick := lg_tick log1 + 1\<rparr>\<rparr>
         else (unreviewed_verdict d log1)\<lparr>vd_risksOrGaps := risks, vd_recovery := Some review,
                 vd_exhaustion := Some ex\<rparr>)"

definition settle_report :: "host \<Rightarrow> run_input \<Rightarrow> run_parts \<Rightarrow> report_draft \<Rightarrow> run_log \<Rightarrow> verdict" where
  "settle_report h i parts d lg =
     (let log1 = record_state h i ST_reporting (rd_reasonCode d) (status_json (rd_status d)) lg in
      if final_state_for (rd_status d) \<noteq> ST_failed_candidate then unreviewed_verdict d log1
      else
        let log2 = record_state h i ST_exhaustion_checking ''failed_candidate_requires_exhaustion_review''
              (status_json (rd_status d)) log1
        in case ru_recovery i of
             Some s \<Rightarrow> if rd_status d = RS_failed_candidate \<and> rx_enabled s
               then review_verdict h i parts (rx_options s) d log2 else unreviewed_verdict d log2
           | None \<Rightarrow> unreviewed_verdict d log2)"

definition complete_with_report ::
  "host \<Rightarrow> run_input \<Rightarrow> preparation \<Rightarrow> run_parts \<Rightarrow> report_draft \<Rightarrow> run_log \<Rightarrow> execution_result \<times> nat" where
  "complete_with_report h i pr parts d lg =
     (let wo = run_work_order i;
          v = settle_report h i parts d lg;
          log1 = record_state h i (vd_finalState v) (''node_runtime_'' @ runtime_state_text (vd_finalState v))
            (JObj [(''nodeResultStatus'', JStr (result_status_text (vd_status v))),
                   (''reasonCode'', JStr (vd_reasonCode v))]) (vd_log v);
          report = create_node_result_report (pp_profileSnapshot pr) wo (run_node_run_id i) (vd_status v)
            (rd_outputs d) (unmet_success_criteria_ids wo (rd_outputs d)) (vd_risksOrGaps v) (rd_partialResult d)
            (map_option fr_failureReportId (vd_failureReport v)) None (clock_time h (lg_tick log1))
      in (\<lparr>xr_status = nr_status report,
           xr_finalState = vd_finalState v,
           xr_profileSnapshot = pp_profileSnapshot pr,
           xr_nodeResultReport = report,
           xr_legacyResultReport = create_legacy_result_report h report (ru_envelope i),
           xr_traceEvents = lg_events log1,
           xr_stateTransitions = lg_transitions log1,
           xr_permissionDecision = pp_permissionDecision pr,
           xr_authorityDecision = pp_authorityDecision pr,
           xr_inputValidation = pp_inputIssues pr,
           xr_envelope = ru_envelope i,
           xr_childDelegation = pt_childDelegation parts,
           xr_toolExecution = pt_toolExecution parts,
           xr_aggregation = pt_aggregation parts,
           xr_validation = pt_validation parts,
           xr_recovery = vd_recovery v,
           xr_exhaustion = vd_exhaustion v,
           xr_failureReport = vd_failureReport v\<rparr>, lg_tick log1 + 1))"

section \<open>Admission\<close>

definition no_parts :: run_parts where
  "no_parts = \<lparr>pt_childDelegation = None, pt_toolExecution = None, pt_aggregation = None, pt_validation = None\<rparr>"

definition rejected_draft :: "run_input \<Rightarrow> result_status \<Rightarrow> string \<Rightarrow> string list \<Rightarrow> report_draft" where
  "rejected_draft i status reasonCode risks =
     \<lparr>rd_status = status, rd_reasonCode = reasonCode, rd_outputs = missing_outputs (en_expectedOutputs (ru_envelope i)),
      rd_risksOrGaps = risks, rd_partialResult = JUndef\<rparr>"

definition permission_payload :: "permission_decision \<Rightarrow> json" where
  "permission_payload pd = JObj [
     (''allowedToolIds'', json_of_strings (ef_allowedToolIds (pd_effectivePermissionScope pd))),
     (''allowedSystemIds'', json_of_strings (ef_allowedSystemIds (pd_effectivePermissionScope pd))),
     (''dataDomainIds'', json_of_strings (ef_dataDomainIds (pd_effectivePermissionScope pd))),
     (''missingToolIds'', json_of_strings (pd_missingToolIds pd)),
     (''missingSystemIds'', json_of_strings (pd_missingSystemIds pd)),
     (''missingDataDomainIds'', json_of_strings (pd_missingDataDomainIds pd))]"

definition permission_risks :: "permission_decision \<Rightarrow> string list" where
  "permission_risks pd = ''permission_denied''
     # map (\<lambda>k. ''missing_tool:'' @ k) (pd_missingToolIds pd)
     @ map (\<lambda>k. ''missing_system:'' @ k) (pd_missingSystemIds pd)
     @ map (\<lambda>k. ''missing_data_domain:'' @ k) (pd_missingDataDomainIds pd)"

definition authority_payload :: "authority_decision \<Rightarrow> json" where
  "authority_payload ad = JObj [
     (''status'', JStr (authority_status_text (ad_status ad))),
     (''requiredAuthorityRuleIds'', json_of_strings (ad_requiredAuthorityRuleIds ad)),
     (''grantedAuthorityRuleIds'', json_of_strings (ad_grantedAuthorityRuleIds ad)),
     (''deniedAuthorityRuleIds'', json_of_strings (ad_deniedAuthorityRuleIds ad)),
     (''missingAuthorityRuleIds'', json_of_strings (ad_missingAuthorityRuleIds ad))]"

definition authority_risks :: "authority_decision \<Rightarrow> string list" where
  "authority_risks ad = ''authority_denied'' # ad_reasonCode ad
     # map (\<lambda>k. ''missing_authority:'' @ k) (ad_missingAuthorityRuleIds ad)
     @ map (\<lambda>k. ''denied_authority:'' @ k) (ad_deniedAuthorityRuleIds ad)"

text \<open>Either the draft of a rejection, or the log of an admitted run.\<close>

definition admit_run :: "host \<Rightarrow> run_input \<Rightarrow> preparation \<Rightarrow> (report_draft \<times> run_log) + run_log" where
  "admit_run h i pr =
     (let pd = pp_permissionDecision pr;
          ad = pp_authorityDecision pr
      in if pp_inputIssues pr \<noteq> [] then
           Inl (rejected_draft i RS_failed_candidate ''input_schema_validation_failed''
             (map (\<lambda>ii. ii_reasonCode ii @ '':'' @ ii_path ii) (pp_inputIssues pr)), pp_log pr)
         else
           let log1 = record_state h i ST_permission_checking (pd_reasonCode pd) (permission_payload pd) (pp_log pr)
           in if \<not> pd_allowed pd then
                Inl (rejected_draft i RS_permission_limited ''permission_denied'' (permission_risks pd), log1)
              else
                let log2 = record_trace h i ST_permission_checking TP_authority (ad_reasonCode ad)
                      (authority_payload ad) log1
                in if \<not> ad_allowed ad then
                     Inl (rejected_draft i RS_permission_limited ''authority_denied'' (authority_risks ad), log2)
                   else Inr log2)"

section \<open>Execution\<close>

definition run_self :: "run_input \<Rightarrow> preparation \<Rightarrow> nat \<Rightarrow> (self_result \<times> nat) option" where
  "run_self i pr tick =
     (case ru_selfExecute i of
        None \<Rightarrow> Some (default_self_execute (ru_envelope i), tick)
      | Some f \<Rightarrow> f (ru_envelope i) (pp_profileSnapshot pr) (ru_compiledTopologySnapshot i) (run_node_run_id i) tick)"

definition recursive_child_options :: "child_options \<Rightarrow> child_options" where
  "recursive_child_options co =
     \<lparr>co_enabled = True,
      co_childNodeContractsById = co_childNodeContractsById co,
      co_targetChildNodeIds = None,
      co_maxDelegationDepth = co_maxDelegationDepth co,
      co_recursive = co_recursive co,
      co_childRunner = None,
      co_childObjectiveByNodeId = co_childObjectiveByNodeId co,
      co_childInputByNodeId = co_childInputByNodeId co,
      co_childWorkOrderIdByNodeId = co_childWorkOrderIdByNodeId co,
      co_authorityPreflightByNodeId = co_authorityPreflightByNodeId co\<rparr>"

definition child_run_input :: "run_input \<Rightarrow> child_options \<Rightarrow> planned_child \<Rightarrow> envelope \<Rightarrow> run_input" where
  "child_run_input i co pc en =
     (let childDelegation = (if co_recursive co = Some False then None else Some (recursive_child_options co)) in
      \<lparr>ru_envelope = en,
       ru_compiledTopologySnapshot = ru_compiledTopologySnapshot i,
       ru_nodeRunId = Some (''node-run:'' @ wo_workOrderId (pc_workOrder pc)),
       ru_profileSnapshotId = None,
       ru_authorityPreflight = None,
       ru_selfExecute = None,
       ru_childDelegation = childDelegation,
       ru_toolExecution = None,
       ru_aggregation = (if childDelegation = None then None else Some
         \<lparr>ao_enabled = True, ao_strategy = Some SG_parent_decides,
          ao_expectedChildNodeIds = Some (js_lookup (dt_edges (cs_parentChildTree (ru_compiledTopologySnapshot i)))
            (pc_childNodeId pc) []),
          ao_requireAllChildResults = Some False, ao_allowPartialSuccess = Some True, ao_quorum = None\<rparr>),
       ru_recovery = None,
       ru_component = Some (run_component i)\<rparr>)"

definition runner_result_of :: "execution_result \<Rightarrow> runner_result" where
  "runner_result_of r =
     \<lparr>rr_status = xr_status r,
      rr_finalState = Some (xr_finalState r),
      rr_nodeResultReport = Some (xr_nodeResultReport r),
      rr_traceEvents = Some (xr_traceEvents r),
      rr_risksOrGaps = Some (nr_risksOrGaps (xr_nodeResultReport r))\<rparr>"

definition default_child_runner :: "(run_input \<Rightarrow> nat \<Rightarrow> run_outcome) \<Rightarrow> run_input \<Rightarrow> child_options \<Rightarrow> child_runner" where
  "default_child_runner rec i co pc contract en tick =
     map_option (\<lambda>(r, tick'). (runner_result_of r, tick')) (rec (child_run_input i co pc en) tick)"

definition run_plan_input :: "run_input \<Rightarrow> child_options \<Rightarrow> plan_input" where
  "run_plan_input i co =
     \<lparr>ci_compiledTopologySnapshot = ru_compiledTopologySnapshot i,
      ci_parentWorkOrder = run_work_order i,
      ci_parentNodeId = Some (be_id (run_node_contract i)),
      ci_targetChildNodeIds = co_targetChildNodeIds co,
      ci_maxDelegationDepth = co_maxDelegationDepth co,
      ci_childObjectiveByNodeId = co_childObjectiveByNodeId co,
      ci_childInputByNodeId = co_childInputByNodeId co,
      ci_childWorkOrderIdByNodeId = co_childWorkOrderIdByNodeId co\<rparr>"

definition run_trace_context :: "run_input \<Rightarrow> (string \<times> json) list" where
  "run_trace_context i = work_order_trace_context (run_work_order i)
     (map eo_outputId (en_expectedOutputs (ru_envelope i)))"

definition delegation_payload :: "run_input \<Rightarrow> delegation_plan \<Rightarrow> json" where
  "delegation_payload i plan = JObj (run_trace_context i @ [
     (''childNodeIds'', json_of_strings (map pc_childNodeId (pl_childWorkOrders plan))),
     (''target_executor_ids'', json_of_strings (map pc_childNodeId (pl_childWorkOrders plan))),
     (''skippedReasonCodes'', json_of_strings (map dp_code (pl_skipped plan))),
     (''maxDelegationDepth'', json_nat (pl_maxDelegationDepth plan)),
     (''childDelegationDepth'', json_nat (pl_childDelegationDepth plan))])"

definition run_dispatch_input :: "run_input \<Rightarrow> child_options \<Rightarrow> delegation_plan \<Rightarrow> dispatch_input" where
  "run_dispatch_input i co plan =
     \<lparr>di_plan = plan, di_compiledTopologySnapshot = ru_compiledTopologySnapshot i,
      di_childNodeContractsById = co_childNodeContractsById co,
      di_authorityPreflightByNodeId = co_authorityPreflightByNodeId co\<rparr>"

definition delegation_started :: "host \<Rightarrow> run_input \<Rightarrow> delegation_plan \<Rightarrow> run_log \<Rightarrow> run_log" where
  "delegation_started h i plan lg =
     (if pl_childWorkOrders plan \<noteq> [] \<or> pl_status plan = DP_blocked \<or> pl_status plan = DP_partial
      then record_state h i ST_child_delegating ''child_delegation_started'' (delegation_payload i plan) lg
      else lg)"

definition delegate_to_children ::
  "host \<Rightarrow> (run_input \<Rightarrow> nat \<Rightarrow> run_outcome) \<Rightarrow> run_input \<Rightarrow> child_options \<Rightarrow> run_log \<Rightarrow> (child_summary \<times> run_log) option" where
  "delegate_to_children h rec i co lg =
     (let (plan, tick1) = plan_child_delegation h (run_plan_input i co) (lg_tick lg);
          log1 = delegation_started h i plan (lg\<lparr>lg_tick := tick1\<rparr>);
          runner = (case co_childRunner co of Some r \<Rightarrow> r | None \<Rightarrow> default_child_runner rec i co)
      in case dispatch_child_work_orders h runner (run_dispatch_input i co plan) (lg_tick log1) of
           None \<Rightarrow> None
         | Some (sm, tick2) \<Rightarrow> Some (sm, log1\<lparr>lg_events := lg_events log1 @ sm_traceEvents sm, lg_tick := tick2\<rparr>))"

definition run_children ::
  "host \<Rightarrow> (run_input \<Rightarrow> nat \<Rightarrow> run_outcome) \<Rightarrow> run_input \<Rightarrow> run_log \<Rightarrow> (child_summary option \<times> run_log) option" where
  "run_children h rec i lg =
     (case ru_childDelegation i of
        None \<Rightarrow> Some (None, lg)
      | Some co \<Rightarrow> if co_enabled co then map_option (\<lambda>(sm, lg'). (Some sm, lg')) (delegate_to_children h rec i co lg)
                  else Some (None, lg))"

definition run_tool_plan :: "run_input \<Rightarrow> tool_options \<Rightarrow> tool_plan" where
  "run_tool_plan i tos = plan_node_tool_execution
     \<lparr>tp_compiledTopologySnapshot = ru_compiledTopologySnapshot i,
      tp_nodeContractSnapshot = run_node_contract i,
      tp_workOrder = run_work_order i,
      tp_toolRequests = to_toolRequests tos,
      tp_defaultTimeoutMs = to_defaultTimeoutMs tos,
      tp_dispatcherToolNameByToolId = to_dispatcherToolNameByToolId tos,
      tp_approvalDecisionsByToolId = to_approvalDecisionsByToolId tos\<rparr>"

definition tools_started :: "host \<Rightarrow> run_input \<Rightarrow> tool_plan \<Rightarrow> run_log \<Rightarrow> run_log" where
  "tools_started h i plan lg =
     (if tn_toolCalls plan \<noteq> [] \<or> tn_status plan = TPS_blocked \<or> tn_status plan = TPS_partial
      then record_state h i ST_tool_executing ''tool_execution_started''
        (JObj [(''toolIds'', json_of_strings (map tc_toolId (tn_toolCalls plan))),
               (''blockedReasonCodes'', json_of_strings (map ti_code (tn_blocked plan)))]) lg
      else lg)"

definition execute_tools :: "host \<Rightarrow> run_input \<Rightarrow> tool_options \<Rightarrow> run_log \<Rightarrow> (tool_summary \<times> run_log) option" where
  "execute_tools h i tos lg =
     (let plan = run_tool_plan i tos;
          log1 = tools_started h i plan lg
      in case dispatch_planned_node_tools h (to_dispatcher tos) plan (run_work_order i) (run_node_run_id i)
             (lg_sequence log1) (lg_tick log1) of
           None \<Rightarrow> None
         | Some (su, tick2) \<Rightarrow> Some (su, log1\<lparr>lg_events := lg_events log1 @ su_traceEvents su,
             lg_sequence := lg_sequence log1 + length (su_traceEvents su), lg_tick := tick2\<rparr>))"

definition run_tools :: "host \<Rightarrow> run_input \<Rightarrow> run_log \<Rightarrow> (tool_summary option \<times> run_log) option" where
  "run_tools h i lg =
     (case ru_toolExecution i of
        None \<Rightarrow> Some (None, lg)
      | Some tos \<Rightarrow> if to_enabled tos then map_option (\<lambda>(su, lg'). (Some su, lg')) (execute_tools h i tos lg)
                   else Some (None, lg))"

section \<open>Conclusion\<close>

definition aggregation_context :: "run_input \<Rightarrow> run_parts \<Rightarrow> json" where
  "aggregation_context i parts = JObj (run_trace_context i @ [
     (''source_executor_ids'', json_of_strings (wt_id (wo_to (run_work_order i))
        # (case pt_childDelegation parts of None \<Rightarrow> [] | Some s \<Rightarrow> map cd_childNodeId (sm_results s))
        @ (case pt_toolExecution parts of None \<Rightarrow> [] | Some s \<Rightarrow> map nz_toolId (su_results s))))])"

definition run_aggregate_input ::
  "run_input \<Rightarrow> aggregation_options \<Rightarrow> self_result \<Rightarrow> self_decision \<Rightarrow> node_output list \<Rightarrow> run_parts \<Rightarrow> aggregate_input" where
  "run_aggregate_input i ao se sd outs parts =
     \<lparr>gg_workOrder = run_work_order i,
      gg_strategy = Some (opt_or (ao_strategy ao) SG_merge_and_validate),
      gg_selfOutputs = Some outs,
      gg_selfStatus = Some (sd_status sd),
      gg_selfRisksOrGaps = Some (sd_risksOrGaps sd @ opt_or (se_risksOrGaps se) []),
      gg_childReports = None,
      gg_childDelegation = pt_childDelegation parts,
      gg_toolExecution = pt_toolExecution parts,
      gg_expectedChildNodeIds = ao_expectedChildNodeIds ao,
      gg_requireAllChildResults = ao_requireAllChildResults ao,
      gg_quorum = ao_quorum ao\<rparr>"

definition allow_partial_success :: "run_input \<Rightarrow> aggregation_options \<Rightarrow> bool option" where
  "allow_partial_success i ao =
     (case ao_allowPartialSuccess ao of Some b \<Rightarrow> Some b
      | None \<Rightarrow> (case nc_recoveryPolicy (run_node_contract i) of Some p \<Rightarrow> Some (rp_partialSuccessAllowed p)
         | None \<Rightarrow> map_option fp_allowPartialSuccess (nc_failurePolicy (run_node_contract i))))"

definition validation_payload :: "run_input \<Rightarrow> aggregation \<Rightarrow> node_validation \<Rightarrow> self_result \<Rightarrow> self_decision \<Rightarrow> json" where
  "validation_payload i ag va se sd = JObj (run_trace_context i @ [
     (''aggregation_result'', JObj [
        (''strategy'', JStr (strategy_text (ag_strategy ag))),
        (''source_executor_ids'', json_of_strings (map so_sourceId (ag_sources ag))),
        (''issue_codes'', json_of_strings (map (aggregation_code_text \<circ> gi_code) (ag_issues ag))),
        (''output_count'', json_nat (length (ag_outputs ag))),
        (''missing_child_node_ids'', json_of_strings (ag_missingChildNodeIds ag))]),
     (''validation_result'', JObj [
        (''status'', JStr (validation_status_text (va_status va))),
        (''node_result_status'', JStr (result_status_text (va_nodeResultStatus va))),
        (''risk_or_gap_count'', json_nat (length (va_risksOrGaps va)))]),
     (''self_solve_attempt'', JObj [
        (''executor_id'', JStr (wt_id (wo_to (run_work_order i)))),
        (''status'', JStr (result_status_text (opt_or (se_status se) (sd_status sd)))),
        (''reason_code'', JStr (opt_or (se_reasonCode se) (sd_reasonCode sd)))])])"

definition conclude_aggregated ::
  "host \<Rightarrow> run_input \<Rightarrow> preparation \<Rightarrow> aggregation_options \<Rightarrow> self_result \<Rightarrow> self_decision \<Rightarrow> node_output list \<Rightarrow>
   run_parts \<Rightarrow> run_log \<Rightarrow> execution_result \<times> nat" where
  "conclude_aggregated h i pr ao se sd outs parts lg =
     (let log1 = record_trace h i ST_validating TP_aggregation ''aggregation_started'' (aggregation_context i parts) lg;
          ag = aggregate_node_runtime_results h (run_aggregate_input i ao se sd outs parts);
          va = validate_aggregated_node_result (run_work_order i) ag (allow_partial_success i ao);
          reason = ''aggregation_'' @ validation_status_text (va_status va);
          log2 = record_trace h i ST_validating TP_validation reason (validation_payload i ag va se sd) log1
      in complete_with_report h i pr (parts\<lparr>pt_aggregation := Some ag, pt_validation := Some va\<rparr>)
           \<lparr>rd_status = va_nodeResultStatus va, rd_reasonCode = reason, rd_outputs = va_outputs va,
            rd_risksOrGaps = va_risksOrGaps va, rd_partialResult = JUndef\<rparr> log2)"

text \<open>Failures of children come before failures of tools, and both before the node's own decision.\<close>

definition final_decision :: "run_parts \<Rightarrow> self_decision \<Rightarrow> self_decision" where
  "final_decision parts sd =
     (let delegationRisks = child_delegation_risk_codes (pt_childDelegation parts);
          toolRisks = tool_execution_risk_codes (pt_toolExecution parts)
      in if delegationRisks \<noteq> [] then
           \<lparr>sd_status = RS_failed_candidate, sd_reasonCode = ''child_delegation_failed_candidate'',
            sd_risksOrGaps = ''child_failure_held_for_parent_exhaustion'' # delegationRisks\<rparr>
         else if toolRisks \<noteq> [] then
           \<lparr>sd_status = RS_failed_candidate, sd_reasonCode = ''tool_execution_failed_candidate'',
            sd_risksOrGaps = ''tool_failure_held_for_retry_or_fallback'' # toolRisks\<rparr>
         else sd)"

definition conclude_plain ::
  "host \<Rightarrow> run_input \<Rightarrow> preparation \<Rightarrow> self_result \<Rightarrow> self_decision \<Rightarrow> node_output list \<Rightarrow> run_parts \<Rightarrow> run_log \<Rightarrow>
   execution_result \<times> nat" where
  "conclude_plain h i pr se sd outs parts lg =
     (let fd = final_decision parts sd in
      complete_with_report h i pr parts
        \<lparr>rd_status = sd_status fd, rd_reasonCode = sd_reasonCode fd, rd_outputs = outs,
         rd_risksOrGaps = sd_risksOrGaps fd @ opt_or (se_risksOrGaps se) [], rd_partialResult = se_partialResult se\<rparr> lg)"

definition conclude_run ::
  "host \<Rightarrow> run_input \<Rightarrow> preparation \<Rightarrow> self_result \<Rightarrow> run_parts \<Rightarrow> run_log \<Rightarrow> execution_result \<times> nat" where
  "conclude_run h i pr se parts lg =
     (let log1 = record_state h i ST_validating ''self_execution_validating'' JUndef lg;
          outs = normalize_outputs se (en_expectedOutputs (ru_envelope i));
          sd = decide_self_execution (en_expectedOutputs (ru_envelope i)) se outs
      in case ru_aggregation i of
           Some ao \<Rightarrow> if ao_enabled ao then conclude_aggregated h i pr ao se sd outs parts log1
             else conclude_plain h i pr se sd outs parts log1
         | None \<Rightarrow> conclude_plain h i pr se sd outs parts log1)"

definition execute_run ::
  "host \<Rightarrow> (run_input \<Rightarrow> nat \<Rightarrow> run_outcome) \<Rightarrow> run_input \<Rightarrow> preparation \<Rightarrow> run_log \<Rightarrow> run_outcome" where
  "execute_run h rec i pr lg =
     (let log1 = record_state h i ST_self_executing ''self_execution_started'' JUndef lg in
      case run_self i pr (lg_tick log1) of
        None \<Rightarrow> None
      | Some (se, tick2) \<Rightarrow>
          (case run_children h rec i (log1\<lparr>lg_tick := tick2\<rparr>) of
             None \<Rightarrow> None
           | Some (cd, log3) \<Rightarrow>
               (case run_tools h i log3 of
                  None \<Rightarrow> None
                | Some (te, log4) \<Rightarrow>
                    Some (conclude_run h i pr se
                      (no_parts\<lparr>pt_childDelegation := cd, pt_toolExecution := te\<rparr>) log4))))"

definition run_node_with :: "host \<Rightarrow> (run_input \<Rightarrow> nat \<Rightarrow> run_outcome) \<Rightarrow> run_input \<Rightarrow> nat \<Rightarrow> run_outcome" where
  "run_node_with h rec i tick =
     (let pr = prepare_run h i tick in
      case admit_run h i pr of
        Inl (d, lg) \<Rightarrow> Some (complete_with_report h i pr no_parts d lg)
      | Inr lg \<Rightarrow> execute_run h rec i pr lg)"

primrec run_node :: "nat \<Rightarrow> host \<Rightarrow> run_input \<Rightarrow> nat \<Rightarrow> run_outcome" where
  "run_node 0 h i tick = None"
| "run_node (Suc n) h i tick = run_node_with h (run_node n h) i tick"

end
