(* ===== verification/Node_Runtime_Facts.thy ===== *)
theory Node_Runtime_Facts
  imports Node_Runtime
begin

text \<open>
  What a node run guarantees: the life cycle its transitions follow, the admission guards, the meaning
  of its status, the numbering of its trace, and that it returns (the properties themselves are in \<open>Node_Runtime_Properties\<close>).
  Everything but the last is proved of
  \<open>run_node_with\<close> for an arbitrary recursive call, so it holds for every depth of delegation.
\<close>

section \<open>The life cycle\<close>

text \<open>The state machine that the transitions of every run follow.\<close>

inductive lifecycle :: "runtime_state \<Rightarrow> runtime_state \<Rightarrow> bool" where
  receive: "lifecycle ST_created ST_work_order_received"
| analyze: "lifecycle ST_work_order_received ST_analyzing"
| plan: "lifecycle ST_analyzing ST_planning"
| reject_input: "lifecycle ST_planning ST_reporting"
| check: "lifecycle ST_planning ST_permission_checking"
| deny: "lifecycle ST_permission_checking ST_reporting"
| admit: "lifecycle ST_permission_checking ST_self_executing"
| delegate: "lifecycle ST_self_executing ST_child_delegating"
| use_tools: "s \<in> {ST_self_executing, ST_child_delegating} \<Longrightarrow> lifecycle s ST_tool_executing"
| validate: "s \<in> {ST_self_executing, ST_child_delegating, ST_tool_executing} \<Longrightarrow> lifecycle s ST_validating"
| report: "lifecycle ST_validating ST_reporting"
| succeed: "s \<in> {ST_completed, ST_partial_success} \<Longrightarrow> lifecycle ST_reporting s"
| review: "lifecycle ST_reporting ST_exhaustion_checking"
| fail: "s \<in> {ST_failed_candidate, ST_failed} \<Longrightarrow> lifecycle ST_exhaustion_checking s"

inductive_simps lifecycle_from:
  "lifecycle ST_reporting s" "lifecycle ST_exhaustion_checking s" "lifecycle ST_validating s"

definition log_states :: "run_log \<Rightarrow> runtime_state list" where
  "log_states lg = map ts_state (lg_transitions lg)"

text \<open>The transitions so far are a path of the life cycle that ends in one of the given states.\<close>

definition on_path :: "runtime_state set \<Rightarrow> run_log \<Rightarrow> bool" where
  "on_path S lg \<longleftrightarrow> successively lifecycle (log_states lg) \<and> log_states lg \<noteq> []
     \<and> hd (log_states lg) = ST_created \<and> last (log_states lg) \<in> S"

lemma on_path_start: "lg_transitions lg = [] \<Longrightarrow> on_path {ST_created} (record_state h i ST_created r p lg)"
  by (simp add: on_path_def log_states_def record_state_def)

lemma on_path_record_state:
  assumes "on_path S lg" and "\<And>t. t \<in> S \<Longrightarrow> lifecycle t s"
  shows "on_path {s} (record_state h i s r p lg)"
  using assms by (auto simp: on_path_def log_states_def record_state_def successively_append_iff hd_append)

lemma on_path_record_trace [simp]: "on_path S (record_trace h i s ph r p lg) = on_path S lg"
  by (simp add: on_path_def log_states_def record_trace_def)

lemma on_path_tick [simp]:
  "on_path S (lg\<lparr>lg_tick := t\<rparr>) = on_path S lg"
  "on_path S (lg\<lparr>lg_events := es\<rparr>) = on_path S lg"
  "on_path S (lg\<lparr>lg_sequence := n\<rparr>) = on_path S lg"
  by (simp_all add: on_path_def log_states_def)

lemma on_path_mono: "on_path S lg \<Longrightarrow> S \<subseteq> T \<Longrightarrow> on_path T lg"
  by (auto simp: on_path_def)

section \<open>The numbering of the trace\<close>

text \<open>
  The events of the children stand together somewhere in the trace; the node's own events, before and
  after them, are numbered from 1 without a gap, and the sequence number counts them.
\<close>

definition own_numbering :: "work_order \<Rightarrow> string \<Rightarrow> trace_event list \<Rightarrow> trace_event list \<Rightarrow> nat \<Rightarrow> bool" where
  "own_numbering wo nr children es n \<longleftrightarrow>
     (\<exists>before after. es = before @ children @ after \<and> numbered wo nr 0 (before @ after)
        \<and> length (before @ after) = n)"

abbreviation log_numbered :: "run_input \<Rightarrow> trace_event list \<Rightarrow> run_log \<Rightarrow> bool" where
  "log_numbered i children lg \<equiv>
     own_numbering (run_work_order i) (run_node_run_id i) children (lg_events lg) (lg_sequence lg)"

lemma own_numbering_append:
  assumes "own_numbering wo nr children es n" "numbered wo nr n new"
  shows "own_numbering wo nr children (es @ new) (n + length new)"
proof -
  from assms(1) obtain before after where b: "es = before @ children @ after" "numbered wo nr 0 (before @ after)"
    "length (before @ after) = n" by (auto simp: own_numbering_def)
  have "numbered wo nr 0 (before @ (after @ new))"
    using numbered_append[OF b(2), of new] assms(2) b(3) by simp
  with b show ?thesis unfolding own_numbering_def by (intro exI[of _ before] exI[of _ "after @ new"]) simp
qed

lemma own_numbering_children:
  assumes "own_numbering wo nr [] es n"
  shows "own_numbering wo nr children (es @ children) n"
proof -
  from assms have "numbered wo nr 0 es" "length es = n" by (auto simp: own_numbering_def)
  then show ?thesis unfolding own_numbering_def by (intro exI[of _ es] exI[of _ "[]"]) simp
qed

lemma log_numbered_record:
  assumes "log_numbered i cs lg"
  shows "log_numbered i cs (record_state h i s r p lg)" "log_numbered i cs (record_trace h i s ph r p lg)"
  using own_numbering_append[OF assms, of "[e]" for e] by (simp_all add: record_state_def record_trace_def)

lemma log_numbered_tick: "log_numbered i cs lg \<Longrightarrow> log_numbered i cs (lg\<lparr>lg_tick := t\<rparr>)"
  by simp

section \<open>How a run ends\<close>

text \<open>The verdict on a report draft.\<close>

lemma settle_report_spec:
  assumes "rd_status d \<noteq> RS_failed"
  shows "vd_finalState (settle_report h i parts d lg) = final_state_for (vd_status (settle_report h i parts d lg))"
    and "(\<exists>ex. vd_exhaustion (settle_report h i parts d lg) = Some ex \<and> xk_canFinalizeFailure ex) \<longleftrightarrow>
      vd_status (settle_report h i parts d lg) = RS_failed"
    and "vd_failureReport (settle_report h i parts d lg) \<noteq> None \<longleftrightarrow>
      vd_status (settle_report h i parts d lg) = RS_failed"
    and "vd_status (settle_report h i parts d lg) \<noteq> RS_failed \<longrightarrow>
      vd_status (settle_report h i parts d lg) = rd_status d"
    and "set (rd_risksOrGaps d) \<subseteq> set (vd_risksOrGaps (settle_report h i parts d lg))"
  using assms
  by (auto simp: settle_report_def unreviewed_verdict_def review_verdict_def Let_def split: prod.splits option.splits)

text \<open>A final failure: what its exhaustion check and its failure report hold.\<close>

definition run_exhaustion :: "host \<Rightarrow> run_input \<Rightarrow> run_parts \<Rightarrow> recovery_options \<Rightarrow> report_draft \<Rightarrow> run_log \<Rightarrow> exhaustion_check" where
  "run_exhaustion h i parts opts d lg = check_final_failure_exhaustion (run_work_order i) (rd_outputs d)
     (fst (build_node_recovery_review h (run_review_input i parts opts (rd_status d) lg) (lg_tick lg)))"

lemma review_verdict_fields:
  "vd_exhaustion (review_verdict h i parts opts d lg) = Some (run_exhaustion h i parts opts d lg)"
  "vd_status (review_verdict h i parts opts d lg) =
     (if xk_canFinalizeFailure (run_exhaustion h i parts opts d lg) then RS_failed else rd_status d)"
  "xk_canFinalizeFailure (run_exhaustion h i parts opts d lg) \<Longrightarrow>
     \<exists>fr. vd_failureReport (review_verdict h i parts opts d lg) = Some fr
       \<and> fr_failureReportId fr = ''failure:'' @ wo_workOrderId (run_work_order i)
       \<and> fr_exhaustionSummary fr = xk_exhaustionSummary (run_exhaustion h i parts opts d lg)
       \<and> fr_untriedOptions fr = xk_untriedOptions (run_exhaustion h i parts opts d lg)"
  by (simp_all add: review_verdict_def unreviewed_verdict_def run_exhaustion_def generate_failure_report_def
      Let_def case_prod_beta)

lemma settle_report_failed:
  assumes "rd_status d \<noteq> RS_failed" "vd_status (settle_report h i parts d lg) = RS_failed"
  obtains s ex fr where "ru_recovery i = Some s" "rx_enabled s" "rd_status d = RS_failed_candidate"
    "vd_exhaustion (settle_report h i parts d lg) = Some ex" "xk_canFinalizeFailure ex"
    "xk_complete ex" "unmet_success_criteria_ids (run_work_order i) (rd_outputs d) \<noteq> []"
    "vd_failureReport (settle_report h i parts d lg) = Some fr"
    "fr_failureReportId fr = ''failure:'' @ wo_workOrderId (run_work_order i)"
    "fr_exhaustionSummary fr = xk_exhaustionSummary ex" "fr_untriedOptions fr = xk_untriedOptions ex"
proof -
  from assms obtain s where s: "ru_recovery i = Some s" "rx_enabled s" "rd_status d = RS_failed_candidate"
    by (auto simp: settle_report_def unreviewed_verdict_def Let_def split: option.splits if_splits)
  obtain lg2 where v: "settle_report h i parts d lg = review_verdict h i parts (rx_options s) d lg2"
    by (simp add: settle_report_def s Let_def)
  let ?ex = "run_exhaustion h i parts (rx_options s) d lg2"
  have can: "xk_canFinalizeFailure ?ex" using assms(2) s(3) by (simp add: v review_verdict_fields split: if_splits)
  then have "xk_complete ?ex" "unmet_success_criteria_ids (run_work_order i) (rd_outputs d) \<noteq> []"
    by (auto simp: run_exhaustion_def check_final_failure_exhaustion_def Let_def)
  with review_verdict_fields(3)[OF can] can show thesis
    using that[OF s] by (auto simp: v review_verdict_fields)
qed

lemma settle_report_log:
  assumes "on_path S lg" "S \<subseteq> {ST_planning, ST_permission_checking, ST_validating}" "rd_status d \<noteq> RS_failed"
  shows "on_path {t. lifecycle t (vd_finalState (settle_report h i parts d lg))} (vd_log (settle_report h i parts d lg))"
proof -
  let ?rep = "record_state h i ST_reporting (rd_reasonCode d) (status_json (rd_status d)) lg"
  have rep: "on_path {ST_reporting} ?rep"
    by (rule on_path_record_state[OF assms(1)]) (use assms(2) in \<open>auto intro: lifecycle.intros\<close>)
  note exh = on_path_record_state[OF rep, of ST_exhaustion_checking]
  show ?thesis
    using assms(3) on_path_mono[OF rep] on_path_mono[OF exh]
    by (cases "rd_status d") (auto simp: settle_report_def unreviewed_verdict_def review_verdict_def Let_def
        lifecycle_from intro: lifecycle.intros split: prod.splits option.splits)
qed

lemma settle_report_numbered:
  assumes "log_numbered i cs lg"
  shows "log_numbered i cs (vd_log (settle_report h i parts d lg))"
  using assms by (auto simp: settle_report_def unreviewed_verdict_def review_verdict_def Let_def
      log_numbered_record split: prod.splits option.splits)

lemma complete_with_report_fields:
  "xr_status (fst (complete_with_report h i pr parts d lg)) = vd_status (settle_report h i parts d lg)"
  "xr_finalState (fst (complete_with_report h i pr parts d lg)) = vd_finalState (settle_report h i parts d lg)"
  "xr_exhaustion (fst (complete_with_report h i pr parts d lg)) = vd_exhaustion (settle_report h i parts d lg)"
  "xr_failureReport (fst (complete_with_report h i pr parts d lg)) = vd_failureReport (settle_report h i parts d lg)"
  "xr_childDelegation (fst (complete_with_report h i pr parts d lg)) = pt_childDelegation parts"
  "xr_toolExecution (fst (complete_with_report h i pr parts d lg)) = pt_toolExecution parts"
  "xr_permissionDecision (fst (complete_with_report h i pr parts d lg)) = pp_permissionDecision pr"
  "xr_authorityDecision (fst (complete_with_report h i pr parts d lg)) = pp_authorityDecision pr"
  "xr_inputValidation (fst (complete_with_report h i pr parts d lg)) = pp_inputIssues pr"
  "nr_status (xr_nodeResultReport (fst (complete_with_report h i pr parts d lg))) = vd_status (settle_report h i parts d lg)"
  "nr_outputs (xr_nodeResultReport (fst (complete_with_report h i pr parts d lg))) = rd_outputs d"
  "nr_unmetSuccessCriteriaIds (xr_nodeResultReport (fst (complete_with_report h i pr parts d lg))) =
     unmet_success_criteria_ids (run_work_order i) (rd_outputs d)"
  "nr_risksOrGaps (xr_nodeResultReport (fst (complete_with_report h i pr parts d lg))) =
     vd_risksOrGaps (settle_report h i parts d lg)"
  "nr_failureReportId (xr_nodeResultReport (fst (complete_with_report h i pr parts d lg))) =
     map_option fr_failureReportId (vd_failureReport (settle_report h i parts d lg))"
  by (simp_all add: complete_with_report_def create_node_result_report_def Let_def map_idI)

lemma complete_with_report_path:
  assumes "on_path S lg" "S \<subseteq> {ST_planning, ST_permission_checking, ST_validating}" "rd_status d \<noteq> RS_failed"
  shows "on_path {xr_finalState (fst (complete_with_report h i pr parts d lg))}
    \<lparr>lg_transitions = xr_stateTransitions (fst (complete_with_report h i pr parts d lg)), lg_events = [],
     lg_sequence = 0, lg_tick = 0\<rparr>"
proof -
  have "on_path {vd_finalState (settle_report h i parts d lg)}
    (record_state h i (vd_finalState (settle_report h i parts d lg)) r p (vd_log (settle_report h i parts d lg)))" for r p
    by (rule on_path_record_state[OF settle_report_log[OF assms]]) simp
  then show ?thesis
    by (simp add: complete_with_report_def Let_def on_path_def log_states_def)
qed

lemma complete_with_report_numbered:
  assumes "log_numbered i cs lg"
  shows "\<exists>n. own_numbering (run_work_order i) (run_node_run_id i) cs
    (xr_traceEvents (fst (complete_with_report h i pr parts d lg))) n"
  unfolding complete_with_report_def Let_def fst_conv execution_result.select_convs
  by (rule exI, rule log_numbered_record(1)[OF settle_report_numbered[OF assms]])

section \<open>The steps of a run\<close>

text \<open>The three guards a run passes before anything is executed.\<close>

definition admitted :: "run_input \<Rightarrow> bool" where
  "admitted i \<longleftrightarrow> validate_input_schema (run_node_contract i) (run_work_order i) = []
     \<and> pd_allowed (check_permission (run_work_order i) (run_node_contract i) (ru_compiledTopologySnapshot i))
     \<and> ad_allowed (check_authority (run_work_order i) (ru_authorityPreflight i) (Some (en_authorityDecision (ru_envelope i))))"

lemma prepare_run_fields:
  "pp_permissionDecision (prepare_run h i tick) =
     check_permission (run_work_order i) (run_node_contract i) (ru_compiledTopologySnapshot i)"
  "pp_authorityDecision (prepare_run h i tick) =
     check_authority (run_work_order i) (ru_authorityPreflight i) (Some (en_authorityDecision (ru_envelope i)))"
  "pp_inputIssues (prepare_run h i tick) = validate_input_schema (run_node_contract i) (run_work_order i)"
  "pf_nodeId (pp_profileSnapshot (prepare_run h i tick)) = be_id (run_node_contract i)"
  by (simp_all add: prepare_run_def create_profile_def Let_def)

lemma path_to_planning:
  "lg_transitions lg = [] \<Longrightarrow> on_path {ST_planning} (record_state h i ST_planning r4 p4 (record_state h i ST_analyzing r3 p3
     ((record_state h i ST_work_order_received r2 p2 (record_state h i ST_created r1 p1 lg))\<lparr>lg_tick := t\<rparr>)))"
  by (rule on_path_record_state[where S = "{ST_analyzing}"],
      rule on_path_record_state[where S = "{ST_work_order_received}"], unfold on_path_tick,
      rule on_path_record_state[where S = "{ST_created}"], rule on_path_start) (auto intro: lifecycle.intros)

lemma prepare_run_log:
  "on_path {ST_planning} (pp_log (prepare_run h i tick))"
  "log_numbered i [] (pp_log (prepare_run h i tick))"
  unfolding prepare_run_def Let_def preparation.select_convs
  by (rule path_to_planning, simp) (intro log_numbered_record log_numbered_tick, simp add: own_numbering_def)

lemma admit_run_rejects:
  assumes "admit_run h i (prepare_run h i tick) = Inl (d, lg)"
  shows "\<not> admitted i" "rd_status d \<in> {RS_failed_candidate, RS_permission_limited}"
    "rd_outputs d = missing_outputs (en_expectedOutputs (ru_envelope i))"
    "on_path {ST_planning, ST_permission_checking} lg" "log_numbered i [] lg"
proof -
  let ?check = "\<lambda>r p. record_state h i ST_permission_checking r p (pp_log (prepare_run h i tick))"
  have check: "on_path {ST_permission_checking} (?check r p)" for r p
    by (rule on_path_record_state[OF prepare_run_log(1)]) (simp add: lifecycle.intros)
  note num = log_numbered_record[OF prepare_run_log(2)]
  show "\<not> admitted i" "rd_status d \<in> {RS_failed_candidate, RS_permission_limited}"
    "rd_outputs d = missing_outputs (en_expectedOutputs (ru_envelope i))"
    using assms by (auto simp: admit_run_def admitted_def prepare_run_fields rejected_draft_def Let_def split: if_splits)
  show "on_path {ST_planning, ST_permission_checking} lg"
    using assms on_path_mono[OF check] on_path_mono[OF prepare_run_log(1)]
    by (auto simp: admit_run_def Let_def split: if_splits)
  show "log_numbered i [] lg"
    using assms num log_numbered_record(2)[OF num(1)] prepare_run_log(2)
    by (auto simp: admit_run_def Let_def split: if_splits)
qed

lemma admit_run_admits:
  assumes "admit_run h i (prepare_run h i tick) = Inr lg"
  shows "admitted i" "on_path {ST_permission_checking} lg" "log_numbered i [] lg"
proof -
  have check: "on_path {ST_permission_checking}
      (record_state h i ST_permission_checking r p (pp_log (prepare_run h i tick)))" for r p
    by (rule on_path_record_state[OF prepare_run_log(1)]) (simp add: lifecycle.intros)
  note num = log_numbered_record[OF prepare_run_log(2)]
  show "admitted i"
    using assms by (auto simp: admit_run_def admitted_def prepare_run_fields Let_def split: if_splits)
  show "on_path {ST_permission_checking} lg" "log_numbered i [] lg"
    using assms check log_numbered_record(2)[OF num(1)] by (auto simp: admit_run_def Let_def split: if_splits)
qed

lemma admit_run_iff: "isl (admit_run h i (prepare_run h i tick)) \<longleftrightarrow> \<not> admitted i"
  using admit_run_rejects(1)[of h i tick] admit_run_admits(1)[of h i tick]
  by (cases "admit_run h i (prepare_run h i tick)") auto

abbreviation child_events :: "child_summary option \<Rightarrow> trace_event list" where
  "child_events cd \<equiv> (case cd of None \<Rightarrow> [] | Some s \<Rightarrow> sm_traceEvents s)"

lemma delegation_started_log:
  assumes "on_path {ST_self_executing} lg" "log_numbered i cs lg"
  shows "on_path {ST_self_executing, ST_child_delegating} (delegation_started h i plan lg)"
    "log_numbered i cs (delegation_started h i plan lg)"
proof -
  have "on_path {ST_child_delegating} (record_state h i ST_child_delegating r p lg)" for r p
    by (rule on_path_record_state[OF assms(1)]) (auto intro: lifecycle.intros)
  then have "on_path {ST_self_executing, ST_child_delegating} (record_state h i ST_child_delegating r p lg)" for r p
    by (rule on_path_mono) simp
  then show "on_path {ST_self_executing, ST_child_delegating} (delegation_started h i plan lg)"
    using on_path_mono[OF assms(1)] by (simp add: delegation_started_def)
  show "log_numbered i cs (delegation_started h i plan lg)"
    using assms(2) log_numbered_record(1)[OF assms(2)] by (simp add: delegation_started_def)
qed

lemma run_children_log:
  assumes "run_children h rec i lg = Some (cd, lg')" "on_path {ST_self_executing} lg" "log_numbered i [] lg"
  shows "on_path {ST_self_executing, ST_child_delegating} lg'" "log_numbered i (child_events cd) lg'"
proof -
  from assms(1) consider "cd = None" "lg' = lg"
    | co sm where "delegate_to_children h rec i co lg = Some (sm, lg')" "cd = Some sm"
    by (auto simp: run_children_def split: option.splits if_splits)
  then have "on_path {ST_self_executing, ST_child_delegating} lg' \<and> log_numbered i (child_events cd) lg'"
  proof cases
    case 1
    then show ?thesis using assms(2,3) by (auto intro: on_path_mono)
  next
    case 2
    then obtain plan t t' where "lg' = (delegation_started h i plan (lg\<lparr>lg_tick := t\<rparr>))
        \<lparr>lg_events := lg_events (delegation_started h i plan (lg\<lparr>lg_tick := t\<rparr>)) @ sm_traceEvents sm, lg_tick := t'\<rparr>"
      by (auto simp: delegate_to_children_def Let_def split: prod.splits option.splits)
    with 2(2) delegation_started_log[of "lg\<lparr>lg_tick := t\<rparr>" i "[]"] assms(2,3) show ?thesis
      by (simp add: own_numbering_children)
  qed
  then show "on_path {ST_self_executing, ST_child_delegating} lg'" "log_numbered i (child_events cd) lg'" by auto
qed

lemma tools_started_log:
  assumes "on_path {ST_self_executing, ST_child_delegating} lg" "log_numbered i cs lg"
  shows "on_path {ST_self_executing, ST_child_delegating, ST_tool_executing} (tools_started h i plan lg)"
    "log_numbered i cs (tools_started h i plan lg)"
proof -
  have "on_path {ST_tool_executing} (record_state h i ST_tool_executing r p lg)" for r p
    by (rule on_path_record_state[OF assms(1)]) (auto intro: lifecycle.intros)
  then have "on_path {ST_self_executing, ST_child_delegating, ST_tool_executing}
      (record_state h i ST_tool_executing r p lg)" for r p
    by (rule on_path_mono) simp
  then show "on_path {ST_self_executing, ST_child_delegating, ST_tool_executing} (tools_started h i plan lg)"
    using on_path_mono[OF assms(1)] by (simp add: tools_started_def)
  show "log_numbered i cs (tools_started h i plan lg)"
    using assms(2) log_numbered_record(1)[OF assms(2)] by (simp add: tools_started_def)
qed

lemma run_tools_log:
  assumes "run_tools h i lg = Some (te, lg')" "on_path {ST_self_executing, ST_child_delegating} lg" "log_numbered i cs lg"
  shows "on_path {ST_self_executing, ST_child_delegating, ST_tool_executing} lg'" "log_numbered i cs lg'"
proof -
  from assms(1) consider "te = None" "lg' = lg"
    | tos su where "execute_tools h i tos lg = Some (su, lg')" "te = Some su"
    by (auto simp: run_tools_def split: option.splits if_splits)
  then have "on_path {ST_self_executing, ST_child_delegating, ST_tool_executing} lg' \<and> log_numbered i cs lg'"
  proof cases
    case 1
    then show ?thesis using assms(2,3) by (auto intro: on_path_mono)
  next
    case 2
    let ?log1 = "tools_started h i (run_tool_plan i tos) lg"
    from 2(1) obtain t where l: "dispatch_planned_node_tools h (to_dispatcher tos) (run_tool_plan i tos)
        (run_work_order i) (run_node_run_id i) (lg_sequence ?log1) (lg_tick ?log1) = Some (su, t)"
      "lg' = ?log1\<lparr>lg_events := lg_events ?log1 @ su_traceEvents su,
        lg_sequence := lg_sequence ?log1 + length (su_traceEvents su), lg_tick := t\<rparr>"
      by (auto simp: execute_tools_def Let_def split: option.splits)
    note started = tools_started_log[OF assms(2,3), of h "run_tool_plan i tos"]
    from started(1) own_numbering_append[OF started(2) dispatch_tools_numbered[OF l(1)]] show ?thesis
      by (simp add: l(2))
  qed
  then show "on_path {ST_self_executing, ST_child_delegating, ST_tool_executing} lg'" "log_numbered i cs lg'" by auto
qed

section \<open>Where a report draft comes from\<close>

inductive earned :: "host \<Rightarrow> run_input \<Rightarrow> run_parts \<Rightarrow> report_draft \<Rightarrow> bool"
  for h :: host and i :: run_input where
  rejected: "\<not> admitted i \<Longrightarrow> rd_status d \<in> {RS_failed_candidate, RS_permission_limited} \<Longrightarrow>
    rd_outputs d = missing_outputs (en_expectedOutputs (ru_envelope i)) \<Longrightarrow> earned h i no_parts d"
| plain: "admitted i \<Longrightarrow> eos = en_expectedOutputs (ru_envelope i) \<Longrightarrow>
    fd = final_decision parts (decide_self_execution eos se (normalize_outputs se eos)) \<Longrightarrow>
    rd_status d = sd_status fd \<Longrightarrow> set (sd_risksOrGaps fd) \<subseteq> set (rd_risksOrGaps d) \<Longrightarrow>
    rd_outputs d = normalize_outputs se eos \<Longrightarrow> pt_aggregation parts = None \<Longrightarrow> earned h i parts d"
| aggregated: "admitted i \<Longrightarrow> ru_aggregation i = Some ao \<Longrightarrow> ao_enabled ao \<Longrightarrow>
    va = validate_aggregated_node_result (run_work_order i) ag (allow_partial_success i ao) \<Longrightarrow>
    pt_aggregation parts = Some ag \<Longrightarrow> rd_status d = va_nodeResultStatus va \<Longrightarrow>
    rd_outputs d = va_outputs va \<Longrightarrow> earned h i parts d"

lemma final_decision_status:
  "sd_status sd \<noteq> RS_failed \<Longrightarrow> sd_status (final_decision parts sd) \<noteq> RS_failed"
  by (simp add: final_decision_def Let_def)

lemma validated_status: "va_nodeResultStatus (validate_aggregated_node_result wo ag allow) \<noteq> RS_failed"
  by (cases "va_status (validate_aggregated_node_result wo ag allow)")
    (simp_all add: validate_aggregated_node_result_def Let_def)

lemma validated_completed:
  assumes "va_nodeResultStatus (validate_aggregated_node_result wo ag allow) = RS_completed"
  shows "unmet_success_criteria_ids wo (va_outputs (validate_aggregated_node_result wo ag allow)) = []"
proof -
  have "va_outputs (validate_aggregated_node_result wo ag allow) = ag_outputs ag"
    by (simp add: validate_aggregated_node_result_def Let_def map_idI)
  moreover have "unmet_success_criteria_ids wo (ag_outputs ag) = []"
    using assms unmet_has_issue[of wo ag]
    by (auto simp: validate_aggregated_node_result_def decide_validation_status_def Let_def split: if_splits)
  ultimately show ?thesis by simp
qed

lemma earned_not_failed: "earned h i parts d \<Longrightarrow> rd_status d \<noteq> RS_failed"
proof (induction rule: earned.induct)
  case (plain eos fd parts se d)
  have "sd_status (decide_self_execution eos se (normalize_outputs se eos)) \<noteq> RS_failed"
    using decide_self_execution_range[of eos se "normalize_outputs se eos"] by auto
  then show ?case unfolding plain.hyps(3,4) by (rule final_decision_status)
qed (auto simp: validated_status)

lemma conclude_run_cases:
  assumes "admitted i" "conclude_run h i pr se (no_parts\<lparr>pt_childDelegation := cd, pt_toolExecution := te\<rparr>) lg = (r, t)"
    and "on_path {ST_self_executing, ST_child_delegating, ST_tool_executing} lg" "log_numbered i (child_events cd) lg"
  obtains parts d lg' where "r = fst (complete_with_report h i pr parts d lg')" "on_path {ST_validating} lg'"
    "log_numbered i (child_events cd) lg'" "earned h i parts d" "pt_childDelegation parts = cd" "pt_toolExecution parts = te"
proof -
  let ?parts = "no_parts\<lparr>pt_childDelegation := cd, pt_toolExecution := te\<rparr>"
  let ?lg = "record_state h i ST_validating ''self_execution_validating'' JUndef lg"
  let ?eos = "en_expectedOutputs (ru_envelope i)"
  let ?outs = "normalize_outputs se ?eos"
  let ?sd = "decide_self_execution ?eos se ?outs"
  have path: "on_path {ST_validating} ?lg"
    by (rule on_path_record_state[OF assms(3)]) (auto intro: lifecycle.intros)
  note num = log_numbered_record(1)[OF assms(4), of h ST_validating "''self_execution_validating''" JUndef]
  show thesis
  proof (cases "\<exists>ao. ru_aggregation i = Some ao \<and> ao_enabled ao")
    case True
    then obtain ao where ao: "ru_aggregation i = Some ao" "ao_enabled ao" by blast
    with assms(2) have r: "r = fst (conclude_aggregated h i pr ao se ?sd ?outs ?parts ?lg)"
      by (simp add: conclude_run_def Let_def)
    show thesis
      by (rule that[OF r[unfolded conclude_aggregated_def Let_def]])
        (simp_all add: path log_numbered_record(2)[OF log_numbered_record(2)[OF num]] earned.aggregated[OF assms(1) ao])
  next
    case False
    with assms(2) have r: "r = fst (conclude_plain h i pr se ?sd ?outs ?parts ?lg)"
      by (auto simp: conclude_run_def Let_def split: option.splits)
    show thesis
      by (rule that[OF r[unfolded conclude_plain_def Let_def]])
        (simp_all add: path num earned.plain[OF assms(1) refl refl] no_parts_def)
  qed
qed

lemma execute_run_cases:
  assumes "execute_run h rec i pr lg = Some (r, t)"
  obtains se t1 cd lg3 te lg4 where
    "run_children h rec i ((record_state h i ST_self_executing ''self_execution_started'' JUndef lg)\<lparr>lg_tick := t1\<rparr>) = Some (cd, lg3)"
    "run_tools h i lg3 = Some (te, lg4)"
    "conclude_run h i pr se (no_parts\<lparr>pt_childDelegation := cd, pt_toolExecution := te\<rparr>) lg4 = (r, t)"
  using assms by (auto simp: execute_run_def Let_def split: option.splits)

text \<open>Every run that returns ends in \<open>complete_with_report\<close> with a draft it has earned.\<close>

lemma run_cases:
  assumes "run_node_with h rec i tick = Some (r, t)"
  obtains S parts d lg where "r = fst (complete_with_report h i (prepare_run h i tick) parts d lg)"
    "on_path S lg" "S \<subseteq> {ST_planning, ST_permission_checking, ST_validating}"
    "log_numbered i (child_events (xr_childDelegation r)) lg" "earned h i parts d"
    "xr_childDelegation r = pt_childDelegation parts" "xr_toolExecution r = pt_toolExecution parts"
proof (cases "admit_run h i (prepare_run h i tick)")
  case (Inl dl)
  obtain d lg where dl: "dl = (d, lg)" by (cases dl)
  note rej = admit_run_rejects[OF Inl[unfolded dl]]
  have r: "r = fst (complete_with_report h i (prepare_run h i tick) no_parts d lg)"
    using assms by (simp add: run_node_with_def Let_def Inl dl)
  then have "xr_childDelegation r = None" by (simp add: complete_with_report_fields no_parts_def)
  with rej show thesis
    by (intro that[OF r rej(4) _ _ earned.rejected[OF rej(1-3)]]) (auto simp: r complete_with_report_fields)
next
  case (Inr lg)
  note adm = admit_run_admits[OF Inr]
  from assms obtain se t1 cd lg3 te lg4 where run:
    "run_children h rec i ((record_state h i ST_self_executing ''self_execution_started'' JUndef lg)\<lparr>lg_tick := t1\<rparr>) = Some (cd, lg3)"
    "run_tools h i lg3 = Some (te, lg4)"
    "conclude_run h i (prepare_run h i tick) se (no_parts\<lparr>pt_childDelegation := cd, pt_toolExecution := te\<rparr>) lg4 = (r, t)"
    by (auto simp: run_node_with_def Let_def Inr elim: execute_run_cases)
  have "on_path {ST_self_executing} (record_state h i ST_self_executing ''self_execution_started'' JUndef lg)"
    by (rule on_path_record_state[OF adm(2)]) (auto intro: lifecycle.intros)
  with run_children_log[OF run(1)] log_numbered_record(1)[OF adm(3)]
  have c: "on_path {ST_self_executing, ST_child_delegating} lg3" "log_numbered i (child_events cd) lg3" by auto
  from conclude_run_cases[OF adm(1) run(3) run_tools_log[OF run(2) c]] obtain parts d lg' where
    r: "r = fst (complete_with_report h i (prepare_run h i tick) parts d lg')" and
    p: "on_path {ST_validating} lg'" "log_numbered i (child_events cd) lg'" "earned h i parts d"
    "pt_childDelegation parts = cd" "pt_toolExecution parts = te" .
  show thesis by (rule that[OF r p(1)]) (use p in \<open>simp_all add: r complete_with_report_fields\<close>)
qed

section \<open>Returning\<close>

lemma dispatch_children_total:
  assumes "\<And>pc contract en t. pc \<in> set pcs \<Longrightarrow> map_of (di_childNodeContractsById d) (pc_childNodeId pc) = Some contract \<Longrightarrow>
     envelope_input_ok (child_envelope_input d pc contract) \<Longrightarrow>
     create_envelope h (child_envelope_input d pc contract) t = (Inr en, t + 1) \<Longrightarrow> runner pc contract en (t + 1) \<noteq> None"
  shows "dispatch_children h runner d pcs tick \<noteq> None"
  using assms
proof (induction pcs arbitrary: tick)
  case (Cons pc pcs)
  have "\<exists>r t. dispatch_one_child h runner d pc tick = Some (r, t)"
  proof (cases "reaches_runner d pc")
    case True
    then show ?thesis
      by (rule dispatch_one_runs[of d pc h tick runner]) (use Cons.prems[of pc] in \<open>fastforce simp: split_paired_Ex\<close>)
  next
    case False
    then show ?thesis using dispatch_one_denied[of d pc h runner tick] by blast
  qed
  then obtain r t where "dispatch_one_child h runner d pc tick = Some (r, t)" by blast
  moreover have "dispatch_children h runner d pcs t \<noteq> None" by (rule Cons.IH) (rule Cons.prems, auto)
  ultimately show ?case by (auto split: option.splits)
qed simp

lemma dispatch_total:
  assumes "dispatch_children h runner d (pl_childWorkOrders (di_plan d)) tick \<noteq> None"
  shows "dispatch_child_work_orders h runner d tick \<noteq> None"
  using assms by (auto simp: dispatch_child_work_orders_def Let_def)

text \<open>What the caller supplies returns: the self executor and the tools.\<close>

definition callbacks_return :: "host \<Rightarrow> run_input \<Rightarrow> bool" where
  "callbacks_return h i \<longleftrightarrow> (\<forall>pr tick. run_self i pr tick \<noteq> None) \<and> (\<forall>lg. run_tools h i lg \<noteq> None)"

definition own_delegation :: "jsnum option \<Rightarrow> run_input \<Rightarrow> bool" where
  "own_delegation M i \<longleftrightarrow> (\<forall>co. ru_childDelegation i = Some co \<longrightarrow> co_childRunner co = None \<and> co_maxDelegationDepth co = M)"

definition addressed :: "run_input \<Rightarrow> bool" where
  "addressed i \<longleftrightarrow> path_ends_at_target (run_work_order i)
     \<and> wt_id (wo_to (run_work_order i)) = be_id (run_node_contract i)"

lemma run_node_with_total:
  assumes "callbacks_return h i"
    and "\<And>co lg. ru_childDelegation i = Some co \<Longrightarrow> delegate_to_children h rec i co lg \<noteq> None"
  shows "run_node_with h rec i tick \<noteq> None"
proof (cases "admit_run h i (prepare_run h i tick)")
  case (Inl dl)
  then show ?thesis by (cases dl) (simp add: run_node_with_def Let_def)
next
  case (Inr lg)
  let ?lg = "record_state h i ST_self_executing ''self_execution_started'' JUndef lg"
  from assms(1) obtain se t1 where se: "run_self i (prepare_run h i tick) (lg_tick ?lg) = Some (se, t1)"
    by (fastforce simp: callbacks_return_def split_paired_Ex)
  have "run_children h rec i (?lg\<lparr>lg_tick := t1\<rparr>) \<noteq> None"
    using assms(2) by (cases "ru_childDelegation i") (simp_all add: run_children_def del: not_None_eq)
  then obtain cd lg3 where cd: "run_children h rec i (?lg\<lparr>lg_tick := t1\<rparr>) = Some (cd, lg3)" by auto
  from assms(1) obtain te lg4 where te: "run_tools h i lg3 = Some (te, lg4)"
    by (fastforce simp: callbacks_return_def split_paired_Ex)
  show ?thesis by (simp add: run_node_with_def Let_def Inr execute_run_def se cd te)
qed

lemma child_run_input_ok:
  "callbacks_return h (child_run_input i co pc en)"
  "own_delegation (co_maxDelegationDepth co) (child_run_input i co pc en)"
  "ru_compiledTopologySnapshot (child_run_input i co pc en) = ru_compiledTopologySnapshot i"
  "run_work_order (child_run_input i co pc en) = en_workOrder en"
  "run_node_contract (child_run_input i co pc en) = en_nodeContractSnapshot en"
  by (simp_all add: child_run_input_def callbacks_return_def run_self_def run_tools_def own_delegation_def
      recursive_child_options_def Let_def)

lemma delegate_to_children_total:
  assumes co: "co_childRunner co = None" and a: "addressed i"
    and rec: "\<And>pc en t. delegates h (ru_compiledTopologySnapshot i) (co_maxDelegationDepth co) (run_work_order i) (pc_workOrder pc) \<Longrightarrow>
      en_workOrder en = pc_workOrder pc \<Longrightarrow> wt_id (wo_to (pc_workOrder pc)) = be_id (en_nodeContractSnapshot en) \<Longrightarrow>
      rec (child_run_input i co pc en) t \<noteq> None"
  shows "delegate_to_children h rec i co lg \<noteq> None"
proof -
  let ?plan = "fst (plan_child_delegation h (run_plan_input i co) (lg_tick lg))"
  let ?d = "run_dispatch_input i co ?plan"
  have "dispatch_child_work_orders h (default_child_runner rec i co) ?d t \<noteq> None" for t
  proof (rule dispatch_total, rule dispatch_children_total)
    fix pc contract en t
    assume pc: "pc \<in> set (pl_childWorkOrders (di_plan ?d))" "envelope_input_ok (child_envelope_input ?d pc contract)"
      "create_envelope h (child_envelope_input ?d pc contract) t = (Inr en, t + 1)"
    have "delegates h (ru_compiledTopologySnapshot i) (co_maxDelegationDepth co)
        (ci_parentWorkOrder (run_plan_input i co)) (pc_workOrder pc)"
      by (rule delegates_step[where tick = "lg_tick lg"])
        (use pc(1) a in \<open>simp_all add: run_plan_input_def plan_parent_def addressed_def run_dispatch_input_def\<close>)
    moreover have "en_workOrder en = pc_workOrder pc" "en_nodeContractSnapshot en = contract"
      using create_envelope_fields[OF pc(3)] by (simp_all add: child_envelope_input_def)
    moreover have "wt_id (wo_to (pc_workOrder pc)) = be_id contract"
      using pc(2) by (simp add: envelope_input_ok_def child_envelope_input_def)
    ultimately show "default_child_runner rec i co pc contract en (t + 1) \<noteq> None"
      using rec by (simp add: default_child_runner_def run_plan_input_def)
  qed
  then obtain sm t2 where "dispatch_child_work_orders h (default_child_runner rec i co) ?d
      (lg_tick (delegation_started h i ?plan (lg\<lparr>lg_tick := snd (plan_child_delegation h (run_plan_input i co) (lg_tick lg))\<rparr>)))
      = Some (sm, t2)" by fastforce
  then show ?thesis by (simp add: delegate_to_children_def Let_def co case_prod_beta)
qed

lemma run_node_total:
  assumes "index_consistent cs" "ids_prefixed cs" "no_self_edges cs"
  shows "callbacks_return h i \<Longrightarrow> own_delegation M i \<Longrightarrow> addressed i \<Longrightarrow> ru_compiledTopologySnapshot i = cs \<Longrightarrow>
    0 < n \<Longrightarrow> normalized_max_depth M + 3 \<le> n + length (node_path (run_work_order i)) \<Longrightarrow> run_node n h i tick \<noteq> None"
proof (induction n arbitrary: i tick)
  case (Suc n)
  show ?case unfolding run_node.simps
  proof (rule run_node_with_total[OF Suc.prems(1)], rule delegate_to_children_total)
    fix co :: child_options and pc :: planned_child and en :: envelope and t
    assume co: "ru_childDelegation i = Some co"
    then have M: "co_maxDelegationDepth co = M" "co_childRunner co = None"
      using Suc.prems(2) by (auto simp: own_delegation_def)
    assume d: "delegates h (ru_compiledTopologySnapshot i) (co_maxDelegationDepth co) (run_work_order i) (pc_workOrder pc)"
      "en_workOrder en = pc_workOrder pc" "wt_id (wo_to (pc_workOrder pc)) = be_id (en_nodeContractSnapshot en)"
    have p: "path_ends_at_target (run_work_order i)" using Suc.prems(3) by (simp add: addressed_def)
    note grow = delegates_path_grows[OF d(1)[unfolded Suc.prems(4) M(1)] assms p]
    show "run_node n h (child_run_input i co pc en) t \<noteq> None"
      by (rule Suc.IH) (use child_run_input_ok(2)[of co] grow d(2,3) Suc.prems(4,6)
        in \<open>simp_all add: M addressed_def child_run_input_ok\<close>)
  qed (use Suc.prems in \<open>auto simp: own_delegation_def\<close>)
qed simp

text \<open>More fuel never changes a result.\<close>

lemma dispatch_one_mono:
  assumes "\<And>pc c en t x. runner pc c en t = Some x \<Longrightarrow> runner' pc c en t = Some x"
  shows "dispatch_one_child h runner d pc t = Some y \<Longrightarrow> dispatch_one_child h runner' d pc t = Some y"
  by (auto simp: dispatch_one_child_def split: option.splits prod.splits sum.splits dest: assms)

lemma dispatch_children_mono:
  assumes "\<And>pc c en t x. runner pc c en t = Some x \<Longrightarrow> runner' pc c en t = Some x"
  shows "dispatch_children h runner d pcs t = Some y \<Longrightarrow> dispatch_children h runner' d pcs t = Some y"
proof (induction pcs arbitrary: t y)
  case (Cons pc pcs)
  then obtain r t1 rs t2 where "dispatch_one_child h runner d pc t = Some (r, t1)"
    "dispatch_children h runner d pcs t1 = Some (rs, t2)" "y = (r # rs, t2)"
    by (auto split: option.splits)
  moreover from this have "dispatch_one_child h runner' d pc t = Some (r, t1)"
    "dispatch_children h runner' d pcs t1 = Some (rs, t2)"
    using Cons.IH dispatch_one_mono[of runner runner', OF assms] by blast+
  ultimately show ?case by simp
qed simp

lemma delegate_to_children_mono:
  assumes "\<And>i t x. rec i t = Some x \<Longrightarrow> rec' i t = Some x"
    and "delegate_to_children h rec i co lg = Some y"
  shows "delegate_to_children h rec' i co lg = Some y"
proof -
  obtain plan tick1 where plan: "plan_child_delegation h (run_plan_input i co) (lg_tick lg) = (plan, tick1)"
    by (cases "plan_child_delegation h (run_plan_input i co) (lg_tick lg)")
  let ?runner = "\<lambda>rec. case co_childRunner co of Some r \<Rightarrow> r | None \<Rightarrow> default_child_runner rec i co"
  let ?log = "delegation_started h i plan (lg\<lparr>lg_tick := tick1\<rparr>)"
  have mono: "?runner rec pc c en t = Some x \<Longrightarrow> ?runner rec' pc c en t = Some x" for pc c en t x
    using assms(1) by (auto simp: default_child_runner_def split: option.splits)
  from assms(2) obtain sm t2 where
    "dispatch_child_work_orders h (?runner rec) (run_dispatch_input i co plan) (lg_tick ?log) = Some (sm, t2)"
    "y = (sm, ?log\<lparr>lg_events := lg_events ?log @ sm_traceEvents sm, lg_tick := t2\<rparr>)"
    by (auto simp: delegate_to_children_def Let_def plan split: option.splits)
  moreover from this(1) dispatch_children_mono[of "?runner rec" "?runner rec'", OF mono]
  have "dispatch_child_work_orders h (?runner rec') (run_dispatch_input i co plan) (lg_tick ?log) = Some (sm, t2)"
    by (cases "dispatch_children h (?runner rec) (run_dispatch_input i co plan)
        (pl_childWorkOrders (di_plan (run_dispatch_input i co plan))) (lg_tick ?log)")
      (auto simp: dispatch_child_work_orders_def Let_def split: if_splits)
  ultimately show ?thesis by (simp add: delegate_to_children_def Let_def plan)
qed

lemma run_node_with_mono:
  assumes "\<And>i t x. rec i t = Some x \<Longrightarrow> rec' i t = Some x" and "run_node_with h rec i t = Some y"
  shows "run_node_with h rec' i t = Some y"
proof -
  have "run_children h rec i lg = Some x \<Longrightarrow> run_children h rec' i lg = Some x" for lg x
    using delegate_to_children_mono[of rec rec', OF assms(1)]
    by (auto simp: run_children_def split: option.splits if_splits)
  then show ?thesis
    using assms(2) by (auto simp: run_node_with_def execute_run_def Let_def split: sum.splits option.splits)
qed

lemma run_node_mono: "run_node n h i t = Some y \<Longrightarrow> run_node (n + k) h i t = Some y"
proof (induction n arbitrary: i t y)
  case (Suc n)
  then have "run_node_with h (run_node n h) i t = Some y" by simp
  from run_node_with_mono[OF Suc.IH this] show ?case by simp
qed simp

end
