(* ===== verification/Node_Runtime_Properties.thy ===== *)
theory Node_Runtime_Properties
  imports Node_Runtime_Facts
begin

text \<open>
  The properties of a node run, over the facts of \<open>Node_Runtime_Facts\<close>, with the sample runs that
  witness them.
\<close>

section \<open>Sample runs\<close>

definition sample_identity :: runtime_identity where
  "sample_identity = \<lparr>id_entityType = RE_sub_session, id_entityId = ''s'', id_owner = \<lparr>os_ownerType = OW_system, os_ownerId = ''r''\<rparr>,
     id_idempotencyKey = ''k'', id_auditCorrelationId = None, id_parent = None\<rparr>"

definition sample_envelope :: "work_order \<Rightarrow> node_contract \<Rightarrow> envelope" where
  "sample_envelope wo node =
     \<lparr>en_workOrder = wo, en_nodeContractSnapshot = node, en_compiledTopologySnapshotId = ''s'',
      en_parentWorkOrderId = None, en_delegationPath = wo_delegationPath wo,
      en_inputDataExchangePackage = \<lparr>dx_identity = sample_identity, dx_exchangeId = ''x'',
        dx_sourceOwner = id_owner sample_identity, dx_recipientOwner = id_owner sample_identity, dx_purpose = ''p'',
        dx_allowedUse = ''u'', dx_retentionPolicy = ''r'', dx_redactionState = ''n'', dx_provenanceRefs = [],
        dx_payload = JUndef, dx_expiresAt = None, dx_createdAt = 0\<rparr>,
      en_expectedOutputs = build_expected_outputs sample_host wo,
      en_effectivePermissionScope = \<lparr>ef_allowedToolIds = [], ef_allowedSystemIds = [], ef_dataDomainIds = [],
        ef_riskLevel = None, ef_removedToolIds = [], ef_removedSystemIds = [], ef_removedDataDomainIds = [],
        ef_reasonCodes = []\<rparr>,
      en_capabilityPolicy = \<lparr>cap_permissionProfile = \<lparr>pp_profileId = ''p'', pp_riskCeiling = CR_safe,
          pp_approvalRequiredFrom = CR_safe, pp_allowExternalNetwork = False, pp_allowFilesystemWrite = False,
          pp_allowShellExecution = False, pp_allowScreenControl = False, pp_allowedPaths = []\<rparr>,
        cap_skillMcpAllowlist = \<lparr>al_enabledSkillIds = [], al_enabledMcpServerIds = [], al_enabledToolNames = [],
          al_disabledToolNames = [], al_secretScopeId = None\<rparr>,
        cap_maxConcurrentCalls = Fin 1, cap_maxCallsPerMinute = None\<rparr>,
      en_authorityDecision = evaluate_authority_preflight wo None,
      en_promptBridge = \<lparr>pb_completionCriteria = [], pb_successCriterionIds = [], pb_promptContextRefs = [],
        pb_promptFragments = []\<rparr>,
      en_resultReviewBridge = \<lparr>rb_expectedOutputs = [], rb_additionalContextRefs = [], rb_successCriterionIds = []\<rparr>,
      en_subSessionCommandRequest = \<lparr>cq_identity = sample_identity, cq_commandRequestId = ''c'', cq_parentRunId = ''p'',
        cq_subSessionId = ''s'', cq_targetAgentId = ''t'', cq_targetNicknameSnapshot = None, cq_topologyExecutor = None,
        cq_taskScope = \<lparr>sk_goal = ''g'', sk_intentType = ''i'', sk_actionType = ''a'', sk_constraints = [],
          sk_expectedOutputs = [], sk_reasonCodes = []\<rparr>,
        cq_contextPackageIds = [], cq_expectedOutputs = []\<rparr>,
      en_subSessionIdempotencyKey = ''k''\<rparr>"

definition sample_run :: "work_order \<Rightarrow> node_contract \<Rightarrow> enterprise_topology \<Rightarrow> run_input" where
  "sample_run wo node tp =
     \<lparr>ru_envelope = sample_envelope wo node, ru_compiledTopologySnapshot = compiled_snapshot ''s'' tp,
      ru_nodeRunId = None, ru_profileSnapshotId = None, ru_authorityPreflight = None, ru_selfExecute = None,
      ru_childDelegation = None, ru_toolExecution = None, ru_aggregation = None, ru_recovery = None,
      ru_component = None\<rparr>"

text \<open>An executor that fails, under a recovery review whose every option has been reviewed.\<close>

definition failing_executor :: self_executor where
  "failing_executor en pf cs nr tick = Some (\<lparr>se_status = Some RS_failed, se_outputs = None, se_risksOrGaps = None,
     se_partialResult = JUndef, se_reasonCode = None\<rparr>, tick)"

definition reviewed_recovery :: recovery_settings where
  "reviewed_recovery = \<lparr>rx_enabled = True, rx_options = \<lparr>ro_selfExecutionAttempted = Some True,
     ro_childDelegationAttempted = Some True, ro_toolExecutionAttempted = Some True, ro_retryAttempted = Some True,
     ro_fallbackAttempted = Some True, ro_partialSuccessChecked = Some True,
     ro_parentRecoveryPossibleChecked = Some True, ro_requireChildDelegationReview = None,
     ro_requireToolExecutionReview = None, ro_requireRetryReview = None, ro_requireFallbackReview = None,
     ro_requirePartialSuccessReview = None, ro_requireParentRecoveryReview = None, ro_recommendedAction = None\<rparr>\<rparr>"

definition sample_child_options :: "(string, node_contract) jsmap \<Rightarrow> child_options" where
  "sample_child_options contracts = \<lparr>co_enabled = True, co_childNodeContractsById = contracts,
     co_targetChildNodeIds = None, co_maxDelegationDepth = None, co_recursive = None, co_childRunner = None,
     co_childObjectiveByNodeId = [], co_childInputByNodeId = [], co_childWorkOrderIdByNodeId = [],
     co_authorityPreflightByNodeId = []\<rparr>"

definition sample_parent :: node_contract where
  "sample_parent = sample_node ''node:a'' [''node:b''] [''t''] []"

text \<open>A work order that asks for no tool is admitted, one that asks for a tool the node may not use is not.\<close>

definition toolless_work_order :: work_order where
  "toolless_work_order = (sample_work_order ''node:a'')\<lparr>wo_permissionScope :=
     \<lparr>ps_allowedToolIds = [], ps_allowedSystemIds = [], ps_dataDomainIds = [], ps_riskLevel = None\<rparr>\<rparr>"

definition sample_leaf :: node_contract where
  "sample_leaf = sample_node ''node:a'' [] [] []"

definition leaf_topology :: enterprise_topology where
  "leaf_topology = sample_topology\<lparr>tp_nodes := [sample_leaf], tp_systems := [], tp_tools := []\<rparr>"

definition plain_sample :: run_input where
  "plain_sample = sample_run toolless_work_order sample_leaf leaf_topology"

definition denied_sample :: run_input where
  "denied_sample = sample_run (sample_work_order ''node:a'') sample_leaf leaf_topology"

definition failing_sample :: run_input where
  "failing_sample = plain_sample\<lparr>ru_selfExecute := Some failing_executor, ru_recovery := Some reviewed_recovery\<rparr>"

definition delegating_sample :: run_input where
  "delegating_sample = (sample_run toolless_work_order sample_parent prefixed_topology)\<lparr>ru_childDelegation := Some (sample_child_options
     [(''node:b'', sample_node ''node:b'' [''node:c''] [] []), (''node:c'', sample_node ''node:c'' [] [] [])])\<rparr>"

definition outcome_status :: "run_outcome \<Rightarrow> result_status option" where
  "outcome_status x = map_option (\<lambda>rt. xr_status (fst rt)) x"

lemma sample_plain: "outcome_status (run_node 1 sample_host plain_sample 0) = Some RS_completed"
  by code_simp

lemma sample_failing: "outcome_status (run_node 1 sample_host failing_sample 0) = Some RS_failed"
  by code_simp

lemma sample_run_obtain:
  assumes "outcome_status (run_node (Suc n) sample_host i 0) = Some st"
  obtains r t where "run_node_with sample_host (run_node n sample_host) i 0 = Some (r, t)" "xr_status r = st"
  using assms by (auto simp: outcome_status_def)

lemmas plain_run = sample_run_obtain[OF sample_plain[unfolded One_nat_def]]
  and failing_run = sample_run_obtain[OF sample_failing[unfolded One_nat_def]]

lemma sample_run_simps [simp]:
  "run_work_order plain_sample = toolless_work_order" "run_work_order failing_sample = toolless_work_order"
  "run_node_contract plain_sample = sample_leaf" "run_node_contract failing_sample = sample_leaf"
  "en_expectedOutputs (ru_envelope plain_sample) = build_expected_outputs sample_host toolless_work_order"
  "ru_nodeRunId plain_sample = None" "ru_childDelegation plain_sample = None" "ru_aggregation plain_sample = None"
  by (simp_all add: plain_sample_def failing_sample_def sample_run_def sample_envelope_def)

section \<open>Properties\<close>

text \<open>
  C1: whatever the node, its callbacks and its children do, the transitions of a run that returns are a
  path of the life cycle from \<open>created\<close> to the reported final state, and that state is the one its
  result status stands for.
\<close>

theorem run_follows_lifecycle:
  assumes "run_node_with h rec i tick = Some (r, t)"
  shows "successively lifecycle (map ts_state (xr_stateTransitions r))
    \<and> xr_stateTransitions r \<noteq> []
    \<and> ts_state (hd (xr_stateTransitions r)) = ST_created
    \<and> ts_state (last (xr_stateTransitions r)) = xr_finalState r
    \<and> xr_finalState r = final_state_for (xr_status r)"
  using assms
proof (rule run_cases)
  fix S parts d lg
  assume r: "r = fst (complete_with_report h i (prepare_run h i tick) parts d lg)"
    and p: "on_path S lg" "S \<subseteq> {ST_planning, ST_permission_checking, ST_validating}" "earned h i parts d"
  note nf = earned_not_failed[OF p(3)]
  show ?thesis
    using complete_with_report_path[OF p(1,2) nf, of h i "prepare_run h i tick" parts] settle_report_spec(1)[OF nf, of h i parts lg]
    by (auto simp: r[symmetric] on_path_def log_states_def hd_map last_map)
      (simp add: r complete_with_report_fields)
qed

theorem run_follows_lifecycle_witness:
  "\<exists>r t. run_node_with sample_host (run_node 0 sample_host) plain_sample 0 = Some (r, t)
     \<and> ts_state (last (xr_stateTransitions r)) = ST_completed"
proof -
  obtain r t where "run_node_with sample_host (run_node 0 sample_host) plain_sample 0 = Some (r, t)"
    "xr_status r = RS_completed" by (rule plain_run)
  with run_follows_lifecycle[OF this(1)] show ?thesis by auto
qed

text \<open>
  C2: a node fails for good only after recovery was enabled and its exhaustion check found every
  possible recovery option reviewed and a required criterion still unmet; the report then carries the
  id of a failure report with that exhaustion summary. Every other failure stays a candidate, without
  any failure report.
\<close>

theorem final_failure_needs_exhaustion:
  assumes "run_node_with h rec i tick = Some (r, t)"
  shows "if xr_status r = RS_failed then
      (\<exists>s ex fr. ru_recovery i = Some s \<and> rx_enabled s \<and> xr_exhaustion r = Some ex \<and> xk_complete ex
        \<and> nr_unmetSuccessCriteriaIds (xr_nodeResultReport r) \<noteq> [] \<and> xr_failureReport r = Some fr
        \<and> nr_failureReportId (xr_nodeResultReport r) = Some (fr_failureReportId fr)
        \<and> fr_exhaustionSummary fr = xk_exhaustionSummary ex \<and> fr_untriedOptions fr = xk_untriedOptions ex)
    else xr_failureReport r = None \<and> nr_failureReportId (xr_nodeResultReport r) = None"
  using assms
proof (rule run_cases)
  fix S parts d lg
  assume r: "r = fst (complete_with_report h i (prepare_run h i tick) parts d lg)" and "earned h i parts d"
  then have nf: "rd_status d \<noteq> RS_failed" by (blast dest: earned_not_failed)
  show ?thesis
  proof (cases "xr_status r = RS_failed")
    case True
    then have "vd_status (settle_report h i parts d lg) = RS_failed" by (simp add: r complete_with_report_fields)
    from nf this show ?thesis
      by (rule settle_report_failed) (use True in \<open>simp add: r complete_with_report_fields\<close>)
  next
    case False
    then show ?thesis using settle_report_spec(3)[OF nf, of h i parts lg] by (simp add: r complete_with_report_fields)
  qed
qed

theorem final_failure_needs_exhaustion_witness:
  "\<exists>r t (fr :: failure_report). run_node_with sample_host (run_node 0 sample_host) failing_sample 0 = Some (r, t)
     \<and> xr_status r = RS_failed \<and> nr_failureReportId (xr_nodeResultReport r) = Some (fr_failureReportId fr)"
proof -
  obtain r t where r: "run_node_with sample_host (run_node 0 sample_host) failing_sample 0 = Some (r, t)"
    "xr_status r = RS_failed" by (rule failing_run)
  from final_failure_needs_exhaustion[OF r(1)] r obtain fr :: failure_report where
    "nr_failureReportId (xr_nodeResultReport r) = Some (fr_failureReportId fr)" by auto
  with r show ?thesis by blast
qed

text \<open>
  C3: a run that reports \<open>completed\<close> was admitted and has every required success criterion of its work
  order satisfied in the reported outputs, with and without aggregation, provided the envelope carries
  the expected outputs that its builder makes. Without aggregation no child and no tool left a risk.
\<close>

theorem completed_run_meets_criteria:
  assumes "run_node_with h rec i tick = Some (r, t)" "xr_status r = RS_completed"
    and "en_expectedOutputs (ru_envelope i) = build_expected_outputs h (run_work_order i)"
  shows "admitted i \<and> nr_unmetSuccessCriteriaIds (xr_nodeResultReport r) = []
    \<and> unmet_success_criteria_ids (run_work_order i) (nr_outputs (xr_nodeResultReport r)) = []
    \<and> (ru_aggregation i = None \<longrightarrow> child_delegation_risk_codes (xr_childDelegation r) = []
        \<and> tool_execution_risk_codes (xr_toolExecution r) = [])"
  using assms(1)
proof (rule run_cases)
  fix S parts d lg
  assume r: "r = fst (complete_with_report h i (prepare_run h i tick) parts d lg)" and e: "earned h i parts d"
    and p: "xr_childDelegation r = pt_childDelegation parts" "xr_toolExecution r = pt_toolExecution parts"
  note nf = earned_not_failed[OF e]
  have st: "rd_status d = RS_completed"
    using assms(2) settle_report_spec(4)[OF nf, of h i parts lg] by (simp add: r complete_with_report_fields)
  from e have "admitted i \<and> unmet_success_criteria_ids (run_work_order i) (rd_outputs d) = []
    \<and> (ru_aggregation i = None \<longrightarrow> child_delegation_risk_codes (pt_childDelegation parts) = []
        \<and> tool_execution_risk_codes (pt_toolExecution parts) = [])"
  proof cases
    case rejected
    then show ?thesis using st by auto
  next
    case (plain eos fd se)
    then have "sd_status (decide_self_execution eos se (normalize_outputs se eos)) = RS_completed"
      "child_delegation_risk_codes (pt_childDelegation parts) = []" "tool_execution_risk_codes (pt_toolExecution parts) = []"
      using st by (auto simp: final_decision_def Let_def split: if_splits)
    then show ?thesis
      using plain(1,2,6) assms(3) unmet_required_covers_criteria by (auto simp: decide_self_execution_completed)
  next
    case (aggregated ao va ag)
    then show ?thesis using st validated_completed by auto
  qed
  then show ?thesis unfolding p by (simp add: r complete_with_report_fields)
qed

theorem completed_run_meets_criteria_witness:
  "\<exists>r t. run_node_with sample_host (run_node 0 sample_host) plain_sample 0 = Some (r, t)
     \<and> unmet_success_criteria_ids toolless_work_order (nr_outputs (xr_nodeResultReport r)) = []"
proof -
  obtain r t where r: "run_node_with sample_host (run_node 0 sample_host) plain_sample 0 = Some (r, t)"
    "xr_status r = RS_completed" by (rule plain_run)
  from completed_run_meets_criteria[OF r] r(1) show ?thesis by auto
qed

lemma denied_not_admitted: "\<not> admitted denied_sample"
  by code_simp

text \<open>The executor, the children, the tools and the aggregation do not enter the log or the review.\<close>

lemma log_override:
  fixes i :: run_input and f co tos ao
  defines "j \<equiv> i\<lparr>ru_selfExecute := f, ru_childDelegation := co, ru_toolExecution := tos, ru_aggregation := ao\<rparr>"
  shows "record_state h j = record_state h i" "record_trace h j = record_trace h i"
  by (simp_all add: j_def fun_eq_iff record_state_def record_trace_def run_node_run_id_def run_component_def)

lemma review_override:
  "review_verdict h (i\<lparr>ru_selfExecute := f, ru_childDelegation := co, ru_toolExecution := tos, ru_aggregation := ao\<rparr>)
     parts opts d lg = review_verdict h i parts opts d lg"
  unfolding review_verdict_def log_override run_review_input_def run_node_run_id_def case_prod_beta by (simp add: Let_def)

text \<open>
  C4: a run that is not admitted, because its input breaks the schema, a permission is missing or the
  authority check denies it, executes nothing: it returns without any child, tool or self result, its
  outcome does not depend on the executor, the children, the tools or the aggregation it was given, and
  it is never reported as completed or partially successful.
\<close>

theorem rejected_run_executes_nothing:
  assumes "\<not> admitted i"
  shows "\<exists>r t. run_node_with h rec i tick = Some (r, t)
    \<and> run_node_with h rec' (i\<lparr>ru_selfExecute := f, ru_childDelegation := co, ru_toolExecution := tos,
        ru_aggregation := ao\<rparr>) tick = Some (r, t)
    \<and> xr_childDelegation r = None \<and> xr_toolExecution r = None \<and> xr_aggregation r = None
    \<and> xr_status r \<in> {RS_failed_candidate, RS_permission_limited, RS_failed}
    \<and> nr_outputs (xr_nodeResultReport r) = missing_outputs (en_expectedOutputs (ru_envelope i))"
proof -
  let ?j = "i\<lparr>ru_selfExecute := f, ru_childDelegation := co, ru_toolExecution := tos, ru_aggregation := ao\<rparr>"
  let ?pr = "prepare_run h i tick"
  from assms admit_run_iff[of h i tick] obtain d lg where rej: "admit_run h i ?pr = Inl (d, lg)"
    by (cases "admit_run h i ?pr") auto
  note facts = admit_run_rejects[OF rej]
  have pr: "prepare_run h ?j tick = ?pr"
    by (simp add: prepare_run_def log_override Let_def)
  have adm: "admit_run h ?j ?pr = Inl (d, lg)"
    unfolding rej[symmetric] by (simp add: admit_run_def log_override rejected_draft_def Let_def)
  have settle: "settle_report h ?j no_parts d lg = settle_report h i no_parts d lg"
    by (simp add: settle_report_def log_override review_override Let_def split: option.split)
  have j: "complete_with_report h ?j ?pr no_parts d lg = complete_with_report h i ?pr no_parts d lg"
    by (simp add: complete_with_report_def settle log_override run_node_run_id_def Let_def)
  obtain r t where rt: "complete_with_report h i ?pr no_parts d lg = (r, t)" by fastforce
  have r: "r = fst (complete_with_report h i ?pr no_parts d lg)" by (simp add: rt)
  have "xr_aggregation r = None"
    by (simp add: r complete_with_report_def no_parts_def Let_def)
  moreover have "xr_status r \<in> {RS_failed_candidate, RS_permission_limited, RS_failed}"
    using facts(2) settle_report_spec(4)[of d h i no_parts lg] by (auto simp: r complete_with_report_fields)
  ultimately show ?thesis
    by (intro exI[of _ r] exI[of _ t])
      (simp add: run_node_with_def Let_def pr adm rej j rt, simp add: r complete_with_report_fields facts(3) no_parts_def)
qed

theorem rejected_run_executes_nothing_witness:
  "\<exists>r t. run_node_with sample_host (run_node 0 sample_host) denied_sample 0 = Some (r, t)
     \<and> run_node_with sample_host (run_node 7 sample_host) (denied_sample\<lparr>ru_selfExecute := Some failing_executor,
        ru_childDelegation := None, ru_toolExecution := None, ru_aggregation := None\<rparr>) 0 = Some (r, t)"
  using rejected_run_executes_nothing[OF denied_not_admitted, where h = sample_host and tick = 0
      and rec = "run_node 0 sample_host" and rec' = "run_node 7 sample_host" and f = "Some failing_executor"
      and co = None and tos = None and ao = None] by blast

text \<open>
  C9: the trace of a run: the events its children returned stand together, and around them the node's
  own events, the tools' included, carry its run id with the numbers 1, 2, 3 and so on without a gap,
  so no two of them share an id.
\<close>

theorem run_trace_numbered:
  assumes "run_node_with h rec i tick = Some (r, t)"
  shows "\<exists>before after. xr_traceEvents r = before @ child_events (xr_childDelegation r) @ after
    \<and> map te_traceEventId (before @ after) =
        map (trace_event_id (run_work_order i) (run_node_run_id i)) [1 ..< 1 + length (before @ after)]
    \<and> distinct (map te_traceEventId (before @ after))"
  using assms
proof (rule run_cases)
  fix S parts d lg
  assume r: "r = fst (complete_with_report h i (prepare_run h i tick) parts d lg)"
    and n: "log_numbered i (child_events (xr_childDelegation r)) lg"
  obtain k where "own_numbering (run_work_order i) (run_node_run_id i) (child_events (xr_childDelegation r)) (xr_traceEvents r) k"
    using complete_with_report_numbered[OF n, of h "prepare_run h i tick" parts d] r by auto
  then obtain before after where b: "xr_traceEvents r = before @ child_events (xr_childDelegation r) @ after"
    "numbered (run_work_order i) (run_node_run_id i) 0 (before @ after)" by (auto simp: own_numbering_def)
  show ?thesis
    by (intro exI[of _ before] exI[of _ after] conjI b(1) numbered_distinct[OF b(2)])
      (use b(2) in \<open>simp add: numbered_def\<close>)
qed

theorem run_trace_numbered_witness:
  "\<exists>r t. run_node_with sample_host (run_node 0 sample_host) plain_sample 0 = Some (r, t)
     \<and> (\<exists>before after. xr_traceEvents r = before @ child_events (xr_childDelegation r) @ after
        \<and> distinct (map te_traceEventId (before @ after)))"
proof -
  obtain r t where r: "run_node_with sample_host (run_node 0 sample_host) plain_sample 0 = Some (r, t)"
    "xr_status r = RS_completed" by (rule plain_run)
  from run_trace_numbered[OF r(1)] r(1) show ?thesis by blast
qed

text \<open>
  C8: the report of every run on a well-formed work order passes the runtime validator of node result
  reports, final failures included: the failure report id the validator demands is always there.
\<close>

theorem run_report_accepted:
  assumes "run_node_with h rec i tick = Some (r, t)"
    and "work_order_ok (run_work_order i)" "non_blank (be_id (run_node_contract i))" "non_blank (run_node_run_id i)"
  shows "validate_node_result_report (json_of_result_report (xr_nodeResultReport r)) = []"
  using assms(1)
proof (rule run_cases)
  fix S parts d lg
  assume r: "r = fst (complete_with_report h i (prepare_run h i tick) parts d lg)" and "earned h i parts d"
  then have nf: "rd_status d \<noteq> RS_failed" by (blast dest: earned_not_failed)
  have failed: "\<exists>f. nr_failureReportId (xr_nodeResultReport r) = Some f \<and> non_blank f"
    if "nr_status (xr_nodeResultReport r) = RS_failed"
  proof -
    have "vd_status (settle_report h i parts d lg) = RS_failed" using that by (simp add: r complete_with_report_fields)
    with nf show ?thesis
      by (rule settle_report_failed) (simp add: r complete_with_report_fields non_blank_iff js_ws_def)
  qed
  show ?thesis
    unfolding validate_result_report_iff using failed assms(2-4)
    by (simp add: r complete_with_report_def create_node_result_report_def prepare_run_fields work_order_ok_def
        clock_time_def timestamp_ok_def non_blank_iff[of "''node-result:'' @ _"] js_ws_def Let_def)
qed

theorem run_report_accepted_witness:
  "\<exists>r t. run_node_with sample_host (run_node 0 sample_host) failing_sample 0 = Some (r, t) \<and> xr_status r = RS_failed
     \<and> validate_node_result_report (json_of_result_report (xr_nodeResultReport r)) = []"
proof -
  obtain r t where r: "run_node_with sample_host (run_node 0 sample_host) failing_sample 0 = Some (r, t)"
    "xr_status r = RS_failed" by (rule failing_run)
  have "work_order_ok toolless_work_order" "non_blank (be_id sample_leaf)"
    by (simp_all add: work_order_ok_def toolless_work_order_def sample_work_order_def sample_leaf_def sample_node_def
        criterion_ok_def timestamp_ok_def non_blank_iff js_ws_def)
  with run_report_accepted[OF r(1)] r show ?thesis
    by (auto simp: run_node_run_id_def failing_sample_def plain_sample_def sample_run_def sample_envelope_def
        non_blank_iff js_ws_def)
qed

text \<open>
  without aggregation a parent never passes over a failed child: if a dispatched child is a failure
  candidate, an admitted parent reports a failure candidate (or, after exhaustion, a final failure) and
  says in its risks that the child's failure is held.
\<close>

lemma child_failure_held:
  assumes "run_node_with h rec i tick = Some (r, t)" "ru_aggregation i = None"
    and "xr_childDelegation r = Some sm" "c \<in> set (sm_failureCandidateResults sm)"
  shows "xr_status r \<in> {RS_failed_candidate, RS_failed}
    \<and> ''child_failure_held_for_parent_exhaustion'' \<in> set (nr_risksOrGaps (xr_nodeResultReport r))"
  using assms(1)
proof (rule run_cases)
  fix S parts d lg
  assume r: "r = fst (complete_with_report h i (prepare_run h i tick) parts d lg)" and e: "earned h i parts d"
    and p: "xr_childDelegation r = pt_childDelegation parts"
  note nf = earned_not_failed[OF e]
  have risks: "child_delegation_risk_codes (pt_childDelegation parts) \<noteq> []"
    using assms(3,4) unfolding p[symmetric]
    by (auto simp: child_delegation_risk_codes_def filter_empty_conv non_blank_iff js_ws_def intro!: bexI[of _ c])
  from e have "rd_status d = RS_failed_candidate
    \<and> ''child_failure_held_for_parent_exhaustion'' \<in> set (rd_risksOrGaps d)"
  proof cases
    case rejected
    then show ?thesis using assms(3) by (simp add: p no_parts_def)
  next
    case (plain eos fd se)
    then show ?thesis using risks by (auto simp: final_decision_def Let_def)
  next
    case aggregated
    then show ?thesis using assms(2) by simp
  qed
  then show ?thesis
    using settle_report_spec(4,5)[OF nf, of h i parts lg] by (auto simp: r complete_with_report_fields)
qed

text \<open>A parent that delegates to a child whose contract nobody supplied.\<close>

definition orphan_sample :: run_input where
  "orphan_sample = (sample_run toolless_work_order (sample_node ''node:a'' [''node:b''] [] [])
     (leaf_topology\<lparr>tp_nodes := [sample_node ''node:a'' [''node:b''] [] [], sample_node ''node:b'' [] [] []]\<rparr>))
     \<lparr>ru_childDelegation := Some (sample_child_options [])\<rparr>"

definition failed_children :: "run_outcome \<Rightarrow> nat" where
  "failed_children x = (case x of None \<Rightarrow> 0
     | Some (r, _) \<Rightarrow> (case xr_childDelegation r of None \<Rightarrow> 0 | Some sm \<Rightarrow> length (sm_failureCandidateResults sm)))"

lemma sample_orphan: "failed_children (run_node_with sample_host (run_node 0 sample_host) orphan_sample 0) = 1"
  by code_simp

lemma child_failure_held_witness:
  "\<exists>r t. run_node_with sample_host (run_node 0 sample_host) orphan_sample 0 = Some (r, t)
     \<and> xr_status r \<in> {RS_failed_candidate, RS_failed}"
proof -
  from sample_orphan obtain r t sm where r: "run_node_with sample_host (run_node 0 sample_host) orphan_sample 0 = Some (r, t)"
    "xr_childDelegation r = Some sm" "length (sm_failureCandidateResults sm) = 1"
    by (auto simp: failed_children_def split: option.splits)
  then obtain c where "c \<in> set (sm_failureCandidateResults sm)" by (cases "sm_failureCandidateResults sm") auto
  with child_failure_held[OF r(1) _ r(2)] r(1) show ?thesis
    by (auto simp: orphan_sample_def sample_run_def)
qed

text \<open>
  C6: delegation returns. With node ids that carry the \<open>node:\<close> prefix, no node delegating to itself, the
  default child runner, and a self executor and tools that return, fuel of the depth limit plus three is
  enough for any run of a work order addressed to its node, however deep or cyclic the delegation graph;
  and any greater fuel gives the same result.
\<close>

theorem run_node_returns:
  assumes "index_consistent (ru_compiledTopologySnapshot i)" "ids_prefixed (ru_compiledTopologySnapshot i)"
    and "no_self_edges (ru_compiledTopologySnapshot i)"
    and "callbacks_return h i" "own_delegation M i" "addressed i"
  shows "\<exists>r t. run_node (normalized_max_depth M + 3) h i tick = Some (r, t)
    \<and> (\<forall>k. run_node (normalized_max_depth M + 3 + k) h i tick = Some (r, t))"
proof -
  have "run_node (normalized_max_depth M + 3) h i tick \<noteq> None"
    by (rule run_node_total[OF assms(1-3) assms(4-6) refl]) simp_all
  then obtain r t where "run_node (normalized_max_depth M + 3) h i tick = Some (r, t)" by auto
  with run_node_mono show ?thesis by blast
qed

theorem run_node_returns_witness:
  "\<exists>r t. run_node (normalized_max_depth None + 3) sample_host delegating_sample 0 = Some (r, t)"
proof -
  have "callbacks_return sample_host delegating_sample" "own_delegation None delegating_sample"
    "ru_compiledTopologySnapshot delegating_sample = compiled_snapshot ''s'' prefixed_topology"
    by (simp_all add: callbacks_return_def run_self_def run_tools_def delegating_sample_def sample_run_def
        own_delegation_def sample_child_options_def)
  moreover have "addressed delegating_sample"
    by (simp add: addressed_def delegating_sample_def sample_run_def sample_envelope_def toolless_work_order_def
        sample_work_order_def sample_parent_def sample_node_def path_ends_at_target_def node_path_def starts_with_def)
  ultimately show ?thesis
    using run_node_returns[of delegating_sample sample_host None 0] compiled_index_consistent prefixed_sample(1)
      no_self_edgesI[OF prefixed_sample(2)] by metis
qed

end
