(* ===== verification/Run_Recovery.thy ===== *)
theory Run_Recovery
  imports Prelude "HOL-Library.List_Lexorder" "HOL-Library.Char_ord"
begin

text \<open>
  Failure reasons of a run and the choice of the next recovery strategy
  (\<open>runs/execution-policy.ts\<close>, \<open>terminal-failure-guard.ts\<close>,
  \<open>recovery-strategy-ledger.ts\<close> and \<open>recovery-controller.ts\<close> under
  \<open>src/packages/core/src\<close>).

  A reason is the string the code compares. A strategy is identified by its fingerprint, the
  \<open>JSON.stringify\<close> text of selected fields, which is written out and shown to determine them.
  The ledger records one attempt per scope and fingerprint; the controller walks the safe
  alternatives of a node and takes the first one the ledger does not hold yet.
\<close>

section \<open>Failure reasons\<close>

definition TERMINAL_FAILURE_REASONS :: "string list" where
  "TERMINAL_FAILURE_REASONS =
    [''no_safe_alternative'', ''privacy_or_permission_boundary'', ''permission_required'',
     ''out_of_scope'', ''external_system_unavailable_without_alternative'',
     ''cancelled_by_user'', ''explicit_user_limit_reached'', ''manual_approval_required'']"

definition NON_TERMINAL_RECOVERY_REASONS :: "string list" where
  "NON_TERMINAL_RECOVERY_REASONS =
    [''model_timeout'', ''boundary_timeout'', ''tool_failed'', ''path_not_found'',
     ''target_busy'', ''rate_limited'', ''queue_backpressure'', ''count_signal_observed'',
     ''same_strategy_rejected'', ''strategy_change_required'', ''missing_input'',
     ''verification_failed'']"

definition COUNT_BASED_FAILURE_SIGNAL_REASONS :: "string list" where
  "COUNT_BASED_FAILURE_SIGNAL_REASONS =
    [''retry_exhausted'', ''max_attempts_reached'', ''retry_budget_exhausted'',
     ''delegation_turns_exhausted'', ''too_many_failures'']"

definition boundary_timeout_reasons :: "string list" where
  "boundary_timeout_reasons =
    [''boundary_timeout'', ''queue_timeout'', ''external_tool_timeout'', ''approval_timeout'',
     ''network_timeout'']"

datatype normalized_reason =
    NR_terminal string
  | NR_recovery_signal string (nr_original: string)

definition is_terminal_failure_reason :: "string \<Rightarrow> bool" where
  "is_terminal_failure_reason r \<longleftrightarrow> r \<in> set TERMINAL_FAILURE_REASONS"

definition is_count_based_reason :: "string \<Rightarrow> bool" where
  "is_count_based_reason r \<longleftrightarrow> r \<in> set COUNT_BASED_FAILURE_SIGNAL_REASONS"

definition normalize_failure_reason :: "string \<Rightarrow> bool option \<Rightarrow> normalized_reason" where
  "normalize_failure_reason reason0 explicitUserLimit =
    (let reason = js_trim reason0 in
     if is_count_based_reason reason then
       if explicitUserLimit = Some True then NR_terminal ''explicit_user_limit_reached''
       else NR_recovery_signal ''count_signal_observed'' reason
     else if reason \<in> set boundary_timeout_reasons then
       NR_recovery_signal ''boundary_timeout'' reason
     else if reason \<in> set NON_TERMINAL_RECOVERY_REASONS then
       NR_recovery_signal reason reason
     else if reason = ''cancelled'' \<or> reason = ''user_cancelled'' then
       NR_terminal ''cancelled_by_user''
     else if is_terminal_failure_reason reason then NR_terminal reason
     else NR_recovery_signal ''strategy_change_required''
       (if reason \<noteq> [] then reason else ''unknown''))"

text \<open>\<open>guardTerminalFailure\<close> answers with the terminal reason or with the recovery signal;
  \<open>assertTerminalFailureAllowed\<close> throws in the second case.\<close>

definition guard_terminal_failure :: "string \<Rightarrow> bool option \<Rightarrow> (string \<times> string) + string" where
  "guard_terminal_failure reason explicitUserLimit =
    (case normalize_failure_reason reason explicitUserLimit of
      NR_terminal r \<Rightarrow> Inr r
    | NR_recovery_signal r orig \<Rightarrow> Inl (r, orig))"

definition assert_terminal_failure_allowed :: "string \<Rightarrow> bool option \<Rightarrow> string + string" where
  "assert_terminal_failure_allowed reason explicitUserLimit =
    (case guard_terminal_failure reason explicitUserLimit of
      Inr r \<Rightarrow> Inr r
    | Inl (r, orig) \<Rightarrow> Inl (''terminal failure rejected: '' @ orig @ '' -> '' @ r))"

text \<open>The policy a plan starts with: no count limits, queueing for load, and the safety stops.\<close>

datatype count_limit = CL_unbounded | CL_explicit int bool

record execution_policy =
  py_retryAttempts :: count_limit
  py_delegationTurns :: count_limit
  py_concurrency :: string
  py_rateLimit :: string
  py_queueBackpressure :: string
  py_privacy :: string
  py_permission :: string
  py_destructiveAction :: string
  py_outOfScope :: string

definition create_default_execution_policy :: execution_policy where
  "create_default_execution_policy = \<lparr>py_retryAttempts = CL_unbounded, py_delegationTurns = CL_unbounded,
     py_concurrency = ''queue'', py_rateLimit = ''wait'', py_queueBackpressure = ''queue'',
     py_privacy = ''stop_for_confirmation'', py_permission = ''stop_for_confirmation'',
     py_destructiveAction = ''stop_for_confirmation'', py_outOfScope = ''stop''\<rparr>"

lemmas reason_defs = TERMINAL_FAILURE_REASONS_def NON_TERMINAL_RECOVERY_REASONS_def
  COUNT_BASED_FAILURE_SIGNAL_REASONS_def boundary_timeout_reasons_def
  is_terminal_failure_reason_def is_count_based_reason_def

lemma normalize_terminal_iff:
  "normalize_failure_reason reason ulim = NR_terminal r \<longleftrightarrow>
     (let t = js_trim reason in
      r = ''explicit_user_limit_reached'' \<and> t \<in> set COUNT_BASED_FAILURE_SIGNAL_REASONS \<and> ulim = Some True
      \<or> r = ''cancelled_by_user'' \<and> t \<in> {''cancelled'', ''user_cancelled''}
      \<or> r = t \<and> t \<in> set TERMINAL_FAILURE_REASONS)"
  unfolding normalize_failure_reason_def Let_def
  by (auto simp: reason_defs split: if_splits)

lemma normalize_recovery_range:
  "normalize_failure_reason reason ulim = NR_recovery_signal r orig \<Longrightarrow>
     r \<in> set NON_TERMINAL_RECOVERY_REASONS \<and> orig \<noteq> []"
  unfolding normalize_failure_reason_def Let_def
  by (auto simp: reason_defs split: if_splits)

lemma normalize_terminal_range:
  "normalize_failure_reason reason ulim = NR_terminal r \<Longrightarrow> r \<in> set TERMINAL_FAILURE_REASONS"
  by (auto simp: normalize_terminal_iff Let_def TERMINAL_FAILURE_REASONS_def)

lemma reasons_disjoint:
  "set TERMINAL_FAILURE_REASONS \<inter> set NON_TERMINAL_RECOVERY_REASONS = {}"
  by (simp add: reason_defs)

section \<open>Fingerprint text\<close>

text \<open>\<open>JSON.stringify\<close> of a string, of an array of strings, and of an object whose member
  values are given as texts.\<close>

definition hex_digit :: "nat \<Rightarrow> char" where
  "hex_digit n = (if n < 10 then char_of (48 + n) else char_of (87 + n))"

definition json_escape_char :: "char \<Rightarrow> string" where
  "json_escape_char c =
    (let n = (of_char c :: nat) in
     if n = 34 \<or> n = 92 then [CHR 0x5C, c]
     else if n = 8 then [CHR 0x5C, CHR ''b'']
     else if n = 9 then [CHR 0x5C, CHR ''t'']
     else if n = 10 then [CHR 0x5C, CHR ''n'']
     else if n = 12 then [CHR 0x5C, CHR ''f'']
     else if n = 13 then [CHR 0x5C, CHR ''r'']
     else if n < 32 then [CHR 0x5C, CHR ''u'', CHR ''0'', CHR ''0'', hex_digit (n div 16), hex_digit (n mod 16)]
     else [c])"

fun json_escape :: "string \<Rightarrow> string" where
  "json_escape [] = []"
| "json_escape (c # cs) = json_escape_char c @ json_escape cs"

definition json_quote :: "string \<Rightarrow> string" where
  "json_quote s = CHR 0x22 # json_escape s @ [CHR 0x22]"

definition json_string_array :: "string list \<Rightarrow> string" where
  "json_string_array xs = ''['' @ join '','' (map json_quote xs) @ '']''"

definition json_object :: "(string \<times> string) list \<Rightarrow> string" where
  "json_object members = ''{'' @ join '','' (map (\<lambda>(k, t). json_quote k @ '':'' @ t) members) @ ''}''"

text \<open>Reading one character back shows that the escapes form a prefix code.\<close>

definition hex_value :: "char \<Rightarrow> nat" where
  "hex_value c = (let n = of_char c in if n < 58 then n - 48 else n - 87)"

definition json_read_char :: "string \<Rightarrow> char \<times> string" where
  "json_read_char s =
    (let c = hd s; d = (of_char (s ! 1) :: nat) in
     if (of_char c :: nat) \<noteq> 92 then (c, tl s)
     else if d = 98 then (char_of (8 :: nat), drop 2 s)
     else if d = 116 then (char_of (9 :: nat), drop 2 s)
     else if d = 110 then (char_of (10 :: nat), drop 2 s)
     else if d = 102 then (char_of (12 :: nat), drop 2 s)
     else if d = 114 then (char_of (13 :: nat), drop 2 s)
     else if d = 117 then (char_of (16 * hex_value (s ! 4) + hex_value (s ! 5)), drop 6 s)
     else (s ! 1, drop 2 s))"

lemma hex_value_digit: "n < 16 \<Longrightarrow> hex_value (hex_digit n) = n"
  by (simp add: hex_value_def hex_digit_def of_char_of)

lemma hex_value_char:
  "16 * hex_value (hex_digit (of_char c div 16)) + hex_value (hex_digit (of_char c mod 16)) = of_char c"
  if "(of_char c :: nat) < 32"
  using that by (simp add: hex_value_digit)

lemma char_of_char_eq: "(of_char c :: nat) = n \<Longrightarrow> c = char_of n"
  by auto

lemma json_read_char_escape: "json_read_char (json_escape_char c @ xs) = (c, xs)"
proof -
  consider (quoted) "(of_char c :: nat) \<in> {34, 92}" | (short) "(of_char c :: nat) \<in> {8, 9, 10, 12, 13}"
    | (long) "(of_char c :: nat) < 32" "(of_char c :: nat) \<notin> {8, 9, 10, 12, 13}"
    | (plain) "(of_char c :: nat) \<ge> 32" "(of_char c :: nat) \<notin> {34, 92}"
    by fastforce
  then show ?thesis
  proof cases
    case quoted
    then show ?thesis by (auto simp: json_escape_char_def json_read_char_def)
  next
    case short
    then show ?thesis by (auto simp: json_escape_char_def json_read_char_def dest: char_of_char_eq)
  next
    case long
    then have "json_escape_char c = [CHR 0x5C, CHR ''u'', CHR ''0'', CHR ''0'',
        hex_digit (of_char c div 16), hex_digit (of_char c mod 16)]"
      by (simp add: json_escape_char_def Let_def)
    with long show ?thesis by (simp add: json_read_char_def hex_value_char)
  next
    case plain
    then show ?thesis by (simp add: json_escape_char_def json_read_char_def)
  qed
qed

lemma json_escape_char_prefix:
  "json_escape_char c @ xs = json_escape_char d @ ys \<longleftrightarrow> c = d \<and> xs = ys"
  by (metis json_read_char_escape prod.inject)

lemma json_escape_char_head:
  "\<exists>x r. json_escape_char c = x # r \<and> x \<noteq> CHR 0x22"
proof (cases "(of_char c :: nat) = 34")
  case True
  then show ?thesis by (simp add: json_escape_char_def)
next
  case False
  then have "c \<noteq> CHR 0x22" by auto
  then show ?thesis by (simp add: json_escape_char_def Let_def)
qed

lemma json_escape_prefix:
  "json_escape s @ CHR 0x22 # xs = json_escape t @ CHR 0x22 # ys \<longleftrightarrow> s = t \<and> xs = ys"
proof (induction s arbitrary: t)
  case Nil
  show ?case
  proof (cases t)
    case (Cons d t')
    with json_escape_char_head[of d] show ?thesis by auto
  qed simp
next
  case (Cons c s)
  show ?case
  proof (cases t)
    case Nil
    with json_escape_char_head[of c] show ?thesis by auto
  next
    case (Cons d t')
    then show ?thesis by (simp add: json_escape_char_prefix Cons.IH)
  qed
qed

lemma json_quote_prefix: "json_quote s @ xs = json_quote t @ ys \<longleftrightarrow> s = t \<and> xs = ys"
  by (simp add: json_quote_def json_escape_prefix)

lemma json_quote_inject: "json_quote s = json_quote t \<longleftrightarrow> s = t"
  using json_quote_prefix[of s "[]" t "[]"] by simp

lemma join_Cons: "join sep (x # xs) = (if xs = [] then x else x @ sep @ join sep xs)"
  by (cases xs) simp_all

lemma json_strings_prefix:
  "join '','' (map json_quote xs) @ '']'' @ r = join '','' (map json_quote ys) @ '']'' @ r'
    \<longleftrightarrow> xs = ys \<and> r = r'"
proof (induction xs arbitrary: ys)
  case Nil
  show ?case by (cases ys) (auto simp: join_Cons json_quote_def)
next
  case (Cons x xs)
  show ?case
  proof (cases ys)
    case Nil
    then show ?thesis by (auto simp: join_Cons json_quote_def)
  next
    case (Cons y ys')
    from Cons.IH[of ys'] show ?thesis
      by (cases xs; cases ys') (auto simp: \<open>ys = y # ys'\<close> json_quote_prefix json_quote_inject)
  qed
qed

lemma json_string_array_prefix:
  "json_string_array xs @ r = json_string_array ys @ r' \<longleftrightarrow> xs = ys \<and> r = r'"
  using json_strings_prefix[of xs r ys r'] by (simp add: json_string_array_def)

section \<open>Strategies and the ledger\<close>

record strategy_key =
  sk_targetRoute :: string
  sk_targetAgentId :: "string option"
  sk_executorId :: "string option"
  sk_toolIds :: "string list"
  sk_sourceIds :: "string list option"
  sk_inputShapeHash :: string
  sk_promptContextHash :: "string option"
  sk_normalizedTaskHash :: string
  sk_decompositionHash :: "string option"
  sk_workingDirectory :: "string option"
  sk_fileTargets :: "string list"
  sk_permissionProfile :: string
  sk_userConfirmationState :: "string option"
  sk_executionOrderHash :: string
  sk_verificationMethod :: string

record strategy_attempt =
  sa_attemptId :: "string option"
  sa_scopeId :: string
  sa_key :: strategy_key
  sa_reason :: string
  sa_accepted :: "bool option"
  sa_createdAt :: int

type_synonym strategy_ledger = "strategy_attempt list"

text \<open>\<open>key.executorId ?? key.targetAgentId ?? key.targetRoute\<close>, and the permission text.\<close>

definition strategy_executor :: "strategy_key \<Rightarrow> string" where
  "strategy_executor key =
    opt_or (sk_executorId key) (opt_or (sk_targetAgentId key) (sk_targetRoute key))"

definition strategy_permission :: "strategy_key \<Rightarrow> string" where
  "strategy_permission key =
    sk_permissionProfile key @ '':'' @ opt_or (sk_userConfirmationState key) ''''"

definition strategy_sources :: "strategy_key \<Rightarrow> string list" where
  "strategy_sources key = sk_toolIds key @ opt_or (sk_sourceIds key) []"

text \<open>\<open>.sort()\<close> without a comparator orders strings by code units.\<close>

definition recovery_strategy_fingerprint :: "strategy_key \<Rightarrow> string" where
  "recovery_strategy_fingerprint key = json_object
    [(''executor'', json_quote (strategy_executor key)),
     (''targetRoute'', json_quote (sk_targetRoute key)),
     (''targetAgentId'', json_quote (opt_or (sk_targetAgentId key) '''')),
     (''toolOrSourceIds'', json_string_array (sort (strategy_sources key))),
     (''promptContextHash'', json_quote (opt_or (sk_promptContextHash key) (sk_inputShapeHash key))),
     (''decompositionHash'', json_quote (opt_or (sk_decompositionHash key) (sk_normalizedTaskHash key))),
     (''workingDirectory'', json_quote (opt_or (sk_workingDirectory key) '''')),
     (''fileTargets'', json_string_array (sort (sk_fileTargets key))),
     (''permissionOrUserConfirmation'', json_quote (strategy_permission key)),
     (''executionOrderHash'', json_quote (sk_executionOrderHash key)),
     (''verificationMethod'', json_quote (sk_verificationMethod key))]"

definition has_recovery_strategy_attempt :: "strategy_ledger \<Rightarrow> string \<Rightarrow> strategy_key \<Rightarrow> bool" where
  "has_recovery_strategy_attempt ledger scopeId key =
    (let fingerprint = recovery_strategy_fingerprint key in
     list_ex (\<lambda>a. sa_scopeId a = scopeId \<and> recovery_strategy_fingerprint (sa_key a) = fingerprint) ledger)"

definition record_recovery_strategy_attempt ::
  "strategy_ledger \<Rightarrow> string \<Rightarrow> strategy_key \<Rightarrow> string \<Rightarrow> int \<Rightarrow> bool \<times> strategy_ledger" where
  "record_recovery_strategy_attempt ledger scopeId key reason now =
    (if has_recovery_strategy_attempt ledger scopeId key then (False, ledger)
     else (True, ledger @ [\<lparr>sa_attemptId = None, sa_scopeId = scopeId, sa_key = key, sa_reason = reason,
       sa_accepted = None, sa_createdAt = now\<rparr>]))"

text \<open>Two strategies are the same exactly when they agree in everything that makes up the text.\<close>

definition same_strategy :: "strategy_key \<Rightarrow> strategy_key \<Rightarrow> bool" where
  "same_strategy j k \<longleftrightarrow>
    strategy_executor j = strategy_executor k
    \<and> sk_targetRoute j = sk_targetRoute k
    \<and> opt_or (sk_targetAgentId j) '''' = opt_or (sk_targetAgentId k) ''''
    \<and> mset (strategy_sources j) = mset (strategy_sources k)
    \<and> opt_or (sk_promptContextHash j) (sk_inputShapeHash j) = opt_or (sk_promptContextHash k) (sk_inputShapeHash k)
    \<and> opt_or (sk_decompositionHash j) (sk_normalizedTaskHash j) = opt_or (sk_decompositionHash k) (sk_normalizedTaskHash k)
    \<and> opt_or (sk_workingDirectory j) '''' = opt_or (sk_workingDirectory k) ''''
    \<and> mset (sk_fileTargets j) = mset (sk_fileTargets k)
    \<and> strategy_permission j = strategy_permission k
    \<and> sk_executionOrderHash j = sk_executionOrderHash k
    \<and> sk_verificationMethod j = sk_verificationMethod k"

lemma sort_eq_iff: "sort xs = sort ys \<longleftrightarrow> mset xs = mset (ys :: 'a :: linorder list)"
  by (metis mset_sort properties_for_sort sorted_sort)

lemma fingerprint_eq_iff:
  "recovery_strategy_fingerprint j = recovery_strategy_fingerprint k \<longleftrightarrow> same_strategy j k"
  unfolding recovery_strategy_fingerprint_def json_object_def same_strategy_def
  by (simp add: json_quote_prefix json_quote_inject json_string_array_prefix sort_eq_iff)

lemma has_attempt_iff:
  "has_recovery_strategy_attempt ledger scopeId key \<longleftrightarrow>
     (\<exists>a \<in> set ledger. sa_scopeId a = scopeId \<and> same_strategy (sa_key a) key)"
  by (auto simp: has_recovery_strategy_attempt_def list_ex_iff fingerprint_eq_iff)

section \<open>The recovery controller\<close>

datatype changed_dimension = CD_target | CD_tool | CD_input_shape | CD_path | CD_permission
  | CD_execution_order | CD_task_split | CD_verification | CD_fallback_route

fun changed_dimension_text :: "changed_dimension \<Rightarrow> string" where
  "changed_dimension_text CD_target = ''target''"
| "changed_dimension_text CD_tool = ''tool''"
| "changed_dimension_text CD_input_shape = ''input_shape''"
| "changed_dimension_text CD_path = ''path''"
| "changed_dimension_text CD_permission = ''permission''"
| "changed_dimension_text CD_execution_order = ''execution_order''"
| "changed_dimension_text CD_task_split = ''task_split''"
| "changed_dimension_text CD_verification = ''verification''"
| "changed_dimension_text CD_fallback_route = ''fallback_route''"

record recovery_alternative =
  ra_alternativeId :: string
  ra_title :: string
  ra_changedDimension :: changed_dimension
  ra_description :: string

definition reroute_key :: "strategy_key \<Rightarrow> recovery_alternative \<Rightarrow> strategy_key" where
  "reroute_key base alt = base\<lparr>
     sk_targetRoute := sk_targetRoute base @ '':'' @ changed_dimension_text (ra_changedDimension alt)
       @ '':'' @ ra_alternativeId alt,
     sk_executorId := Some (strategy_executor base @ '':'' @ ra_alternativeId alt)\<rparr>"

fun strategy_key_for_alternative :: "strategy_key \<Rightarrow> recovery_alternative \<Rightarrow> strategy_key" where
  "strategy_key_for_alternative base alt =
    (let suffix = ra_alternativeId alt in
     case ra_changedDimension alt of
       CD_target \<Rightarrow> reroute_key base alt
     | CD_fallback_route \<Rightarrow> reroute_key base alt
     | CD_path \<Rightarrow> reroute_key base alt
     | CD_tool \<Rightarrow> base\<lparr>sk_toolIds := sk_toolIds base @ [suffix],
         sk_sourceIds := Some (opt_or (sk_sourceIds base) [] @ [suffix])\<rparr>
     | CD_input_shape \<Rightarrow> base\<lparr>sk_inputShapeHash := sk_inputShapeHash base @ '':'' @ suffix,
         sk_promptContextHash := Some (opt_or (sk_promptContextHash base) (sk_inputShapeHash base) @ '':'' @ suffix)\<rparr>
     | CD_permission \<Rightarrow> base\<lparr>sk_permissionProfile := sk_permissionProfile base @ '':'' @ suffix,
         sk_userConfirmationState := Some (opt_or (sk_userConfirmationState base) ''none'' @ '':'' @ suffix)\<rparr>
     | CD_execution_order \<Rightarrow> base\<lparr>sk_executionOrderHash := sk_executionOrderHash base @ '':'' @ suffix\<rparr>
     | CD_task_split \<Rightarrow> base\<lparr>sk_normalizedTaskHash := sk_normalizedTaskHash base @ '':'' @ suffix,
         sk_decompositionHash := Some (opt_or (sk_decompositionHash base) (sk_normalizedTaskHash base) @ '':'' @ suffix)\<rparr>
     | CD_verification \<Rightarrow> base\<lparr>sk_verificationMethod := sk_verificationMethod base @ '':'' @ suffix\<rparr>)"

declare strategy_key_for_alternative.simps [simp del]

datatype recovery_decision =
    RD_cancelled
  | RD_waiting_for_user string
  | RD_strategy_selected string recovery_alternative strategy_key
  | RD_no_safe_alternative string "string option"

record choose_input =
  ch_safeAlternatives :: "recovery_alternative list"
  ch_scopeId :: string
  ch_failureReason :: string
  ch_baseStrategyKey :: strategy_key
  ch_explicitUserLimit :: "bool option"
  ch_cancelled :: "bool option"
  ch_now :: int

text \<open>The loop over the safe alternatives, with the ledger threaded through.\<close>

fun try_alternatives ::
  "choose_input \<Rightarrow> string \<Rightarrow> recovery_alternative list \<Rightarrow> strategy_ledger \<Rightarrow> recovery_decision \<times> strategy_ledger" where
  "try_alternatives i reason [] ledger =
    (RD_no_safe_alternative ''no_safe_alternative'' (Some reason), ledger)"
| "try_alternatives i reason (alt # alts) ledger =
    (let key = strategy_key_for_alternative (ch_baseStrategyKey i) alt in
     case record_recovery_strategy_attempt ledger (ch_scopeId i) key reason (ch_now i) of
       (accepted, ledger') \<Rightarrow>
         if \<not> accepted then try_alternatives i reason alts ledger'
         else (RD_strategy_selected reason alt key, ledger'))"

text \<open>The terminal reasons that wait for the user, and those reported as they are.\<close>

definition user_decision_reasons :: "string list" where
  "user_decision_reasons =
    [''privacy_or_permission_boundary'', ''permission_required'', ''manual_approval_required'']"

definition reported_reasons :: "string list" where
  "reported_reasons =
    [''out_of_scope'', ''external_system_unavailable_without_alternative'', ''no_safe_alternative'']"

definition choose_recovery_alternative :: "choose_input \<Rightarrow> strategy_ledger \<Rightarrow> recovery_decision \<times> strategy_ledger" where
  "choose_recovery_alternative i ledger =
    (if ch_cancelled i = Some True then (RD_cancelled, ledger)
     else case normalize_failure_reason (ch_failureReason i) (ch_explicitUserLimit i) of
       NR_terminal reason \<Rightarrow>
         if reason \<in> set user_decision_reasons then (RD_waiting_for_user reason, ledger)
         else (RD_no_safe_alternative
           (if reason \<in> set reported_reasons then reason else ''no_safe_alternative'') None, ledger)
     | NR_recovery_signal reason orig \<Rightarrow> try_alternatives i reason (ch_safeAlternatives i) ledger)"

section \<open>What the controller does\<close>

text \<open>One attempt is identified by its scope and the fingerprint of its strategy.\<close>

definition attempt_identity :: "strategy_attempt \<Rightarrow> string \<times> string" where
  "attempt_identity a = (sa_scopeId a, recovery_strategy_fingerprint (sa_key a))"

definition ledger_unique :: "strategy_ledger \<Rightarrow> bool" where
  "ledger_unique ledger \<longleftrightarrow> distinct (map attempt_identity ledger)"

definition new_attempt :: "choose_input \<Rightarrow> string \<Rightarrow> strategy_key \<Rightarrow> strategy_attempt" where
  "new_attempt i reason key = \<lparr>sa_attemptId = None, sa_scopeId = ch_scopeId i, sa_key = key,
     sa_reason = reason, sa_accepted = None, sa_createdAt = ch_now i\<rparr>"

definition untried :: "choose_input \<Rightarrow> strategy_ledger \<Rightarrow> recovery_alternative \<Rightarrow> bool" where
  "untried i ledger alt \<longleftrightarrow>
    \<not> has_recovery_strategy_attempt ledger (ch_scopeId i)
        (strategy_key_for_alternative (ch_baseStrategyKey i) alt)"

lemma has_attempt_identity:
  "has_recovery_strategy_attempt ledger scopeId key \<longleftrightarrow>
     (scopeId, recovery_strategy_fingerprint key) \<in> attempt_identity ` set ledger"
  by (auto simp: has_recovery_strategy_attempt_def list_ex_iff attempt_identity_def)

lemma try_alternatives_find:
  "try_alternatives i reason alts ledger =
    (case find (untried i ledger) alts of
      None \<Rightarrow> (RD_no_safe_alternative ''no_safe_alternative'' (Some reason), ledger)
    | Some alt \<Rightarrow>
        let key = strategy_key_for_alternative (ch_baseStrategyKey i) alt
        in (RD_strategy_selected reason alt key, ledger @ [new_attempt i reason key]))"
  by (induction alts)
    (simp_all add: untried_def record_recovery_strategy_attempt_def new_attempt_def Let_def)

text \<open>The strategies selected by a decision, and a series of choices with one ledger.\<close>

fun selected_keys :: "recovery_decision \<Rightarrow> strategy_key list" where
  "selected_keys (RD_strategy_selected reason alt key) = [key]"
| "selected_keys _ = []"

fun recovery_rounds :: "choose_input list \<Rightarrow> strategy_ledger \<Rightarrow> recovery_decision list \<times> strategy_ledger" where
  "recovery_rounds [] ledger = ([], ledger)"
| "recovery_rounds (i # inputs) ledger =
    (case choose_recovery_alternative i ledger of
      (d, ledger') \<Rightarrow>
        (case recovery_rounds inputs ledger' of (ds, ledger'') \<Rightarrow> (d # ds, ledger'')))"

text \<open>Either nothing is selected and the ledger stays, or one untried strategy is appended.\<close>

lemma choose_cases:
  assumes "choose_recovery_alternative i ledger = (d, ledger')"
  obtains (none) "selected_keys d = []" "ledger' = ledger"
  | (new) reason alt key where "selected_keys d = [key]" "ledger' = ledger @ [new_attempt i reason key]"
      "alt \<in> set (ch_safeAlternatives i)" "key = strategy_key_for_alternative (ch_baseStrategyKey i) alt"
      "\<not> has_recovery_strategy_attempt ledger (ch_scopeId i) key"
proof (cases "normalize_failure_reason (ch_failureReason i) (ch_explicitUserLimit i)")
  case (NR_terminal r)
  with assms none show ?thesis
    by (auto simp: choose_recovery_alternative_def split: if_splits)
next
  case (NR_recovery_signal r orig)
  show ?thesis
  proof (cases "ch_cancelled i = Some True")
    case True
    with assms none show ?thesis by (auto simp: choose_recovery_alternative_def)
  next
    case False
    with assms NR_recovery_signal
    have t: "try_alternatives i r (ch_safeAlternatives i) ledger = (d, ledger')"
      by (simp add: choose_recovery_alternative_def)
    show ?thesis
    proof (cases "find (untried i ledger) (ch_safeAlternatives i)")
      case None
      with t none show ?thesis by (auto simp: try_alternatives_find)
    next
      case (Some alt)
      then have "alt \<in> set (ch_safeAlternatives i)" "untried i ledger alt"
        by (auto simp: find_Some_iff)
      with t Some new[of _ r alt] show ?thesis
        by (auto simp: try_alternatives_find untried_def Let_def)
    qed
  qed
qed

lemma new_attempt_identity [simp]:
  "attempt_identity (new_attempt i reason key) = (ch_scopeId i, recovery_strategy_fingerprint key)"
  by (simp add: attempt_identity_def new_attempt_def)

lemma choose_ledger_unique:
  assumes "choose_recovery_alternative i ledger = (d, ledger')" "ledger_unique ledger"
  shows "ledger_unique ledger'"
  using assms(1)
proof (cases rule: choose_cases)
  case none
  with assms(2) show ?thesis by simp
next
  case (new reason alt key)
  with assms(2) show ?thesis by (simp add: ledger_unique_def has_attempt_identity)
qed

lemma rounds_ledger_unique:
  "ledger_unique ledger \<Longrightarrow> ledger_unique (snd (recovery_rounds inputs ledger))"
  by (induction inputs arbitrary: ledger)
    (auto split: prod.splits, metis choose_ledger_unique snd_conv)

text \<open>In a series for one scope the selected strategies differ from each other and from what the
  ledger held.\<close>

lemma rounds_fresh:
  assumes "\<forall>i \<in> set inputs. ch_scopeId i = scope"
  shows "let keys = concat (map selected_keys (fst (recovery_rounds inputs ledger)))
         in distinct (map recovery_strategy_fingerprint keys)
            \<and> (\<forall>k \<in> set keys. \<not> has_recovery_strategy_attempt ledger scope k)"
  using assms
proof (induction inputs arbitrary: ledger)
  case (Cons i inputs)
  obtain d ledger' where c: "choose_recovery_alternative i ledger = (d, ledger')" by fastforce
  from Cons.IH[of ledger'] Cons.prems
  have IH: "let keys = concat (map selected_keys (fst (recovery_rounds inputs ledger')))
         in distinct (map recovery_strategy_fingerprint keys)
            \<and> (\<forall>k \<in> set keys. \<not> has_recovery_strategy_attempt ledger' scope k)"
    by simp
  from c show ?case
  proof (cases rule: choose_cases)
    case none
    with c IH show ?thesis by (auto simp: Let_def split: prod.splits)
  next
    case (new reason alt key)
    define keys where "keys = concat (map selected_keys (fst (recovery_rounds inputs ledger')))"
    from new Cons.prems have held: "has_recovery_strategy_attempt ledger' scope k \<longleftrightarrow>
        has_recovery_strategy_attempt ledger scope k
        \<or> recovery_strategy_fingerprint k = recovery_strategy_fingerprint key" for k
      by (auto simp: has_attempt_identity)
    have "concat (map selected_keys (fst (recovery_rounds (i # inputs) ledger))) = key # keys"
      by (simp add: c new(1) keys_def split: prod.splits)
    moreover have "recovery_strategy_fingerprint key \<notin> recovery_strategy_fingerprint ` set keys"
      using IH held unfolding Let_def keys_def by fastforce
    ultimately show ?thesis
      using IH held new(5) Cons.prems unfolding Let_def keys_def[symmetric]
      by (simp add: image_iff)
  qed
qed simp

lemma rounds_keys:
  assumes "\<forall>i \<in> set inputs. ch_safeAlternatives i = alts \<and> ch_baseStrategyKey i = base"
  shows "set (concat (map selected_keys (fst (recovery_rounds inputs ledger))))
           \<subseteq> strategy_key_for_alternative base ` set alts"
  using assms
proof (induction inputs arbitrary: ledger)
  case (Cons i inputs)
  obtain d ledger' where c: "choose_recovery_alternative i ledger = (d, ledger')" by fastforce
  have "set (selected_keys d) \<subseteq> strategy_key_for_alternative base ` set alts"
    using c by (cases rule: choose_cases) (use Cons.prems in auto)
  moreover have "set (concat (map selected_keys (fst (recovery_rounds inputs ledger'))))
           \<subseteq> strategy_key_for_alternative base ` set alts"
    using Cons by simp
  moreover have "concat (map selected_keys (fst (recovery_rounds (i # inputs) ledger))) =
      selected_keys d @ concat (map selected_keys (fst (recovery_rounds inputs ledger')))"
    by (simp add: c split: prod.splits)
  ultimately show ?case by simp
qed simp

lemma selected_keys_bound:
  assumes "distinct (map recovery_strategy_fingerprint keys)"
    and "set keys \<subseteq> strategy_key_for_alternative base ` set alts"
  shows "length keys \<le> length alts"
proof -
  have "length keys = card (set keys)"
    using assms(1) by (simp add: distinct_card distinct_map)
  also have "\<dots> \<le> card (set alts)"
    using assms(2) by (meson List.finite_set card_image_le card_mono finite_imageI le_trans)
  also have "\<dots> \<le> length alts" by (rule card_length)
  finally show ?thesis .
qed

section \<open>Properties\<close>

text \<open>
  When a run fails, the controller selects a strategy exactly when the run is not cancelled and
  the reason is a recovery signal, and then it is the first safe alternative whose strategy differs,
  in the executor, the routes, the tools and sources, the prompt and task hashes, the files, the
  permissions, the order or the verification, from every attempt recorded in the scope. In that
  case, and only then, the ledger grows, by this one attempt.
\<close>

lemma recovery_selects_untried:
  "choose_recovery_alternative i ledger = (RD_strategy_selected reason alt key, ledger') \<longleftrightarrow>
     ch_cancelled i \<noteq> Some True
     \<and> (\<exists>orig. normalize_failure_reason (ch_failureReason i) (ch_explicitUserLimit i)
          = NR_recovery_signal reason orig)
     \<and> find (\<lambda>a. \<not> (\<exists>t \<in> set ledger. sa_scopeId t = ch_scopeId i
            \<and> same_strategy (sa_key t) (strategy_key_for_alternative (ch_baseStrategyKey i) a)))
          (ch_safeAlternatives i) = Some alt
     \<and> key = strategy_key_for_alternative (ch_baseStrategyKey i) alt
     \<and> ledger' = ledger @ [\<lparr>sa_attemptId = None, sa_scopeId = ch_scopeId i, sa_key = key,
          sa_reason = reason, sa_accepted = None, sa_createdAt = ch_now i\<rparr>]"
proof -
  have "(\<lambda>a. \<not> (\<exists>t \<in> set ledger. sa_scopeId t = ch_scopeId i
            \<and> same_strategy (sa_key t) (strategy_key_for_alternative (ch_baseStrategyKey i) a)))
        = untried i ledger"
    by (simp add: fun_eq_iff untried_def has_attempt_iff)
  then show ?thesis
    by (auto simp: choose_recovery_alternative_def try_alternatives_find new_attempt_def Let_def
        split: normalized_reason.splits option.splits)
qed

text \<open>
  C34: However often the controller is asked about the same scope, with the same alternatives and
  the same current strategy and whatever the failures, cancellations and limits are, the strategies
  it selects are pairwise different and new to the ledger, so it selects at most as many as there
  are alternatives, and a ledger without repeated attempts stays without.
\<close>

theorem recovery_series_finite:
  assumes "\<forall>i \<in> set inputs. ch_scopeId i = scope \<and> ch_safeAlternatives i = alts \<and> ch_baseStrategyKey i = base"
    and "recovery_rounds inputs ledger = (decisions, ledger')"
    and "ledger_unique ledger"
  shows "sorted_wrt (\<lambda>j k. \<not> same_strategy j k) (concat (map selected_keys decisions))
    \<and> (\<forall>k \<in> set (concat (map selected_keys decisions)). \<not> has_recovery_strategy_attempt ledger scope k)
    \<and> length (concat (map selected_keys decisions)) \<le> length alts
    \<and> ledger_unique ledger'"
proof -
  define keys where "keys = concat (map selected_keys decisions)"
  from rounds_fresh[of inputs scope ledger] assms
  have fresh: "distinct (map recovery_strategy_fingerprint keys)"
      "\<forall>k \<in> set keys. \<not> has_recovery_strategy_attempt ledger scope k"
    by (auto simp: keys_def Let_def)
  from rounds_keys[of inputs alts base ledger] assms
  have "set keys \<subseteq> strategy_key_for_alternative base ` set alts" by (auto simp: keys_def)
  with fresh(1) have "length keys \<le> length alts" by (rule selected_keys_bound)
  moreover have "sorted_wrt (\<lambda>j k. \<not> same_strategy j k) keys"
    using fresh(1) by (auto simp: fingerprint_eq_iff[symmetric] sorted_wrt_iff_nth_less
        distinct_conv_nth)
  moreover have "ledger_unique ledger'"
    using rounds_ledger_unique[OF assms(3), of inputs] assms(2) by simp
  ultimately show ?thesis using fresh(2) by (simp add: keys_def)
qed

definition sample_strategy :: strategy_key where
  "sample_strategy = \<lparr>sk_targetRoute = ''sub_agent'', sk_targetAgentId = Some ''agent:a'',
     sk_executorId = Some ''agent:a'', sk_toolIds = [''t''], sk_sourceIds = None,
     sk_inputShapeHash = ''in'', sk_promptContextHash = None, sk_normalizedTaskHash = ''task'',
     sk_decompositionHash = None, sk_workingDirectory = None, sk_fileTargets = [],
     sk_permissionProfile = ''default'', sk_userConfirmationState = None,
     sk_executionOrderHash = ''single'', sk_verificationMethod = ''check''\<rparr>"

definition sample_alternatives :: "recovery_alternative list" where
  "sample_alternatives =
    [\<lparr>ra_alternativeId = ''split'', ra_title = ''split'', ra_changedDimension = CD_task_split, ra_description = ''''\<rparr>,
     \<lparr>ra_alternativeId = ''route'', ra_title = ''route'', ra_changedDimension = CD_fallback_route, ra_description = ''''\<rparr>]"

definition sample_choice :: "string \<Rightarrow> choose_input" where
  "sample_choice reason = \<lparr>ch_safeAlternatives = sample_alternatives, ch_scopeId = ''n'',
     ch_failureReason = reason, ch_baseStrategyKey = sample_strategy, ch_explicitUserLimit = None,
     ch_cancelled = None, ch_now = 0\<rparr>"

definition sample_failures :: "choose_input list" where
  "sample_failures = map sample_choice [''tool_failed'', ''out_of_scope'', ''retry_exhausted'', ''tool_failed'']"

lemma sample_rounds:
  "map (length \<circ> selected_keys) (fst (recovery_rounds sample_failures [])) = [1, 0, 1, 0]"
  by code_simp

theorem recovery_series_finite_witness:
  "length (concat (map selected_keys (fst (recovery_rounds sample_failures [])))) = 2
    \<and> ledger_unique (snd (recovery_rounds sample_failures []))"
proof -
  obtain decisions ledger' where r: "recovery_rounds sample_failures [] = (decisions, ledger')"
    by fastforce
  have "\<forall>i \<in> set sample_failures. ch_scopeId i = ''n'' \<and> ch_safeAlternatives i = sample_alternatives
      \<and> ch_baseStrategyKey i = sample_strategy"
    by (simp add: sample_failures_def sample_choice_def)
  from recovery_series_finite[OF this r] sample_rounds r
  show ?thesis by (simp add: ledger_unique_def length_concat comp_def)
qed

end
