(* ===== verification/Executor_Plan.thy ===== *)
theory Executor_Plan
  imports Prelude Run_Recovery
begin

text \<open>
  From an executor graph to a graph execution plan (\<open>topology/executor-task-analysis.ts\<close>,
  \<open>executor-delegation-resolution.ts\<close>, \<open>graph-execution-plan.ts\<close> and
  \<open>graph-cancellation.ts\<close> under \<open>src/packages/core/src\<close>).

  Every executor is analysed into task units, alternatives and boundaries; a delegation target is
  resolved for it from the candidates and, where an execution decision names one, along a validated
  connection path; the plan collects both with the edges of the graph. The cancellation controller
  is a state of one graph token and a token per executor.

  The Korean texts of the source are the values of a lookup \<open>tx\<close>, named after what they say.
  Fields of the graph that none of these files reads are left out of the records.
\<close>

section \<open>Executor graph\<close>

datatype connection_relation = CX_handoff | CX_approval_request | CX_report | CX_collaboration
  | CX_exception | CX_reference

fun connection_relation_text :: "connection_relation \<Rightarrow> string" where
  "connection_relation_text CX_handoff = ''handoff''"
| "connection_relation_text CX_approval_request = ''approval_request''"
| "connection_relation_text CX_report = ''report''"
| "connection_relation_text CX_collaboration = ''collaboration''"
| "connection_relation_text CX_exception = ''exception''"
| "connection_relation_text CX_reference = ''reference''"

record executor_draft =
  ed_id :: string
  ed_name :: string
  ed_description :: string
  ed_inferredCapabilities :: "string list"
  ed_inferredTools :: "string list"
  ed_inferredOutputs :: "string list"
  ed_inferredSuccessCriteria :: "string list"
  ed_profileRiskBoundary :: "string list option"
  ed_confidence :: rat
  ed_sourceNodeId :: "string option"

record connection_draft =
  cd_id :: string
  cd_fromExecutorId :: string
  cd_toExecutorId :: string
  cd_inferredRelation :: connection_relation
  cd_label :: string

record executor_graph =
  xg_graphId :: string
  xg_topologyId :: string
  xg_executors :: "executor_draft list"
  xg_connections :: "connection_draft list"

definition epoch_iso :: string where
  "epoch_iso = ''1970-01-01T00:00:00.000Z''"

section \<open>Task analysis\<close>

datatype analysis_source = NS_rule_based | NS_llm_assisted | NS_user_confirmed | NS_runtime_refined

record task_unit =
  tu_taskUnitId :: string
  tu_title :: string
  tu_description :: string
  tu_expectedOutput :: string
  tu_requiredCapabilities :: "string list"
  tu_requiredTools :: "string list"
  tu_canDelegate :: bool
  tu_dependencyTaskUnitIds :: "string list"

record task_analysis =
  ta_analysisId :: string
  ta_executorId :: string
  ta_source :: analysis_source
  ta_purpose :: string
  ta_goals :: "string list"
  ta_taskUnits :: "task_unit list"
  ta_requiredCapabilities :: "string list"
  ta_requiredTools :: "string list"
  ta_inputNeeds :: "string list"
  ta_outputShape :: string
  ta_completionCondition :: string
  ta_successSignals :: "string list"
  ta_failureBoundaries :: "string list"
  ta_safeAlternatives :: "recovery_alternative list"
  ta_confidence :: rat
  ta_needsUserConfirmation :: bool
  ta_createdAt :: string
  ta_updatedAt :: string

record risk_boundary =
  kb_requires_user_approval :: bool
  kb_reason :: string

type_synonym texts = "string \<Rightarrow> string"

text \<open>\<open>xs[0] ?? d\<close>\<close>

definition first_or :: "'a list \<Rightarrow> 'a \<Rightarrow> 'a" where
  "first_or xs d = (case xs of [] \<Rightarrow> d | x # _ \<Rightarrow> x)"

definition build_goals :: "texts \<Rightarrow> executor_draft \<Rightarrow> string list" where
  "build_goals tx e =
    (let goals =
       [ed_name e @ tx ''goal_interprets_input'',
        first_or (ed_inferredOutputs e) (tx ''processing_result'') @ tx ''goal_produces'']
     in uniq (if ed_inferredSuccessCriteria e \<noteq> []
       then goals @ take 2 (ed_inferredSuccessCriteria e) else goals))"

definition task_unit_of :: "texts \<Rightarrow> executor_draft \<Rightarrow> nat \<Rightarrow> string \<Rightarrow> task_unit" where
  "task_unit_of tx e index goal =
    \<lparr>tu_taskUnitId = ''task-unit:'' @ ed_id e @ '':'' @ show_nat (index + 1),
     tu_title = (if index = 0 then tx ''title_understand'' else if index = 1 then tx ''title_process''
       else tx ''title_verify''),
     tu_description = goal,
     tu_expectedOutput = first_or (ed_inferredOutputs e) (tx ''processing_result''),
     tu_requiredCapabilities = ed_inferredCapabilities e,
     tu_requiredTools = ed_inferredTools e,
     tu_canDelegate = True,
     tu_dependencyTaskUnitIds =
       (if index = 0 then [] else [''task-unit:'' @ ed_id e @ '':'' @ show_nat index])\<rparr>"

definition build_task_units :: "texts \<Rightarrow> executor_draft \<Rightarrow> string list \<Rightarrow> task_unit list" where
  "build_task_units tx e goals =
    map (\<lambda>(index, goal). task_unit_of tx e index goal) (enumerate 0 (take 3 goals))"

definition build_input_needs :: "texts \<Rightarrow> connection_draft list \<Rightarrow> string list" where
  "build_input_needs tx connections =
    (if connections = [] then [tx ''user_run_input'']
     else map (\<lambda>c. tx ''previous_executor'' @ cd_fromExecutorId c @ tx ''of'' @ cd_label c) connections)"

text \<open>Whether confirmation is needed, and the failure boundaries.\<close>

definition structured_risk_boundary ::
  "texts \<Rightarrow> executor_draft \<Rightarrow> risk_boundary option \<Rightarrow> bool \<times> string list" where
  "structured_risk_boundary tx e riskBoundary =
    (case riskBoundary of
      Some b \<Rightarrow> (kb_requires_user_approval b,
        [if kb_reason b \<noteq> [] then kb_reason b else tx ''follow_decision_boundary''])
    | None \<Rightarrow>
        (let profile = opt_or (ed_profileRiskBoundary e) [] in
         if profile \<noteq> [] then (True, profile)
         else (False, [tx ''fail_only_without_alternative''])))"

definition build_safe_alternatives :: "texts \<Rightarrow> executor_draft \<Rightarrow> recovery_alternative list" where
  "build_safe_alternatives tx e =
    [\<lparr>ra_alternativeId = ''alternative:'' @ ed_id e @ '':task-split'', ra_title = tx ''split_smaller'',
      ra_changedDimension = CD_task_split, ra_description = tx ''split_smaller_description''\<rparr>,
     \<lparr>ra_alternativeId = ''alternative:'' @ ed_id e @ '':fallback-route'', ra_title = tx ''other_route'',
      ra_changedDimension = CD_fallback_route, ra_description = tx ''other_route_description''\<rparr>]"

definition build_node_task_analysis ::
  "texts \<Rightarrow> executor_draft \<Rightarrow> connection_draft list option \<Rightarrow> string option \<Rightarrow> analysis_source option
    \<Rightarrow> risk_boundary option \<Rightarrow> task_analysis" where
  "build_node_task_analysis tx e incoming now0 source riskBoundary =
    (let now = opt_or now0 epoch_iso;
         description = js_trim (ed_description e);
         goals = build_goals tx e;
         taskUnits = build_task_units tx e goals;
         boundary = structured_risk_boundary tx e riskBoundary
     in \<lparr>ta_analysisId = ''node-task-analysis:'' @ ed_id e,
         ta_executorId = ed_id e,
         ta_source = opt_or source NS_rule_based,
         ta_purpose = (if description \<noteq> [] then description else ed_name e @ tx ''handles_role''),
         ta_goals = goals,
         ta_taskUnits = taskUnits,
         ta_requiredCapabilities = uniq (concat (map tu_requiredCapabilities taskUnits)),
         ta_requiredTools = uniq (concat (map tu_requiredTools taskUnits)),
         ta_inputNeeds = build_input_needs tx (opt_or incoming []),
         ta_outputShape = first_or (ed_inferredOutputs e) (tx ''processing_result''),
         ta_completionCondition = first_or (ed_inferredSuccessCriteria e) (tx ''work_leaves_result''),
         ta_successSignals = (if ed_inferredSuccessCriteria e \<noteq> [] then ed_inferredSuccessCriteria e
           else [tx ''result_recorded'']),
         ta_failureBoundaries = snd boundary,
         ta_safeAlternatives = build_safe_alternatives tx e,
         ta_confidence = ed_confidence e,
         ta_needsUserConfirmation = fst boundary,
         ta_createdAt = now,
         ta_updatedAt = now\<rparr>)"

section \<open>Delegation resolution\<close>

datatype delegation_route = XR_sub_agent | XR_yeonjang | XR_nobie_direct | XR_manual_approval | XR_external

fun delegation_route_text :: "delegation_route \<Rightarrow> string" where
  "delegation_route_text XR_sub_agent = ''sub_agent''"
| "delegation_route_text XR_yeonjang = ''yeonjang''"
| "delegation_route_text XR_nobie_direct = ''nobie_direct''"
| "delegation_route_text XR_manual_approval = ''manual_approval''"
| "delegation_route_text XR_external = ''external''"

datatype candidate_type = CT_agent | CT_team | CT_yeonjang | CT_nobie

datatype candidate_availability = DA_available | DA_busy | DA_offline | DA_permission_required

record delegation_candidate =
  dc_targetId :: string
  dc_targetLabel :: string
  dc_targetType :: candidate_type
  dc_matchedCapabilities :: "string list"
  dc_missingCapabilities :: "string list"
  dc_confidence :: rat
  dc_availability :: candidate_availability

datatype path_status = PV_not_requested | PV_not_checked | PV_valid | PV_selected_executor_missing
  | PV_selected_executor_not_direct_child | PV_selected_connection_path_invalid

record path_validation =
  pv_ok :: bool
  pv_status :: path_status
  pv_currentExecutorId :: string
  pv_selectedExecutorId :: "string option"
  pv_selectedConnectionPath :: "string list"
  pv_normalizedConnectionPath :: "string list"
  pv_issues :: "string list"

record execution_decision =
  xe_selected_executor_id :: "string option"
  xe_selected_connection_path :: "string list"

record graph_snapshot =
  gs_currentExecutorId :: string
  gs_agentsById :: "(string, json) jsmap"
  gs_directChildAgentIdsByParent :: "(string, string list) jsmap"
  gs_edgeIndex :: "(string, (string, json) jsmap) jsmap"
  gs_allActiveExecutorIds :: "string list"
  gs_allRegisteredExecutorIds :: "string list"

definition normalize_connection_path :: "string \<Rightarrow> string list \<Rightarrow> string list" where
  "normalize_connection_path current path =
    (let compact = filter (\<lambda>x. x \<noteq> []) (map js_trim path) in
     if compact \<noteq> [] \<and> hd compact = current then compact else current # compact)"

text \<open>\<open>graph.edgeIndex[from]?.[to] !== undefined\<close>, for non-empty ids.\<close>

definition has_graph_edge :: "graph_snapshot \<Rightarrow> string \<Rightarrow> string \<Rightarrow> bool" where
  "has_graph_edge g from to =
    (case map_of (gs_edgeIndex g) from of None \<Rightarrow> False | Some row \<Rightarrow> map_of row to \<noteq> None)"

definition missing_edge_issue :: "graph_snapshot \<Rightarrow> string \<times> string \<Rightarrow> string list" where
  "missing_edge_issue g hop =
    (case hop of (from, to) \<Rightarrow>
      if from = [] \<or> to = [] \<or> \<not> has_graph_edge g from to
      then [''missing_graph_edge:'' @ from @ ''->'' @ to] else [])"

fun hops :: "'a list \<Rightarrow> ('a \<times> 'a) list" where
  "hops (x # y # xs) = (x, y) # hops (y # xs)"
| "hops _ = []"

definition not_direct_child_prefix :: string where
  "not_direct_child_prefix = ''selected_executor_not_direct_child:''"

definition path_issues :: "graph_snapshot \<Rightarrow> string \<Rightarrow> string \<Rightarrow> string list \<Rightarrow> string list" where
  "path_issues g current selected path =
    (let children = js_lookup (gs_directChildAgentIdsByParent g) current [] in
     (if length path < 2 \<or> path ! 1 = [] \<or> path ! 1 \<notin> set children
        then [not_direct_child_prefix @ selected] else [])
     @ (if last path \<noteq> selected then [''selected_connection_path_must_end_at_executor:'' @ selected] else [])
     @ (if length (uniq path) \<noteq> length path
        then [''selected_connection_path_cycle:'' @ join ''->'' path] else [])
     @ concat (map (missing_edge_issue g) (hops path)))"

definition known_executors :: "graph_snapshot \<Rightarrow> string list" where
  "known_executors g = map fst (gs_agentsById g) @ gs_allActiveExecutorIds g @ gs_allRegisteredExecutorIds g"

definition validate_delegation_path ::
  "string \<Rightarrow> execution_decision option \<Rightarrow> graph_snapshot option \<Rightarrow> path_validation" where
  "validate_delegation_path current0 decision snapshot =
    (let selected0 = map_option js_trim (Option.bind decision xe_selected_executor_id);
         chosen = (case decision of None \<Rightarrow> [] | Some d \<Rightarrow> xe_selected_connection_path d);
         current = (case snapshot of None \<Rightarrow> current0 | Some g \<Rightarrow> gs_currentExecutorId g);
         selected = opt_or selected0 [];
         path = (if chosen \<noteq> [] then normalize_connection_path current chosen else [current, selected]);
         result = (\<lambda>ok status normalized issues. \<lparr>pv_ok = ok, pv_status = status,
           pv_currentExecutorId = current, pv_selectedExecutorId = (if selected = [] then None else Some selected),
           pv_selectedConnectionPath = chosen, pv_normalizedConnectionPath = normalized, pv_issues = issues\<rparr>)
     in if selected = [] then result True PV_not_requested [] []
        else case snapshot of
          None \<Rightarrow> result True PV_not_checked path []
        | Some g \<Rightarrow>
            if selected \<notin> set (known_executors g) then
              result False PV_selected_executor_missing chosen [''selected_executor_missing:'' @ selected]
            else
              (let issues = path_issues g current selected path in
               if issues \<noteq> [] then
                 result False
                   (if list_ex (starts_with not_direct_child_prefix) issues
                    then PV_selected_executor_not_direct_child else PV_selected_connection_path_invalid)
                   path issues
               else result True PV_valid path []))"

definition normalize_candidates :: "delegation_candidate list \<Rightarrow> task_analysis \<Rightarrow> delegation_candidate list" where
  "normalize_candidates candidates analysis =
    map (\<lambda>c. c\<lparr>
      dc_matchedCapabilities := uniq (dc_matchedCapabilities c),
      dc_missingCapabilities := (if dc_missingCapabilities c \<noteq> [] then uniq (dc_missingCapabilities c)
        else uniq (ta_requiredCapabilities analysis @ ta_requiredTools analysis)),
      dc_confidence := max 0 (min 1 (dc_confidence c))\<rparr>) candidates"

fun availability_score :: "candidate_availability \<Rightarrow> int" where
  "availability_score DA_available = 4"
| "availability_score DA_busy = 3"
| "availability_score DA_permission_required = 2"
| "availability_score DA_offline = 1"

text \<open>The sign of \<open>b.confidence - a.confidence\<close> after the difference of the ranks.\<close>

definition compare_candidates :: "delegation_candidate \<Rightarrow> delegation_candidate \<Rightarrow> int" where
  "compare_candidates a b =
    (let rank = availability_score (dc_availability b) - availability_score (dc_availability a) in
     if rank \<noteq> 0 then rank
     else if dc_confidence b < dc_confidence a then -1
     else if dc_confidence a < dc_confidence b then 1 else 0)"

text \<open>The id of the decision is used as it is; an empty one counts as absent.\<close>

definition select_candidate :: "delegation_candidate list \<Rightarrow> string option \<Rightarrow> delegation_candidate option" where
  "select_candidate candidates selectedExecutorId =
    (if opt_or selectedExecutorId [] \<noteq> []
     then find (\<lambda>c. dc_targetId c = the selectedExecutorId) candidates
     else find (\<lambda>c. dc_availability c = DA_available) candidates)"

definition route_for_candidate :: "delegation_candidate option \<Rightarrow> bool \<Rightarrow> delegation_route" where
  "route_for_candidate candidate approval =
    (if approval then XR_manual_approval
     else case candidate of
       None \<Rightarrow> XR_nobie_direct
     | Some c \<Rightarrow> if dc_targetType c = CT_agent \<or> dc_targetType c = CT_team then XR_sub_agent
         else if dc_targetType c = CT_yeonjang then XR_yeonjang else XR_nobie_direct)"

definition label_for_route :: "texts \<Rightarrow> delegation_route \<Rightarrow> string" where
  "label_for_route tx route = tx (''label_'' @ delegation_route_text route)"

definition build_fallback_routes ::
  "texts \<Rightarrow> bool \<Rightarrow> delegation_candidate option \<Rightarrow> (delegation_route \<times> string) list" where
  "build_fallback_routes tx approval selected =
    (if approval then [(XR_manual_approval, tx ''needs_confirmation'')]
     else if selected \<noteq> None then
       [(XR_yeonjang, tx ''local_when_sub_agent_unavailable''), (XR_nobie_direct, tx ''direct_when_no_route'')]
     else [(XR_yeonjang, tx ''no_sub_agent''), (XR_nobie_direct, tx ''direct_when_yeonjang_unfit'')])"

record delegation_resolution =
  xd_resolutionId :: string
  xd_executorId :: string
  xd_nodeContractId :: string
  xd_selectedRoute :: delegation_route
  xd_selectedTargetId :: string
  xd_selectedTargetLabel :: string
  xd_candidateTargets :: "delegation_candidate list"
  xd_selectionReason :: string
  xd_fallbackRoutes :: "(delegation_route \<times> string) list"
  xd_pathValidation :: path_validation
  xd_systemPreparation :: bool
  xd_requiresUserApproval :: bool
  xd_createdAt :: string

definition selection_reason ::
  "texts \<Rightarrow> delegation_candidate option \<Rightarrow> string option \<Rightarrow> bool \<Rightarrow> string" where
  "selection_reason tx selected decided pathOk =
    (case selected of
      Some c \<Rightarrow> (if opt_or decided [] \<noteq> []
        then tx ''decision_chose'' @ dc_targetLabel c @ tx ''uses_executor''
        else tx ''explicitly_given'' @ dc_targetLabel c @ tx ''uses_candidate'')
    | None \<Rightarrow> (if \<not> pathOk then tx ''path_unusable'' else tx ''no_candidate''))"

definition resolve_node_delegation ::
  "texts \<Rightarrow> string \<Rightarrow> string option \<Rightarrow> task_analysis \<Rightarrow> delegation_candidate list option
    \<Rightarrow> execution_decision option \<Rightarrow> graph_snapshot option \<Rightarrow> string option \<Rightarrow> delegation_resolution" where
  "resolve_node_delegation tx executorId nodeContractId analysis candidates0 decision snapshot now =
    (let candidates = js_sort compare_candidates (normalize_candidates (opt_or candidates0 []) analysis);
         validation = validate_delegation_path executorId decision snapshot;
         decided = Option.bind decision xe_selected_executor_id;
         selected = (if pv_ok validation then select_candidate candidates decided else None);
         approval = ta_needsUserConfirmation analysis;
         route = route_for_candidate selected approval
     in \<lparr>xd_resolutionId = ''node-delegation-resolution:'' @ executorId,
         xd_executorId = executorId,
         xd_nodeContractId = opt_or nodeContractId executorId,
         xd_selectedRoute = route,
         xd_selectedTargetId = (case selected of Some c \<Rightarrow> dc_targetId c | None \<Rightarrow> delegation_route_text route),
         xd_selectedTargetLabel = (case selected of Some c \<Rightarrow> dc_targetLabel c | None \<Rightarrow> label_for_route tx route),
         xd_candidateTargets = candidates,
         xd_selectionReason = selection_reason tx selected decided (pv_ok validation),
         xd_fallbackRoutes = build_fallback_routes tx approval selected,
         xd_pathValidation = validation,
         xd_systemPreparation = False,
         xd_requiresUserApproval = approval,
         xd_createdAt = opt_or now epoch_iso\<rparr>)"

subsection \<open>Candidates from the registry\<close>

datatype entry_source = EX_db | EX_topology | EX_other

record agent_entry =
  ag_agentId :: string
  ag_nickname :: "string option"
  ag_displayName :: string
  ag_source :: entry_source
  ag_enabled :: bool
  ag_delegationEnabled :: bool
  ag_capabilityAvailable :: bool
  ag_modelAvailable :: bool
  ag_activeSubSessions :: int
  ag_maxParallelSessions :: int

record team_entry =
  tm_teamId :: string
  tm_nickname :: "string option"
  tm_displayName :: string
  tm_enabled :: bool
  tm_activeMemberAgentIds :: "string list"
  tm_missingCapabilities :: "string list option"

definition agent_availability :: "agent_entry \<Rightarrow> candidate_availability" where
  "agent_availability a =
    (if \<not> ag_enabled a \<or> \<not> ag_delegationEnabled a then DA_offline
     else if \<not> ag_capabilityAvailable a \<or> \<not> ag_modelAvailable a then DA_permission_required
     else if ag_activeSubSessions a \<ge> ag_maxParallelSessions a then DA_busy
     else DA_available)"

definition team_availability :: "team_entry \<Rightarrow> candidate_availability" where
  "team_availability t =
    (if \<not> tm_enabled t then DA_offline
     else if tm_activeMemberAgentIds t = [] then DA_busy
     else if length (opt_or (tm_missingCapabilities t) []) > 0 then DA_permission_required
     else DA_available)"

text \<open>What the task requires, which no candidate is known to have yet.\<close>

definition required_by_task :: "task_analysis option \<Rightarrow> string list" where
  "required_by_task analysis =
    (case analysis of None \<Rightarrow> []
     | Some ta \<Rightarrow> uniq (ta_requiredCapabilities ta @ ta_requiredTools ta))"

definition candidate_from_agent :: "task_analysis option \<Rightarrow> agent_entry \<Rightarrow> delegation_candidate" where
  "candidate_from_agent analysis a =
    \<lparr>dc_targetId = ag_agentId a, dc_targetLabel = opt_or (ag_nickname a) (ag_displayName a),
     dc_targetType = CT_agent, dc_matchedCapabilities = [],
     dc_missingCapabilities = required_by_task analysis,
     dc_confidence = (if ag_source a = EX_db then 58 / 100 else if ag_source a = EX_topology then 56 / 100 else 52 / 100),
     dc_availability = agent_availability a\<rparr>"

definition candidate_from_team :: "task_analysis option \<Rightarrow> team_entry \<Rightarrow> delegation_candidate" where
  "candidate_from_team analysis t =
    \<lparr>dc_targetId = tm_teamId t, dc_targetLabel = opt_or (tm_nickname t) (tm_displayName t),
     dc_targetType = CT_team, dc_matchedCapabilities = [],
     dc_missingCapabilities = required_by_task analysis,
     dc_confidence = 1 / 2,
     dc_availability = team_availability t\<rparr>"

definition delegation_candidates_from_registry ::
  "agent_entry list \<Rightarrow> team_entry list \<Rightarrow> task_analysis option \<Rightarrow> bool option \<Rightarrow> delegation_candidate list" where
  "delegation_candidates_from_registry agents teams analysis includeTeams =
    js_sort compare_candidates
      (map (candidate_from_agent analysis) agents
       @ (if includeTeams \<noteq> Some False then map (candidate_from_team analysis) teams else []))"

section \<open>Graph execution plan\<close>

datatype edge_behavior = EB_handoff | EB_approval | EB_review | EB_report | EB_exception
  | EB_reference | EB_collaboration

datatype edge_propagation = EP_sequential | EP_parallel | EP_conditional

record node_plan =
  np_executorId :: string
  np_nodeContractId :: string
  np_taskAnalysis :: task_analysis
  np_delegationResolution :: delegation_resolution
  np_inputBindings :: "string list"
  np_outputBindings :: "string list"

record edge_plan =
  ep_edgeId :: string
  ep_sourceExecutorId :: string
  ep_targetExecutorId :: string
  ep_relationKind :: string
  ep_executionBehavior :: edge_behavior
  ep_propagation :: edge_propagation

text \<open>The cancellation policy has two constant fields: whether the user's request comes first, and the
  outcome.\<close>

record graph_plan =
  gp_graphExecutionPlanId :: string
  gp_topologyId :: string
  gp_workspaceId :: string
  gp_entryExecutorIds :: "string list"
  gp_nodePlans :: "node_plan list"
  gp_edgePlans :: "edge_plan list"
  gp_recoveryPolicy :: execution_policy
  gp_cancellationPolicy :: "bool \<times> string"
  gp_validationWarnings :: "string list"
  gp_createdAt :: string

definition edge_plan_from_connection :: "connection_draft \<Rightarrow> edge_plan" where
  "edge_plan_from_connection c =
    (let relation = cd_inferredRelation c;
         behavior =
           (if relation = CX_approval_request then EB_approval
            else if relation = CX_report then EB_report
            else if relation = CX_exception then EB_exception
            else if relation = CX_reference then EB_reference
            else if relation = CX_collaboration then EB_collaboration
            else EB_handoff)
     in \<lparr>ep_edgeId = cd_id c, ep_sourceExecutorId = cd_fromExecutorId c,
         ep_targetExecutorId = cd_toExecutorId c,
         ep_relationKind = connection_relation_text relation,
         ep_executionBehavior = behavior,
         ep_propagation = (if behavior = EB_exception then EP_conditional
           else if behavior = EB_collaboration then EP_parallel else EP_sequential)\<rparr>)"

definition find_entry_executor_ids :: "executor_graph \<Rightarrow> string list" where
  "find_entry_executor_ids g =
    (let targets = map cd_toExecutorId (xg_connections g);
         entries = map ed_id (filter (\<lambda>e. ed_id e \<notin> set targets) (xg_executors g))
     in if entries \<noteq> [] then entries else map ed_id (take 1 (xg_executors g)))"

definition validate_graph_execution_plan :: "node_plan list \<Rightarrow> edge_plan list \<Rightarrow> string list" where
  "validate_graph_execution_plan nodePlans edgePlans =
    (let nodeIds = map np_executorId nodePlans in
     concat (map (\<lambda>n. if xd_systemPreparation (np_delegationResolution n)
         then [''node_not_visible:'' @ np_executorId n] else []) nodePlans)
     @ concat (map (\<lambda>e.
         (if ep_sourceExecutorId e \<notin> set nodeIds then [''missing_edge_source:'' @ ep_edgeId e] else [])
         @ (if ep_targetExecutorId e \<notin> set nodeIds then [''missing_edge_target:'' @ ep_edgeId e] else [])) edgePlans))"

text \<open>The incoming connections of an executor, in the order of the graph.\<close>

definition incoming_by_executor :: "connection_draft list \<Rightarrow> (string, connection_draft list) jsmap" where
  "incoming_by_executor connections =
    fold (\<lambda>c m. AList.update (cd_toExecutorId c) (js_lookup m (cd_toExecutorId c) [] @ [c]) m) connections []"

definition build_node_plan :: "texts \<Rightarrow> executor_graph \<Rightarrow> string \<Rightarrow> executor_draft \<Rightarrow> node_plan" where
  "build_node_plan tx g now e =
    (let incoming = js_lookup (incoming_by_executor (xg_connections g)) (ed_id e) [];
         analysis = build_node_task_analysis tx e (Some incoming) (Some now) None None;
         contract = opt_or (ed_sourceNodeId e) (ed_id e);
         resolution = resolve_node_delegation tx (ed_id e) (Some contract) analysis None None None (Some now)
     in \<lparr>np_executorId = ed_id e, np_nodeContractId = contract, np_taskAnalysis = analysis,
         np_delegationResolution = resolution, np_inputBindings = ta_inputNeeds analysis,
         np_outputBindings = [ta_outputShape analysis]\<rparr>)"

definition build_graph_execution_plan :: "texts \<Rightarrow> string \<Rightarrow> executor_graph \<Rightarrow> string option \<Rightarrow> graph_plan" where
  "build_graph_execution_plan tx workspaceId g now0 =
    (let now = opt_or now0 epoch_iso;
         nodePlans = map (build_node_plan tx g now) (xg_executors g);
         edgePlans = map edge_plan_from_connection (xg_connections g)
     in \<lparr>gp_graphExecutionPlanId = ''graph-execution-plan:'' @ xg_graphId g,
         gp_topologyId = xg_topologyId g,
         gp_workspaceId = workspaceId,
         gp_entryExecutorIds = find_entry_executor_ids g,
         gp_nodePlans = nodePlans,
         gp_edgePlans = edgePlans,
         gp_recoveryPolicy = create_default_execution_policy,
         gp_cancellationPolicy = (True, ''cancelled''),
         gp_validationWarnings = validate_graph_execution_plan nodePlans edgePlans,
         gp_createdAt = now\<rparr>)"

section \<open>Cancellation\<close>

datatype cancel_reason = CZ_user_cancelled | CZ_channel_cancelled | CZ_node_cancelled

record cancel_token =
  ct_graphExecutionPlanId :: string
  ct_executorId :: "string option"
  ct_cancelled :: bool
  ct_reason :: "cancel_reason option"
  ct_cancelledAt :: "string option"

record cancellation =
  cl_graphToken :: cancel_token
  cl_nodeTokens :: "(string, cancel_token) jsmap"

definition fresh_token :: "string \<Rightarrow> string option \<Rightarrow> cancel_token" where
  "fresh_token planId executorId = \<lparr>ct_graphExecutionPlanId = planId, ct_executorId = executorId,
     ct_cancelled = False, ct_reason = None, ct_cancelledAt = None\<rparr>"

definition create_cancellation :: "string \<Rightarrow> string list option \<Rightarrow> cancellation" where
  "create_cancellation planId executorIds =
    \<lparr>cl_graphToken = fresh_token planId None,
     cl_nodeTokens = index_by (\<lambda>i. i) (\<lambda>i. fresh_token planId (Some i)) (opt_or executorIds [])\<rparr>"

definition cancel_with :: "cancel_reason \<Rightarrow> string \<Rightarrow> cancel_token \<Rightarrow> cancel_token" where
  "cancel_with reason at0 t =
    t\<lparr>ct_cancelled := True, ct_reason := Some reason, ct_cancelledAt := Some at0\<rparr>"

definition cancel_graph :: "cancel_reason option \<Rightarrow> string option \<Rightarrow> cancellation \<Rightarrow> cancellation" where
  "cancel_graph reason at0 c =
    (let at' = opt_or at0 epoch_iso in
     \<lparr>cl_graphToken = cancel_with (opt_or reason CZ_user_cancelled) at' (cl_graphToken c),
      cl_nodeTokens = map (\<lambda>(k, t). (k, cancel_with CZ_user_cancelled at' t)) (cl_nodeTokens c)\<rparr>)"

definition cancel_node :: "string \<Rightarrow> cancel_reason option \<Rightarrow> string option \<Rightarrow> cancellation \<Rightarrow> cancellation" where
  "cancel_node executorId reason at0 c =
    (let token = (case map_of (cl_nodeTokens c) executorId of
           Some t \<Rightarrow> t
         | None \<Rightarrow> fresh_token (ct_graphExecutionPlanId (cl_graphToken c)) (Some executorId))
     in c\<lparr>cl_nodeTokens := AList.update executorId
           (cancel_with (opt_or reason CZ_node_cancelled) (opt_or at0 epoch_iso) token) (cl_nodeTokens c)\<rparr>)"

definition is_graph_cancelled :: "cancellation \<Rightarrow> bool" where
  "is_graph_cancelled c = ct_cancelled (cl_graphToken c)"

definition is_node_cancelled :: "cancellation \<Rightarrow> string \<Rightarrow> bool" where
  "is_node_cancelled c executorId \<longleftrightarrow>
    ct_cancelled (cl_graphToken c)
    \<or> (case map_of (cl_nodeTokens c) executorId of None \<Rightarrow> False | Some t \<Rightarrow> ct_cancelled t)"

section \<open>Connection paths\<close>

text \<open>A path the runtime accepts: from the current executor over edges of the graph to the selected
  one, without repetition, its first hop a direct child.\<close>

definition connection_path_ok :: "graph_snapshot \<Rightarrow> string \<Rightarrow> string list \<Rightarrow> bool" where
  "connection_path_ok g selected path \<longleftrightarrow>
    2 \<le> length path \<and> hd path = gs_currentExecutorId g \<and> last path = selected
    \<and> distinct path \<and> [] \<notin> set path
    \<and> path ! 1 \<in> set (js_lookup (gs_directChildAgentIdsByParent g) (gs_currentExecutorId g) [])
    \<and> successively (has_graph_edge g) path"

lemma length_uniq_iff: "length (uniq xs) = length xs \<longleftrightarrow> distinct xs"
  by (metis card_distinct distinct_card distinct_uniq set_uniq)

lemma missing_edges_Nil:
  "concat (map (missing_edge_issue g) (hops path)) = [] \<longleftrightarrow>
     (length path < 2 \<or> [] \<notin> set path \<and> successively (has_graph_edge g) path)"
  by (induction path rule: hops.induct) (auto simp: missing_edge_issue_def)

lemma path_issues_Nil:
  assumes "hd path = gs_currentExecutorId g"
  shows "path_issues g (gs_currentExecutorId g) selected path = [] \<longleftrightarrow> connection_path_ok g selected path"
proof -
  have "[] \<notin> set path \<Longrightarrow> 2 \<le> length path \<Longrightarrow> path ! 1 \<noteq> []" by (metis Suc_1 Suc_le_lessD nth_mem)
  then show ?thesis
    using assms by (auto simp: path_issues_def connection_path_ok_def length_uniq_iff missing_edges_Nil Let_def
        simp del: concat_eq_Nil_conv)
qed

text \<open>The executor a decision names, and the path it gives.\<close>

definition named_executor :: "execution_decision option \<Rightarrow> string" where
  "named_executor d = opt_or (map_option js_trim (Option.bind d xe_selected_executor_id)) []"

definition decided_path :: "execution_decision option \<Rightarrow> string \<Rightarrow> string list" where
  "decided_path d current =
    (let chosen = (case d of None \<Rightarrow> [] | Some x \<Rightarrow> xe_selected_connection_path x) in
     if chosen \<noteq> [] then normalize_connection_path current chosen else [current, named_executor d])"

lemma hd_decided_path: "hd (decided_path d current) = current"
  by (auto simp: decided_path_def normalize_connection_path_def Let_def)

lemma validate_path_ok:
  "pv_ok (validate_delegation_path current d (Some g)) \<longleftrightarrow>
     named_executor d = []
     \<or> named_executor d \<in> set (known_executors g)
       \<and> connection_path_ok g (named_executor d) (decided_path d (gs_currentExecutorId g))"
proof -
  have "path_issues g (gs_currentExecutorId g) (named_executor d) (decided_path d (gs_currentExecutorId g)) = []
      \<longleftrightarrow> connection_path_ok g (named_executor d) (decided_path d (gs_currentExecutorId g))"
    by (simp add: path_issues_Nil hd_decided_path)
  then show ?thesis
    by (cases "(case d of None \<Rightarrow> [] | Some x \<Rightarrow> xe_selected_connection_path x) = []")
      (simp_all add: validate_delegation_path_def named_executor_def[symmetric] decided_path_def Let_def)
qed

section \<open>Cancellation requests\<close>

datatype cancel_request =
    Cancel_graph "cancel_reason option" "string option"
  | Cancel_node string "cancel_reason option" "string option"

fun apply_cancel :: "cancel_request \<Rightarrow> cancellation \<Rightarrow> cancellation" where
  "apply_cancel (Cancel_graph r t) c = cancel_graph r t c"
| "apply_cancel (Cancel_node x r t) c = cancel_node x r t c"

fun cancels_graph :: "cancel_request \<Rightarrow> bool" where
  "cancels_graph (Cancel_graph _ _) = True"
| "cancels_graph (Cancel_node _ _ _) = False"

fun cancels_node :: "string \<Rightarrow> cancel_request \<Rightarrow> bool" where
  "cancels_node y (Cancel_graph _ _) = True"
| "cancels_node y (Cancel_node x _ _) = (x = y)"

lemma is_graph_cancelled_apply:
  "is_graph_cancelled (apply_cancel r c) \<longleftrightarrow> is_graph_cancelled c \<or> cancels_graph r"
  by (cases r) (simp_all add: is_graph_cancelled_def cancel_graph_def cancel_node_def cancel_with_def Let_def)

lemma is_node_cancelled_apply:
  "is_node_cancelled (apply_cancel r c) y \<longleftrightarrow> is_node_cancelled c y \<or> cancels_node y r"
  by (cases r) (auto simp: is_node_cancelled_def cancel_graph_def cancel_node_def cancel_with_def
      update_conv' Let_def)

lemma is_graph_cancelled_fold:
  "is_graph_cancelled (fold apply_cancel rs c) \<longleftrightarrow> is_graph_cancelled c \<or> list_ex cancels_graph rs"
  by (induction rs arbitrary: c) (auto simp: is_graph_cancelled_apply)

lemma is_node_cancelled_fold:
  "is_node_cancelled (fold apply_cancel rs c) y \<longleftrightarrow> is_node_cancelled c y \<or> list_ex (cancels_node y) rs"
  by (induction rs arbitrary: c) (auto simp: is_node_cancelled_apply)

lemma create_not_cancelled:
  "\<not> is_graph_cancelled (create_cancellation p xs)" "\<not> is_node_cancelled (create_cancellation p xs) y"
  by (auto simp: is_graph_cancelled_def is_node_cancelled_def create_cancellation_def fresh_token_def
      split: option.splits dest!: index_by_Some)

section \<open>Properties\<close>

text \<open>
  With the execution graph at hand, the delegation of a node accepts the decision exactly when
  it names no executor, or names a known one and the path it gives, or the direct hop when it gives
  none, runs from the current executor over edges of the graph to that executor, visits nobody twice
  and starts with a direct child. A decision that is not accepted is never followed: the node is
  then handled by the root itself or waits for approval.
\<close>

lemma delegation_path_exact:
  "(pv_ok (xd_pathValidation (resolve_node_delegation tx x contract analysis candidates d (Some g) now)) \<longleftrightarrow>
      named_executor d = []
      \<or> named_executor d \<in> set (known_executors g)
        \<and> connection_path_ok g (named_executor d) (decided_path d (gs_currentExecutorId g)))
   \<and> (if pv_ok (validate_delegation_path x d (Some g)) then True
      else xd_selectedRoute (resolve_node_delegation tx x contract analysis candidates d (Some g) now)
             = (if ta_needsUserConfirmation analysis then XR_manual_approval else XR_nobie_direct)
         \<and> xd_selectedTargetId (resolve_node_delegation tx x contract analysis candidates d (Some g) now)
             = (if ta_needsUserConfirmation analysis then ''manual_approval'' else ''nobie_direct''))"
  by (simp add: resolve_node_delegation_def route_for_candidate_def validate_path_ok Let_def)

text \<open>
  After any sequence of cancellation requests a graph counts as cancelled exactly when one of
  them cancelled the graph, and a node exactly when one of them cancelled the graph or this node,
  known to the controller before or not; nothing is ever taken back.
\<close>

lemma cancellation_exact:
  "(is_graph_cancelled (fold apply_cancel requests (create_cancellation planId executorIds))
     \<longleftrightarrow> list_ex cancels_graph requests)
   \<and> (is_node_cancelled (fold apply_cancel requests (create_cancellation planId executorIds)) y
     \<longleftrightarrow> list_ex (cancels_node y) requests)"
  by (simp_all add: is_graph_cancelled_fold is_node_cancelled_fold create_not_cancelled)

end
