(* ===== verification/Graph_Execution.thy ===== *)
theory Graph_Execution
  imports Executor_Plan Work_Order
begin

text \<open>
  Simulated runs of a graph execution plan and the work orders of its nodes
  (\<open>topology/graph-execution-runner.ts\<close> under \<open>src/packages/core/src\<close>).

  A simulated run is the list of events the code emits, node by node in the order of the plan, with
  the failure of one node injected; the outcome is the one the code reports. A work order of a node
  carries the graph metadata as a JSON value in its input.
\<close>

section \<open>Events and outcomes\<close>

datatype graph_event_type = GE_graph_plan_created | GE_node_execution_planning | GE_node_delegation_started
  | GE_node_execution_started | GE_node_recovery_started | GE_node_execution_completed
  | GE_node_execution_failed | GE_node_execution_cancelled | GE_edge_handoff_started
  | GE_edge_handoff_completed | GE_graph_execution_completed | GE_graph_execution_cancelled

fun graph_event_type_text :: "graph_event_type \<Rightarrow> string" where
  "graph_event_type_text GE_graph_plan_created = ''graph_plan_created''"
| "graph_event_type_text GE_node_execution_planning = ''node_execution_planning''"
| "graph_event_type_text GE_node_delegation_started = ''node_delegation_started''"
| "graph_event_type_text GE_node_execution_started = ''node_execution_started''"
| "graph_event_type_text GE_node_recovery_started = ''node_recovery_started''"
| "graph_event_type_text GE_node_execution_completed = ''node_execution_completed''"
| "graph_event_type_text GE_node_execution_failed = ''node_execution_failed''"
| "graph_event_type_text GE_node_execution_cancelled = ''node_execution_cancelled''"
| "graph_event_type_text GE_edge_handoff_started = ''edge_handoff_started''"
| "graph_event_type_text GE_edge_handoff_completed = ''edge_handoff_completed''"
| "graph_event_type_text GE_graph_execution_completed = ''graph_execution_completed''"
| "graph_event_type_text GE_graph_execution_cancelled = ''graph_execution_cancelled''"

text \<open>Node and outcome statuses share one type, as in the \<open>status\<close> field of an event.\<close>

datatype graph_status = GS_pending | GS_planning | GS_delegating | GS_running | GS_waiting
  | GS_recovering | GS_completed | GS_failed | GS_cancelled | GS_waiting_for_user

datatype graph_recovery_state = GR_not_needed | GR_needs_alternative | GR_waiting_for_user
  | GR_no_safe_alternative | GR_cancelled

record graph_outcome =
  oc_status :: graph_status
  oc_terminalReason :: "string option"
  oc_cancellationReason :: "cancel_reason option"
  oc_recoveryState :: graph_recovery_state
  oc_recoverySignal :: "string option"
  oc_diagnosticId :: "string option"

record handoff_envelope =
  he_edgeId :: string
  he_sourceExecutorId :: string
  he_targetExecutorId :: string
  he_relationKind :: string
  he_outputBinding :: string
  he_inputBinding :: string

datatype graph_payload =
    GP_entries "string list"
  | GP_planning string string
  | GP_route delegation_route string
  | GP_recovery string recovery_decision
  | GP_handoff handoff_envelope

record event_refs =
  ev_executorId :: "string option"
  ev_edgeId :: "string option"
  ev_status :: "graph_status option"
  ev_activeExecutorIds :: "string list"
  ev_activeEdgeIds :: "string list"
  ev_terminalReason :: "string option"
  ev_recoveryReason :: "string option"
  ev_cancellationReason :: "cancel_reason option"
  ev_payload :: "graph_payload option"

record graph_event = event_refs +
  ev_eventId :: string
  ev_graphExecutionPlanId :: string
  ev_type :: graph_event_type
  ev_at :: string

definition no_refs :: event_refs where
  "no_refs = \<lparr>ev_executorId = None, ev_edgeId = None, ev_status = None, ev_activeExecutorIds = [],
     ev_activeEdgeIds = [], ev_terminalReason = None, ev_recoveryReason = None,
     ev_cancellationReason = None, ev_payload = None\<rparr>"

text \<open>\<open>...(x ? { x } : {})\<close> drops an empty string like an absent one.\<close>

definition truthy_text :: "string option \<Rightarrow> string option" where
  "truthy_text x = (if x = Some [] then None else x)"

definition graph_event :: "graph_plan \<Rightarrow> graph_event_type \<Rightarrow> string \<Rightarrow> event_refs \<Rightarrow> graph_event" where
  "graph_event plan type at0 refs =
    \<lparr>ev_executorId = truthy_text (ev_executorId refs), ev_edgeId = truthy_text (ev_edgeId refs),
     ev_status = ev_status refs, ev_activeExecutorIds = ev_activeExecutorIds refs,
     ev_activeEdgeIds = ev_activeEdgeIds refs, ev_terminalReason = truthy_text (ev_terminalReason refs),
     ev_recoveryReason = truthy_text (ev_recoveryReason refs),
     ev_cancellationReason = ev_cancellationReason refs, ev_payload = ev_payload refs,
     ev_eventId = ''graph-event:'' @ gp_graphExecutionPlanId plan @ '':'' @ graph_event_type_text type @ '':''
       @ (case ev_executorId refs of Some x \<Rightarrow> x
          | None \<Rightarrow> (case ev_edgeId refs of Some x \<Rightarrow> x | None \<Rightarrow> ''graph'')),
     ev_graphExecutionPlanId = gp_graphExecutionPlanId plan, ev_type = type, ev_at = at0\<rparr>"

definition plain_outcome :: "graph_status \<Rightarrow> graph_recovery_state \<Rightarrow> graph_outcome" where
  "plain_outcome status state = \<lparr>oc_status = status, oc_terminalReason = None, oc_cancellationReason = None,
     oc_recoveryState = state, oc_recoverySignal = None, oc_diagnosticId = None\<rparr>"

definition normalize_graph_execution_outcome ::
  "graph_status \<Rightarrow> string option \<Rightarrow> cancel_reason option \<Rightarrow> bool option \<Rightarrow> graph_outcome" where
  "normalize_graph_execution_outcome status terminalReason cancellationReason explicitUserLimit =
    (if status = GS_cancelled then
       (plain_outcome GS_cancelled GR_cancelled)
         \<lparr>oc_cancellationReason := Some (opt_or cancellationReason CZ_user_cancelled)\<rparr>
     else if status = GS_completed then plain_outcome GS_completed GR_not_needed
     else if status = GS_waiting_for_user then plain_outcome GS_waiting_for_user GR_waiting_for_user
     else case guard_terminal_failure (opt_or terminalReason ''unknown'') explicitUserLimit of
       Inl (signal, orig) \<Rightarrow>
         (plain_outcome GS_waiting_for_user GR_needs_alternative)
           \<lparr>oc_recoverySignal := Some signal, oc_diagnosticId := Some (''recovery-signal:'' @ orig)\<rparr>
     | Inr reason \<Rightarrow>
         (plain_outcome GS_failed
            (if reason = ''no_safe_alternative'' then GR_no_safe_alternative else GR_waiting_for_user))
           \<lparr>oc_terminalReason := Some reason\<rparr>)"

section \<open>Simulated runs\<close>

record injected_failure =
  if_executorId :: string
  if_reason :: string
  if_explicitUserLimit :: "bool option"

record graph_run =
  gx_status :: graph_status
  gx_outcome :: graph_outcome
  gx_activeExecutorIds :: "string list"
  gx_activeEdgeIds :: "string list"
  gx_events :: "graph_event list"

text \<open>\<open>xs.join(sep) || d\<close>\<close>

definition join_or :: "string \<Rightarrow> string list \<Rightarrow> string \<Rightarrow> string" where
  "join_or sep xs d = (let s = join sep xs in if s \<noteq> [] then s else d)"

definition strategy_key_for_node_plan :: "node_plan \<Rightarrow> strategy_key" where
  "strategy_key_for_node_plan node =
    (let ta = np_taskAnalysis node;
         rs = np_delegationResolution node;
         inputNeedsHash = join_or ''|'' (ta_inputNeeds ta) ''input:none'';
         decompositionHash = join_or ''|'' (map tu_title (ta_taskUnits ta)) (np_executorId node)
     in \<lparr>sk_targetRoute = delegation_route_text (xd_selectedRoute rs),
         sk_targetAgentId = Some (xd_selectedTargetId rs),
         sk_executorId = Some (xd_selectedTargetId rs),
         sk_toolIds = ta_requiredTools ta,
         sk_sourceIds = Some (ta_requiredTools ta),
         sk_inputShapeHash = inputNeedsHash,
         sk_promptContextHash = Some inputNeedsHash,
         sk_normalizedTaskHash = decompositionHash,
         sk_decompositionHash = Some decompositionHash,
         sk_workingDirectory = None,
         sk_fileTargets = [],
         sk_permissionProfile = (if ta_needsUserConfirmation ta then ''confirmation_required'' else ''default''),
         sk_userConfirmationState = Some (if ta_needsUserConfirmation ta then ''required'' else ''not_required''),
         sk_executionOrderHash = join_or ''>'' (map tu_taskUnitId (ta_taskUnits ta)) ''single'',
         sk_verificationMethod = ta_completionCondition ta\<rparr>)"

definition started_events :: "graph_plan \<Rightarrow> string \<Rightarrow> node_plan \<Rightarrow> graph_event list" where
  "started_events plan at0 node =
    (let x = np_executorId node; ta = np_taskAnalysis node; rs = np_delegationResolution node;
         refs = no_refs\<lparr>ev_executorId := Some x, ev_activeExecutorIds := [x]\<rparr>
     in [graph_event plan GE_node_execution_planning at0
           (refs\<lparr>ev_status := Some GS_planning,
              ev_payload := Some (GP_planning (ta_analysisId ta) (xd_resolutionId rs))\<rparr>),
         graph_event plan GE_node_delegation_started at0
           (refs\<lparr>ev_status := Some GS_delegating,
              ev_payload := Some (GP_route (xd_selectedRoute rs) (xd_selectedTargetId rs))\<rparr>),
         graph_event plan GE_node_execution_started at0 (refs\<lparr>ev_status := Some GS_running\<rparr>)])"

definition handoff_of :: "edge_plan \<Rightarrow> handoff_envelope" where
  "handoff_of e = \<lparr>he_edgeId = ep_edgeId e, he_sourceExecutorId = ep_sourceExecutorId e,
     he_targetExecutorId = ep_targetExecutorId e, he_relationKind = ep_relationKind e,
     he_outputBinding = ep_sourceExecutorId e @ '':output'', he_inputBinding = ep_targetExecutorId e @ '':input''\<rparr>"

definition handoff_events :: "graph_plan \<Rightarrow> string \<Rightarrow> edge_plan \<Rightarrow> graph_event list" where
  "handoff_events plan at0 e =
    [graph_event plan GE_edge_handoff_started at0
       (no_refs\<lparr>ev_edgeId := Some (ep_edgeId e), ev_status := Some GS_running,
          ev_activeExecutorIds := [ep_sourceExecutorId e, ep_targetExecutorId e],
          ev_activeEdgeIds := [ep_edgeId e], ev_payload := Some (GP_handoff (handoff_of e))\<rparr>),
     graph_event plan GE_edge_handoff_completed at0
       (no_refs\<lparr>ev_edgeId := Some (ep_edgeId e), ev_status := Some GS_completed,
          ev_payload := Some (GP_handoff (handoff_of e))\<rparr>)]"

definition completed_events :: "graph_plan \<Rightarrow> string \<Rightarrow> node_plan \<Rightarrow> graph_event list" where
  "completed_events plan at0 node =
    graph_event plan GE_node_execution_completed at0
      (no_refs\<lparr>ev_executorId := Some (np_executorId node), ev_status := Some GS_completed\<rparr>)
    # concat (map (handoff_events plan at0)
        (filter (\<lambda>e. ep_sourceExecutorId e = np_executorId node) (gp_edgePlans plan)))"

text \<open>\<open>Date.parse\<close> stamps the ledger entry, which is discarded.\<close>

definition recovery_event ::
  "(string \<Rightarrow> int) \<Rightarrow> graph_plan \<Rightarrow> string \<Rightarrow> node_plan \<Rightarrow> string \<Rightarrow> string \<times> string \<Rightarrow> graph_event" where
  "recovery_event parseDate plan at0 node failureReason signal =
    graph_event plan GE_node_recovery_started at0
      (no_refs\<lparr>ev_executorId := Some (np_executorId node), ev_status := Some GS_recovering,
         ev_activeExecutorIds := [np_executorId node], ev_recoveryReason := Some (fst signal),
         ev_payload := Some (GP_recovery (snd signal) (fst (choose_recovery_alternative
           \<lparr>ch_safeAlternatives = ta_safeAlternatives (np_taskAnalysis node),
            ch_scopeId = np_executorId node, ch_failureReason = failureReason,
            ch_baseStrategyKey = strategy_key_for_node_plan node, ch_explicitUserLimit = None,
            ch_cancelled = None, ch_now = parseDate at0\<rparr> [])))\<rparr>)"

text \<open>The loop over the nodes: the events so far, and the terminal reason that ended it early.\<close>

fun simulate_nodes ::
  "(string \<Rightarrow> int) \<Rightarrow> graph_plan \<Rightarrow> injected_failure option \<Rightarrow> string \<Rightarrow> node_plan list
    \<Rightarrow> graph_event list \<Rightarrow> graph_event list \<times> string option" where
  "simulate_nodes pd plan failure at0 [] events = (events, None)"
| "simulate_nodes pd plan failure at0 (node # nodes) events =
    (let events1 = events @ started_events plan at0 node in
     case failure of
       Some f \<Rightarrow>
         (if if_executorId f = np_executorId node then
            (case guard_terminal_failure (if_reason f) (if_explicitUserLimit f) of
               Inl signal \<Rightarrow> simulate_nodes pd plan failure at0 nodes
                 (events1 @ [recovery_event pd plan at0 node (if_reason f) signal])
             | Inr reason \<Rightarrow>
                 (events1 @ [graph_event plan GE_node_execution_failed at0
                    (no_refs\<lparr>ev_executorId := Some (np_executorId node), ev_status := Some GS_failed,
                       ev_terminalReason := Some reason\<rparr>)], Some reason))
          else simulate_nodes pd plan failure at0 nodes (events1 @ completed_events plan at0 node))
     | None \<Rightarrow> simulate_nodes pd plan failure at0 nodes (events1 @ completed_events plan at0 node))"

definition finish_run :: "graph_outcome \<Rightarrow> graph_event list \<Rightarrow> graph_run" where
  "finish_run outcome events = \<lparr>gx_status = oc_status outcome, gx_outcome = outcome,
     gx_activeExecutorIds = [], gx_activeEdgeIds = [], gx_events = events\<rparr>"

definition simulate_graph_execution_plan ::
  "(string \<Rightarrow> int) \<Rightarrow> graph_plan \<Rightarrow> bool option \<Rightarrow> injected_failure option \<Rightarrow> string option \<Rightarrow> graph_run" where
  "simulate_graph_execution_plan parseDate plan cancelled failure now =
    (let at0 = opt_or now epoch_iso;
         created = graph_event plan GE_graph_plan_created at0
           (no_refs\<lparr>ev_status := Some GS_pending, ev_payload := Some (GP_entries (gp_entryExecutorIds plan))\<rparr>)
     in if cancelled = Some True then
          (let outcome = normalize_graph_execution_outcome GS_cancelled None (Some CZ_user_cancelled) None
           in finish_run outcome
             (created # map (\<lambda>node. graph_event plan GE_node_execution_cancelled at0
                (no_refs\<lparr>ev_executorId := Some (np_executorId node), ev_status := Some GS_cancelled,
                   ev_cancellationReason := Some CZ_user_cancelled\<rparr>)) (gp_nodePlans plan)
              @ [graph_event plan GE_graph_execution_cancelled at0
                  (no_refs\<lparr>ev_status := Some (oc_status outcome),
                     ev_cancellationReason := oc_cancellationReason outcome\<rparr>)]))
        else case simulate_nodes parseDate plan failure at0 (gp_nodePlans plan) [created] of
          (events, Some reason) \<Rightarrow>
            (let outcome = normalize_graph_execution_outcome GS_failed (Some reason) None None
             in finish_run outcome (events @ [graph_event plan GE_graph_execution_completed at0
                  (no_refs\<lparr>ev_status := Some (oc_status outcome),
                     ev_terminalReason := oc_terminalReason outcome\<rparr>)]))
        | (events, None) \<Rightarrow>
            (let outcome = normalize_graph_execution_outcome GS_completed None None None
             in finish_run outcome (events @ [graph_event plan GE_graph_execution_completed at0
                  (no_refs\<lparr>ev_status := Some (oc_status outcome)\<rparr>)])))"

section \<open>What a simulated run contains\<close>

text \<open>What the injected failure means for a node: nothing, a recovery signal or a terminal reason.\<close>

definition failure_verdict :: "injected_failure option \<Rightarrow> node_plan \<Rightarrow> ((string \<times> string) + string) option" where
  "failure_verdict failure node =
    (case failure of None \<Rightarrow> None
     | Some f \<Rightarrow> if if_executorId f = np_executorId node
         then Some (guard_terminal_failure (if_reason f) (if_explicitUserLimit f)) else None)"

definition node_recovers :: "injected_failure option \<Rightarrow> node_plan \<Rightarrow> bool" where
  "node_recovers failure node \<longleftrightarrow> (\<exists>s. failure_verdict failure node = Some (Inl s))"

definition node_terminal :: "injected_failure option \<Rightarrow> node_plan \<Rightarrow> bool" where
  "node_terminal failure node \<longleftrightarrow> (\<exists>r. failure_verdict failure node = Some (Inr r))"

text \<open>The nodes a run reaches before a terminal failure, and those of them it completes.\<close>

definition nodes_before_failure :: "injected_failure option \<Rightarrow> graph_plan \<Rightarrow> node_plan list" where
  "nodes_before_failure failure plan = takeWhile (\<lambda>n. \<not> node_terminal failure n) (gp_nodePlans plan)"

definition nodes_completed :: "injected_failure option \<Rightarrow> graph_plan \<Rightarrow> node_plan list" where
  "nodes_completed failure plan = filter (\<lambda>n. \<not> node_recovers failure n) (nodes_before_failure failure plan)"

definition outgoing_edges :: "graph_plan \<Rightarrow> node_plan \<Rightarrow> edge_plan list" where
  "outgoing_edges plan n = filter (\<lambda>e. ep_sourceExecutorId e = np_executorId n) (gp_edgePlans plan)"

definition node_block :: "(string \<Rightarrow> int) \<Rightarrow> graph_plan \<Rightarrow> injected_failure option \<Rightarrow> string \<Rightarrow> node_plan \<Rightarrow> graph_event list" where
  "node_block pd plan failure at0 node = started_events plan at0 node @
    (case failure_verdict failure node of
       Some (Inl signal) \<Rightarrow> [recovery_event pd plan at0 node (if_reason (the failure)) signal]
     | _ \<Rightarrow> completed_events plan at0 node)"

definition failed_block :: "graph_plan \<Rightarrow> string \<Rightarrow> string \<Rightarrow> node_plan \<Rightarrow> graph_event list" where
  "failed_block plan at0 reason node = started_events plan at0 node @
    [graph_event plan GE_node_execution_failed at0
       (no_refs\<lparr>ev_executorId := Some (np_executorId node), ev_status := Some GS_failed,
          ev_terminalReason := Some reason\<rparr>)]"

lemma simulate_nodes_Cons:
  "simulate_nodes pd plan failure at0 (node # nodes) events =
    (case failure_verdict failure node of
       Some (Inr reason) \<Rightarrow> (events @ failed_block plan at0 reason node, Some reason)
     | _ \<Rightarrow> simulate_nodes pd plan failure at0 nodes (events @ node_block pd plan failure at0 node))"
  by (auto simp: failure_verdict_def node_block_def failed_block_def Let_def split: option.splits sum.splits)

declare simulate_nodes.simps(2) [simp del]

lemma simulate_nodes_spec:
  "simulate_nodes pd plan failure at0 nodes events =
    (case dropWhile (\<lambda>n. \<not> node_terminal failure n) nodes of
       [] \<Rightarrow> (events @ concat (map (node_block pd plan failure at0) nodes), None)
     | n # _ \<Rightarrow>
         (let reason = projr (the (failure_verdict failure n)) in
          (events @ concat (map (node_block pd plan failure at0)
             (takeWhile (\<lambda>n. \<not> node_terminal failure n) nodes)) @ failed_block plan at0 reason n,
           Some reason)))"
proof (induction nodes arbitrary: events)
  case (Cons n nodes)
  show ?case
  proof (cases "node_terminal failure n")
    case True
    then obtain r where "failure_verdict failure n = Some (Inr r)" by (auto simp: node_terminal_def)
    with True show ?thesis by (simp add: simulate_nodes_Cons)
  next
    case False
    then have "simulate_nodes pd plan failure at0 (n # nodes) events =
        simulate_nodes pd plan failure at0 nodes (events @ node_block pd plan failure at0 n)"
      by (auto simp: simulate_nodes_Cons node_terminal_def split: option.splits sum.splits)
    with False Cons show ?thesis
      by (cases "dropWhile (\<lambda>n. \<not> node_terminal failure n) nodes")
        (simp_all add: Let_def del: dropWhile_eq_Nil_conv)
  qed
qed simp

text \<open>Reading the events of one kind out of the blocks.\<close>

definition executors_of :: "graph_event_type \<Rightarrow> graph_event list \<Rightarrow> string option list" where
  "executors_of t events = map ev_executorId (filter (\<lambda>e. ev_type e = t) events)"

definition edges_of :: "graph_event_type \<Rightarrow> graph_event list \<Rightarrow> string option list" where
  "edges_of t events = map ev_edgeId (filter (\<lambda>e. ev_type e = t) events)"

definition executor_text :: "node_plan \<Rightarrow> string option" where
  "executor_text n = truthy_text (Some (np_executorId n))"

lemma graph_event_fields [simp]:
  "ev_type (graph_event plan t at0 refs) = t"
  "ev_executorId (graph_event plan t at0 refs) = truthy_text (ev_executorId refs)"
  "ev_edgeId (graph_event plan t at0 refs) = truthy_text (ev_edgeId refs)"
  by (simp_all add: graph_event_def)

lemma executors_of_append [simp]: "executors_of t (xs @ ys) = executors_of t xs @ executors_of t ys"
  by (simp add: executors_of_def)

lemma executors_of_concat: "executors_of t (concat xss) = concat (map (executors_of t) xss)"
  by (induction xss) (simp_all add: executors_of_def)

lemma edges_of_append [simp]: "edges_of t (xs @ ys) = edges_of t xs @ edges_of t ys"
  by (simp add: edges_of_def)

lemma edges_of_concat: "edges_of t (concat xss) = concat (map (edges_of t) xss)"
  by (induction xss) (simp_all add: edges_of_def)

lemma concat_singletons: "concat (map (\<lambda>x. if P x then [f x] else []) xs) = map f (filter P xs)"
  by (induction xs) auto

lemma started_events_kinds:
  "executors_of GE_node_execution_started (started_events plan at0 n) = [executor_text n]"
  "executors_of GE_node_execution_completed (started_events plan at0 n) = []"
  "executors_of GE_node_recovery_started (started_events plan at0 n) = []"
  "executors_of GE_node_execution_failed (started_events plan at0 n) = []"
  "edges_of GE_edge_handoff_completed (started_events plan at0 n) = []"
  by (simp_all add: started_events_def executors_of_def edges_of_def executor_text_def no_refs_def Let_def)

lemma handoff_kinds:
  "t \<notin> {GE_edge_handoff_started, GE_edge_handoff_completed} \<Longrightarrow> executors_of t (handoff_events plan at0 e) = []"
  "edges_of GE_edge_handoff_completed (handoff_events plan at0 e) = [truthy_text (Some (ep_edgeId e))]"
  by (auto simp: handoff_events_def executors_of_def edges_of_def)

lemma completed_events_kinds:
  "executors_of GE_node_execution_started (completed_events plan at0 n) = []"
  "executors_of GE_node_execution_completed (completed_events plan at0 n) = [executor_text n]"
  "executors_of GE_node_recovery_started (completed_events plan at0 n) = []"
  "executors_of GE_node_execution_failed (completed_events plan at0 n) = []"
  "edges_of GE_edge_handoff_completed (completed_events plan at0 n) =
     map (\<lambda>e. truthy_text (Some (ep_edgeId e))) (outgoing_edges plan n)"
proof -
  have c: "completed_events plan at0 n =
      [graph_event plan GE_node_execution_completed at0
        (no_refs\<lparr>ev_executorId := Some (np_executorId n), ev_status := Some GS_completed\<rparr>)]
      @ concat (map (handoff_events plan at0) (outgoing_edges plan n))"
    by (simp add: completed_events_def outgoing_edges_def)
  have n: "concat (map (\<lambda>e. []) xs) = []" for xs :: "edge_plan list" by simp
  have s: "concat (map (\<lambda>e. [f e]) xs) = map f xs" for f :: "edge_plan \<Rightarrow> string option" and xs
    by (induction xs) simp_all
  show "executors_of GE_node_execution_started (completed_events plan at0 n) = []"
    "executors_of GE_node_execution_completed (completed_events plan at0 n) = [executor_text n]"
    "executors_of GE_node_recovery_started (completed_events plan at0 n) = []"
    "executors_of GE_node_execution_failed (completed_events plan at0 n) = []"
    unfolding c executors_of_append executors_of_concat
    by (simp_all add: comp_def handoff_kinds) (simp_all add: executors_of_def executor_text_def)
  show "edges_of GE_edge_handoff_completed (completed_events plan at0 n) =
     map (\<lambda>e. truthy_text (Some (ep_edgeId e))) (outgoing_edges plan n)"
    unfolding c edges_of_append edges_of_concat
    by (simp add: comp_def handoff_kinds s) (simp add: edges_of_def)
qed

lemma recovery_event_kinds:
  "executors_of t [recovery_event pd plan at0 n r s] =
      (if t = GE_node_recovery_started then [executor_text n] else [])"
  "edges_of GE_edge_handoff_completed [recovery_event pd plan at0 n r s] = []"
  by (auto simp: executors_of_def edges_of_def recovery_event_def executor_text_def)

lemma node_block_split:
  assumes "\<not> node_terminal failure n"
  shows "node_block pd plan failure at0 n = started_events plan at0 n @
    (if node_recovers failure n
     then [recovery_event pd plan at0 n (if_reason (the failure)) (projl (the (failure_verdict failure n)))]
     else completed_events plan at0 n)"
  using assms
  by (auto simp: node_block_def node_recovers_def node_terminal_def split: option.splits sum.splits)

lemma node_block_kinds:
  assumes "\<not> node_terminal failure n"
  shows
  "executors_of GE_node_execution_started (node_block pd plan failure at0 n) = [executor_text n]"
  "executors_of GE_node_execution_completed (node_block pd plan failure at0 n) =
     (if \<not> node_recovers failure n then [executor_text n] else [])"
  "executors_of GE_node_recovery_started (node_block pd plan failure at0 n) =
     (if node_recovers failure n then [executor_text n] else [])"
  "executors_of GE_node_execution_failed (node_block pd plan failure at0 n) = []"
  "edges_of GE_edge_handoff_completed (node_block pd plan failure at0 n) =
     (if \<not> node_recovers failure n then map (\<lambda>e. truthy_text (Some (ep_edgeId e))) (outgoing_edges plan n) else [])"
  unfolding node_block_split[OF assms] executors_of_append edges_of_append started_events_kinds
  by (simp_all add: completed_events_kinds recovery_event_kinds)

lemma failed_block_kinds:
  "executors_of GE_node_execution_completed (failed_block plan at0 r n) = []"
  "executors_of GE_node_recovery_started (failed_block plan at0 r n) = []"
  "executors_of GE_node_execution_failed (failed_block plan at0 r n) = [executor_text n]"
  "edges_of GE_edge_handoff_completed (failed_block plan at0 r n) = []"
  unfolding failed_block_def executors_of_append edges_of_append started_events_kinds
  by (simp_all add: executors_of_def edges_of_def executor_text_def)

lemma blocks_kinds:
  assumes "\<And>n. n \<in> set ns \<Longrightarrow> \<not> node_terminal failure n"
  shows
  "executors_of GE_node_execution_completed (concat (map (node_block pd plan failure at0) ns)) =
     map executor_text (filter (\<lambda>n. \<not> node_recovers failure n) ns)"
  "executors_of GE_node_recovery_started (concat (map (node_block pd plan failure at0) ns)) =
     map executor_text (filter (node_recovers failure) ns)"
  "executors_of GE_node_execution_failed (concat (map (node_block pd plan failure at0) ns)) = []"
  "edges_of GE_edge_handoff_completed (concat (map (node_block pd plan failure at0) ns)) =
     map (\<lambda>e. truthy_text (Some (ep_edgeId e)))
       (concat (map (outgoing_edges plan) (filter (\<lambda>n. \<not> node_recovers failure n) ns)))"
  using assms by (induction ns) (simp_all add: node_block_kinds executors_of_def[of _ "[]"] edges_of_def[of _ "[]"])

lemma executors_of_other:
  "ev_type e \<noteq> t \<Longrightarrow> executors_of t (e # es) = executors_of t es"
  "ev_type e \<noteq> t \<Longrightarrow> edges_of t (e # es) = edges_of t es"
  "executors_of t [] = []" "edges_of t [] = []"
  by (simp_all add: executors_of_def edges_of_def)

lemma verdict_range:
  "failure_verdict failure n = Some (Inr r) \<Longrightarrow> r \<in> set TERMINAL_FAILURE_REASONS"
  by (auto simp: failure_verdict_def guard_terminal_failure_def split: option.splits if_splits normalized_reason.splits
      intro: normalize_terminal_range)

text \<open>A terminal reason is accepted by the guard a second time, as the outcome does.\<close>

lemma guard_terminal_idem:
  "r \<in> set TERMINAL_FAILURE_REASONS \<Longrightarrow> guard_terminal_failure r None = Inr r"
  unfolding TERMINAL_FAILURE_REASONS_def by (simp, elim disjE; simp; code_simp)

lemma failed_outcome:
  assumes "r \<in> set TERMINAL_FAILURE_REASONS"
  shows "oc_status (normalize_graph_execution_outcome GS_failed (Some r) None None) = GS_failed
    \<and> oc_terminalReason (normalize_graph_execution_outcome GS_failed (Some r) None None) = Some r"
  using assms by (simp add: normalize_graph_execution_outcome_def guard_terminal_idem plain_outcome_def)

lemma simulate_not_cancelled:
  assumes "cancelled \<noteq> Some True"
  shows "\<exists>created finished.
    gx_events (simulate_graph_execution_plan pd plan cancelled failure now) =
      created # concat (map (node_block pd plan failure (opt_or now epoch_iso)) (nodes_before_failure failure plan))
      @ (case dropWhile (\<lambda>n. \<not> node_terminal failure n) (gp_nodePlans plan) of
           [] \<Rightarrow> []
         | n # _ \<Rightarrow> failed_block plan (opt_or now epoch_iso) (projr (the (failure_verdict failure n))) n)
      @ [finished]
    \<and> ev_type created = GE_graph_plan_created \<and> ev_type finished = GE_graph_execution_completed
    \<and> gx_status (simulate_graph_execution_plan pd plan cancelled failure now) =
        (if list_ex (node_terminal failure) (gp_nodePlans plan) then GS_failed else GS_completed)"
proof (cases "dropWhile (\<lambda>n. \<not> node_terminal failure n) (gp_nodePlans plan)")
  case Nil
  then have "takeWhile (\<lambda>n. \<not> node_terminal failure n) (gp_nodePlans plan) = gp_nodePlans plan"
    by (metis append_Nil2 takeWhile_dropWhile_id)
  moreover have "\<not> list_ex (node_terminal failure) (gp_nodePlans plan)"
    using Nil by (auto simp: list_ex_iff)
  ultimately show ?thesis using assms Nil
    by (simp add: simulate_graph_execution_plan_def simulate_nodes_spec nodes_before_failure_def finish_run_def
        normalize_graph_execution_outcome_def plain_outcome_def Let_def
        del: dropWhile_eq_Nil_conv takeWhile_eq_all_conv)
next
  case (Cons n ns)
  then have "n \<in> set (gp_nodePlans plan)" "node_terminal failure n"
    by (metis list.set_intros(1) set_dropWhileD) (use Cons in \<open>metis dropWhile_eq_Cons_conv\<close>)
  moreover from this obtain r where r: "failure_verdict failure n = Some (Inr r)"
    by (auto simp: node_terminal_def)
  ultimately have "list_ex (node_terminal failure) (gp_nodePlans plan)"
      "oc_status (normalize_graph_execution_outcome GS_failed (Some r) None None) = GS_failed"
    using failed_outcome[OF verdict_range[OF r]] by (auto simp: list_ex_iff)
  with assms Cons r show ?thesis
    by (simp add: simulate_graph_execution_plan_def simulate_nodes_spec nodes_before_failure_def finish_run_def Let_def)
qed

lemma nodes_before_not_terminal: "n \<in> set (nodes_before_failure failure plan) \<Longrightarrow> \<not> node_terminal failure n"
  by (auto simp: nodes_before_failure_def dest: set_takeWhileD)

lemmas run_blocks_kinds = blocks_kinds[OF nodes_before_not_terminal]

section \<open>Properties of runs\<close>

text \<open>
  C33: What a simulated run of a plan does. A cancelled run starts no node and cancels every one.
  Otherwise the nodes run in the order of the plan up to the first whose injected failure is
  terminal: exactly the others before it complete and hand over along their outgoing edges, in
  order, exactly the node with a recoverable failure starts recovery and neither completes nor hands
  over, and only the terminal one fails. The run counts as failed exactly when there is such a node
  and as completed otherwise, even when a node was left recovering.
\<close>

theorem graph_run_exact:
  "let run = simulate_graph_execution_plan pd plan cancelled failure now; ev = gx_events run in
   if cancelled = Some True then
     gx_status run = GS_cancelled
     \<and> executors_of GE_node_execution_started ev = []
     \<and> executors_of GE_node_execution_completed ev = []
     \<and> executors_of GE_node_execution_cancelled ev = map executor_text (gp_nodePlans plan)
   else
     executors_of GE_node_execution_completed ev = map executor_text (nodes_completed failure plan)
     \<and> edges_of GE_edge_handoff_completed ev =
         map (\<lambda>e. truthy_text (Some (ep_edgeId e))) (concat (map (outgoing_edges plan) (nodes_completed failure plan)))
     \<and> executors_of GE_node_recovery_started ev =
         map executor_text (filter (node_recovers failure) (nodes_before_failure failure plan))
     \<and> executors_of GE_node_execution_failed ev =
         map executor_text (take 1 (dropWhile (\<lambda>n. \<not> node_terminal failure n) (gp_nodePlans plan)))
     \<and> gx_status run = (if list_ex (node_terminal failure) (gp_nodePlans plan) then GS_failed else GS_completed)"
proof (cases "cancelled = Some True")
  case True
  then show ?thesis
    by (simp add: simulate_graph_execution_plan_def finish_run_def executors_of_def filter_map comp_def
        normalize_graph_execution_outcome_def plain_outcome_def executor_text_def Let_def)
next
  case False
  from simulate_not_cancelled[OF this, of pd plan failure now] False
  show ?thesis
    by (auto simp: Let_def executors_of_other run_blocks_kinds nodes_completed_def failed_block_kinds
        simp del: dropWhile_eq_Nil_conv split: list.split)
qed

section \<open>Work orders of a node\<close>

record graph_metadata =
  gm_graphExecutionPlanId :: string
  gm_topologyId :: string
  gm_workspaceId :: string
  gm_executorId :: string
  gm_nodeContractId :: string
  gm_edgeId :: "string option"
  gm_delegationResolutionId :: string
  gm_taskAnalysisId :: string
  gm_selectedRoute :: string
  gm_selectedTargetId :: string
  gm_systemPreparation :: bool

record node_order_input =
  ni_topologyRunId :: "string option"
  ni_parentWorkOrderId :: "string option"
  ni_edgeId :: "string option"
  ni_systemPreparation :: "bool option"
  ni_createdAt :: "timestamp option"

definition graph_metadata_of :: "graph_plan \<Rightarrow> node_plan \<Rightarrow> node_order_input \<Rightarrow> graph_metadata" where
  "graph_metadata_of plan node i =
    \<lparr>gm_graphExecutionPlanId = gp_graphExecutionPlanId plan, gm_topologyId = gp_topologyId plan,
     gm_workspaceId = gp_workspaceId plan, gm_executorId = np_executorId node,
     gm_nodeContractId = np_nodeContractId node, gm_edgeId = truthy_text (ni_edgeId i),
     gm_delegationResolutionId = xd_resolutionId (np_delegationResolution node),
     gm_taskAnalysisId = ta_analysisId (np_taskAnalysis node),
     gm_selectedRoute = delegation_route_text (xd_selectedRoute (np_delegationResolution node)),
     gm_selectedTargetId = xd_selectedTargetId (np_delegationResolution node),
     gm_systemPreparation = (ni_systemPreparation i = Some True)\<rparr>"

definition metadata_to_json :: "graph_metadata \<Rightarrow> json" where
  "metadata_to_json m = JObj
    ([(''graphExecutionPlanId'', JStr (gm_graphExecutionPlanId m)), (''topologyId'', JStr (gm_topologyId m)),
      (''workspaceId'', JStr (gm_workspaceId m)), (''executorId'', JStr (gm_executorId m)),
      (''nodeContractId'', JStr (gm_nodeContractId m))]
     @ (case truthy_text (gm_edgeId m) of None \<Rightarrow> [] | Some e \<Rightarrow> [(''edgeId'', JStr e)])
     @ [(''delegationResolutionId'', JStr (gm_delegationResolutionId m)),
        (''taskAnalysisId'', JStr (gm_taskAnalysisId m)),
        (''selectedRoute'', JStr (gm_selectedRoute m)), (''selectedTargetId'', JStr (gm_selectedTargetId m)),
        (''systemPreparation'', JBool (gm_systemPreparation m))])"

definition node_order_criterion :: "graph_plan \<Rightarrow> node_plan \<Rightarrow> nat \<Rightarrow> string \<Rightarrow> success_criterion" where
  "node_order_criterion plan node index signal =
    \<lparr>cr_criterionId = ''success:'' @ np_executorId node @ '':'' @ show_nat (index + 1),
     cr_description = signal, cr_required = True, cr_validationKind = VK_evidence,
     cr_metadata = JObj [(''graphExecutionPlanId'', JStr (gp_graphExecutionPlanId plan)),
       (''executorId'', JStr (np_executorId node))]\<rparr>"

definition node_order_from :: "graph_plan \<Rightarrow> node_plan \<Rightarrow> string option \<Rightarrow> string" where
  "node_order_from plan node edgeId =
    (case truthy_text edgeId of
       None \<Rightarrow> np_executorId node
     | Some e \<Rightarrow> (case find (\<lambda>edge. ep_edgeId edge = e) (gp_edgePlans plan) of
         None \<Rightarrow> np_executorId node | Some edge \<Rightarrow> ep_sourceExecutorId edge))"

definition work_order_from_node_plan :: "graph_plan \<Rightarrow> node_plan \<Rightarrow> node_order_input \<Rightarrow> work_order" where
  "work_order_from_node_plan plan node i =
    (let ta = np_taskAnalysis node; planId = gp_graphExecutionPlanId plan; x = np_executorId node;
         confirm = ta_needsUserConfirmation ta
     in build_work_order
       \<lparr>wo_workOrderId = ''work-order:'' @ planId @ '':'' @ x,
        wo_topologyRunId = opt_or (ni_topologyRunId i) (''topology-run:'' @ planId),
        wo_parentWorkOrderId = ni_parentWorkOrderId i,
        wo_fromNodeId = node_order_from plan node (ni_edgeId i),
        wo_to = \<lparr>wt_type = WT_node, wt_id = np_nodeContractId node\<rparr>,
        wo_objective = ta_purpose ta,
        wo_scope = \<lparr>sc_included = ta_goals ta, sc_excluded = ta_failureBoundaries ta\<rparr>,
        wo_input = JObj
          [(''executorGraph'', metadata_to_json (graph_metadata_of plan node i)),
           (''inputNeeds'', JArr (map JStr (ta_inputNeeds ta))),
           (''taskUnits'', JArr (map (\<lambda>u. JObj [(''taskUnitId'', JStr (tu_taskUnitId u)),
              (''title'', JStr (tu_title u)), (''description'', JStr (tu_description u))]) (ta_taskUnits ta)))],
        wo_expectedOutputSchema = JObj
          [(''outputShape'', JStr (ta_outputShape ta)), (''completionCondition'', JStr (ta_completionCondition ta)),
           (''taskAnalysisId'', JStr (ta_analysisId ta))],
        wo_successCriteria = map (\<lambda>(index, signal). node_order_criterion plan node index signal)
          (enumerate 0 (ta_successSignals ta)),
        wo_permissionScope = \<lparr>ps_allowedToolIds = ta_requiredTools ta,
          ps_allowedSystemIds = filter (starts_with ''system:'') (ta_requiredTools ta),
          ps_dataDomainIds = [], ps_riskLevel = Some (if confirm then RL_high else RL_low)\<rparr>,
        wo_authorityScope = \<lparr>as_requiredAuthorityRuleIds =
            (if confirm then [''authority:'' @ x @ '':user-confirmation''] else []),
          as_approvalRequired = (confirm
            \<or> xd_selectedRoute (np_delegationResolution node) = XR_manual_approval),
          as_approvedBy = None\<rparr>,
        wo_failureReportRequired = True,
        wo_delegationPath = [planId, x, xd_selectedTargetId (np_delegationResolution node)],
        wo_createdAt = opt_or (ni_createdAt i) (TStr (gp_createdAt plan))\<rparr>)"

text \<open>\<open>typeof v === "string" ? v : d\<close>\<close>

definition text_or :: "json \<Rightarrow> string \<Rightarrow> string" where
  "text_or v d = (case v of JStr s \<Rightarrow> s | _ \<Rightarrow> d)"

definition read_graph_metadata :: "work_order \<Rightarrow> graph_metadata option" where
  "read_graph_metadata wo =
    (let m = jget (wo_input wo) ''executorGraph'' in
     if \<not> is_record m then None
     else case (jget m ''graphExecutionPlanId'', jget m ''executorId'', jget m ''delegationResolutionId'',
         jget m ''taskAnalysisId'') of
       (JStr planId, JStr executorId, JStr resolutionId, JStr analysisId) \<Rightarrow>
         Some \<lparr>gm_graphExecutionPlanId = planId,
           gm_topologyId = text_or (jget m ''topologyId'') '''',
           gm_workspaceId = text_or (jget m ''workspaceId'') '''',
           gm_executorId = executorId,
           gm_nodeContractId = text_or (jget m ''nodeContractId'') executorId,
           gm_edgeId = (case jget m ''edgeId'' of JStr e \<Rightarrow> Some e | _ \<Rightarrow> None),
           gm_delegationResolutionId = resolutionId,
           gm_taskAnalysisId = analysisId,
           gm_selectedRoute = text_or (jget m ''selectedRoute'') ''nobie_direct'',
           gm_selectedTargetId = text_or (jget m ''selectedTargetId'') ''nobie_direct'',
           gm_systemPreparation = (jget m ''systemPreparation'' = JBool True)\<rparr>
     | _ \<Rightarrow> None)"

definition has_user_result_shape :: "work_order \<Rightarrow> bool" where
  "has_user_result_shape wo \<longleftrightarrow> wo_successCriteria wo \<noteq> []
    \<or> is_string (jget (wo_expectedOutputSchema wo) ''outputShape'')
    \<or> is_string (jget (wo_expectedOutputSchema wo) ''completionCondition'')"

definition assert_visible_user_work_order :: "work_order \<Rightarrow> string + graph_metadata" where
  "assert_visible_user_work_order wo =
    (case read_graph_metadata wo of
       None \<Rightarrow> Inl ''missing_graph_metadata''
     | Some m \<Rightarrow>
         if \<not> non_blank (gm_executorId m) then Inl ''missing_executor_id''
         else if gm_systemPreparation m \<and> has_user_result_shape wo
           then Inl ''system_preparation_user_result_blocked''
         else Inr m)"

lemma truthy_text_idem [simp]: "truthy_text (truthy_text x) = truthy_text x"
  by (simp add: truthy_text_def)

lemma read_metadata_json:
  assumes "jget (wo_input wo) ''executorGraph'' = metadata_to_json m" "gm_edgeId m = truthy_text e"
  shows "read_graph_metadata wo = Some m"
proof -
  have t: "truthy_text (gm_edgeId m) = gm_edgeId m" using assms(2) by simp
  show ?thesis
    unfolding read_graph_metadata_def assms(1) metadata_to_json_def t
    by (cases "gm_edgeId m") (simp_all add: js_lookup_def text_or_def Let_def)
qed

lemma read_work_order_from_node_plan:
  "read_graph_metadata (work_order_from_node_plan plan node i) = Some (graph_metadata_of plan node i)"
  by (rule read_metadata_json[where e = "ni_edgeId i"])
    (simp_all add: work_order_from_node_plan_def graph_metadata_of_def js_lookup_def Let_def)

text \<open>
  C38: A work order built for a node carries its graph metadata: reading it back yields the plan, the
  node, the edge if a non-empty one is given, the resolution, the analysis, the route and the target
  it was built from; and the guard for user-visible work orders lets it pass exactly when the
  executor id is not blank and it is not a system preparation.
\<close>

theorem graph_work_order_roundtrip:
  "read_graph_metadata (work_order_from_node_plan plan node i) = Some (graph_metadata_of plan node i)
   \<and> (assert_visible_user_work_order (work_order_from_node_plan plan node i) = Inr (graph_metadata_of plan node i)
      \<longleftrightarrow> non_blank (np_executorId node) \<and> ni_systemPreparation i \<noteq> Some True)"
proof -
  have "has_user_result_shape (work_order_from_node_plan plan node i)"
    by (simp add: has_user_result_shape_def work_order_from_node_plan_def js_lookup_def Let_def)
  then show ?thesis
    by (simp add: assert_visible_user_work_order_def read_work_order_from_node_plan graph_metadata_of_def)
qed

end
