(* ===== verification/Queue_Backpressure.thy ===== *)
theory Queue_Backpressure
  imports Prelude
begin

text \<open>
  The bounded task queues of the process (\<open>runs/queue-backpressure.ts\<close> under
  \<open>src/packages/core/src\<close>).

  A queue keeps a counter of running jobs and the pending jobs. Every started job is a suspended
  activation of \<open>runJob\<close>, kept as a frame with the budget it was started under, which settles when
  its task resolves, rejects or runs into the time limit; a task that lost against the time limit
  goes on outside the queue. The queues are a step machine: a request enqueues a job, and the
  settling of any frame is the other kind of step, in whatever order the host produces them.
  Budgets are finite numbers. Diagnostic events go to the database and are kept as a list.
\<close>

section \<open>Queues and budgets\<close>

datatype queue_name = QN_fast_receipt | QN_interactive_run | QN_tool_execution | QN_delivery
  | QN_web_browser | QN_memory_index | QN_diagnostic | QN_schedule_tick

fun queue_name_text :: "queue_name \<Rightarrow> string" where
  "queue_name_text QN_fast_receipt = ''fast_receipt''"
| "queue_name_text QN_interactive_run = ''interactive_run''"
| "queue_name_text QN_tool_execution = ''tool_execution''"
| "queue_name_text QN_delivery = ''delivery''"
| "queue_name_text QN_web_browser = ''web_browser''"
| "queue_name_text QN_memory_index = ''memory_index''"
| "queue_name_text QN_diagnostic = ''diagnostic''"
| "queue_name_text QN_schedule_tick = ''schedule_tick''"

definition QUEUE_NAMES :: "queue_name list" where
  "QUEUE_NAMES = [QN_fast_receipt, QN_interactive_run, QN_tool_execution, QN_delivery, QN_web_browser,
     QN_memory_index, QN_diagnostic, QN_schedule_tick]"

record queue_budget =
  qb_concurrency :: int
  qb_timeoutMs :: int
  qb_backoffMs :: int
  qb_maxPending :: int

record budget_override =
  bo_concurrency :: "rat option"
  bo_timeoutMs :: "rat option"
  bo_backoffMs :: "rat option"
  bo_maxPending :: "rat option"

definition budget :: "int \<Rightarrow> int \<Rightarrow> int \<Rightarrow> int \<Rightarrow> queue_budget" where
  "budget c t b m = \<lparr>qb_concurrency = c, qb_timeoutMs = t, qb_backoffMs = b, qb_maxPending = m\<rparr>"

fun default_queue_budget :: "queue_name \<Rightarrow> queue_budget" where
  "default_queue_budget QN_fast_receipt = budget 8 500 0 100"
| "default_queue_budget QN_interactive_run = budget 2 120000 500 50"
| "default_queue_budget QN_tool_execution = budget 4 60000 1000 80"
| "default_queue_budget QN_delivery = budget 3 30000 1500 100"
| "default_queue_budget QN_web_browser = budget 1 20000 2000 10"
| "default_queue_budget QN_memory_index = budget 1 90000 2000 500"
| "default_queue_budget QN_diagnostic = budget 1 30000 1000 20"
| "default_queue_budget QN_schedule_tick = budget 2 30000 1000 200"

text \<open>\<open>Math.max(lo, Math.floor(override ?? base))\<close>\<close>

definition at_least :: "int \<Rightarrow> rat option \<Rightarrow> int \<Rightarrow> int" where
  "at_least lo over base = max lo (case over of None \<Rightarrow> base | Some r \<Rightarrow> \<lfloor>r\<rfloor>)"

definition budget_for :: "queue_name \<Rightarrow> budget_override option \<Rightarrow> queue_budget" where
  "budget_for q over =
    (let base = default_queue_budget q; o1 = (\<lambda>f. Option.bind over f) in
     \<lparr>qb_concurrency = at_least 1 (o1 bo_concurrency) (qb_concurrency base),
      qb_timeoutMs = at_least 1 (o1 bo_timeoutMs) (qb_timeoutMs base),
      qb_backoffMs = at_least 0 (o1 bo_backoffMs) (qb_backoffMs base),
      qb_maxPending = at_least 0 (o1 bo_maxPending) (qb_maxPending base)\<rparr>)"

record queue_job =
  qj_id :: nat
  qj_createdAt :: int
  qj_runId :: "string option"
  qj_requestGroupId :: "string option"
  qj_recoveryKey :: "string option"

datatype queue_event_kind = QE_queued | QE_running | QE_completed | QE_failed | QE_timeout
  | QE_rejected | QE_recovery_scheduled | QE_reset

record queue_event =
  qe_queueName :: queue_name
  qe_kind :: queue_event_kind
  qe_actionTaken :: string
  qe_runId :: "string option"
  qe_requestGroupId :: "string option"
  qe_pendingCount :: nat
  qe_signalCount :: nat
  qe_recoveryKey :: "string option"

text \<open>The state of one queue: the counter and the pending jobs of the code, and the suspended
  activations of \<open>runJob\<close>.\<close>

record queue_state =
  qs_running :: int
  qs_pending :: "queue_job list"
  qs_frames :: "(queue_job \<times> queue_budget) list"

record backpressure =
  bp_queues :: "queue_name \<Rightarrow> queue_state"
  bp_recovery :: "(string, nat \<times> int) jsmap"
  bp_events :: "queue_event list"

definition empty_queue :: queue_state where
  "empty_queue = \<lparr>qs_running = 0, qs_pending = [], qs_frames = []\<rparr>"

definition reset_state :: backpressure where
  "reset_state = \<lparr>bp_queues = (\<lambda>_. empty_queue), bp_recovery = [], bp_events = []\<rparr>"

definition job_event :: "queue_name \<Rightarrow> queue_event_kind \<Rightarrow> string \<Rightarrow> queue_job \<Rightarrow> nat \<Rightarrow> queue_event" where
  "job_event q kind action job pendingCount =
    \<lparr>qe_queueName = q, qe_kind = kind, qe_actionTaken = action, qe_runId = qj_runId job,
     qe_requestGroupId = qj_requestGroupId job, qe_pendingCount = pendingCount, qe_signalCount = 0,
     qe_recoveryKey = qj_recoveryKey job\<rparr>"

section \<open>Running jobs\<close>

text \<open>The synchronous part of \<open>runJob\<close>: count the job and suspend.\<close>

definition start_job :: "queue_name \<Rightarrow> queue_budget \<Rightarrow> queue_job \<Rightarrow> queue_state \<times> queue_event list
    \<Rightarrow> queue_state \<times> queue_event list" where
  "start_job q b job = (\<lambda>(s, ev).
    (s\<lparr>qs_running := qs_running s + 1, qs_frames := qs_frames s @ [(job, b)]\<rparr>,
     ev @ [job_event q QE_running ''dequeue'' job (length (qs_pending s))]))"

text \<open>\<open>runNext\<close>: every turn of the loop takes the first pending job.\<close>

function run_next :: "queue_name \<Rightarrow> queue_budget \<Rightarrow> queue_state \<times> queue_event list
    \<Rightarrow> queue_state \<times> queue_event list" where
  "run_next q b (s, ev) =
    (if qs_running s < qb_concurrency b \<and> qs_pending s \<noteq> [] then
       run_next q b (start_job q b (hd (qs_pending s)) (s\<lparr>qs_pending := tl (qs_pending s)\<rparr>, ev))
     else (s, ev))"
  by pat_completeness auto
termination
  by (relation "measure (\<lambda>(q, b, s, ev). length (qs_pending s))") (auto simp: start_job_def)

declare run_next.simps [simp del]

text \<open>How a frame ends: the task resolved, it rejected, or the time limit fired first.\<close>

datatype settlement = ST_resolved | ST_rejected | ST_timed_out

fun settlement_kind :: "settlement \<Rightarrow> queue_event_kind" where
  "settlement_kind ST_resolved = QE_completed"
| "settlement_kind ST_rejected = QE_failed"
| "settlement_kind ST_timed_out = QE_timeout"

fun settlement_action :: "settlement \<Rightarrow> string" where
  "settlement_action ST_resolved = ''complete''"
| "settlement_action ST_rejected = ''fail''"
| "settlement_action ST_timed_out = ''timeout''"

definition drop_nth :: "nat \<Rightarrow> 'a list \<Rightarrow> 'a list" where
  "drop_nth k xs = take k xs @ drop (Suc k) xs"

text \<open>The rest of \<open>runJob\<close> for the \<open>k\<close>-th frame: record the outcome, release the slot, go on.\<close>

definition settle_frame :: "queue_name \<Rightarrow> nat \<Rightarrow> settlement \<Rightarrow> queue_state \<times> queue_event list
    \<Rightarrow> queue_state \<times> queue_event list" where
  "settle_frame q k outcome = (\<lambda>(s, ev).
    (case qs_frames s ! k of (job, b) \<Rightarrow>
      run_next q b
        (s\<lparr>qs_running := max 0 (qs_running s - 1), qs_frames := drop_nth k (qs_frames s)\<rparr>,
         ev @ [job_event q (settlement_kind outcome) (settlement_action outcome) job (length (qs_pending s))])))"

text \<open>\<open>enqueueBackpressureTask\<close>: \<open>None\<close> when the queue is full.\<close>

definition enqueue_task :: "queue_name \<Rightarrow> budget_override option \<Rightarrow> queue_job \<Rightarrow> queue_state \<times> queue_event list
    \<Rightarrow> bool \<times> queue_state \<times> queue_event list" where
  "enqueue_task q over job = (\<lambda>(s, ev).
    (let b = budget_for q over; pendingCount = length (qs_pending s) in
     if qs_running s \<ge> qb_concurrency b \<and> int pendingCount \<ge> qb_maxPending b then
       (False, s, ev @ [job_event q QE_rejected ''queue_full'' job pendingCount])
     else
       (let s' = s\<lparr>qs_pending := qs_pending s @ [job]\<rparr>;
            queued = job_event q QE_queued
              (if qs_running s' < qb_concurrency b then ''run_immediately'' else ''wait'') job (pendingCount + 1)
        in (True, run_next q b (s', ev @ [queued])))))"

section \<open>The whole store\<close>

definition with_queue :: "queue_name \<Rightarrow> (queue_state \<times> queue_event list \<Rightarrow> queue_state \<times> queue_event list)
    \<Rightarrow> backpressure \<Rightarrow> backpressure" where
  "with_queue q f bp = (case f (bp_queues bp q, bp_events bp) of (s, ev) \<Rightarrow>
     bp\<lparr>bp_queues := (bp_queues bp)(q := s), bp_events := ev\<rparr>)"

definition enqueue_backpressure_task ::
  "queue_name \<Rightarrow> budget_override option \<Rightarrow> queue_job \<Rightarrow> backpressure \<Rightarrow> bool \<times> backpressure" where
  "enqueue_backpressure_task q over job bp =
    (fst (enqueue_task q over job (bp_queues bp q, bp_events bp)),
     with_queue q (\<lambda>x. snd (enqueue_task q over job x)) bp)"

definition settle_backpressure_task :: "queue_name \<Rightarrow> nat \<Rightarrow> settlement \<Rightarrow> backpressure \<Rightarrow> backpressure" where
  "settle_backpressure_task q k outcome = with_queue q (settle_frame q k outcome)"

definition recovery_state_key :: "queue_name \<Rightarrow> string \<Rightarrow> string" where
  "recovery_state_key q key = queue_name_text q @ '':'' @ key"

definition record_queue_recovery_attempt ::
  "queue_name \<Rightarrow> string \<Rightarrow> string option \<Rightarrow> string option \<Rightarrow> int \<Rightarrow> backpressure \<Rightarrow> nat \<times> backpressure" where
  "record_queue_recovery_attempt q key runId requestGroupId now bp =
    (let k = recovery_state_key q key;
         nextCount = fst (js_lookup (bp_recovery bp) k (0, 0)) + 1
     in (nextCount, bp\<lparr>bp_recovery := AList.update k (nextCount, now) (bp_recovery bp),
           bp_events := bp_events bp @ [\<lparr>qe_queueName = q, qe_kind = QE_recovery_scheduled,
             qe_actionTaken = ''recovery_scheduled'', qe_runId = runId, qe_requestGroupId = requestGroupId,
             qe_pendingCount = 0, qe_signalCount = nextCount, qe_recoveryKey = Some key\<rparr>]\<rparr>))"

definition reset_queue_recovery_attempt ::
  "queue_name \<Rightarrow> string \<Rightarrow> string option \<Rightarrow> string option \<Rightarrow> backpressure \<Rightarrow> backpressure" where
  "reset_queue_recovery_attempt q key runId requestGroupId bp =
    bp\<lparr>bp_recovery := AList.delete (recovery_state_key q key) (bp_recovery bp),
       bp_events := bp_events bp @ [\<lparr>qe_queueName = q, qe_kind = QE_reset,
         qe_actionTaken = ''reset_recovery_attempt'', qe_runId = runId, qe_requestGroupId = requestGroupId,
         qe_pendingCount = 0, qe_signalCount = 0, qe_recoveryKey = Some key\<rparr>]\<rparr>"

datatype queue_status = QS_ok | QS_waiting | QS_recovering

record queue_snapshot =
  qp_queueName :: queue_name
  qp_budget :: queue_budget
  qp_running :: int
  qp_pending :: nat
  qp_oldestPendingAgeMs :: int
  qp_recoveryKeys :: nat
  qp_status :: queue_status

text \<open>\<open>oldest ? now - oldest : 0\<close>: a creation time of 0 counts as none.\<close>

definition queue_snapshot :: "backpressure \<Rightarrow> int \<Rightarrow> queue_name \<Rightarrow> queue_snapshot" where
  "queue_snapshot bp now q =
    (let s = bp_queues bp q; b = budget_for q None in
     \<lparr>qp_queueName = q, qp_budget = b, qp_running = qs_running s, qp_pending = length (qs_pending s),
      qp_oldestPendingAgeMs = (case qs_pending s of [] \<Rightarrow> 0
        | job # _ \<Rightarrow> if qj_createdAt job = 0 then 0 else now - qj_createdAt job),
      qp_recoveryKeys = length (filter (starts_with (queue_name_text q @ '':'')) (map fst (bp_recovery bp))),
      qp_status = (if int (length (qs_pending s)) \<ge> qb_maxPending b then QS_recovering
        else if qs_pending s \<noteq> [] then QS_waiting else QS_ok)\<rparr>)"

definition build_queue_backpressure_snapshot :: "backpressure \<Rightarrow> int \<Rightarrow> queue_snapshot list" where
  "build_queue_backpressure_snapshot bp now = map (queue_snapshot bp now) QUEUE_NAMES"

section \<open>What a step does to a queue\<close>

definition slots :: "queue_budget \<Rightarrow> queue_state \<Rightarrow> nat" where
  "slots b s = min (length (qs_pending s)) (nat (qb_concurrency b - qs_running s))"

text \<open>The loop fills the free slots from the front of the pending jobs.\<close>

lemma run_next_closed:
  "fst (run_next q b (s, ev)) =
    (let n = slots b s in
     s\<lparr>qs_running := qs_running s + int n, qs_pending := drop n (qs_pending s),
       qs_frames := qs_frames s @ map (\<lambda>j. (j, b)) (take n (qs_pending s))\<rparr>)"
proof (induction "length (qs_pending s)" arbitrary: s ev)
  case 0
  then show ?case by (simp add: run_next.simps slots_def)
next
  case (Suc m)
  then obtain j js where p: "qs_pending s = j # js" by (cases "qs_pending s") auto
  show ?case
  proof (cases "qs_running s < qb_concurrency b")
    case False
    then show ?thesis by (simp add: run_next.simps slots_def)
  next
    case True
    define s1 where "s1 = s\<lparr>qs_pending := js, qs_running := qs_running s + 1, qs_frames := qs_frames s @ [(j, b)]\<rparr>"
    define ev1 where "ev1 = ev @ [job_event q QE_running ''dequeue'' j (length js)]"
    have r: "run_next q b (s, ev) = run_next q b (s1, ev1)"
      by (subst run_next.simps) (simp add: True p start_job_def s1_def ev1_def)
    have "m = length (qs_pending s1)" using Suc(2) p by (simp add: s1_def)
    from Suc(1)[OF this, of ev1] r
    have IH: "fst (run_next q b (s, ev)) =
      (let n = slots b s1 in s1\<lparr>qs_running := qs_running s1 + int n, qs_pending := drop n (qs_pending s1),
         qs_frames := qs_frames s1 @ map (\<lambda>j. (j, b)) (take n (qs_pending s1))\<rparr>)" by simp
    have "slots b s = Suc (slots b s1)"
      using True p by (simp add: slots_def s1_def min_def) linarith
    with IH p show ?thesis by (simp add: s1_def Let_def)
  qed
qed

lemma run_next_fields:
  "qs_running (fst (run_next q b (s, ev))) = qs_running s + int (slots b s)"
  "qs_pending (fst (run_next q b (s, ev))) = drop (slots b s) (qs_pending s)"
  "qs_frames (fst (run_next q b (s, ev))) = qs_frames s @ map (\<lambda>j. (j, b)) (take (slots b s) (qs_pending s))"
  by (simp_all add: run_next_closed Let_def)

lemma enqueue_task_cases:
  obtains (full) "fst (enqueue_task q over job (s, ev)) = False" "fst (snd (enqueue_task q over job (s, ev))) = s"
      "qb_concurrency (budget_for q over) \<le> qs_running s"
      "qb_maxPending (budget_for q over) \<le> int (length (qs_pending s))"
  | (accepted) ev' where "fst (enqueue_task q over job (s, ev)) = True"
      "fst (snd (enqueue_task q over job (s, ev))) =
         fst (run_next q (budget_for q over) (s\<lparr>qs_pending := qs_pending s @ [job]\<rparr>, ev'))"
      "qs_running s < qb_concurrency (budget_for q over)
         \<or> int (length (qs_pending s)) < qb_maxPending (budget_for q over)"
  by (cases "qs_running s \<ge> qb_concurrency (budget_for q over)
        \<and> int (length (qs_pending s)) \<ge> qb_maxPending (budget_for q over)")
    (auto simp: enqueue_task_def Let_def not_le)

lemma settle_frame_eq:
  assumes "qs_frames s ! k = (job, b)"
  obtains ev' where "fst (settle_frame q k out (s, ev)) = fst (run_next q b
      (s\<lparr>qs_running := max 0 (qs_running s - 1), qs_frames := drop_nth k (qs_frames s)\<rparr>, ev'))"
  using assms by (simp add: settle_frame_def)

lemma length_drop_nth: "k < length xs \<Longrightarrow> length (drop_nth k xs) = length xs - 1"
  by (simp add: drop_nth_def)

lemma mset_drop_nth: "k < length xs \<Longrightarrow> add_mset (xs ! k) (mset (drop_nth k xs)) = mset xs"
  by (metis append_take_drop_id drop_nth_def Cons_nth_drop_Suc mset_append union_mset_add_mset_right mset.simps(2))

lemma set_drop_nth: "set (drop_nth k xs) \<subseteq> set xs"
  by (auto simp: drop_nth_def dest: in_set_takeD in_set_dropD)

lemma budget_for_positive: "1 \<le> qb_concurrency (budget_for q over)" "0 \<le> qb_maxPending (budget_for q over)"
  by (simp_all add: budget_for_def at_least_def Let_def)

section \<open>Reachable states\<close>

text \<open>
  The store after any number of steps, when the requests for queue \<open>q\<close> use overrides from \<open>A q\<close>,
  together with the jobs accepted and the jobs settled so far on one queue \<open>p\<close> under observation.
\<close>

inductive queue_run :: "(queue_name \<Rightarrow> budget_override option set) \<Rightarrow> queue_name
    \<Rightarrow> backpressure \<Rightarrow> queue_job list \<Rightarrow> queue_job list \<Rightarrow> bool" for A p where
  run_start: "queue_run A p reset_state [] []"
| run_enqueue: "queue_run A p bp acc fin \<Longrightarrow> over \<in> A q \<Longrightarrow> enqueue_backpressure_task q over job bp = (ok, bp')
    \<Longrightarrow> queue_run A p bp' (if ok \<and> q = p then acc @ [job] else acc) fin"
| run_settle: "queue_run A p bp acc fin \<Longrightarrow> k < length (qs_frames (bp_queues bp q))
    \<Longrightarrow> settle_backpressure_task q k out bp = bp'
    \<Longrightarrow> queue_run A p bp' acc (if q = p then fin @ [fst (qs_frames (bp_queues bp q) ! k)] else fin)"
| run_recovery: "queue_run A p bp acc fin \<Longrightarrow> record_queue_recovery_attempt q key runId groupId now bp = (signals, bp')
    \<Longrightarrow> queue_run A p bp' acc fin"
| run_reset: "queue_run A p bp acc fin \<Longrightarrow> queue_run A p (reset_queue_recovery_attempt q key runId groupId bp) acc fin"

definition queue_ok :: "(queue_name \<Rightarrow> budget_override option set) \<Rightarrow> queue_name \<Rightarrow> queue_state \<Rightarrow> bool" where
  "queue_ok A q s \<longleftrightarrow> qs_running s = int (length (qs_frames s))
    \<and> (qs_pending s \<noteq> [] \<longrightarrow> qs_frames s \<noteq> [])
    \<and> snd ` set (qs_frames s) \<subseteq> budget_for q ` A q"

lemma run_next_ok:
  assumes "qs_running s = int (length (qs_frames s))" "snd ` set (qs_frames s) \<subseteq> budget_for q ` A q"
    and "b \<in> budget_for q ` A q"
  shows "queue_ok A q (fst (run_next p b (s, ev)))"
proof -
  define n where "n = slots b s"
  have n: "n \<le> length (qs_pending s)" by (simp add: n_def slots_def)
  have "1 \<le> qb_concurrency b" using assms(3) budget_for_positive(1) by auto
  then have "qs_pending s = [] \<or> qs_frames s \<noteq> [] \<or> n > 0"
    using assms(1) by (auto simp: n_def slots_def)
  then show ?thesis
    unfolding queue_ok_def run_next_fields n_def[symmetric] using n assms by auto
qed

lemma queue_ok_enqueue:
  assumes "queue_ok A q s" "over \<in> A q"
  shows "queue_ok A q (fst (snd (enqueue_task q over job (s, ev))))"
proof (cases rule: enqueue_task_cases[of q over job s ev])
  case full
  with assms(1) show ?thesis by simp
next
  case (accepted ev')
  show ?thesis unfolding accepted(2)
    by (rule run_next_ok) (use assms in \<open>auto simp: queue_ok_def\<close>)
qed

lemma settle_ok:
  assumes "queue_ok A q s" "k < length (qs_frames s)" "qs_frames s ! k = (job, b)"
  shows "b \<in> budget_for q ` A q"
  using assms nth_mem[of k "qs_frames s"] by (force simp: queue_ok_def)

lemma queue_ok_settle:
  assumes "queue_ok A q s" "k < length (qs_frames s)"
  shows "queue_ok A q (fst (settle_frame q k out (s, ev)))"
proof -
  obtain job b where jb: "qs_frames s ! k = (job, b)" by fastforce
  obtain ev' where e: "fst (settle_frame q k out (s, ev)) = fst (run_next q b
      (s\<lparr>qs_running := max 0 (qs_running s - 1), qs_frames := drop_nth k (qs_frames s)\<rparr>, ev'))"
    using settle_frame_eq[OF jb] .
  show ?thesis unfolding e
  proof (rule run_next_ok)
    show "b \<in> budget_for q ` A q" using settle_ok[OF assms jb] .
    have "snd ` set (qs_frames s) \<subseteq> budget_for q ` A q"
      using assms(1) by (simp add: queue_ok_def)
    with set_drop_nth[of k "qs_frames s"] show "snd ` set (qs_frames (s\<lparr>qs_running := max 0 (qs_running s - 1),
        qs_frames := drop_nth k (qs_frames s)\<rparr>)) \<subseteq> budget_for q ` A q" by auto
  qed (use assms in \<open>auto simp: queue_ok_def length_drop_nth\<close>)
qed

lemma with_queue_same: "bp_queues (with_queue q f bp) q = fst (f (bp_queues bp q, bp_events bp))"
  by (simp add: with_queue_def split: prod.split)

lemma with_queue_other: "p \<noteq> q \<Longrightarrow> bp_queues (with_queue q f bp) p = bp_queues bp p"
  by (simp add: with_queue_def split: prod.split)

lemma recovery_queues:
  "record_queue_recovery_attempt q key runId groupId now bp = (n, bp') \<Longrightarrow> bp_queues bp' = bp_queues bp"
  "bp_queues (reset_queue_recovery_attempt q key runId groupId bp) = bp_queues bp"
  by (auto simp: record_queue_recovery_attempt_def reset_queue_recovery_attempt_def Let_def)

lemma enqueue_queues:
  assumes "enqueue_backpressure_task q over job bp = (ok, bp')"
  shows "bp_queues bp' q = fst (snd (enqueue_task q over job (bp_queues bp q, bp_events bp)))"
    and "ok = fst (enqueue_task q over job (bp_queues bp q, bp_events bp))"
    and "p \<noteq> q \<Longrightarrow> bp_queues bp' p = bp_queues bp p"
  using assms by (auto simp: enqueue_backpressure_task_def with_queue_same with_queue_other)

text \<open>The counter counts the frames, and a pending job always has a frame that will start it.\<close>

lemma run_queue_ok: "queue_run A p bp acc fin \<Longrightarrow> queue_ok A q (bp_queues bp q)"
proof (induction arbitrary: q rule: queue_run.induct)
  case run_start
  show ?case by (simp add: reset_state_def empty_queue_def queue_ok_def)
next
  case (run_enqueue bp acc fin over q1 job ok bp')
  then show ?case
    by (cases "q = q1") (simp_all add: enqueue_queues queue_ok_enqueue)
next
  case (run_settle bp acc fin k q1 out bp')
  then show ?case
    by (cases "q = q1")
      (auto simp: settle_backpressure_task_def with_queue_same with_queue_other queue_ok_settle)
next
  case run_recovery
  then show ?case by (simp add: recovery_queues(1))
next
  case run_reset
  then show ?case by (simp add: recovery_queues)
qed

text \<open>One budget for the queue: full use and bounded waiting.\<close>

definition queue_bounded :: "queue_budget \<Rightarrow> queue_state \<Rightarrow> bool" where
  "queue_bounded b s \<longleftrightarrow> qs_running s \<le> qb_concurrency b
    \<and> int (length (qs_pending s)) \<le> qb_maxPending b
    \<and> (qs_pending s \<noteq> [] \<longrightarrow> qs_running s = qb_concurrency b)"

lemma run_next_bounded:
  assumes "qs_running s \<le> qb_concurrency b"
    and "int (length (qs_pending s)) \<le> qb_maxPending b + (if qs_running s < qb_concurrency b then 1 else 0)"
    and "0 \<le> qb_maxPending b"
  shows "queue_bounded b (fst (run_next q b (s, ev)))"
proof -
  define m where "m = length (qs_pending s)"
  define free where "free = nat (qb_concurrency b - qs_running s)"
  have "int free = qb_concurrency b - qs_running s" using assms(1) by (simp add: free_def)
  moreover have "slots b s = min m free" by (simp add: slots_def m_def free_def)
  ultimately show ?thesis using assms
    unfolding queue_bounded_def run_next_fields length_drop m_def[symmetric]
    by (auto simp: min_def m_def split: if_splits)
qed

lemma queue_bounded_enqueue:
  assumes "queue_bounded (budget_for q over) s"
  shows "queue_bounded (budget_for q over) (fst (snd (enqueue_task q over job (s, ev))))"
proof (cases rule: enqueue_task_cases[of q over job s ev])
  case full
  with assms show ?thesis by simp
next
  case (accepted ev')
  show ?thesis unfolding accepted(2)
    by (rule run_next_bounded)
      (use accepted(3) assms budget_for_positive(2)[of q over] in \<open>auto simp: queue_bounded_def\<close>)
qed

lemma queue_bounded_settle:
  assumes "queue_bounded (budget_for q over) s" "queue_ok (\<lambda>_. {over}) q s" "k < length (qs_frames s)"
  shows "queue_bounded (budget_for q over) (fst (settle_frame q k out (s, ev)))"
proof -
  obtain job b where jb: "qs_frames s ! k = (job, b)" by fastforce
  then have b: "b = budget_for q over"
    using settle_ok[OF assms(2,3)] by auto
  obtain ev' where e: "fst (settle_frame q k out (s, ev)) = fst (run_next q b
      (s\<lparr>qs_running := max 0 (qs_running s - 1), qs_frames := drop_nth k (qs_frames s)\<rparr>, ev'))"
    using settle_frame_eq[OF jb] .
  show ?thesis unfolding e b
    by (rule run_next_bounded)
      (use assms(1) budget_for_positive[of q over] in \<open>auto simp: queue_bounded_def\<close>)
qed

lemma run_queue_bounded:
  "queue_run A p bp acc fin \<Longrightarrow> A = (\<lambda>_. {over}) \<Longrightarrow> queue_bounded (budget_for q over) (bp_queues bp q)"
proof (induction arbitrary: q rule: queue_run.induct)
  case run_start
  show ?case using budget_for_positive[of q over]
    by (simp add: reset_state_def empty_queue_def queue_bounded_def)
next
  case (run_enqueue bp acc fin over1 q1 job ok bp')
  then show ?case
    by (cases "q = q1") (simp_all add: enqueue_queues queue_bounded_enqueue)
next
  case (run_settle bp acc fin k q1 out bp')
  then have "queue_ok (\<lambda>_. {over}) q1 (bp_queues bp q1)" using run_queue_ok by blast
  with run_settle show ?case
    by (cases "q = q1")
      (auto simp: settle_backpressure_task_def with_queue_same with_queue_other queue_bounded_settle)
next
  case run_recovery
  then show ?case by (simp add: recovery_queues(1))
next
  case run_reset
  then show ?case by (simp add: recovery_queues)
qed

section \<open>Every accepted job, once and in order\<close>

definition queue_history :: "queue_job list \<Rightarrow> queue_job list \<Rightarrow> queue_state \<Rightarrow> bool" where
  "queue_history acc fin s \<longleftrightarrow>
    (\<exists>started. acc = started @ qs_pending s \<and> mset started = mset fin + mset (map fst (qs_frames s)))"

lemma run_next_history:
  assumes "acc = started @ qs_pending s" "mset started = mset fin + mset (map fst (qs_frames s))"
  shows "queue_history acc fin (fst (run_next q b (s, ev)))"
  unfolding queue_history_def run_next_fields
  by (rule exI[of _ "started @ take (slots b s) (qs_pending s)"]) (simp add: assms comp_def)

lemma run_queue_history: "queue_run A p bp acc fin \<Longrightarrow> queue_history acc fin (bp_queues bp p)"
proof (induction rule: queue_run.induct)
  case run_start
  show ?case by (simp add: reset_state_def empty_queue_def queue_history_def)
next
  case (run_enqueue bp acc fin over q job ok bp')
  show ?case
  proof (cases "q = p")
    case False
    with run_enqueue show ?thesis by (auto simp: enqueue_queues)
  next
    case True
    show ?thesis
    proof (cases rule: enqueue_task_cases[of p over job "bp_queues bp p" "bp_events bp"])
      case full
      with enqueue_queues[OF run_enqueue.hyps(3)] run_enqueue.IH True show ?thesis by simp
    next
      case (accepted ev')
      from run_enqueue.IH obtain started where "acc = started @ qs_pending (bp_queues bp p)"
          "mset started = mset fin + mset (map fst (qs_frames (bp_queues bp p)))"
        by (auto simp: queue_history_def)
      with enqueue_queues(1,2)[OF run_enqueue.hyps(3)] True accepted show ?thesis
        by simp (rule run_next_history, simp_all)
    qed
  qed
next
  case (run_settle bp acc fin k q out bp')
  show ?case
  proof (cases "q = p")
    case False
    with run_settle show ?thesis by (auto simp: settle_backpressure_task_def with_queue_other)
  next
    case True
    let ?s = "bp_queues bp p"
    obtain job b where jb: "qs_frames ?s ! k = (job, b)" by fastforce
    from run_settle.IH obtain started where h: "acc = started @ qs_pending ?s"
        "mset started = mset fin + mset (map fst (qs_frames ?s))"
      by (auto simp: queue_history_def)
    have "add_mset (job, b) (mset (drop_nth k (qs_frames ?s))) = mset (qs_frames ?s)"
      using mset_drop_nth[of k "qs_frames ?s"] run_settle True jb by simp
    from arg_cong[OF this, of "image_mset fst"]
    have m: "add_mset job (image_mset fst (mset (drop_nth k (qs_frames ?s)))) = image_mset fst (mset (qs_frames ?s))"
      by simp
    from run_settle True have s': "bp_queues bp' p = fst (settle_frame p k out (?s, bp_events bp))"
      by (auto simp: settle_backpressure_task_def with_queue_same)
    obtain ev' where e: "fst (settle_frame p k out (?s, bp_events bp)) = fst (run_next p b
        (?s\<lparr>qs_running := max 0 (qs_running ?s - 1), qs_frames := drop_nth k (qs_frames ?s)\<rparr>, ev'))"
      using settle_frame_eq[OF jb] .
    have "queue_history acc (fin @ [job]) (bp_queues bp' p)" unfolding s' e
      by (rule run_next_history[of _ started]) (use h m[symmetric] in simp_all)
    with True jb show ?thesis by simp
  qed
next
  case run_recovery
  then show ?case by (simp add: recovery_queues(1))
next
  case run_reset
  then show ?case by (simp add: recovery_queues)
qed

section \<open>Draining\<close>

text \<open>One frame of a queue settles; which one and how is up to the host.\<close>

definition settle_some :: "(backpressure \<Rightarrow> nat \<times> settlement) \<Rightarrow> queue_name \<Rightarrow> backpressure \<Rightarrow> backpressure" where
  "settle_some pick q bp =
    (case pick bp of (k, out) \<Rightarrow>
      settle_backpressure_task q (k mod length (qs_frames (bp_queues bp q))) out bp)"

definition unsettled :: "queue_name \<Rightarrow> backpressure \<Rightarrow> nat" where
  "unsettled q bp = length (qs_pending (bp_queues bp q)) + length (qs_frames (bp_queues bp q))"

lemma settle_unsettled:
  assumes "k < length (qs_frames (bp_queues bp q))"
  shows "unsettled q (settle_backpressure_task q k out bp) = unsettled q bp - 1"
proof -
  let ?s = "bp_queues bp q"
  obtain job b where jb: "qs_frames ?s ! k = (job, b)" by fastforce
  obtain ev' where e: "fst (settle_frame q k out (?s, bp_events bp)) = fst (run_next q b
      (?s\<lparr>qs_running := max 0 (qs_running ?s - 1), qs_frames := drop_nth k (qs_frames ?s)\<rparr>, ev'))"
    using settle_frame_eq[OF jb] .
  show ?thesis using assms
    by (simp add: unsettled_def settle_backpressure_task_def with_queue_same e run_next_fields
        length_drop_nth slots_def)
qed

lemma settle_some_run:
  assumes "queue_run A p bp acc fin" "unsettled p bp \<noteq> 0"
  shows "unsettled p (settle_some pick p bp) = unsettled p bp - 1
    \<and> (\<exists>fin'. queue_run A p (settle_some pick p bp) acc fin')"
proof -
  obtain k out where k: "pick bp = (k, out)" by fastforce
  have "qs_frames (bp_queues bp p) \<noteq> []"
    using run_queue_ok[OF assms(1), of p] assms(2) by (auto simp: queue_ok_def unsettled_def)
  then have "k mod length (qs_frames (bp_queues bp p)) < length (qs_frames (bp_queues bp p))" by simp
  with settle_unsettled[OF this, of out] run_settle[OF assms(1) this refl, of out] k
  show ?thesis by (auto simp: settle_some_def)
qed

lemma drain_run:
  "queue_run A p bp acc fin \<Longrightarrow> unsettled p bp = n
    \<Longrightarrow> unsettled p ((settle_some pick p ^^ n) bp) = 0
      \<and> (\<exists>fin'. queue_run A p ((settle_some pick p ^^ n) bp) acc fin')"
proof (induction n arbitrary: bp fin)
  case (Suc n)
  from settle_some_run[OF Suc.prems(1), of pick] Suc.prems(2) obtain fin' where
    "unsettled p (settle_some pick p bp) = n" "queue_run A p (settle_some pick p bp) acc fin'" by auto
  from Suc.IH[OF this(2,1)] show ?case by (simp add: funpow_swap1)
qed auto

section \<open>Properties\<close>

text \<open>
  C31: Bounds of a queue whose requests all use the same budget, in every reachable state: at most
  \<open>concurrency\<close> jobs run, at most \<open>maxPending\<close> wait, jobs wait only while all slots are taken, and the
  counter of the code is the number of jobs that are running.
\<close>

theorem queue_bounds:
  assumes "queue_run (\<lambda>_. {over}) p bp accepted settled"
  shows "qs_running (bp_queues bp q) \<le> qb_concurrency (budget_for q over)
    \<and> int (length (qs_pending (bp_queues bp q))) \<le> qb_maxPending (budget_for q over)
    \<and> (qs_pending (bp_queues bp q) = [] \<or> qs_running (bp_queues bp q) = qb_concurrency (budget_for q over))
    \<and> qs_running (bp_queues bp q) = int (length (qs_frames (bp_queues bp q)))"
  using run_queue_bounded[OF assms refl, of q] run_queue_ok[OF assms, of q]
  by (auto simp: queue_bounded_def queue_ok_def)

text \<open>
  C32: Whatever budgets the requests override, and in whatever order jobs settle, a queue keeps every
  accepted job exactly once: the accepted jobs are, in this order, those started and those pending,
  and the started ones are those settled and those running. Rejected requests leave no trace in it.
\<close>

theorem queue_exactly_once:
  assumes "queue_run A p bp accepted settled"
  shows "\<exists>started. accepted = started @ qs_pending (bp_queues bp p)
    \<and> mset started = mset settled + mset (map fst (qs_frames (bp_queues bp p)))"
  using run_queue_history[OF assms] by (simp add: queue_history_def)

text \<open>
  C30: No job is forgotten: from every reachable state, after as many settlements as there are
  pending and running jobs, in whatever order and with whatever outcomes, time-outs and failures
  included, the queue is empty and exactly the accepted jobs have settled.
\<close>

theorem queue_drains:
  assumes "queue_run A p bp accepted settled"
  shows "let bp' = (settle_some pick p ^^ unsettled p bp) bp in
    qs_pending (bp_queues bp' p) = [] \<and> qs_running (bp_queues bp' p) = 0
    \<and> (\<exists>settled'. queue_run A p bp' accepted settled' \<and> mset settled' = mset accepted)"
proof -
  let ?bp' = "(settle_some pick p ^^ unsettled p bp) bp"
  from drain_run[OF assms refl, of pick] obtain fin' where
    e: "unsettled p ?bp' = 0" and r: "queue_run A p ?bp' accepted fin'" by auto
  then have n: "qs_pending (bp_queues ?bp' p) = []" "qs_frames (bp_queues ?bp' p) = []"
    by (auto simp: unsettled_def)
  with run_queue_ok[OF r, of p] run_queue_history[OF r] r show ?thesis
    by (auto simp: queue_ok_def queue_history_def Let_def intro!: exI[of _ fin'])
qed

definition sample_job :: "nat \<Rightarrow> queue_job" where
  "sample_job n = \<lparr>qj_id = n, qj_createdAt = 1, qj_runId = None, qj_requestGroupId = None, qj_recoveryKey = None\<rparr>"

text \<open>Three requests on the browser queue, which runs one job at a time; then the first times out.\<close>

definition sample_store :: backpressure where
  "sample_store = settle_backpressure_task QN_web_browser 0 ST_timed_out
    (snd (enqueue_backpressure_task QN_web_browser None (sample_job 3)
      (snd (enqueue_backpressure_task QN_web_browser None (sample_job 2)
        (snd (enqueue_backpressure_task QN_web_browser None (sample_job 1) reset_state))))))"

lemma sample_store_values:
  "map qj_id (qs_pending (bp_queues sample_store QN_web_browser)) = [3]"
  "map (qj_id \<circ> fst) (qs_frames (bp_queues sample_store QN_web_browser)) = [2]"
  by code_simp+

lemma sample_run:
  "\<exists>accepted settled. queue_run (\<lambda>_. {None}) QN_web_browser sample_store accepted settled \<and> length accepted = 3"
proof -
  let ?A = "\<lambda>_. {None}" and ?q = QN_web_browser
  define e1 where "e1 = enqueue_backpressure_task ?q None (sample_job 1) reset_state"
  define e2 where "e2 = enqueue_backpressure_task ?q None (sample_job 2) (snd e1)"
  define e3 where "e3 = enqueue_backpressure_task ?q None (sample_job 3) (snd e2)"
  have ok: "fst e1" "fst e2" "fst e3" "0 < length (qs_frames (bp_queues (snd e3) ?q))"
    unfolding e1_def e2_def e3_def by code_simp+
  from run_enqueue[OF run_start, of None ?A ?q "sample_job 1" "fst e1" "snd e1" ?q] ok(1)
  have "queue_run ?A ?q (snd e1) [sample_job 1] []" by (simp add: e1_def)
  from run_enqueue[OF this, of None ?q "sample_job 2" "fst e2" "snd e2"] ok(2)
  have "queue_run ?A ?q (snd e2) [sample_job 1, sample_job 2] []" by (simp add: e2_def)
  from run_enqueue[OF this, of None ?q "sample_job 3" "fst e3" "snd e3"] ok(3)
  have "queue_run ?A ?q (snd e3) [sample_job 1, sample_job 2, sample_job 3] []" by (simp add: e3_def)
  from run_settle[OF this ok(4) refl, of ST_timed_out]
  show ?thesis by (force simp: sample_store_def e1_def e2_def e3_def)
qed

theorem queue_bounds_witness:
  "qs_running (bp_queues sample_store QN_web_browser) \<le> 1
   \<and> length (qs_pending (bp_queues sample_store QN_web_browser)) \<le> 10"
proof -
  obtain accepted settled where "queue_run (\<lambda>_. {None}) QN_web_browser sample_store accepted settled"
    using sample_run by blast
  from queue_bounds[OF this, of QN_web_browser] show ?thesis
    by (simp add: budget_for_def at_least_def budget_def)
qed

theorem queue_exactly_once_witness:
  "\<exists>accepted settled started. length accepted = 3
    \<and> accepted = started @ qs_pending (bp_queues sample_store QN_web_browser)
    \<and> mset started = mset settled + mset (map fst (qs_frames (bp_queues sample_store QN_web_browser)))"
proof -
  obtain accepted settled where r: "queue_run (\<lambda>_. {None}) QN_web_browser sample_store accepted settled"
      and l: "length accepted = 3"
    using sample_run by blast
  from queue_exactly_once[OF r] l show ?thesis by blast
qed

theorem queue_drains_witness:
  "qs_pending (bp_queues ((settle_some (\<lambda>_. (0, ST_rejected)) QN_web_browser
      ^^ unsettled QN_web_browser sample_store) sample_store) QN_web_browser) = []"
proof -
  obtain accepted settled where "queue_run (\<lambda>_. {None}) QN_web_browser sample_store accepted settled"
    using sample_run by blast
  from queue_drains[OF this, of "\<lambda>_. (0, ST_rejected)"] show ?thesis by (simp add: Let_def)
qed

end
