(* ===== verification/Calendar.thy ===== *)
theory Calendar
  imports Prelude
begin

text \<open>
  Local dates as the \<open>Date\<close> object of JavaScript computes them: the proleptic Gregorian calendar by
  day numbers since 1970-01-01, the setters that normalise overflowing months, days, hours and
  minutes, and the facts about successive months that the scheduler relies on.

  A point in time is the number of its minute, or of its millisecond, in local time; the local zone
  has a fixed offset, so that local time and instants are ordered alike.
\<close>

section \<open>Years\<close>

definition leap_year :: "int \<Rightarrow> bool" where
  "leap_year y \<longleftrightarrow> (4 dvd y \<and> \<not> 100 dvd y) \<or> 400 dvd y"

definition day_from_year :: "int \<Rightarrow> int" where
  "day_from_year y = 365 * (y - 1970) + (y - 1969) div 4 - (y - 1901) div 100 + (y - 1601) div 400"

definition year_from_day :: "int \<Rightarrow> int" where
  "year_from_day d =
    (let y = 1970 + (400 * d) div 146097 in
     if d < day_from_year y then y - 1
     else if day_from_year (y + 1) \<le> d then y + 1 else y)"

lemma div_bounds: "k * (x div k) \<le> x" "x \<le> k * (x div k) + k - 1" if "0 < k" for x k :: int
  using pos_mod_bound[OF that, of x] pos_mod_sign[OF that, of x] minus_mod_eq_mult_div[of x k]
  by linarith+

lemma div_step: "(x + 1) div k = x div k + (if k dvd x + 1 then 1 else 0)" if "0 < k" for x k :: int
proof (cases "x mod k = k - 1")
  case True
  then have "x + 1 = k * (x div k + 1)"
    using minus_mod_eq_mult_div[of x k] by (simp add: distrib_left)
  with that show ?thesis by (metis dvd_triv_left nonzero_mult_div_cancel_left order_less_irrefl)
next
  case False
  define r where "r = x mod k + 1"
  have r: "x + 1 = k * (x div k) + r" "0 < r" "r < k"
    using False pos_mod_bound[OF that, of x] pos_mod_sign[OF that, of x] minus_mod_eq_mult_div[of x k]
    by (auto simp: r_def)
  then have "(x + 1) div k = x div k" using int_div_pos_eq[of "x + 1" k "x div k" r] by simp
  moreover have "\<not> k dvd x + 1"
    using r by (metis dvd_add_right_iff dvd_triv_left zdvd_not_zless)
  ultimately show ?thesis by simp
qed

lemma day_from_year_Suc:
  "day_from_year (y + 1) = day_from_year y + (if leap_year y then 366 else 365)"
proof -
  have "(y + 1 - 1969) div 4 = (y - 1969) div 4 + (if 4 dvd y - 1968 then 1 else 0)"
    using div_step[of 4 "y - 1969"] by (simp add: algebra_simps)
  moreover have "(y + 1 - 1901) div 100 = (y - 1901) div 100 + (if 100 dvd y - 1900 then 1 else 0)"
    using div_step[of 100 "y - 1901"] by (simp add: algebra_simps)
  moreover have "(y + 1 - 1601) div 400 = (y - 1601) div 400 + (if 400 dvd y - 1600 then 1 else 0)"
    using div_step[of 400 "y - 1601"] by (simp add: algebra_simps)
  moreover have "4 dvd y - 1968 \<longleftrightarrow> 4 dvd y" "100 dvd y - 1900 \<longleftrightarrow> 100 dvd y" "400 dvd y - 1600 \<longleftrightarrow> 400 dvd y"
    by (simp_all add: dvd_diff_left_iff)
  moreover have "400 dvd y \<Longrightarrow> 100 dvd y" "100 dvd y \<Longrightarrow> 4 dvd y"
    by (erule dvd_trans[rotated], simp)+
  ultimately show ?thesis by (auto simp: day_from_year_def leap_year_def)
qed

text \<open>The years have 146097 days in 400, up to less than two days.\<close>

lemma day_from_year_bounds:
  "400 * day_from_year y \<le> 146097 * (y - 1970) + 600"
  "146097 * (y - 1970) - 600 \<le> 400 * day_from_year y"
proof -
  define a b c where "a = (y - 1969) div 4" and "b = (y - 1901) div 100" and "c = (y - 1601) div 400"
  have "4 * a \<le> y - 1969" "y - 1969 \<le> 4 * a + 3" "100 * b \<le> y - 1901" "y - 1901 \<le> 100 * b + 99"
    "400 * c \<le> y - 1601" "y - 1601 \<le> 400 * c + 399"
    using div_bounds[of 4 "y - 1969"] div_bounds[of 100 "y - 1901"] div_bounds[of 400 "y - 1601"]
    unfolding a_def b_def c_def by linarith+
  then show "400 * day_from_year y \<le> 146097 * (y - 1970) + 600"
    "146097 * (y - 1970) - 600 \<le> 400 * day_from_year y"
    unfolding day_from_year_def a_def[symmetric] b_def[symmetric] c_def[symmetric]
    by (simp_all add: algebra_simps)
qed

lemma year_from_day_bounds:
  "day_from_year (year_from_day d) \<le> d" "d < day_from_year (year_from_day d + 1)"
proof -
  define q where "q = (400 * d) div 146097"
  have q: "146097 * q \<le> 400 * d" "400 * d \<le> 146097 * q + 146096"
    using div_bounds[of 146097 "400 * d"] unfolding q_def by linarith+
  have lo: "day_from_year (1970 + q - 1) \<le> d"
    using day_from_year_bounds(1)[of "1970 + q - 1"] q by (simp add: algebra_simps)
  have hi: "d < day_from_year (1970 + q + 1 + 1)"
    using day_from_year_bounds(2)[of "1970 + q + 1 + 1"] q by (simp add: algebra_simps)
  show "day_from_year (year_from_day d) \<le> d" "d < day_from_year (year_from_day d + 1)"
    using lo hi unfolding year_from_day_def q_def[symmetric] Let_def
    by (auto simp: add.commute)
qed

lemma day_from_year_mono: "y \<le> z \<Longrightarrow> day_from_year y \<le> day_from_year z"
proof (induction z rule: int_ge_induct)
  case (step z)
  then show ?case using day_from_year_Suc[of z] by (simp split: if_splits)
qed simp

lemma year_from_day_unique:
  assumes "day_from_year y \<le> d" "d < day_from_year (y + 1)"
  shows "year_from_day d = y"
proof (rule ccontr)
  assume "year_from_day d \<noteq> y"
  then consider "year_from_day d + 1 \<le> y" | "y + 1 \<le> year_from_day d" by linarith
  then show False
    using year_from_day_bounds[of d] assms day_from_year_mono by cases fastforce+
qed

section \<open>Months\<close>

text \<open>Months count from 0, as \<open>getMonth\<close> does.\<close>

definition month_start :: "bool \<Rightarrow> int \<Rightarrow> int" where
  "month_start leap m =
    (let l = (if leap then 1 else 0) in
     if m \<le> 0 then 0 else if m = 1 then 31 else if m = 2 then 59 + l else if m = 3 then 90 + l
     else if m = 4 then 120 + l else if m = 5 then 151 + l else if m = 6 then 181 + l
     else if m = 7 then 212 + l else if m = 8 then 243 + l else if m = 9 then 273 + l
     else if m = 10 then 304 + l else if m = 11 then 334 + l else 365 + l)"

definition month_from_day_in_year :: "bool \<Rightarrow> int \<Rightarrow> int" where
  "month_from_day_in_year leap n =
    (if n < month_start leap 1 then 0 else if n < month_start leap 2 then 1
     else if n < month_start leap 3 then 2 else if n < month_start leap 4 then 3
     else if n < month_start leap 5 then 4 else if n < month_start leap 6 then 5
     else if n < month_start leap 7 then 6 else if n < month_start leap 8 then 7
     else if n < month_start leap 9 then 8 else if n < month_start leap 10 then 9
     else if n < month_start leap 11 then 10 else 11)"

definition month_from_day :: "int \<Rightarrow> int" where
  "month_from_day d = month_from_day_in_year (leap_year (year_from_day d)) (d - day_from_year (year_from_day d))"

definition date_from_day :: "int \<Rightarrow> int" where
  "date_from_day d = d - day_from_year (year_from_day d)
     - month_start (leap_year (year_from_day d)) (month_from_day d) + 1"

text \<open>\<open>getDay\<close>: 1970-01-01 was a Thursday.\<close>

definition weekday_from_day :: "int \<Rightarrow> int" where
  "weekday_from_day d = (d + 4) mod 7"

text \<open>\<open>MakeDay\<close>: months and days out of range carry over.\<close>

definition make_day :: "int \<Rightarrow> int \<Rightarrow> int \<Rightarrow> int" where
  "make_day y m dt =
    (let ym = y + m div 12; mn = m mod 12
     in day_from_year ym + month_start (leap_year ym) mn + dt - 1)"

lemma day_in_year:
  "0 \<le> d - day_from_year (year_from_day d)"
  "d - day_from_year (year_from_day d) < month_start (leap_year (year_from_day d)) 12"
  using year_from_day_bounds[of d] day_from_year_Suc[of "year_from_day d"]
  by (auto simp: month_start_def)

lemma month_in_year_bounds:
  assumes "0 \<le> n" "n < month_start leap 12"
  shows "0 \<le> month_from_day_in_year leap n" "month_from_day_in_year leap n \<le> 11"
    "month_start leap (month_from_day_in_year leap n) \<le> n"
    "n < month_start leap (month_from_day_in_year leap n + 1)"
  using assms by (auto simp: month_from_day_in_year_def month_start_def Let_def)

lemmas month_from_day_bounds = month_in_year_bounds[OF day_in_year, folded month_from_day_def]

text \<open>The first day of the month of a day, and of the next month.\<close>

definition month_first :: "int \<Rightarrow> int" where
  "month_first d = make_day (year_from_day d) (month_from_day d) 1"

definition next_month_first :: "int \<Rightarrow> int" where
  "next_month_first d = make_day (year_from_day d) (month_from_day d + 1) 1"

lemma make_day_month:
  "0 \<le> m \<Longrightarrow> m \<le> 11 \<Longrightarrow> make_day y m dt = day_from_year y + month_start (leap_year y) m + dt - 1"
  by (simp add: make_day_def div_pos_pos_trivial)

lemma make_day_next_month:
  assumes "0 \<le> m" "m \<le> 11"
  shows "make_day y (m + 1) dt = day_from_year y + month_start (leap_year y) (m + 1) + dt - 1"
proof (cases "m = 11")
  case True
  then show ?thesis
    by (simp add: make_day_def month_start_def day_from_year_Suc)
next
  case False
  with assms show ?thesis by (intro make_day_month) auto
qed

lemma date_bounds: "1 \<le> date_from_day d"
  "make_day (year_from_day d) (month_from_day d) (date_from_day d) = d"
  using month_from_day_bounds[of d]
  by (auto simp: date_from_day_def make_day_month)

lemma month_first_bounds: "month_first d \<le> d" "d < next_month_first d"
  using month_from_day_bounds[of d]
  by (auto simp: month_first_def next_month_first_def make_day_month make_day_next_month)

section \<open>Days of one month\<close>

lemma month_cases:
  fixes m :: int assumes "0 \<le> m" "m \<le> 11"
  shows "m = 0 \<or> m = 1 \<or> m = 2 \<or> m = 3 \<or> m = 4 \<or> m = 5 \<or> m = 6 \<or> m = 7 \<or> m = 8 \<or> m = 9 \<or> m = 10 \<or> m = 11"
  using assms by arith

lemma month_length:
  assumes "0 \<le> m" "m \<le> 11"
  shows "month_start l m + 28 \<le> month_start l (m + 1)" "month_start l (m + 1) \<le> month_start l m + 31"
  using month_cases[OF assms] by (elim disjE; simp add: month_start_def)+

lemma month_start_less: "0 \<le> m \<Longrightarrow> m \<le> 11 \<Longrightarrow> month_start l m < month_start l (m + 1)"
  using month_length(1)[of m l] by simp

lemma month_start_mono: "m \<le> n \<Longrightarrow> month_start l m \<le> month_start l n"
proof (induction n rule: int_ge_induct)
  case (step n)
  have "month_start l n \<le> month_start l (n + 1)"
  proof (cases "0 \<le> n \<and> n \<le> 11")
    case True
    then show ?thesis using month_start_less[of n l] by simp
  qed (auto simp: month_start_def)
  with step show ?case by simp
qed simp

lemma month_in_year_unique:
  assumes "0 \<le> m" "m \<le> 11" "month_start l m \<le> n" "n < month_start l (m + 1)"
  shows "month_from_day_in_year l n = m"
proof -
  have n: "0 \<le> n" "n < month_start l 12"
    using assms month_start_mono[of 0 m l] month_start_mono[of "m + 1" 12 l] by (auto simp: month_start_def)
  define k where "k = month_from_day_in_year l n"
  have k: "month_start l k \<le> n" "n < month_start l (k + 1)"
    using month_in_year_bounds(3,4)[OF n] by (simp_all add: k_def)
  show ?thesis
  proof (rule ccontr)
    assume "month_from_day_in_year l n \<noteq> m"
    then consider "k + 1 \<le> m" | "m + 1 \<le> k" by (fold k_def) linarith
    then show False
      using k assms(3,4) month_start_mono[of "k + 1" m l] month_start_mono[of "m + 1" k l] by cases simp_all
  qed
qed

lemma make_day_fields:
  assumes "0 \<le> m" "m \<le> 11" "1 \<le> dt" "month_start (leap_year y) m + dt - 1 < month_start (leap_year y) (m + 1)"
  shows "year_from_day (make_day y m dt) = y" "month_from_day (make_day y m dt) = m"
    "date_from_day (make_day y m dt) = dt"
proof -
  let ?d = "make_day y m dt"
  have d: "?d = day_from_year y + month_start (leap_year y) m + dt - 1"
    using assms by (simp add: make_day_month)
  have "0 \<le> month_start (leap_year y) m" by (auto simp: month_start_def Let_def)
  moreover have "month_start (leap_year y) (m + 1) \<le> (if leap_year y then 366 else 365)"
    by (auto simp: month_start_def Let_def)
  ultimately have "day_from_year y \<le> ?d" "?d < day_from_year (y + 1)"
    using assms d day_from_year_Suc[of y] by linarith+
  then show y: "year_from_day ?d = y" by (rule year_from_day_unique)
  show m: "month_from_day ?d = m" unfolding month_from_day_def y
    by (rule month_in_year_unique) (use assms d in auto)
  show "date_from_day ?d = dt" unfolding date_from_day_def y m using d by simp
qed

lemma first_fields:
  assumes "0 \<le> m" "m \<le> 11"
  shows "year_from_day (make_day y m 1) = y" "month_from_day (make_day y m 1) = m"
    "date_from_day (make_day y m 1) = 1"
  using make_day_fields[OF assms, of 1 y] month_start_less[OF assms, of "leap_year y"] by simp_all

lemma next_month_first_eq:
  "next_month_first d = (if month_from_day d = 11 then make_day (year_from_day d + 1) 0 1
     else make_day (year_from_day d) (month_from_day d + 1) 1)"
  by (auto simp: next_month_first_def make_day_def)

lemma next_month_first_date: "date_from_day (next_month_first d) = 1"
  using month_from_day_bounds[of d] by (auto simp: next_month_first_eq intro!: first_fields)

lemma date_month_first: "date_from_day d = d - month_first d + 1"
  using month_from_day_bounds[of d] by (simp add: date_from_day_def month_first_def make_day_month)

lemma same_month:
  assumes "month_first d \<le> e" "e < next_month_first d"
  shows "year_from_day e = year_from_day d" "month_from_day e = month_from_day d"
    "month_first e = month_first d"
proof -
  define dt where "dt = e - month_first d + 1"
  let ?y = "year_from_day d" and ?m = "month_from_day d"
  have "e = make_day ?y ?m dt" "1 \<le> dt"
      "month_start (leap_year ?y) ?m + dt - 1 < month_start (leap_year ?y) (?m + 1)"
    using assms month_from_day_bounds[of d]
    by (auto simp: dt_def month_first_def next_month_first_def make_day_month make_day_next_month)
  with make_day_fields[of ?m dt ?y] month_from_day_bounds[of d]
  show "year_from_day e = ?y" "month_from_day e = ?m" by simp_all
  then show "month_first e = month_first d" by (simp add: month_first_def)
qed

text \<open>A day of a later month has its first day no earlier than the first of the next month.\<close>

lemma later_month_first:
  assumes "next_month_first d \<le> e" shows "next_month_first d \<le> month_first e"
proof (rule ccontr)
  assume "\<not> next_month_first d \<le> month_first e"
  then have "month_first e < next_month_first d" by simp
  moreover have "next_month_first d < next_month_first e"
    using assms month_first_bounds(2)[of e] by simp
  ultimately have "month_first (next_month_first d) = month_first e"
    by (intro same_month(3)) simp_all
  with date_month_first[of "next_month_first d"] next_month_first_date[of d]
    \<open>month_first e < next_month_first d\<close> show False by simp
qed

text \<open>Every month has at least 28 days.\<close>

lemma next_month_length: "month_first d + 28 \<le> next_month_first d" "next_month_first d \<le> month_first d + 31"
proof -
  have m: "0 \<le> month_from_day d" "month_from_day d \<le> 11" using month_from_day_bounds[of d] by auto
  define l where "l = leap_year (year_from_day d)"
  have "month_start l (month_from_day d) + 28 \<le> month_start l (month_from_day d + 1)"
    "month_start l (month_from_day d + 1) \<le> month_start l (month_from_day d) + 31"
    using month_length[OF m] by simp_all
  with m show "month_first d + 28 \<le> next_month_first d" "next_month_first d \<le> month_first d + 31"
    by (simp_all add: month_first_def next_month_first_def make_day_month make_day_next_month l_def)
qed

text \<open>\<open>d.setMonth(d.getMonth() + 1); d.setDate(1)\<close>: the first of the next month, or of the one
  after it when the day of the month does not exist in the next.\<close>

definition skip_month :: "int \<Rightarrow> int" where
  "skip_month d =
    (let e = make_day (year_from_day d) (month_from_day d + 1) (date_from_day d)
     in make_day (year_from_day e) (month_from_day e) 1)"

lemma skip_month_eq: "skip_month d = month_first (next_month_first d + date_from_day d - 1)"
  using month_from_day_bounds[of d]
  by (simp add: skip_month_def month_first_def next_month_first_def make_day_next_month Let_def)

lemma skip_month_later: "next_month_first d \<le> skip_month d" "d < skip_month d"
proof -
  show "next_month_first d \<le> skip_month d" unfolding skip_month_eq
    by (rule later_month_first) (use date_bounds(1)[of d] in simp)
  with month_first_bounds(2)[of d] show "d < skip_month d" by simp
qed

lemma skip_month_short:
  assumes "date_from_day d \<le> next_month_first (next_month_first d) - next_month_first d" shows "skip_month d = next_month_first d"
proof -
  let ?f = "next_month_first d"
  have f: "month_first ?f = ?f"
    using date_month_first[of ?f] next_month_first_date[of d] by simp
  have "month_first (?f + date_from_day d - 1) = month_first ?f"
    by (rule same_month(3)) (use assms date_bounds(1)[of d] f in auto)
  then show ?thesis by (simp add: skip_month_eq f)
qed

end
