(* ===== verification/Cron.thy ===== *)
theory Cron
  imports Calendar
begin

text \<open>
  Cron expressions and the next run of a schedule (\<open>scheduler/cron.ts\<close>, \<open>tick-policy.ts\<close> and
  \<open>retry.ts\<close> under \<open>src/packages/core/src\<close>).

  Fields are parsed into sets of numbers; a field whose range never ends is \<open>None\<close>. The search for
  the next run jumps over months, days and hours that cannot match, on the local calendar of a zone
  with a fixed offset; the search in a named zone tries every minute and reads its civil time from
  the host. What the host supplies is one record.
\<close>

section \<open>What the host supplies\<close>

text \<open>\<open>Number(text)\<close>, the offset of the local zone in minutes, its name, which zones exist and, for a
  zone, the year, month, day, hour and minute of an instant given by its minute.\<close>

record zone_host =
  zh_number :: "string \<Rightarrow> jsnum"
  zh_local_offset :: int
  zh_local_name :: string
  zh_valid :: "string \<Rightarrow> bool"
  zh_civil :: "string \<Rightarrow> int \<Rightarrow> int \<times> int \<times> int \<times> int \<times> int"

section \<open>Parsing\<close>

fun split_on :: "char \<Rightarrow> string \<Rightarrow> string list" where
  "split_on sep [] = [[]]"
| "split_on sep (c # cs) =
    (if c = sep then [] # split_on sep cs
     else case split_on sep cs of [] \<Rightarrow> [[c]] | w # ws \<Rightarrow> (c # w) # ws)"

text \<open>\<open>text.trim().split(/\s+/)\<close>\<close>

fun split_ws :: "string \<Rightarrow> string list" where
  "split_ws [] = [[]]"
| "split_ws [c] = (if js_ws c then [[], []] else [[c]])"
| "split_ws (c # d # cs) =
    (if js_ws c then (if js_ws d then split_ws (d # cs) else [] # split_ws (d # cs))
     else case split_ws (d # cs) of [] \<Rightarrow> [[c]] | w # ws \<Rightarrow> (c # w) # ws)"

definition is_digit :: "char \<Rightarrow> bool" where
  "is_digit c \<longleftrightarrow> 48 \<le> (of_char c :: nat) \<and> (of_char c :: nat) \<le> 57"

text \<open>\<open>parseInt(text, 10)\<close>: \<open>None\<close> for \<open>NaN\<close>.\<close>

definition parse_digits :: "string \<Rightarrow> int option" where
  "parse_digits s = (let ds = takeWhile is_digit s in if ds = [] then None else Some (int (read_nat 0 ds)))"

definition parse_int :: "string \<Rightarrow> int option" where
  "parse_int s =
    (case dropWhile js_ws s of
       [] \<Rightarrow> None
     | c # cs \<Rightarrow> if c = CHR ''-'' then map_option uminus (parse_digits cs)
         else if c = CHR ''+'' then parse_digits cs else parse_digits (c # cs))"

text \<open>\<open>for (let i = a; i <= b; i += step)\<close> for a positive step.\<close>

definition stepped :: "rat \<Rightarrow> rat \<Rightarrow> int \<Rightarrow> rat list" where
  "stepped a b step =
    (if b < a then [] else map (\<lambda>k. a + of_nat k * of_int step) [0..<Suc (nat \<lfloor>(b - a) / of_int step\<rfloor>)])"

text \<open>The loop over a range of numbers that are not \<open>NaN\<close>; \<open>None\<close> when it does not end.\<close>

fun range_values :: "jsnum \<Rightarrow> jsnum \<Rightarrow> rat list option" where
  "range_values (Fin a) (Fin b) = Some (stepped a b 1)"
| "range_values (Fin a) PosInf = None"
| "range_values (Fin a) NegInf = Some []"
| "range_values PosInf b = (if b = PosInf then None else Some [])"
| "range_values NegInf b = None"
| "range_values _ _ = Some []"

type_synonym 'a parse_result = "(string + 'a) option"

definition parse_part :: "zone_host \<Rightarrow> string \<Rightarrow> int \<Rightarrow> int \<Rightarrow> rat list parse_result" where
  "parse_part z part lo hi =
    (if part = ''*'' then Some (Inr (stepped (of_int lo) (of_int hi) 1))
     else if starts_with ''*/'' part then
       (case parse_int (drop 2 part) of
          None \<Rightarrow> Some (Inl (''Invalid cron step: '' @ part))
        | Some step \<Rightarrow> if step \<le> 0 then Some (Inl (''Invalid cron step: '' @ part))
            else Some (Inr (stepped (of_int lo) (of_int hi) step)))
     else if CHR ''-'' \<in> set part then
       (let ps = split_on (CHR ''-'') part; a = zh_number z (ps ! 0); b = zh_number z (ps ! 1) in
        if a = NaN \<or> b = NaN then Some (Inl (''Invalid cron range: '' @ part))
        else map_option Inr (range_values a b))
     else case parse_int part of
       None \<Rightarrow> Some (Inl (''Invalid cron value: '' @ part))
     | Some n \<Rightarrow> Some (Inr [of_int n]))"

fun parse_parts :: "zone_host \<Rightarrow> string list \<Rightarrow> int \<Rightarrow> int \<Rightarrow> rat list \<Rightarrow> rat list parse_result" where
  "parse_parts z [] lo hi acc = Some (Inr acc)"
| "parse_parts z (part # parts) lo hi acc =
    (case parse_part z part lo hi of
       None \<Rightarrow> None
     | Some (Inl e) \<Rightarrow> Some (Inl e)
     | Some (Inr vs) \<Rightarrow> parse_parts z parts lo hi (acc @ vs))"

definition parse_field :: "zone_host \<Rightarrow> string \<Rightarrow> int \<Rightarrow> int \<Rightarrow> rat list parse_result" where
  "parse_field z field lo hi = parse_parts z (split_on (CHR '','') field) lo hi []"

record cron_fields =
  cf_minutes :: "rat list"
  cf_hours :: "rat list"
  cf_days :: "rat list"
  cf_months :: "rat list"
  cf_weekdays :: "rat list"

definition parse_then :: "'a parse_result \<Rightarrow> ('a \<Rightarrow> 'b parse_result) \<Rightarrow> 'b parse_result" where
  "parse_then r f = (case r of None \<Rightarrow> None | Some (Inl e) \<Rightarrow> Some (Inl e) | Some (Inr v) \<Rightarrow> f v)"

definition parse_cron :: "zone_host \<Rightarrow> string \<Rightarrow> cron_fields parse_result" where
  "parse_cron z expr =
    (case split_ws (js_trim expr) of
       [m, h, d, mo, wd] \<Rightarrow>
         parse_then (parse_field z m 0 59) (\<lambda>minutes.
         parse_then (parse_field z h 0 23) (\<lambda>hours.
         parse_then (parse_field z d 1 31) (\<lambda>days.
         parse_then (parse_field z mo 1 12) (\<lambda>months.
         parse_then (parse_field z wd 0 6) (\<lambda>weekdays.
           Some (Inr \<lparr>cf_minutes = minutes, cf_hours = hours, cf_days = days, cf_months = months,
             cf_weekdays = weekdays\<rparr>))))))
     | _ \<Rightarrow> Some (Inl (''Cron expression must have 5 fields: \"'' @ expr @ ''\"'')))"

definition is_valid_cron :: "zone_host \<Rightarrow> string \<Rightarrow> bool option" where
  "is_valid_cron z expr = map_option (\<lambda>r. case r of Inl _ \<Rightarrow> False | Inr _ \<Rightarrow> True) (parse_cron z expr)"

definition has :: "rat list \<Rightarrow> int \<Rightarrow> bool" where
  "has xs n \<longleftrightarrow> of_int n \<in> set xs"

section \<open>Searching the local calendar\<close>

text \<open>The parts of a local time given by its minute.\<close>

definition day_of :: "int \<Rightarrow> int" where "day_of c = c div 1440"
definition hour_of :: "int \<Rightarrow> int" where "hour_of c = c mod 1440 div 60"
definition minute_of :: "int \<Rightarrow> int" where "minute_of c = c mod 60"

definition month_ok :: "cron_fields \<Rightarrow> int \<Rightarrow> bool" where
  "month_ok f d = has (cf_months f) (month_from_day d + 1)"

definition day_ok :: "cron_fields \<Rightarrow> int \<Rightarrow> bool" where
  "day_ok f d = (has (cf_days f) (date_from_day d) \<and> has (cf_weekdays f) (weekday_from_day d))"

definition cron_matches :: "cron_fields \<Rightarrow> int \<Rightarrow> bool" where
  "cron_matches f c \<longleftrightarrow> month_ok f (day_of c) \<and> day_ok f (day_of c)
    \<and> has (cf_hours f) (hour_of c) \<and> has (cf_minutes f) (minute_of c)"

text \<open>\<open>d.setDate(d.getDate() + 1)\<close>\<close>

definition next_day :: "int \<Rightarrow> int" where
  "next_day d = make_day (year_from_day d) (month_from_day d) (date_from_day d + 1)"

text \<open>Where one turn of the loop moves the cursor when the minute does not match.\<close>

definition advance :: "cron_fields \<Rightarrow> int \<Rightarrow> int" where
  "advance f c =
    (let d = day_of c in
     if \<not> month_ok f d then skip_month d * 1440
     else if \<not> day_ok f d then next_day d * 1440
     else if \<not> has (cf_hours f) (hour_of c) then d * 1440 + (hour_of c + 1) * 60
     else c + 1)"

lemma next_day_eq [simp]: "next_day d = d + 1"
  using date_bounds(2)[of d] by (simp add: next_day_def make_day_def Let_def)

lemma minute_split: "c = day_of c * 1440 + hour_of c * 60 + minute_of c"
    "0 \<le> hour_of c" "hour_of c \<le> 23" "0 \<le> minute_of c" "minute_of c \<le> 59"
proof -
  have "c mod 1440 mod 60 = c mod 60" by (rule mod_mod_cancel) simp
  then show "c = day_of c * 1440 + hour_of c * 60 + minute_of c"
    unfolding day_of_def hour_of_def minute_of_def
    by (metis add.assoc div_mult_mod_eq)
  have m: "0 \<le> c mod 1440" "c mod 1440 < 1440" by simp_all
  have "c mod 1440 div 60 \<le> 1439 div 60" by (rule zdiv_mono1) (use m in simp_all)
  with m show "0 \<le> hour_of c" "hour_of c \<le> 23"
    unfolding hour_of_def by (simp_all add: pos_imp_zdiv_nonneg_iff)
  show "0 \<le> minute_of c" "minute_of c \<le> 59" using pos_mod_bound[of 60 c] by (simp_all add: minute_of_def)
qed

lemma minute_parts:
  assumes "0 \<le> h" "h \<le> 23" "0 \<le> m" "m \<le> 59"
  shows "day_of (d * 1440 + h * 60 + m) = d" "hour_of (d * 1440 + h * 60 + m) = h"
    "minute_of (d * 1440 + h * 60 + m) = m"
proof -
  have s: "0 \<le> h * 60 + m" "h * 60 + m < 1440" using assms by linarith+
  have dm: "(d * 1440 + h * 60 + m) div 1440 = d" "(d * 1440 + h * 60 + m) mod 1440 = h * 60 + m"
    using s int_div_pos_eq[of "d * 1440 + h * 60 + m" 1440 d "h * 60 + m"]
      int_mod_pos_eq[of "d * 1440 + h * 60 + m" 1440 d "h * 60 + m"] by (simp_all add: algebra_simps)
  then show "day_of (d * 1440 + h * 60 + m) = d" by (simp add: day_of_def)
  show "hour_of (d * 1440 + h * 60 + m) = h" unfolding hour_of_def dm
    using int_div_pos_eq[of "h * 60 + m" 60 h m] assms by (simp add: algebra_simps)
  have "d * 1440 + h * 60 + m = 60 * (d * 24 + h) + m" by simp
  then show "minute_of (d * 1440 + h * 60 + m) = m" unfolding minute_of_def
    using int_mod_pos_eq[of "d * 1440 + h * 60 + m" 60 "d * 24 + h" m] assms by simp
qed

lemma advance_later: "c < advance f c"
proof -
  have "day_of c * 1440 \<le> c" "c < (day_of c + 1) * 1440" "c < day_of c * 1440 + (hour_of c + 1) * 60"
    using minute_split[of c] unfolding distrib_right by linarith+
  moreover have "(day_of c + 1) * 1440 \<le> skip_month (day_of c) * 1440"
    using skip_month_later(2)[of "day_of c"] by simp
  ultimately show ?thesis by (auto simp: advance_def Let_def)
qed

text \<open>The search of \<open>getNextRun\<close>, up to a limit in milliseconds.\<close>

function search_from :: "cron_fields \<Rightarrow> int \<Rightarrow> int \<Rightarrow> int option" where
  "search_from f until c =
    (if c * 60000 < until then
       (if cron_matches f c then Some c else search_from f until (advance f c))
     else None)"
  by pat_completeness auto
termination
  by (relation "measure (\<lambda>(f, until, c). nat (until - c * 60000))") (auto simp: advance_later)

declare search_from.simps [simp del]

section \<open>The reference search\<close>

text \<open>Minute after minute, the search of \<open>getNextRunInTimezone\<close>.\<close>

function scan_from :: "(int \<Rightarrow> bool) \<Rightarrow> int \<Rightarrow> int \<Rightarrow> int option" where
  "scan_from P until c =
    (if c * 60000 < until then (if P c then Some c else scan_from P until (c + 1)) else None)"
  by pat_completeness auto
termination
  by (relation "measure (\<lambda>(P, until, c). nat (until - c * 60000))") auto

declare scan_from.simps [simp del]

lemma scan_from_Some:
  "scan_from P until c = Some t \<longleftrightarrow> c \<le> t \<and> t * 60000 < until \<and> P t \<and> (\<forall>x. c \<le> x \<and> x < t \<longrightarrow> \<not> P x)"
proof (induction P until c rule: scan_from.induct)
  case (1 P until c)
  show ?case
  proof (cases "c * 60000 < until \<and> \<not> P c")
    case True
    then have "scan_from P until c = scan_from P until (c + 1)" by (simp add: scan_from.simps[of P until c])
    with 1 True have "scan_from P until c = Some t \<longleftrightarrow>
        c + 1 \<le> t \<and> t * 60000 < until \<and> P t \<and> (\<forall>x. c + 1 \<le> x \<and> x < t \<longrightarrow> \<not> P x)" by simp
    also have "\<dots> \<longleftrightarrow> c \<le> t \<and> t * 60000 < until \<and> P t \<and> (\<forall>x. c \<le> x \<and> x < t \<longrightarrow> \<not> P x)" (is "?L \<longleftrightarrow> ?R")
    proof
      assume L: ?L
      have "\<not> P x" if "c \<le> x" "x < t" for x using that L True by (cases "x = c") auto
      with L show ?R by simp
    next
      assume R: ?R
      then have "t \<noteq> c" using True by auto
      with R show ?L by simp
    qed
    finally show ?thesis .
  next
    case False
    then show ?thesis by (subst scan_from.simps) force
  qed
qed

lemma scan_from_None: "scan_from P until c = None \<longleftrightarrow> (\<forall>x. c \<le> x \<and> x * 60000 < until \<longrightarrow> \<not> P x)"
proof (induction P until c rule: scan_from.induct)
  case (1 P until c)
  show ?case
  proof (cases "c * 60000 < until \<and> \<not> P c")
    case True
    then have "scan_from P until c = scan_from P until (c + 1)" by (simp add: scan_from.simps[of P until c])
    with 1 True have IH: "scan_from P until c = None \<longleftrightarrow> (\<forall>x. c + 1 \<le> x \<and> x * 60000 < until \<longrightarrow> \<not> P x)" by simp
    have "\<not> P x" if "\<forall>x. c + 1 \<le> x \<and> x * 60000 < until \<longrightarrow> \<not> P x" "c \<le> x" "x * 60000 < until" for x
      using that True by (cases "x = c") auto
    with IH show ?thesis by auto
  next
    case False
    then show ?thesis by (subst scan_from.simps) force
  qed
qed

lemma scan_from_skip:
  assumes "c \<le> d" "\<And>x. c \<le> x \<Longrightarrow> x < d \<Longrightarrow> \<not> P x"
  shows "scan_from P until c = scan_from P until d"
proof (cases "scan_from P until d")
  case None
  then have "scan_from P until c = None" unfolding scan_from_None using assms by (meson not_le)
  with None show ?thesis by simp
next
  case (Some t)
  then have "scan_from P until c = Some t" unfolding scan_from_Some
    using assms by (meson le_less_trans not_le order_trans)
  with Some show ?thesis by simp
qed

section \<open>The jumps skip no match\<close>

text \<open>The first jump over a month must start on a day that the next month has, too.\<close>

definition jump_safe :: "cron_fields \<Rightarrow> int \<Rightarrow> bool" where
  "jump_safe f c \<longleftrightarrow> month_ok f (day_of c)
     \<or> date_from_day (day_of c) \<le> next_month_first (next_month_first (day_of c)) - next_month_first (day_of c)"

lemma first_day_safe: "jump_safe f (next_month_first d * 1440)"
proof -
  let ?n = "next_month_first d"
  have "1 \<le> next_month_first (next_month_first ?n) - next_month_first ?n"
    using next_month_length(1)[of "next_month_first ?n"] month_first_bounds(1)[of "next_month_first ?n"]
      date_month_first[of "next_month_first ?n"] next_month_first_date[of ?n] by simp
  then show ?thesis by (simp add: jump_safe_def day_of_def next_month_first_date)
qed

lemma day_of_mono: "c \<le> x \<Longrightarrow> day_of c \<le> day_of x"
  by (simp add: day_of_def zdiv_mono1)

lemma day_of_less: "x < d * 1440 \<Longrightarrow> day_of x < d"
proof -
  assume "x < d * 1440"
  then have "x div 1440 < d" by (simp add: div_less_iff_less_mult)
  then show ?thesis by (simp add: day_of_def)
qed

lemma advance_skips:
  assumes "jump_safe f c" "\<not> cron_matches f c" "c \<le> x" "x < advance f c"
  shows "\<not> cron_matches f x"
proof -
  let ?d = "day_of c"
  consider (month) "\<not> month_ok f ?d" | (day) "month_ok f ?d" "\<not> day_ok f ?d"
    | (hour) "month_ok f ?d" "day_ok f ?d" "\<not> has (cf_hours f) (hour_of c)"
    | (minute) "month_ok f ?d" "day_ok f ?d" "has (cf_hours f) (hour_of c)" by blast
  then show ?thesis
  proof cases
    case month
    then have "advance f c = next_month_first ?d * 1440"
      using assms(1) by (simp add: advance_def jump_safe_def skip_month_short)
    with assms have "?d \<le> day_of x" "day_of x < next_month_first ?d"
      using day_of_less[of x "next_month_first ?d"] day_of_mono[of c x] by simp_all
    with month_first_bounds(1)[of ?d] have "month_from_day (day_of x) = month_from_day ?d"
      by (intro same_month(2)) simp_all
    with month show ?thesis by (simp add: cron_matches_def month_ok_def)
  next
    case day
    then have "advance f c = (?d + 1) * 1440" by (simp add: advance_def)
    with assms have "day_of x = ?d"
      using day_of_less[of x "?d + 1"] day_of_mono[of c x] by simp
    with day show ?thesis by (simp add: cron_matches_def)
  next
    case hour
    then have "x < ?d * 1440 + (hour_of c + 1) * 60" using assms by (simp add: advance_def)
    then obtain m where x: "x = ?d * 1440 + hour_of c * 60 + m" "0 \<le> m" "m \<le> 59"
      using assms(3) minute_split[of c]
      by (intro that[of "x - (?d * 1440 + hour_of c * 60)"]) (auto simp: distrib_right)
    have "hour_of x = hour_of c" unfolding x(1)
      using minute_split(2,3)[of c] x by (intro minute_parts)
    with hour show ?thesis by (simp add: cron_matches_def)
  next
    case minute
    with assms have "x = c" by (simp add: advance_def)
    with assms(2) show ?thesis by simp
  qed
qed

lemma jump_safe_day:
  assumes "month_ok f d" "day_of c = d + 1" shows "jump_safe f c"
proof (cases "d + 1 < next_month_first d")
  case True
  then have "month_from_day (d + 1) = month_from_day d"
    using month_first_bounds(1)[of d] by (intro same_month(2)) simp_all
  with assms show ?thesis by (simp add: jump_safe_def month_ok_def)
next
  case False
  then have "day_of c = next_month_first d" using assms(2) month_first_bounds(2)[of d] by simp
  with first_day_safe[of f d] show ?thesis by (simp add: jump_safe_def day_of_def)
qed

lemma day_of_within: "d * 1440 \<le> x \<Longrightarrow> x \<le> (d + 1) * 1440 \<Longrightarrow> day_of x = d \<or> day_of x = d + 1"
  using day_of_mono[of "d * 1440" x] day_of_mono[of x "(d + 1) * 1440"]
  by (simp add: day_of_def) linarith

lemma jump_safe_advance:
  assumes "jump_safe f c" shows "jump_safe f (advance f c)"
proof -
  let ?d = "day_of c"
  show ?thesis
  proof (cases "month_ok f ?d")
    case False
    then have "advance f c = next_month_first ?d * 1440"
      using assms by (simp add: advance_def jump_safe_def skip_month_short)
    then show ?thesis by (simp add: first_day_safe)
  next
    case True
    have "?d * 1440 \<le> advance f c" "advance f c \<le> (?d + 1) * 1440"
      using True minute_split[of c] by (auto simp: advance_def Let_def distrib_right)
    from day_of_within[OF this] show ?thesis
    proof
      assume "day_of (advance f c) = ?d"
      with True show ?thesis by (simp add: jump_safe_def)
    qed (rule jump_safe_day[OF True])
  qed
qed

lemma search_is_scan:
  "jump_safe f c \<Longrightarrow> search_from f until c = scan_from (cron_matches f) until c"
proof (induction f until c rule: search_from.induct)
  case (1 f until c)
  show ?case
  proof (cases "c * 60000 < until \<and> \<not> cron_matches f c")
    case True
    then have "search_from f until c = search_from f until (advance f c)" by (simp add: search_from.simps[of f until c])
    also have "\<dots> = scan_from (cron_matches f) until (advance f c)"
      using True 1 by (simp add: jump_safe_advance)
    also have "\<dots> = scan_from (cron_matches f) until c"
      using advance_later[of c f] advance_skips[OF 1(2)] True
      by (intro scan_from_skip[symmetric]) auto
    finally show ?thesis .
  next
    case False
    then show ?thesis by (subst search_from.simps, subst scan_from.simps) auto
  qed
qed

text \<open>
  When the day of the month does not exist in the next month, the jump overflows to the first of the
  month after it; from there the search is the reference search again.
\<close>

lemma skip_month_overflow:
  assumes "next_month_first (next_month_first d) - next_month_first d < date_from_day d"
  shows "skip_month d = next_month_first (next_month_first d)"
proof -
  let ?n = "next_month_first d" and ?g = "next_month_first (next_month_first d)"
  have first: "month_first ?n = ?n" "month_first ?g = ?g"
    using date_month_first[of ?n] date_month_first[of ?g] by (simp_all add: next_month_first_date)
  have "date_from_day d \<le> 31"
    using date_month_first[of d] month_first_bounds(2)[of d] next_month_length(2)[of d] by simp
  then have "?n + date_from_day d - 1 < next_month_first ?g"
    using next_month_length(1)[of ?n] next_month_length(1)[of ?g] first by simp
  then have "month_first (?n + date_from_day d - 1) = month_first ?g"
    using assms first by (intro same_month(3)) simp_all
  then show ?thesis by (simp add: skip_month_eq first)
qed

lemma search_after_overflow:
  assumes "\<not> month_ok f (day_of c)"
    and "next_month_first (next_month_first (day_of c)) - next_month_first (day_of c) < date_from_day (day_of c)"
  shows "search_from f until c =
    scan_from (cron_matches f) until (next_month_first (next_month_first (day_of c)) * 1440)"
proof -
  let ?a = "next_month_first (next_month_first (day_of c)) * 1440"
  have advance: "advance f c = ?a"
    using assms(1) by (simp add: advance_def skip_month_overflow[OF assms(2)])
  have safe: "jump_safe f ?a" by (rule first_day_safe)
  show ?thesis
  proof (cases "c * 60000 < until")
    case True
    then have "search_from f until c = search_from f until (advance f c)"
      using assms(1) by (simp add: search_from.simps[of f until c] cron_matches_def)
    with safe show ?thesis by (simp add: advance search_is_scan)
  next
    case False
    then have "\<not> ?a * 60000 < until" using advance_later[of c f] unfolding advance by linarith
    with False show ?thesis by (subst search_from.simps, subst scan_from.simps) simp
  qed
qed

section \<open>The next run\<close>

text \<open>\<open>d.setFullYear(d.getFullYear() + n)\<close> on milliseconds.\<close>

definition add_years :: "int \<Rightarrow> int \<Rightarrow> int" where
  "add_years n ms =
    (let d = ms div 86400000
     in make_day (year_from_day d + n) (month_from_day d) (date_from_day d) * 86400000 + ms mod 86400000)"

definition no_match_error :: "string \<Rightarrow> string" where
  "no_match_error expr = ''No matching time found for cron: \"'' @ expr @ ''\"''"

definition get_next_run :: "zone_host \<Rightarrow> string \<Rightarrow> int \<Rightarrow> int parse_result" where
  "get_next_run z expr from =
    parse_then (parse_cron z expr) (\<lambda>f.
      let offset = zh_local_offset z; local = from + offset * 60000 in
      case search_from f (add_years 4 local) (local div 60000 + 1) of
        None \<Rightarrow> Some (Inl (no_match_error expr))
      | Some c \<Rightarrow> Some (Inr ((c - offset) * 60000)))"

text \<open>\<open>readZonedParts\<close> and \<open>matchesCronFields\<close> at an instant given by its minute.\<close>

definition zone_matches :: "zone_host \<Rightarrow> string \<Rightarrow> cron_fields \<Rightarrow> int \<Rightarrow> bool" where
  "zone_matches z tz f c =
    (case zh_civil z tz c of (year, month, day, hour, minute) \<Rightarrow>
      has (cf_months f) month \<and> has (cf_days f) day
      \<and> has (cf_weekdays f) (weekday_from_day (make_day year (month - 1) day))
      \<and> has (cf_hours f) hour \<and> has (cf_minutes f) minute)"

definition get_next_run_in_timezone :: "zone_host \<Rightarrow> string \<Rightarrow> int \<Rightarrow> string \<Rightarrow> int parse_result" where
  "get_next_run_in_timezone z expr from tz =
    (if \<not> zh_valid z tz then Some (Inl (''Invalid timezone: '' @ tz))
     else parse_then (parse_cron z expr) (\<lambda>f.
       case scan_from (zone_matches z tz f) (add_years 4 from) (from div 60000 + 1) of
         None \<Rightarrow> Some (Inl (no_match_error expr @ '' in timezone: '' @ tz))
       | Some c \<Rightarrow> Some (Inr (c * 60000))))"

definition trimmed_or :: "string option \<Rightarrow> string \<Rightarrow> string" where
  "trimmed_or text fallback =
    (let t = js_trim (opt_or text []) in if t \<noteq> [] then t else fallback)"

definition normalize_schedule_timezone :: "zone_host \<Rightarrow> string option \<Rightarrow> string" where
  "normalize_schedule_timezone z timezone =
    (let fallback = zh_local_name z; candidate = trimmed_or timezone fallback in
     if zh_valid z candidate then candidate
     else if zh_valid z fallback then fallback else ''UTC'')"

definition get_next_run_for_timezone :: "zone_host \<Rightarrow> string \<Rightarrow> int \<Rightarrow> string option \<Rightarrow> int parse_result" where
  "get_next_run_for_timezone z expr from timezone =
    (if trimmed_or timezone [] \<noteq> []
     then get_next_run_in_timezone z expr from (normalize_schedule_timezone z timezone)
     else get_next_run z expr from)"

section \<open>Ticks\<close>

record schedule =
  sd_enabled :: bool
  sd_execution_driver :: string
  sd_cron_expression :: string
  sd_timezone :: "string option"
  sd_created_at :: "int option"
  sd_last_run_at :: "int option"

datatype skip_reason = SR_disabled | SR_system_driver | SR_invalid_cron | SR_queue_active | SR_not_due
  | SR_cron_error

datatype tick_directive = TD_skip skip_reason | TD_run int string

definition tick_base :: "schedule \<Rightarrow> int \<Rightarrow> int" where
  "tick_base s nowMs = opt_or (sd_last_run_at s) (opt_or (sd_created_at s) nowMs)"

text \<open>\<open>isoText\<close> is \<open>toISOString\<close>; \<open>None\<close> means that parsing the expression does not end.\<close>

definition resolve_schedule_tick ::
  "(int \<Rightarrow> string) \<Rightarrow> (string \<Rightarrow> bool option) \<Rightarrow> (string \<Rightarrow> int \<Rightarrow> string option \<Rightarrow> int parse_result)
    \<Rightarrow> schedule \<Rightarrow> int \<Rightarrow> bool \<Rightarrow> tick_directive option" where
  "resolve_schedule_tick isoText isValid getNext s nowMs queueActive =
    (if \<not> sd_enabled s then Some (TD_skip SR_disabled)
     else if sd_execution_driver s = ''system_crontab'' then Some (TD_skip SR_system_driver)
     else case isValid (sd_cron_expression s) of
       None \<Rightarrow> None
     | Some False \<Rightarrow> Some (TD_skip SR_invalid_cron)
     | Some True \<Rightarrow>
         if queueActive then Some (TD_skip SR_queue_active)
         else case getNext (sd_cron_expression s) (tick_base s nowMs) (sd_timezone s) of
           None \<Rightarrow> None
         | Some (Inl _) \<Rightarrow> Some (TD_skip SR_cron_error)
         | Some (Inr next) \<Rightarrow>
             if next > nowMs then Some (TD_skip SR_not_due)
             else Some (TD_run next (''scheduler tick (due: '' @ isoText next @ '')'')))"

section \<open>Retries\<close>

record retry_policy =
  rq_maxRetries :: "rat option"
  rq_baseDelayMs :: "rat option"
  rq_maxDelayMs :: "rat option"

definition normalize_schedule_max_retries :: "jsnum option \<Rightarrow> int" where
  "normalize_schedule_max_retries v =
    (case v of Some (Fin r) \<Rightarrow> max 0 (min 10 \<lfloor>r\<rfloor>) | _ \<Rightarrow> 3)"

definition compute_schedule_retry_delay_ms :: "rat \<Rightarrow> retry_policy \<Rightarrow> int" where
  "compute_schedule_retry_delay_ms attempt policy =
    (let n = max 1 \<lfloor>attempt\<rfloor>;
         base = max 0 \<lfloor>opt_or (rq_baseDelayMs policy) 5000\<rfloor>;
         most = max base \<lfloor>opt_or (rq_maxDelayMs policy) 60000\<rfloor>
     in min (base * 2 ^ nat (n - 1)) most)"

lemma retry_delay_bounds:
  "max 0 \<lfloor>opt_or (rq_baseDelayMs policy) 5000\<rfloor> \<le> compute_schedule_retry_delay_ms attempt policy"
  by (simp add: compute_schedule_retry_delay_ms_def Let_def mult_le_cancel_left1)

section \<open>Properties\<close>

lemma minute_after: "ms div 60000 + 1 \<le> m \<longleftrightarrow> ms < m * (60000 :: int)"
  using div_bounds[of 60000 ms] by (intro iffI; linarith)

lemma scan_after_Some:
  "scan_from P until (ms div 60000 + 1) = Some c \<longleftrightarrow>
     ms < c * 60000 \<and> c * 60000 < until \<and> P c \<and> (\<forall>x. ms < x * 60000 \<and> x < c \<longrightarrow> \<not> P x)"
  by (simp only: scan_from_Some minute_after)

lemma scan_after_None:
  "scan_from P until (ms div 60000 + 1) = None \<longleftrightarrow>
     (\<forall>x. ms < x * 60000 \<and> x * 60000 < until \<longrightarrow> \<not> P x)"
  by (simp only: scan_from_None minute_after)

lemma get_next_run_search:
  assumes "parse_cron z expr = Some (Inr f)" and "local = from + zh_local_offset z * 60000"
  shows "get_next_run z expr from = Some (Inr t) \<longleftrightarrow>
      (\<exists>m. t = (m - zh_local_offset z) * 60000 \<and> search_from f (add_years 4 local) (local div 60000 + 1) = Some m)"
    and "get_next_run z expr from = Some (Inl (no_match_error expr)) \<longleftrightarrow>
      search_from f (add_years 4 local) (local div 60000 + 1) = None"
  unfolding get_next_run_def parse_then_def assms(1) Let_def assms(2)[symmetric]
  by (auto split: option.split)

text \<open>
  C29: The next run of a valid expression is the first minute after the given time that matches all
  five fields on the local calendar, within four years, and an error when there is none: the jumps
  over months, days and hours skip no match. This holds whenever the search does not start in an excluded
  month on a day that the next month lacks; local time has one fixed offset from UTC.
\<close>

theorem next_run_is_first:
  assumes "parse_cron z expr = Some (Inr f)"
    and "local = from + zh_local_offset z * 60000"
    and "d = day_of (local div 60000 + 1)"
    and "has (cf_months f) (month_from_day d + 1)
      \<or> date_from_day d \<le> next_month_first (next_month_first d) - next_month_first d"
  shows "(get_next_run z expr from = Some (Inr t) \<longleftrightarrow>
      (\<exists>m. t = (m - zh_local_offset z) * 60000 \<and> local < m * 60000 \<and> m * 60000 < add_years 4 local
        \<and> cron_matches f m \<and> (\<forall>x. local < x * 60000 \<and> x < m \<longrightarrow> \<not> cron_matches f x)))
    \<and> (get_next_run z expr from = Some (Inl (no_match_error expr)) \<longleftrightarrow>
      (\<forall>x. local < x * 60000 \<and> x * 60000 < add_years 4 local \<longrightarrow> \<not> cron_matches f x))"
proof -
  have "search_from f (add_years 4 local) (local div 60000 + 1)
      = scan_from (cron_matches f) (add_years 4 local) (local div 60000 + 1)"
    using assms(4) unfolding assms(3) by (intro search_is_scan) (simp add: jump_safe_def month_ok_def)
  note g = get_next_run_search[OF assms(1,2), unfolded this]
  show ?thesis unfolding g scan_after_Some scan_after_None by simp
qed

definition sample_zone :: zone_host where
  "sample_zone = \<lparr>zh_number = (\<lambda>s. case parse_digits s of None \<Rightarrow> Fin 0 | Some n \<Rightarrow> Fin (of_int n)),
     zh_local_offset = 0, zh_local_name = ''UTC'', zh_valid = (\<lambda>s. s = ''UTC''),
     zh_civil = (\<lambda>_ c. (year_from_day (day_of c), month_from_day (day_of c) + 1, date_from_day (day_of c),
       hour_of c, minute_of c))\<rparr>"

text \<open>2025-01-31T00:00Z, and the instants of 2025-02-01 and 2026-02-01.\<close>

definition jan31 :: int where "jan31 = 1738281600000"
definition feb2025 :: int where "feb2025 = 1738368000000"
definition feb2026 :: int where "feb2026 = 1769904000000"

definition feb_fields :: cron_fields where
  "feb_fields = (case parse_cron sample_zone ''0 0 1 2 *'' of Some (Inr f) \<Rightarrow> f)"

lemma february_skipped:
  "parse_cron sample_zone ''0 0 1 2 *'' = Some (Inr feb_fields)"
  "\<not> has (cf_months feb_fields) (month_from_day (day_of (jan31 div 60000 + 1)) + 1)"
  "next_month_first (next_month_first (day_of (jan31 div 60000 + 1))) - next_month_first (day_of (jan31 div 60000 + 1))
     < date_from_day (day_of (jan31 div 60000 + 1))"
  "zh_local_offset sample_zone = 0"
  "get_next_run sample_zone ''0 0 1 2 *'' jan31 = Some (Inr feb2026)"
  "cron_matches feb_fields (feb2025 div 60000)"
  "feb2025 div 60000 < next_month_first (next_month_first (day_of (jan31 div 60000 + 1))) * 1440"
  by code_simp+

text \<open>
  C35: when the search starts in a month that the expression excludes, on a day that the next month does
  not have, the whole next month is lost. The next run is then exactly the first matching minute from
  the first of the month after it, and an error when no minute from there on matches within four
  years, whatever matches in the month that was jumped over.
\<close>

theorem next_run_skips_short_month:
  assumes "parse_cron z expr = Some (Inr f)"
    and "local = from + zh_local_offset z * 60000" and "d = day_of (local div 60000 + 1)"
    and "\<not> has (cf_months f) (month_from_day d + 1)"
    and "next_month_first (next_month_first d) - next_month_first d < date_from_day d"
    and "resume = next_month_first (next_month_first d) * 1440"
  shows "(get_next_run z expr from = Some (Inr t) \<longleftrightarrow>
      (\<exists>m. t = (m - zh_local_offset z) * 60000 \<and> resume \<le> m \<and> m * 60000 < add_years 4 local
        \<and> cron_matches f m \<and> (\<forall>x. resume \<le> x \<and> x < m \<longrightarrow> \<not> cron_matches f x)))
    \<and> (get_next_run z expr from = Some (Inl (no_match_error expr)) \<longleftrightarrow>
      (\<forall>x. resume \<le> x \<and> x * 60000 < add_years 4 local \<longrightarrow> \<not> cron_matches f x))"
proof -
  have "search_from f (add_years 4 local) (local div 60000 + 1) = scan_from (cron_matches f) (add_years 4 local) resume"
    using assms(4,5) unfolding assms(3,6) by (intro search_after_overflow) (simp_all add: month_ok_def)
  note g = get_next_run_search[OF assms(1,2), unfolded this]
  show ?thesis unfolding g scan_from_Some scan_from_None by simp
qed

theorem next_run_skips_short_month_witness:
  "\<exists>m. feb2026 = m * 60000 \<and> feb2025 < m * 60000 \<and> jan31 < feb2025
     \<and> cron_matches feb_fields (feb2025 div 60000) \<and> cron_matches feb_fields m"
proof -
  have l: "jan31 = jan31 + zh_local_offset sample_zone * 60000" by (simp add: february_skipped(4))
  from next_run_skips_short_month[OF february_skipped(1) l refl february_skipped(2,3) refl, of feb2026]
  obtain m where m: "feb2026 = (m - zh_local_offset sample_zone) * 60000" "cron_matches feb_fields m"
    using february_skipped(5) by blast
  then show ?thesis using february_skipped(6)
    by (intro exI[of _ m]) (simp add: february_skipped(4), simp add: jan31_def feb2025_def feb2026_def)
qed

definition sample_fields :: cron_fields where
  "sample_fields = (case parse_cron sample_zone ''*/15 9 * 2 1-5'' of Some (Inr f) \<Rightarrow> f)"

lemma sample_cron:
  "parse_cron sample_zone ''*/15 9 * 2 1-5'' = Some (Inr sample_fields)"
  "date_from_day (day_of ((jan31 - 259200000 + zh_local_offset sample_zone * 60000) div 60000 + 1))
     \<le> next_month_first (next_month_first (day_of ((jan31 - 259200000 + zh_local_offset sample_zone * 60000) div 60000 + 1)))
        - next_month_first (day_of ((jan31 - 259200000 + zh_local_offset sample_zone * 60000) div 60000 + 1))"
  "get_next_run sample_zone ''*/15 9 * 2 1-5'' (jan31 - 259200000) = Some (Inr 1738573200000)"
  by code_simp+

theorem next_run_is_first_witness:
  "\<exists>m. 1738573200000 = m * 60000 \<and> jan31 < m * 60000 \<and> cron_matches sample_fields m"
proof -
  have z: "zh_local_offset sample_zone = 0" by (simp add: sample_zone_def)
  from next_run_is_first[OF sample_cron(1) refl refl disjI2[OF sample_cron(2)], of 1738573200000]
  obtain m where m: "1738573200000 = (m - zh_local_offset sample_zone) * 60000" "cron_matches sample_fields m"
    using sample_cron(3) by blast
  from m(1) have "jan31 < m * 60000" by (simp add: z jan31_def)
  with m show ?thesis unfolding z by auto
qed

text \<open>
  A tick runs a schedule that has a time zone exactly when it is enabled, not driven by the system
  crontab and not already running, its zone is valid and its expression parses, and there is a minute
  after its last run, or its creation, that matches in the zone and is not in the future; the due time
  is then the first such minute. No due run is skipped and none fires early.
\<close>

lemma schedule_tick_due:
  assumes "trimmed_or (sd_timezone s) [] \<noteq> []" and "tz = normalize_schedule_timezone z (sd_timezone s)"
    and "base = tick_base s nowMs"
  shows "(\<exists>trigger. resolve_schedule_tick isoText (is_valid_cron z) (get_next_run_for_timezone z) s nowMs active
        = Some (TD_run due trigger)) \<longleftrightarrow>
    sd_enabled s \<and> sd_execution_driver s \<noteq> ''system_crontab'' \<and> \<not> active \<and> zh_valid z tz
    \<and> (\<exists>f m. parse_cron z (sd_cron_expression s) = Some (Inr f) \<and> due = m * 60000
        \<and> base < m * 60000 \<and> m * 60000 < add_years 4 base \<and> m * 60000 \<le> nowMs \<and> zone_matches z tz f m
        \<and> (\<forall>x. base < x * 60000 \<and> x < m \<longrightarrow> \<not> zone_matches z tz f x))"
proof (cases "\<exists>f. parse_cron z (sd_cron_expression s) = Some (Inr f)")
  case False
  then have "is_valid_cron z (sd_cron_expression s) \<noteq> Some True"
    by (auto simp: is_valid_cron_def split: sum.splits)
  with False show ?thesis
    by (auto simp: resolve_schedule_tick_def split: option.splits bool.splits)
next
  case True
  then obtain f where f: "parse_cron z (sd_cron_expression s) = Some (Inr f)" by blast
  then have v: "is_valid_cron z (sd_cron_expression s) = Some True" by (simp add: is_valid_cron_def)
  define r where "r = scan_from (zone_matches z tz f) (add_years 4 base) (base div 60000 + 1)"
  have n: "get_next_run_for_timezone z (sd_cron_expression s) base (sd_timezone s) =
      (if zh_valid z tz then (case r of None \<Rightarrow> Some (Inl (no_match_error (sd_cron_expression s) @ '' in timezone: '' @ tz))
         | Some m \<Rightarrow> Some (Inr (m * 60000)))
       else Some (Inl (''Invalid timezone: '' @ tz)))"
    unfolding get_next_run_for_timezone_def get_next_run_in_timezone_def parse_then_def
    using assms(1) by (simp add: f r_def assms(2) split: option.split)
  have "(\<exists>trigger. resolve_schedule_tick isoText (is_valid_cron z) (get_next_run_for_timezone z) s nowMs active
        = Some (TD_run due trigger)) \<longleftrightarrow>
      sd_enabled s \<and> sd_execution_driver s \<noteq> ''system_crontab'' \<and> \<not> active \<and> zh_valid z tz
      \<and> (\<exists>m. r = Some m \<and> due = m * 60000 \<and> m * 60000 \<le> nowMs)"
    unfolding resolve_schedule_tick_def assms(3)[symmetric] n by (cases r) (auto simp: v)
  then show ?thesis unfolding f r_def scan_after_Some by auto
qed

definition sample_schedule :: schedule where
  "sample_schedule = \<lparr>sd_enabled = True, sd_execution_driver = ''internal'', sd_cron_expression = ''0 9 * * *'',
     sd_timezone = Some ''UTC'', sd_created_at = Some (jan31 + 32280000), sd_last_run_at = None\<rparr>"

lemma sample_tick:
  "trimmed_or (sd_timezone sample_schedule) [] \<noteq> []"
  "(case resolve_schedule_tick (\<lambda>_. ''09:00'') (is_valid_cron sample_zone) (get_next_run_for_timezone sample_zone)
     sample_schedule (jan31 + 40000000) False of Some (TD_run due _) \<Rightarrow> due = jan31 + 32400000 | _ \<Rightarrow> False)"
  by code_simp+

lemma schedule_tick_due_witness:
  "\<exists>f m. parse_cron sample_zone ''0 9 * * *'' = Some (Inr f) \<and> jan31 + 32400000 = m * 60000
     \<and> zone_matches sample_zone (normalize_schedule_timezone sample_zone (Some ''UTC'')) f m"
proof -
  have "\<exists>trigger. resolve_schedule_tick (\<lambda>_. ''09:00'') (is_valid_cron sample_zone) (get_next_run_for_timezone sample_zone)
      sample_schedule (jan31 + 40000000) False = Some (TD_run (jan31 + 32400000) trigger)"
    using sample_tick(2) by (auto split: option.splits tick_directive.splits)
  with schedule_tick_due[OF sample_tick(1) refl refl, of "\<lambda>_. ''09:00''" sample_zone "jan31 + 40000000" False
      "jan31 + 32400000"]
  show ?thesis by (auto simp: sample_schedule_def)
qed

end
