(* ===== verification/Serial_Queues.thy ===== *)
theory Serial_Queues
  imports Prelude
begin

text \<open>
  The queues that run one task at a time per key: executions per schedule (\<open>scheduler/queueing.ts\<close>),
  deliveries per target (\<open>scheduler/delivery-queue.ts\<close>) and delayed runs per session
  (\<open>runs/run-queueing.ts\<close>, all under \<open>src/packages/core/src\<close>).

  Each is a map from keys to the last promise of a chain. A request appends a link behind the promise
  the map holds, waits for it whatever its outcome, runs its task, and when the task has settled
  removes the map entry if it is still its own. The links are numbered in the order of the requests;
  beginning, settling and cleaning up are steps the host interleaves with further requests.
\<close>

section \<open>Links and steps\<close>

datatype link_phase = PH_waiting | PH_running | PH_settled bool | PH_done bool

record link =
  ln_key :: string
  ln_prev :: "nat option"
  ln_phase :: link_phase

record serial_queues =
  sq_tails :: "(string, nat) jsmap"
  sq_links :: "link list"

definition no_queues :: serial_queues where
  "no_queues = \<lparr>sq_tails = [], sq_links = []\<rparr>"

text \<open>\<open>map.has(key)\<close> and \<open>[...map.keys()]\<close>\<close>

definition has_queue :: "serial_queues \<Rightarrow> string \<Rightarrow> bool" where
  "has_queue s key \<longleftrightarrow> map_of (sq_tails s) key \<noteq> None"

definition list_queue_ids :: "serial_queues \<Rightarrow> string list" where
  "list_queue_ids s = map fst (sq_tails s)"

text \<open>\<open>previous = map.get(key)\<close>, a new link behind it, \<open>map.set(key, next)\<close>.\<close>

definition enqueue_link :: "string \<Rightarrow> serial_queues \<Rightarrow> serial_queues" where
  "enqueue_link key s =
    \<lparr>sq_tails = AList.update key (length (sq_links s)) (sq_tails s),
     sq_links = sq_links s @ [\<lparr>ln_key = key, ln_prev = map_of (sq_tails s) key, ln_phase = PH_waiting\<rparr>]\<rparr>"

definition phase_of :: "serial_queues \<Rightarrow> nat \<Rightarrow> link_phase" where
  "phase_of s n = ln_phase (sq_links s ! n)"

fun is_done :: "link_phase \<Rightarrow> bool" where
  "is_done (PH_done _) = True"
| "is_done _ = False"

definition set_phase :: "nat \<Rightarrow> link_phase \<Rightarrow> serial_queues \<Rightarrow> serial_queues" where
  "set_phase n ph s = s\<lparr>sq_links := (sq_links s)[n := (sq_links s ! n)\<lparr>ln_phase := ph\<rparr>]\<rparr>"

text \<open>\<open>(previous ?? Promise.resolve()).catch(warn).then(task)\<close>: the task may begin when the promise
  before it, if any, is over, resolved or rejected.\<close>

definition may_begin :: "serial_queues \<Rightarrow> nat \<Rightarrow> bool" where
  "may_begin s n \<longleftrightarrow> n < length (sq_links s) \<and> phase_of s n = PH_waiting
    \<and> (case ln_prev (sq_links s ! n) of None \<Rightarrow> True | Some p \<Rightarrow> is_done (phase_of s p))"

definition begin_link :: "nat \<Rightarrow> serial_queues \<Rightarrow> serial_queues" where
  "begin_link n = set_phase n PH_running"

definition settle_link :: "nat \<Rightarrow> bool \<Rightarrow> serial_queues \<Rightarrow> serial_queues" where
  "settle_link n ok = set_phase n (PH_settled ok)"

text \<open>\<open>finally\<close>: delete the entry only if it is this promise.\<close>

definition clean_link :: "nat \<Rightarrow> serial_queues \<Rightarrow> serial_queues" where
  "clean_link n s =
    (let key = ln_key (sq_links s ! n);
         ok = (case phase_of s n of PH_settled b \<Rightarrow> b | _ \<Rightarrow> False)
     in (set_phase n (PH_done ok) s)
          \<lparr>sq_tails := (if map_of (sq_tails s) key = Some n then AList.delete key (sq_tails s) else sq_tails s)\<rparr>)"

text \<open>What the host does between requests: begin a link whose turn it is, settle a running task, resolved
  or rejected, and run the clean-up of a settled one.\<close>

inductive serial_step :: "serial_queues \<Rightarrow> serial_queues \<Rightarrow> bool" where
  step_begin: "may_begin s n \<Longrightarrow> serial_step s (begin_link n s)"
| step_settle: "n < length (sq_links s) \<Longrightarrow> phase_of s n = PH_running \<Longrightarrow> serial_step s (settle_link n ok s)"
| step_clean: "n < length (sq_links s) \<Longrightarrow> phase_of s n = PH_settled ok \<Longrightarrow> serial_step s (clean_link n s)"

inductive_cases serial_stepE: "serial_step s s'"

inductive serial_reachable :: "serial_queues \<Rightarrow> bool" where
  serial_start: "serial_reachable no_queues"
| serial_enqueue: "serial_reachable s \<Longrightarrow> serial_reachable (enqueue_link key s)"
| serial_progress: "serial_reachable s \<Longrightarrow> serial_step s s' \<Longrightarrow> serial_reachable s'"

section \<open>Keys\<close>

text \<open>The delivery queue of a target; schedules and sessions use their own ids.\<close>

definition delivery_queue_id :: "string \<Rightarrow> string \<Rightarrow> string" where
  "delivery_queue_id targetChannel targetSessionId = targetChannel @ '':'' @ targetSessionId"

definition enqueue_schedule_execution :: "string \<Rightarrow> serial_queues \<Rightarrow> serial_queues" where
  "enqueue_schedule_execution scheduleId = enqueue_link scheduleId"

definition enqueue_scheduled_delivery :: "string \<Rightarrow> string \<Rightarrow> serial_queues \<Rightarrow> serial_queues" where
  "enqueue_scheduled_delivery targetChannel targetSessionId =
    enqueue_link (delivery_queue_id targetChannel targetSessionId)"

definition enqueue_delayed_session_run :: "string \<Rightarrow> serial_queues \<Rightarrow> serial_queues" where
  "enqueue_delayed_session_run sessionId = enqueue_link sessionId"

section \<open>Invariant\<close>

abbreviation key_of :: "serial_queues \<Rightarrow> nat \<Rightarrow> string" where
  "key_of s n \<equiv> ln_key (sq_links s ! n)"

definition serial_ok :: "serial_queues \<Rightarrow> bool" where
  "serial_ok s \<longleftrightarrow>
    (\<forall>n < length (sq_links s). \<forall>p. ln_prev (sq_links s ! n) = Some p \<longrightarrow> p < n \<and> key_of s p = key_of s n)
    \<and> (\<forall>n < length (sq_links s). \<forall>m < n. key_of s m = key_of s n \<longrightarrow>
        is_done (phase_of s m) \<or> phase_of s n = PH_waiting \<and> (\<exists>p. ln_prev (sq_links s ! n) = Some p \<and> m \<le> p))
    \<and> (\<forall>n < length (sq_links s). \<not> is_done (phase_of s n) \<longrightarrow>
        (\<exists>t. map_of (sq_tails s) (key_of s n) = Some t))
    \<and> (\<forall>k t. map_of (sq_tails s) k = Some t \<longrightarrow> t < length (sq_links s) \<and> key_of s t = k
        \<and> \<not> is_done (phase_of s t) \<and> (\<forall>n < length (sq_links s). key_of s n = k \<longrightarrow> n \<le> t))"

lemma set_phase_simps [simp]:
  "length (sq_links (set_phase n ph s)) = length (sq_links s)"
  "sq_tails (set_phase n ph s) = sq_tails s"
  "n < length (sq_links s) \<Longrightarrow> phase_of (set_phase n ph s) m = (if m = n then ph else phase_of s m)"
  "n < length (sq_links s) \<Longrightarrow> ln_key (sq_links (set_phase n ph s) ! m) = key_of s m"
  "n < length (sq_links s) \<Longrightarrow> ln_prev (sq_links (set_phase n ph s) ! m) = ln_prev (sq_links s ! m)"
  by (auto simp: set_phase_def phase_of_def nth_list_update)

lemma serial_okD:
  assumes "serial_ok s"
  shows serial_prev: "\<And>n p. n < length (sq_links s) \<Longrightarrow> ln_prev (sq_links s ! n) = Some p \<Longrightarrow>
      p < n \<and> key_of s p = key_of s n"
    and serial_order: "\<And>m n. n < length (sq_links s) \<Longrightarrow> m < n \<Longrightarrow> key_of s m = key_of s n \<Longrightarrow>
      is_done (phase_of s m) \<or> phase_of s n = PH_waiting \<and> (\<exists>p. ln_prev (sq_links s ! n) = Some p \<and> m \<le> p)"
    and serial_tail: "\<And>n. n < length (sq_links s) \<Longrightarrow> \<not> is_done (phase_of s n) \<Longrightarrow>
      \<exists>t. map_of (sq_tails s) (key_of s n) = Some t"
    and serial_last: "\<And>k t. map_of (sq_tails s) k = Some t \<Longrightarrow> t < length (sq_links s) \<and> key_of s t = k
      \<and> \<not> is_done (phase_of s t) \<and> (\<forall>n < length (sq_links s). key_of s n = k \<longrightarrow> n \<le> t)"
  using assms unfolding serial_ok_def by blast+

lemma enqueue_link_simps [simp]:
  "length (sq_links (enqueue_link key s)) = Suc (length (sq_links s))"
  "map_of (sq_tails (enqueue_link key s)) = (map_of (sq_tails s))(key \<mapsto> length (sq_links s))"
  "sq_links (enqueue_link key s) ! length (sq_links s) =
    \<lparr>ln_key = key, ln_prev = map_of (sq_tails s) key, ln_phase = PH_waiting\<rparr>"
  "n < length (sq_links s) \<Longrightarrow> sq_links (enqueue_link key s) ! n = sq_links s ! n"
  "phase_of (enqueue_link key s) (length (sq_links s)) = PH_waiting"
  "n < length (sq_links s) \<Longrightarrow> phase_of (enqueue_link key s) n = phase_of s n"
  by (auto simp: enqueue_link_def nth_append phase_of_def update_conv')

lemma serial_ok_enqueue:
  assumes ok: "serial_ok s"
  shows "serial_ok (enqueue_link key s)"
  unfolding serial_ok_def
proof (intro conjI allI impI)
  fix n p
  assume "n < length (sq_links (enqueue_link key s))" "ln_prev (sq_links (enqueue_link key s) ! n) = Some p"
  then show "p < n" and "key_of (enqueue_link key s) p = key_of (enqueue_link key s) n"
    using serial_prev[OF ok, of n p] serial_last[OF ok, of key p]
    by (cases "n = length (sq_links s)"; auto simp: less_Suc_eq)+
next
  fix n m
  assume "n < length (sq_links (enqueue_link key s))" "m < n"
    "key_of (enqueue_link key s) m = key_of (enqueue_link key s) n"
  then show "is_done (phase_of (enqueue_link key s) m) \<or> phase_of (enqueue_link key s) n = PH_waiting
      \<and> (\<exists>p. ln_prev (sq_links (enqueue_link key s) ! n) = Some p \<and> m \<le> p)"
    using serial_order[OF ok, of n m] serial_tail[OF ok, of m] serial_last[OF ok, of key]
    by (cases "n = length (sq_links s)") (auto simp: less_Suc_eq)
next
  fix n
  assume "n < length (sq_links (enqueue_link key s))" "\<not> is_done (phase_of (enqueue_link key s) n)"
  then show "\<exists>t. map_of (sq_tails (enqueue_link key s)) (key_of (enqueue_link key s) n) = Some t"
    using serial_tail[OF ok, of n] by (cases "n = length (sq_links s)") auto
next
  fix k t n
  assume t: "map_of (sq_tails (enqueue_link key s)) k = Some t"
  show "t < length (sq_links (enqueue_link key s))" and "key_of (enqueue_link key s) t = k"
    and "\<not> is_done (phase_of (enqueue_link key s) t)"
    using t serial_last[OF ok, of k t] by (auto split: if_splits)
  assume "n < length (sq_links (enqueue_link key s))" "key_of (enqueue_link key s) n = k"
  then show "n \<le> t"
    using t serial_last[OF ok, of k t] by (cases "n = length (sq_links s)") (auto split: if_splits)
qed

text \<open>Beginning and settling a link change only its phase, to one that is neither waiting nor over.\<close>

lemma serial_ok_set_phase:
  assumes ok: "serial_ok s" and n: "n < length (sq_links s)" and live: "\<not> is_done (phase_of s n)"
    and ph: "\<not> is_done ph"
    and turn: "\<And>m. m < n \<Longrightarrow> key_of s m = key_of s n \<Longrightarrow> is_done (phase_of s m)"
  shows "serial_ok (set_phase n ph s)"
  unfolding serial_ok_def
proof (intro conjI allI impI)
  fix i p
  assume "i < length (sq_links (set_phase n ph s))" "ln_prev (sq_links (set_phase n ph s) ! i) = Some p"
  then show "p < i" and "key_of (set_phase n ph s) p = key_of (set_phase n ph s) i"
    using serial_prev[OF ok, of i p] n by auto
next
  fix i m
  assume "i < length (sq_links (set_phase n ph s))" "m < i"
    "key_of (set_phase n ph s) m = key_of (set_phase n ph s) i"
  then show "is_done (phase_of (set_phase n ph s) m) \<or> phase_of (set_phase n ph s) i = PH_waiting
      \<and> (\<exists>p. ln_prev (sq_links (set_phase n ph s) ! i) = Some p \<and> m \<le> p)"
    using serial_order[OF ok, of i m] turn[of m] n live by auto
next
  fix i
  assume "i < length (sq_links (set_phase n ph s))" "\<not> is_done (phase_of (set_phase n ph s) i)"
  then show "\<exists>t. map_of (sq_tails (set_phase n ph s)) (key_of (set_phase n ph s) i) = Some t"
    using serial_tail[OF ok, of i] n live by (auto split: if_splits)
next
  fix k t i
  assume t: "map_of (sq_tails (set_phase n ph s)) k = Some t"
  show "t < length (sq_links (set_phase n ph s))" and "key_of (set_phase n ph s) t = k"
    and "\<not> is_done (phase_of (set_phase n ph s) t)"
    using t serial_last[OF ok, of k t] n ph by auto
  assume "i < length (sq_links (set_phase n ph s))" "key_of (set_phase n ph s) i = k"
  then show "i \<le> t" using t serial_last[OF ok, of k t] n by auto
qed

lemma serial_turn:
  assumes ok: "serial_ok s" and n: "n < length (sq_links s)"
    and up: "may_begin s n \<or> phase_of s n \<noteq> PH_waiting"
    and m: "m < n" "key_of s m = key_of s n"
  shows "is_done (phase_of s m)"
proof (cases "phase_of s n = PH_waiting \<and> (\<exists>p. ln_prev (sq_links s ! n) = Some p \<and> m \<le> p)")
  case True
  then obtain p where p: "ln_prev (sq_links s ! n) = Some p" "m \<le> p" by blast
  then have "is_done (phase_of s p)" using up True by (auto simp: may_begin_def)
  moreover have "p < n" "key_of s p = key_of s n" using serial_prev[OF ok n p(1)] by auto
  ultimately show ?thesis
    using serial_order[OF ok, of p m] p m n by (cases "m = p") auto
next
  case False
  then show ?thesis using serial_order[OF ok n m] by blast
qed

lemma serial_ok_begin: "serial_ok s \<Longrightarrow> may_begin s n \<Longrightarrow> serial_ok (begin_link n s)"
  unfolding begin_link_def
  by (rule serial_ok_set_phase) (auto simp: may_begin_def intro: serial_turn)

lemma serial_ok_settle:
  "serial_ok s \<Longrightarrow> n < length (sq_links s) \<Longrightarrow> phase_of s n = PH_running \<Longrightarrow> serial_ok (settle_link n b s)"
  unfolding settle_link_def by (rule serial_ok_set_phase) (auto intro: serial_turn)

lemma serial_ok_clean:
  assumes ok: "serial_ok s" and n: "n < length (sq_links s)" and settled: "phase_of s n = PH_settled b"
  shows "serial_ok (clean_link n s)"
proof -
  have turn: "is_done (phase_of s m)" if "m < n" "key_of s m = key_of s n" for m
    using serial_turn[OF ok n _ that] settled by simp
  have links [simp]: "length (sq_links (clean_link n s)) = length (sq_links s)"
    "\<And>m. phase_of (clean_link n s) m = (if m = n then PH_done b else phase_of s m)"
    "\<And>m. key_of (clean_link n s) m = key_of s m"
    "\<And>m. ln_prev (sq_links (clean_link n s) ! m) = ln_prev (sq_links s ! m)"
    using n settled by (auto simp: clean_link_def Let_def phase_of_def set_phase_def nth_list_update)
  have tails: "map_of (sq_tails (clean_link n s)) k =
      (if k = key_of s n \<and> map_of (sq_tails s) k = Some n then None else map_of (sq_tails s) k)" for k
    by (auto simp: clean_link_def Let_def delete_conv')
  show ?thesis
    unfolding serial_ok_def
  proof (intro conjI allI impI)
    fix i p
    assume "i < length (sq_links (clean_link n s))" "ln_prev (sq_links (clean_link n s) ! i) = Some p"
    then show "p < i" and "key_of (clean_link n s) p = key_of (clean_link n s) i"
      using serial_prev[OF ok, of i p] by auto
  next
    fix i m
    assume "i < length (sq_links (clean_link n s))" "m < i"
      "key_of (clean_link n s) m = key_of (clean_link n s) i"
    then show "is_done (phase_of (clean_link n s) m) \<or> phase_of (clean_link n s) i = PH_waiting
        \<and> (\<exists>p. ln_prev (sq_links (clean_link n s) ! i) = Some p \<and> m \<le> p)"
      using serial_order[OF ok, of i m] turn[of m] by auto
  next
    fix i
    assume i: "i < length (sq_links (clean_link n s))" "\<not> is_done (phase_of (clean_link n s) i)"
    then have "i \<noteq> n" "\<not> is_done (phase_of s i)" by (auto split: if_splits)
    moreover have "i < n" if "key_of s i = key_of s n" "map_of (sq_tails s) (key_of s n) = Some n"
      using serial_last[OF ok that(2)] that(1) i(1) \<open>i \<noteq> n\<close> by fastforce
    ultimately show "\<exists>t. map_of (sq_tails (clean_link n s)) (key_of (clean_link n s) i) = Some t"
      using serial_tail[OF ok, of i] i(1) turn[of i] by (auto simp: tails)
  next
    fix k t i
    assume t: "map_of (sq_tails (clean_link n s)) k = Some t"
    show "t < length (sq_links (clean_link n s))" and "key_of (clean_link n s) t = k"
      and "\<not> is_done (phase_of (clean_link n s) t)"
      using t serial_last[OF ok, of k t] by (auto simp: tails split: if_splits)
    assume "i < length (sq_links (clean_link n s))" "key_of (clean_link n s) i = k"
    then show "i \<le> t" using t serial_last[OF ok, of k t] by (auto simp: tails split: if_splits)
  qed
qed

lemma serial_reachable_ok: "serial_reachable s \<Longrightarrow> serial_ok s"
proof (induction rule: serial_reachable.induct)
  case serial_start
  show ?case by (simp add: serial_ok_def no_queues_def)
qed (auto elim!: serial_stepE intro: serial_ok_enqueue serial_ok_begin serial_ok_settle serial_ok_clean)

lemma may_begin_iff:
  assumes ok: "serial_ok s" and n: "n < length (sq_links s)" and waiting: "phase_of s n = PH_waiting"
  shows "may_begin s n \<longleftrightarrow> (\<forall>m < n. key_of s m = key_of s n \<longrightarrow> is_done (phase_of s m))"
  using serial_turn[OF ok n] serial_prev[OF ok n] n waiting by (auto simp: may_begin_def split: option.split)

lemma has_queue_iff:
  assumes ok: "serial_ok s"
  shows "has_queue s key \<longleftrightarrow> (\<exists>n < length (sq_links s). key_of s n = key \<and> \<not> is_done (phase_of s n))"
  using serial_last[OF ok, of key] serial_tail[OF ok] by (fastforce simp: has_queue_def)

lemma no_step_iff:
  assumes ok: "serial_ok s"
  shows "(\<nexists>s'. serial_step s s') \<longleftrightarrow> (\<forall>n < length (sq_links s). is_done (phase_of s n))"
proof
  assume stuck: "\<nexists>s'. serial_step s s'"
  show "\<forall>n < length (sq_links s). is_done (phase_of s n)"
  proof (intro allI impI)
    fix n
    assume "n < length (sq_links s)"
    then show "is_done (phase_of s n)"
    proof (induction n rule: less_induct)
      case (less n)
      show ?case
      proof (cases "phase_of s n")
        case PH_waiting
        then have "may_begin s n" using less may_begin_iff[OF ok] by simp
        then show ?thesis using stuck step_begin by blast
      next
        case PH_running
        then show ?thesis using stuck less.prems step_settle by blast
      next
        case (PH_settled b)
        then show ?thesis using stuck less.prems step_clean by blast
      next
        case (PH_done b)
        then show ?thesis by simp
      qed
    qed
  qed
next
  assume "\<forall>n < length (sq_links s). is_done (phase_of s n)"
  then show "\<nexists>s'. serial_step s s'" by (fastforce elim!: serial_stepE simp: may_begin_def)
qed

section \<open>Properties\<close>

text \<open>C40: The schedule, delivery and delayed-run queues serialise per key. In every state reachable by
  requests, starts, settlements (resolved or rejected) and clean-ups in any order: a task that has begun
  has all earlier tasks of its key behind it, so two of one key never overlap and they run in request
  order; a waiting task may begin exactly when the earlier ones of its key are over, whatever their
  outcome and whatever other keys do; the map has an entry for a key exactly while a task of that key is
  unfinished; and the host is out of steps only when every task is over and the map is empty.\<close>

theorem chain_serial:
  assumes "serial_reachable s"
  shows "(\<forall>n < length (sq_links s). phase_of s n \<noteq> PH_waiting \<longrightarrow>
        (\<forall>m < n. key_of s m = key_of s n \<longrightarrow> is_done (phase_of s m)))
    \<and> (\<forall>n < length (sq_links s). phase_of s n = PH_waiting \<longrightarrow>
        (may_begin s n \<longleftrightarrow> (\<forall>m < n. key_of s m = key_of s n \<longrightarrow> is_done (phase_of s m))))
    \<and> (\<forall>key. has_queue s key \<longleftrightarrow>
        (\<exists>n < length (sq_links s). key_of s n = key \<and> \<not> is_done (phase_of s n)))
    \<and> ((\<nexists>s'. serial_step s s') \<longleftrightarrow>
        sq_tails s = [] \<and> (\<forall>n < length (sq_links s). is_done (phase_of s n)))"
proof -
  note ok = serial_reachable_ok[OF assms]
  have "sq_tails s = []" if "\<forall>n < length (sq_links s). is_done (phase_of s n)"
  proof -
    have "\<not> has_queue s (fst (hd (sq_tails s)))" using that has_queue_iff[OF ok] by blast
    then show ?thesis by (cases "sq_tails s") (auto simp: has_queue_def)
  qed
  then show ?thesis
    using serial_turn[OF ok] may_begin_iff[OF ok] has_queue_iff[OF ok] no_step_iff[OF ok] by blast
qed

text \<open>Two deliveries to one target and one schedule execution in between: the first delivery fails, the
  schedule runs on its own, the second delivery follows the first.\<close>

definition sample_chain :: serial_queues where
  "sample_chain =
    begin_link 1 (settle_link 0 False (begin_link 0
      (enqueue_scheduled_delivery ''slack'' ''s1'' (enqueue_schedule_execution ''daily''
        (enqueue_scheduled_delivery ''slack'' ''s1'' no_queues)))))"

lemma sample_chain_reachable: "serial_reachable sample_chain"
proof -
  let ?s = "enqueue_scheduled_delivery ''slack'' ''s1'' (enqueue_schedule_execution ''daily''
        (enqueue_scheduled_delivery ''slack'' ''s1'' no_queues))"
  have "serial_reachable ?s"
    unfolding enqueue_scheduled_delivery_def enqueue_schedule_execution_def
    by (intro serial_enqueue serial_start)
  moreover have "may_begin ?s 0" by code_simp
  moreover have "phase_of (begin_link 0 ?s) 0 = PH_running \<and> 0 < length (sq_links (begin_link 0 ?s))"
    by code_simp
  moreover have "may_begin (settle_link 0 False (begin_link 0 ?s)) 1" by code_simp
  ultimately show ?thesis
    unfolding sample_chain_def by (meson serial_progress step_begin step_settle)
qed

theorem chain_serial_witness:
  "\<not> may_begin sample_chain 2 \<and> may_begin (clean_link 0 sample_chain) 2 \<and> has_queue sample_chain ''daily''"
proof -
  have len: "length (sq_links sample_chain) = 3" by code_simp
  note chain = chain_serial[OF sample_chain_reachable, unfolded len]
  have "phase_of sample_chain 2 = PH_waiting" "key_of sample_chain 0 = key_of sample_chain 2"
    "\<not> is_done (phase_of sample_chain 0)" by code_simp+
  then have "\<not> may_begin sample_chain 2"
    using conjunct1[OF conjunct2[OF chain], rule_format, of 2] by auto
  moreover have "key_of sample_chain 1 = ''daily''" "\<not> is_done (phase_of sample_chain 1)"
    by code_simp+
  then have "has_queue sample_chain ''daily''"
    using conjunct1[OF conjunct2[OF conjunct2[OF chain]], rule_format, of "''daily''"] by force
  moreover have "may_begin (clean_link 0 sample_chain) 2" by code_simp
  ultimately show ?thesis by blast
qed

end
