(* ===== verification/Sqlite_Order.thy ===== *)
theory Sqlite_Order
  imports Prelude
begin

text \<open>How the database orders text, by code, and numbers; and \<open>a || b\<close> on the results of comparisons.\<close>

fun binary_compare :: "string \<Rightarrow> string \<Rightarrow> int" where
  "binary_compare [] [] = 0"
| "binary_compare [] (_ # _) = - 1"
| "binary_compare (_ # _) [] = 1"
| "binary_compare (a # as) (b # bs) =
    (if a = b then binary_compare as bs else if of_char a < (of_char b :: nat) then - 1 else 1)"

definition number_compare :: "rat \<Rightarrow> rat \<Rightarrow> int" where
  "number_compare a b = (if a < b then - 1 else if b < a then 1 else 0)"

fun first_nonzero :: "int list \<Rightarrow> int" where
  "first_nonzero [] = 0"
| "first_nonzero (x # xs) = (if x \<noteq> 0 then x else first_nonzero xs)"

end
