(* ===== verification/Hierarchy.thy ===== *)
theory Hierarchy
  imports Command_Contract Compiler Sqlite_Order "HOL-Library.Extended_Nat"
begin

text \<open>
  The agent hierarchy, \<open>orchestration/hierarchy.ts\<close>: parent-child relationships between agents, the
  checks a new one must pass, creating and disabling them on the table \<open>agent_relationships\<close> of the
  database (\<open>db/index.ts\<close>, \<open>db/migrations.ts\<close>), and the views over the active ones.

  The agents the registry knows and the configured limits are the environment of the service; the two
  readings of the clock are arguments. The layout file of the tree view is not modelled.
\<close>

section \<open>Data\<close>

datatype relationship_status = RS_active | RS_disabled | RS_archived

fun relationship_status_text :: "relationship_status \<Rightarrow> string" where
  "relationship_status_text RS_active = ''active''"
| "relationship_status_text RS_disabled = ''disabled''"
| "relationship_status_text RS_archived = ''archived''"

text \<open>\<open>relationshipType\<close> has the one value \<open>parent_child\<close> and no field here.\<close>

record agent_relationship =
  rl_edgeId :: string
  rl_parentAgentId :: string
  rl_childAgentId :: string
  rl_status :: relationship_status
  rl_sortOrder :: rat
  rl_createdAt :: rat
  rl_updatedAt :: rat

text \<open>What \<open>normalizeRelationshipInput\<close> returns before it is validated: three fields may hold anything.\<close>

record relationship_candidate =
  rc_edgeId :: string
  rc_parentAgentId :: string
  rc_childAgentId :: string
  rc_relationshipType :: json
  rc_status :: json
  rc_sortOrder :: json
  rc_createdAt :: rat
  rc_updatedAt :: rat

datatype agent_type = AT_nobie | AT_sub_agent

datatype agent_status = AG_enabled | AG_disabled | AG_archived | AG_degraded

fun agent_status_text :: "agent_status \<Rightarrow> string" where
  "agent_status_text AG_enabled = ''enabled''"
| "agent_status_text AG_disabled = ''disabled''"
| "agent_status_text AG_archived = ''archived''"
| "agent_status_text AG_degraded = ''degraded''"

datatype agent_source = SO_db | SO_config | SO_topology | SO_synthetic

record agent_config =
  ag_agentId :: string
  ag_agentType :: agent_type
  ag_displayName :: string
  ag_nickname :: "string option"
  ag_status :: agent_status

record agent_summary = agent_config +
  as_source :: agent_source

datatype diagnostic_severity = DS_info | DS_warning | DS_blocked

record hierarchy_diagnostic =
  hd_reasonCode :: string
  hd_severity :: diagnostic_severity
  hd_message :: string
  hd_edgeId :: "string option"
  hd_parentAgentId :: "string option"
  hd_childAgentId :: "string option"
  hd_limit :: "jsnum option"
  hd_value :: "jsnum option"
  hd_path :: "string option"

record hierarchy_result =
  hr_ok :: bool
  hr_relationship :: relationship_candidate
  hr_diagnostics :: "hierarchy_diagnostic list"

section \<open>Contract of a relationship\<close>

definition has_finite_number_from_zero :: "json \<Rightarrow> string \<Rightarrow> string \<Rightarrow> validation_issue list" where
  "has_finite_number_from_zero r k path =
    (case jget r k of
       JNum (Fin x) \<Rightarrow> (if 0 \<le> x then [] else
         add_issue (path @ ''.'' @ k) (k @ '' must be a finite number greater than or equal to 0.''))
     | _ \<Rightarrow> add_issue (path @ ''.'' @ k) (k @ '' must be a finite number greater than or equal to 0.''))"

fun relationship_status_of :: "json \<Rightarrow> relationship_status option" where
  "relationship_status_of (JStr s) =
    (if s = ''active'' then Some RS_active else if s = ''disabled'' then Some RS_disabled
     else if s = ''archived'' then Some RS_archived else None)"
| "relationship_status_of _ = None"

definition validate_agent_relationship :: "json \<Rightarrow> validation_issue list" where
  "validate_agent_relationship v =
    (if \<not> is_record v then add_issue ''$'' ''AgentRelationship must be an object.''
     else has_non_empty_string v ''edgeId'' ''$''
       @ has_non_empty_string v ''parentAgentId'' ''$''
       @ has_non_empty_string v ''childAgentId'' ''$''
       @ (if jget v ''relationshipType'' \<noteq> JStr ''parent_child''
          then add_issue ''$.relationshipType'' ''relationshipType must be parent_child.'' else [])
       @ (if is_string (jget v ''parentAgentId'') \<and> is_string (jget v ''childAgentId'')
             \<and> jget v ''parentAgentId'' = jget v ''childAgentId''
          then add_issue ''$.childAgentId'' ''parentAgentId and childAgentId must be different.'' else [])
       @ (if relationship_status_of (jget v ''status'') = None
          then add_issue ''$.status'' ''status must be active, disabled, or archived.'' else [])
       @ has_finite_number_from_zero v ''sortOrder'' ''$'')"

definition candidate_json :: "relationship_candidate \<Rightarrow> json" where
  "candidate_json c = JObj
    [(''edgeId'', JStr (rc_edgeId c)), (''parentAgentId'', JStr (rc_parentAgentId c)),
     (''childAgentId'', JStr (rc_childAgentId c)), (''relationshipType'', rc_relationshipType c),
     (''status'', rc_status c), (''sortOrder'', rc_sortOrder c),
     (''createdAt'', JNum (Fin (rc_createdAt c))), (''updatedAt'', JNum (Fin (rc_updatedAt c)))]"

section \<open>Reading a relationship\<close>

fun as_string :: "json \<Rightarrow> string option" where
  "as_string (JStr s) = (if non_blank s then Some s else None)"
| "as_string _ = None"

fun as_finite_number :: "json \<Rightarrow> rat option" where
  "as_finite_number (JNum (Fin x)) = Some x"
| "as_finite_number _ = None"

definition default_edge_id :: "string \<Rightarrow> string \<Rightarrow> string" where
  "default_edge_id parent child = ''relationship:'' @ parent @ ''->'' @ child"

definition normalize_relationship_input :: "json \<Rightarrow> rat \<Rightarrow> nat \<Rightarrow> relationship_candidate" where
  "normalize_relationship_input input now nextSortOrder =
    (let v = (if is_record input then input else JObj []);
         parent = opt_or (as_string (jget v ''parentAgentId'')) [];
         child = opt_or (as_string (jget v ''childAgentId'')) []
     in \<lparr>rc_edgeId = opt_or (as_string (jget v ''edgeId''))
           (if parent \<noteq> [] \<and> child \<noteq> [] then default_edge_id parent child else []),
         rc_parentAgentId = parent,
         rc_childAgentId = child,
         rc_relationshipType = (if has_key v ''relationshipType'' then jget v ''relationshipType''
           else JStr ''parent_child''),
         rc_status = (if has_key v ''status'' then jget v ''status'' else JStr ''active''),
         rc_sortOrder = (if has_key v ''sortOrder'' then jget v ''sortOrder''
           else JNum (Fin (of_nat nextSortOrder))),
         rc_createdAt = opt_or (as_finite_number (jget v ''createdAt'')) now,
         rc_updatedAt = opt_or (as_finite_number (jget v ''updatedAt'')) now\<rparr>)"

text \<open>A validated candidate is a relationship, and a relationship is a candidate.\<close>

definition typed_relationship :: "relationship_candidate \<Rightarrow> agent_relationship" where
  "typed_relationship c =
    \<lparr>rl_edgeId = rc_edgeId c, rl_parentAgentId = rc_parentAgentId c, rl_childAgentId = rc_childAgentId c,
     rl_status = opt_or (relationship_status_of (rc_status c)) RS_active,
     rl_sortOrder = opt_or (as_finite_number (rc_sortOrder c)) 0,
     rl_createdAt = rc_createdAt c, rl_updatedAt = rc_updatedAt c\<rparr>"

definition candidate_of :: "agent_relationship \<Rightarrow> relationship_candidate" where
  "candidate_of r =
    \<lparr>rc_edgeId = rl_edgeId r, rc_parentAgentId = rl_parentAgentId r, rc_childAgentId = rl_childAgentId r,
     rc_relationshipType = JStr ''parent_child'', rc_status = JStr (relationship_status_text (rl_status r)),
     rc_sortOrder = JNum (Fin (rl_sortOrder r)), rc_createdAt = rl_createdAt r, rc_updatedAt = rl_updatedAt r\<rparr>"

section \<open>The table\<close>

record relationship_row = agent_relationship +
  rr_auditId :: "string option"

text \<open>The rows in the order of their insertion, and whether a migration holds the write lock.\<close>

record hierarchy_db =
  hb_locked :: bool
  hb_rows :: "relationship_row list"

definition no_relationships :: hierarchy_db where
  "no_relationships = \<lparr>hb_locked = False, hb_rows = []\<rparr>"

datatype db_error = DB_migration_lock | DB_unique_constraint

text \<open>\<open>edge_id\<close> is the primary key and \<open>(parent, child, type)\<close> is unique over all rows, whatever their
  status. A conflict on the key updates the row and keeps its \<open>created_at\<close>.\<close>

definition upsert_agent_relationship ::
  "agent_relationship \<Rightarrow> string option \<Rightarrow> rat \<Rightarrow> hierarchy_db \<Rightarrow> db_error + hierarchy_db" where
  "upsert_agent_relationship r auditId now db =
    (if hb_locked db then Inl DB_migration_lock
     else if \<exists>row \<in> set (hb_rows db). rl_edgeId row \<noteq> rl_edgeId r
         \<and> rl_parentAgentId row = rl_parentAgentId r \<and> rl_childAgentId row = rl_childAgentId r
     then Inl DB_unique_constraint
     else if \<exists>row \<in> set (hb_rows db). rl_edgeId row = rl_edgeId r
     then Inr (db\<lparr>hb_rows := map (\<lambda>row. if rl_edgeId row = rl_edgeId r
         then \<lparr>rl_edgeId = rl_edgeId r, rl_parentAgentId = rl_parentAgentId r,
               rl_childAgentId = rl_childAgentId r, rl_status = rl_status r,
               rl_sortOrder = rl_sortOrder r, rl_createdAt = rl_createdAt row, rl_updatedAt = now,
               rr_auditId = auditId\<rparr>
         else row) (hb_rows db)\<rparr>)
     else Inr (db\<lparr>hb_rows := hb_rows db @
         [\<lparr>rl_edgeId = rl_edgeId r, rl_parentAgentId = rl_parentAgentId r,
           rl_childAgentId = rl_childAgentId r, rl_status = rl_status r,
           rl_sortOrder = rl_sortOrder r, rl_createdAt = rl_createdAt r, rl_updatedAt = now,
           rr_auditId = auditId\<rparr>]\<rparr>))"

definition get_agent_relationship :: "hierarchy_db \<Rightarrow> string \<Rightarrow> relationship_row option" where
  "get_agent_relationship db edgeId = find (\<lambda>row. rl_edgeId row = edgeId) (hb_rows db)"

text \<open>\<open>ORDER BY parent_agent_id ASC, sort_order ASC, edge_id ASC\<close>\<close>

definition sql_order :: "relationship_row \<Rightarrow> relationship_row \<Rightarrow> int" where
  "sql_order l r = first_nonzero
    [binary_compare (rl_parentAgentId l) (rl_parentAgentId r),
     number_compare (rl_sortOrder l) (rl_sortOrder r), binary_compare (rl_edgeId l) (rl_edgeId r)]"

definition list_agent_relationships :: "relationship_status option \<Rightarrow> hierarchy_db \<Rightarrow> relationship_row list" where
  "list_agent_relationships status db =
    js_sort sql_order (filter (\<lambda>row. case status of None \<Rightarrow> True | Some s \<Rightarrow> rl_status row = s) (hb_rows db))"

definition relationship_from_row :: "relationship_row \<Rightarrow> agent_relationship" where
  "relationship_from_row row = agent_relationship.truncate row"

section \<open>Graph of the active relationships\<close>

definition relationship_sort :: "(string \<Rightarrow> string \<Rightarrow> int) \<Rightarrow> agent_relationship \<Rightarrow> agent_relationship \<Rightarrow> int" where
  "relationship_sort cmp l r = first_nonzero
    [cmp (rl_parentAgentId l) (rl_parentAgentId r), number_compare (rl_sortOrder l) (rl_sortOrder r),
     cmp (rl_edgeId l) (rl_edgeId r)]"

definition active_relationships :: "(string \<Rightarrow> string \<Rightarrow> int) \<Rightarrow> hierarchy_db \<Rightarrow> agent_relationship list" where
  "active_relationships cmp db =
    js_sort (relationship_sort cmp) (map relationship_from_row (list_agent_relationships (Some RS_active) db))"

definition parent_by_child :: "agent_relationship list \<Rightarrow> (string, agent_relationship) jsmap" where
  "parent_by_child rs = index_by rl_childAgentId id (filter (\<lambda>r. rl_status r = RS_active) rs)"

definition children_by_parent ::
  "(string \<Rightarrow> string \<Rightarrow> int) \<Rightarrow> agent_relationship list \<Rightarrow> (string, agent_relationship list) jsmap" where
  "children_by_parent cmp rs =
    map (\<lambda>(p, children). (p, js_sort (relationship_sort cmp) children))
      (fold (\<lambda>r m. AList.update (rl_parentAgentId r) (js_lookup m (rl_parentAgentId r) [] @ [r]) m)
        (filter (\<lambda>r. rl_status r = RS_active) rs) [])"

text \<open>The stack of \<open>descendantAgentIds\<close>, its top first: pushing the reversed children of an agent puts
  them on top in their order. \<open>visited\<close> and \<open>descendants\<close> hold the same ids.\<close>

function descend :: "(string, agent_relationship list) jsmap \<Rightarrow> string list \<Rightarrow> agent_relationship list \<Rightarrow> string list" where
  "descend byParent descendants [] = descendants"
| "descend byParent descendants (r # stack) =
    (if rl_childAgentId r \<in> set descendants then descend byParent descendants stack
     else descend byParent (descendants @ [rl_childAgentId r])
       (js_lookup byParent (rl_childAgentId r) [] @ stack))"
  by pat_completeness auto
termination
proof (relation "inv_image (finite_psubset <*lex*> measure length)
    (\<lambda>(m, ds, stack). (rl_childAgentId ` (set stack \<union> (\<Union>rs \<in> snd ` set m. set rs)) - set ds, stack))", goal_cases)
  case 1
  show ?case by (intro wf_inv_image wf_lex_prod wf_finite_psubset wf_measure)
next
  case (2 m ds r stack)
  then have "rl_childAgentId ` (set stack \<union> (\<Union>rs \<in> snd ` set m. set rs)) - set ds
    = rl_childAgentId ` (set (r # stack) \<union> (\<Union>rs \<in> snd ` set m. set rs)) - set ds" by auto
  then show ?case by simp
next
  case (3 m ds r stack)
  have "set (js_lookup m (rl_childAgentId r) []) \<subseteq> (\<Union>rs \<in> snd ` set m. set rs)"
    by (cases "map_of m (rl_childAgentId r)") (force simp: js_lookup_def dest: map_of_SomeD)+
  then have "rl_childAgentId ` (set (js_lookup m (rl_childAgentId r) [] @ stack) \<union> (\<Union>rs \<in> snd ` set m. set rs))
      - set (ds @ [rl_childAgentId r])
    \<subset> rl_childAgentId ` (set (r # stack) \<union> (\<Union>rs \<in> snd ` set m. set rs)) - set ds"
    using 3 by auto
  then show ?case by (simp add: finite_psubset_def)
qed

definition descendant_agent_ids ::
  "(string \<Rightarrow> string \<Rightarrow> int) \<Rightarrow> string \<Rightarrow> agent_relationship list \<Rightarrow> string list" where
  "descendant_agent_ids cmp agentId rs =
    (let byParent = children_by_parent cmp rs in descend byParent [] (js_lookup byParent agentId []))"

definition has_path :: "(string \<Rightarrow> string \<Rightarrow> int) \<Rightarrow> string \<Rightarrow> string \<Rightarrow> agent_relationship list \<Rightarrow> bool" where
  "has_path cmp fromAgentId toAgentId rs \<longleftrightarrow> toAgentId \<in> set (descendant_agent_ids cmp fromAgentId rs)"

text \<open>The walk of \<open>depthOf\<close> towards the root, infinite when it meets an agent again.\<close>

function climb :: "(string, agent_relationship) jsmap \<Rightarrow> string \<Rightarrow> string list \<Rightarrow> string \<Rightarrow> nat \<Rightarrow> enat" where
  "climb byChild rootId seen cursor depth =
    (case map_of byChild cursor of
       None \<Rightarrow> enat depth
     | Some r \<Rightarrow>
         if rl_parentAgentId r = rootId then enat depth
         else if rl_parentAgentId r \<in> set seen then \<infinity>
         else climb byChild rootId (rl_parentAgentId r # seen) (rl_parentAgentId r) (depth + 1))"
  by pat_completeness auto
termination
proof (relation "measure (\<lambda>(m, rootId, seen, cursor, d). card (rl_parentAgentId ` snd ` set m - set seen))", goal_cases)
  case (2 m rootId seen cursor depth r)
  then have "rl_parentAgentId r \<in> rl_parentAgentId ` snd ` set m" by (force dest: map_of_SomeD)
  then have "card (rl_parentAgentId ` snd ` set m - insert (rl_parentAgentId r) (set seen))
      < card (rl_parentAgentId ` snd ` set m - set seen)"
    using 2 by (intro psubset_card_mono) auto
  then show ?case by simp
qed simp

declare climb.simps [simp del]

definition depth_of :: "string \<Rightarrow> string \<Rightarrow> (string, agent_relationship) jsmap \<Rightarrow> enat" where
  "depth_of agentId rootId byChild = (if agentId = rootId then 0 else climb byChild rootId [agentId] agentId 1)"

text \<open>The walk of \<open>inactiveReasonFor\<close>; \<open>None\<close> is an agent that can take work.\<close>

function inactive_walk ::
  "string \<Rightarrow> string \<Rightarrow> (string, agent_summary) jsmap \<Rightarrow> (string, agent_relationship) jsmap
    \<Rightarrow> string list \<Rightarrow> string \<Rightarrow> string option" where
  "inactive_walk agentId rootId agents byChild seen cursor =
    (if cursor = rootId then None
     else if cursor \<in> set seen then Some ''cycle_detected''
     else case map_of byChild cursor of
       None \<Rightarrow> Some (if cursor = agentId then ''agent_unassigned'' else ''ancestor_unassigned'')
     | Some r \<Rightarrow>
         (case map_of agents (rl_parentAgentId r) of
            None \<Rightarrow> Some ''missing_ancestor''
          | Some parent \<Rightarrow>
              if ag_agentId parent \<noteq> rootId \<and> ag_status parent \<noteq> AG_enabled
              then Some (''ancestor_'' @ agent_status_text (ag_status parent))
              else inactive_walk agentId rootId agents byChild (cursor # seen) (ag_agentId parent)))"
  by pat_completeness auto
termination
proof (relation "measure (\<lambda>(a, rootId, agents, m, seen, cursor). card (fst ` set m - set seen))", goal_cases)
  case (2 a rootId agents m seen cursor r parent)
  then have "cursor \<in> fst ` set m" by (force dest: map_of_SomeD)
  then have "card (fst ` set m - insert cursor (set seen)) < card (fst ` set m - set seen)"
    using 2 by (intro psubset_card_mono) auto
  then show ?case by simp
qed simp

declare inactive_walk.simps [simp del]

definition inactive_reason_for ::
  "string \<Rightarrow> string \<Rightarrow> (string, agent_summary) jsmap \<Rightarrow> agent_relationship list \<Rightarrow> string option" where
  "inactive_reason_for agentId rootId agents rs =
    (case map_of agents agentId of
       None \<Rightarrow> Some ''missing_agent''
     | Some agent \<Rightarrow>
         if ag_status agent \<noteq> AG_enabled then Some (''agent_'' @ agent_status_text (ag_status agent))
         else if agentId = rootId then None
         else inactive_walk agentId rootId agents (parent_by_child rs) [] agentId)"

section \<open>Environment of the service\<close>

record hierarchy_env =
  he_compare :: "string \<Rightarrow> string \<Rightarrow> int"
  he_snapshotAgents :: "(string \<times> agent_config \<times> agent_source) list"
  he_listedAgents :: "agent_config list"
  he_nobie :: "agent_config option"
  he_rootAgentId :: "string option"
  he_maxDepth :: "jsnum option"
  he_maxDelegationTurns :: jsnum
  he_maxChildCount :: "jsnum option"

text \<open>\<open>0\<close> means no limit: the largest safe integer.\<close>

fun positive_integer_or_default :: "jsnum \<Rightarrow> nat \<Rightarrow> nat" where
  "positive_integer_or_default (Fin x) fallback =
    (if x = 0 then 9007199254740991 else if js_is_integer (Fin x) \<and> 0 < x then nat \<lfloor>x\<rfloor> else fallback)"
| "positive_integer_or_default _ fallback = fallback"

definition root_agent_id :: "hierarchy_env \<Rightarrow> string" where
  "root_agent_id env = opt_or (he_rootAgentId env) (opt_or (map_option ag_agentId (he_nobie env)) ''agent:nobie'')"

definition max_depth :: "hierarchy_env \<Rightarrow> nat" where
  "max_depth env = positive_integer_or_default (opt_or (he_maxDepth env) (he_maxDelegationTurns env)) 5"

definition max_child_count :: "hierarchy_env \<Rightarrow> jsnum" where
  "max_child_count env = opt_or (he_maxChildCount env) (Fin 10)"

text \<open>\<open>n > limit\<close>\<close>

fun exceeds :: "nat \<Rightarrow> jsnum \<Rightarrow> bool" where
  "exceeds n (Fin x) \<longleftrightarrow> x < of_nat n"
| "exceeds n NegInf \<longleftrightarrow> True"
| "exceeds n _ \<longleftrightarrow> False"

definition agent_from_config :: "agent_config \<Rightarrow> agent_source \<Rightarrow> agent_summary" where
  "agent_from_config c source =
    \<lparr>ag_agentId = ag_agentId c, ag_agentType = ag_agentType c, ag_displayName = ag_displayName c,
     ag_nickname = (case ag_nickname c of Some n \<Rightarrow> if n = [] then None else Some n | None \<Rightarrow> None),
     ag_status = ag_status c, as_source = source\<rparr>"

definition agent_summaries :: "hierarchy_env \<Rightarrow> (string, agent_summary) jsmap" where
  "agent_summaries env =
    (let add = (\<lambda>a m. AList.update (ag_agentId a) a m);
         m1 = fold (\<lambda>(agentId, c, source). AList.update agentId (agent_from_config c source))
           (he_snapshotAgents env) [];
         m2 = fold (\<lambda>c. add (agent_from_config c SO_db)) (he_listedAgents env) m1;
         m3 = (case he_nobie env of Some c \<Rightarrow> add (agent_from_config c SO_config) m2 | None \<Rightarrow> m2);
         rootId = root_agent_id env
     in if map_of m3 rootId \<noteq> None then m3
        else add \<lparr>ag_agentId = rootId, ag_agentType = AT_nobie, ag_displayName = ''Nobie'',
          ag_nickname = Some ''Nobie'', ag_status = AG_enabled, as_source = SO_synthetic\<rparr> m3)"

section \<open>Validating a relationship\<close>

definition relationship_with_defaults :: "hierarchy_env \<Rightarrow> hierarchy_db \<Rightarrow> rat \<Rightarrow> json \<Rightarrow> relationship_candidate" where
  "relationship_with_defaults env db now input =
    normalize_relationship_input input now
      (case (if is_record input then as_string (jget input ''parentAgentId'') else None) of
         Some p \<Rightarrow> length (filter (\<lambda>r. rl_parentAgentId r = p) (active_relationships (he_compare env) db))
       | None \<Rightarrow> 0)"

definition truthy_id :: "string \<Rightarrow> string option" where
  "truthy_id s = (if s = [] then None else Some s)"

text \<open>\<open>issue.message.includes("different")\<close>\<close>

fun includes_text :: "string \<Rightarrow> string \<Rightarrow> bool" where
  "includes_text needle [] \<longleftrightarrow> needle = []"
| "includes_text needle (c # cs) \<longleftrightarrow> starts_with needle (c # cs) \<or> includes_text needle cs"

definition contract_issue_diagnostic :: "relationship_candidate \<Rightarrow> validation_issue \<Rightarrow> hierarchy_diagnostic" where
  "contract_issue_diagnostic c i =
    \<lparr>hd_reasonCode =
       (if vi_path i = ''$.childAgentId'' \<and> includes_text ''different'' (vi_message i) then ''self_parent_blocked''
        else if vi_path i = ''$.status'' then ''invalid_relationship_status''
        else ''invalid_relationship_contract''),
     hd_severity = DS_blocked, hd_message = vi_message i,
     hd_edgeId = truthy_id (rc_edgeId c), hd_parentAgentId = truthy_id (rc_parentAgentId c),
     hd_childAgentId = truthy_id (rc_childAgentId c), hd_limit = None, hd_value = None,
     hd_path = Some (vi_path i)\<rparr>"

definition blocked :: "agent_relationship \<Rightarrow> string \<Rightarrow> string \<Rightarrow> hierarchy_diagnostic" where
  "blocked r reasonCode message =
    \<lparr>hd_reasonCode = reasonCode, hd_severity = DS_blocked, hd_message = message,
     hd_edgeId = Some (rl_edgeId r), hd_parentAgentId = Some (rl_parentAgentId r),
     hd_childAgentId = Some (rl_childAgentId r), hd_limit = None, hd_value = None, hd_path = None\<rparr>"

definition push_if :: "bool \<Rightarrow> 'a list \<Rightarrow> 'a list" where
  "push_if b xs = (if b then xs else [])"

lemma push_if_Nil_iff [simp]: "push_if b xs = [] \<longleftrightarrow> (b \<longrightarrow> xs = [])"
  by (simp add: push_if_def)

definition check_agents :: "hierarchy_env \<Rightarrow> agent_relationship \<Rightarrow> hierarchy_diagnostic list" where
  "check_agents env r =
    (let agents = agent_summaries env in
     push_if (rl_childAgentId r = root_agent_id env)
       [blocked r ''nobie_parent_forbidden'' ''Nobie must remain the parentless root and cannot be a child.'']
     @ push_if (map_of agents (rl_parentAgentId r) = None)
       [blocked r ''unknown_parent_agent'' (''Parent agent '' @ rl_parentAgentId r @ '' is not defined.'')]
     @ push_if (map_of agents (rl_childAgentId r) = None)
       [blocked r ''unknown_child_agent'' (''Child agent '' @ rl_childAgentId r @ '' is not defined.'')])"

definition check_duplicate :: "agent_relationship list \<Rightarrow> agent_relationship \<Rightarrow> hierarchy_diagnostic list" where
  "check_duplicate active r =
    push_if (\<exists>c \<in> set active. rl_parentAgentId c = rl_parentAgentId r \<and> rl_childAgentId c = rl_childAgentId r)
      [blocked r ''duplicate_relationship_blocked''
        (rl_parentAgentId r @ '' already has '' @ rl_childAgentId r @ '' as a direct child.'')]"

definition check_single_parent :: "agent_relationship list \<Rightarrow> agent_relationship \<Rightarrow> hierarchy_diagnostic list" where
  "check_single_parent active r =
    (case find (\<lambda>c. rl_childAgentId c = rl_childAgentId r) active of
       None \<Rightarrow> []
     | Some c \<Rightarrow> push_if (rl_parentAgentId c \<noteq> rl_parentAgentId r)
         [blocked r ''child_multi_parent_blocked''
           (rl_childAgentId r @ '' already has parent '' @ rl_parentAgentId c @ ''.'')])"

definition next_child_count :: "agent_relationship list \<Rightarrow> agent_relationship \<Rightarrow> nat" where
  "next_child_count active r = length (uniq
    (map rl_childAgentId (filter (\<lambda>c. rl_parentAgentId c = rl_parentAgentId r) active) @ [rl_childAgentId r]))"

definition check_child_count ::
  "hierarchy_env \<Rightarrow> agent_relationship list \<Rightarrow> agent_relationship \<Rightarrow> hierarchy_diagnostic list" where
  "check_child_count env active r =
    (let n = next_child_count active r in
     push_if (exceeds n (max_child_count env))
      [(blocked r ''max_child_count_exceeded''
          (rl_parentAgentId r @ '' would have '' @ show_nat n @ '' direct children.''))
        \<lparr>hd_limit := Some (max_child_count env), hd_value := Some (Fin (of_nat n))\<rparr>])"

definition check_cycle ::
  "hierarchy_env \<Rightarrow> agent_relationship list \<Rightarrow> agent_relationship \<Rightarrow> hierarchy_diagnostic list" where
  "check_cycle env active r =
    push_if (has_path (he_compare env) (rl_childAgentId r) (rl_parentAgentId r) active)
      [blocked r ''cycle_detected'' ''Adding this relationship would create a cycle.'']"

fun enat_number :: "enat \<Rightarrow> jsnum" where
  "enat_number (enat n) = Fin (of_nat n)"
| "enat_number \<infinity> = PosInf"

fun enat_text :: "enat \<Rightarrow> string" where
  "enat_text (enat n) = show_nat n"
| "enat_text \<infinity> = ''Infinity''"

definition check_depth ::
  "hierarchy_env \<Rightarrow> agent_relationship list \<Rightarrow> agent_relationship \<Rightarrow> hierarchy_diagnostic list" where
  "check_depth env active r =
    (let future = js_sort (relationship_sort (he_compare env)) (active @ [r]);
         byChild = parent_by_child future;
         affected = rl_childAgentId r # descendant_agent_ids (he_compare env) (rl_childAgentId r) future;
         depth = (\<lambda>a. depth_of a (root_agent_id env) byChild)
     in case find (\<lambda>a. enat (max_depth env) < depth a) affected of
          None \<Rightarrow> []
        | Some a \<Rightarrow>
            [(blocked r ''max_depth_exceeded''
                (a @ '' would be at hierarchy depth '' @ enat_text (depth a) @ ''.''))
              \<lparr>hd_limit := Some (Fin (of_nat (max_depth env))), hd_value := Some (enat_number (depth a))\<rparr>])"

definition validate_relationship :: "hierarchy_env \<Rightarrow> hierarchy_db \<Rightarrow> rat \<Rightarrow> json \<Rightarrow> hierarchy_result" where
  "validate_relationship env db now input =
    (let c = relationship_with_defaults env db now input;
         issues = validate_agent_relationship (candidate_json c)
     in if issues \<noteq> [] then
          \<lparr>hr_ok = False, hr_relationship = c, hr_diagnostics = map (contract_issue_diagnostic c) issues\<rparr>
        else
          let r = typed_relationship c;
              active = filter (\<lambda>x. rl_edgeId x \<noteq> rl_edgeId r) (active_relationships (he_compare env) db);
              diagnostics = check_agents env r
                @ push_if (rl_status r = RS_active)
                    (check_duplicate active r @ check_single_parent active r @ check_child_count env active r
                     @ check_cycle env active r @ check_depth env active r)
          in \<lparr>hr_ok = list_all (\<lambda>d. hd_severity d \<noteq> DS_blocked) diagnostics,
              hr_relationship = c, hr_diagnostics = diagnostics\<rparr>)"

section \<open>Creating and disabling\<close>

text \<open>A write that the database refuses throws out of the handler. \<open>t1\<close> is read for the defaults, \<open>t2\<close>
  for the write.\<close>

definition create_relationship ::
  "hierarchy_env \<Rightarrow> json \<Rightarrow> string option \<Rightarrow> rat \<Rightarrow> rat \<Rightarrow> hierarchy_db
    \<Rightarrow> db_error + (hierarchy_result \<times> hierarchy_db)" where
  "create_relationship env input auditId t1 t2 db =
    (let result = validate_relationship env db t1 input in
     if \<not> hr_ok result then Inr (result, db)
     else case upsert_agent_relationship (typed_relationship (hr_relationship result)) auditId t2 db of
       Inl e \<Rightarrow> Inl e
     | Inr db' \<Rightarrow> Inr
         (\<lparr>hr_ok = True,
           hr_relationship = (case get_agent_relationship db' (rc_edgeId (hr_relationship result)) of
              Some row \<Rightarrow> candidate_of (relationship_from_row row)
            | None \<Rightarrow> hr_relationship result),
           hr_diagnostics = hr_diagnostics result\<rparr>, db'))"

definition disable_relationship ::
  "string \<Rightarrow> string option \<Rightarrow> rat \<Rightarrow> hierarchy_db \<Rightarrow> db_error + (agent_relationship option \<times> hierarchy_db)" where
  "disable_relationship edgeId auditId now db =
    (case get_agent_relationship db edgeId of
       None \<Rightarrow> Inr (None, db)
     | Some row \<Rightarrow>
         let r = (relationship_from_row row)\<lparr>rl_status := RS_disabled, rl_updatedAt := now\<rparr> in
         case upsert_agent_relationship r (case auditId of Some a \<Rightarrow> Some a | None \<Rightarrow> rr_auditId row) now db of
           Inl e \<Rightarrow> Inl e
         | Inr db' \<Rightarrow> Inr
             (Some (case get_agent_relationship db' edgeId of
                Some stored \<Rightarrow> relationship_from_row stored | None \<Rightarrow> r), db'))"

section \<open>Views\<close>

definition list_relationships :: "hierarchy_env \<Rightarrow> hierarchy_db \<Rightarrow> agent_relationship list" where
  "list_relationships env db =
    js_sort (relationship_sort (he_compare env)) (map relationship_from_row (list_agent_relationships None db))"

record direct_child =
  dc_relationship :: agent_relationship
  dc_agent :: "agent_summary option"
  dc_isExecutionCandidate :: bool
  dc_blockedReason :: "string option"

definition direct_children :: "hierarchy_env \<Rightarrow> hierarchy_db \<Rightarrow> string \<Rightarrow> direct_child list" where
  "direct_children env db parentAgentId =
    (let agents = agent_summaries env; active = active_relationships (he_compare env) db in
     map (\<lambda>r. let reason = inactive_reason_for (rl_childAgentId r) (root_agent_id env) agents active in
         \<lparr>dc_relationship = r, dc_agent = map_of agents (rl_childAgentId r),
          dc_isExecutionCandidate = (reason = None), dc_blockedReason = reason\<rparr>)
       (js_sort (relationship_sort (he_compare env))
         (filter (\<lambda>r. rl_parentAgentId r = parentAgentId) active)))"

text \<open>The walk of \<open>ancestors\<close>.\<close>

function ancestor_walk ::
  "(string, agent_summary) jsmap \<Rightarrow> (string, agent_relationship) jsmap \<Rightarrow> string list \<Rightarrow> string \<Rightarrow> agent_summary list" where
  "ancestor_walk agents byChild seen cursor =
    (if cursor \<in> set seen then []
     else case map_of byChild cursor of
       None \<Rightarrow> []
     | Some r \<Rightarrow>
         (case map_of agents (rl_parentAgentId r) of Some parent \<Rightarrow> [parent] | None \<Rightarrow> [])
         @ ancestor_walk agents byChild (cursor # seen) (rl_parentAgentId r))"
  by pat_completeness auto
termination
proof (relation "measure (\<lambda>(agents, m, seen, cursor). card (fst ` set m - set seen))", goal_cases)
  case (2 agents m seen cursor r)
  then have "cursor \<in> fst ` set m" by (force dest: map_of_SomeD)
  then have "card (fst ` set m - insert cursor (set seen)) < card (fst ` set m - set seen)"
    using 2 by (intro psubset_card_mono) auto
  then show ?case by simp
qed simp

declare ancestor_walk.simps [simp del]

definition ancestors :: "hierarchy_env \<Rightarrow> hierarchy_db \<Rightarrow> string \<Rightarrow> agent_summary list" where
  "ancestors env db agentId =
    ancestor_walk (agent_summaries env) (parent_by_child (active_relationships (he_compare env) db)) [] agentId"

definition descendants :: "hierarchy_env \<Rightarrow> hierarchy_db \<Rightarrow> string \<Rightarrow> agent_summary list" where
  "descendants env db agentId =
    List.map_filter (map_of (agent_summaries env))
      (descendant_agent_ids (he_compare env) agentId (active_relationships (he_compare env) db))"

text \<open>\<open>fallbackActive\<close> is always false and the diagnostics always empty.\<close>

definition top_level_sub_agents :: "hierarchy_env \<Rightarrow> hierarchy_db \<Rightarrow> agent_summary list" where
  "top_level_sub_agents env db =
    js_sort (\<lambda>a b. he_compare env (ag_agentId a) (ag_agentId b))
      (filter (\<lambda>a. ag_agentType a = AT_sub_agent)
        (List.map_filter (\<lambda>r. map_of (agent_summaries env) (rl_childAgentId r))
          (filter (\<lambda>r. rl_parentAgentId r = root_agent_id env) (active_relationships (he_compare env) db))))"

section \<open>Projection\<close>

definition node_id_for_agent :: "string \<Rightarrow> string" where
  "node_id_for_agent agentId = ''agent:'' @ agentId"

record tree_node =
  tn_nodeId :: string
  tn_entityType :: agent_type
  tn_entityId :: string
  tn_label :: string
  tn_status :: agent_status
  tn_source :: agent_source
  tn_root :: bool
  tn_topLevel :: bool
  tn_depth :: "enat option"
  tn_executionCandidate :: bool
  tn_blockedReason :: "string option"

record tree_edge =
  te_edgeId :: string
  te_fromNodeId :: string
  te_toNodeId :: string
  te_status :: relationship_status
  te_sortOrder :: rat

record tree_projection =
  tj_rootAgentId :: string
  tj_generatedAt :: rat
  tj_nodes :: "tree_node list"
  tj_edges :: "tree_edge list"
  tj_topLevelSubAgents :: "agent_summary list"
  tj_executionCandidateAgentIds :: "string list"

definition tree_edge_of :: "agent_relationship \<Rightarrow> tree_edge" where
  "tree_edge_of r =
    \<lparr>te_edgeId = rl_edgeId r, te_fromNodeId = node_id_for_agent (rl_parentAgentId r),
     te_toNodeId = node_id_for_agent (rl_childAgentId r), te_status = rl_status r, te_sortOrder = rl_sortOrder r\<rparr>"

definition projection_agent_ids :: "hierarchy_env \<Rightarrow> agent_relationship list \<Rightarrow> string list" where
  "projection_agent_ids env active =
    uniq (root_agent_id env # map (ag_agentId \<circ> snd) (agent_summaries env)
      @ concat (map (\<lambda>r. [rl_parentAgentId r, rl_childAgentId r]) active))"

definition agent_or_synthetic :: "hierarchy_env \<Rightarrow> string \<Rightarrow> agent_summary" where
  "agent_or_synthetic env agentId =
    opt_or (map_of (agent_summaries env) agentId)
      \<lparr>ag_agentId = agentId, ag_agentType = AT_sub_agent, ag_displayName = agentId, ag_nickname = None,
       ag_status = AG_disabled, as_source = SO_synthetic\<rparr>"

definition root_first :: "hierarchy_env \<Rightarrow> agent_summary \<Rightarrow> agent_summary \<Rightarrow> int" where
  "root_first env l r =
    (if ag_agentId l = root_agent_id env then - 1 else if ag_agentId r = root_agent_id env then 1
     else he_compare env (ag_agentId l) (ag_agentId r))"

definition tree_node_of :: "hierarchy_env \<Rightarrow> hierarchy_db \<Rightarrow> agent_summary \<Rightarrow> tree_node" where
  "tree_node_of env db agent =
    (let active = active_relationships (he_compare env) db; agentId = ag_agentId agent;
         reason = inactive_reason_for agentId (root_agent_id env) (agent_summaries env) active
     in \<lparr>tn_nodeId = node_id_for_agent agentId, tn_entityType = ag_agentType agent, tn_entityId = agentId,
         tn_label = opt_or (ag_nickname agent) (ag_displayName agent), tn_status = ag_status agent,
         tn_source = as_source agent, tn_root = (agentId = root_agent_id env),
         tn_topLevel = (agentId \<in> ag_agentId ` set (top_level_sub_agents env db)),
         tn_depth = (if active = [] then None
           else Some (depth_of agentId (root_agent_id env) (parent_by_child active))),
         tn_executionCandidate = (reason = None), tn_blockedReason = reason\<rparr>)"

definition build_projection :: "hierarchy_env \<Rightarrow> rat \<Rightarrow> hierarchy_db \<Rightarrow> tree_projection" where
  "build_projection env generatedAt db =
    (let active = active_relationships (he_compare env) db;
         nodes = map (tree_node_of env db)
           (js_sort (root_first env) (map (agent_or_synthetic env) (projection_agent_ids env active)))
     in \<lparr>tj_rootAgentId = root_agent_id env, tj_generatedAt = generatedAt, tj_nodes = nodes,
         tj_edges = map tree_edge_of active, tj_topLevelSubAgents = top_level_sub_agents env db,
         tj_executionCandidateAgentIds =
           map tn_entityId (filter (\<lambda>n. tn_entityType n = AT_sub_agent \<and> tn_executionCandidate n) nodes)\<rparr>)"

section \<open>Parents\<close>

text \<open>The parent an agent has among a list of active relationships, when it has at most one.\<close>

definition parents_of :: "(string, agent_relationship) jsmap \<Rightarrow> string \<Rightarrow> string option" where
  "parents_of m c = map_option rl_parentAgentId (map_of m c)"

abbreviation parent_in :: "agent_relationship list \<Rightarrow> string \<Rightarrow> string option" where
  "parent_in rs \<equiv> parents_of (parent_by_child rs)"

lemma parents_of_simps [simp]:
  "map_of m c = None \<Longrightarrow> parents_of m c = None"
  "map_of m c = Some r \<Longrightarrow> parents_of m c = Some (rl_parentAgentId r)"
  by (simp_all add: parents_of_def)

text \<open>Within \<open>n\<close> steps the walk upwards from an agent ends, at the root or at an agent without a parent.\<close>

primrec ends_within :: "(string \<Rightarrow> string option) \<Rightarrow> string \<Rightarrow> nat \<Rightarrow> string \<Rightarrow> bool" where
  "ends_within f rootId 0 a \<longleftrightarrow> a = rootId"
| "ends_within f rootId (Suc n) a \<longleftrightarrow> a = rootId \<or> (case f a of None \<Rightarrow> True | Some p \<Rightarrow> ends_within f rootId n p)"

lemma ends_within_Suc: "ends_within f rootId n a \<Longrightarrow> ends_within f rootId (Suc n) a"
proof (induction n arbitrary: a)
  case (Suc n)
  then show ?case
    by (cases "f a") (auto simp del: ends_within.simps simp: ends_within.simps(2)[where a = a])
qed simp

lemma ends_within_mono: "m \<le> n \<Longrightarrow> ends_within f rootId m a \<Longrightarrow> ends_within f rootId n a"
  by (induction n rule: dec_induct) (auto intro: ends_within_Suc simp del: ends_within.simps)

lemma ends_within_fewer_parents:
  "ends_within f rootId n a \<Longrightarrow> (\<And>x. g x = None \<or> g x = f x) \<Longrightarrow> ends_within g rootId n a"
proof (induction n arbitrary: a)
  case (Suc n)
  then show ?case
    using Suc.prems(2)[of a] by (cases "a = rootId"; cases "g a"; cases "f a") simp_all
qed simp

text \<open>A set of agents that have their parents in the set, without the root, is never left.\<close>

lemma not_within_cycle:
  assumes "\<And>x. x \<in> C \<Longrightarrow> x \<noteq> rootId \<and> (\<exists>p \<in> C. f x = Some p)"
  shows "a \<in> C \<Longrightarrow> \<not> ends_within f rootId n a"
proof (induction n arbitrary: a)
  case (Suc n)
  then show ?case using assms[OF Suc.prems] by auto
qed (use assms in auto)

lemma parent_in_Some:
  "map_of (parent_by_child rs) c = Some r \<Longrightarrow> r \<in> set rs \<and> rl_childAgentId r = c \<and> rl_status r = RS_active"
  unfolding parent_by_child_def by (auto dest!: index_by_Some)

lemma parent_in_None:
  "map_of (parent_by_child rs) c = None \<longleftrightarrow> (\<forall>r \<in> set rs. rl_status r = RS_active \<longrightarrow> rl_childAgentId r \<noteq> c)"
  unfolding parent_by_child_def index_by_None by auto

text \<open>Relationships of one state agree on the parent of a child.\<close>

definition single_parents :: "agent_relationship list \<Rightarrow> bool" where
  "single_parents rs \<longleftrightarrow> (\<forall>r \<in> set rs. \<forall>r' \<in> set rs. rl_childAgentId r = rl_childAgentId r' \<longrightarrow> r = r')"

lemma parent_in_single:
  assumes "single_parents rs" "r \<in> set rs" "rl_status r = RS_active"
  shows "parent_in rs (rl_childAgentId r) = Some (rl_parentAgentId r)"
proof (cases "map_of (parent_by_child rs) (rl_childAgentId r)")
  case None
  then show ?thesis using assms unfolding parent_in_None by auto
next
  case (Some r')
  then show ?thesis
    using parent_in_Some[OF Some] assms by (auto simp: parents_of_def single_parents_def)
qed

lemma parent_in_iff:
  assumes "single_parents rs" "\<forall>r \<in> set rs. rl_status r = RS_active"
  shows "parent_in rs c = Some p \<longleftrightarrow> (\<exists>r \<in> set rs. rl_childAgentId r = c \<and> rl_parentAgentId r = p)"
  using assms parent_in_single[OF assms(1)] parent_in_Some[of rs c] by (fastforce simp: parents_of_def)

section \<open>Depth\<close>

lemma climb_ge: "enat d \<le> climb m rootId seen c d"
proof (induction m rootId seen c d rule: climb.induct)
  case (1 m rootId seen c d)
  show ?case
  proof (cases "map_of m c")
    case None
    then show ?thesis by (simp add: climb.simps[of m rootId seen c d])
  next
    case (Some r)
    moreover have "enat d \<le> climb m rootId (rl_parentAgentId r # seen) (rl_parentAgentId r) (d + 1)"
      if "rl_parentAgentId r \<noteq> rootId" "rl_parentAgentId r \<notin> set seen"
      using "1.IH"[OF Some that] order.trans[of "enat d" "enat (d + 1)"] by simp
    ultimately show ?thesis by (simp add: climb.simps[of m rootId seen c d])
  qed
qed

text \<open>A finite result of \<open>climb\<close> bounds the walk, and a bounded walk has a finite result: an agent met
  twice would close a circle that avoids the root.\<close>

lemma climb_ends_within:
  "climb m rootId seen c d \<le> enat (d + k) \<Longrightarrow> ends_within (parents_of m) rootId (Suc k) c"
proof (induction m rootId seen c d arbitrary: k rule: climb.induct)
  case (1 m rootId seen c d)
  show ?case
  proof (cases "map_of m c")
    case (Some r)
    show ?thesis
    proof (cases "rl_parentAgentId r = rootId")
      case True
      then show ?thesis using Some by (cases k) auto
    next
      case False
      with Some "1.prems" have new: "rl_parentAgentId r \<notin> set seen"
        and le: "climb m rootId (rl_parentAgentId r # seen) (rl_parentAgentId r) (d + 1) \<le> enat (d + k)"
        by (auto simp: climb.simps[of m rootId seen c d] split: if_splits)
      have "enat (d + 1) \<le> enat (d + k)" using climb_ge le order.trans by blast
      then obtain k' where "k = Suc k'" by (cases k) auto
      then show ?thesis using "1.IH"[OF Some False new, of k'] le Some by simp
    qed
  qed simp
qed

lemma climb_le:
  assumes "ends_within (parents_of m) rootId (Suc k) c" "c \<in> set seen"
    and "\<And>x. x \<in> set seen \<Longrightarrow> x \<noteq> rootId \<and> (x = c \<or> (\<exists>y \<in> set seen. parents_of m x = Some y))"
  shows "climb m rootId seen c d \<le> enat (d + k)"
  using assms
proof (induction m rootId seen c d arbitrary: k rule: climb.induct)
  case (1 m rootId seen c d)
  note c = "1.prems"(1) and inside = "1.prems"(2) and chain = "1.prems"(3)
  show ?case
  proof (cases "map_of m c")
    case None
    then show ?thesis by (simp add: climb.simps[of m rootId seen c d])
  next
    case (Some r)
    let ?p = "rl_parentAgentId r"
    show ?thesis
    proof (cases "?p = rootId")
      case True
      then show ?thesis using Some by (simp add: climb.simps[of m rootId seen c d])
    next
      case False
      have new: "?p \<notin> set seen"
      proof
        assume "?p \<in> set seen"
        then have "\<And>x. x \<in> set seen \<Longrightarrow> x \<noteq> rootId \<and> (\<exists>y \<in> set seen. parents_of m x = Some y)"
          using chain parents_of_simps(2)[OF Some] by metis
        from not_within_cycle[of "set seen", OF this inside] c show False by blast
      qed
      from c Some chain[OF inside] have "ends_within (parents_of m) rootId k ?p" by auto
      with False obtain k' where k: "k = Suc k'" and up: "ends_within (parents_of m) rootId (Suc k') ?p"
        by (cases k) auto
      have "x \<noteq> rootId \<and> (x = ?p \<or> (\<exists>y \<in> set (?p # seen). parents_of m x = Some y))"
        if "x \<in> set (?p # seen)" for x
        using that False chain[of x] parents_of_simps(2)[OF Some] by auto
      then have "climb m rootId (?p # seen) ?p (d + 1) \<le> enat (d + 1 + k')"
        by (intro "1.IH"[OF Some False new up]) auto
      then show ?thesis using Some False new k by (simp add: climb.simps[of m rootId seen c d])
    qed
  qed
qed

lemma depth_of_le: "depth_of a rootId m \<le> enat n \<longleftrightarrow> ends_within (parents_of m) rootId n a"
proof (cases "a = rootId")
  case True
  then show ?thesis by (cases n) (auto simp: depth_of_def zero_enat_def)
next
  case False
  show ?thesis
  proof (cases n)
    case 0
    have "enat 1 \<le> climb m rootId [a] a 1" by (rule climb_ge)
    then have "\<not> climb m rootId [a] a 1 \<le> enat 0"
      by (metis enat_ord_simps(1) not_one_le_zero order.trans)
    then show ?thesis using 0 False by (simp add: depth_of_def)
  next
    case (Suc k)
    show ?thesis
      using False Suc climb_ends_within[of m rootId "[a]" a 1 k] climb_le[of m rootId k a "[a]" 1]
      by (auto simp: depth_of_def simp del: ends_within.simps)
  qed
qed

section \<open>Descendants\<close>

abbreviation child_ids :: "(string, agent_relationship list) jsmap \<Rightarrow> string \<Rightarrow> string list" where
  "child_ids m a \<equiv> map rl_childAgentId (js_lookup m a [])"

abbreviation child_rel :: "(string, agent_relationship list) jsmap \<Rightarrow> (string \<times> string) set" where
  "child_rel m \<equiv> {(a, b). b \<in> set (child_ids m a)}"

lemma descend_distinct: "distinct ds \<Longrightarrow> distinct (descend m ds stack)"
  by (induction m ds stack rule: descend.induct) auto

lemma descend_incl: "set ds \<union> rl_childAgentId ` set stack \<subseteq> set (descend m ds stack)"
  by (induction m ds stack rule: descend.induct) auto

lemma descend_sound:
  "x \<in> set (descend m ds stack) \<Longrightarrow>
   x \<in> set ds \<or> (\<exists>c \<in> rl_childAgentId ` set stack. (c, x) \<in> (child_rel m)\<^sup>*)"
proof (induction m ds stack rule: descend.induct)
  case (2 m ds r stack)
  show ?case
  proof (cases "rl_childAgentId r \<in> set ds")
    case True
    with 2 show ?thesis by auto
  next
    case False
    with 2 have "x \<in> set (ds @ [rl_childAgentId r]) \<or>
      (\<exists>c \<in> rl_childAgentId ` set (js_lookup m (rl_childAgentId r) [] @ stack). (c, x) \<in> (child_rel m)\<^sup>*)"
      by simp
    then show ?thesis by (auto intro: converse_rtrancl_into_rtrancl)
  qed
qed simp

lemma descend_closed:
  "(\<forall>x \<in> set ds. set (child_ids m x) \<subseteq> set ds \<union> rl_childAgentId ` set stack) \<Longrightarrow>
   x \<in> set (descend m ds stack) \<Longrightarrow> set (child_ids m x) \<subseteq> set (descend m ds stack)"
proof (induction m ds stack rule: descend.induct)
  case (2 m ds r stack)
  show ?case
  proof (cases "rl_childAgentId r \<in> set ds")
    case True
    with 2 show ?thesis by (simp add: insert_absorb)
  next
    case False
    have "\<forall>x \<in> set (ds @ [rl_childAgentId r]). set (child_ids m x) \<subseteq>
      set (ds @ [rl_childAgentId r]) \<union> rl_childAgentId ` set (js_lookup m (rl_childAgentId r) [] @ stack)"
      using "2.prems"(1) by auto
    with False 2 show ?thesis by simp
  qed
qed auto

text \<open>The search sees only the children on its stack.\<close>

definition edge_to :: "string \<Rightarrow> agent_relationship" where
  "edge_to c = \<lparr>rl_edgeId = [], rl_parentAgentId = [], rl_childAgentId = c, rl_status = RS_active,
    rl_sortOrder = 0, rl_createdAt = 0, rl_updatedAt = 0\<rparr>"

definition dfs_explore :: "(string, agent_relationship list) jsmap \<Rightarrow> string list \<Rightarrow> string list" where
  "dfs_explore m cs = descend m [] (map edge_to cs)"

lemma child_edge_to [simp]: "rl_childAgentId (edge_to c) = c" "rl_childAgentId \<circ> edge_to = id"
  by (auto simp: edge_to_def)

lemma descend_cong: "map rl_childAgentId s = map rl_childAgentId s' \<Longrightarrow> descend m ds s = descend m ds s'"
proof (induction m ds s arbitrary: s' rule: descend.induct)
  case (2 m ds r stack)
  then obtain r' stack' where "s' = r' # stack'" "rl_childAgentId r' = rl_childAgentId r"
    "map rl_childAgentId stack = map rl_childAgentId stack'" by (cases s') auto
  then show ?case using "2.IH"(1)[of stack'] "2.IH"(2)[of "js_lookup m (rl_childAgentId r) [] @ stack'"]
    by auto
qed simp

interpretation dfs: exploration "child_ids m" "dfs_explore m"
proof unfold_locales
  fix rs show "set rs \<subseteq> set (dfs_explore m rs)"
    using descend_incl[of "[]" "map edge_to rs" m] by (auto simp: dfs_explore_def image_image)
next
  fix x rs assume "x \<in> set (dfs_explore m rs)"
  then show "\<exists>r \<in> set rs. (r, x) \<in> (child_rel m)\<^sup>*"
    using descend_sound[of x m "[]" "map edge_to rs"] by (simp add: dfs_explore_def image_image)
next
  fix x rs assume "x \<in> set (dfs_explore m rs)"
  then show "set (child_ids m x) \<subseteq> set (dfs_explore m rs)"
    unfolding dfs_explore_def by (rule descend_closed[rotated]) simp
next
  fix rs show "distinct (dfs_explore m rs)" by (simp add: dfs_explore_def descend_distinct)
qed

lemma js_lookup_map: "f d = d' \<Longrightarrow> js_lookup (map (\<lambda>(k, v). (k, f v)) m) k d' = f (js_lookup m k d)"
  by (simp add: js_lookup_def map_of_map split: option.split)

lemma set_children_by_parent:
  "set (js_lookup (children_by_parent cmp rs) p []) =
    {r \<in> set rs. rl_status r = RS_active \<and> rl_parentAgentId r = p}"
proof -
  let ?add = "\<lambda>(r :: agent_relationship) m. AList.update (rl_parentAgentId r) (js_lookup m (rl_parentAgentId r) [] @ [r]) m"
  have step: "js_lookup (?add r m) p [] = js_lookup m p [] @ (if rl_parentAgentId r = p then [r] else [])" for r m
    by (simp add: js_lookup_def update_conv' split: option.split)
  have "js_lookup (fold ?add qs m) p [] = js_lookup m p [] @ filter (\<lambda>r. rl_parentAgentId r = p) qs" for qs m
    by (induction qs arbitrary: m) (auto simp: step)
  then have "js_lookup (fold ?add (filter (\<lambda>r. rl_status r = RS_active) rs) []) p [] =
      filter (\<lambda>r. rl_parentAgentId r = p) (filter (\<lambda>r. rl_status r = RS_active) rs)"
    by (simp add: js_lookup_def[of "[]"])
  then show ?thesis
    unfolding children_by_parent_def by (subst js_lookup_map[where d = "[]"]) auto
qed

text \<open>Parent and child in the active relationships of a list\<close>

definition parenthood :: "agent_relationship list \<Rightarrow> (string \<times> string) set" where
  "parenthood rs = {(rl_parentAgentId r, rl_childAgentId r) | r. r \<in> set rs \<and> rl_status r = RS_active}"

lemma child_rel_parenthood: "child_rel (children_by_parent cmp rs) = parenthood rs"
  by (auto simp: set_children_by_parent parenthood_def)

lemma set_descendant_agent_ids: "set (descendant_agent_ids cmp a rs) = {x. (a, x) \<in> (parenthood rs)\<^sup>+}"
proof -
  have "descendant_agent_ids cmp a rs =
      dfs_explore (children_by_parent cmp rs) (child_ids (children_by_parent cmp rs) a)"
    unfolding descendant_agent_ids_def dfs_explore_def Let_def by (rule descend_cong) (simp add: comp_def)
  then show ?thesis
    using dfs.explore_succs_eq[of "children_by_parent cmp rs" a] by (simp only: child_rel_parenthood)
qed

lemma has_path_iff: "has_path cmp a b rs \<longleftrightarrow> (a, b) \<in> (parenthood rs)\<^sup>+"
  by (simp add: has_path_def set_descendant_agent_ids)

section \<open>What a relationship must satisfy\<close>

lemma blocked_severity [simp]: "hd_severity (blocked r code m) = DS_blocked"
  by (simp add: blocked_def)

definition children_of :: "agent_relationship list \<Rightarrow> string \<Rightarrow> string set" where
  "children_of rs p = rl_childAgentId ` {r \<in> set rs. rl_parentAgentId r = p}"

lemma finite_children_of [simp]: "finite (children_of rs p)"
  by (simp add: children_of_def)

lemma next_child_count_eq:
  "next_child_count active r = card (insert (rl_childAgentId r) (children_of active (rl_parentAgentId r)))"
proof -
  have "length (uniq xs) = card (set xs)" for xs :: "string list"
    by (metis distinct_card distinct_uniq set_uniq)
  then show ?thesis by (simp add: next_child_count_def children_of_def)
qed

lemma exceeds_mono: "exceeds m l \<Longrightarrow> m \<le> n \<Longrightarrow> exceeds n l"
  by (cases l) (auto intro: less_le_trans)

definition depth_fits :: "hierarchy_env \<Rightarrow> agent_relationship list \<Rightarrow> string \<Rightarrow> bool" where
  "depth_fits env rs a \<longleftrightarrow> ends_within (parent_in rs) (root_agent_id env) (max_depth env) a"

lemma check_parents_Nil:
  "check_duplicate active r = [] \<and> check_single_parent active r = []
    \<longleftrightarrow> (\<forall>c \<in> set active. rl_childAgentId c \<noteq> rl_childAgentId r)"
proof (cases "find (\<lambda>c. rl_childAgentId c = rl_childAgentId r) active")
  case None
  then have "\<forall>c \<in> set active. rl_childAgentId c \<noteq> rl_childAgentId r" by (auto simp: find_None_iff)
  with None show ?thesis by (auto simp: check_duplicate_def check_single_parent_def)
next
  case (Some c)
  then have "c \<in> set active" "rl_childAgentId c = rl_childAgentId r" by (auto simp: find_Some_iff)
  then show ?thesis using Some by (auto simp: check_duplicate_def check_single_parent_def)
qed

lemma case_find_Nil: "(case find P xs of None \<Rightarrow> [] | Some a \<Rightarrow> [f a]) = [] \<longleftrightarrow> (\<forall>x \<in> set xs. \<not> P x)"
  by (induction xs) auto

lemma check_depth_Nil:
  "check_depth env active r = [] \<longleftrightarrow>
    (let future = js_sort (relationship_sort (he_compare env)) (active @ [r]) in
     \<forall>a. (rl_childAgentId r, a) \<in> (parenthood future)\<^sup>* \<longrightarrow> depth_fits env future a)"
proof -
  let ?future = "js_sort (relationship_sort (he_compare env)) (active @ [r])"
  have "check_depth env active r = [] \<longleftrightarrow>
    (\<forall>a \<in> set (rl_childAgentId r # descendant_agent_ids (he_compare env) (rl_childAgentId r) ?future).
      depth_of a (root_agent_id env) (parent_by_child ?future) \<le> enat (max_depth env))"
    unfolding check_depth_def Let_def case_find_Nil by (simp add: not_less)
  then show ?thesis
    by (simp add: depth_of_le depth_fits_def set_descendant_agent_ids rtrancl_eq_or_trancl Let_def) blast
qed

definition acceptable :: "hierarchy_env \<Rightarrow> agent_relationship list \<Rightarrow> agent_relationship \<Rightarrow> bool" where
  "acceptable env active r \<longleftrightarrow>
    (\<forall>c \<in> set active. rl_childAgentId c \<noteq> rl_childAgentId r)
    \<and> \<not> exceeds (card (insert (rl_childAgentId r) (children_of active (rl_parentAgentId r)))) (max_child_count env)
    \<and> (rl_childAgentId r, rl_parentAgentId r) \<notin> (parenthood active)\<^sup>+
    \<and> (let future = js_sort (relationship_sort (he_compare env)) (active @ [r]) in
       \<forall>a. (rl_childAgentId r, a) \<in> (parenthood future)\<^sup>* \<longrightarrow> depth_fits env future a)"

lemma checks_Nil:
  "check_duplicate active r @ check_single_parent active r @ check_child_count env active r
     @ check_cycle env active r @ check_depth env active r = [] \<longleftrightarrow> acceptable env active r"
  unfolding acceptable_def append_is_Nil_conv check_depth_Nil[symmetric] check_parents_Nil[symmetric]
  by (auto simp: check_child_count_def check_cycle_def next_child_count_eq has_path_iff Let_def)

abbreviation other_active :: "hierarchy_env \<Rightarrow> hierarchy_db \<Rightarrow> string \<Rightarrow> agent_relationship list" where
  "other_active env db edgeId \<equiv>
    filter (\<lambda>x. rl_edgeId x \<noteq> edgeId) (active_relationships (he_compare env) db)"

lemma check_agents_Nil:
  "check_agents env r = [] \<longleftrightarrow> rl_childAgentId r \<noteq> root_agent_id env
    \<and> map_of (agent_summaries env) (rl_parentAgentId r) \<noteq> None
    \<and> map_of (agent_summaries env) (rl_childAgentId r) \<noteq> None"
  by (auto simp: check_agents_def Let_def)

lemma all_blocked: "(\<forall>d \<in> set ds. hd_severity d = DS_blocked) \<Longrightarrow> list_all (\<lambda>d. hd_severity d \<noteq> DS_blocked) ds \<longleftrightarrow> ds = []"
  by (cases ds) auto

lemma push_if_set [simp]: "d \<in> set (push_if b xs) \<longleftrightarrow> b \<and> d \<in> set xs"
  by (simp add: push_if_def)

lemma checks_blocked:
  "d \<in> set (check_agents env r) \<Longrightarrow> hd_severity d = DS_blocked"
  "d \<in> set (check_duplicate active r @ check_single_parent active r @ check_child_count env active r
     @ check_cycle env active r @ check_depth env active r) \<Longrightarrow> hd_severity d = DS_blocked"
  by (auto simp: check_agents_def check_duplicate_def check_single_parent_def check_child_count_def
      check_cycle_def check_depth_def Let_def split: option.splits)

lemma validate_relationship_iff:
  fixes env db now input
  defines "c \<equiv> relationship_with_defaults env db now input"
  defines "r \<equiv> typed_relationship c"
  shows "hr_ok (validate_relationship env db now input) \<longleftrightarrow>
    validate_agent_relationship (candidate_json c) = []
    \<and> rl_childAgentId r \<noteq> root_agent_id env
    \<and> map_of (agent_summaries env) (rl_parentAgentId r) \<noteq> None
    \<and> map_of (agent_summaries env) (rl_childAgentId r) \<noteq> None
    \<and> (rl_status r = RS_active \<longrightarrow> acceptable env (other_active env db (rl_edgeId r)) r)"
    and "hr_relationship (validate_relationship env db now input) = c"
proof -
  let ?checks = "check_duplicate (other_active env db (rl_edgeId r)) r
    @ check_single_parent (other_active env db (rl_edgeId r)) r
    @ check_child_count env (other_active env db (rl_edgeId r)) r
    @ check_cycle env (other_active env db (rl_edgeId r)) r
    @ check_depth env (other_active env db (rl_edgeId r)) r"
  let ?ds = "check_agents env r @ push_if (rl_status r = RS_active) ?checks"
  have "\<forall>d \<in> set ?ds. hd_severity d = DS_blocked"
    using checks_blocked(1)[where env = env and r = r]
      checks_blocked(2)[where active = "other_active env db (rl_edgeId r)" and env = env and r = r]
    by (metis UnE push_if_set set_append)
  then have "list_all (\<lambda>d. hd_severity d \<noteq> DS_blocked) ?ds \<longleftrightarrow> ?ds = []" by (rule all_blocked)
  also have "\<dots> \<longleftrightarrow> check_agents env r = [] \<and> (rl_status r = RS_active \<longrightarrow> ?checks = [])"
    by (simp only: append_is_Nil_conv[of "check_agents env r"] push_if_Nil_iff)
  finally show "hr_ok (validate_relationship env db now input) \<longleftrightarrow>
    validate_agent_relationship (candidate_json c) = []
    \<and> rl_childAgentId r \<noteq> root_agent_id env
    \<and> map_of (agent_summaries env) (rl_parentAgentId r) \<noteq> None
    \<and> map_of (agent_summaries env) (rl_childAgentId r) \<noteq> None
    \<and> (rl_status r = RS_active \<longrightarrow> acceptable env (other_active env db (rl_edgeId r)) r)"
    unfolding checks_Nil check_agents_Nil
    by (simp add: validate_relationship_def c_def r_def Let_def)
  show "hr_relationship (validate_relationship env db now input) = c"
    by (simp add: validate_relationship_def c_def Let_def)
qed

section \<open>The forest invariant\<close>

definition forest :: "hierarchy_env \<Rightarrow> agent_relationship list \<Rightarrow> bool" where
  "forest env rs \<longleftrightarrow>
    (\<forall>r \<in> set rs. rl_status r = RS_active)
    \<and> single_parents rs
    \<and> (\<forall>r \<in> set rs. rl_childAgentId r \<noteq> root_agent_id env
        \<and> map_of (agent_summaries env) (rl_parentAgentId r) \<noteq> None
        \<and> map_of (agent_summaries env) (rl_childAgentId r) \<noteq> None)
    \<and> (\<forall>r \<in> set rs. \<not> exceeds (card (children_of rs (rl_parentAgentId r))) (max_child_count env))
    \<and> (\<forall>r \<in> set rs. depth_fits env rs (rl_childAgentId r))"

lemma single_parents_subset: "single_parents rs \<Longrightarrow> set rs' \<subseteq> set rs \<Longrightarrow> single_parents rs'"
  unfolding single_parents_def by blast

lemma parenthood_iff:
  "\<forall>r \<in> set rs. rl_status r = RS_active \<Longrightarrow>
    (p, c) \<in> parenthood rs \<longleftrightarrow> (\<exists>r \<in> set rs. rl_childAgentId r = c \<and> rl_parentAgentId r = p)"
  by (auto simp: parenthood_def)

lemma children_of_parenthood:
  "\<forall>r \<in> set rs. rl_status r = RS_active \<Longrightarrow> children_of rs p = {c. (p, c) \<in> parenthood rs}"
  by (auto simp: children_of_def parenthood_iff)

text \<open>Only the agents of the relationships matter, not their order or timestamps.\<close>

lemma parent_in_cong:
  assumes "parenthood rs = parenthood rs'" "single_parents rs" "single_parents rs'"
    and act: "\<forall>r \<in> set rs. rl_status r = RS_active" "\<forall>r \<in> set rs'. rl_status r = RS_active"
  shows "parent_in rs = parent_in rs'"
proof
  fix c
  have "parent_in rs c = Some p \<longleftrightarrow> parent_in rs' c = Some p" for p
    using parent_in_iff[OF assms(2) act(1)] parent_in_iff[OF assms(3) act(2)]
      parenthood_iff[OF act(1)] parenthood_iff[OF act(2)] assms(1) by metis
  then show "parent_in rs c = parent_in rs' c" by (metis not_Some_eq)
qed

lemma forest_cong:
  assumes "forest env rs" "parenthood rs = parenthood rs'" "single_parents rs'"
    and act': "\<forall>r \<in> set rs'. rl_status r = RS_active"
  shows "forest env rs'"
proof -
  note F = assms(1)[unfolded forest_def]
  have act: "\<forall>r \<in> set rs. rl_status r = RS_active" and single: "single_parents rs" using F by blast+
  have same: "\<exists>r \<in> set rs. rl_childAgentId r = rl_childAgentId r' \<and> rl_parentAgentId r = rl_parentAgentId r'"
    if "r' \<in> set rs'" for r'
    using parenthood_iff[OF act] parenthood_iff[OF act'] assms(2) that by metis
  have "children_of rs p = children_of rs' p" for p
    by (simp add: children_of_parenthood act act' assms(2))
  moreover have "parent_in rs = parent_in rs'" by (rule parent_in_cong[OF assms(2) single assms(3) act act'])
  ultimately show ?thesis
    using F same assms(3) act' unfolding forest_def depth_fits_def by metis
qed

lemma ends_within_agree:
  assumes "\<And>x. (x, a) \<in> R\<^sup>* \<Longrightarrow> g x = f x" "\<And>x p. f x = Some p \<Longrightarrow> (p, x) \<in> R"
    and "ends_within f rootId n a"
  shows "ends_within g rootId n a"
  using assms(1,3)
proof (induction n arbitrary: a)
  case (Suc n)
  show ?case
  proof (cases "f a")
    case None
    then show ?thesis using Suc.prems(1)[of a] by simp
  next
    case (Some p)
    then have "ends_within g rootId n p" if "a \<noteq> rootId"
      using that Suc.prems by (intro Suc.IH) (auto intro: rtrancl_into_rtrancl[OF _ assms(2)[OF Some]])
    then show ?thesis using Suc.prems(1)[of a] Some by auto
  qed
qed simp

lemma forest_remove:
  assumes "forest env rs" "set rs' \<subseteq> set rs"
  shows "forest env rs'"
proof -
  note F = assms(1)[unfolded forest_def]
  have act: "\<forall>r \<in> set rs'. rl_status r = RS_active" and single: "single_parents rs'"
    using F assms(2) single_parents_subset by blast+
  have fewer: "parent_in rs' x = None \<or> parent_in rs' x = parent_in rs x" for x
  proof (cases "parent_in rs' x")
    case (Some p)
    then have "\<exists>r \<in> set rs. rl_childAgentId r = x \<and> rl_parentAgentId r = p"
      using parent_in_iff[OF single act, of x p] assms(2) by blast
    then have "parent_in rs x = Some p" using parent_in_iff[of rs x p] F by blast
    with Some show ?thesis by simp
  qed simp
  have "children_of rs' p \<subseteq> children_of rs p" for p using assms(2) by (auto simp: children_of_def)
  then have "card (children_of rs' p) \<le> card (children_of rs p)" for p by (simp add: card_mono)
  then have "\<forall>r \<in> set rs'. \<not> exceeds (card (children_of rs' (rl_parentAgentId r))) (max_child_count env)"
    using F assms(2) exceeds_mono by blast
  moreover have "\<forall>r \<in> set rs'. depth_fits env rs' (rl_childAgentId r)"
    using F assms(2) ends_within_fewer_parents[where f = "parent_in rs" and g = "parent_in rs'"] fewer
    unfolding depth_fits_def by blast
  ultimately show ?thesis using F assms(2) act single unfolding forest_def by blast
qed

lemma forest_add:
  assumes "forest env active" "acceptable env active r" "rl_status r = RS_active"
    and "rl_childAgentId r \<noteq> root_agent_id env"
    "map_of (agent_summaries env) (rl_parentAgentId r) \<noteq> None"
    "map_of (agent_summaries env) (rl_childAgentId r) \<noteq> None"
    and rs: "set rs = insert r (set active)"
  shows "forest env rs"
proof -
  note F = assms(1)[unfolded forest_def]
  let ?future = "js_sort (relationship_sort (he_compare env)) (active @ [r])"
  let ?c = "rl_childAgentId r"
  have fut: "set ?future = set rs" using rs by simp
  have other: "\<forall>x \<in> set active. rl_childAgentId x \<noteq> ?c"
    and deep: "\<forall>a. (?c, a) \<in> (parenthood ?future)\<^sup>* \<longrightarrow> depth_fits env ?future a"
    and few: "\<not> exceeds (card (insert ?c (children_of active (rl_parentAgentId r)))) (max_child_count env)"
    using assms(2) by (auto simp: acceptable_def Let_def)
  have act: "\<forall>x \<in> set rs. rl_status x = RS_active" using F rs assms(3) by auto
  have single: "single_parents rs" using F other rs unfolding single_parents_def by (metis insertE)
  have up: "parent_in ?future = parent_in rs" 
    by (rule parent_in_cong) (use single act fut in \<open>auto simp: parenthood_def single_parents_def\<close>)
  have paren: "parenthood ?future = parenthood rs" unfolding parenthood_def fut ..
  have children: "children_of rs p = (if p = rl_parentAgentId r then insert ?c (children_of active p)
      else children_of active p)" for p
    using rs by (auto simp: children_of_def)
  have step: "parent_in active x = Some p \<Longrightarrow> (p, x) \<in> parenthood rs" for x p
    using parent_in_iff[of active x p] F rs assms(3) by (auto simp: parenthood_def)
  have old: "parent_in rs x = parent_in active x" if "x \<noteq> ?c" for x
  proof -
    have "parent_in rs x = Some p \<longleftrightarrow> parent_in active x = Some p" for p
      using parent_in_iff[OF single act, of x p] parent_in_iff[of active x p] F rs that by auto
    then show ?thesis by (metis not_Some_eq)
  qed
  have "depth_fits env rs (rl_childAgentId x)" if "x \<in> set active" for x
  proof (cases "(?c, rl_childAgentId x) \<in> (parenthood rs)\<^sup>*")
    case True
    then show ?thesis using deep by (simp add: paren depth_fits_def up)
  next
    case False
    have up': "ends_within (parent_in active) (root_agent_id env) (max_depth env) (rl_childAgentId x)"
      using F that by (simp add: depth_fits_def)
    have same: "parent_in rs y = parent_in active y" if "(y, rl_childAgentId x) \<in> (parenthood rs)\<^sup>*" for y
      by (rule old) (use that False in metis)
    show ?thesis unfolding depth_fits_def by (rule ends_within_agree[OF same step up'])
  qed
  moreover have "depth_fits env rs ?c" using deep by (simp add: paren depth_fits_def up)
  moreover have "\<forall>x \<in> set rs. \<not> exceeds (card (children_of rs (rl_parentAgentId x))) (max_child_count env)"
    using F few rs by (auto simp: children)
  ultimately show ?thesis using F assms(4-6) act single rs unfolding forest_def by auto
qed

section \<open>The table keeps the forest\<close>

definition rows_ok :: "hierarchy_db \<Rightarrow> bool" where
  "rows_ok db \<longleftrightarrow> distinct (map rl_edgeId (hb_rows db))"

lemma truncate_fields [simp]:
  "rl_edgeId (relationship_from_row row) = rl_edgeId row"
  "rl_parentAgentId (relationship_from_row row) = rl_parentAgentId row"
  "rl_childAgentId (relationship_from_row row) = rl_childAgentId row"
  "rl_status (relationship_from_row row) = rl_status row"
  by (simp_all add: relationship_from_row_def agent_relationship.defs)

lemma set_active_relationships:
  "set (active_relationships cmp db) = relationship_from_row ` {row \<in> set (hb_rows db). rl_status row = RS_active}"
  by (auto simp: active_relationships_def list_agent_relationships_def)

lemma upsert_rows:
  assumes "upsert_agent_relationship r auditId now db = Inr db'" "rows_ok db"
  shows "rows_ok db' \<and> (\<exists>row. rl_edgeId row = rl_edgeId r \<and> rl_parentAgentId row = rl_parentAgentId r
    \<and> rl_childAgentId row = rl_childAgentId r \<and> rl_status row = rl_status r
    \<and> set (hb_rows db') = insert row {x \<in> set (hb_rows db). rl_edgeId x \<noteq> rl_edgeId r})"
proof (cases "\<exists>row \<in> set (hb_rows db). rl_edgeId row = rl_edgeId r")
  case True
  then obtain old where old: "old \<in> set (hb_rows db)" "rl_edgeId old = rl_edgeId r" by blast
  let ?put = "\<lambda>row. if rl_edgeId row = rl_edgeId r
    then \<lparr>rl_edgeId = rl_edgeId r, rl_parentAgentId = rl_parentAgentId r,
      rl_childAgentId = rl_childAgentId r, rl_status = rl_status r, rl_sortOrder = rl_sortOrder r,
      rl_createdAt = rl_createdAt row, rl_updatedAt = now, rr_auditId = auditId\<rparr> else row"
  have rows: "hb_rows db' = map ?put (hb_rows db)"
    using assms(1) True by (auto simp: upsert_agent_relationship_def split: if_splits)
  have "map rl_edgeId (map ?put (hb_rows db)) = map rl_edgeId (hb_rows db)" by auto
  then have "rows_ok db'" using assms(2) unfolding rows_ok_def rows by metis
  moreover have "x = old" if "x \<in> set (hb_rows db)" "rl_edgeId x = rl_edgeId r" for x
    using that old assms(2) by (auto simp: rows_ok_def distinct_map inj_on_def)
  then have "set (hb_rows db) = insert old {x \<in> set (hb_rows db). rl_edgeId x \<noteq> rl_edgeId r}"
    using old by blast
  then have "?put ` set (hb_rows db) = insert (?put old) (?put ` {x \<in> set (hb_rows db). rl_edgeId x \<noteq> rl_edgeId r})"
    by (metis (lifting) image_insert)
  then have "set (hb_rows db') = insert (?put old) {x \<in> set (hb_rows db). rl_edgeId x \<noteq> rl_edgeId r}"
    unfolding rows by (simp cong: image_cong_simp)
  ultimately show ?thesis using old by (intro conjI exI[of _ "?put old"]) auto
next
  case False
  then have rows: "hb_rows db' = hb_rows db @
      [\<lparr>rl_edgeId = rl_edgeId r, rl_parentAgentId = rl_parentAgentId r,
        rl_childAgentId = rl_childAgentId r, rl_status = rl_status r, rl_sortOrder = rl_sortOrder r,
        rl_createdAt = rl_createdAt r, rl_updatedAt = now, rr_auditId = auditId\<rparr>]" (is "_ = _ @ [?new]")
    using assms(1) by (auto simp: upsert_agent_relationship_def split: if_splits)
  then have "rows_ok db'" using assms(2) False by (auto simp: rows_ok_def)
  moreover have "set (hb_rows db') = insert ?new {x \<in> set (hb_rows db). rl_edgeId x \<noteq> rl_edgeId r}"
    using rows False by auto
  ultimately show ?thesis by (intro conjI exI[of _ ?new]) auto
qed

lemma find_row: "get_agent_relationship db e = Some row \<Longrightarrow> row \<in> set (hb_rows db) \<and> rl_edgeId row = e"
  by (auto simp: get_agent_relationship_def find_Some_iff)

text \<open>What the service does to the table: creating, disabling, and a migration taking or releasing its lock.\<close>

inductive hierarchy_reachable :: "hierarchy_env \<Rightarrow> hierarchy_db \<Rightarrow> bool" for env where
  reach_empty: "hierarchy_reachable env no_relationships"
| reach_lock: "hierarchy_reachable env db \<Longrightarrow> hierarchy_reachable env (db\<lparr>hb_locked := b\<rparr>)"
| reach_create: "hierarchy_reachable env db \<Longrightarrow>
    create_relationship env input auditId t1 t2 db = Inr (result, db') \<Longrightarrow> hierarchy_reachable env db'"
| reach_disable: "hierarchy_reachable env db \<Longrightarrow>
    disable_relationship edgeId auditId t db = Inr (stored, db') \<Longrightarrow> hierarchy_reachable env db'"

lemma parenthood_insert:
  "set rs = insert r (set rs') \<Longrightarrow> rl_status r = RS_active \<Longrightarrow>
    parenthood rs = insert (rl_parentAgentId r, rl_childAgentId r) (parenthood rs')"
  by (auto simp: parenthood_def)

definition hierarchy_ok :: "hierarchy_env \<Rightarrow> hierarchy_db \<Rightarrow> bool" where
  "hierarchy_ok env db \<longleftrightarrow> rows_ok db \<and> forest env (active_relationships (he_compare env) db)"

lemma upsert_keeps_forest:
  assumes up: "upsert_agent_relationship r auditId now db = Inr db'" and ok: "hierarchy_ok env db"
    and new: "rl_status r = RS_active \<Longrightarrow>
      forest env (r # other_active env db (rl_edgeId r))
      \<and> (\<forall>x \<in> set (other_active env db (rl_edgeId r)). rl_childAgentId x \<noteq> rl_childAgentId r)"
  shows "hierarchy_ok env db'"
proof -
  let ?others = "other_active env db (rl_edgeId r)"
  let ?rs = "active_relationships (he_compare env) db'"
  obtain row where ok': "rows_ok db'" and row: "rl_edgeId row = rl_edgeId r"
      "rl_parentAgentId row = rl_parentAgentId r" "rl_childAgentId row = rl_childAgentId r" "rl_status row = rl_status r"
    and rows: "set (hb_rows db') = insert row {x \<in> set (hb_rows db). rl_edgeId x \<noteq> rl_edgeId r}"
    using upsert_rows[OF up] ok unfolding hierarchy_ok_def by blast
  have others: "forest env ?others" using ok forest_remove unfolding hierarchy_ok_def by fastforce
  show ?thesis
  proof (cases "rl_status r = RS_active")
    case False
    then have "set ?rs \<subseteq> set ?others" using rows row by (auto simp: set_active_relationships)
    then show ?thesis using forest_remove[OF others] ok' by (simp add: hierarchy_ok_def)
  next
    case True
    let ?r' = "relationship_from_row row"
    have rs: "set ?rs = insert ?r' (set ?others)" using rows row True by (auto simp: set_active_relationships)
    have "forest env ?rs"
    proof (rule forest_cong)
      show "forest env (r # ?others)" using new[OF True] by blast
      show "parenthood (r # ?others) = parenthood ?rs"
        using parenthood_insert[of "r # ?others" r ?others] parenthood_insert[OF rs] row True by simp
      show "\<forall>x \<in> set ?rs. rl_status x = RS_active" by (auto simp: set_active_relationships)
      have "single_parents ?others" using others by (simp add: forest_def)
      then show "single_parents ?rs"
        using rs row new[OF True] unfolding single_parents_def by (metis insertE truncate_fields(3))
    qed
    then show ?thesis using ok' by (simp add: hierarchy_ok_def)
  qed
qed

lemma create_keeps_forest:
  assumes "create_relationship env input auditId t1 t2 db = Inr (result, db')" and ok: "hierarchy_ok env db"
  shows "hierarchy_ok env db'"
proof (cases "hr_ok (validate_relationship env db t1 input)")
  case True
  let ?r = "typed_relationship (relationship_with_defaults env db t1 input)"
  have up: "upsert_agent_relationship ?r auditId t2 db = Inr db'"
    using assms(1) True
    by (auto simp: create_relationship_def validate_relationship_iff(2) Let_def split: sum.splits)
  have rest: "forest env (other_active env db (rl_edgeId ?r))"
    using ok forest_remove unfolding hierarchy_ok_def by fastforce
  show ?thesis
  proof (rule upsert_keeps_forest[OF up ok])
    assume active: "rl_status ?r = RS_active"
    note valid = True[unfolded validate_relationship_iff(1)]
    have acc: "acceptable env (other_active env db (rl_edgeId ?r)) ?r" using valid active by blast
    have "forest env (?r # other_active env db (rl_edgeId ?r))"
      by (rule forest_add[OF rest acc active]) (use valid in auto)
    then show "forest env (?r # other_active env db (rl_edgeId ?r))
      \<and> (\<forall>x \<in> set (other_active env db (rl_edgeId ?r)). rl_childAgentId x \<noteq> rl_childAgentId ?r)"
      using acc unfolding acceptable_def by blast
  qed
next
  case False
  then show ?thesis using assms by (simp add: create_relationship_def Let_def)
qed

lemma disable_keeps_forest:
  assumes "disable_relationship edgeId auditId t db = Inr (stored, db')" and ok: "hierarchy_ok env db"
  shows "hierarchy_ok env db'"
proof (cases "get_agent_relationship db edgeId")
  case None
  then show ?thesis using assms by (simp add: disable_relationship_def)
next
  case (Some row)
  let ?r = "(relationship_from_row row)\<lparr>rl_status := RS_disabled, rl_updatedAt := t\<rparr>"
  obtain a where up: "upsert_agent_relationship ?r a t db = Inr db'"
    using assms(1) Some by (auto simp: disable_relationship_def Let_def split: sum.splits)
  show ?thesis by (rule upsert_keeps_forest[OF up ok]) simp
qed

lemma reachable_ok: "hierarchy_reachable env db \<Longrightarrow> hierarchy_ok env db"
proof (induction rule: hierarchy_reachable.induct)
  case reach_empty
  have "active_relationships (he_compare env) no_relationships = []"
    by (simp add: active_relationships_def list_agent_relationships_def no_relationships_def js_sort_def)
  then show ?case
    by (simp add: hierarchy_ok_def rows_ok_def no_relationships_def forest_def single_parents_def)
next
  case (reach_lock db b)
  then show ?case
    by (simp add: hierarchy_ok_def rows_ok_def active_relationships_def list_agent_relationships_def)
qed (blast intro: create_keeps_forest disable_keeps_forest)+

text \<open>In a forest nobody is above itself: a circle of parents would avoid the root and never end.\<close>

lemma forest_acyclic:
  assumes "forest env rs"
  shows "acyclic (parenthood rs)"
  unfolding acyclic_def
proof (intro allI notI)
  fix a
  note F = assms[unfolded forest_def]
  assume loop: "(a, a) \<in> (parenthood rs)\<^sup>+"
  let ?C = "{x. (x, a) \<in> (parenthood rs)\<^sup>* \<and> (a, x) \<in> (parenthood rs)\<^sup>*}"
  have "x \<noteq> root_agent_id env \<and> (\<exists>p \<in> ?C. parent_in rs x = Some p)" if "x \<in> ?C" for x
  proof -
    have "(a, x) \<in> (parenthood rs)\<^sup>+" using that loop by (auto intro: trancl_rtrancl_trancl)
    then obtain p where p: "(a, p) \<in> (parenthood rs)\<^sup>*" "(p, x) \<in> parenthood rs" by (meson tranclD2)
    then have "p \<in> ?C" using that by (auto intro: converse_rtrancl_into_rtrancl)
    moreover have "parent_in rs x = Some p" "x \<noteq> root_agent_id env"
      using p(2) F parent_in_single[of rs] by (auto simp: parenthood_def)
    ultimately show ?thesis by blast
  qed
  from not_within_cycle[of ?C, OF this, of a] have "\<not> depth_fits env rs a"
    by (simp add: depth_fits_def)
  moreover have "depth_fits env rs a" using loop F by (auto simp: parenthood_def dest!: tranclD2)
  ultimately show False by blast
qed

lemma relationship_contract_iff:
  "validate_agent_relationship (candidate_json c) = [] \<longleftrightarrow>
    non_blank (rc_edgeId c) \<and> non_blank (rc_parentAgentId c) \<and> non_blank (rc_childAgentId c)
    \<and> rc_relationshipType c = JStr ''parent_child'' \<and> rc_parentAgentId c \<noteq> rc_childAgentId c
    \<and> relationship_status_of (rc_status c) \<noteq> None \<and> (\<exists>x \<ge> 0. rc_sortOrder c = JNum (Fin x))"
  by (auto simp: validate_agent_relationship_def candidate_json_def has_non_empty_string_def
      has_finite_number_from_zero_def js_lookup_def split: json.splits jsnum.splits)

section \<open>Properties\<close>

text \<open>C19: From an empty table, whatever relationships are created and disabled in whatever order, with
  database locks in between, the active ones form a forest under the configured root: no agent is above
  itself, every agent has at most one parent, the root has none, no agent has more children than
  \<open>maxChildCount\<close>, and no agent is deeper than \<open>maxDepth\<close>, counted from the root or from the agent
  without a parent that the walk upwards ends at.\<close>

theorem hierarchy_forest:
  assumes "hierarchy_reachable env db"
  shows "acyclic (parenthood (active_relationships (he_compare env) db))
    \<and> (\<forall>r \<in> set (active_relationships (he_compare env) db).
        \<forall>r' \<in> set (active_relationships (he_compare env) db). rl_childAgentId r = rl_childAgentId r' \<longrightarrow> r = r')
    \<and> (\<forall>r \<in> set (active_relationships (he_compare env) db).
        rl_childAgentId r \<noteq> root_agent_id env
        \<and> \<not> exceeds (card (children_of (active_relationships (he_compare env) db) (rl_parentAgentId r)))
            (max_child_count env)
        \<and> depth_of (rl_childAgentId r) (root_agent_id env)
            (parent_by_child (active_relationships (he_compare env) db)) \<le> enat (max_depth env))"
proof -
  have forest: "forest env (active_relationships (he_compare env) db)"
    using reachable_ok[OF assms] by (simp add: hierarchy_ok_def)
  then show ?thesis
    using forest_acyclic[OF forest] unfolding forest_def single_parents_def depth_fits_def depth_of_le by blast
qed

text \<open>Which relationships the service accepts, exactly: the contract holds (ids not blank, parent and
  child different, a known status, a finite non-negative order), the child is not the root, both agents are
  known, and an active one also leaves the other active relationships a forest: the child has no parent
  among them, the parent keeps to \<open>maxChildCount\<close>, the child is not above the parent, and the child and
  everybody below it stay within \<open>maxDepth\<close>.\<close>

lemma relationship_accepted_iff:
  "hr_ok (validate_relationship env db now input) \<longleftrightarrow>
    (let c = relationship_with_defaults env db now input; r = typed_relationship c in
     non_blank (rc_edgeId c) \<and> non_blank (rc_parentAgentId c) \<and> non_blank (rc_childAgentId c)
     \<and> rc_relationshipType c = JStr ''parent_child'' \<and> rc_parentAgentId c \<noteq> rc_childAgentId c
     \<and> relationship_status_of (rc_status c) \<noteq> None \<and> (\<exists>x \<ge> 0. rc_sortOrder c = JNum (Fin x))
     \<and> rl_childAgentId r \<noteq> root_agent_id env
     \<and> map_of (agent_summaries env) (rl_parentAgentId r) \<noteq> None
     \<and> map_of (agent_summaries env) (rl_childAgentId r) \<noteq> None
     \<and> (rl_status r \<in> {RS_disabled, RS_archived} \<or> acceptable env (other_active env db (rl_edgeId r)) r))"
proof -
  have "rl_status r = RS_active \<longleftrightarrow> rl_status r \<notin> {RS_disabled, RS_archived}" for r :: agent_relationship
    by (cases "rl_status r") auto
  then show ?thesis
    unfolding validate_relationship_iff(1) relationship_contract_iff Let_def by blast
qed

text \<open>C39: When creating a relationship throws instead of answering: only for a relationship that passed
  every check, because a migration holds the lock or because the table already has the pair under another
  edge id. The checks look at active rows only, so the other row, or the new one, is disabled or archived:
  a pair that was disabled cannot be created again under a new id.\<close>

theorem create_throws_iff:
  "create_relationship env input auditId t1 t2 db = Inl e \<longleftrightarrow>
    hr_ok (validate_relationship env db t1 input)
    \<and> (let r = typed_relationship (relationship_with_defaults env db t1 input) in
       e = DB_migration_lock \<and> hb_locked db
       \<or> e = DB_unique_constraint \<and> \<not> hb_locked db
         \<and> (\<exists>row \<in> set (hb_rows db). rl_edgeId row \<noteq> rl_edgeId r
             \<and> rl_parentAgentId row = rl_parentAgentId r \<and> rl_childAgentId row = rl_childAgentId r
             \<and> (rl_status row \<in> {RS_disabled, RS_archived} \<or> rl_status r \<in> {RS_disabled, RS_archived})))"
proof (cases "hr_ok (validate_relationship env db t1 input)")
  case True
  let ?r = "typed_relationship (relationship_with_defaults env db t1 input)"
  have inactive: "rl_status row \<in> {RS_disabled, RS_archived} \<or> rl_status ?r \<in> {RS_disabled, RS_archived}"
    if "row \<in> set (hb_rows db)" "rl_edgeId row \<noteq> rl_edgeId ?r" "rl_childAgentId row = rl_childAgentId ?r" for row
  proof (rule ccontr)
    assume "\<not> ?thesis"
    then have act: "rl_status row = RS_active" "rl_status ?r = RS_active" 
      by (cases "rl_status row"; cases "rl_status ?r"; simp)+
    then have "relationship_from_row row \<in> set (other_active env db (rl_edgeId ?r))"
      using that by (auto simp: set_active_relationships)
    moreover have "acceptable env (other_active env db (rl_edgeId ?r)) ?r"
      using True act(2) unfolding validate_relationship_iff(1) by blast
    ultimately show False using that(3) unfolding acceptable_def by (metis truncate_fields(3))
  qed
  have "create_relationship env input auditId t1 t2 db = Inl e \<longleftrightarrow> upsert_agent_relationship ?r auditId t2 db = Inl e"
    using True by (simp add: create_relationship_def validate_relationship_iff(2) Let_def split: sum.split)
  also have "\<dots> \<longleftrightarrow> e = DB_migration_lock \<and> hb_locked db
       \<or> e = DB_unique_constraint \<and> \<not> hb_locked db
         \<and> (\<exists>row \<in> set (hb_rows db). rl_edgeId row \<noteq> rl_edgeId ?r
             \<and> rl_parentAgentId row = rl_parentAgentId ?r \<and> rl_childAgentId row = rl_childAgentId ?r)"
    by (auto simp: upsert_agent_relationship_def)
  finally show ?thesis unfolding Let_def using True inactive by blast
qed (simp add: create_relationship_def Let_def)

text \<open>A lead below the root and a writer below the lead; then the lead's relationship is disabled.\<close>

definition sample_hierarchy_env :: hierarchy_env where
  "sample_hierarchy_env =
    \<lparr>he_compare = binary_compare, he_snapshotAgents = [],
     he_listedAgents =
       [\<lparr>ag_agentId = ''lead'', ag_agentType = AT_sub_agent, ag_displayName = ''Lead'', ag_nickname = None,
         ag_status = AG_enabled\<rparr>,
        \<lparr>ag_agentId = ''writer'', ag_agentType = AT_sub_agent, ag_displayName = ''Writer'', ag_nickname = None,
         ag_status = AG_enabled\<rparr>],
     he_nobie = None, he_rootAgentId = None, he_maxDepth = Some (Fin 2), he_maxDelegationTurns = Fin 0,
     he_maxChildCount = None\<rparr>"

definition link_input :: "string \<Rightarrow> string \<Rightarrow> string \<Rightarrow> json" where
  "link_input edgeId parent child = JObj
    [(''edgeId'', JStr edgeId), (''parentAgentId'', JStr parent), (''childAgentId'', JStr child)]"

definition after_create :: "json \<Rightarrow> hierarchy_db \<Rightarrow> hierarchy_db" where
  "after_create input db =
    (case create_relationship sample_hierarchy_env input None 0 0 db of Inr (_, db') \<Rightarrow> db' | Inl _ \<Rightarrow> db)"

definition sample_hierarchy :: hierarchy_db where
  "sample_hierarchy =
    after_create (link_input ''e2'' ''lead'' ''writer'')
      (after_create (link_input ''e1'' ''agent:nobie'' ''lead'') no_relationships)"

lemma reachable_after_create:
  "hierarchy_reachable sample_hierarchy_env db \<Longrightarrow> hierarchy_reachable sample_hierarchy_env (after_create input db)"
  unfolding after_create_def by (auto split: sum.split intro: reach_create)

lemma sample_hierarchy_reachable: "hierarchy_reachable sample_hierarchy_env sample_hierarchy"
  unfolding sample_hierarchy_def by (intro reachable_after_create reach_empty)

lemma sample_hierarchy_rows:
  "sample_hierarchy = \<lparr>hb_locked = False, hb_rows =
    [\<lparr>rl_edgeId = ''e1'', rl_parentAgentId = ''agent:nobie'', rl_childAgentId = ''lead'', rl_status = RS_active,
      rl_sortOrder = 0, rl_createdAt = 0, rl_updatedAt = 0, rr_auditId = None\<rparr>,
     \<lparr>rl_edgeId = ''e2'', rl_parentAgentId = ''lead'', rl_childAgentId = ''writer'', rl_status = RS_active,
      rl_sortOrder = 0, rl_createdAt = 0, rl_updatedAt = 0, rr_auditId = None\<rparr>]\<rparr>"
  by code_simp

lemma sample_hierarchy_env_values:
  "he_compare sample_hierarchy_env = binary_compare" "root_agent_id sample_hierarchy_env = ''agent:nobie''"
  "max_depth sample_hierarchy_env = 2"
  by (simp_all add: sample_hierarchy_env_def root_agent_id_def max_depth_def)

theorem hierarchy_forest_witness:
  "acyclic (parenthood (active_relationships binary_compare sample_hierarchy))
    \<and> depth_of ''writer'' ''agent:nobie''
        (parent_by_child (active_relationships binary_compare sample_hierarchy)) \<le> enat 2"
proof -
  have "\<exists>r \<in> set (active_relationships binary_compare sample_hierarchy). rl_childAgentId r = ''writer''"
    unfolding sample_hierarchy_rows by code_simp
  then show ?thesis
    using hierarchy_forest[OF sample_hierarchy_reachable, unfolded sample_hierarchy_env_values] by metis
qed

text \<open>The writer is disabled and created again with a new edge id: accepted, and refused by the table.\<close>

lemma recreated_pair_throws:
  "case disable_relationship ''e2'' None 1 sample_hierarchy of
     Inr (_, db) \<Rightarrow> create_relationship sample_hierarchy_env (link_input ''e3'' ''lead'' ''writer'') None 2 2 db
       = Inl DB_unique_constraint
   | Inl _ \<Rightarrow> False"
  unfolding sample_hierarchy_rows by code_simp

end
