(* ===== verification/Approval_Registry.thy ===== *)
theory Approval_Registry
  imports Json_Text Sqlite_Order
begin

text \<open>
  The registry of approval requests, \<open>runs/approval-registry.ts\<close> over the table \<open>approval_registry\<close>: a
  tool call that needs approval files a request, a person or a timeout settles it, and the dispatcher
  consumes an approval before it runs the tool. Every function is a few statements on a synchronous
  database and runs to its end before another starts.

  Rows are a list in the order of insertion. \<open>now\<close> is the optional argument or the clock's reading, and
  \<open>uuid\<close> what \<open>crypto.randomUUID\<close> returns. The Korean texts of \<open>describeLateApproval\<close> are left out.
\<close>

section \<open>Rows\<close>

datatype registry_status = AP_requested | AP_approved_once | AP_approved_run | AP_denied | AP_expired
  | AP_superseded | AP_consumed

datatype approval_decision = AD_allow_once | AD_allow_run | AD_deny

datatype approval_kind = AK_approval | AK_screen_confirmation

record approval_row =
  ar_id :: string
  ar_runId :: string
  ar_requestGroupId :: "string option"
  ar_channel :: string
  ar_channelMessageId :: "string option"
  ar_toolName :: string
  ar_riskLevel :: string
  ar_kind :: approval_kind
  ar_status :: registry_status
  ar_paramsHash :: string
  ar_paramsPreview :: "string option"
  ar_requestedAt :: int
  ar_expiresAt :: "int option"
  ar_consumedAt :: "int option"
  ar_decisionAt :: "int option"
  ar_decisionBy :: "string option"
  ar_decisionSource :: "string option"
  ar_supersededBy :: "string option"
  ar_metadataJson :: "string option"
  ar_createdAt :: int
  ar_updatedAt :: int

record approval_input =
  ai_id :: "string option"
  ai_runId :: string
  ai_requestGroupId :: "string option"
  ai_channel :: string
  ai_toolName :: string
  ai_riskLevel :: string
  ai_kind :: approval_kind
  ai_params :: json
  ai_expiresAt :: "int option"
  ai_channelMessageId :: "string option"
  ai_metadata :: "json option"
  ai_now :: "int option"
  ai_supersedePending :: "bool option"

section \<open>Canonical text of parameters\<close>

text \<open>\<open>JSON.stringify(undefined)\<close> is \<open>undefined\<close>: no text, and the empty text between the commas of an array.\<close>

function params_text :: "host \<Rightarrow> json \<Rightarrow> string option" where
  "params_text h JUndef = None"
| "params_text h (JArr xs) = Some (''['' @ join '','' (map (\<lambda>x. opt_or (params_text h x) []) xs) @ '']'')"
| "params_text h (JObj m) = Some (''{'' @ join '',''
     (map (\<lambda>kv. quote_string (fst kv) @ '':'' @ opt_or (params_text h (snd kv)) [])
       (js_sort (\<lambda>a b. h_locale_compare h (fst a) (fst b)) (filter (\<lambda>kv. snd kv \<noteq> JUndef) m))) @ ''}'')"
| "params_text h JNull = Some (stringify h JNull)"
| "params_text h (JBool b) = Some (stringify h (JBool b))"
| "params_text h (JNum n) = Some (stringify h (JNum n))"
| "params_text h (JStr s) = Some (stringify h (JStr s))"
  by pat_completeness auto

termination params_text
  by (relation "measure (size \<circ> snd)") (auto dest!: json_size_arr json_size_obj simp: less_Suc_eq_le)

definition hash_approval_params :: "host \<Rightarrow> json \<Rightarrow> string option" where
  "hash_approval_params h params = map_option (h_sha256 h) (params_text h params)"

definition safe_json_preview :: "host \<Rightarrow> json \<Rightarrow> string option" where
  "safe_json_preview h v = map_option (take 2000) (params_text h v)"

section \<open>Filing a request\<close>

definition get_approval_row :: "approval_row list \<Rightarrow> string \<Rightarrow> approval_row option" where
  "get_approval_row rows approvalId = find (\<lambda>r. ar_id r = approvalId) rows"

definition update_rows :: "(approval_row \<Rightarrow> bool) \<Rightarrow> (approval_row \<Rightarrow> approval_row) \<Rightarrow> approval_row list \<Rightarrow> approval_row list" where
  "update_rows P f rows = map (\<lambda>r. if P r then f r else r) rows"

definition supersede_pending :: "string \<Rightarrow> int \<Rightarrow> string \<Rightarrow> string \<Rightarrow> approval_row list \<Rightarrow> approval_row list" where
  "supersede_pending newId now runId toolName =
    update_rows (\<lambda>r. ar_runId r = runId \<and> ar_toolName r = toolName \<and> ar_status r = AP_requested)
      (\<lambda>r. r\<lparr>ar_status := AP_superseded, ar_supersededBy := Some newId, ar_updatedAt := now\<rparr>)"

datatype create_error = CE_no_params_text | CE_duplicate_id

text \<open>The two statements are not one transaction: an id that is taken throws after the pending requests
  were superseded.\<close>

definition create_approval_request ::
  "host \<Rightarrow> string \<Rightarrow> int \<Rightarrow> approval_input \<Rightarrow> approval_row list \<Rightarrow> (create_error + approval_row) \<times> approval_row list" where
  "create_approval_request h uuid clock i rows =
    (let now = opt_or (ai_now i) clock; newId = opt_or (ai_id i) uuid in
     case hash_approval_params h (ai_params i) of
       None \<Rightarrow> (Inl CE_no_params_text, rows)
     | Some paramsHash \<Rightarrow>
         let rows1 = (if opt_or (ai_supersedePending i) True
               then supersede_pending newId now (ai_runId i) (ai_toolName i) rows else rows);
             row = \<lparr>ar_id = newId, ar_runId = ai_runId i, ar_requestGroupId = ai_requestGroupId i,
               ar_channel = ai_channel i, ar_channelMessageId = ai_channelMessageId i,
               ar_toolName = ai_toolName i, ar_riskLevel = ai_riskLevel i, ar_kind = ai_kind i,
               ar_status = AP_requested, ar_paramsHash = paramsHash,
               ar_paramsPreview = safe_json_preview h (ai_params i), ar_requestedAt = now,
               ar_expiresAt = ai_expiresAt i, ar_consumedAt = None, ar_decisionAt = None,
               ar_decisionBy = None, ar_decisionSource = None, ar_supersededBy = None,
               ar_metadataJson = map_option (stringify h) (ai_metadata i), ar_createdAt = now, ar_updatedAt = now\<rparr>
         in if get_approval_row rows newId \<noteq> None then (Inl CE_duplicate_id, rows1)
            else (Inr row, rows1 @ [row]))"

section \<open>Queries\<close>

text \<open>\<open>ORDER BY created_at DESC, id DESC LIMIT 1\<close>\<close>

definition latest_first :: "approval_row \<Rightarrow> approval_row \<Rightarrow> int" where
  "latest_first l r =
    (if ar_createdAt l \<noteq> ar_createdAt r then ar_createdAt r - ar_createdAt l
     else binary_compare (ar_id r) (ar_id l))"

definition latest_row :: "(approval_row \<Rightarrow> bool) \<Rightarrow> approval_row list \<Rightarrow> approval_row option" where
  "latest_row P rows = (case js_sort latest_first (filter P rows) of [] \<Rightarrow> None | r # _ \<Rightarrow> Some r)"

definition get_latest_approval_for_run :: "string \<Rightarrow> approval_row list \<Rightarrow> approval_row option" where
  "get_latest_approval_for_run runId = latest_row (\<lambda>r. ar_runId r = runId)"

definition get_active_approval_for_run :: "string \<Rightarrow> approval_row list \<Rightarrow> approval_row option" where
  "get_active_approval_for_run runId = latest_row (\<lambda>r. ar_runId r = runId \<and> ar_status r = AP_requested)"

definition find_latest_approval_by_channel_message :: "string \<Rightarrow> string \<Rightarrow> approval_row list \<Rightarrow> approval_row option" where
  "find_latest_approval_by_channel_message channel messageId =
    latest_row (\<lambda>r. ar_channel r = channel \<and> ar_channelMessageId r = Some messageId)"

definition attach_approval_channel_message ::
  "string \<Rightarrow> string \<Rightarrow> int \<Rightarrow> approval_row list \<Rightarrow> bool \<times> approval_row list" where
  "attach_approval_channel_message approvalId messageId now rows =
    (get_approval_row rows approvalId \<noteq> None,
     update_rows (\<lambda>r. ar_id r = approvalId) (\<lambda>r. r\<lparr>ar_channelMessageId := Some messageId, ar_updatedAt := now\<rparr>) rows)"

section \<open>Settling and consuming\<close>

datatype decision_reason = DR_timeout | DR_late | DR_already_consumed | DR_superseded

text \<open>\<open>status\<close> is absent for \<open>"missing"\<close>.\<close>

record decision_result =
  dr_accepted :: bool
  dr_status :: "registry_status option"
  dr_decision :: "approval_decision option"
  dr_reason :: "decision_reason option"
  dr_row :: "approval_row option"

definition expire_row :: "string \<Rightarrow> int \<Rightarrow> approval_row list \<Rightarrow> approval_row list" where
  "expire_row approvalId now =
    update_rows (\<lambda>r. ar_id r = approvalId \<and> ar_status r = AP_requested)
      (\<lambda>r. r\<lparr>ar_status := AP_expired, ar_decisionAt := Some now, ar_decisionSource := Some ''timeout'',
        ar_updatedAt := now\<rparr>)"

definition expire_approval_request :: "string \<Rightarrow> int \<Rightarrow> approval_row list \<Rightarrow> decision_result \<times> approval_row list" where
  "expire_approval_request approvalId now rows =
    (case get_approval_row rows approvalId of
       None \<Rightarrow> (\<lparr>dr_accepted = False, dr_status = None, dr_decision = None, dr_reason = Some DR_timeout, dr_row = None\<rparr>, rows)
     | Some row \<Rightarrow>
         if ar_status row \<noteq> AP_requested then
           (\<lparr>dr_accepted = False, dr_status = Some (ar_status row), dr_decision = None, dr_reason = None, dr_row = Some row\<rparr>, rows)
         else let rows' = expire_row approvalId now rows in
           (\<lparr>dr_accepted = False, dr_status = Some AP_expired, dr_decision = None, dr_reason = Some DR_timeout,
             dr_row = get_approval_row rows' approvalId\<rparr>, rows'))"

definition is_late :: "approval_row \<Rightarrow> int \<Rightarrow> bool" where
  "is_late row now \<longleftrightarrow> (case ar_expiresAt row of None \<Rightarrow> False | Some e \<Rightarrow> e \<le> now) \<and> ar_status row = AP_requested"

text \<open>What both \<open>resolve\<close> and \<open>consume\<close> answer to a request past its time, and to one in a wrong status.\<close>

definition expire_late :: "approval_row \<Rightarrow> int \<Rightarrow> approval_row list \<Rightarrow> decision_result \<times> approval_row list" where
  "expire_late row now rows =
    (let rows' = snd (expire_approval_request (ar_id row) now rows) in
     (\<lparr>dr_accepted = False, dr_status = Some AP_expired, dr_decision = None, dr_reason = Some DR_late,
       dr_row = get_approval_row rows' (ar_id row)\<rparr>, rows'))"

definition refuse :: "approval_row \<Rightarrow> decision_result" where
  "refuse row =
    \<lparr>dr_accepted = False, dr_status = Some (ar_status row), dr_decision = None,
     dr_reason = Some (if ar_status row = AP_consumed then DR_already_consumed
       else if ar_status row = AP_superseded then DR_superseded else DR_late),
     dr_row = Some row\<rparr>"

definition missing :: decision_result where
  "missing = \<lparr>dr_accepted = False, dr_status = None, dr_decision = None, dr_reason = None, dr_row = None\<rparr>"

fun decided_status :: "approval_decision \<Rightarrow> registry_status" where
  "decided_status AD_allow_run = AP_approved_run"
| "decided_status AD_allow_once = AP_approved_once"
| "decided_status AD_deny = AP_denied"

definition resolve_approval_decision ::
  "string \<Rightarrow> approval_decision \<Rightarrow> string option \<Rightarrow> string \<Rightarrow> int \<Rightarrow> approval_row list \<Rightarrow> decision_result \<times> approval_row list" where
  "resolve_approval_decision approvalId decision decisionBy decisionSource now rows =
    (case get_approval_row rows approvalId of
       None \<Rightarrow> (missing, rows)
     | Some row \<Rightarrow>
         if is_late row now then expire_late row now rows
         else if ar_status row \<noteq> AP_requested then (refuse row, rows)
         else let rows' = update_rows (\<lambda>r. ar_id r = approvalId \<and> ar_status r = AP_requested)
               (\<lambda>r. r\<lparr>ar_status := decided_status decision, ar_decisionAt := Some now, ar_decisionBy := decisionBy,
                 ar_decisionSource := Some decisionSource, ar_updatedAt := now\<rparr>) rows
           in (\<lparr>dr_accepted = True, dr_status = Some (decided_status decision), dr_decision = Some decision,
                dr_reason = None, dr_row = get_approval_row rows' approvalId\<rparr>, rows'))"

definition approved :: "registry_status \<Rightarrow> bool" where
  "approved s \<longleftrightarrow> s = AP_approved_once \<or> s = AP_approved_run"

definition consume_approval_decision :: "string \<Rightarrow> int \<Rightarrow> approval_row list \<Rightarrow> decision_result \<times> approval_row list" where
  "consume_approval_decision approvalId now rows =
    (case get_approval_row rows approvalId of
       None \<Rightarrow> (missing, rows)
     | Some row \<Rightarrow>
         if is_late row now then expire_late row now rows
         else if \<not> approved (ar_status row) then (refuse row, rows)
         else let rows' = update_rows (\<lambda>r. ar_id r = approvalId \<and> approved (ar_status r))
               (\<lambda>r. r\<lparr>ar_status := AP_consumed, ar_consumedAt := Some now, ar_updatedAt := now\<rparr>) rows
           in (\<lparr>dr_accepted = True, dr_status = Some AP_consumed,
                dr_decision = Some (if ar_status row = AP_approved_run then AD_allow_run else AD_allow_once),
                dr_reason = None, dr_row = get_approval_row rows' approvalId\<rparr>, rows'))"

section \<open>Histories\<close>

text \<open>Any sequence of calls, each with the clock it reads, and what each of them answered.\<close>

datatype approval_op =
    OP_create string int approval_input
  | OP_attach string string int
  | OP_expire string int
  | OP_resolve string approval_decision "string option" string int
  | OP_consume string int

datatype approval_answer = AW_created "create_error + approval_row" | AW_attached bool | AW_decision decision_result

fun apply_op :: "host \<Rightarrow> approval_op \<Rightarrow> approval_row list \<Rightarrow> approval_answer \<times> approval_row list" where
  "apply_op h (OP_create uuid clock i) rows = apfst AW_created (create_approval_request h uuid clock i rows)"
| "apply_op h (OP_attach a m now) rows = apfst AW_attached (attach_approval_channel_message a m now rows)"
| "apply_op h (OP_expire a now) rows = apfst AW_decision (expire_approval_request a now rows)"
| "apply_op h (OP_resolve a d by source now) rows = apfst AW_decision (resolve_approval_decision a d by source now rows)"
| "apply_op h (OP_consume a now) rows = apfst AW_decision (consume_approval_decision a now rows)"

fun run_ops :: "host \<Rightarrow> approval_op list \<Rightarrow> approval_row list \<Rightarrow> (approval_op \<times> approval_answer) list \<times> approval_row list" where
  "run_ops h [] rows = ([], rows)"
| "run_ops h (op # ops) rows =
    (let (answer, rows1) = apply_op h op rows; (lg, rows2) = run_ops h ops rows1
     in ((op, answer) # lg, rows2))"

text \<open>The entries of a log that settled a request or consumed an approval.\<close>

fun resolved :: "string \<Rightarrow> approval_op \<times> approval_answer \<Rightarrow> bool" where
  "resolved a (OP_resolve a' _ _ _ _, AW_decision r) \<longleftrightarrow> a' = a \<and> dr_accepted r"
| "resolved a _ \<longleftrightarrow> False"

fun consumed :: "string \<Rightarrow> approval_op \<times> approval_answer \<Rightarrow> bool" where
  "consumed a (OP_consume a' _, AW_decision r) \<longleftrightarrow> a' = a \<and> dr_accepted r"
| "consumed a _ \<longleftrightarrow> False"

fun answered :: "approval_op \<times> approval_answer \<Rightarrow> approval_decision option" where
  "answered (_, AW_decision r) = dr_decision r"
| "answered _ = None"

section \<open>Statuses\<close>

definition status_of :: "approval_row list \<Rightarrow> string \<Rightarrow> registry_status option" where
  "status_of rows a = map_option ar_status (get_approval_row rows a)"

definition ids_distinct :: "approval_row list \<Rightarrow> bool" where
  "ids_distinct rows \<longleftrightarrow> distinct (map ar_id rows)"

text \<open>The life cycle of a row: a request is settled once, and an approval is used once.\<close>

fun approval_step :: "registry_status \<Rightarrow> registry_status \<Rightarrow> bool" where
  "approval_step AP_requested t \<longleftrightarrow> t \<noteq> AP_consumed"
| "approval_step AP_approved_once t \<longleftrightarrow> t \<in> {AP_approved_once, AP_consumed}"
| "approval_step AP_approved_run t \<longleftrightarrow> t \<in> {AP_approved_run, AP_consumed}"
| "approval_step s t \<longleftrightarrow> t = s"

lemma get_update_rows:
  assumes "\<And>r. ar_id (f r) = ar_id r"
  shows "get_approval_row (update_rows P f rows) a = map_option (\<lambda>r. if P r then f r else r) (get_approval_row rows a)"
  using assms by (induction rows) (auto simp: get_approval_row_def update_rows_def)

lemma ids_update_rows [simp]:
  assumes "\<And>r. ar_id (f r) = ar_id r"
  shows "map ar_id (update_rows P f rows) = map ar_id rows"
  using assms by (auto simp: update_rows_def)

lemma get_row_id: "get_approval_row rows a = Some r \<Longrightarrow> ar_id r = a"
  by (auto simp: get_approval_row_def find_Some_iff)

lemma get_row_None: "get_approval_row rows a = None \<longleftrightarrow> a \<notin> ar_id ` set rows"
  by (auto simp: get_approval_row_def find_None_iff)

lemma get_row_append:
  "get_approval_row (rows @ [r]) a = (case get_approval_row rows a of Some x \<Rightarrow> Some x
    | None \<Rightarrow> if ar_id r = a then Some r else None)"
  by (induction rows) (auto simp: get_approval_row_def)

lemma status_update_rows:
  assumes "\<And>r. ar_id (f r) = ar_id r"
  shows "status_of (update_rows P f rows) a = (case get_approval_row rows a of None \<Rightarrow> None
    | Some r \<Rightarrow> Some (if P r then ar_status (f r) else ar_status r))"
  by (simp add: status_of_def get_update_rows[OF assms] split: option.split)

lemma status_cases:
  "get_approval_row rows a = Some r \<Longrightarrow> status_of rows a = Some (ar_status r)"
  "get_approval_row rows a = None \<Longrightarrow> status_of rows a = None"
  by (simp_all add: status_of_def)

lemma status_update_one:
  assumes "\<And>r. ar_id (f r) = ar_id r" "\<And>r. ar_status (f r) = t"
  shows "status_of (update_rows (\<lambda>r. ar_id r = b \<and> Q (ar_status r)) f rows) a =
    (if a = b \<and> (\<exists>s. status_of rows a = Some s \<and> Q s) then Some t else status_of rows a)"
  using get_row_id[of rows a]
  by (cases "get_approval_row rows a") (auto simp: status_update_rows[OF assms(1)] status_cases assms(2))

lemma status_expire_row:
  "status_of (expire_row b now rows) a =
    (if a = b \<and> status_of rows a = Some AP_requested then Some AP_expired else status_of rows a)"
  by (cases "get_approval_row rows a")
    (auto simp: expire_row_def status_update_rows status_cases dest: get_row_id)

lemma status_expire_request:
  "status_of (snd (expire_approval_request b now rows)) a =
    (if a = b \<and> status_of rows a = Some AP_requested then Some AP_expired else status_of rows a)"
  by (auto simp: expire_approval_request_def Let_def status_expire_row status_cases split: option.split)

lemma expire_late_fields [simp]:
  "dr_accepted (fst (expire_late row now rows)) = False"
  "snd (expire_late row now rows) = snd (expire_approval_request (ar_id row) now rows)"
  by (simp_all add: expire_late_def Let_def)

lemma status_create:
  "status_of (snd (create_approval_request h uuid clock i rows)) a = status_of rows a
   \<or> status_of rows a = None \<and> status_of (snd (create_approval_request h uuid clock i rows)) a = Some AP_requested
   \<or> status_of rows a = Some AP_requested
     \<and> status_of (snd (create_approval_request h uuid clock i rows)) a = Some AP_superseded"
proof -
  have sup: "status_of (supersede_pending n now run tool rows) a = status_of rows a
      \<or> status_of rows a = Some AP_requested \<and> status_of (supersede_pending n now run tool rows) a = Some AP_superseded"
    for n now run tool
    by (cases "get_approval_row rows a") (auto simp: supersede_pending_def status_update_rows status_cases)
  have app: "status_of (rs @ [r]) a = status_of rs a \<or> status_of rs a = None \<and> status_of (rs @ [r]) a = Some (ar_status r)"
    for rs r by (auto simp: status_of_def get_row_append split: option.split)
  have none: "status_of (supersede_pending n now run tool rows) a = None \<longleftrightarrow> status_of rows a = None" for n now run tool
    by (cases "get_approval_row rows a") (auto simp: supersede_pending_def status_update_rows status_cases)
  show ?thesis
  proof (cases "hash_approval_params h (ai_params i)")
    case None
    then show ?thesis by (simp add: create_approval_request_def)
  next
    case (Some paramsHash)
    let ?n = "opt_or (ai_id i) uuid" and ?now = "opt_or (ai_now i) clock"
    define rows1 where "rows1 = (if opt_or (ai_supersedePending i) True
      then supersede_pending ?n ?now (ai_runId i) (ai_toolName i) rows else rows)"
    have old: "status_of rows1 a = status_of rows a
        \<or> status_of rows a = Some AP_requested \<and> status_of rows1 a = Some AP_superseded"
      and none1: "status_of rows1 a = None \<longleftrightarrow> status_of rows a = None"
      using sup none by (simp_all add: rows1_def)
    have "snd (create_approval_request h uuid clock i rows) = rows1
       \<or> (\<exists>row. ar_status row = AP_requested \<and> snd (create_approval_request h uuid clock i rows) = rows1 @ [row])"
      using Some by (simp add: create_approval_request_def Let_def rows1_def)
    then consider "snd (create_approval_request h uuid clock i rows) = rows1"
      | row where "ar_status row = AP_requested" "snd (create_approval_request h uuid clock i rows) = rows1 @ [row]"
      by blast
    then show ?thesis
    proof cases
      case 1
      then show ?thesis using old by auto
    next
      case 2
      then show ?thesis using old none1 app[of rows1 row] by auto
    qed
  qed
qed

text \<open>What one call does to the status of one row, and what it logs.\<close>

lemma op_effect:
  assumes "apply_op h op rows = (answer, rows')"
  shows "(resolved a (op, answer) \<longrightarrow> status_of rows a = Some AP_requested
      \<and> (\<exists>d. answered (op, answer) = Some d \<and> status_of rows' a = Some (decided_status d)))
    \<and> (consumed a (op, answer) \<longrightarrow> status_of rows' a = Some AP_consumed
      \<and> (\<exists>d \<in> {AD_allow_once, AD_allow_run}. answered (op, answer) = Some d \<and> status_of rows a = Some (decided_status d)))
    \<and> (\<not> resolved a (op, answer) \<and> \<not> consumed a (op, answer) \<longrightarrow>
        status_of rows' a = status_of rows a
        \<or> status_of rows a = None \<and> status_of rows' a = Some AP_requested
        \<or> status_of rows a = Some AP_requested \<and> status_of rows' a \<in> {Some AP_expired, Some AP_superseded})"
proof (cases op)
  case (OP_create uuid clock i)
  obtain x y where "create_approval_request h uuid clock i rows = (x, y)" by fastforce
  then show ?thesis using OP_create assms status_create[of h uuid clock i rows a] by auto
next
  case (OP_attach b m now)
  then show ?thesis
    using assms by (cases "get_approval_row rows a")
      (auto simp: attach_approval_channel_message_def status_update_rows status_cases split: if_splits)
next
  case (OP_expire b now)
  obtain x y where "expire_approval_request b now rows = (x, y)" by fastforce
  then show ?thesis using OP_expire assms status_expire_request[of b now rows a] by auto
next
  case (OP_resolve b d who source now)
  show ?thesis
  proof (cases "get_approval_row rows b")
    case None
    then show ?thesis using assms OP_resolve by (auto simp: resolve_approval_decision_def missing_def)
  next
    case (Some row)
    obtain x y where late: "expire_late row now rows = (x, y)" by fastforce
    show ?thesis
    proof (cases "is_late row now")
      case True
      then show ?thesis
        using assms OP_resolve Some late expire_late_fields[of row now rows]
          status_expire_request[of "ar_id row" now rows a]
        by (auto simp: resolve_approval_decision_def)
    next
      case False
      let ?f = "\<lambda>r. r\<lparr>ar_status := decided_status d, ar_decisionAt := Some now, ar_decisionBy := who,
        ar_decisionSource := Some source, ar_updatedAt := now\<rparr>"
      have "status_of (update_rows (\<lambda>r. ar_id r = b \<and> ar_status r = AP_requested) ?f rows) a =
        (if a = b \<and> status_of rows a = Some AP_requested then Some (decided_status d) else status_of rows a)"
        using status_update_one[of ?f "decided_status d" b "\<lambda>s. s = AP_requested" rows a] by simp
      then show ?thesis
        using assms OP_resolve Some False status_cases(1)[OF Some]
        by (cases "ar_status row = AP_requested") (auto simp: resolve_approval_decision_def Let_def refuse_def)
    qed
  qed
next
  case (OP_consume b now)
  show ?thesis
  proof (cases "get_approval_row rows b")
    case None
    then show ?thesis using assms OP_consume by (auto simp: consume_approval_decision_def missing_def)
  next
    case (Some row)
    obtain x y where late: "expire_late row now rows = (x, y)" by fastforce
    show ?thesis
    proof (cases "is_late row now")
      case True
      then show ?thesis
        using assms OP_consume Some late expire_late_fields[of row now rows]
          status_expire_request[of "ar_id row" now rows a]
        by (auto simp: consume_approval_decision_def)
    next
      case False
      let ?f = "\<lambda>r. r\<lparr>ar_status := AP_consumed, ar_consumedAt := Some now, ar_updatedAt := now\<rparr>"
      have "status_of (update_rows (\<lambda>r. ar_id r = b \<and> approved (ar_status r)) ?f rows) a =
        (if a = b \<and> (\<exists>s. status_of rows a = Some s \<and> approved s) then Some AP_consumed else status_of rows a)"
        using status_update_one[of ?f AP_consumed b approved rows a] by simp
      then show ?thesis
        using assms OP_consume Some False status_cases(1)[OF Some]
        by (cases "approved (ar_status row)")
          (auto simp: consume_approval_decision_def Let_def refuse_def approved_def)
    qed
  qed
qed

section \<open>What a log says of a status\<close>

fun told :: "string \<Rightarrow> (approval_op \<times> approval_answer) list \<Rightarrow> registry_status option \<Rightarrow> bool" where
  "told a lg (Some AP_approved_once) \<longleftrightarrow>
    map answered (filter (resolved a) lg) = [Some AD_allow_once] \<and> filter (consumed a) lg = []"
| "told a lg (Some AP_approved_run) \<longleftrightarrow>
    map answered (filter (resolved a) lg) = [Some AD_allow_run] \<and> filter (consumed a) lg = []"
| "told a lg (Some AP_denied) \<longleftrightarrow>
    map answered (filter (resolved a) lg) = [Some AD_deny] \<and> filter (consumed a) lg = []"
| "told a lg (Some AP_consumed) \<longleftrightarrow>
    (\<exists>d \<in> {AD_allow_once, AD_allow_run}. map answered (filter (resolved a) lg) = [Some d]
      \<and> map answered (filter (consumed a) lg) = [Some d])"
| "told a lg _ \<longleftrightarrow> filter (resolved a) lg = [] \<and> filter (consumed a) lg = []"

lemma told_step:
  assumes "apply_op h op rows = (answer, rows')" "told a lg (status_of rows a)"
  shows "told a (lg @ [(op, answer)]) (status_of rows' a)"
proof -
  note E = op_effect[OF assms(1), of a]
  have excl: "\<not> (resolved a (op, answer) \<and> consumed a (op, answer))" by (cases op; cases answer) auto
  consider "resolved a (op, answer)" | "consumed a (op, answer)"
    | "\<not> resolved a (op, answer)" "\<not> consumed a (op, answer)" by blast
  then show ?thesis
  proof cases
    case 1
    then obtain d where "answered (op, answer) = Some d" "status_of rows' a = Some (decided_status d)"
      "status_of rows a = Some AP_requested" using E by blast
    then show ?thesis using assms(2) 1 excl by (cases d) auto
  next
    case 2
    then obtain d where "answered (op, answer) = Some d" "status_of rows a = Some (decided_status d)"
      "d \<in> {AD_allow_once, AD_allow_run}" "status_of rows' a = Some AP_consumed" using E by blast
    then show ?thesis using assms(2) 2 excl by auto
  next
    case 3
    then have "told a (lg @ [(op, answer)]) t \<longleftrightarrow> told a lg t" for t
      by (cases "(a, lg, t)" rule: told.cases) simp_all
    moreover consider "status_of rows' a = status_of rows a"
      | "status_of rows a = None" "status_of rows' a = Some AP_requested"
      | "status_of rows a = Some AP_requested" "status_of rows' a \<in> {Some AP_expired, Some AP_superseded}"
      using E[THEN conjunct2, THEN conjunct2, rule_format, OF conjI[OF 3]] by (elim disjE conjE) simp_all
    then have "told a lg (status_of rows' a)" by cases (use assms(2) in auto)
    ultimately show ?thesis by blast
  qed
qed

lemma run_ops_append:
  "run_ops h (ops @ ops') rows =
    (let (lg, rows1) = run_ops h ops rows; (lg', rows2) = run_ops h ops' rows1 in (lg @ lg', rows2))"
  by (induction ops arbitrary: rows) (auto simp: Let_def split: prod.split)

lemma run_ops_told: "run_ops h ops [] = (lg, rows) \<Longrightarrow> told a lg (status_of rows a)"
proof (induction ops arbitrary: lg rows rule: rev_induct)
  case Nil
  then show ?case by (simp add: status_of_def get_approval_row_def)
next
  case (snoc op ops)
  obtain log1 rows1 where 1: "run_ops h ops [] = (log1, rows1)" by fastforce
  obtain answer rows2 where 2: "apply_op h op rows1 = (answer, rows2)" by fastforce
  show ?case using told_step[OF 2 snoc.IH[OF 1]] snoc.prems 1 2 by (auto simp: run_ops_append)
qed

lemma run_ops_split:
  "run_ops h ops rows = (pre @ (op, answer) # post, rows') \<Longrightarrow>
    \<exists>ops1 ops2 rows1 rows2. run_ops h ops1 rows = (pre, rows1) \<and> apply_op h op rows1 = (answer, rows2)
      \<and> run_ops h ops2 rows2 = (post, rows')"
proof (induction pre arbitrary: ops rows)
  case Nil
  then obtain ops' rows2 where "ops = op # ops'" "apply_op h op rows = (answer, rows2)"
    "run_ops h ops' rows2 = (post, rows')" by (cases ops) (auto simp: Let_def split: prod.splits)
  then show ?case by (intro exI[of _ "[]"] exI[of _ ops'] exI[of _ rows] exI[of _ rows2]) simp
next
  case (Cons e pre)
  then obtain o1 ops' where ops: "ops = o1 # ops'" by (cases ops) auto
  obtain ans rows1 where 1: "apply_op h o1 rows = (ans, rows1)" by fastforce
  then have "run_ops h ops' rows1 = (pre @ (op, answer) # post, rows')" and e: "e = (o1, ans)"
    using Cons.prems ops by (auto simp: Let_def split: prod.splits)
  from Cons.IH[OF this(1)] obtain ops1 ops2 r1 r2 where "run_ops h ops1 rows1 = (pre, r1)"
    "apply_op h op r1 = (answer, r2)" "run_ops h ops2 r2 = (post, rows')" by blast
  then show ?case using 1 e by (intro exI[of _ "o1 # ops1"] exI[of _ ops2] exI[of _ r1] exI[of _ r2]) simp
qed

text \<open>A consumed approval stays consumed, and nothing more is accepted for it.\<close>

lemma consumed_stays:
  "run_ops h ops rows = (lg, rows') \<Longrightarrow> status_of rows a = Some AP_consumed \<Longrightarrow>
    filter (resolved a) lg = [] \<and> filter (consumed a) lg = []"
proof (induction ops arbitrary: rows lg)
  case (Cons op ops)
  obtain answer rows1 where 1: "apply_op h op rows = (answer, rows1)" by fastforce
  obtain log1 where 2: "run_ops h ops rows1 = (log1, rows')" "lg = (op, answer) # log1"
    using Cons.prems(1) 1 by (auto simp: Let_def split: prod.splits)
  have no: "\<not> resolved a (op, answer)" "\<not> consumed a (op, answer)" "status_of rows1 a = Some AP_consumed"
  proof -
    show "\<not> resolved a (op, answer)" using op_effect[OF 1, of a] Cons.prems(2) by auto
    moreover have "decided_status d \<noteq> AP_consumed" for d by (cases d) auto
    then show "\<not> consumed a (op, answer)" using op_effect[OF 1, of a] Cons.prems(2) by auto
    ultimately show "status_of rows1 a = Some AP_consumed" using op_effect[OF 1, of a] Cons.prems(2) by auto
  qed
  then show ?case using Cons.IH[OF 2(1) no(3)] 2(2) by simp
qed simp

section \<open>Pending requests\<close>

definition pending :: "string \<Rightarrow> string \<Rightarrow> approval_row list \<Rightarrow> approval_row list" where
  "pending runId toolName = filter (\<lambda>r. ar_runId r = runId \<and> ar_toolName r = toolName \<and> ar_status r = AP_requested)"

lemma pending_update:
  assumes "\<And>r. ar_runId (f r) = ar_runId r" "\<And>r. ar_toolName (f r) = ar_toolName r"
    and "\<And>r. P r \<Longrightarrow> ar_status (f r) = AP_requested \<Longrightarrow> ar_status r = AP_requested"
  shows "length (pending run tool (update_rows P f rows)) \<le> length (pending run tool rows)"
  using assms by (induction rows) (auto simp: pending_def update_rows_def)

lemma pending_supersede:
  "length (pending run tool (supersede_pending n now run' tool' rows)) \<le> length (pending run tool rows)"
  "pending run tool (supersede_pending n now run tool rows) = []"
  unfolding supersede_pending_def
  by (rule pending_update; simp) (induction rows; simp add: pending_def update_rows_def)

lemma pending_expire:
  "length (pending run tool (snd (expire_approval_request b now rows))) \<le> length (pending run tool rows)"
  by (auto simp: expire_approval_request_def expire_row_def Let_def intro!: pending_update split: option.split)

lemma pending_resolve:
  "length (pending run tool (snd (resolve_approval_decision b d who source now rows))) \<le> length (pending run tool rows)"
  by (auto simp: resolve_approval_decision_def Let_def pending_expire intro!: pending_update split: option.split)

lemma pending_consume:
  "length (pending run tool (snd (consume_approval_decision b now rows))) \<le> length (pending run tool rows)"
  by (auto simp: consume_approval_decision_def Let_def pending_expire intro!: pending_update split: option.split)

lemma pending_attach:
  "length (pending run tool (snd (attach_approval_channel_message b m now rows))) \<le> length (pending run tool rows)"
  by (auto simp: attach_approval_channel_message_def intro!: pending_update)

text \<open>Filing with the default option leaves one pending request of the tool in the run.\<close>

lemma pending_create:
  assumes "ai_supersedePending i \<noteq> Some False" "length (pending run tool rows) \<le> 1"
  shows "length (pending run tool (snd (create_approval_request h uuid clock i rows))) \<le> 1"
proof (cases "hash_approval_params h (ai_params i)")
  case None
  then show ?thesis using assms by (simp add: create_approval_request_def)
next
  case (Some paramsHash)
  let ?rows1 = "supersede_pending (opt_or (ai_id i) uuid) (opt_or (ai_now i) clock) (ai_runId i) (ai_toolName i) rows"
  have sup: "opt_or (ai_supersedePending i) True" using assms(1) by (cases "ai_supersedePending i") auto
  have few: "length (pending run tool ?rows1) \<le> 1" using pending_supersede(1) assms(2) order.trans by blast
  have "ar_runId row = ai_runId i \<Longrightarrow> ar_toolName row = ai_toolName i \<Longrightarrow>
      length (pending run tool (?rows1 @ [row])) \<le> 1" for row
    using few pending_supersede(2) by (auto simp: pending_def)
  then show ?thesis using Some sup few by (simp add: create_approval_request_def Let_def)
qed

definition superseding :: "approval_op \<Rightarrow> bool" where
  "superseding op \<longleftrightarrow> (case op of OP_create _ _ i \<Rightarrow> ai_supersedePending i \<noteq> Some False | _ \<Rightarrow> True)"

lemma pending_op:
  assumes "apply_op h op rows = (answer, rows')" "superseding op" "length (pending run tool rows) \<le> 1"
  shows "length (pending run tool rows') \<le> 1"
proof -
  have "rows' = snd (apply_op h op rows)" using assms(1) by simp
  moreover have "length (pending run tool (snd (apply_op h op rows))) \<le> 1"
  proof (cases op)
    case (OP_create uuid clock i)
    then show ?thesis using pending_create assms(2,3) by (simp add: superseding_def)
  next
    case (OP_attach b m now)
    then show ?thesis using pending_attach[of run tool b m now rows] assms(3) by simp
  next
    case (OP_expire b now)
    then show ?thesis using pending_expire[of run tool b now rows] assms(3) by simp
  next
    case (OP_resolve b d who source now)
    then show ?thesis using pending_resolve[of run tool b d who source now rows] assms(3) by simp
  next
    case (OP_consume b now)
    then show ?thesis using pending_consume[of run tool b now rows] assms(3) by simp
  qed
  ultimately show ?thesis by simp
qed

lemma pending_ops:
  "run_ops h ops rows = (lg, rows') \<Longrightarrow> \<forall>op \<in> set ops. superseding op \<Longrightarrow> length (pending run tool rows) \<le> 1 \<Longrightarrow>
    length (pending run tool rows') \<le> 1"
proof (induction ops arbitrary: rows lg)
  case (Cons op ops)
  obtain answer rows1 where 1: "apply_op h op rows = (answer, rows1)" by fastforce
  obtain lg1 where 2: "run_ops h ops rows1 = (lg1, rows')"
    using Cons.prems(1) 1 by (auto simp: Let_def split: prod.splits)
  show ?case using Cons.IH[OF 2] pending_op[OF 1] Cons.prems(2,3) by simp
qed simp

section \<open>Properties\<close>

text \<open>C20: Approvals are single-use. In any history of filing, attaching, expiring, settling and consuming,
  with any clock readings and ids, starting from an empty registry: when a tool call consumes an approval,
  exactly one decision was accepted for that request before, it allowed the call, and the consumer is told
  that decision; no other consumption of it was accepted before or will be after, and no further decision.\<close>

theorem approval_single_use:
  assumes "run_ops h ops [] = (pre @ (op, answer) # post, rows)" "consumed a (op, answer)"
  shows "\<exists>d \<in> {AD_allow_once, AD_allow_run}. answered (op, answer) = Some d
    \<and> map answered (filter (resolved a) pre) = [Some d]
    \<and> filter (consumed a) (pre @ post) = [] \<and> filter (resolved a) post = []"
proof -
  obtain ops1 ops2 rows1 rows2 where run: "run_ops h ops1 [] = (pre, rows1)" "apply_op h op rows1 = (answer, rows2)"
    "run_ops h ops2 rows2 = (post, rows)" using run_ops_split[OF assms(1)] by blast
  obtain d where d: "d \<in> {AD_allow_once, AD_allow_run}" "answered (op, answer) = Some d"
    "status_of rows1 a = Some (decided_status d)" "status_of rows2 a = Some AP_consumed"
    using op_effect[OF run(2), of a] assms(2) by blast
  then show ?thesis
    using run_ops_told[OF run(1), of a] consumed_stays[OF run(3) d(4)] by auto
qed

text \<open>A run never waits for two approvals of one tool: after any history in which requests are filed
  with the default option, at most one request of a tool is pending per run.\<close>

lemma one_pending_request:
  assumes "run_ops h ops [] = (lg, rows)" "\<forall>op \<in> set ops. superseding op"
  shows "length (pending run tool rows) \<le> 1"
  using pending_ops[OF assms] by (simp add: pending_def)

text \<open>A request for \<open>shell\<close>, replaced by a second one, which is approved once and used; the attempts to
  decide the first or to use the second again are refused.\<close>

definition approval_sample_host :: host where
  "approval_sample_host = \<lparr>h_sha256 = (\<lambda>s. s), h_locale_compare = binary_compare, h_num_text = (\<lambda>n. ''0''),
    h_clock = (\<lambda>k. int k)\<rparr>"

definition sample_request :: "string \<Rightarrow> approval_op" where
  "sample_request a = OP_create ''uuid'' 0
    \<lparr>ai_id = Some a, ai_runId = ''run'', ai_requestGroupId = None, ai_channel = ''slack'', ai_toolName = ''shell'',
     ai_riskLevel = ''high'', ai_kind = AK_approval, ai_params = JNull, ai_expiresAt = Some 100,
     ai_channelMessageId = None, ai_metadata = None, ai_now = Some 1, ai_supersedePending = None\<rparr>"

definition sample_ops :: "approval_op list" where
  "sample_ops =
    [sample_request ''a1'', sample_request ''a2'', OP_resolve ''a1'' AD_allow_once None ''slack'' 5,
     OP_resolve ''a2'' AD_allow_once None ''slack'' 6, OP_consume ''a2'' 7, OP_consume ''a2'' 8]"

definition sample_log :: "(approval_op \<times> approval_answer) list" where
  "sample_log = fst (run_ops approval_sample_host sample_ops [])"

lemma sample_log_values:
  "length sample_log = 6" "consumed ''a2'' (sample_log ! 4)" "answered (sample_log ! 4) = Some AD_allow_once"
  unfolding sample_log_def approval_sample_host_def by code_simp+

theorem approval_single_use_witness:
  "map answered (filter (resolved ''a2'') (take 4 sample_log)) = [Some AD_allow_once]
    \<and> filter (consumed ''a2'') (take 4 sample_log @ drop 5 sample_log) = []
    \<and> filter (resolved ''a2'') (drop 5 sample_log) = []"
proof -
  obtain op answer where e: "sample_log ! 4 = (op, answer)" by fastforce
  have "sample_log = take 4 sample_log @ (op, answer) # drop 5 sample_log"
    using id_take_nth_drop[of 4 sample_log] sample_log_values(1) e by simp
  then have "run_ops approval_sample_host sample_ops [] =
      (take 4 sample_log @ (op, answer) # drop 5 sample_log, snd (run_ops approval_sample_host sample_ops []))"
    by (metis sample_log_def surjective_pairing)
  moreover have "consumed ''a2'' (op, answer)" using sample_log_values(2) e by simp
  ultimately have "\<exists>d \<in> {AD_allow_once, AD_allow_run}. answered (op, answer) = Some d
    \<and> map answered (filter (resolved ''a2'') (take 4 sample_log)) = [Some d]
    \<and> filter (consumed ''a2'') (take 4 sample_log @ drop 5 sample_log) = []
    \<and> filter (resolved ''a2'') (drop 5 sample_log) = []"
    by (rule approval_single_use)
  then show ?thesis using sample_log_values(3) e by auto
qed

lemma one_pending_request_witness:
  "length (pending ''run'' ''shell'' (snd (run_ops approval_sample_host (take 2 sample_ops) []))) \<le> 1"
proof (rule one_pending_request)
  show "run_ops approval_sample_host (take 2 sample_ops) [] =
    (fst (run_ops approval_sample_host (take 2 sample_ops) []), snd (run_ops approval_sample_host (take 2 sample_ops) []))"
    by simp
  show "\<forall>op \<in> set (take 2 sample_ops). superseding op"
    by (simp add: sample_ops_def sample_request_def superseding_def)
qed

end
