(* ===== verification/Session_Groups.thy ===== *)
theory Session_Groups
  imports Prelude "HOL-Library.Sublist"
begin

text \<open>
  Groups of sub-sessions, from \<open>orchestration/sub-session-runner.ts\<close>: the status machine of a sub-session,
  resource locks, the plan that arranges work items in waves under dependencies, concurrency limits and
  locks, the budget that drops items beforehand, and the run of a group wave by wave.

  An absent optional list is the empty one. The run of an item is a parameter that may answer nothing, for
  a promise that never settles; \<open>clock\<close> and \<open>cancelled\<close> give the readings of the clock and of the parent's
  cancellation at each wave. Labels appended to the parent run are a list; latency metrics leave no state.
  Task ids that name members of \<open>Object.prototype\<close> are not considered.
\<close>

section \<open>Status of a sub-session\<close>

datatype session_status = SS_created | SS_queued | SS_running | SS_waiting_for_input | SS_awaiting_approval
  | SS_completed | SS_needs_revision | SS_failed | SS_cancelled

fun session_transitions :: "session_status \<Rightarrow> session_status list" where
  "session_transitions SS_created = [SS_queued, SS_failed, SS_cancelled]"
| "session_transitions SS_queued = [SS_running, SS_failed, SS_cancelled]"
| "session_transitions SS_running =
    [SS_waiting_for_input, SS_awaiting_approval, SS_completed, SS_needs_revision, SS_failed, SS_cancelled]"
| "session_transitions SS_waiting_for_input = [SS_running, SS_completed, SS_needs_revision, SS_failed, SS_cancelled]"
| "session_transitions SS_awaiting_approval = [SS_running, SS_completed, SS_needs_revision, SS_failed, SS_cancelled]"
| "session_transitions _ = []"

record sub_session =
  su_subSessionId :: string
  su_parentRunId :: string
  su_status :: session_status
  su_startedAt :: "int option"
  su_finishedAt :: "int option"

definition can_transition :: "session_status \<Rightarrow> session_status \<Rightarrow> bool" where
  "can_transition s t \<longleftrightarrow> s = t \<or> t \<in> set (session_transitions s)"

definition replayable :: "session_status \<Rightarrow> bool" where
  "replayable s \<longleftrightarrow> s \<in> {SS_completed, SS_needs_revision, SS_failed, SS_cancelled}"

text \<open>\<open>None\<close> is \<open>InvalidSubSessionStatusTransitionError\<close>.\<close>

definition transition_session :: "sub_session \<Rightarrow> session_status \<Rightarrow> int \<Rightarrow> sub_session option" where
  "transition_session s t now =
    (if \<not> can_transition (su_status s) t then None
     else Some (s\<lparr>su_status := t,
       su_startedAt := (if t = SS_running \<and> su_startedAt s = None then Some now else su_startedAt s),
       su_finishedAt := (if replayable t then Some now else su_finishedAt s)\<rparr>))"

record session_recovery =
  rd_subSessionId :: string
  rd_previousStatus :: session_status
  rd_nextStatus :: session_status
  rd_markFailed :: bool

definition classify_recovery :: "sub_session \<Rightarrow> session_recovery" where
  "classify_recovery s =
    (if replayable (su_status s)
     then \<lparr>rd_subSessionId = su_subSessionId s, rd_previousStatus = su_status s, rd_nextStatus = su_status s,
       rd_markFailed = False\<rparr>
     else \<lparr>rd_subSessionId = su_subSessionId s, rd_previousStatus = su_status s, rd_nextStatus = SS_failed,
       rd_markFailed = True\<rparr>)"

text \<open>Decisions, updated sub-sessions and labels; the \<open>k\<close>-th update reads the clock.\<close>

fun recover_sessions ::
  "(nat \<Rightarrow> int) \<Rightarrow> nat \<Rightarrow> sub_session list \<Rightarrow> session_recovery list \<times> sub_session list \<times> (string \<times> string) list" where
  "recover_sessions clock k [] = ([], [], [])"
| "recover_sessions clock k (s # ss) =
    (let d = classify_recovery s in
     if \<not> rd_markFailed d then let (ds, us, ls) = recover_sessions clock k ss in (d # ds, us, ls)
     else let u = s\<lparr>su_status := rd_nextStatus d, su_finishedAt := Some (clock k)\<rparr>;
            (ds, us, ls) = recover_sessions clock (Suc k) ss
       in (d # ds, u # us, (su_parentRunId u, ''sub_session_recovered_degraded:'' @ su_subSessionId u) # ls))"

section \<open>Work items and locks\<close>

datatype lock_mode = LM_shared | LM_exclusive

fun lock_mode_text :: "lock_mode \<Rightarrow> string" where
  "lock_mode_text LM_shared = ''shared''"
| "lock_mode_text LM_exclusive = ''exclusive''"

record resource_lock =
  rk_kind :: string
  rk_target :: string
  rk_mode :: lock_mode

record work_item =
  wi_taskId :: string
  wi_subSessionId :: string
  wi_agentId :: "string option"
  wi_toolNames :: "string list"
  wi_mcpServerIds :: "string list"
  wi_estimatedCost :: "jsnum option"
  wi_estimatedDurationMs :: "jsnum option"
  wi_resourceLocks :: "resource_lock list"
  wi_dependencies :: "string list"

record dependency_edge =
  dg_fromTaskId :: string
  dg_toTaskId :: string

type_synonym lock_holders = "(string, (string \<times> resource_lock) list) jsmap"

definition lock_key :: "resource_lock \<Rightarrow> string" where
  "lock_key l = rk_kind l @ '':'' @ rk_target l"

definition lock_conflicts :: "lock_holders \<Rightarrow> resource_lock list \<Rightarrow> resource_lock list" where
  "lock_conflicts holders locks =
    concat (map (\<lambda>l. map snd (filter (\<lambda>h. rk_mode (snd h) = LM_exclusive \<or> rk_mode l = LM_exclusive)
      (js_lookup holders (lock_key l) []))) locks)"

definition acquire_locks :: "string \<Rightarrow> resource_lock list \<Rightarrow> lock_holders \<Rightarrow> resource_lock list \<times> lock_holders" where
  "acquire_locks holderId locks holders =
    (let conflicts = lock_conflicts holders locks in
     (conflicts,
      if conflicts \<noteq> [] then holders
      else fold (\<lambda>l m. AList.update (lock_key l) (js_lookup m (lock_key l) [] @ [(holderId, l)]) m) locks holders))"

definition release_locks :: "string \<Rightarrow> lock_holders \<Rightarrow> lock_holders" where
  "release_locks holderId holders =
    filter (\<lambda>kv. snd kv \<noteq> []) (map (\<lambda>(k, hs). (k, filter (\<lambda>h. fst h \<noteq> holderId) hs)) holders)"

section \<open>Concurrency limits\<close>

record concurrency_limits =
  cl_agents :: "(string, jsnum) jsmap"
  cl_tools :: "(string, jsnum) jsmap"
  cl_mcpServers :: "(string, jsnum) jsmap"
  cl_defaultAgent :: "jsnum option"
  cl_defaultTool :: "jsnum option"
  cl_defaultMcpServer :: "jsnum option"

record wave_counts =
  wc_agents :: "(string, nat) jsmap"
  wc_tools :: "(string, nat) jsmap"
  wc_mcpServers :: "(string, nat) jsmap"

definition no_counts :: wave_counts where
  "no_counts = \<lparr>wc_agents = [], wc_tools = [], wc_mcpServers = []\<rparr>"

fun normalized_positive_limit :: "jsnum option \<Rightarrow> nat option" where
  "normalized_positive_limit (Some (Fin x)) = (if x \<le> 0 then None else Some (nat \<lfloor>x\<rfloor>))"
| "normalized_positive_limit _ = None"

definition limit_for :: "(string, jsnum) jsmap \<Rightarrow> jsnum option \<Rightarrow> string \<Rightarrow> nat option" where
  "limit_for explicit def key =
    normalized_positive_limit (case map_of explicit key of Some l \<Rightarrow> Some l | None \<Rightarrow> def)"

definition limit_exceeded :: "(string, nat) jsmap \<Rightarrow> (string, jsnum) jsmap \<Rightarrow> jsnum option \<Rightarrow> string \<Rightarrow> bool" where
  "limit_exceeded counts explicit def key =
    (case limit_for explicit def key of None \<Rightarrow> False | Some l \<Rightarrow> l \<le> js_lookup counts key 0)"

definition add_count :: "string \<Rightarrow> (string, nat) jsmap \<Rightarrow> (string, nat) jsmap" where
  "add_count key counts = AList.update key (js_lookup counts key 0 + 1) counts"

text \<open>The agent of an item when it counts: not absent and not empty.\<close>

definition agent_keys :: "work_item \<Rightarrow> string list" where
  "agent_keys item = (case wi_agentId item of Some a \<Rightarrow> if a = [] then [] else [a] | None \<Rightarrow> [])"

definition unique_values :: "string list \<Rightarrow> string list" where
  "unique_values vs = uniq (filter non_blank vs)"

definition concurrency_reasons :: "concurrency_limits \<Rightarrow> wave_counts \<Rightarrow> work_item \<Rightarrow> string list" where
  "concurrency_reasons cl wc item =
    (if \<exists>a \<in> set (agent_keys item). limit_exceeded (wc_agents wc) (cl_agents cl) (cl_defaultAgent cl) a
     then [''agent_concurrency_limit''] else [])
    @ (if \<exists>t \<in> set (unique_values (wi_toolNames item)). limit_exceeded (wc_tools wc) (cl_tools cl) (cl_defaultTool cl) t
       then [''tool_concurrency_limit''] else [])
    @ (if \<exists>m \<in> set (unique_values (wi_mcpServerIds item)).
         limit_exceeded (wc_mcpServers wc) (cl_mcpServers cl) (cl_defaultMcpServer cl) m
       then [''mcp_concurrency_limit''] else [])"

definition reserve_concurrency :: "work_item \<Rightarrow> wave_counts \<Rightarrow> wave_counts" where
  "reserve_concurrency item wc =
    \<lparr>wc_agents = fold add_count (agent_keys item) (wc_agents wc),
     wc_tools = fold add_count (unique_values (wi_toolNames item)) (wc_tools wc),
     wc_mcpServers = fold add_count (unique_values (wi_mcpServerIds item)) (wc_mcpServers wc)\<rparr>"

section \<open>One wave\<close>

type_synonym deferred_reasons = "(string, string list) jsmap"

definition remember_deferred :: "string \<Rightarrow> string list \<Rightarrow> deferred_reasons \<Rightarrow> deferred_reasons" where
  "remember_deferred taskId reasons m =
    AList.update taskId (fold (\<lambda>r rs. add_unique rs r) reasons (js_lookup m taskId [])) m"

record wave_state =
  ws_items :: "work_item list"
  ws_locks :: lock_holders
  ws_counts :: wave_counts
  ws_deferred :: deferred_reasons

text \<open>\<open>waveItems.length >= limit\<close>, the limit a number\<close>

fun reached :: "nat \<Rightarrow> jsnum \<Rightarrow> bool" where
  "reached n (Fin x) \<longleftrightarrow> x \<le> of_nat n"
| "reached n NegInf \<longleftrightarrow> True"
| "reached n _ \<longleftrightarrow> False"

fun max_one :: "jsnum \<Rightarrow> jsnum" where
  "max_one (Fin x) = Fin (max 1 x)"
| "max_one NegInf = Fin 1"
| "max_one n = n"

definition admit_item :: "concurrency_limits \<Rightarrow> jsnum \<Rightarrow> work_item \<Rightarrow> wave_state \<Rightarrow> wave_state" where
  "admit_item cl limit item ws =
    (if reached (length (ws_items ws)) limit
     then ws\<lparr>ws_deferred := remember_deferred (wi_taskId item) [''concurrency_limit''] (ws_deferred ws)\<rparr>
     else let reasons = concurrency_reasons cl (ws_counts ws) item in
       if reasons \<noteq> [] then ws\<lparr>ws_deferred := remember_deferred (wi_taskId item) reasons (ws_deferred ws)\<rparr>
       else let (conflicts, locks) = acquire_locks (wi_taskId item) (wi_resourceLocks item) (ws_locks ws) in
         if conflicts \<noteq> []
         then ws\<lparr>ws_deferred := remember_deferred (wi_taskId item) [''resource_lock''] (ws_deferred ws)\<rparr>
         else ws\<lparr>ws_items := ws_items ws @ [item], ws_locks := locks,
           ws_counts := reserve_concurrency item (ws_counts ws)\<rparr>)"

definition admit_wave :: "concurrency_limits \<Rightarrow> jsnum \<Rightarrow> work_item list \<Rightarrow> deferred_reasons \<Rightarrow> wave_state" where
  "admit_wave cl limit candidates deferred =
    fold (admit_item cl limit) candidates
      \<lparr>ws_items = [], ws_locks = [], ws_counts = no_counts, ws_deferred = deferred\<rparr>"

section \<open>The plan\<close>

record execution_wave =
  ew_waveIndex :: nat
  ew_items :: "work_item list"
  ew_reasonCodes :: "string list"
  ew_waitReasonCodesByTask :: "(string, string list) jsmap"

definition dependency_map :: "work_item list \<Rightarrow> dependency_edge list \<Rightarrow> (string, string list) jsmap" where
  "dependency_map items edges =
    fold (\<lambda>e m. AList.update (dg_toTaskId e) (add_unique (js_lookup m (dg_toTaskId e) []) (dg_fromTaskId e)) m) edges
      (index_by wi_taskId (\<lambda>i. uniq (wi_dependencies i)) items)"

definition ready :: "(string, string list) jsmap \<Rightarrow> string list \<Rightarrow> work_item \<Rightarrow> bool" where
  "ready deps completed item \<longleftrightarrow> (\<forall>d \<in> set (js_lookup deps (wi_taskId item) []). d \<in> set completed)"

definition by_task :: "work_item list \<Rightarrow> string list \<Rightarrow> work_item list" where
  "by_task items pending = List.map_filter (map_of (index_by wi_taskId id items)) pending"

definition wave_items :: "concurrency_limits \<Rightarrow> jsnum \<Rightarrow> (string, string list) jsmap \<Rightarrow> work_item list
    \<Rightarrow> string list \<Rightarrow> string list \<Rightarrow> deferred_reasons \<Rightarrow> work_item list \<times> deferred_reasons" where
  "wave_items cl limit deps items pending completed deferred =
    (let ws = admit_wave cl limit (filter (ready deps completed) (by_task items pending)) deferred in
     (if ws_items ws \<noteq> [] then ws_items ws else take 1 (by_task items pending), ws_deferred ws))"

definition make_wave :: "nat \<Rightarrow> work_item list \<Rightarrow> deferred_reasons \<Rightarrow> execution_wave" where
  "make_wave n its deferred =
    \<lparr>ew_waveIndex = n, ew_items = its,
     ew_reasonCodes = (if length its > 1 then [''parallel_sub_sessions''] else [''sequential_or_blocked_sub_session'']),
     ew_waitReasonCodesByTask = index_by fst snd (List.map_filter
       (\<lambda>i. case map_of deferred (wi_taskId i) of Some (r # rs) \<Rightarrow> Some (wi_taskId i, r # rs) | _ \<Rightarrow> None) its)\<rparr>"

lemma admit_item_items: "set (ws_items (admit_item cl limit item ws)) \<subseteq> insert item (set (ws_items ws))"
  by (auto simp: admit_item_def Let_def split: prod.splits)

lemma admit_wave_items: "set (ws_items (admit_wave cl limit cs deferred)) \<subseteq> set cs"
proof -
  have "set (ws_items (fold (admit_item cl limit) cs ws)) \<subseteq> set cs \<union> set (ws_items ws)" for ws
    by (induction cs arbitrary: ws) (use admit_item_items in \<open>fastforce\<close>)+
  then show ?thesis unfolding admit_wave_def by fastforce
qed

lemma in_map_filter: "y \<in> set (List.map_filter f xs) \<longleftrightarrow> (\<exists>x \<in> set xs. f x = Some y)"
  by (induction xs) (auto simp: List.map_filter_simps split: option.splits)

lemma by_task_ids: "i \<in> set (by_task items pending) \<Longrightarrow> i \<in> set items \<and> wi_taskId i \<in> set pending"
  unfolding by_task_def in_map_filter by (auto dest!: index_by_Some)

lemma wave_items_sub: "set (fst (wave_items cl limit deps items pending completed deferred)) \<subseteq> set (by_task items pending)"
  using admit_wave_items[of cl limit "filter (ready deps completed) (by_task items pending)" deferred]
  by (auto simp: wave_items_def Let_def dest: in_set_takeD)

function plan_loop :: "concurrency_limits \<Rightarrow> jsnum \<Rightarrow> (string, string list) jsmap \<Rightarrow> work_item list
    \<Rightarrow> string list \<Rightarrow> string list \<Rightarrow> deferred_reasons \<Rightarrow> nat \<Rightarrow> execution_wave list" where
  "plan_loop cl limit deps items pending completed deferred n =
    (let (its, deferred') = wave_items cl limit deps items pending completed deferred in
     if its = [] then []
     else make_wave n its deferred' # plan_loop cl limit deps items
       (filter (\<lambda>t. t \<notin> wi_taskId ` set its) pending) (fold (\<lambda>i c. add_unique c (wi_taskId i)) its completed)
       (filter (\<lambda>kv. fst kv \<notin> wi_taskId ` set its) deferred') (n + 1))"
  by pat_completeness auto
termination
proof (relation "measure (\<lambda>(_, _, _, _, pending, _). length pending)", goal_cases)
  case (2 cl limit deps items pending completed deferred n r its deferred')
  then have "hd its \<in> set (by_task items pending)"
    using wave_items_sub[of cl limit deps items pending completed deferred] by (cases its) (auto dest: sym)
  then have "wi_taskId (hd its) \<in> set pending" "wi_taskId (hd its) \<in> wi_taskId ` set its"
    using 2 by_task_ids by auto
  then show ?case by (auto intro!: length_filter_less)
qed simp

declare plan_loop.simps [simp del]

definition plan_execution_waves ::
  "work_item list \<Rightarrow> dependency_edge list \<Rightarrow> jsnum option \<Rightarrow> concurrency_limits \<Rightarrow> execution_wave list" where
  "plan_execution_waves items edges limit cl =
    plan_loop cl (max_one (opt_or limit (Fin (of_nat (length items))))) (dependency_map items edges) items
      (uniq (map wi_taskId items)) [] [] 0"

text \<open>The plan of an orchestration: the edges of the plan and of the first group that holds one of the items.\<close>

record parallel_group =
  pg_groupId :: string
  pg_subSessionIds :: "string list"
  pg_dependencyEdges :: "dependency_edge list"
  pg_concurrencyLimit :: jsnum

definition plan_orchestration_waves ::
  "dependency_edge list \<Rightarrow> parallel_group list \<Rightarrow> work_item list \<Rightarrow> concurrency_limits \<Rightarrow> execution_wave list" where
  "plan_orchestration_waves edges groups items cl =
    (case find (\<lambda>g. \<exists>i \<in> set items. wi_subSessionId i \<in> set (pg_subSessionIds g)) groups of
       None \<Rightarrow> plan_execution_waves items edges None cl
     | Some g \<Rightarrow> plan_execution_waves items (edges @ pg_dependencyEdges g) (Some (pg_concurrencyLimit g)) cl)"

section \<open>Budget\<close>

record session_budget =
  bu_maxChildren :: "jsnum option"
  bu_maxEstimatedCost :: "jsnum option"
  bu_maxEstimatedDurationMs :: "jsnum option"

record budget_totals =
  bt_childCount :: nat
  bt_estimatedCost :: rat
  bt_estimatedDurationMs :: rat

record skipped_item =
  sk_taskId :: string
  sk_subSessionId :: string
  sk_reasonCode :: string

datatype budget_status = BS_ok | BS_shrunk | BS_blocked

fun budget_status_text :: "budget_status \<Rightarrow> string" where
  "budget_status_text BS_ok = ''ok''"
| "budget_status_text BS_shrunk = ''shrunk''"
| "budget_status_text BS_blocked = ''blocked''"

record budget_decision =
  bd_status :: budget_status
  bd_reasonCodes :: "string list"
  bd_selectedTaskIds :: "string list"
  bd_skipped :: "skipped_item list"
  bd_totals :: budget_totals

fun numeric_estimate :: "jsnum option \<Rightarrow> rat" where
  "numeric_estimate (Some (Fin x)) = (if 0 < x then x else 0)"
| "numeric_estimate _ = 0"

fun positive_budget_value :: "jsnum option \<Rightarrow> rat option" where
  "positive_budget_value (Some (Fin x)) = (if x < 0 then None else Some x)"
| "positive_budget_value _ = None"

definition over :: "rat \<Rightarrow> rat option \<Rightarrow> bool" where
  "over x m \<longleftrightarrow> (case m of None \<Rightarrow> False | Some b \<Rightarrow> b < x)"

definition budget_exceeded_reason :: "session_budget option \<Rightarrow> budget_totals \<Rightarrow> work_item \<Rightarrow> string option" where
  "budget_exceeded_reason budget t item =
    (case budget of
       None \<Rightarrow> None
     | Some b \<Rightarrow>
         if (case normalized_positive_limit (bu_maxChildren b) of None \<Rightarrow> False | Some m \<Rightarrow> m \<le> bt_childCount t)
         then Some ''max_child_budget_exceeded''
         else if over (bt_estimatedCost t + numeric_estimate (wi_estimatedCost item))
             (positive_budget_value (bu_maxEstimatedCost b))
         then Some ''cost_budget_exceeded''
         else if over (bt_estimatedDurationMs t + numeric_estimate (wi_estimatedDurationMs item))
             (positive_budget_value (bu_maxEstimatedDurationMs b))
         then Some ''time_budget_exceeded''
         else None)"

definition add_totals :: "work_item \<Rightarrow> budget_totals \<Rightarrow> budget_totals" where
  "add_totals item t =
    \<lparr>bt_childCount = bt_childCount t + 1,
     bt_estimatedCost = bt_estimatedCost t + numeric_estimate (wi_estimatedCost item),
     bt_estimatedDurationMs = bt_estimatedDurationMs t + numeric_estimate (wi_estimatedDurationMs item)\<rparr>"

definition skip :: "string \<Rightarrow> work_item \<Rightarrow> skipped_item" where
  "skip reason item = \<lparr>sk_taskId = wi_taskId item, sk_subSessionId = wi_subSessionId item, sk_reasonCode = reason\<rparr>"

fun select_items ::
  "session_budget option \<Rightarrow> budget_totals \<Rightarrow> work_item list \<Rightarrow> work_item list \<times> skipped_item list \<times> budget_totals" where
  "select_items budget t [] = ([], [], t)"
| "select_items budget t (item # items) =
    (case budget_exceeded_reason budget t item of
       Some reason \<Rightarrow> let (sel, sk, t') = select_items budget t items in (sel, skip reason item # sk, t')
     | None \<Rightarrow> let (sel, sk, t') = select_items budget (add_totals item t) items in (item # sel, sk, t'))"

definition no_totals :: budget_totals where
  "no_totals = \<lparr>bt_childCount = 0, bt_estimatedCost = 0, bt_estimatedDurationMs = 0\<rparr>"

definition apply_session_budget :: "work_item list \<Rightarrow> session_budget option \<Rightarrow> work_item list \<times> budget_decision" where
  "apply_session_budget items budget =
    (let (sel, sk, t) = select_items budget no_totals items in
     (sel, \<lparr>bd_status = (if sk = [] then BS_ok else if sel \<noteq> [] then BS_shrunk else BS_blocked),
       bd_reasonCodes = uniq (map sk_reasonCode sk), bd_selectedTaskIds = map wi_taskId sel,
       bd_skipped = sk, bd_totals = t\<rparr>))"

section \<open>Running a group\<close>

record run_outcome =
  ro_status :: session_status
  ro_payload :: json

datatype run_result = Fulfilled run_outcome | Rejected

record group_options =
  go_runId :: "string option"
  go_lockWaitTimeoutMs :: "jsnum option"
  go_budget :: "session_budget option"
  go_concurrency :: concurrency_limits

text \<open>\<open>calls\<close> are the batches of items whose \<open>run\<close> was called together.\<close>

record group_state =
  gs_outcomes :: "run_outcome list"
  gs_skipped :: "skipped_item list"
  gs_completed :: "string list"
  gs_blocked :: "string list"
  gs_skippedIds :: "string list"
  gs_labels :: "string list"
  gs_calls :: "work_item list list"

definition append_label :: "group_options \<Rightarrow> string \<Rightarrow> group_state \<Rightarrow> group_state" where
  "append_label opts label gs =
    (case go_runId opts of Some r \<Rightarrow> if r = [] then gs else gs\<lparr>gs_labels := gs_labels gs @ [label]\<rparr> | None \<Rightarrow> gs)"

definition lock_summary :: "resource_lock list \<Rightarrow> string" where
  "lock_summary locks =
    join ''|'' (map (\<lambda>l. rk_kind l @ '':'' @ rk_target l @ '':'' @ lock_mode_text (rk_mode l)) locks)"

definition run_dependencies :: "dependency_edge list \<Rightarrow> work_item \<Rightarrow> string list" where
  "run_dependencies edges item =
    uniq (wi_dependencies item @ map dg_fromTaskId (filter (\<lambda>e. dg_toTaskId e = wi_taskId item) edges))"

text \<open>\<open>wave.items.filter\<close>, which skips and blocks the items whose dependencies are not completed.\<close>

fun dependency_ready :: "dependency_edge list \<Rightarrow> work_item list \<Rightarrow> group_state \<Rightarrow> work_item list \<times> group_state" where
  "dependency_ready edges [] gs = ([], gs)"
| "dependency_ready edges (item # items) gs =
    (if wi_taskId item \<in> set (gs_skippedIds gs) then dependency_ready edges items gs
     else if \<exists>d \<in> set (run_dependencies edges item). d \<in> set (gs_blocked gs) \<or> d \<notin> set (gs_completed gs)
     then dependency_ready edges items
       (gs\<lparr>gs_skipped := gs_skipped gs @ [skip ''dependency_not_completed'' item],
           gs_blocked := add_unique (gs_blocked gs) (wi_taskId item)\<rparr>)
     else let (rest, gs') = dependency_ready edges items gs in (item # rest, gs'))"

definition wait_exceeds :: "int \<Rightarrow> jsnum option \<Rightarrow> bool" where
  "wait_exceeds ms timeout = (case timeout of Some (Fin x) \<Rightarrow> x < of_int ms | Some NegInf \<Rightarrow> True | _ \<Rightarrow> False)"

definition wait_reasons :: "execution_wave \<Rightarrow> work_item \<Rightarrow> string list" where
  "wait_reasons w item = js_lookup (ew_waitReasonCodesByTask w) (wi_taskId item) []"

fun lock_waits ::
  "string \<Rightarrow> group_options \<Rightarrow> execution_wave \<Rightarrow> int \<Rightarrow> work_item list \<Rightarrow> group_state \<Rightarrow> work_item list \<times> group_state" where
  "lock_waits groupId opts w waitMs [] gs = ([], gs)"
| "lock_waits groupId opts w waitMs (item # items) gs =
    (if ''resource_lock'' \<in> set (wait_reasons w item) then
       let gs1 = append_label opts (''sub_session_lock_wait:'' @ groupId @ '':'' @ wi_taskId item @ '':'' @ show_int waitMs
             @ ''ms:'' @ join ''+'' (wait_reasons w item)) gs
       in if wait_exceeds waitMs (go_lockWaitTimeoutMs opts) then
            lock_waits groupId opts w waitMs items
              (append_label opts (''sub_session_lock_timeout:'' @ groupId @ '':'' @ wi_taskId item @ '':'' @ show_int waitMs @ ''ms'')
                (gs1\<lparr>gs_skipped := gs_skipped gs1 @ [skip ''resource_lock_timeout'' item],
                     gs_skippedIds := add_unique (gs_skippedIds gs1) (wi_taskId item),
                     gs_blocked := add_unique (gs_blocked gs1) (wi_taskId item)\<rparr>))
          else let (rest, gs') = lock_waits groupId opts w waitMs items gs1 in (item # rest, gs')
     else let (rest, gs') = lock_waits groupId opts w waitMs items gs in (item # rest, gs'))"

definition lock_labels :: "string \<Rightarrow> string \<Rightarrow> group_options \<Rightarrow> work_item list \<Rightarrow> group_state \<Rightarrow> group_state" where
  "lock_labels verb groupId opts items gs =
    fold (\<lambda>item g. if wi_resourceLocks item = [] then g
      else append_label opts (''sub_session_lock_'' @ verb @ '':'' @ groupId @ '':'' @ wi_taskId item @ '':''
        @ lock_summary (wi_resourceLocks item)) g) items gs"

definition settle :: "work_item \<times> run_result \<Rightarrow> group_state \<Rightarrow> group_state" where
  "settle ir gs =
    (case snd ir of
       Fulfilled r \<Rightarrow>
         let gs1 = gs\<lparr>gs_outcomes := gs_outcomes gs @ [r]\<rparr> in
         if ro_status r = SS_completed then gs1\<lparr>gs_completed := add_unique (gs_completed gs1) (wi_taskId (fst ir))\<rparr>
         else gs1\<lparr>gs_blocked := add_unique (gs_blocked gs1) (wi_taskId (fst ir))\<rparr>
     | Rejected \<Rightarrow> gs\<lparr>gs_blocked := add_unique (gs_blocked gs) (wi_taskId (fst ir))\<rparr>)"

text \<open>\<open>Promise.allSettled\<close> waits for every run: nothing when one of them never settles.\<close>

definition call_items :: "(work_item \<Rightarrow> run_result option) \<Rightarrow> work_item list \<Rightarrow> group_state \<Rightarrow> group_state option" where
  "call_items run items gs =
    (if \<exists>i \<in> set items. run i = None then None
     else Some (fold settle (map (\<lambda>i. (i, the (run i))) items) (gs\<lparr>gs_calls := gs_calls gs @ [items]\<rparr>)))"

definition skip_remaining :: "string \<Rightarrow> group_options \<Rightarrow> execution_wave list \<Rightarrow> group_state \<Rightarrow> group_state" where
  "skip_remaining groupId opts waves gs =
    append_label opts (''sub_session_group_cancelled:'' @ groupId @ '':parent_run_cancelled'')
      (fold (\<lambda>item g.
          if wi_taskId item \<in> set (gs_completed g) \<union> set (gs_blocked g) \<union> set (gs_skippedIds g) then g
          else g\<lparr>gs_skipped := gs_skipped g @ [skip ''parent_run_cancelled'' item],
                 gs_skippedIds := add_unique (gs_skippedIds g) (wi_taskId item),
                 gs_blocked := add_unique (gs_blocked g) (wi_taskId item)\<rparr>)
        (concat (map ew_items waves)) gs)"

definition run_wave :: "(work_item \<Rightarrow> run_result option) \<Rightarrow> string \<Rightarrow> dependency_edge list \<Rightarrow> group_options
    \<Rightarrow> int \<Rightarrow> execution_wave \<Rightarrow> group_state \<Rightarrow> group_state option" where
  "run_wave run groupId edges opts waitMs w gs =
    (let (rdy, gs1) = dependency_ready edges (ew_items w) gs;
         (runnable, gs2) = lock_waits groupId opts w waitMs rdy gs1
     in map_option (lock_labels ''released'' groupId opts runnable)
          (call_items run runnable (lock_labels ''acquired'' groupId opts runnable gs2)))"

fun run_waves :: "(work_item \<Rightarrow> run_result option) \<Rightarrow> string \<Rightarrow> dependency_edge list \<Rightarrow> group_options \<Rightarrow> (nat \<Rightarrow> int)
    \<Rightarrow> (nat \<Rightarrow> bool) \<Rightarrow> execution_wave list \<Rightarrow> nat \<Rightarrow> execution_wave list \<Rightarrow> group_state \<Rightarrow> group_state option" where
  "run_waves run groupId edges opts clock cancelled all k [] gs = Some gs"
| "run_waves run groupId edges opts clock cancelled all k (w # ws) gs =
    (if cancelled k then Some (skip_remaining groupId opts all gs)
     else case run_wave run groupId edges opts (max 0 (clock (Suc k) - clock 0)) w gs of
       None \<Rightarrow> None
     | Some gs' \<Rightarrow> run_waves run groupId edges opts clock cancelled all (Suc k) ws gs')"

datatype group_status = GR_completed | GR_failed | GR_blocked

definition is_blocking_skip :: "string \<Rightarrow> bool" where
  "is_blocking_skip reason \<longleftrightarrow> reason \<in> {''max_child_budget_exceeded'', ''cost_budget_exceeded'',
    ''time_budget_exceeded'', ''resource_lock_timeout'', ''parent_run_cancelled''}"

definition resolve_group_status :: "run_outcome list \<Rightarrow> skipped_item list \<Rightarrow> budget_decision \<Rightarrow> group_status" where
  "resolve_group_status outcomes skipped budget =
    (if bd_status budget = BS_blocked then GR_blocked
     else if \<exists>r \<in> set outcomes. ro_status r \<noteq> SS_completed then GR_failed
     else if \<exists>s \<in> set skipped. is_blocking_skip (sk_reasonCode s) then GR_blocked
     else if skipped \<noteq> [] then GR_failed else GR_completed)"

record group_result =
  gp_groupId :: string
  gp_status :: group_status
  gp_waves :: "execution_wave list"
  gp_outcomes :: "run_outcome list"
  gp_skipped :: "skipped_item list"
  gp_budget :: budget_decision

definition deferred_summary :: "string \<Rightarrow> execution_wave list \<Rightarrow> string option" where
  "deferred_summary groupId waves =
    (let entries = concat (map (\<lambda>w. List.map_filter (\<lambda>i. if wait_reasons w i = [] then None
         else Some (wi_taskId i @ ''('' @ join ''+'' (wait_reasons w i) @ '')'')) (ew_items w)) waves)
     in if entries = [] then None else Some (''sub_session_waiting:'' @ groupId @ '':'' @ join '', '' entries))"

definition start_group :: "parallel_group \<Rightarrow> group_options \<Rightarrow> execution_wave list \<Rightarrow> budget_decision \<Rightarrow> group_state" where
  "start_group g opts waves bd =
    (let gs0 = \<lparr>gs_outcomes = [], gs_skipped = bd_skipped bd, gs_completed = [], gs_blocked = [],
           gs_skippedIds = uniq (map sk_taskId (bd_skipped bd)), gs_labels = [], gs_calls = []\<rparr>;
         gs1 = (case deferred_summary (pg_groupId g) waves of Some l \<Rightarrow> append_label opts l gs0 | None \<Rightarrow> gs0)
     in if bd_status bd = BS_ok then gs1
        else append_label opts (''sub_session_budget_'' @ budget_status_text (bd_status bd) @ '':'' @ pg_groupId g @ '':''
          @ join ''+'' (bd_reasonCodes bd)) gs1)"

text \<open>The result, the labels of the parent run and the calls.\<close>

definition run_group :: "(work_item \<Rightarrow> run_result option) \<Rightarrow> parallel_group \<Rightarrow> work_item list \<Rightarrow> group_options
    \<Rightarrow> (nat \<Rightarrow> int) \<Rightarrow> (nat \<Rightarrow> bool) \<Rightarrow> (group_result \<times> string list \<times> work_item list list) option" where
  "run_group run g items opts clock cancelled =
    (let (selected, bd) = apply_session_budget items (go_budget opts);
         waves = plan_execution_waves selected (pg_dependencyEdges g) (Some (pg_concurrencyLimit g)) (go_concurrency opts);
         gs = start_group g opts waves bd
     in if selected = [] then
          Some (\<lparr>gp_groupId = pg_groupId g, gp_status = GR_blocked, gp_waves = [], gp_outcomes = [],
            gp_skipped = gs_skipped gs, gp_budget = bd\<rparr>, gs_labels gs, [])
        else map_option (\<lambda>gs'.
            (\<lparr>gp_groupId = pg_groupId g,
              gp_status = resolve_group_status (gs_outcomes gs') (gs_skipped gs') bd, gp_waves = waves,
              gp_outcomes = gs_outcomes gs', gp_skipped = gs_skipped gs', gp_budget = bd\<rparr>,
             gs_labels gs', gs_calls gs'))
          (run_waves run (pg_groupId g) (pg_dependencyEdges g) opts clock cancelled waves 0 waves gs))"

section \<open>Every task in one wave\<close>

lemma by_task_map: "map wi_taskId (by_task items pending) = filter (\<lambda>t. t \<in> wi_taskId ` set items) pending"
proof (induction pending)
  case (Cons t ts)
  show ?case
  proof (cases "map_of (index_by wi_taskId id items) t")
    case None
    then have "t \<notin> wi_taskId ` set items" by (simp add: index_by_None)
    then show ?thesis using Cons None by (simp add: by_task_def List.map_filter_simps)
  next
    case (Some i)
    then have "wi_taskId i = t" "i \<in> set items" by (auto dest!: index_by_Some)
    then show ?thesis using Cons Some by (auto simp: by_task_def List.map_filter_simps)
  qed
qed (simp add: by_task_def List.map_filter_simps)

lemma admit_item_distinct:
  "distinct (map wi_taskId (ws_items ws)) \<Longrightarrow> wi_taskId item \<notin> wi_taskId ` set (ws_items ws) \<Longrightarrow>
    distinct (map wi_taskId (ws_items (admit_item cl limit item ws)))"
  by (auto simp: admit_item_def Let_def split: prod.splits)

lemma disjoint_insert: "A \<subseteq> insert c B \<Longrightarrow> c \<notin> C \<Longrightarrow> C \<inter> B = {} \<Longrightarrow> C \<inter> A = {}"
  by blast

lemma admit_wave_distinct:
  assumes "distinct (map wi_taskId cs)"
  shows "distinct (map wi_taskId (ws_items (admit_wave cl limit cs deferred)))"
proof -
  have "distinct (map wi_taskId (ws_items ws)) \<Longrightarrow> wi_taskId ` set cs \<inter> wi_taskId ` set (ws_items ws) = {} \<Longrightarrow>
    distinct (map wi_taskId (ws_items (fold (admit_item cl limit) cs ws)))" for ws
    using assms
  proof (induction cs arbitrary: ws)
    case (Cons c cs)
    have "wi_taskId ` set cs \<inter> wi_taskId ` set (ws_items (admit_item cl limit c ws)) = {}"
    proof -
      have "wi_taskId ` set (ws_items (admit_item cl limit c ws)) \<subseteq> insert (wi_taskId c) (wi_taskId ` set (ws_items ws))"
        using admit_item_items[of cl limit c ws] by auto
      moreover have "wi_taskId c \<notin> wi_taskId ` set cs" using Cons.prems(3) by simp
      moreover have "wi_taskId ` set cs \<inter> wi_taskId ` set (ws_items ws) = {}" using Cons.prems(2) by auto
      ultimately show ?thesis by (rule disjoint_insert)
    qed
    moreover have "distinct (map wi_taskId (ws_items (admit_item cl limit c ws)))"
      by (rule admit_item_distinct) (use Cons.prems in auto)
    moreover have "distinct (map wi_taskId cs)" using Cons.prems(3) by simp
    ultimately show ?case using Cons.IH[of "admit_item cl limit c ws"] by simp
  qed simp
  then show ?thesis unfolding admit_wave_def by simp
qed

lemma wave_items_distinct:
  assumes "distinct pending"
  shows "distinct (map wi_taskId (fst (wave_items cl limit deps items pending completed deferred)))"
proof -
  have 1: "distinct (map wi_taskId (by_task items pending))" using assms by (simp add: by_task_map)
  then have "distinct (map wi_taskId (filter (ready deps completed) (by_task items pending)))"
    by (simp add: distinct_map_filter)
  then show ?thesis
    using 1 admit_wave_distinct by (auto simp: wave_items_def Let_def take_map[symmetric])
qed

lemma wave_items_Nil:
  assumes "set pending \<subseteq> wi_taskId ` set items"
  shows "fst (wave_items cl limit deps items pending completed deferred) = [] \<longleftrightarrow> pending = []"
proof -
  have "map wi_taskId (by_task items pending) = pending" using assms by (auto simp: by_task_map intro!: filter_True)
  then have "by_task items pending = [] \<longleftrightarrow> pending = []" by (metis list.map_disc_iff)
  moreover have "by_task items pending = [] \<Longrightarrow>
      ws_items (admit_wave cl limit (filter (ready deps completed) (by_task items pending)) deferred) = []"
    by (simp add: admit_wave_def)
  ultimately show ?thesis by (auto simp: wave_items_def Let_def)
qed

lemma plan_loop_tasks:
  assumes "distinct pending" "set pending \<subseteq> wi_taskId ` set items"
  shows "distinct (map wi_taskId (concat (map ew_items (plan_loop cl limit deps items pending completed deferred n))))
    \<and> wi_taskId ` set (concat (map ew_items (plan_loop cl limit deps items pending completed deferred n))) = set pending
    \<and> set (concat (map ew_items (plan_loop cl limit deps items pending completed deferred n))) \<subseteq> set items"
  using assms
proof (induction cl limit deps items pending completed deferred n rule: plan_loop.induct)
  case (1 cl limit deps items pending completed deferred n)
  obtain its deferred' where w: "wave_items cl limit deps items pending completed deferred = (its, deferred')"
    by fastforce
  have sub: "set its \<subseteq> set (by_task items pending)"
    using wave_items_sub[of cl limit deps items pending completed deferred] w by simp
  have dist: "distinct (map wi_taskId its)"
    using wave_items_distinct[OF "1.prems"(1), of cl limit deps items completed deferred] w by simp
  show ?case
  proof (cases "its = []")
    case True
    then have "pending = []" using wave_items_Nil[OF "1.prems"(2), of cl limit deps completed deferred] w by simp
    then show ?thesis using True w by (simp add: plan_loop.simps)
  next
    case False
    let ?pending = "filter (\<lambda>t. t \<notin> wi_taskId ` set its) pending"
    let ?rest = "plan_loop cl limit deps items ?pending
       (fold (\<lambda>i c. add_unique c (wi_taskId i)) its completed) (filter (\<lambda>kv. fst kv \<notin> wi_taskId ` set its) deferred') (n + 1)"
    have plan: "plan_loop cl limit deps items pending completed deferred n = make_wave n its deferred' # ?rest"
      using w False by (simp add: plan_loop.simps[of cl limit deps items pending])
    have IH: "distinct (map wi_taskId (concat (map ew_items ?rest)))
        \<and> wi_taskId ` set (concat (map ew_items ?rest)) = set ?pending \<and> set (concat (map ew_items ?rest)) \<subseteq> set items"
    proof (rule "1.IH"[OF w[symmetric] refl False])
      show "distinct ?pending" using "1.prems"(1) by simp
      show "set ?pending \<subseteq> wi_taskId ` set items" using "1.prems"(2) by auto
    qed
    define R where "R = concat (map ew_items ?rest)"
    have all: "concat (map ew_items (plan_loop cl limit deps items pending completed deferred n)) = its @ R"
      unfolding plan R_def by (simp add: make_wave_def)
    have "wi_taskId ` set its \<subseteq> set pending" "set its \<subseteq> set items" using sub by_task_ids by auto
    then show ?thesis using IH[folded R_def] dist unfolding all by auto
  qed
qed

lemma plan_tasks:
  "distinct (map wi_taskId (concat (map ew_items (plan_execution_waves items edges limit cl))))"
  "wi_taskId ` set (concat (map ew_items (plan_execution_waves items edges limit cl))) = wi_taskId ` set items"
  "set (concat (map ew_items (plan_execution_waves items edges limit cl))) \<subseteq> set items"
  unfolding plan_execution_waves_def
  using plan_loop_tasks[of "uniq (map wi_taskId items)" items] by auto

section \<open>What a wave respects\<close>

definition uses :: "(work_item \<Rightarrow> string list) \<Rightarrow> work_item list \<Rightarrow> string \<Rightarrow> nat" where
  "uses keys items t = length (filter (\<lambda>i. t \<in> set (keys i)) items)"

abbreviation tool_keys :: "work_item \<Rightarrow> string list" where
  "tool_keys i \<equiv> unique_values (wi_toolNames i)"

abbreviation server_keys :: "work_item \<Rightarrow> string list" where
  "server_keys i \<equiv> unique_values (wi_mcpServerIds i)"

definition keeps_limit :: "(work_item \<Rightarrow> string list) \<Rightarrow> (string \<Rightarrow> nat option) \<Rightarrow> work_item list \<Rightarrow> bool" where
  "keeps_limit keys limit items \<longleftrightarrow> (\<forall>t l. limit t = Some l \<longrightarrow> uses keys items t \<le> l)"

definition locks_agree :: "work_item \<Rightarrow> work_item \<Rightarrow> bool" where
  "locks_agree i j \<longleftrightarrow> (\<forall>l \<in> set (wi_resourceLocks i). \<forall>l' \<in> set (wi_resourceLocks j).
    lock_key l = lock_key l' \<longrightarrow> rk_mode l = LM_shared \<and> rk_mode l' = LM_shared)"

abbreviation agent_limit :: "concurrency_limits \<Rightarrow> string \<Rightarrow> nat option" where
  "agent_limit cl \<equiv> limit_for (cl_agents cl) (cl_defaultAgent cl)"

abbreviation tool_limit :: "concurrency_limits \<Rightarrow> string \<Rightarrow> nat option" where
  "tool_limit cl \<equiv> limit_for (cl_tools cl) (cl_defaultTool cl)"

abbreviation server_limit :: "concurrency_limits \<Rightarrow> string \<Rightarrow> nat option" where
  "server_limit cl \<equiv> limit_for (cl_mcpServers cl) (cl_defaultMcpServer cl)"

definition wave_fits :: "concurrency_limits \<Rightarrow> jsnum \<Rightarrow> work_item list \<Rightarrow> bool" where
  "wave_fits cl limit items \<longleftrightarrow>
    (items = [] \<or> \<not> reached (length items - 1) limit)
    \<and> keeps_limit agent_keys (agent_limit cl) items
    \<and> keeps_limit tool_keys (tool_limit cl) items
    \<and> keeps_limit server_keys (server_limit cl) items
    \<and> sorted_wrt locks_agree items"

lemma distinct_agent_keys [simp]: "distinct (agent_keys i)"
  by (simp add: agent_keys_def split: option.split)

lemma distinct_unique_values [simp]: "distinct (unique_values vs)"
  by (simp add: unique_values_def)

lemma lookup_add_count:
  "distinct ks \<Longrightarrow> js_lookup (fold add_count ks m) t 0 = js_lookup m t 0 + (if t \<in> set ks then 1 else 0)"
proof (induction ks arbitrary: m)
  case (Cons k ks)
  then show ?case by (auto simp: add_count_def js_lookup_def update_conv')
qed simp

text \<open>A key that is not exceeded has room for one more item.\<close>

lemma keeps_limit_snoc:
  assumes "keeps_limit keys (limit_for e d) items" "\<And>t. js_lookup counts t 0 = uses keys items t"
    and "\<And>t. t \<in> set (keys item) \<Longrightarrow> \<not> limit_exceeded counts e d t"
  shows "keeps_limit keys (limit_for e d) (items @ [item])"
  unfolding keeps_limit_def
proof (intro allI impI)
  fix t l
  assume l: "limit_for e d t = Some l"
  then have "uses keys items t \<le> l" using assms(1) by (simp add: keeps_limit_def)
  moreover have "uses keys items t < l" if "t \<in> set (keys item)"
    using assms(3)[OF that] l by (simp add: limit_exceeded_def assms(2))
  ultimately show "uses keys (items @ [item]) t \<le> l" by (auto simp: uses_def)
qed

lemma lookup_acquire:
  "set (js_lookup (fold (\<lambda>l m. AList.update (lock_key l) (js_lookup m (lock_key l) [] @ [(h, l)]) m) locks m) k [])
    = set (js_lookup m k []) \<union> {(h, l) | l. l \<in> set locks \<and> lock_key l = k}"
proof (induction locks arbitrary: m)
  case (Cons l ls)
  have "set (js_lookup (AList.update (lock_key l) (js_lookup m (lock_key l) [] @ [(h, l)]) m) k []) =
      set (js_lookup m k []) \<union> (if lock_key l = k then {(h, l)} else {})"
    by (auto simp: js_lookup_def update_conv' split: option.split)
  with Cons show ?case by auto
qed simp

lemma snd_pairs: "snd ` {(h, l) | l. P l} = {l. P l}"
  by force

definition wave_inv :: "concurrency_limits \<Rightarrow> jsnum \<Rightarrow> wave_state \<Rightarrow> bool" where
  "wave_inv cl limit ws \<longleftrightarrow> wave_fits cl limit (ws_items ws)
    \<and> (\<forall>t. js_lookup (wc_agents (ws_counts ws)) t 0 = uses agent_keys (ws_items ws) t)
    \<and> (\<forall>t. js_lookup (wc_tools (ws_counts ws)) t 0 = uses tool_keys (ws_items ws) t)
    \<and> (\<forall>t. js_lookup (wc_mcpServers (ws_counts ws)) t 0 = uses server_keys (ws_items ws) t)
    \<and> (\<forall>i \<in> set (ws_items ws). \<forall>l \<in> set (wi_resourceLocks i). l \<in> snd ` set (js_lookup (ws_locks ws) (lock_key l) []))"

lemma concurrency_reasons_Nil:
  "concurrency_reasons cl wc item = [] \<longleftrightarrow>
    (\<forall>t \<in> set (agent_keys item). \<not> limit_exceeded (wc_agents wc) (cl_agents cl) (cl_defaultAgent cl) t)
    \<and> (\<forall>t \<in> set (tool_keys item). \<not> limit_exceeded (wc_tools wc) (cl_tools cl) (cl_defaultTool cl) t)
    \<and> (\<forall>t \<in> set (server_keys item). \<not> limit_exceeded (wc_mcpServers wc) (cl_mcpServers cl) (cl_defaultMcpServer cl) t)"
  by (auto simp: concurrency_reasons_def)

lemma lock_conflicts_Nil:
  "lock_conflicts holders locks = [] \<longleftrightarrow>
    (\<forall>l \<in> set locks. \<forall>l' \<in> snd ` set (js_lookup holders (lock_key l) []). rk_mode l = LM_shared \<and> rk_mode l' = LM_shared)"
proof -
  have "m \<noteq> LM_exclusive \<longleftrightarrow> m = LM_shared" for m by (cases m) auto
  then show ?thesis by (auto simp: lock_conflicts_def filter_empty_conv)
qed

lemma uses_snoc: "uses keys (items @ [item]) t = uses keys items t + (if t \<in> set (keys item) then 1 else 0)"
  by (simp add: uses_def)

lemma wave_inv_admit:
  assumes inv: "wave_inv cl limit ws"
  shows "wave_inv cl limit (admit_item cl limit item ws)"
proof (cases "reached (length (ws_items ws)) limit \<or> concurrency_reasons cl (ws_counts ws) item \<noteq> []
    \<or> lock_conflicts (ws_locks ws) (wi_resourceLocks item) \<noteq> []")
  case True
  then show ?thesis using inv by (auto simp: admit_item_def wave_inv_def acquire_locks_def Let_def)
next
  case False
  have fits: "wave_fits cl limit (ws_items ws)"
    and agents: "\<And>t. js_lookup (wc_agents (ws_counts ws)) t 0 = uses agent_keys (ws_items ws) t"
    and tools: "\<And>t. js_lookup (wc_tools (ws_counts ws)) t 0 = uses tool_keys (ws_items ws) t"
    and servers: "\<And>t. js_lookup (wc_mcpServers (ws_counts ws)) t 0 = uses server_keys (ws_items ws) t"
    and held: "\<And>i l. i \<in> set (ws_items ws) \<Longrightarrow> l \<in> set (wi_resourceLocks i) \<Longrightarrow>
      l \<in> snd ` set (js_lookup (ws_locks ws) (lock_key l) [])"
    using inv by (simp_all add: wave_inv_def)
  note F = fits[unfolded wave_fits_def]
  let ?locks = "fold (\<lambda>l m. AList.update (lock_key l) (js_lookup m (lock_key l) [] @ [(wi_taskId item, l)]) m)
    (wi_resourceLocks item) (ws_locks ws)"
  have new: "admit_item cl limit item ws = ws\<lparr>ws_items := ws_items ws @ [item], ws_locks := ?locks,
      ws_counts := reserve_concurrency item (ws_counts ws)\<rparr>"
    using False by (simp add: admit_item_def acquire_locks_def Let_def)
  have room: "\<forall>t \<in> set (agent_keys item). \<not> limit_exceeded (wc_agents (ws_counts ws)) (cl_agents cl) (cl_defaultAgent cl) t"
    "\<forall>t \<in> set (tool_keys item). \<not> limit_exceeded (wc_tools (ws_counts ws)) (cl_tools cl) (cl_defaultTool cl) t"
    "\<forall>t \<in> set (server_keys item). \<not> limit_exceeded (wc_mcpServers (ws_counts ws)) (cl_mcpServers cl) (cl_defaultMcpServer cl) t"
    using False concurrency_reasons_Nil by blast+
  have agree: "\<forall>i \<in> set (ws_items ws). locks_agree i item"
  proof (intro ballI)
    fix i assume i: "i \<in> set (ws_items ws)"
    show "locks_agree i item"
      unfolding locks_agree_def
    proof (intro ballI impI)
      fix l l' assume l: "l \<in> set (wi_resourceLocks i)" "l' \<in> set (wi_resourceLocks item)" "lock_key l = lock_key l'"
      have "l \<in> snd ` set (js_lookup (ws_locks ws) (lock_key l') [])"
        using held[OF i l(1)] by (simp only: l(3))
      then show "rk_mode l = LM_shared \<and> rk_mode l' = LM_shared"
        using False l(2) lock_conflicts_Nil[of "ws_locks ws" "wi_resourceLocks item"] by blast
    qed
  qed
  have "keeps_limit agent_keys (agent_limit cl) (ws_items ws @ [item])"
    by (rule keeps_limit_snoc[where counts = "wc_agents (ws_counts ws)"]) (use F room(1) agents in simp_all)
  moreover have "keeps_limit tool_keys (tool_limit cl) (ws_items ws @ [item])"
    by (rule keeps_limit_snoc[where counts = "wc_tools (ws_counts ws)"]) (use F room(2) tools in simp_all)
  moreover have "keeps_limit server_keys (server_limit cl) (ws_items ws @ [item])"
    by (rule keeps_limit_snoc[where counts = "wc_mcpServers (ws_counts ws)"]) (use F room(3) servers in simp_all)
  ultimately have "wave_fits cl limit (ws_items ws @ [item])"
    using F False agree by (simp add: wave_fits_def sorted_wrt_append)
  moreover have "\<forall>i \<in> set (ws_items ws @ [item]). \<forall>l \<in> set (wi_resourceLocks i). l \<in> snd ` set (js_lookup ?locks (lock_key l) [])"
    using held by (auto simp: lookup_acquire image_Un snd_pairs)
  ultimately show ?thesis
    unfolding new wave_inv_def
    by (simp add: reserve_concurrency_def lookup_add_count uses_snoc agents tools servers)
qed

lemma wave_inv_start: "wave_inv cl limit \<lparr>ws_items = [], ws_locks = [], ws_counts = no_counts, ws_deferred = d\<rparr>"
  by (simp add: wave_inv_def wave_fits_def keeps_limit_def uses_def no_counts_def js_lookup_def)

lemma admit_wave_fits: "wave_fits cl limit (ws_items (admit_wave cl limit cs d))"
proof -
  have "wave_inv cl limit ws \<Longrightarrow> wave_inv cl limit (fold (admit_item cl limit) cs ws)" for ws
    by (induction cs arbitrary: ws) (auto intro: wave_inv_admit)
  then show ?thesis unfolding admit_wave_def using wave_inv_start wave_inv_def by blast
qed

section \<open>The plan is regular\<close>

text \<open>No concurrency limit rounds to nothing.\<close>

definition limits_allow_one :: "concurrency_limits \<Rightarrow> bool" where
  "limits_allow_one cl \<longleftrightarrow> (\<forall>t. agent_limit cl t \<noteq> Some 0 \<and> tool_limit cl t \<noteq> Some 0 \<and> server_limit cl t \<noteq> Some 0)"

lemma not_reached_max_one: "\<not> reached 0 (max_one n)"
  by (cases n) auto

lemma limit_exceeded_empty: "limit_for e d t \<noteq> Some 0 \<Longrightarrow> \<not> limit_exceeded [] e d t"
  by (auto simp: limit_exceeded_def js_lookup_def split: option.splits)

lemma admit_first:
  assumes "limits_allow_one cl"
  shows "ws_items (admit_item cl (max_one n) c \<lparr>ws_items = [], ws_locks = [], ws_counts = no_counts, ws_deferred = d\<rparr>) = [c]"
proof -
  have "concurrency_reasons cl no_counts c = []"
    using assms by (auto simp: concurrency_reasons_Nil no_counts_def limits_allow_one_def limit_exceeded_empty)
  moreover have "lock_conflicts [] (wi_resourceLocks c) = []" by (simp add: lock_conflicts_Nil js_lookup_def)
  ultimately show ?thesis by (simp add: admit_item_def acquire_locks_def Let_def not_reached_max_one)
qed

lemma admit_keeps: "ws_items ws \<noteq> [] \<Longrightarrow> ws_items (fold (admit_item cl limit) cs ws) \<noteq> []"
proof (induction cs arbitrary: ws)
  case (Cons c cs)
  have "ws_items (admit_item cl limit c ws) \<noteq> []"
    using Cons.prems by (auto simp: admit_item_def Let_def split: prod.split)
  then show ?case using Cons.IH by simp
qed simp

lemma admit_wave_nonempty:
  assumes "limits_allow_one cl" "cs \<noteq> []"
  shows "ws_items (admit_wave cl (max_one n) cs d) \<noteq> []"
proof -
  obtain c cs' where "cs = c # cs'" using assms(2) by (cases cs) auto
  then show ?thesis using admit_first[OF assms(1), of n c d] by (simp add: admit_wave_def admit_keeps)
qed

lemma by_task_id: "t \<in> set pending \<Longrightarrow> t \<in> wi_taskId ` set items \<Longrightarrow> \<exists>i \<in> set (by_task items pending). wi_taskId i = t"
proof -
  assume "t \<in> set pending" "t \<in> wi_taskId ` set items"
  then have "t \<in> set (map wi_taskId (by_task items pending))" by (simp add: by_task_map)
  then show ?thesis by auto
qed

text \<open>Dependencies among the tasks that are well founded: \<open>rank\<close> grows along them.\<close>

definition ranked :: "(string \<Rightarrow> nat) \<Rightarrow> (string, string list) jsmap \<Rightarrow> string set \<Rightarrow> bool" where
  "ranked rank deps T \<longleftrightarrow> (\<forall>t \<in> T. \<forall>d \<in> set (js_lookup deps t []). d \<in> T \<and> rank d < rank t)"

lemma some_ready:
  assumes "ranked rank deps (wi_taskId ` set items)" "pending \<noteq> []" "set pending \<subseteq> wi_taskId ` set items"
    and "wi_taskId ` set items \<subseteq> set pending \<union> set completed"
  shows "\<exists>i \<in> set (by_task items pending). ready deps completed i"
proof -
  obtain t where t: "t \<in> set pending" and least: "\<And>u. u \<in> set pending \<Longrightarrow> rank t \<le> rank u"
    using assms(2) arg_min_if_finite[of "set pending" rank] by (metis List.finite_set leI set_empty)
  obtain i where i: "i \<in> set (by_task items pending)" "wi_taskId i = t"
    using by_task_id[of t pending items] assms(3) t by blast
  have "d \<in> set completed" if "d \<in> set (js_lookup deps t [])" for d
  proof -
    have "d \<in> wi_taskId ` set items" "rank d < rank t"
      using that assms(1,3) t by (auto simp: ranked_def)
    then show ?thesis using assms(4) least[of d] by auto
  qed
  then show ?thesis using i by (auto simp: ready_def)
qed

lemma regular_wave:
  assumes "limits_allow_one cl" "ranked rank deps (wi_taskId ` set items)" "pending \<noteq> []"
    and "set pending \<subseteq> wi_taskId ` set items" "wi_taskId ` set items \<subseteq> set pending \<union> set completed"
    and w: "wave_items cl (max_one n) deps items pending completed deferred = (its, deferred')"
  shows "its \<noteq> []" "wave_fits cl (max_one n) its" "\<forall>i \<in> set its. ready deps completed i"
proof -
  let ?cs = "filter (ready deps completed) (by_task items pending)"
  have "?cs \<noteq> []" using some_ready[OF assms(2-5)] by (auto simp: filter_empty_conv)
  then have ne: "ws_items (admit_wave cl (max_one n) ?cs deferred) \<noteq> []" by (rule admit_wave_nonempty[OF assms(1)])
  then have its: "its = ws_items (admit_wave cl (max_one n) ?cs deferred)" using w by (auto simp: wave_items_def Let_def)
  show "its \<noteq> []" using ne its by simp
  show "wave_fits cl (max_one n) its" unfolding its by (rule admit_wave_fits)
  show "\<forall>i \<in> set its. ready deps completed i"
    using admit_wave_items[of cl "max_one n" ?cs deferred] unfolding its by auto
qed

text \<open>Waves that fit, each after the waves its items depend on.\<close>

fun regular_waves :: "concurrency_limits \<Rightarrow> jsnum \<Rightarrow> (string, string list) jsmap \<Rightarrow> string set \<Rightarrow> execution_wave list \<Rightarrow> bool" where
  "regular_waves cl limit deps before [] \<longleftrightarrow> True"
| "regular_waves cl limit deps before (w # ws) \<longleftrightarrow> wave_fits cl limit (ew_items w)
    \<and> (\<forall>i \<in> set (ew_items w). set (js_lookup deps (wi_taskId i) []) \<subseteq> before)
    \<and> regular_waves cl limit deps (before \<union> wi_taskId ` set (ew_items w)) ws"

lemma set_add_ids: "set (fold (\<lambda>i c. add_unique c (wi_taskId i)) its c) = set c \<union> wi_taskId ` set its"
  by (induction its arbitrary: c) auto

lemma plan_loop_regular:
  assumes "limits_allow_one cl" "ranked rank deps (wi_taskId ` set items)"
    and "set pending \<subseteq> wi_taskId ` set items" "wi_taskId ` set items \<subseteq> set pending \<union> set completed"
  shows "regular_waves cl (max_one m) deps (set completed) (plan_loop cl (max_one m) deps items pending completed deferred n)"
  using assms
proof (induction cl "max_one m" deps items pending completed deferred n rule: plan_loop.induct)
  case (1 cl deps items pending completed deferred n)
  obtain its deferred' where w: "wave_items cl (max_one m) deps items pending completed deferred = (its, deferred')"
    by fastforce
  show ?case
  proof (cases "pending = []")
    case True
    then have "its = []" using w wave_items_Nil[of pending items cl "max_one m" deps completed deferred] by simp
    then show ?thesis using w by (simp add: plan_loop.simps)
  next
    case False
    note reg = regular_wave[OF "1.prems"(1,2) False "1.prems"(3,4) w]
    let ?pending = "filter (\<lambda>t. t \<notin> wi_taskId ` set its) pending"
    let ?completed = "fold (\<lambda>i c. add_unique c (wi_taskId i)) its completed"
    have "regular_waves cl (max_one m) deps (set ?completed)
      (plan_loop cl (max_one m) deps items ?pending ?completed (filter (\<lambda>kv. fst kv \<notin> wi_taskId ` set its) deferred') (n + 1))"
    proof (rule "1.hyps"[OF w[symmetric] refl reg(1) "1.prems"(1,2)])
      show "set ?pending \<subseteq> wi_taskId ` set items" using "1.prems"(3) by auto
      show "wi_taskId ` set items \<subseteq> set ?pending \<union> set ?completed" using "1.prems"(4) by (auto simp: set_add_ids)
    qed
    then show ?thesis
      using reg w unfolding plan_loop.simps[of cl "max_one m" deps items pending]
      by (simp add: make_wave_def set_add_ids ready_def subset_iff)
  qed
qed

lemma regular_waves_nth:
  assumes "regular_waves cl limit deps B ws" "k < length ws" "i \<in> set (ew_items (ws ! k))"
    and "d \<in> set (js_lookup deps (wi_taskId i) [])"
  shows "d \<in> B \<or> (\<exists>j < k. d \<in> wi_taskId ` set (ew_items (ws ! j)))"
  using assms
proof (induction ws arbitrary: B k)
  case (Cons w ws)
  show ?case
  proof (cases k)
    case 0
    then show ?thesis using Cons.prems by auto
  next
    case (Suc k')
    then consider "d \<in> B \<union> wi_taskId ` set (ew_items w)" | j where "j < k'" "d \<in> wi_taskId ` set (ew_items (ws ! j))"
      using Cons.IH[of "B \<union> wi_taskId ` set (ew_items w)" k'] Cons.prems by auto
    then show ?thesis
    proof cases
      case 1
      then show ?thesis using Suc by (auto intro!: exI[of _ 0])
    next
      case 2
      then show ?thesis using Suc by (auto intro!: exI[of _ "Suc j"])
    qed
  qed
qed simp

lemma regular_waves_fit: "regular_waves cl limit deps B ws \<Longrightarrow> k < length ws \<Longrightarrow> wave_fits cl limit (ew_items (ws ! k))"
  by (induction ws arbitrary: B k) (auto simp: nth_Cons split: nat.split)

lemma lookup_edges:
  "set (js_lookup (fold (\<lambda>e m. AList.update (dg_toTaskId e) (add_unique (js_lookup m (dg_toTaskId e) []) (dg_fromTaskId e)) m) edges m) t [])
    = set (js_lookup m t []) \<union> dg_fromTaskId ` {e \<in> set edges. dg_toTaskId e = t}"
proof (induction edges arbitrary: m)
  case (Cons e es)
  have "set (js_lookup (AList.update (dg_toTaskId e) (add_unique (js_lookup m (dg_toTaskId e) []) (dg_fromTaskId e)) m) t []) =
      set (js_lookup m t []) \<union> (if dg_toTaskId e = t then {dg_fromTaskId e} else {})"
    by (auto simp: js_lookup_def update_conv' split: option.split)
  with Cons show ?case by auto
qed simp

lemma dependency_map_item:
  assumes "distinct (map wi_taskId items)" "i \<in> set items"
  shows "set (js_lookup (dependency_map items edges) (wi_taskId i) []) = set (run_dependencies edges i)"
proof -
  have "map_of (index_by wi_taskId (\<lambda>i. uniq (wi_dependencies i)) items) (wi_taskId i) = Some (uniq (wi_dependencies i))"
    by (rule index_by_distinct_Some[OF assms])
  then have "js_lookup (index_by wi_taskId (\<lambda>i. uniq (wi_dependencies i)) items) (wi_taskId i) [] = uniq (wi_dependencies i)"
    by (simp add: js_lookup_def)
  then show ?thesis unfolding dependency_map_def lookup_edges by (auto simp: run_dependencies_def)
qed

section \<open>A run respects the dependencies\<close>

lemma subseq_set: "subseq xs ys \<Longrightarrow> set xs \<subseteq> set ys"
  by (auto elim: list_emb_set)

lemma distinct_subseq: "subseq xs ys \<Longrightarrow> distinct ys \<Longrightarrow> distinct xs"
  by (induction rule: list_emb.induct) (auto dest: subseq_set)

definition succeeded :: "(work_item \<Rightarrow> run_result option) \<Rightarrow> work_item \<Rightarrow> bool" where
  "succeeded run i \<longleftrightarrow> (\<exists>r. run i = Some (Fulfilled r) \<and> ro_status r = SS_completed)"

text \<open>The tasks that the calls completed.\<close>

definition done_by :: "(work_item \<Rightarrow> run_result option) \<Rightarrow> work_item list list \<Rightarrow> string set" where
  "done_by run calls = wi_taskId ` {i \<in> set (concat calls). succeeded run i}"

definition calls_ordered :: "(work_item \<Rightarrow> run_result option) \<Rightarrow> dependency_edge list \<Rightarrow> work_item list list \<Rightarrow> bool" where
  "calls_ordered run edges calls \<longleftrightarrow>
    (\<forall>k < length calls. \<forall>i \<in> set (calls ! k). set (run_dependencies edges i) \<subseteq> done_by run (take k calls))"

definition group_inv :: "(work_item \<Rightarrow> run_result option) \<Rightarrow> dependency_edge list \<Rightarrow> group_state \<Rightarrow> bool" where
  "group_inv run edges gs \<longleftrightarrow> set (gs_completed gs) \<subseteq> done_by run (gs_calls gs) \<and> calls_ordered run edges (gs_calls gs)
    \<and> (gs_skipped gs = [] \<longrightarrow>
        set (gs_completed gs) \<union> set (gs_blocked gs) \<union> set (gs_skippedIds gs) \<subseteq> wi_taskId ` set (concat (gs_calls gs)))
    \<and> (\<forall>i \<in> set (concat (gs_calls gs)). run i = Some Rejected \<or> (\<exists>r \<in> set (gs_outcomes gs). run i = Some (Fulfilled r)))"

lemma append_label_same [simp]:
  "gs_outcomes (append_label opts l gs) = gs_outcomes gs" "gs_skipped (append_label opts l gs) = gs_skipped gs"
  "gs_completed (append_label opts l gs) = gs_completed gs" "gs_blocked (append_label opts l gs) = gs_blocked gs"
  "gs_skippedIds (append_label opts l gs) = gs_skippedIds gs" "gs_calls (append_label opts l gs) = gs_calls gs"
  by (simp_all add: append_label_def split: option.splits)

lemma group_inv_label [simp]: "group_inv run edges (append_label opts l gs) = group_inv run edges gs"
  by (simp add: group_inv_def)

text \<open>Label-only steps\<close>

lemma lock_labels_same [simp]:
  "gs_outcomes (lock_labels verb g opts items gs) = gs_outcomes gs \<and> gs_skipped (lock_labels verb g opts items gs) = gs_skipped gs
   \<and> gs_completed (lock_labels verb g opts items gs) = gs_completed gs \<and> gs_blocked (lock_labels verb g opts items gs) = gs_blocked gs
   \<and> gs_skippedIds (lock_labels verb g opts items gs) = gs_skippedIds gs \<and> gs_calls (lock_labels verb g opts items gs) = gs_calls gs"
  unfolding lock_labels_def by (induction items arbitrary: gs) auto

lemma group_inv_lock_labels [simp]: "group_inv run edges (lock_labels verb g opts items gs) = group_inv run edges gs"
  by (simp add: group_inv_def)

text \<open>Skipping keeps the invariant, the calls and the completed tasks.\<close>

lemma group_inv_skip:
  "group_inv run edges gs \<Longrightarrow> gs_skipped gs' \<noteq> [] \<Longrightarrow> gs_calls gs' = gs_calls gs \<Longrightarrow> gs_completed gs' = gs_completed gs \<Longrightarrow>
    gs_outcomes gs' = gs_outcomes gs \<Longrightarrow> group_inv run edges gs'"
  by (simp add: group_inv_def)

lemma dependency_ready_step:
  assumes "group_inv run edges gs" "dependency_ready edges items gs = (rdy, gs')"
  shows "group_inv run edges gs' \<and> gs_calls gs' = gs_calls gs \<and> gs_completed gs' = gs_completed gs
    \<and> (gs_skipped gs' = [] \<longrightarrow> gs_skipped gs = []
        \<and> wi_taskId ` set items \<subseteq> wi_taskId ` set rdy \<union> wi_taskId ` set (concat (gs_calls gs)))
    \<and> subseq rdy items \<and> (\<forall>i \<in> set rdy. set (run_dependencies edges i) \<subseteq> set (gs_completed gs))"
  using assms
proof (induction edges items gs arbitrary: rdy rule: dependency_ready.induct)
  case (2 edges item items gs)
  show ?case
  proof (cases "wi_taskId item \<in> set (gs_skippedIds gs)")
    case True
    have "group_inv run edges gs' \<and> gs_calls gs' = gs_calls gs \<and> gs_completed gs' = gs_completed gs
      \<and> (gs_skipped gs' = [] \<longrightarrow> gs_skipped gs = []
          \<and> wi_taskId ` set items \<subseteq> wi_taskId ` set rdy \<union> wi_taskId ` set (concat (gs_calls gs)))
      \<and> subseq rdy items \<and> (\<forall>i \<in> set rdy. set (run_dependencies edges i) \<subseteq> set (gs_completed gs))"
      using 2 True by simp
    moreover have "gs_skipped gs = [] \<Longrightarrow> wi_taskId item \<in> wi_taskId ` set (concat (gs_calls gs))"
      using True "2.prems"(1) by (auto simp: group_inv_def)
    ultimately show ?thesis by auto
  next
    case no: False
    let ?gs1 = "gs\<lparr>gs_skipped := gs_skipped gs @ [skip ''dependency_not_completed'' item],
      gs_blocked := add_unique (gs_blocked gs) (wi_taskId item)\<rparr>"
    show ?thesis
    proof (cases "\<exists>d \<in> set (run_dependencies edges item). d \<in> set (gs_blocked gs) \<or> d \<notin> set (gs_completed gs)")
      case True
      have "group_inv run edges ?gs1" by (rule group_inv_skip[OF "2.prems"(1)]) simp_all
      then show ?thesis using "2.IH"(2)[OF no True, of rdy] "2.prems" no True by auto
    next
      case False
      obtain rest where "dependency_ready edges items gs = (rest, gs')" "rdy = item # rest"
        using "2.prems"(2) no False by (auto split: prod.splits)
      then show ?thesis using "2.IH"(3)[OF no False, of rest] "2.prems"(1) False by auto
    qed
  qed
qed simp

lemma lock_waits_step:
  assumes "group_inv run edges gs" "lock_waits groupId opts w ms items gs = (rdy, gs')"
  shows "group_inv run edges gs' \<and> gs_calls gs' = gs_calls gs \<and> gs_completed gs' = gs_completed gs
    \<and> (gs_skipped gs' = [] \<longrightarrow> gs_skipped gs = [] \<and> rdy = items) \<and> subseq rdy items"
  using assms
proof (induction groupId opts w ms items gs arbitrary: rdy rule: lock_waits.induct)
  case (2 groupId opts w ms item items gs)
  define gs1 where "gs1 = append_label opts (''sub_session_lock_wait:'' @ groupId @ '':'' @ wi_taskId item @ '':'' @ show_int ms
    @ ''ms:'' @ join ''+'' (wait_reasons w item)) gs"
  define gs2 where "gs2 = append_label opts (''sub_session_lock_timeout:'' @ groupId @ '':'' @ wi_taskId item @ '':'' @ show_int ms @ ''ms'')
      (gs1\<lparr>gs_skipped := gs_skipped gs1 @ [skip ''resource_lock_timeout'' item],
           gs_skippedIds := add_unique (gs_skippedIds gs1) (wi_taskId item),
           gs_blocked := add_unique (gs_blocked gs1) (wi_taskId item)\<rparr>)"
  consider "''resource_lock'' \<notin> set (wait_reasons w item)"
    | "''resource_lock'' \<in> set (wait_reasons w item)" "wait_exceeds ms (go_lockWaitTimeoutMs opts)"
    | "''resource_lock'' \<in> set (wait_reasons w item)" "\<not> wait_exceeds ms (go_lockWaitTimeoutMs opts)" by blast
  then show ?case
  proof cases
    case 1
    obtain rest where "lock_waits groupId opts w ms items gs = (rest, gs')" "rdy = item # rest"
      using "2.prems"(2) 1 by (auto split: prod.splits)
    then show ?thesis using "2.IH"(3)[OF 1, of rest] "2.prems"(1) by auto
  next
    case 2
    have "group_inv run edges gs2"
      by (rule group_inv_skip[OF "2.prems"(1)]) (simp_all add: gs1_def gs2_def)
    moreover have "lock_waits groupId opts w ms items gs2 = (rdy, gs')"
      using "2.prems"(2) 2 by (simp add: gs1_def gs2_def Let_def)
    ultimately show ?thesis
      using "2.IH"(1)[OF 2(1) gs1_def 2(2), of rdy, folded gs2_def] by (auto simp: gs2_def gs1_def)
  next
    case 3
    obtain rest where r: "lock_waits groupId opts w ms items gs1 = (rest, gs')" "rdy = item # rest"
      using "2.prems"(2) 3 by (auto simp: gs1_def Let_def split: prod.splits)
    have "group_inv run edges gs1" using "2.prems"(1) by (simp add: gs1_def)
    then show ?thesis using "2.IH"(2)[OF 3(1) gs1_def 3(2), of rest] r by (auto simp: gs1_def)
  qed
qed simp

lemma fold_settle:
  assumes "\<forall>i \<in> set items. run i \<noteq> None"
  defines "gs' \<equiv> \<lambda>gs. fold settle (map (\<lambda>i. (i, the (run i))) items) gs"
  shows "gs_calls (gs' gs) = gs_calls gs" "gs_skipped (gs' gs) = gs_skipped gs" "gs_skippedIds (gs' gs) = gs_skippedIds gs"
    "set (gs_completed (gs' gs)) = set (gs_completed gs) \<union> wi_taskId ` {i \<in> set items. succeeded run i}"
    "set (gs_blocked (gs' gs)) = set (gs_blocked gs) \<union> wi_taskId ` {i \<in> set items. \<not> succeeded run i}"
    "set (gs_outcomes (gs' gs)) = set (gs_outcomes gs) \<union> {r. \<exists>i \<in> set items. run i = Some (Fulfilled r)}"
proof -
  have "gs_calls (gs' gs) = gs_calls gs \<and> gs_skipped (gs' gs) = gs_skipped gs \<and> gs_skippedIds (gs' gs) = gs_skippedIds gs
    \<and> set (gs_completed (gs' gs)) = set (gs_completed gs) \<union> wi_taskId ` {i \<in> set items. succeeded run i}
    \<and> set (gs_blocked (gs' gs)) = set (gs_blocked gs) \<union> wi_taskId ` {i \<in> set items. \<not> succeeded run i}
    \<and> set (gs_outcomes (gs' gs)) = set (gs_outcomes gs) \<union> {r. \<exists>i \<in> set items. run i = Some (Fulfilled r)}"
    using assms(1) unfolding gs'_def
  proof (induction items arbitrary: gs)
    case (Cons i items)
    obtain res where res: "run i = Some res" using Cons.prems by auto
    let ?g = "settle (i, res) gs"
    have step: "gs_calls ?g = gs_calls gs" "gs_skipped ?g = gs_skipped gs" "gs_skippedIds ?g = gs_skippedIds gs"
      "set (gs_completed ?g) = set (gs_completed gs) \<union> (if succeeded run i then {wi_taskId i} else {})"
      "set (gs_blocked ?g) = set (gs_blocked gs) \<union> (if succeeded run i then {} else {wi_taskId i})"
      "set (gs_outcomes ?g) = set (gs_outcomes gs) \<union> {r. run i = Some (Fulfilled r)}"
      using res by (auto simp: settle_def succeeded_def Let_def split: run_result.splits)
    have ih: "\<forall>i \<in> set items. run i \<noteq> None" using Cons.prems by simp
    have head: "{j \<in> set (i # items). P j} = (if P i then {i} else {}) \<union> {j \<in> set items. P j}" for P by auto
    have rs: "{r. \<exists>j \<in> set (i # items). run j = Some (Fulfilled r)} =
      {r. run i = Some (Fulfilled r)} \<union> {r. \<exists>j \<in> set items. run j = Some (Fulfilled r)}" by auto
    show ?case
      using Cons.IH[OF ih, of ?g] res unfolding head rs by (simp add: step image_Un Un_assoc)
  qed simp
  then show "gs_calls (gs' gs) = gs_calls gs" "gs_skipped (gs' gs) = gs_skipped gs" "gs_skippedIds (gs' gs) = gs_skippedIds gs"
    "set (gs_completed (gs' gs)) = set (gs_completed gs) \<union> wi_taskId ` {i \<in> set items. succeeded run i}"
    "set (gs_blocked (gs' gs)) = set (gs_blocked gs) \<union> wi_taskId ` {i \<in> set items. \<not> succeeded run i}"
    "set (gs_outcomes (gs' gs)) = set (gs_outcomes gs) \<union> {r. \<exists>i \<in> set items. run i = Some (Fulfilled r)}"
    by blast+
qed

lemma done_by_snoc: "done_by run (calls @ [items]) = done_by run calls \<union> wi_taskId ` {i \<in> set items. succeeded run i}"
  by (auto simp: done_by_def)

lemma calls_ordered_snoc:
  "calls_ordered run edges calls \<Longrightarrow> \<forall>i \<in> set items. set (run_dependencies edges i) \<subseteq> done_by run calls \<Longrightarrow>
    calls_ordered run edges (calls @ [items])"
  by (auto simp: calls_ordered_def nth_append less_Suc_eq)

lemma call_items_step:
  assumes inv: "group_inv run edges gs" and call: "call_items run items gs = Some gs'"
    and deps: "\<forall>i \<in> set items. set (run_dependencies edges i) \<subseteq> set (gs_completed gs)"
  shows "group_inv run edges gs' \<and> gs_calls gs' = gs_calls gs @ [items] \<and> gs_skipped gs' = gs_skipped gs"
proof -
  have runs: "\<forall>i \<in> set items. run i \<noteq> None" using call by (auto simp: call_items_def split: if_splits)
  let ?g = "gs\<lparr>gs_calls := gs_calls gs @ [items]\<rparr>"
  have gs': "gs' = fold settle (map (\<lambda>i. (i, the (run i))) items) ?g"
    using call by (simp add: call_items_def split: if_splits)
  note S = fold_settle[OF runs, of ?g, folded gs']
  have fin: "set (gs_completed gs) \<subseteq> done_by run (gs_calls gs)" and ord: "calls_ordered run edges (gs_calls gs)"
    and skipped: "gs_skipped gs = [] \<Longrightarrow>
        set (gs_completed gs) \<union> set (gs_blocked gs) \<union> set (gs_skippedIds gs) \<subseteq> wi_taskId ` set (concat (gs_calls gs))"
    and outs: "\<forall>i \<in> set (concat (gs_calls gs)). run i = Some Rejected \<or> (\<exists>r \<in> set (gs_outcomes gs). run i = Some (Fulfilled r))"
    using inv by (simp_all add: group_inv_def)
  have "set (gs_completed gs') \<subseteq> done_by run (gs_calls gs @ [items])"
    using fin unfolding S(4) done_by_snoc by auto
  moreover have "calls_ordered run edges (gs_calls gs @ [items])"
    by (rule calls_ordered_snoc[OF ord]) (use deps fin in blast)
  moreover have "set (gs_completed gs') \<union> set (gs_blocked gs') \<union> set (gs_skippedIds gs')
      \<subseteq> wi_taskId ` set (concat (gs_calls gs @ [items]))" if "gs_skipped gs = []"
    using skipped[OF that] unfolding S(3-5) by (auto simp: image_Un)
  moreover have "run i = Some Rejected \<or> (\<exists>r \<in> set (gs_outcomes gs'). run i = Some (Fulfilled r))"
    if "i \<in> set (concat (gs_calls gs @ [items]))" for i
  proof -
    have "i \<in> set (concat (gs_calls gs)) \<or> i \<in> set items" using that by auto
    moreover have ?thesis if it: "i \<in> set items"
    proof -
      obtain res where "run i = Some res" using runs it by auto
      then show ?thesis using it unfolding S(6) by (cases res) auto
    qed
    ultimately show ?thesis using outs unfolding S(6) by auto
  qed
  ultimately show ?thesis unfolding group_inv_def S(1,2) by simp
qed

lemma run_wave_step:
  assumes inv: "group_inv run edges gs" and run: "run_wave run groupId edges opts ms w gs = Some gs'"
  shows "group_inv run edges gs' \<and> (\<exists>batch. gs_calls gs' = gs_calls gs @ [batch] \<and> subseq batch (ew_items w))
    \<and> (gs_skipped gs' = [] \<longrightarrow> gs_skipped gs = [] \<and> wi_taskId ` set (ew_items w) \<subseteq> wi_taskId ` set (concat (gs_calls gs')))"
proof -
  obtain rdy gs1 where 1: "dependency_ready edges (ew_items w) gs = (rdy, gs1)" by fastforce
  obtain batch gs2 where 2: "lock_waits groupId opts w ms rdy gs1 = (batch, gs2)" by fastforce
  let ?gs3 = "lock_labels ''acquired'' groupId opts batch gs2"
  obtain gs4 where 4: "call_items run batch ?gs3 = Some gs4" "gs' = lock_labels ''released'' groupId opts batch gs4"
    using run 1 2 by (auto simp: run_wave_def)
  note d = dependency_ready_step[OF inv 1]
  have l: "group_inv run edges gs2 \<and> gs_calls gs2 = gs_calls gs1 \<and> gs_completed gs2 = gs_completed gs1
    \<and> (gs_skipped gs2 = [] \<longrightarrow> gs_skipped gs1 = [] \<and> batch = rdy) \<and> subseq batch rdy"
    using d 2 by (intro lock_waits_step) auto
  have "set batch \<subseteq> set rdy" using l subseq_set by blast
  then have deps: "\<forall>i \<in> set batch. set (run_dependencies edges i) \<subseteq> set (gs_completed ?gs3)" using d l by auto
  have inv3: "group_inv run edges ?gs3" using l by simp
  note c = call_items_step[OF inv3 4(1) deps]
  have "subseq batch (ew_items w)" using d l subseq_order.order_trans by blast
  then show ?thesis using c d l 4(2) by (auto simp: image_Un)
qed

text \<open>Cancelling leaves a skipped item unless every task of the plan is already accounted for.\<close>

lemma skip_remaining_step:
  assumes "group_inv run edges gs"
  shows "group_inv run edges (skip_remaining groupId opts ws gs) \<and> gs_calls (skip_remaining groupId opts ws gs) = gs_calls gs
    \<and> (gs_skipped (skip_remaining groupId opts ws gs) = [] \<longrightarrow> gs_skipped gs = []
       \<and> wi_taskId ` set (concat (map ew_items ws)) \<subseteq> wi_taskId ` set (concat (gs_calls gs)))"
proof -
  let ?step = "\<lambda>item g. if wi_taskId item \<in> set (gs_completed g) \<union> set (gs_blocked g) \<union> set (gs_skippedIds g) then g
    else g\<lparr>gs_skipped := gs_skipped g @ [skip ''parent_run_cancelled'' item],
           gs_skippedIds := add_unique (gs_skippedIds g) (wi_taskId item),
           gs_blocked := add_unique (gs_blocked g) (wi_taskId item)\<rparr>"
  have "group_inv run edges (fold ?step items gs) \<and> gs_calls (fold ?step items gs) = gs_calls gs
    \<and> (gs_skipped (fold ?step items gs) = [] \<longrightarrow> gs_skipped gs = []
       \<and> wi_taskId ` set items \<subseteq> wi_taskId ` set (concat (gs_calls gs)))" for items
    using assms
  proof (induction items arbitrary: gs)
    case (Cons i items)
    show ?case
    proof (cases "wi_taskId i \<in> set (gs_completed gs) \<union> set (gs_blocked gs) \<union> set (gs_skippedIds gs)")
      case True
      then have "gs_skipped gs = [] \<Longrightarrow> wi_taskId i \<in> wi_taskId ` set (concat (gs_calls gs))"
        using Cons.prems by (auto simp: group_inv_def)
      then show ?thesis using Cons.IH[OF Cons.prems] True by simp
    next
      case False
      have "group_inv run edges (?step i gs)"
        by (rule group_inv_skip[OF Cons.prems]) (use False in simp_all)
      then show ?thesis using Cons.IH[of "?step i gs"] False by simp
    qed
  qed simp
  from this[of "concat (map ew_items ws)"] show ?thesis by (simp add: skip_remaining_def)
qed

lemma run_waves_step:
  assumes "group_inv run edges gs" "subseq (concat (gs_calls gs)) (concat (map ew_items before))"
    and "run_waves run groupId edges opts clock cancelled (before @ ws) k ws gs = Some gs'"
    and "gs_skipped gs = [] \<Longrightarrow> wi_taskId ` set (concat (map ew_items before)) \<subseteq> wi_taskId ` set (concat (gs_calls gs))"
  shows "group_inv run edges gs' \<and> subseq (concat (gs_calls gs')) (concat (map ew_items (before @ ws)))
    \<and> (gs_skipped gs' = [] \<longrightarrow> gs_skipped gs = []
       \<and> wi_taskId ` set (concat (map ew_items (before @ ws))) \<subseteq> wi_taskId ` set (concat (gs_calls gs')))"
  using assms
proof (induction ws arbitrary: gs before k)
  case (Cons w ws)
  show ?case
  proof (cases "cancelled k")
    case True
    then have gs': "gs' = skip_remaining groupId opts (before @ w # ws) gs" using Cons.prems(3) by simp
    have "subseq (concat (gs_calls gs)) (concat (map ew_items (before @ w # ws)))"
      using Cons.prems(2) by (auto intro: list_emb_prefix)
    then show ?thesis using skip_remaining_step[OF Cons.prems(1), of groupId opts "before @ w # ws"] gs' by simp
  next
    case False
    obtain gs1 where w: "run_wave run groupId edges opts (max 0 (clock (Suc k) - clock 0)) w gs = Some gs1"
      and rest: "run_waves run groupId edges opts clock cancelled (before @ w # ws) (Suc k) ws gs1 = Some gs'"
      using Cons.prems(3) False by (auto split: option.splits)
    note s = run_wave_step[OF Cons.prems(1) w]
    obtain batch where batch: "gs_calls gs1 = gs_calls gs @ [batch]" "subseq batch (ew_items w)" using s by blast
    have "subseq (concat (gs_calls gs1)) (concat (map ew_items (before @ [w])))"
      using Cons.prems(2) batch by (simp add: list_emb_append_mono)
    moreover have "wi_taskId ` set (concat (map ew_items (before @ [w]))) \<subseteq> wi_taskId ` set (concat (gs_calls gs1))"
      if "gs_skipped gs1 = []"
    proof -
      have "wi_taskId ` set (concat (map ew_items before)) \<subseteq> wi_taskId ` set (concat (gs_calls gs))"
        using s that Cons.prems(4) by simp
      moreover have "wi_taskId ` set (ew_items w) \<subseteq> wi_taskId ` set (concat (gs_calls gs1))" using s that by simp
      moreover have "wi_taskId ` set (concat (gs_calls gs)) \<subseteq> wi_taskId ` set (concat (gs_calls gs1))"
        using batch(1) by (intro image_mono) simp
      moreover have "set (concat (map ew_items (before @ [w]))) = set (concat (map ew_items before)) \<union> set (ew_items w)" by simp
      ultimately show ?thesis by (simp only: image_Un Un_subset_iff, blast)
    qed
    ultimately show ?thesis using Cons.IH[of gs1 "before @ [w]" "Suc k"] s rest by simp
  qed
qed simp

lemma start_group_same:
  "gs_outcomes (start_group g opts waves bd) = [] \<and> gs_skipped (start_group g opts waves bd) = bd_skipped bd
   \<and> gs_completed (start_group g opts waves bd) = [] \<and> gs_blocked (start_group g opts waves bd) = []
   \<and> gs_skippedIds (start_group g opts waves bd) = uniq (map sk_taskId (bd_skipped bd)) \<and> gs_calls (start_group g opts waves bd) = []"
  by (simp add: start_group_def Let_def split: option.split)

lemma start_group_inv: "group_inv run edges (start_group g opts waves bd)"
  by (auto simp: group_inv_def start_group_same calls_ordered_def)

text \<open>What every result of a group rests on.\<close>

lemma run_group_step:
  assumes "run_group run g items opts clock cancelled = Some (res, labels, calls)"
    and sel: "apply_session_budget items (go_budget opts) = (selected, bd)" "selected \<noteq> []"
  defines "waves \<equiv> plan_execution_waves selected (pg_dependencyEdges g) (Some (pg_concurrencyLimit g)) (go_concurrency opts)"
  shows "\<exists>gs'. group_inv run (pg_dependencyEdges g) gs' \<and> gs_calls gs' = calls
    \<and> gp_skipped res = gs_skipped gs' \<and> gp_outcomes res = gs_outcomes gs' \<and> gp_waves res = waves
    \<and> gp_status res = resolve_group_status (gs_outcomes gs') (gs_skipped gs') bd
    \<and> subseq (concat calls) (concat (map ew_items waves))
    \<and> (gs_skipped gs' = [] \<longrightarrow> bd_skipped bd = []
       \<and> wi_taskId ` set (concat (map ew_items waves)) \<subseteq> wi_taskId ` set (concat calls))"
proof -
  obtain gs' where run: "run_waves run (pg_groupId g) (pg_dependencyEdges g) opts clock cancelled waves 0 waves
      (start_group g opts waves bd) = Some gs'"
    and res: "res = \<lparr>gp_groupId = pg_groupId g, gp_status = resolve_group_status (gs_outcomes gs') (gs_skipped gs') bd,
      gp_waves = waves, gp_outcomes = gs_outcomes gs', gp_skipped = gs_skipped gs', gp_budget = bd\<rparr>" "calls = gs_calls gs'"
    using assms(1) sel by (auto simp: run_group_def waves_def Let_def)
  have "group_inv run (pg_dependencyEdges g) gs' \<and> subseq (concat (gs_calls gs')) (concat (map ew_items ([] @ waves)))
    \<and> (gs_skipped gs' = [] \<longrightarrow> gs_skipped (start_group g opts waves bd) = []
       \<and> wi_taskId ` set (concat (map ew_items ([] @ waves))) \<subseteq> wi_taskId ` set (concat (gs_calls gs')))"
    by (rule run_waves_step[OF start_group_inv]) (use run in \<open>simp_all add: start_group_same\<close>)
  then show ?thesis using res by (intro exI[of _ gs']) (simp add: start_group_same)
qed

lemma select_items_subseq:
  "select_items b t items = (sel, sk, t') \<Longrightarrow> subseq sel items \<and> (sk = [] \<longrightarrow> sel = items)
    \<and> mset (map sk_taskId sk) + mset (map wi_taskId sel) = mset (map wi_taskId items)"
proof (induction b t items arbitrary: sel sk rule: select_items.induct)
  case (2 b t item items)
  then show ?case by (auto simp: skip_def split: option.splits prod.splits)
qed simp

lemma apply_session_budget_subseq:
  "apply_session_budget items b = (sel, bd) \<Longrightarrow> subseq sel items \<and> (bd_skipped bd = [] \<longrightarrow> sel = items)"
  using select_items_subseq[of b no_totals items] by (fastforce simp: apply_session_budget_def split: prod.splits)

lemma run_group_nothing:
  assumes "run_group run g items opts clock cancelled = Some (res, labels, calls)"
    and "apply_session_budget items (go_budget opts) = ([], bd)"
  shows "calls = [] \<and> gp_status res = GR_blocked"
  using assms by (auto simp: run_group_def Let_def)

text \<open>C21: A run of a group calls each task at most once, and every task only after each of its dependencies
  was called in an earlier batch, returned, and completed, whatever the plan, the limits, the clock and
  the results.\<close>

theorem group_runs_after_dependencies:
  assumes "run_group run g items opts clock cancelled = Some (res, labels, calls)"
  shows "distinct (map wi_taskId (concat calls)) \<and> set (concat calls) \<subseteq> set items
    \<and> (\<forall>k < length calls. \<forall>i \<in> set (calls ! k). \<forall>d \<in> set (run_dependencies (pg_dependencyEdges g) i).
        \<exists>j < k. \<exists>i' \<in> set (calls ! j). wi_taskId i' = d
          \<and> (\<exists>r. run i' = Some (Fulfilled r) \<and> ro_status r = SS_completed))"
proof -
  obtain selected bd where sel: "apply_session_budget items (go_budget opts) = (selected, bd)" by fastforce
  show ?thesis
  proof (cases "selected = []")
    case True
    then show ?thesis using run_group_nothing[OF assms] sel by simp
  next
    case False
    let ?waves = "plan_execution_waves selected (pg_dependencyEdges g) (Some (pg_concurrencyLimit g)) (go_concurrency opts)"
    have sub: "subseq (concat calls) (concat (map ew_items ?waves))" and ord: "calls_ordered run (pg_dependencyEdges g) calls"
      using run_group_step[OF assms sel False] by (auto simp: group_inv_def)
    have "distinct (map wi_taskId (concat calls))"
      using distinct_subseq[OF subseq_map[OF sub]] plan_tasks(1) by blast
    moreover have "set (concat calls) \<subseteq> set items"
      using subseq_set[OF sub] plan_tasks(3) subseq_set apply_session_budget_subseq[OF sel] by blast
    moreover have "\<exists>j < k. \<exists>i' \<in> set (calls ! j). wi_taskId i' = d
          \<and> (\<exists>r. run i' = Some (Fulfilled r) \<and> ro_status r = SS_completed)"
      if "k < length calls" "i \<in> set (calls ! k)" "d \<in> set (run_dependencies (pg_dependencyEdges g) i)" for k i d
    proof -
      have "d \<in> done_by run (take k calls)" using ord that unfolding calls_ordered_def by blast
      then obtain i' c where i': "c \<in> set (take k calls)" "i' \<in> set c" "wi_taskId i' = d" "succeeded run i'"
        by (auto simp: done_by_def)
      then obtain j where "j < k" "c = calls ! j" by (auto simp: in_set_conv_nth)
      then show ?thesis using i' unfolding succeeded_def by blast
    qed
    ultimately show ?thesis by blast
  qed
qed

text \<open>C23: When a group is reported completed, no item was skipped, every task was called, and every run either
  was rejected or fulfilled with the status completed. A rejected run alone does not keep the group from
  being reported completed.\<close>

theorem group_completed:
  assumes "run_group run g items opts clock cancelled = Some (res, labels, calls)" "gp_status res = GR_completed"
  shows "gp_skipped res = [] \<and> wi_taskId ` set (concat calls) = wi_taskId ` set items
    \<and> (\<forall>i \<in> set (concat calls). run i = Some Rejected
        \<or> (\<exists>r. run i = Some (Fulfilled r) \<and> ro_status r = SS_completed))"
proof -
  obtain selected bd where sel: "apply_session_budget items (go_budget opts) = (selected, bd)" by fastforce
  have ne: "selected \<noteq> []" using run_group_nothing[OF assms(1)] sel assms(2) by auto
  let ?waves = "plan_execution_waves selected (pg_dependencyEdges g) (Some (pg_concurrencyLimit g)) (go_concurrency opts)"
  obtain gs' where gs': "group_inv run (pg_dependencyEdges g) gs'" "gs_calls gs' = calls" "gp_skipped res = gs_skipped gs'"
      "gp_status res = resolve_group_status (gs_outcomes gs') (gs_skipped gs') bd"
      "subseq (concat calls) (concat (map ew_items ?waves))"
      "gs_skipped gs' = [] \<Longrightarrow> bd_skipped bd = [] \<and> wi_taskId ` set (concat (map ew_items ?waves)) \<subseteq> wi_taskId ` set (concat calls)"
    using run_group_step[OF assms(1) sel ne] by metis
  have skipped: "gs_skipped gs' = []" and ok: "\<forall>r \<in> set (gs_outcomes gs'). ro_status r = SS_completed"
    using assms(2) gs'(4) by (auto simp: resolve_group_status_def split: if_splits)
  have "selected = items" using gs'(6)[OF skipped] apply_session_budget_subseq[OF sel] by simp
  then have "wi_taskId ` set (concat calls) = wi_taskId ` set items"
    using gs'(6)[OF skipped] plan_tasks(2)[of items] image_mono[OF subseq_set[OF gs'(5)], of wi_taskId] by auto
  moreover have "\<forall>i \<in> set (concat calls). run i = Some Rejected \<or> (\<exists>r. run i = Some (Fulfilled r) \<and> ro_status r = SS_completed)"
    using gs'(1) ok unfolding group_inv_def gs'(2) by blast
  ultimately show ?thesis using gs'(3) skipped by simp
qed

text \<open>A group returns once every run does.\<close>

lemma run_waves_returns:
  "\<forall>i \<in> set (concat (map ew_items ws)). run i \<noteq> None \<Longrightarrow> group_inv run edges gs \<Longrightarrow>
    run_waves run groupId edges opts clock cancelled all k ws gs \<noteq> None"
proof (induction ws arbitrary: gs k)
  case (Cons w ws)
  obtain rdy gs1 where 1: "dependency_ready edges (ew_items w) gs = (rdy, gs1)" by fastforce
  obtain batch gs2 where 2: "lock_waits groupId opts w (max 0 (clock (Suc k) - clock 0)) rdy gs1 = (batch, gs2)" by fastforce
  note d = dependency_ready_step[OF Cons.prems(2) 1]
  have b: "subseq batch rdy" "subseq rdy (ew_items w)" using lock_waits_step[OF _ 2, of run edges] d by simp_all
  have "set batch \<subseteq> set (ew_items w)" using subset_trans[OF b[THEN subseq_set]] .
  then have "\<not> (\<exists>i \<in> set batch. run i = None)" using Cons.prems(1) by auto
  then have "call_items run batch g \<noteq> None" for g by (simp only: call_items_def if_False) simp
  then have "run_wave run groupId edges opts (max 0 (clock (Suc k) - clock 0)) w gs \<noteq> None"
    by (simp only: run_wave_def 1 2 Let_def prod.case) simp
  then obtain gs' where w: "run_wave run groupId edges opts (max 0 (clock (Suc k) - clock 0)) w gs = Some gs'" by blast
  show ?case using Cons.IH[of gs' "Suc k"] Cons.prems run_wave_step[OF Cons.prems(2) w] w by simp
qed simp

theorem group_returns:
  assumes "\<forall>i \<in> set items. run i \<noteq> None"
  shows "run_group run g items opts clock cancelled \<noteq> None"
proof -
  obtain selected bd where sel: "apply_session_budget items (go_budget opts) = (selected, bd)" by fastforce
  have "set (concat (map ew_items (plan_execution_waves selected e l c))) \<subseteq> set items" for e l c
    using plan_tasks(3) apply_session_budget_subseq[OF sel] subseq_set by blast
  then have "\<forall>i \<in> set (concat (map ew_items (plan_execution_waves selected e l c))). run i \<noteq> None" for e l c
    using assms by blast
  then show ?thesis using sel run_waves_returns start_group_inv by (simp add: run_group_def Let_def)
qed

section \<open>A group whose runs succeed\<close>

lemma dependency_ready_all:
  "gs_skippedIds gs = [] \<Longrightarrow> gs_blocked gs = [] \<Longrightarrow>
    \<forall>i \<in> set items. set (run_dependencies edges i) \<subseteq> set (gs_completed gs) \<Longrightarrow> dependency_ready edges items gs = (items, gs)"
  by (induction items) auto

text \<open>Two states that differ in their labels only.\<close>

definition same_but_labels :: "group_state \<Rightarrow> group_state \<Rightarrow> bool" where
  "same_but_labels gs gs' \<longleftrightarrow> gs_outcomes gs' = gs_outcomes gs \<and> gs_skipped gs' = gs_skipped gs \<and> gs_completed gs' = gs_completed gs
    \<and> gs_blocked gs' = gs_blocked gs \<and> gs_skippedIds gs' = gs_skippedIds gs \<and> gs_calls gs' = gs_calls gs"

lemma lock_waits_all:
  "go_lockWaitTimeoutMs opts = None \<Longrightarrow> \<exists>gs'. lock_waits groupId opts w ms items gs = (items, gs') \<and> same_but_labels gs gs'"
proof (induction items arbitrary: gs)
  case (Cons i items)
  have no: "\<not> wait_exceeds ms (go_lockWaitTimeoutMs opts)" using Cons.prems by (simp add: wait_exceeds_def)
  show ?case
  proof (cases "''resource_lock'' \<in> set (wait_reasons w i)")
    case True
    let ?gs1 = "append_label opts (''sub_session_lock_wait:'' @ groupId @ '':'' @ wi_taskId i @ '':'' @ show_int ms
      @ ''ms:'' @ join ''+'' (wait_reasons w i)) gs"
    obtain gs' where "lock_waits groupId opts w ms items ?gs1 = (items, gs')" "same_but_labels ?gs1 gs'"
      using Cons by blast
    then show ?thesis using True no by (simp add: Let_def same_but_labels_def)
  next
    case False
    obtain gs' where "lock_waits groupId opts w ms items gs = (items, gs')" "same_but_labels gs gs'"
      using Cons by blast
    then show ?thesis using False by simp
  qed
qed (simp add: same_but_labels_def)

definition clean_state :: "group_state \<Rightarrow> bool" where
  "clean_state gs \<longleftrightarrow> gs_skipped gs = [] \<and> gs_blocked gs = [] \<and> gs_skippedIds gs = []
    \<and> (\<forall>r \<in> set (gs_outcomes gs). ro_status r = SS_completed)"

lemma run_wave_success:
  assumes "clean_state gs" "go_lockWaitTimeoutMs opts = None" "\<forall>i \<in> set (ew_items w). succeeded run i"
    and "\<forall>i \<in> set (ew_items w). set (run_dependencies edges i) \<subseteq> set (gs_completed gs)"
  shows "\<exists>gs'. run_wave run groupId edges opts ms w gs = Some gs' \<and> clean_state gs' \<and> gs_calls gs' = gs_calls gs @ [ew_items w]
    \<and> set (gs_completed gs') = set (gs_completed gs) \<union> wi_taskId ` set (ew_items w)"
proof -
  have 1: "dependency_ready edges (ew_items w) gs = (ew_items w, gs)"
    using assms by (intro dependency_ready_all) (auto simp: clean_state_def)
  obtain gs2 where 2: "lock_waits groupId opts w ms (ew_items w) gs = (ew_items w, gs2)" "same_but_labels gs gs2"
    using lock_waits_all[OF assms(2)] by blast
  let ?gs3 = "lock_labels ''acquired'' groupId opts (ew_items w) gs2\<lparr>gs_calls := gs_calls gs2 @ [ew_items w]\<rparr>"
  let ?gs4 = "fold settle (map (\<lambda>i. (i, the (run i))) (ew_items w)) ?gs3"
  have runs: "\<forall>i \<in> set (ew_items w). run i \<noteq> None" using assms(3) by (auto simp: succeeded_def)
  then have nex: "\<not> (\<exists>i \<in> set (ew_items w). run i = None)" by blast
  have no_fail: "{i \<in> set (ew_items w). \<not> succeeded run i} = {}" and all: "{i \<in> set (ew_items w). succeeded run i} = set (ew_items w)"
    using assms(3) by auto
  note S = fold_settle[OF runs, of ?gs3]
  have "run_wave run groupId edges opts ms w gs = Some (lock_labels ''released'' groupId opts (ew_items w) ?gs4)"
    using nex by (simp add: run_wave_def 1 2 call_items_def)
  moreover have "clean_state (lock_labels ''released'' groupId opts (ew_items w) ?gs4)"
    using assms(1,3) 2(2) S unfolding no_fail by (auto simp: clean_state_def same_but_labels_def succeeded_def)
  moreover have "set (gs_completed ?gs4) = set (gs_completed gs) \<union> wi_taskId ` set (ew_items w)"
    using S(4) 2(2) unfolding all by (simp add: same_but_labels_def)
  ultimately show ?thesis using S(1) 2(2) by (simp add: same_but_labels_def)
qed

lemma run_waves_success:
  assumes "clean_state gs" "go_lockWaitTimeoutMs opts = None" "\<forall>k. \<not> cancelled k"
    and "\<forall>i \<in> set (concat (map ew_items ws)). succeeded run i \<and>
      set (run_dependencies edges i) = set (js_lookup deps (wi_taskId i) [])"
    and "regular_waves cl limit deps (set (gs_completed gs)) ws"
  shows "\<exists>gs'. run_waves run groupId edges opts clock cancelled all k ws gs = Some gs' \<and> clean_state gs'
    \<and> gs_calls gs' = gs_calls gs @ map ew_items ws"
  using assms
proof (induction ws arbitrary: gs k)
  case (Cons w ws)
  have ok: "\<forall>i \<in> set (ew_items w). succeeded run i"
    "\<forall>i \<in> set (ew_items w). set (run_dependencies edges i) \<subseteq> set (gs_completed gs)"
    using Cons.prems(4,5) by auto
  obtain gs1 where 1: "run_wave run groupId edges opts (max 0 (clock (Suc k) - clock 0)) w gs = Some gs1" "clean_state gs1"
      "gs_calls gs1 = gs_calls gs @ [ew_items w]" "set (gs_completed gs1) = set (gs_completed gs) \<union> wi_taskId ` set (ew_items w)"
    using run_wave_success[OF Cons.prems(1,2) ok] by blast
  have "regular_waves cl limit deps (set (gs_completed gs1)) ws" using Cons.prems(5) 1(4) by simp
  moreover have "\<forall>i \<in> set (concat (map ew_items ws)). succeeded run i \<and>
      set (run_dependencies edges i) = set (js_lookup deps (wi_taskId i) [])" using Cons.prems(4) by simp
  ultimately obtain gs' where "run_waves run groupId edges opts clock cancelled all (Suc k) ws gs1 = Some gs'" "clean_state gs'"
    "gs_calls gs' = gs_calls gs1 @ map ew_items ws"
    using Cons.IH[OF 1(2) Cons.prems(2,3)] by blast
  then show ?case using 1 spec[OF Cons.prems(3), of k] by auto
qed simp

text \<open>Dependencies among the items that are well founded: \<open>rank\<close> grows along them.\<close>

definition ranked_items :: "(string \<Rightarrow> nat) \<Rightarrow> dependency_edge list \<Rightarrow> work_item list \<Rightarrow> bool" where
  "ranked_items rank edges items \<longleftrightarrow> (\<forall>i \<in> set items. \<forall>d \<in> set (run_dependencies edges i).
    d \<in> wi_taskId ` set items \<and> rank d < rank (wi_taskId i))"

lemma ranked_map:
  "distinct (map wi_taskId items) \<Longrightarrow> ranked_items rank edges items \<Longrightarrow>
    ranked rank (dependency_map items edges) (wi_taskId ` set items)"
  by (auto simp: ranked_def ranked_items_def dependency_map_item)

lemma plan_regular:
  assumes "distinct (map wi_taskId items)" "ranked_items rank edges items" "limits_allow_one cl"
  shows "regular_waves cl (max_one (opt_or limit (Fin (of_nat (length items))))) (dependency_map items edges) {}
    (plan_execution_waves items edges limit cl)"
  unfolding plan_execution_waves_def
  using plan_loop_regular[OF assms(3) ranked_map[OF assms(1,2)], of "uniq (map wi_taskId items)" "[]"] by simp

text \<open>C22: When the dependencies are among the items and well founded, and no concurrency limit rounds down to
  nothing, every wave of the plan respects the size limit, the limits per agent, tool and server, and the
  locks, and depends only on earlier waves: the fallback that runs an arbitrary item is never taken.\<close>

theorem plan_waves_regular:
  assumes "distinct (map wi_taskId items)" "ranked_items rank edges items" "limits_allow_one cl"
    and "k < length (plan_execution_waves items edges limit cl)"
  shows "wave_fits cl (max_one (opt_or limit (Fin (of_nat (length items))))) (ew_items (plan_execution_waves items edges limit cl ! k))
    \<and> (\<forall>i \<in> set (ew_items (plan_execution_waves items edges limit cl ! k)). \<forall>d \<in> set (run_dependencies edges i).
        \<exists>j < k. d \<in> wi_taskId ` set (ew_items (plan_execution_waves items edges limit cl ! j)))"
proof -
  note reg = plan_regular[OF assms(1-3), of limit]
  have "set (ew_items (plan_execution_waves items edges limit cl ! k)) \<subseteq> set items"
    using plan_tasks(3)[of items edges limit cl] assms(4) nth_mem by fastforce
  then show ?thesis
    using regular_waves_fit[OF reg assms(4)] regular_waves_nth[OF reg assms(4)] dependency_map_item[OF assms(1)] by blast
qed

lemma select_items_unlimited: "\<exists>t'. select_items None t items = (items, [], t')"
proof (induction items arbitrary: t)
  case (Cons i items)
  then obtain t' where "select_items None (add_totals i t) items = (items, [], t')" by blast
  then show ?case by (simp add: budget_exceeded_reason_def)
qed simp

text \<open>Such a group without budget and time limit, never cancelled, whose runs all complete, calls exactly
  the waves of its plan, one after the other, and is reported completed.\<close>

lemma group_completes:
  assumes "distinct (map wi_taskId items)" "ranked_items rank (pg_dependencyEdges g) items" "limits_allow_one (go_concurrency opts)"
    and "items \<noteq> []" "go_budget opts = None" "go_lockWaitTimeoutMs opts = None" "\<forall>k. \<not> cancelled k"
    and "\<forall>i \<in> set items. \<exists>r. run i = Some (Fulfilled r) \<and> ro_status r = SS_completed"
  shows "\<exists>res labels. run_group run g items opts clock cancelled =
      Some (res, labels, map ew_items (plan_execution_waves items (pg_dependencyEdges g) (Some (pg_concurrencyLimit g)) (go_concurrency opts)))
    \<and> gp_status res = GR_completed"
proof -
  let ?edges = "pg_dependencyEdges g" and ?cl = "go_concurrency opts"
  let ?waves = "plan_execution_waves items ?edges (Some (pg_concurrencyLimit g)) ?cl"
  let ?bd = "\<lparr>bd_status = BS_ok, bd_reasonCodes = [], bd_selectedTaskIds = map wi_taskId items, bd_skipped = [],
    bd_totals = snd (snd (select_items None no_totals items))\<rparr>"
  obtain t' where "select_items None no_totals items = (items, [], t')" using select_items_unlimited by blast
  then have sel: "apply_session_budget items (go_budget opts) = (items, ?bd)"
    using assms(5) by (simp add: apply_session_budget_def)
  let ?gs = "start_group g opts ?waves ?bd"
  have clean: "clean_state ?gs" by (simp add: clean_state_def start_group_same)
  have sub: "set (concat (map ew_items ?waves)) \<subseteq> set items" by (rule plan_tasks(3))
  have ok: "\<forall>i \<in> set (concat (map ew_items ?waves)). succeeded run i
      \<and> set (run_dependencies ?edges i) = set (js_lookup (dependency_map items ?edges) (wi_taskId i) [])"
  proof
    fix i assume "i \<in> set (concat (map ew_items ?waves))"
    then have i: "i \<in> set items" using sub by blast
    then show "succeeded run i \<and> set (run_dependencies ?edges i) = set (js_lookup (dependency_map items ?edges) (wi_taskId i) [])"
      using assms(8) dependency_map_item[OF assms(1) i] unfolding succeeded_def by simp
  qed
  have reg: "regular_waves ?cl (max_one (opt_or (Some (pg_concurrencyLimit g)) (Fin (of_nat (length items)))))
      (dependency_map items ?edges) (set (gs_completed ?gs)) ?waves"
    using plan_regular[OF assms(1-3), of "Some (pg_concurrencyLimit g)"] by (simp add: start_group_same)
  obtain gs' where gs': "run_waves run (pg_groupId g) ?edges opts clock cancelled ?waves 0 ?waves ?gs = Some gs'" "clean_state gs'"
    "gs_calls gs' = gs_calls ?gs @ map ew_items ?waves"
    using run_waves_success[OF clean assms(6,7) ok reg] by blast
  then have "resolve_group_status (gs_outcomes gs') (gs_skipped gs') ?bd = GR_completed"
    by (auto simp: resolve_group_status_def clean_state_def)
  then show ?thesis using gs' sel assms(4) by (simp add: run_group_def Let_def start_group_same)
qed

section \<open>Budgets\<close>

lemma numeric_estimate_nonneg [simp]: "0 \<le> numeric_estimate x"
  by (cases x rule: numeric_estimate.cases) auto

definition within_budget :: "session_budget \<Rightarrow> budget_totals \<Rightarrow> bool" where
  "within_budget b t \<longleftrightarrow> (case normalized_positive_limit (bu_maxChildren b) of None \<Rightarrow> True | Some m \<Rightarrow> bt_childCount t \<le> m)
    \<and> \<not> over (bt_estimatedCost t) (positive_budget_value (bu_maxEstimatedCost b))
    \<and> \<not> over (bt_estimatedDurationMs t) (positive_budget_value (bu_maxEstimatedDurationMs b))"

definition totals_of :: "budget_totals \<Rightarrow> work_item list \<Rightarrow> budget_totals" where
  "totals_of t items = fold add_totals items t"

lemma select_items_within:
  "within_budget b t \<Longrightarrow> select_items (Some b) t items = (sel, sk, t') \<Longrightarrow> within_budget b t' \<and> t' = totals_of t sel"
proof (induction "Some b" t items arbitrary: sel sk rule: select_items.induct)
  case (2 t item items)
  show ?case
  proof (cases "budget_exceeded_reason (Some b) t item")
    case None
    then have "within_budget b (add_totals item t)"
      using "2.prems"(1)
      by (auto simp: budget_exceeded_reason_def within_budget_def add_totals_def split: if_splits option.splits)
    then show ?thesis using 2 None by (auto simp: totals_of_def split: prod.splits)
  next
    case (Some r)
    then show ?thesis using 2 by (auto split: prod.splits)
  qed
qed (simp add: totals_of_def)

lemma totals_of_counts:
  "bt_childCount (totals_of t items) = bt_childCount t + length items
   \<and> bt_estimatedCost (totals_of t items) = bt_estimatedCost t + (\<Sum>i \<leftarrow> items. numeric_estimate (wi_estimatedCost i))
   \<and> bt_estimatedDurationMs (totals_of t items) = bt_estimatedDurationMs t + (\<Sum>i \<leftarrow> items. numeric_estimate (wi_estimatedDurationMs i))"
  by (induction items arbitrary: t) (auto simp: totals_of_def add_totals_def)

lemma positive_budget_value_nonneg: "positive_budget_value x = Some b \<Longrightarrow> 0 \<le> b"
  by (cases x rule: positive_budget_value.cases) (auto split: if_splits)

lemma within_budget_start: "within_budget b no_totals"
  using positive_budget_value_nonneg
  by (force simp: within_budget_def no_totals_def over_def split: option.split)

text \<open>The items that a budget leaves stay within the number of children, the cost and the time it allows,
  and every item is either selected or skipped.\<close>

lemma budget_respected:
  "(case normalized_positive_limit (bu_maxChildren b) of None \<Rightarrow> True
      | Some m \<Rightarrow> length (fst (apply_session_budget items (Some b))) \<le> m)
   \<and> \<not> over (\<Sum>i \<leftarrow> fst (apply_session_budget items (Some b)). numeric_estimate (wi_estimatedCost i))
       (positive_budget_value (bu_maxEstimatedCost b))
   \<and> \<not> over (\<Sum>i \<leftarrow> fst (apply_session_budget items (Some b)). numeric_estimate (wi_estimatedDurationMs i))
       (positive_budget_value (bu_maxEstimatedDurationMs b))
   \<and> mset (map sk_taskId (bd_skipped (snd (apply_session_budget items (Some b)))))
       + mset (map wi_taskId (fst (apply_session_budget items (Some b)))) = mset (map wi_taskId items)"
proof -
  obtain sel sk t where s: "select_items (Some b) no_totals items = (sel, sk, t)" by (metis prod_cases3)
  have "within_budget b t" "t = totals_of no_totals sel" using select_items_within[OF within_budget_start s] by blast+
  moreover have "mset (map sk_taskId sk) + mset (map wi_taskId sel) = mset (map wi_taskId items)"
    using select_items_subseq[OF s] by simp
  moreover have "fst (apply_session_budget items (Some b)) = sel" "bd_skipped (snd (apply_session_budget items (Some b))) = sk"
    by (simp_all add: apply_session_budget_def s)
  moreover have "bt_childCount (totals_of no_totals sel) = length sel"
    "bt_estimatedCost (totals_of no_totals sel) = (\<Sum>i \<leftarrow> sel. numeric_estimate (wi_estimatedCost i))"
    "bt_estimatedDurationMs (totals_of no_totals sel) = (\<Sum>i \<leftarrow> sel. numeric_estimate (wi_estimatedDurationMs i))"
    using totals_of_counts[of no_totals sel] by (simp_all add: no_totals_def)
  ultimately show ?thesis by (auto simp: within_budget_def split: option.splits)
qed

section \<open>Concrete groups\<close>

definition sample_item :: "string \<Rightarrow> string list \<Rightarrow> resource_lock list \<Rightarrow> work_item" where
  "sample_item t deps locks = \<lparr>wi_taskId = t, wi_subSessionId = ''s'' @ t, wi_agentId = Some ''agent'', wi_toolNames = [''web''],
     wi_mcpServerIds = [], wi_estimatedCost = Some (Fin 2), wi_estimatedDurationMs = None,
     wi_resourceLocks = locks, wi_dependencies = deps\<rparr>"

definition sample_lock :: resource_lock where
  "sample_lock = \<lparr>rk_kind = ''file'', rk_target = ''out.txt'', rk_mode = LM_exclusive\<rparr>"

definition sample_items :: "work_item list" where
  "sample_items = [sample_item ''c'' [''a''] [], sample_item ''a'' [] [sample_lock], sample_item ''b'' [] [sample_lock]]"

definition sample_limits :: concurrency_limits where
  "sample_limits = \<lparr>cl_agents = [], cl_tools = [], cl_mcpServers = [], cl_defaultAgent = Some (Fin 2), cl_defaultTool = None,
     cl_defaultMcpServer = None\<rparr>"

definition sample_group :: parallel_group where
  "sample_group = \<lparr>pg_groupId = ''g'', pg_subSessionIds = [''sa'', ''sb'', ''sc''],
     pg_dependencyEdges = [\<lparr>dg_fromTaskId = ''b'', dg_toTaskId = ''c''\<rparr>], pg_concurrencyLimit = Fin 3\<rparr>"

definition sample_options :: group_options where
  "sample_options = \<lparr>go_runId = Some ''run'', go_lockWaitTimeoutMs = None, go_budget = None, go_concurrency = sample_limits\<rparr>"

definition sample_run :: "work_item \<Rightarrow> run_result option" where
  "sample_run i = Some (if wi_taskId i = ''b'' then Rejected else Fulfilled \<lparr>ro_status = SS_completed, ro_payload = JNull\<rparr>)"

definition all_run :: "work_item \<Rightarrow> run_result option" where
  "all_run i = Some (Fulfilled \<lparr>ro_status = SS_completed, ro_payload = JNull\<rparr>)"

lemma sample_plan:
  "map (\<lambda>w. map wi_taskId (ew_items w)) (plan_execution_waves sample_items (pg_dependencyEdges sample_group) (Some (Fin 3)) sample_limits)
    = [[''a''], [''b''], [''c'']]"
  by code_simp

definition pair_items :: "work_item list" where
  "pair_items = [sample_item ''a'' [] [sample_lock], sample_item ''b'' [] [sample_lock]]"

definition result_summary :: "(group_result \<times> string list \<times> work_item list list) option \<Rightarrow> (group_status \<times> string list list) option" where
  "result_summary = map_option (\<lambda>r. (gp_status (fst r), map (map wi_taskId) (snd (snd r))))"

lemma sample_rejected:
  "result_summary (run_group sample_run sample_group pair_items sample_options (\<lambda>_. 0) (\<lambda>_. False))
    = Some (GR_completed, [[''a''], [''b'']])"
  by code_simp

lemma sample_blocked:
  "result_summary (run_group sample_run sample_group sample_items sample_options (\<lambda>_. 0) (\<lambda>_. False))
    = Some (GR_failed, [[''a''], [''b''], []])"
  by code_simp

lemma result_summaryD: "result_summary r = Some (st, cs) \<Longrightarrow>
    \<exists>res labels calls. r = Some (res, labels, calls) \<and> gp_status res = st \<and> map (map wi_taskId) calls = cs"
  by (auto simp: result_summary_def)

theorem group_runs_after_dependencies_witness:
  "\<exists>res labels calls. run_group all_run sample_group sample_items sample_options (\<lambda>_. 0) (\<lambda>_. False) = Some (res, labels, calls)
    \<and> map (map wi_taskId) calls = [[''a''], [''b''], [''c'']] \<and> distinct (map wi_taskId (concat calls))"
proof -
  have summary: "result_summary (run_group all_run sample_group sample_items sample_options (\<lambda>_. 0) (\<lambda>_. False))
      = Some (GR_completed, [[''a''], [''b''], [''c'']])" by code_simp
  obtain res labels calls where r: "run_group all_run sample_group sample_items sample_options (\<lambda>_. 0) (\<lambda>_. False) = Some (res, labels, calls)"
    "map (map wi_taskId) calls = [[''a''], [''b''], [''c'']]"
    using result_summaryD[OF summary] by (elim exE conjE)
  show ?thesis
    using r conjunct1[OF group_runs_after_dependencies[OF r(1)]] by (intro exI[of _ res] exI[of _ labels] exI[of _ calls] conjI)
qed

text \<open>The run of \<open>b\<close> is rejected and the group is reported completed.\<close>

theorem group_completed_witness:
  "\<exists>res labels calls. run_group sample_run sample_group pair_items sample_options (\<lambda>_. 0) (\<lambda>_. False) = Some (res, labels, calls)
    \<and> gp_status res = GR_completed \<and> gp_skipped res = [] \<and> wi_taskId ` set (concat calls) = {''a'', ''b''}
    \<and> sample_run (sample_item ''b'' [] [sample_lock]) = Some Rejected"
proof -
  obtain res labels calls where r: "run_group sample_run sample_group pair_items sample_options (\<lambda>_. 0) (\<lambda>_. False) = Some (res, labels, calls)"
    "gp_status res = GR_completed" using result_summaryD[OF sample_rejected] by (elim exE conjE)
  have "wi_taskId ` set pair_items = {''a'', ''b''}" by (simp add: pair_items_def sample_item_def)
  moreover have "sample_run (sample_item ''b'' [] [sample_lock]) = Some Rejected" by (simp add: sample_run_def sample_item_def)
  ultimately show ?thesis using group_completed[OF r] r by auto
qed

lemma sample_ranked: "ranked_items (\<lambda>t. if t = ''c'' then 1 else 0) (pg_dependencyEdges sample_group) sample_items"
  by (simp add: ranked_items_def sample_items_def sample_item_def sample_group_def run_dependencies_def)

lemma sample_distinct: "distinct (map wi_taskId sample_items)"
  by (simp add: sample_items_def sample_item_def)

lemma sample_allow: "limits_allow_one sample_limits"
  by (simp add: limits_allow_one_def limit_for_def sample_limits_def)

theorem plan_waves_regular_witness:
  "map wi_taskId (ew_items (plan_execution_waves sample_items (pg_dependencyEdges sample_group) (Some (Fin 3)) sample_limits ! 2)) = [''c'']
   \<and> wave_fits sample_limits (Fin 3)
      (ew_items (plan_execution_waves sample_items (pg_dependencyEdges sample_group) (Some (Fin 3)) sample_limits ! 2))"
proof -
  let ?plan = "plan_execution_waves sample_items (pg_dependencyEdges sample_group) (Some (Fin 3)) sample_limits"
  have len: "2 < length ?plan" using arg_cong[OF sample_plan, of length] by simp
  moreover have "map wi_taskId (ew_items (?plan ! 2)) = [''c'']"
    using arg_cong[OF sample_plan, of "\<lambda>xs. xs ! 2"] len by simp
  ultimately show ?thesis using plan_waves_regular[OF sample_distinct sample_ranked sample_allow, of 2 "Some (Fin 3)"] by simp
qed

lemma group_completes_witness:
  "\<exists>res labels. run_group all_run sample_group sample_items sample_options (\<lambda>_. 0) (\<lambda>_. False) =
      Some (res, labels, map ew_items (plan_execution_waves sample_items (pg_dependencyEdges sample_group) (Some (Fin 3)) sample_limits))
    \<and> gp_status res = GR_completed"
proof -
  have "\<forall>i \<in> set sample_items. \<exists>r. all_run i = Some (Fulfilled r) \<and> ro_status r = SS_completed"
    by (simp add: all_run_def)
  then show ?thesis
    using group_completes[OF sample_distinct sample_ranked, of sample_options "\<lambda>_. False" all_run "\<lambda>_. 0"] sample_allow
    by (simp add: sample_options_def sample_group_def sample_items_def)
qed

end
