(* ===== verification/Delegation_Graph.thy ===== *)
theory Delegation_Graph
  imports Contracts
begin

text \<open>
  The delegation graph of \<open>topology/validator.ts\<close>: the issues the validator reports, the adjacency lists
  it builds from children and \<open>delegates_to\<close> relations, the depth-first search for cycles and the
  enumeration of simple paths that exceed the depth limit.

  Sets of ids are lists without duplicates; the recursion is on the vertices that are not on the current
  path, so neither search needs fuel.
\<close>

section \<open>Issues\<close>

datatype issue_severity = SV_info | SV_warning | SV_blocked | SV_invalid

text \<open>\<open>reasonCode\<close> always equals \<open>code\<close> and is dropped.\<close>

record topology_issue =
  ts_path :: string
  ts_code :: string
  ts_severity :: issue_severity
  ts_message :: string
  ts_entityId :: "string option"
  ts_entityType :: "entity_type option"
  ts_relationId :: "string option"
  ts_refId :: "string option"
  ts_refType :: "entity_type option"
  ts_sourceEntityId :: "string option"
  ts_targetEntityId :: "string option"

definition topology_issue_of :: "string \<Rightarrow> string \<Rightarrow> issue_severity \<Rightarrow> string \<Rightarrow> topology_issue" where
  "topology_issue_of path code severity message =
    \<lparr>ts_path = path, ts_code = code, ts_severity = severity, ts_message = message, ts_entityId = None,
     ts_entityType = None, ts_relationId = None, ts_refId = None, ts_refType = None, ts_sourceEntityId = None,
     ts_targetEntityId = None\<rparr>"

definition entity_issue :: "string \<Rightarrow> string \<Rightarrow> issue_severity \<Rightarrow> string \<Rightarrow> entity_type \<Rightarrow> string \<Rightarrow> topology_issue" where
  "entity_issue path code severity message ty i =
    (topology_issue_of path code severity message)\<lparr>ts_entityId := Some i, ts_entityType := Some ty\<rparr>"

lemma entity_issue_simps [simp]:
  "ts_code (entity_issue path code severity message ty i) = code"
  "ts_severity (entity_issue path code severity message ty i) = severity"
  "ts_path (entity_issue path code severity message ty i) = path"
  by (simp_all add: entity_issue_def topology_issue_of_def)

section \<open>Issues that block execution\<close>

definition severe :: "topology_issue \<Rightarrow> bool" where
  "severe i \<longleftrightarrow> ts_severity i = SV_blocked \<or> ts_severity i = SV_invalid"

text \<open>No issue that blocks execution.\<close>

definition clean :: "topology_issue list \<Rightarrow> bool" where
  "clean xs \<longleftrightarrow> (\<forall>i \<in> set xs. \<not> severe i)"

lemma clean_simps [simp]:
  "clean []" "clean (i # xs) \<longleftrightarrow> \<not> severe i \<and> clean xs" "clean (xs @ ys) \<longleftrightarrow> clean xs \<and> clean ys"
  by (auto simp: clean_def)

section \<open>Adjacency\<close>

record delegation_edge =
  de_from :: string
  de_to :: string
  de_path :: string
  de_relationId :: "string option"

type_synonym adjacency = "(string, delegation_edge list) jsmap"

definition add_graph_edge :: "delegation_edge \<Rightarrow> adjacency \<Rightarrow> adjacency" where
  "add_graph_edge e adj = AList.update (de_from e) (js_lookup adj (de_from e) [] @ [e]) adj"

abbreviation edges_from :: "adjacency \<Rightarrow> string \<Rightarrow> delegation_edge list" where
  "edges_from adj n \<equiv> js_lookup adj n []"

text \<open>The graph the searches walk: edges to nodes of the topology.\<close>

definition known_edges :: "adjacency \<Rightarrow> string list \<Rightarrow> (string \<times> string) set" where
  "known_edges adj nodes = {(u, v). v \<in> set nodes \<and> v \<in> de_to ` set (edges_from adj u)}"

definition edge_issue :: "delegation_edge \<Rightarrow> string \<Rightarrow> issue_severity \<Rightarrow> string \<Rightarrow> topology_issue" where
  "edge_issue e code severity message =
    (entity_issue (de_path e) code severity message ET_node (de_from e))
      \<lparr>ts_relationId := de_relationId e, ts_sourceEntityId := Some (de_from e), ts_targetEntityId := Some (de_to e)\<rparr>"

section \<open>Cycles\<close>

record cycle_state =
  cy_visited :: "string list"
  cy_reported :: "string list"
  cy_issues :: "topology_issue list"

definition report_cycle :: "string list \<Rightarrow> delegation_edge \<Rightarrow> cycle_state \<Rightarrow> cycle_state" where
  "report_cycle path e st =
    (let cyclePath = dropWhile (\<lambda>n. n \<noteq> de_to e) path @ [de_to e]; key = join ''>'' cyclePath in
     if key \<in> set (cy_reported st) then st
     else st\<lparr>cy_reported := cy_reported st @ [key],
       cy_issues := cy_issues st @ [edge_issue e ''delegation_cycle'' SV_invalid
         (''Delegation graph contains a cycle: '' @ join '' -> '' cyclePath @ ''.'')]\<rparr>)"

text \<open>\<open>visit\<close> of the target of each edge; \<open>path\<close> holds the vertices in \<open>visiting\<close>.\<close>

function cycle_edges :: "adjacency \<Rightarrow> string list \<Rightarrow> string list \<Rightarrow> delegation_edge list \<Rightarrow> cycle_state \<Rightarrow> cycle_state" where
  "cycle_edges adj nodes path [] st = st"
| "cycle_edges adj nodes path (e # es) st = cycle_edges adj nodes path es
    (if de_to e \<notin> set nodes then st
     else if de_to e \<in> set path then report_cycle path e st
     else if de_to e \<in> set (cy_visited st) then st
     else (cycle_edges adj nodes (path @ [de_to e]) (edges_from adj (de_to e)) st)
       \<lparr>cy_visited := add_unique (cy_visited (cycle_edges adj nodes (path @ [de_to e]) (edges_from adj (de_to e)) st)) (de_to e)\<rparr>)"
  by pat_completeness auto
termination
  by (relation "(\<lambda>(_, nodes, path, _, _). card (set nodes - set path)) <*mlex*> measure (\<lambda>(_, _, _, es, _). length es)")
    (auto simp: wf_mlex mlex_less mlex_leq intro!: mlex_less psubset_card_mono)

definition cycle_visit :: "adjacency \<Rightarrow> string list \<Rightarrow> string \<Rightarrow> cycle_state \<Rightarrow> cycle_state" where
  "cycle_visit adj nodes n st =
    (if n \<in> set (cy_visited st) then st
     else let st' = cycle_edges adj nodes [n] (edges_from adj n) st in st'\<lparr>cy_visited := add_unique (cy_visited st') n\<rparr>)"

definition detect_delegation_cycles :: "adjacency \<Rightarrow> string list \<Rightarrow> topology_issue list" where
  "detect_delegation_cycles adj nodes =
    cy_issues (fold (cycle_visit adj nodes) nodes \<lparr>cy_visited = [], cy_reported = [], cy_issues = []\<rparr>)"

text \<open>Soundness: an acyclic graph has no cycle to report.\<close>

lemma last_reaches:
  "successively (\<lambda>u v. (u, v) \<in> G) path \<Longrightarrow> x \<in> set path \<Longrightarrow> (x, last path) \<in> G\<^sup>*"
proof (induction path arbitrary: x)
  case (Cons y ys)
  show ?case
  proof (cases "ys = []")
    case False
    then have step: "(y, hd ys) \<in> G" "successively (\<lambda>u v. (u, v) \<in> G) ys"
      using Cons.prems(1) by (auto simp: successively_Cons)
    have "(hd ys, last ys) \<in> G\<^sup>*" using Cons.IH[OF step(2)] False by simp
    then have "(y, last ys) \<in> G\<^sup>*" using step(1) by (meson converse_rtrancl_into_rtrancl)
    then show ?thesis using Cons.IH[OF step(2)] Cons.prems(2) False by auto
  qed (use Cons.prems in simp)
qed simp

lemma cycle_edges_sound:
  assumes "acyclic (known_edges adj nodes)" "path \<noteq> []"
    and "successively (\<lambda>u v. (u, v) \<in> known_edges adj nodes) path" "set es \<subseteq> set (edges_from adj (last path))"
  shows "cy_issues (cycle_edges adj nodes path es st) = cy_issues st"
  using assms
proof (induction adj nodes path es st rule: cycle_edges.induct)
  case (2 adj nodes path e es st)
  let ?G = "known_edges adj nodes"
  have edge: "(last path, de_to e) \<in> ?G" if "de_to e \<in> set nodes"
    using "2.prems"(4) that by (auto simp: known_edges_def)
  have no: "de_to e \<notin> set path" if "de_to e \<in> set nodes"
    using edge[OF that] last_reaches[OF "2.prems"(3), of "de_to e"] "2.prems"(1) unfolding acyclic_def
    by (meson rtrancl_into_trancl1)
  have chain: "successively (\<lambda>u v. (u, v) \<in> ?G) (path @ [de_to e])" if "de_to e \<in> set nodes"
    using edge[OF that] "2.prems"(2,3) by (auto simp: successively_append_iff)
  show ?case
    using 2 no chain by auto
qed simp

lemma detect_cycles_sound:
  assumes "acyclic (known_edges adj nodes)"
  shows "detect_delegation_cycles adj nodes = []"
proof -
  have "cy_issues (cycle_visit adj nodes n st) = cy_issues st" for n st
    using cycle_edges_sound[OF assms, of "[n]" "edges_from adj n" st] by (simp add: cycle_visit_def Let_def)
  then have "cy_issues (fold (cycle_visit adj nodes) ns st) = cy_issues st" for ns st
    by (induction ns arbitrary: st) auto
  then show ?thesis by (simp add: detect_delegation_cycles_def)
qed

text \<open>Completeness: without a report, every visited vertex comes after its successors.\<close>

definition consistent :: "cycle_state \<Rightarrow> bool" where
  "consistent st \<longleftrightarrow> (cy_issues st = [] \<longleftrightarrow> cy_reported st = [])"

fun ordered :: "('a \<times> 'a) set \<Rightarrow> 'a set \<Rightarrow> 'a list \<Rightarrow> bool" where
  "ordered G before [] \<longleftrightarrow> True"
| "ordered G before (x # xs) \<longleftrightarrow> G `` {x} \<subseteq> before \<and> ordered G (insert x before) xs"

lemma ordered_append: "ordered G before (xs @ ys) \<longleftrightarrow> ordered G before xs \<and> ordered G (before \<union> set xs) ys"
  by (induction xs arbitrary: before) auto

lemma ordered_acyclic: "ordered G {} xs \<Longrightarrow> Range G \<subseteq> set xs \<Longrightarrow> acyclic G"
proof (rule ccontr)
  assume ord: "ordered G {} xs" and range: "Range G \<subseteq> set xs" and cyc: "\<not> acyclic G"
  then obtain x where x: "(x, x) \<in> G\<^sup>+" by (auto simp: acyclic_def)
  have no: "y \<in> set ys \<Longrightarrow> (y, y) \<notin> G\<^sup>+" if "ordered G {} ys" for y ys
    using that
  proof (induction ys rule: rev_induct)
    case (snoc z zs)
    have "ordered G {} as \<Longrightarrow> G `` set as \<subseteq> set as" for as
      by (induction as rule: rev_induct) (auto simp: ordered_append)
    then have sub: "G `` set zs \<subseteq> set zs" "G `` {z} \<subseteq> set zs" using snoc.prems(2) by (auto simp: ordered_append)
    have closed: "(u, v) \<in> G\<^sup>+ \<Longrightarrow> u \<in> insert z (set zs) \<Longrightarrow> v \<in> set zs" for u v
      by (induction rule: trancl_induct) (use sub in auto)
    show ?case
    proof
      assume c: "(y, y) \<in> G\<^sup>+"
      then have "y \<in> set zs" using closed snoc.prems(1) by auto
      then show False using snoc.IH c snoc.prems(2) by (simp add: ordered_append)
    qed
  qed simp
  have "x \<in> Range G" using x by (metis Range.simps tranclE)
  then show False using no[OF ord] x range by blast
qed

lemma report_consistent: "consistent st \<Longrightarrow> consistent (report_cycle path e st)"
  by (auto simp: consistent_def report_cycle_def Let_def)

lemma report_issues: "consistent st \<Longrightarrow> cy_issues (report_cycle path e st) \<noteq> []"
  by (auto simp: consistent_def report_cycle_def Let_def)

lemma cycle_edges_mono: "\<exists>xs. cy_issues (cycle_edges adj nodes path es st) = cy_issues st @ xs"
proof (induction adj nodes path es st rule: cycle_edges.induct)
  case (2 adj nodes path e es st)
  have "\<exists>xs. cy_issues (report_cycle path e st) = cy_issues st @ xs" by (simp add: report_cycle_def Let_def)
  then show ?case using 2 by (fastforce split: if_splits)
qed simp

lemma cycle_edges_complete:
  assumes "consistent st" "cy_issues (cycle_edges adj nodes path es st) = []"
    and "ordered (known_edges adj nodes) {} (cy_visited st)" "set path \<inter> set (cy_visited st) = {}"
  shows "consistent (cycle_edges adj nodes path es st)
    \<and> ordered (known_edges adj nodes) {} (cy_visited (cycle_edges adj nodes path es st))
    \<and> set path \<inter> set (cy_visited (cycle_edges adj nodes path es st)) = {}
    \<and> set (cy_visited st) \<subseteq> set (cy_visited (cycle_edges adj nodes path es st))
    \<and> de_to ` set es \<inter> set nodes \<subseteq> set (cy_visited (cycle_edges adj nodes path es st))"
  using assms
proof (induction adj nodes path es st rule: cycle_edges.induct)
  case (2 adj nodes path e es st)
  let ?G = "known_edges adj nodes"
  consider (out) "de_to e \<notin> set nodes"
    | (cycle) "de_to e \<in> set nodes" "de_to e \<in> set path"
    | (old) "de_to e \<in> set nodes" "de_to e \<notin> set path" "de_to e \<in> set (cy_visited st)"
    | (new) "de_to e \<in> set nodes" "de_to e \<notin> set path" "de_to e \<notin> set (cy_visited st)" by blast
  then show ?case
  proof cases
    case out
    then show ?thesis using 2 by auto
  next
    case cycle
    then have "cy_issues (cycle_edges adj nodes path es (report_cycle path e st)) = []" using "2.prems"(2) by simp
    then have "cy_issues (report_cycle path e st) = []"
      using cycle_edges_mono[of adj nodes path es "report_cycle path e st"] by auto
    then show ?thesis using report_issues[OF "2.prems"(1)] by simp
  next
    case old
    then show ?thesis using 2 by auto
  next
    case new
    define inner where "inner = cycle_edges adj nodes (path @ [de_to e]) (edges_from adj (de_to e)) st"
    define st1 where "st1 = inner\<lparr>cy_visited := add_unique (cy_visited inner) (de_to e)\<rparr>"
    have step: "cycle_edges adj nodes path (e # es) st = cycle_edges adj nodes path es st1"
      using new by (simp add: inner_def st1_def)
    have "cy_issues st1 = []" using cycle_edges_mono[of adj nodes path es st1] "2.prems"(2) unfolding step by auto
    then have none: "cy_issues inner = []" by (simp add: st1_def)
    have i: "consistent inner \<and> ordered ?G {} (cy_visited inner) \<and> set (path @ [de_to e]) \<inter> set (cy_visited inner) = {}
        \<and> set (cy_visited st) \<subseteq> set (cy_visited inner)
        \<and> de_to ` set (edges_from adj (de_to e)) \<inter> set nodes \<subseteq> set (cy_visited inner)"
      unfolding inner_def
    proof (rule "2.IH"(1))
      show "\<not> de_to e \<notin> set nodes" "de_to e \<notin> set path" "de_to e \<notin> set (cy_visited st)" using new by auto
      show "consistent st" "ordered ?G {} (cy_visited st)" using "2.prems" by auto
      show "set (path @ [de_to e]) \<inter> set (cy_visited st) = {}" using new "2.prems"(4) by auto
      show "cy_issues (cycle_edges adj nodes (path @ [de_to e]) (edges_from adj (de_to e)) st) = []"
        using none by (simp add: inner_def)
    qed
    have fresh: "de_to e \<notin> set (cy_visited inner)" using i by auto
    have "?G `` {de_to e} \<subseteq> set (cy_visited inner)" using i by (auto simp: known_edges_def)
    then have "ordered ?G {} (cy_visited st1)" using i fresh by (simp add: st1_def add_unique_def ordered_append)
    moreover have "consistent st1" using i by (simp add: st1_def consistent_def)
    moreover have "set path \<inter> set (cy_visited st1) = {}" using i new by (auto simp: st1_def)
    ultimately have "consistent (cycle_edges adj nodes path es st1) \<and> ordered ?G {} (cy_visited (cycle_edges adj nodes path es st1))
      \<and> set path \<inter> set (cy_visited (cycle_edges adj nodes path es st1)) = {}
      \<and> set (cy_visited st1) \<subseteq> set (cy_visited (cycle_edges adj nodes path es st1))
      \<and> de_to ` set es \<inter> set nodes \<subseteq> set (cy_visited (cycle_edges adj nodes path es st1))"
      using "2.IH"(3) "2.prems"(2) new step unfolding st1_def inner_def by simp
    then show ?thesis using i unfolding step by (auto simp: st1_def)
  qed
qed simp

lemma cycle_visit_complete:
  assumes "consistent st" "cy_issues (cycle_visit adj nodes n st) = []" "ordered (known_edges adj nodes) {} (cy_visited st)"
  shows "consistent (cycle_visit adj nodes n st) \<and> ordered (known_edges adj nodes) {} (cy_visited (cycle_visit adj nodes n st))
    \<and> insert n (set (cy_visited st)) \<subseteq> set (cy_visited (cycle_visit adj nodes n st))"
proof (cases "n \<in> set (cy_visited st)")
  case False
  let ?st = "cycle_edges adj nodes [n] (edges_from adj n) st"
  have none: "cy_issues ?st = []" using assms(2) False by (simp add: cycle_visit_def Let_def)
  have c: "consistent ?st \<and> ordered (known_edges adj nodes) {} (cy_visited ?st) \<and> set [n] \<inter> set (cy_visited ?st) = {}
      \<and> set (cy_visited st) \<subseteq> set (cy_visited ?st) \<and> de_to ` set (edges_from adj n) \<inter> set nodes \<subseteq> set (cy_visited ?st)"
    using False assms none by (intro cycle_edges_complete) auto
  then have "known_edges adj nodes `` {n} \<subseteq> set (cy_visited ?st)" by (auto simp: known_edges_def)
  then show ?thesis
    using c False by (auto simp: cycle_visit_def Let_def add_unique_def ordered_append consistent_def)
qed (use assms in \<open>simp add: cycle_visit_def\<close>)

lemma detect_cycles_complete:
  assumes "detect_delegation_cycles adj nodes = []"
  shows "acyclic (known_edges adj nodes)"
proof -
  let ?G = "known_edges adj nodes"
  have mono: "\<exists>xs. cy_issues (fold (cycle_visit adj nodes) ns st) = cy_issues st @ xs" for ns st
  proof (induction ns arbitrary: st)
    case (Cons n ns)
    have "\<exists>xs. cy_issues (cycle_visit adj nodes n st) = cy_issues st @ xs"
      using cycle_edges_mono[of adj nodes "[n]" "edges_from adj n" st] by (auto simp: cycle_visit_def Let_def)
    then show ?case using Cons[of "cycle_visit adj nodes n st"] by auto
  qed simp
  have "consistent st \<Longrightarrow> ordered ?G {} (cy_visited st) \<Longrightarrow> cy_issues (fold (cycle_visit adj nodes) ns st) = [] \<Longrightarrow>
      ordered ?G {} (cy_visited (fold (cycle_visit adj nodes) ns st))
      \<and> set ns \<union> set (cy_visited st) \<subseteq> set (cy_visited (fold (cycle_visit adj nodes) ns st))" for ns st
  proof (induction ns arbitrary: st)
    case (Cons n ns)
    have "cy_issues (cycle_visit adj nodes n st) = []"
      using mono[of ns "cycle_visit adj nodes n st"] Cons.prems(3) by auto
    then show ?case
      using cycle_visit_complete[OF Cons.prems(1) _ Cons.prems(2)] Cons.IH[of "cycle_visit adj nodes n st"] Cons.prems(3) by auto
  qed simp
  from this[of "\<lparr>cy_visited = [], cy_reported = [], cy_issues = []\<rparr>" nodes] show ?thesis
    using assms by (intro ordered_acyclic) (auto simp: detect_delegation_cycles_def consistent_def known_edges_def)
qed

lemma detect_cycles_iff: "detect_delegation_cycles adj nodes = [] \<longleftrightarrow> acyclic (known_edges adj nodes)"
  using detect_cycles_sound detect_cycles_complete by blast

section \<open>Depth\<close>

fun max_zero :: "jsnum \<Rightarrow> jsnum" where
  "max_zero (Fin x) = Fin (max 0 x)"
| "max_zero NegInf = Fin 0"
| "max_zero n = n"

fun depth_exceeds :: "nat \<Rightarrow> jsnum \<Rightarrow> bool" where
  "depth_exceeds d (Fin x) \<longleftrightarrow> x < of_nat d"
| "depth_exceeds d NegInf \<longleftrightarrow> True"
| "depth_exceeds d _ \<longleftrightarrow> False"

record depth_state =
  dp_reported :: "string list"
  dp_issues :: "topology_issue list"

definition report_depth :: "host \<Rightarrow> jsnum \<Rightarrow> nat \<Rightarrow> delegation_edge \<Rightarrow> depth_state \<Rightarrow> depth_state" where
  "report_depth h limit depth e st =
    (let key = de_path e @ '':'' @ show_nat depth in
     if \<not> depth_exceeds depth limit \<or> key \<in> set (dp_reported st) then st
     else st\<lparr>dp_reported := dp_reported st @ [key],
       dp_issues := dp_issues st @ [edge_issue e ''max_delegation_depth_exceeded'' SV_blocked
         (''Delegation depth '' @ show_nat depth @ '' exceeds max depth '' @ h_num_text h limit @ ''.'')]\<rparr>)"

function depth_edges :: "host \<Rightarrow> jsnum \<Rightarrow> adjacency \<Rightarrow> string list \<Rightarrow> string list \<Rightarrow> delegation_edge list
    \<Rightarrow> depth_state \<Rightarrow> depth_state" where
  "depth_edges h limit adj nodes path [] st = st"
| "depth_edges h limit adj nodes path (e # es) st =
    (if de_to e \<notin> set nodes \<or> de_to e \<in> set path then depth_edges h limit adj nodes path es st
     else depth_edges h limit adj nodes path es
       (depth_edges h limit adj nodes (path @ [de_to e]) (edges_from adj (de_to e)) (report_depth h limit (length path) e st)))"
  by pat_completeness auto
termination
  by (relation "(\<lambda>(_, _, _, nodes, path, _, _). card (set nodes - set path)) <*mlex*> measure (\<lambda>(_, _, _, _, _, es, _). length es)")
    (auto simp: wf_mlex mlex_less mlex_leq intro!: mlex_less psubset_card_mono)

definition detect_depth_overflow :: "host \<Rightarrow> jsnum \<Rightarrow> adjacency \<Rightarrow> string list \<Rightarrow> topology_issue list" where
  "detect_depth_overflow h limit adj nodes =
    dp_issues (fold (\<lambda>n. depth_edges h limit adj nodes [n] (edges_from adj n)) nodes \<lparr>dp_reported = [], dp_issues = []\<rparr>)"

text \<open>A simple path of the delegation graph.\<close>

definition simple_path :: "('a \<times> 'a) set \<Rightarrow> 'a list \<Rightarrow> bool" where
  "simple_path G p \<longleftrightarrow> distinct p \<and> successively (\<lambda>u v. (u, v) \<in> G) p"

definition depth_consistent :: "depth_state \<Rightarrow> bool" where
  "depth_consistent st \<longleftrightarrow> (dp_issues st = [] \<longleftrightarrow> dp_reported st = [])"

lemma simple_path_snoc:
  "path \<noteq> [] \<Longrightarrow> simple_path G (path @ [v]) \<longleftrightarrow> simple_path G path \<and> v \<notin> set path \<and> (last path, v) \<in> G"
  by (auto simp: simple_path_def successively_append_iff)

lemma depth_edges_sound:
  assumes "\<And>p. 2 \<le> length p \<Longrightarrow> hd p = hd path \<Longrightarrow> simple_path (known_edges adj nodes) p \<Longrightarrow> \<not> depth_exceeds (length p - 1) limit"
    and "path \<noteq> []" "simple_path (known_edges adj nodes) path" "set es \<subseteq> set (edges_from adj (last path))"
  shows "depth_edges h limit adj nodes path es st = st"
  using assms
proof (induction h limit adj nodes path es st rule: depth_edges.induct)
  case (2 h limit adj nodes path e es st)
  let ?G = "known_edges adj nodes"
  have tail: "set es \<subseteq> set (edges_from adj (last path))" using "2.prems"(4) by simp
  show ?case
  proof (cases "de_to e \<notin> set nodes \<or> de_to e \<in> set path")
    case True
    then show ?thesis using "2.IH"(1)[OF True "2.prems"(1,2,3) tail] by simp
  next
    case False
    then have edge: "(last path, de_to e) \<in> ?G" using "2.prems"(4) by (auto simp: known_edges_def)
    then have path: "simple_path ?G (path @ [de_to e])" using False "2.prems"(2,3) by (simp add: simple_path_snoc)
    have hd: "hd (path @ [de_to e]) = hd path" using "2.prems"(2) by simp
    have "\<not> depth_exceeds (length (path @ [de_to e]) - 1) limit" using path hd "2.prems"(2) by (intro "2.prems"(1)) (auto simp: Suc_le_eq)
    then have same: "report_depth h limit (length path) e st = st" by (simp add: report_depth_def Let_def)
    have "depth_edges h limit adj nodes (path @ [de_to e]) (edges_from adj (de_to e)) (report_depth h limit (length path) e st)
        = report_depth h limit (length path) e st"
      using "2.IH"(2)[OF False] "2.prems"(1) hd path by simp
    then show ?thesis using False "2.IH"(3)[OF False] "2.prems"(1,2,3) tail same by simp
  qed
qed simp

lemma report_depth_step:
  "depth_consistent st \<Longrightarrow> depth_consistent (report_depth h limit d e st)
    \<and> (\<exists>xs. dp_issues (report_depth h limit d e st) = dp_issues st @ xs)
    \<and> (dp_issues (report_depth h limit d e st) = [] \<longrightarrow> \<not> depth_exceeds d limit)"
  by (auto simp: depth_consistent_def report_depth_def Let_def)

lemma depth_edges_complete:
  assumes "depth_consistent st"
  shows "depth_consistent (depth_edges h limit adj nodes path es st)
    \<and> (\<exists>xs. dp_issues (depth_edges h limit adj nodes path es st) = dp_issues st @ xs)
    \<and> (dp_issues (depth_edges h limit adj nodes path es st) = [] \<longrightarrow>
        (\<forall>e \<in> set es. \<forall>q. de_to e \<in> set nodes \<and> simple_path (known_edges adj nodes) (path @ de_to e # q)
          \<longrightarrow> \<not> depth_exceeds (length path + length q) limit))"
  using assms
proof (induction h limit adj nodes path es st rule: depth_edges.induct)
  case (2 h limit adj nodes path e es st)
  let ?G = "known_edges adj nodes"
  show ?case
  proof (cases "de_to e \<notin> set nodes \<or> de_to e \<in> set path")
    case True
    then show ?thesis using "2.IH"(1)[OF True "2.prems"] by (auto simp: simple_path_def)
  next
    case False
    define st1 where "st1 = report_depth h limit (length path) e st"
    define st2 where "st2 = depth_edges h limit adj nodes (path @ [de_to e]) (edges_from adj (de_to e)) st1"
    note r = report_depth_step[OF "2.prems", of h limit "length path" e, folded st1_def]
    have i: "depth_consistent st2 \<and> (\<exists>xs. dp_issues st2 = dp_issues st1 @ xs)
      \<and> (dp_issues st2 = [] \<longrightarrow> (\<forall>e' \<in> set (edges_from adj (de_to e)). \<forall>q. de_to e' \<in> set nodes
          \<and> simple_path ?G ((path @ [de_to e]) @ de_to e' # q) \<longrightarrow> \<not> depth_exceeds (length (path @ [de_to e]) + length q) limit))"
      using "2.IH"(2)[OF False, folded st1_def] r unfolding st2_def by blast
    have c: "depth_consistent (depth_edges h limit adj nodes path es st2)
      \<and> (\<exists>xs. dp_issues (depth_edges h limit adj nodes path es st2) = dp_issues st2 @ xs)
      \<and> (dp_issues (depth_edges h limit adj nodes path es st2) = [] \<longrightarrow>
        (\<forall>e \<in> set es. \<forall>q. de_to e \<in> set nodes \<and> simple_path ?G (path @ de_to e # q) \<longrightarrow> \<not> depth_exceeds (length path + length q) limit))"
      using "2.IH"(3)[OF False, folded st1_def, folded st2_def] i by blast
    have step: "depth_edges h limit adj nodes path (e # es) st = depth_edges h limit adj nodes path es st2"
      using False by (simp add: st1_def st2_def)
    have head: "\<not> depth_exceeds (length path + length q) limit"
      if "dp_issues st2 = []" "simple_path ?G (path @ de_to e # q)" for q
    proof (cases q)
      case Nil
      have "dp_issues st1 = []" using i that(1) by auto
      then show ?thesis using r Nil by simp
    next
      case (Cons v q')
      then have "(de_to e, v) \<in> ?G" using that(2) by (auto simp: simple_path_def successively_append_iff)
      then obtain e' where "e' \<in> set (edges_from adj (de_to e))" "de_to e' = v" "v \<in> set nodes"
        by (auto simp: known_edges_def)
      then show ?thesis using i that Cons by auto
    qed
    have none: "dp_issues st2 = []" if "dp_issues (depth_edges h limit adj nodes path es st2) = []"
      using c that by auto
    show ?thesis unfolding step using c i r head none by auto
  qed
qed simp

lemma fold_depth_complete:
  assumes "depth_consistent st" "dp_issues (fold (\<lambda>n. depth_edges h limit adj nodes [n] (edges_from adj n)) ns st) = []"
  shows "dp_issues st = [] \<and> (\<forall>n \<in> set ns. \<forall>q. q \<noteq> [] \<and> simple_path (known_edges adj nodes) (n # q) \<longrightarrow> \<not> depth_exceeds (length q) limit)"
  using assms
proof (induction ns arbitrary: st)
  case (Cons n ns)
  let ?st = "depth_edges h limit adj nodes [n] (edges_from adj n) st"
  note d = depth_edges_complete[OF Cons.prems(1), of h limit adj nodes "[n]" "edges_from adj n"]
  have ih: "dp_issues ?st = [] \<and> (\<forall>n \<in> set ns. \<forall>q. q \<noteq> [] \<and> simple_path (known_edges adj nodes) (n # q) \<longrightarrow> \<not> depth_exceeds (length q) limit)"
    using Cons.IH[of ?st] d Cons.prems(2) by simp
  have "\<not> depth_exceeds (length q) limit" if "q \<noteq> []" "simple_path (known_edges adj nodes) (n # q)" for q
  proof -
    obtain v q' where q: "q = v # q'" using \<open>q \<noteq> []\<close> by (cases q) auto
    then have "(n, v) \<in> known_edges adj nodes" using that by (auto simp: simple_path_def)
    then obtain e where "e \<in> set (edges_from adj n)" "de_to e = v" "v \<in> set nodes" by (auto simp: known_edges_def)
    then show ?thesis using d ih that q by auto
  qed
  then show ?case using ih d by auto
qed simp

lemma detect_depth_iff:
  "detect_depth_overflow h limit adj nodes = [] \<longleftrightarrow>
    (\<forall>n \<in> set nodes. \<forall>q. q \<noteq> [] \<and> simple_path (known_edges adj nodes) (n # q) \<longrightarrow> \<not> depth_exceeds (length q) limit)"
proof
  assume "detect_depth_overflow h limit adj nodes = []"
  then show "\<forall>n \<in> set nodes. \<forall>q. q \<noteq> [] \<and> simple_path (known_edges adj nodes) (n # q) \<longrightarrow> \<not> depth_exceeds (length q) limit"
    using fold_depth_complete[of "\<lparr>dp_reported = [], dp_issues = []\<rparr>" h limit adj nodes nodes]
    by (simp add: detect_depth_overflow_def depth_consistent_def)
next
  assume ok: "\<forall>n \<in> set nodes. \<forall>q. q \<noteq> [] \<and> simple_path (known_edges adj nodes) (n # q) \<longrightarrow> \<not> depth_exceeds (length q) limit"
  have "depth_edges h limit adj nodes [n] (edges_from adj n) st = st" if n: "n \<in> set nodes" for n st
  proof (rule depth_edges_sound)
    fix p assume "2 \<le> length p" "hd p = hd [n]" "simple_path (known_edges adj nodes) p"
    then obtain q where "p = n # q" "q \<noteq> []" "simple_path (known_edges adj nodes) (n # q)"
      by (cases p) (auto simp: Suc_le_eq)
    then show "\<not> depth_exceeds (length p - 1) limit" using ok n by auto
  qed (simp_all add: simple_path_def)
  then have "set ns \<subseteq> set nodes \<Longrightarrow> fold (\<lambda>n. depth_edges h limit adj nodes [n] (edges_from adj n)) ns st = st" for ns st
    by (induction ns arbitrary: st) auto
  then show "detect_depth_overflow h limit adj nodes = []" by (simp add: detect_depth_overflow_def)
qed

text \<open>Every issue of the two searches makes a topology unfit to run.\<close>

definition all_severe :: "topology_issue list \<Rightarrow> bool" where
  "all_severe issues \<longleftrightarrow> (\<forall>i \<in> set issues. severe i)"

lemma all_severe_simps [simp]:
  "all_severe []"
  "all_severe (xs @ ys) \<longleftrightarrow> all_severe xs \<and> all_severe ys"
  by (auto simp: all_severe_def)

lemma all_severe_clean: "all_severe issues \<Longrightarrow> clean issues \<longleftrightarrow> issues = []"
  by (cases issues) (auto simp: all_severe_def clean_def)

lemma edge_issue_severe [simp]:
  "all_severe [edge_issue e code SV_invalid m]"
  "all_severe [edge_issue e code SV_blocked m]"
  by (simp_all add: all_severe_def edge_issue_def severe_def)

lemma report_cycle_severe: "all_severe (cy_issues st) \<Longrightarrow> all_severe (cy_issues (report_cycle path e st))"
  by (simp add: report_cycle_def Let_def)

lemma report_depth_severe: "all_severe (dp_issues st) \<Longrightarrow> all_severe (dp_issues (report_depth h limit d e st))"
  by (simp add: report_depth_def Let_def)

lemma cycle_edges_severe: "all_severe (cy_issues st) \<Longrightarrow> all_severe (cy_issues (cycle_edges adj nodes path es st))"
proof (induction adj nodes path es st rule: cycle_edges.induct)
  case (2 adj nodes path e es st)
  note report = report_cycle_severe [OF "2.prems"]
  consider "de_to e \<notin> set nodes" | "de_to e \<in> set nodes" "de_to e \<in> set path"
    | "de_to e \<in> set nodes" "de_to e \<notin> set path" "de_to e \<in> set (cy_visited st)"
    | "de_to e \<in> set nodes" "de_to e \<notin> set path" "de_to e \<notin> set (cy_visited st)" by blast
  then show ?case using 2 report by cases simp_all
qed simp

lemma depth_edges_severe:
  "all_severe (dp_issues st) \<Longrightarrow> all_severe (dp_issues (depth_edges h limit adj nodes path es st))"
proof (induction h limit adj nodes path es st rule: depth_edges.induct)
  case (2 h limit adj nodes path e es st)
  note report = report_depth_severe [OF "2.prems"]
  show ?case using 2 report by (cases "de_to e \<notin> set nodes \<or> de_to e \<in> set path") simp_all
qed simp

lemma cycles_severe: "clean (detect_delegation_cycles adj nodes) \<longleftrightarrow> detect_delegation_cycles adj nodes = []"
proof -
  have "all_severe (cy_issues st) \<Longrightarrow> all_severe (cy_issues (fold (cycle_visit adj nodes) ns st))" for ns st
    by (induction ns arbitrary: st) (simp_all add: cycle_visit_def Let_def cycle_edges_severe)
  then show ?thesis by (intro all_severe_clean) (simp add: detect_delegation_cycles_def)
qed

lemma depth_severe: "clean (detect_depth_overflow h limit adj nodes) \<longleftrightarrow> detect_depth_overflow h limit adj nodes = []"
proof -
  have "all_severe (dp_issues st) \<Longrightarrow>
      all_severe (dp_issues (fold (\<lambda>n. depth_edges h limit adj nodes [n] (edges_from adj n)) ns st))" for ns st
    by (induction ns arbitrary: st) (simp_all add: depth_edges_severe)
  then show ?thesis by (intro all_severe_clean) (simp add: detect_depth_overflow_def)
qed

end
