(* ===== verification/Topology_Contract.thy ===== *)
theory Topology_Contract
  imports Contract_Validation
begin

text \<open>
  The validators of \<open>contracts/enterprise-topology.ts\<close> for teams, organisation units, relations and whole
  topologies, and the object a typed topology is at run time. As in \<open>Contract_Validation\<close> a check returns
  the issues it appends; the relation id that relation issues carry is the id of the item at their path.
\<close>

section \<open>Teams and organisation units\<close>

definition team_execution_keys :: "string list" where
  "team_execution_keys = [''children'', ''delegationPolicy'', ''executionPolicy'', ''runtimeProfile'',
     ''workOrderPolicy'', ''permissionScope'', ''authorityScope'', ''ownerAgentId'', ''leadAgentId'']"

definition team_org_unit_mixed_keys :: "string list" where
  "team_org_unit_mixed_keys = [''orgUnitId'', ''parentOrgUnitId'', ''positionIds'', ''budget'', ''kpiIds'',
     ''responsibilityArea'']"

definition org_unit_team_mixed_keys :: "string list" where
  "org_unit_team_mixed_keys = [''nodeIds'', ''leadNodeId'', ''memberNodeIds'', ''requiredTeamRoles'']"

definition validate_enterprise_team :: "json \<Rightarrow> validation_issue list" where
  "validate_enterprise_team v =
    (if \<not> is_record v then issue ''$'' ''enterprise_contract_validation_failed'' ''Team must be an object.''
     else validate_base_entity v ''team'' ''$''
       @ validate_string_array (jget v ''nodeIds'') ''$.nodeIds''
       @ validate_string_array (jget v ''tags'') ''$.tags''
       @ forbidden_key_issues v team_execution_keys ''$'' ''team_execution_semantics_forbidden''
           ''Team is a logical group and cannot define execution semantics.''
       @ forbidden_key_issues v team_org_unit_mixed_keys ''$'' ''team_org_unit_mixed''
           ''Team and OrgUnit fields must not be mixed.'')"

definition validate_enterprise_org_unit :: "json \<Rightarrow> validation_issue list" where
  "validate_enterprise_org_unit v =
    (if \<not> is_record v then issue ''$'' ''enterprise_contract_validation_failed'' ''OrgUnit must be an object.''
     else validate_base_entity v ''org_unit'' ''$''
       @ validate_string_array (jget v ''positionIds'') ''$.positionIds''
       @ validate_string_array (jget v ''personIds'') ''$.personIds''
       @ validate_string_array (jget v ''kpiIds'') ''$.kpiIds''
       @ forbidden_key_issues v org_unit_team_mixed_keys ''$'' ''team_org_unit_mixed''
           ''OrgUnit and Team fields must not be mixed.'')"

section \<open>Relations\<close>

definition relation_types :: "string list" where
  "relation_types = [''reports_to'', ''belongs_to'', ''delegates_to'', ''approves'', ''owns'', ''collaborates_with'',
     ''escalates_to'', ''informs'', ''uses_system'', ''uses_tool'', ''has_access_to'', ''depends_on'', ''consults'',
     ''accountable_for'']"

text \<open>The switch of \<open>endpointAllowed\<close>; another type falls through to \<open>undefined\<close>.\<close>

definition endpoint_allowed :: "string \<Rightarrow> string \<Rightarrow> string \<Rightarrow> bool" where
  "endpoint_allowed rt a b =
    (if rt = ''delegates_to'' then a = ''node'' \<and> b = ''node''
     else if rt = ''reports_to'' then (a = ''position'' \<and> b = ''position'') \<or> (a = ''person'' \<and> b = ''person'')
     else if rt = ''belongs_to'' then (a = ''node'' \<and> b = ''team'') \<or> (a = ''position'' \<and> b = ''org_unit'')
       \<or> (a = ''person'' \<and> b = ''org_unit'') \<or> (a = ''team'' \<and> b = ''org_unit'')
     else if rt = ''approves'' then a \<in> {''position'', ''person'', ''org_unit''}
       \<and> b \<in> {''node'', ''process_definition'', ''enterprise_system'', ''enterprise_tool''}
     else if rt = ''owns'' then a \<in> {''position'', ''person'', ''org_unit'', ''node''}
       \<and> b \<in> {''node'', ''process_definition'', ''enterprise_system'', ''enterprise_tool''}
     else if rt = ''uses_system'' then a \<in> {''node'', ''process_definition''} \<and> b = ''enterprise_system''
     else if rt = ''uses_tool'' then a = ''node'' \<and> b = ''enterprise_tool''
     else if rt = ''has_access_to'' then a \<in> {''node'', ''position'', ''person'', ''org_unit''}
       \<and> b \<in> {''enterprise_system'', ''enterprise_tool''}
     else if rt = ''accountable_for'' then a \<in> {''position'', ''person'', ''org_unit'', ''node''}
       \<and> b \<in> {''node'', ''process_definition''}
     else if rt = ''collaborates_with'' \<or> rt = ''informs'' then
       a \<in> {''node'', ''team'', ''org_unit'', ''position'', ''person''} \<and> b \<in> {''node'', ''team'', ''org_unit'', ''position'', ''person''}
     else if rt = ''escalates_to'' \<or> rt = ''consults'' then
       a \<in> {''node'', ''position'', ''person''} \<and> b \<in> {''node'', ''position'', ''person''}
     else if rt = ''depends_on'' then a \<in> {''node'', ''process_definition'', ''enterprise_system'', ''enterprise_tool''}
       \<and> b \<in> {''node'', ''process_definition'', ''enterprise_system'', ''enterprise_tool''}
     else False)"

fun endpoint_issue :: "json \<Rightarrow> json \<Rightarrow> json \<Rightarrow> validation_issue list" where
  "endpoint_issue (JStr rt) (JStr a) (JStr b) =
    (if rt \<in> set relation_types \<and> \<not> endpoint_allowed rt a b
     then issue ''$.to.entityType'' ''invalid_relation_endpoint'' ''Relation source and target entity types are not compatible.''
     else [])"
| "endpoint_issue _ _ _ = []"

definition validate_enterprise_relation :: "json \<Rightarrow> validation_issue list" where
  "validate_enterprise_relation v =
    (if \<not> is_record v then issue ''$'' ''enterprise_contract_validation_failed'' ''Enterprise relation must be an object.''
     else validate_base_entity v ''relation'' ''$''
       @ (if is_one_of (jget v ''relationType'') relation_types then []
          else issue ''$.relationType'' ''invalid_relation_type'' ''Unsupported enterprise relation type.'')
       @ validate_entity_ref (jget v ''from'') ''$.from''
       @ validate_entity_ref (jget v ''to'') ''$.to''
       @ (if is_string (jget (jget v ''from'') ''id'') \<and> is_string (jget (jget v ''to'') ''id'')
          then endpoint_issue (jget v ''relationType'') (jget (jget v ''from'') ''entityType'') (jget (jget v ''to'') ''entityType'')
          else []))"

section \<open>Topologies\<close>

definition validate_entity_array :: "json \<Rightarrow> string \<Rightarrow> (json \<Rightarrow> validation_issue list) \<Rightarrow> validation_issue list" where
  "validate_entity_array v path validate_item =
    (case v of
       JArr xs \<Rightarrow> concat (map (\<lambda>ix. map (\<lambda>i. i\<lparr>vi_path := index_path path (fst ix) @ drop 1 (vi_path i)\<rparr>)
         (validate_item (snd ix))) (enumerate 0 xs))
     | _ \<Rightarrow> issue path ''missing_required_field'' (path @ '' must be an array.''))"

definition validate_base_only_array ::
  "json \<Rightarrow> string \<Rightarrow> string \<Rightarrow> (json \<Rightarrow> string \<Rightarrow> validation_issue list) \<Rightarrow> validation_issue list" where
  "validate_base_only_array v path ty extra =
    (case v of
       JArr xs \<Rightarrow> concat (map (\<lambda>ix. let p = index_path path (fst ix) in
         if \<not> is_record (snd ix) then issue p ''enterprise_contract_validation_failed'' (ty @ '' must be an object.'')
         else validate_base_entity (snd ix) ty p @ extra (snd ix) p) (enumerate 0 xs))
     | _ \<Rightarrow> issue path ''missing_required_field'' (path @ '' must be an array.''))"

definition position_checks :: "json \<Rightarrow> string \<Rightarrow> validation_issue list" where
  "position_checks r path = validate_required_string r ''orgUnitId'' path
     @ validate_string_array (jget r ''personIds'') (path @ ''.personIds'')
     @ validate_string_array (jget r ''responsibilityIds'') (path @ ''.responsibilityIds'')"

definition person_checks :: "json \<Rightarrow> string \<Rightarrow> validation_issue list" where
  "person_checks r path = validate_string_array (jget r ''positionIds'') (path @ ''.positionIds'')
     @ validate_string_array (jget r ''orgUnitIds'') (path @ ''.orgUnitIds'')"

definition membership_checks :: "json \<Rightarrow> string \<Rightarrow> validation_issue list" where
  "membership_checks r path = validate_required_string r ''personId'' path"

definition validate_enterprise_topology :: "json \<Rightarrow> validation_issue list" where
  "validate_enterprise_topology v =
    (if \<not> is_record v then issue ''$'' ''enterprise_contract_validation_failed'' ''Enterprise topology must be an object.''
     else validate_base_entity v ''topology'' ''$''
       @ forbidden_key_issues v fixed_role_catalog_keys ''$'' ''fixed_role_catalog_forbidden''
           ''Fixed role agent catalogs are not part of the enterprise topology source model.''
       @ validate_entity_array (jget v ''nodes'') ''$.nodes'' validate_node_contract
       @ validate_entity_array (jget v ''teams'') ''$.teams'' validate_enterprise_team
       @ validate_entity_array (jget v ''orgUnits'') ''$.orgUnits'' validate_enterprise_org_unit
       @ validate_base_only_array (jget v ''positions'') ''$.positions'' ''position'' position_checks
       @ validate_base_only_array (jget v ''persons'') ''$.persons'' ''person'' person_checks
       @ validate_base_only_array (jget v ''memberships'') ''$.memberships'' ''membership'' membership_checks
       @ validate_base_only_array (jget v ''authorityRules'') ''$.authorityRules'' ''authority_rule'' (\<lambda>_ _. [])
       @ validate_base_only_array (jget v ''responsibilities'') ''$.responsibilities'' ''responsibility_matrix_entry'' (\<lambda>_ _. [])
       @ validate_base_only_array (jget v ''systems'') ''$.systems'' ''enterprise_system'' (\<lambda>_ _. [])
       @ validate_base_only_array (jget v ''tools'') ''$.tools'' ''enterprise_tool'' (\<lambda>_ _. [])
       @ validate_base_only_array (jget v ''processes'') ''$.processes'' ''process_definition'' (\<lambda>_ _. [])
       @ validate_entity_array (jget v ''relations'') ''$.relations'' validate_enterprise_relation)"

section \<open>Typed entities as objects\<close>

definition opt_string :: "string \<Rightarrow> string option \<Rightarrow> (string \<times> json) list" where
  "opt_string k s = (case s of None \<Rightarrow> [] | Some v \<Rightarrow> [(k, JStr v)])"

definition opt_number :: "string \<Rightarrow> jsnum option \<Rightarrow> (string \<times> json) list" where
  "opt_number k n = (case n of None \<Rightarrow> [] | Some v \<Rightarrow> [(k, JNum v)])"

definition opt_timestamp :: "string \<Rightarrow> timestamp option \<Rightarrow> (string \<times> json) list" where
  "opt_timestamp k t = (case t of None \<Rightarrow> [] | Some v \<Rightarrow> [(k, json_of_timestamp v)])"

definition entity_object :: "entity_type \<Rightarrow> 'a base_entity_scheme \<Rightarrow> (string \<times> json) list \<Rightarrow> json" where
  "entity_object ty e own =
    JObj ([(''schemaVersion'', JNum (Fin 1)), (''entityType'', JStr (entity_type_text ty)), (''id'', JStr (be_id e)),
      (''name'', JStr (be_name e)), (''status'', JStr (entity_status_text (be_status e))),
      (''createdAt'', json_of_timestamp (be_createdAt e)), (''updatedAt'', json_of_timestamp (be_updatedAt e))]
      @ opt_string ''displayName'' (be_displayName e) @ opt_member ''metadata'' (be_metadata e) @ own)"

definition json_of_failure_policy :: "failure_policy \<Rightarrow> json" where
  "json_of_failure_policy p = JObj [(''failureReportRequired'', JBool (fp_failureReportRequired p)),
     (''allowPartialSuccess'', JBool (fp_allowPartialSuccess p)), (''fallbackNodeIds'', json_of_strings (fp_fallbackNodeIds p))]"

definition json_of_recovery_policy :: "recovery_policy \<Rightarrow> json" where
  "json_of_recovery_policy p = JObj [(''retryAllowed'', JBool (rp_retryAllowed p)),
     (''redelegationAllowed'', JBool (rp_redelegationAllowed p)), (''fallbackAllowed'', JBool (rp_fallbackAllowed p)),
     (''partialSuccessAllowed'', JBool (rp_partialSuccessAllowed p))]"

definition opt_ref :: "string \<Rightarrow> entity_ref option \<Rightarrow> (string \<times> json) list" where
  "opt_ref k r = (case r of None \<Rightarrow> [] | Some v \<Rightarrow> [(k, json_of_ref v)])"

definition json_of_node :: "node_contract \<Rightarrow> json" where
  "json_of_node n = entity_object ET_node n
    ([(''nodeType'', JStr (node_type_text (nc_nodeType n))), (''tags'', json_of_strings (nc_tags n)),
      (''children'', json_of_strings (nc_children n)), (''allowedToolIds'', json_of_strings (nc_allowedToolIds n)),
      (''allowedSystemIds'', json_of_strings (nc_allowedSystemIds n))]
     @ opt_ref ''owner'' (nc_owner n) @ opt_string ''instruction'' (nc_instruction n)
     @ opt_string ''description'' (nc_description n) @ opt_member ''template'' (nc_template n)
     @ opt_member ''failurePolicy'' (case nc_failurePolicy n of None \<Rightarrow> JUndef | Some p \<Rightarrow> json_of_failure_policy p)
     @ opt_member ''recoveryPolicy'' (case nc_recoveryPolicy n of None \<Rightarrow> JUndef | Some p \<Rightarrow> json_of_recovery_policy p))"

definition json_of_team :: "enterprise_team \<Rightarrow> json" where
  "json_of_team t = entity_object ET_team t
    ([(''nodeIds'', json_of_strings (tm_nodeIds t)), (''tags'', json_of_strings (tm_tags t))] @ opt_string ''purpose'' (tm_purpose t))"

definition json_of_org_unit :: "org_unit \<Rightarrow> json" where
  "json_of_org_unit u = entity_object ET_org_unit u
    ([(''positionIds'', json_of_strings (un_positionIds u)), (''personIds'', json_of_strings (un_personIds u)),
      (''kpiIds'', json_of_strings (un_kpiIds u))]
     @ opt_string ''parentOrgUnitId'' (un_parentOrgUnitId u) @ opt_member ''budget'' (un_budget u)
     @ opt_member ''authorityScope'' (un_authorityScope u) @ opt_string ''responsibilityArea'' (un_responsibilityArea u))"

definition json_of_position :: "position \<Rightarrow> json" where
  "json_of_position p = entity_object ET_position p
    ([(''orgUnitId'', JStr (po_orgUnitId p)), (''personIds'', json_of_strings (po_personIds p)),
      (''responsibilityIds'', json_of_strings (po_responsibilityIds p))]
     @ opt_string ''reportsToPositionId'' (po_reportsToPositionId p) @ opt_number ''approvalLimit'' (po_approvalLimit p)
     @ opt_string ''backupPositionId'' (po_backupPositionId p))"

fun availability_text :: "availability \<Rightarrow> string" where
  "availability_text AV_available = ''available''"
| "availability_text AV_limited = ''limited''"
| "availability_text AV_unavailable = ''unavailable''"
| "availability_text AV_unknown = ''unknown''"

definition json_of_person :: "person \<Rightarrow> json" where
  "json_of_person p = entity_object ET_person p
    ([(''positionIds'', json_of_strings (pe_positionIds p)), (''orgUnitIds'', json_of_strings (pe_orgUnitIds p))]
     @ (case pe_availability p of None \<Rightarrow> [] | Some a \<Rightarrow> [(''availability'', JStr (availability_text a))]))"

definition json_of_membership :: "membership \<Rightarrow> json" where
  "json_of_membership m = entity_object ET_membership m
    ([(''personId'', JStr (mb_personId m))] @ opt_string ''positionId'' (mb_positionId m)
     @ opt_string ''orgUnitId'' (mb_orgUnitId m) @ opt_string ''teamId'' (mb_teamId m)
     @ opt_timestamp ''validFrom'' (mb_validFrom m) @ opt_timestamp ''validTo'' (mb_validTo m)
     @ opt_number ''allocationPercent'' (mb_allocationPercent m))"

definition json_of_authority_rule :: "authority_rule \<Rightarrow> json" where
  "json_of_authority_rule r = entity_object ET_authority_rule r
    ([(''subject'', json_of_ref (ar_subject r)), (''action'', JStr (ar_action r)), (''object'', json_of_ref (ar_object r)),
      (''delegable'', JBool (ar_delegable r)), (''requiresAuditLog'', JBool (ar_requiresAuditLog r))]
     @ opt_member ''condition'' (ar_condition r))"

definition json_of_responsibility :: "responsibility_entry \<Rightarrow> json" where
  "json_of_responsibility e = entity_object ET_responsibility_matrix_entry e
    ([(''scope'', json_of_ref (re_scope e)), (''responsible'', json_of_ref (re_responsible e)),
      (''consulted'', JArr (map json_of_ref (re_consulted e))), (''informed'', JArr (map json_of_ref (re_informed e)))]
     @ opt_ref ''accountable'' (re_accountable e))"

fun system_type_text :: "system_type \<Rightarrow> string" where
  "system_type_text SY_internal = ''internal''"
| "system_type_text SY_external = ''external''"
| "system_type_text SY_data_store = ''data_store''"
| "system_type_text SY_communication = ''communication''"
| "system_type_text SY_automation = ''automation''"
| "system_type_text SY_unknown = ''unknown''"

definition json_of_system :: "enterprise_system \<Rightarrow> json" where
  "json_of_system y = entity_object ET_enterprise_system y
    [(''systemType'', JStr (system_type_text (sy_systemType y))), (''dataDomainIds'', json_of_strings (sy_dataDomainIds y)),
     (''criticality'', JStr (risk_level_text (sy_criticality y)))]"

definition json_of_tool :: "enterprise_tool \<Rightarrow> json" where
  "json_of_tool t = entity_object ET_enterprise_tool t
    ([(''toolType'', JStr (tool_type_text (tl_toolType t)))] @ opt_string ''systemId'' (tl_systemId t)
     @ opt_member ''inputSchema'' (tl_inputSchema t) @ opt_member ''outputSchema'' (tl_outputSchema t))"

definition json_of_process :: "process_definition \<Rightarrow> json" where
  "json_of_process p = entity_object ET_process_definition p
    ([(''stepNodeIds'', json_of_strings (pd_stepNodeIds p))] @ opt_string ''ownerNodeId'' (pd_ownerNodeId p)
     @ opt_string ''accountablePositionId'' (pd_accountablePositionId p) @ opt_number ''slaMs'' (pd_slaMs p))"

definition json_of_relation :: "enterprise_relation \<Rightarrow> json" where
  "json_of_relation r = entity_object ET_relation r
    ([(''relationType'', JStr (relation_type_text (rel_relationType r))), (''from'', json_of_ref (rel_from r)),
      (''to'', json_of_ref (rel_to r))]
     @ opt_string ''label'' (rel_label r) @ opt_member ''scope'' (rel_scope r) @ opt_member ''condition'' (rel_condition r))"

definition json_of_topology :: "enterprise_topology \<Rightarrow> json" where
  "json_of_topology t = entity_object ET_topology t
    ([(''nodes'', JArr (map json_of_node (tp_nodes t))), (''teams'', JArr (map json_of_team (tp_teams t))),
      (''orgUnits'', JArr (map json_of_org_unit (tp_orgUnits t))), (''positions'', JArr (map json_of_position (tp_positions t))),
      (''persons'', JArr (map json_of_person (tp_persons t))),
      (''memberships'', JArr (map json_of_membership (tp_memberships t))),
      (''authorityRules'', JArr (map json_of_authority_rule (tp_authorityRules t))),
      (''responsibilities'', JArr (map json_of_responsibility (tp_responsibilities t))),
      (''systems'', JArr (map json_of_system (tp_systems t))), (''tools'', JArr (map json_of_tool (tp_tools t))),
      (''processes'', JArr (map json_of_process (tp_processes t))),
      (''relations'', JArr (map json_of_relation (tp_relations t)))]
     @ opt_string ''description'' (tp_description t))"

section \<open>What the validator accepts\<close>

definition base_ok :: "'a base_entity_scheme \<Rightarrow> bool" where
  "base_ok e \<longleftrightarrow> non_blank (be_id e) \<and> non_blank (be_name e) \<and> timestamp_ok (be_createdAt e) \<and> timestamp_ok (be_updatedAt e)"

lemma jget_opt:
  "jget (JObj (opt_string k s @ m)) k' = (case s of Some v \<Rightarrow> if k' = k then JStr v else jget (JObj m) k' | None \<Rightarrow> jget (JObj m) k')"
  "jget (JObj (opt_number k n @ m)) k' = (case n of Some v \<Rightarrow> if k' = k then JNum v else jget (JObj m) k' | None \<Rightarrow> jget (JObj m) k')"
  "jget (JObj (opt_ref k r @ m)) k' = (case r of Some v \<Rightarrow> if k' = k then json_of_ref v else jget (JObj m) k' | None \<Rightarrow> jget (JObj m) k')"
  "jget (JObj (opt_timestamp k t @ m)) k' = (case t of Some v \<Rightarrow> if k' = k then json_of_timestamp v else jget (JObj m) k' | None \<Rightarrow> jget (JObj m) k')"
  by (auto simp: opt_string_def opt_number_def opt_ref_def opt_timestamp_def js_lookup_def split: option.split)

text \<open>Reading a member that no optional member in front of it has.\<close>

lemma jget_skip:
  "k' \<noteq> k \<Longrightarrow> jget (JObj (opt_string k s @ m)) k' = jget (JObj m) k'"
  "k' \<noteq> k \<Longrightarrow> jget (JObj (opt_number k n @ m)) k' = jget (JObj m) k'"
  "k' \<noteq> k \<Longrightarrow> jget (JObj (opt_ref k r @ m)) k' = jget (JObj m) k'"
  "k' \<noteq> k \<Longrightarrow> jget (JObj (opt_timestamp k t @ m)) k' = jget (JObj m) k'"
  "k' \<noteq> k \<Longrightarrow> jget (JObj (opt_member k v @ m)) k' = jget (JObj m) k'"
  by (simp_all add: jget_opt jget_opt_member del: jget.simps split: option.split)

lemma has_key_member: "has_key (JObj ((k, v) # m)) k' \<longleftrightarrow> k' = k \<or> has_key (JObj m) k'"
  "\<not> has_key (JObj []) k'"
  "has_key (JObj (m @ m')) k' \<longleftrightarrow> has_key (JObj m) k' \<or> has_key (JObj m') k'"
  by (auto split: option.split)

lemma has_key_opt_string: "has_key (JObj (opt_string k s)) k' \<longleftrightarrow> s \<noteq> None \<and> k' = k"
  by (cases s) (auto simp: opt_string_def)

lemma has_key_opt_ref: "has_key (JObj (opt_ref k r)) k' \<longleftrightarrow> r \<noteq> None \<and> k' = k"
  by (cases r) (auto simp: opt_ref_def)

lemma has_key_opt_member: "has_key (JObj (opt_member k v)) k' \<longleftrightarrow> v \<noteq> JUndef \<and> k' = k"
  by (cases v) auto

lemmas has_key_opt = has_key_opt_string has_key_opt_ref has_key_opt_member

definition base_keys :: "string list" where
  "base_keys = [''schemaVersion'', ''entityType'', ''id'', ''name'', ''status'', ''createdAt'', ''updatedAt'', ''displayName'', ''metadata'']"

lemma entity_object_record [simp]: "is_record (entity_object ty e own)"
  by (simp add: entity_object_def)

lemma entity_object_base:
  "jget (entity_object ty e own) ''schemaVersion'' = JNum (Fin 1)"
  "jget (entity_object ty e own) ''entityType'' = JStr (entity_type_text ty)"
  "jget (entity_object ty e own) ''id'' = JStr (be_id e)"
  "jget (entity_object ty e own) ''name'' = JStr (be_name e)"
  "jget (entity_object ty e own) ''status'' = JStr (entity_status_text (be_status e))"
  "jget (entity_object ty e own) ''createdAt'' = json_of_timestamp (be_createdAt e)"
  "jget (entity_object ty e own) ''updatedAt'' = json_of_timestamp (be_updatedAt e)"
  by (simp_all add: entity_object_def jget_member del: jget.simps)

lemma entity_object_own: "k \<notin> set base_keys \<Longrightarrow> jget (entity_object ty e own) k = jget (JObj own) k"
  by (simp add: entity_object_def jget_member jget_skip base_keys_def del: jget.simps)

lemma entity_object_has: "k \<notin> set base_keys \<Longrightarrow> has_key (entity_object ty e own) k \<longleftrightarrow> has_key (JObj own) k"
  by (simp add: entity_object_def has_key_member has_key_opt base_keys_def del: has_key.simps)

lemma entity_status_mem: "entity_status_text s \<in> set entity_statuses"
  by (cases s) (simp_all add: entity_statuses_def)

lemma validate_base_object [simp]:
  "validate_base_entity (entity_object ty e own) (entity_type_text ty) p = [] \<longleftrightarrow> base_ok e"
  by (simp add: validate_base_entity_def entity_object_base validate_schema_version_def entity_status_mem base_ok_def)

lemma entity_array_Nil:
  "validate_entity_array (JArr (map enc xs)) path f = [] \<longleftrightarrow> (\<forall>x \<in> set xs. f (enc x) = [])"
proof -
  have "validate_entity_array (JArr (map enc xs)) path f =
    concat (map (\<lambda>ix. map (\<lambda>i. i\<lparr>vi_path := index_path path (fst ix) @ drop 1 (vi_path i)\<rparr>) (f (snd ix))) (enumerate 0 (map enc xs)))"
    by (simp add: validate_entity_array_def)
  also have "\<dots> = [] \<longleftrightarrow> (\<forall>x \<in> set (map enc xs). f x = [])" by (rule concat_map_enumerate_Nil) simp
  finally show ?thesis by simp
qed

lemma base_only_array_Nil:
  assumes "\<And>x. \<exists>own. enc x = entity_object ty (x :: 'a base_entity_scheme) own" "\<And>x p. extra (enc x) p = [] \<longleftrightarrow> P x"
  shows "validate_base_only_array (JArr (map enc xs)) path (entity_type_text ty) extra = [] \<longleftrightarrow> (\<forall>x \<in> set xs. base_ok x \<and> P x)"
proof -
  let ?f = "\<lambda>i v. let p = index_path path i in
         if \<not> is_record v then issue p ''enterprise_contract_validation_failed'' (entity_type_text ty @ '' must be an object.'')
         else validate_base_entity v (entity_type_text ty) p @ extra v p"
  have item: "?f i (enc x) = [] \<longleftrightarrow> base_ok x \<and> P x" for i x
  proof -
    obtain own where own: "enc x = entity_object ty x own" using assms(1) by blast
    have "validate_base_entity (enc x) (entity_type_text ty) p = [] \<longleftrightarrow> base_ok x" for p
      unfolding own by simp
    moreover have "is_record (enc x)" by (simp add: own)
    ultimately show ?thesis using assms(2) by (simp add: Let_def)
  qed
  have "validate_base_only_array (JArr (map enc xs)) path (entity_type_text ty) extra =
    concat (map (\<lambda>ix. ?f (fst ix) (snd ix)) (enumerate 0 (map enc xs)))"
    by (simp add: validate_base_only_array_def)
  also have "enumerate 0 (map enc xs) = map (\<lambda>ix. (fst ix, enc (snd ix))) (enumerate 0 xs)"
    by (simp add: enumerate_eq_zip zip_map2 split_def)
  finally have "validate_base_only_array (JArr (map enc xs)) path (entity_type_text ty) extra =
      concat (map (\<lambda>ix. ?f (fst ix) (enc (snd ix))) (enumerate 0 xs))"
    by (simp only: map_map comp_def fst_conv snd_conv)
  then show ?thesis
    using concat_map_enumerate_Nil[of "\<lambda>i x. ?f i (enc x)", OF item] by (simp only:)
qed

definition node_ok :: "node_contract \<Rightarrow> bool" where
  "node_ok n \<longleftrightarrow> base_ok n
    \<and> (\<forall>r. nc_owner n = Some r \<longrightarrow> non_blank (er_id r)
        \<and> er_entityType r \<in> {ET_position, ET_org_unit, ET_person, ET_enterprise_system})
    \<and> (is_record (nc_template n) \<longrightarrow> jget (nc_template n) ''fixedRoleCatalog'' \<in> {JUndef, JBool False})"

lemma entity_type_non_blank [simp]: "non_blank (entity_type_text ty)"
  by (cases ty) (simp_all add: non_blank_iff js_ws_def)

lemma entity_ref_json:
  "is_record (json_of_ref r)" "jget (json_of_ref r) ''entityType'' = JStr (entity_type_text (er_entityType r))"
  "jget (json_of_ref r) ''id'' = JStr (er_id r)"
  by (simp_all add: json_of_ref_def jget_member del: jget.simps)

lemma validate_ref_json [simp]: "validate_entity_ref (json_of_ref r) p = [] \<longleftrightarrow> non_blank (er_id r)"
  by (simp add: validate_entity_ref_def entity_ref_json)

lemma node_type_mem: "node_type_text ty \<in> set node_types"
  by (cases ty) (simp_all add: node_types_def)

lemma policy_json [simp]:
  "validate_failure_policy (json_of_failure_policy fp) p = []" "validate_recovery_policy (json_of_recovery_policy rp) p = []"
  by (simp_all add: validate_failure_policy_def validate_recovery_policy_def json_of_failure_policy_def
      json_of_recovery_policy_def jget_member del: jget.simps)

lemma policy_json_defined: "json_of_failure_policy fp \<noteq> JUndef" "json_of_recovery_policy rp \<noteq> JUndef" "json_of_ref r \<noteq> JUndef"
    "json_of_ref r \<noteq> JNull"
  by (simp_all add: json_of_failure_policy_def json_of_recovery_policy_def json_of_ref_def)

lemma owner_type_mem:
  "entity_type_text ty \<in> set [''position'', ''org_unit'', ''person'', ''enterprise_system'']
    \<longleftrightarrow> ty \<in> {ET_position, ET_org_unit, ET_person, ET_enterprise_system}"
  by (cases ty) simp_all

lemma forbidden_Nil: "forbidden_key_issues v keys p c m = [] \<longleftrightarrow> (\<forall>k \<in> set keys. \<not> has_key v k)"
  by (induction keys) (simp_all add: forbidden_key_issues_def)

lemma jget_last: "jget (JObj (opt_member k v)) k' = (if k' = k then v else JUndef)"
  by (cases v) (simp_all add: jget_member jget_empty del: jget.simps)

lemma node_json:
  "jget (json_of_node n) ''nodeType'' = JStr (node_type_text (nc_nodeType n))"
  "jget (json_of_node n) ''tags'' = json_of_strings (nc_tags n)"
  "jget (json_of_node n) ''children'' = json_of_strings (nc_children n)"
  "jget (json_of_node n) ''allowedToolIds'' = json_of_strings (nc_allowedToolIds n)"
  "jget (json_of_node n) ''allowedSystemIds'' = json_of_strings (nc_allowedSystemIds n)"
  "jget (json_of_node n) ''owner'' = (case nc_owner n of None \<Rightarrow> JUndef | Some r \<Rightarrow> json_of_ref r)"
  "jget (json_of_node n) ''template'' = nc_template n"
  "jget (json_of_node n) ''failurePolicy'' = (case nc_failurePolicy n of None \<Rightarrow> JUndef | Some p \<Rightarrow> json_of_failure_policy p)"
  "jget (json_of_node n) ''recoveryPolicy'' = (case nc_recoveryPolicy n of None \<Rightarrow> JUndef | Some p \<Rightarrow> json_of_recovery_policy p)"
proof -
  note simps = json_of_node_def entity_object_own base_keys_def jget_member jget_skip jget_last
  show "jget (json_of_node n) ''nodeType'' = JStr (node_type_text (nc_nodeType n))"
    "jget (json_of_node n) ''tags'' = json_of_strings (nc_tags n)"
    "jget (json_of_node n) ''children'' = json_of_strings (nc_children n)"
    "jget (json_of_node n) ''allowedToolIds'' = json_of_strings (nc_allowedToolIds n)"
    "jget (json_of_node n) ''allowedSystemIds'' = json_of_strings (nc_allowedSystemIds n)"
    by (simp_all add: simps del: jget.simps)
  show "jget (json_of_node n) ''owner'' = (case nc_owner n of None \<Rightarrow> JUndef | Some r \<Rightarrow> json_of_ref r)"
    by (cases "nc_owner n") (simp_all add: simps jget_opt(3) del: jget.simps)
  show "jget (json_of_node n) ''template'' = nc_template n"
    by (simp add: simps jget_opt_member del: jget.simps)
  show "jget (json_of_node n) ''failurePolicy'' = (case nc_failurePolicy n of None \<Rightarrow> JUndef | Some p \<Rightarrow> json_of_failure_policy p)"
    by (simp add: simps jget_opt_member del: jget.simps)
  show "jget (json_of_node n) ''recoveryPolicy'' = (case nc_recoveryPolicy n of None \<Rightarrow> JUndef | Some p \<Rightarrow> json_of_recovery_policy p)"
    by (simp add: simps del: jget.simps)
qed

lemma node_has_no_catalog: "k \<in> set fixed_role_catalog_keys \<Longrightarrow> \<not> has_key (json_of_node n) k"
  unfolding json_of_node_def
  by (auto simp: fixed_role_catalog_keys_def entity_object_has base_keys_def has_key_member has_key_opt
      simp del: has_key.simps split: option.split)

lemma validate_node_json: "validate_node_contract (json_of_node n) = [] \<longleftrightarrow> node_ok n"
proof -
  have rec: "is_record (json_of_node n)" by (simp add: json_of_node_def)
  have base: "validate_base_entity (json_of_node n) ''node'' p = [] \<longleftrightarrow> base_ok n" for p
    using validate_base_object[of ET_node n _ p] by (simp add: json_of_node_def)
  have owner: "validate_node_owner (jget (json_of_node n) ''owner'') = [] \<longleftrightarrow> (\<forall>r. nc_owner n = Some r \<longrightarrow> non_blank (er_id r)
        \<and> er_entityType r \<in> {ET_position, ET_org_unit, ET_person, ET_enterprise_system})"
    by (auto simp: node_json validate_node_owner_def policy_json_defined entity_ref_json owner_type_mem[simplified]
        simp del: jget.simps split: option.split)
  have catalog: "forbidden_key_issues (json_of_node n) fixed_role_catalog_keys p c m = []" for p c m
    using node_has_no_catalog by (simp add: forbidden_Nil)
  show ?thesis
    by (auto simp: validate_node_contract_def node_ok_def rec base owner catalog node_json(1-5,7-9) node_type_mem
        policy_json_defined simp del: jget.simps split: option.splits)
qed

lemma validate_team_json: "validate_enterprise_team (json_of_team t) = [] \<longleftrightarrow> base_ok t"
proof -
  have base: "validate_base_entity (json_of_team t) ''team'' p = [] \<longleftrightarrow> base_ok t" for p
    using validate_base_object[of ET_team t _ p] by (simp add: json_of_team_def)
  have keys: "\<forall>k \<in> set (team_execution_keys @ team_org_unit_mixed_keys). \<not> has_key (json_of_team t) k"
    unfolding json_of_team_def
    by (auto simp: team_execution_keys_def team_org_unit_mixed_keys_def entity_object_has base_keys_def has_key_member
        has_key_opt simp del: has_key.simps)
  have fields: "jget (json_of_team t) ''nodeIds'' = json_of_strings (tm_nodeIds t)"
    "jget (json_of_team t) ''tags'' = json_of_strings (tm_tags t)"
    unfolding json_of_team_def by (simp_all add: entity_object_own base_keys_def jget_member del: jget.simps)
  show ?thesis using keys
    by (simp add: validate_enterprise_team_def base fields forbidden_Nil) (simp add: json_of_team_def)
qed

lemma validate_org_unit_json: "validate_enterprise_org_unit (json_of_org_unit u) = [] \<longleftrightarrow> base_ok u"
proof -
  have base: "validate_base_entity (json_of_org_unit u) ''org_unit'' p = [] \<longleftrightarrow> base_ok u" for p
    using validate_base_object[of ET_org_unit u _ p] by (simp add: json_of_org_unit_def)
  have keys: "\<forall>k \<in> set org_unit_team_mixed_keys. \<not> has_key (json_of_org_unit u) k"
    unfolding json_of_org_unit_def
    by (auto simp: org_unit_team_mixed_keys_def entity_object_has base_keys_def has_key_member has_key_opt
        simp del: has_key.simps)
  have fields: "jget (json_of_org_unit u) ''positionIds'' = json_of_strings (un_positionIds u)"
    "jget (json_of_org_unit u) ''personIds'' = json_of_strings (un_personIds u)"
    "jget (json_of_org_unit u) ''kpiIds'' = json_of_strings (un_kpiIds u)"
    unfolding json_of_org_unit_def by (simp_all add: entity_object_own base_keys_def jget_member del: jget.simps)
  show ?thesis using keys
    by (simp add: validate_enterprise_org_unit_def base fields forbidden_Nil) (simp add: json_of_org_unit_def)
qed

definition relation_ok :: "enterprise_relation \<Rightarrow> bool" where
  "relation_ok r \<longleftrightarrow> base_ok r \<and> non_blank (er_id (rel_from r)) \<and> non_blank (er_id (rel_to r))
    \<and> endpoint_allowed (relation_type_text (rel_relationType r)) (entity_type_text (er_entityType (rel_from r)))
        (entity_type_text (er_entityType (rel_to r)))"

lemma relation_type_mem: "relation_type_text rt \<in> set relation_types"
  by (cases rt) (simp_all add: relation_types_def)

lemma validate_relation_json: "validate_enterprise_relation (json_of_relation r) = [] \<longleftrightarrow> relation_ok r"
proof -
  have base: "validate_base_entity (json_of_relation r) ''relation'' p = [] \<longleftrightarrow> base_ok r" for p
    using validate_base_object[of ET_relation r _ p] by (simp add: json_of_relation_def)
  have rec: "is_record (json_of_relation r)" by (simp add: json_of_relation_def)
  have fields: "jget (json_of_relation r) ''relationType'' = JStr (relation_type_text (rel_relationType r))"
    "jget (json_of_relation r) ''from'' = json_of_ref (rel_from r)" "jget (json_of_relation r) ''to'' = json_of_ref (rel_to r)"
    unfolding json_of_relation_def by (simp_all add: entity_object_own base_keys_def jget_member del: jget.simps)
  show ?thesis
    by (auto simp: validate_enterprise_relation_def base rec fields entity_ref_json relation_type_mem relation_ok_def
        simp del: jget.simps)
qed

lemma position_array:
  "validate_base_only_array (JArr (map json_of_position ps)) path ''position'' position_checks = []
    \<longleftrightarrow> (\<forall>p \<in> set ps. base_ok p \<and> non_blank (po_orgUnitId p))"
proof -
  have "validate_base_only_array (JArr (map json_of_position ps)) path (entity_type_text ET_position) position_checks = []
      \<longleftrightarrow> (\<forall>p \<in> set ps. base_ok p \<and> non_blank (po_orgUnitId p))"
  proof (rule base_only_array_Nil)
    show "\<exists>own. json_of_position p = entity_object ET_position p own" for p by (auto simp: json_of_position_def)
    show "position_checks (json_of_position p) path = [] \<longleftrightarrow> non_blank (po_orgUnitId p)" for p path
      unfolding json_of_position_def
      by (simp add: position_checks_def entity_object_own base_keys_def jget_member del: jget.simps)
  qed
  then show ?thesis by simp
qed

lemma person_array:
  "validate_base_only_array (JArr (map json_of_person ps)) path ''person'' person_checks = [] \<longleftrightarrow> (\<forall>p \<in> set ps. base_ok p)"
proof -
  have "validate_base_only_array (JArr (map json_of_person ps)) path (entity_type_text ET_person) person_checks = []
      \<longleftrightarrow> (\<forall>p \<in> set ps. base_ok p \<and> True)"
  proof (rule base_only_array_Nil)
    show "\<exists>own. json_of_person p = entity_object ET_person p own" for p by (auto simp: json_of_person_def)
    show "person_checks (json_of_person p) path = [] \<longleftrightarrow> True" for p path
      unfolding json_of_person_def
      by (simp add: person_checks_def entity_object_own base_keys_def jget_member del: jget.simps)
  qed
  then show ?thesis by simp
qed

lemma membership_array:
  "validate_base_only_array (JArr (map json_of_membership ms)) path ''membership'' membership_checks = []
    \<longleftrightarrow> (\<forall>m \<in> set ms. base_ok m \<and> non_blank (mb_personId m))"
proof -
  have "validate_base_only_array (JArr (map json_of_membership ms)) path (entity_type_text ET_membership) membership_checks = []
      \<longleftrightarrow> (\<forall>m \<in> set ms. base_ok m \<and> non_blank (mb_personId m))"
  proof (rule base_only_array_Nil)
    show "\<exists>own. json_of_membership m = entity_object ET_membership m own" for m by (auto simp: json_of_membership_def)
    show "membership_checks (json_of_membership m) path = [] \<longleftrightarrow> non_blank (mb_personId m)" for m path
      unfolding json_of_membership_def
      by (simp add: membership_checks_def entity_object_own base_keys_def jget_member del: jget.simps)
  qed
  then show ?thesis by simp
qed

text \<open>Collections whose items only need a sound base.\<close>

lemma plain_array:
  assumes "\<And>x. \<exists>own. enc x = entity_object ty (x :: 'a base_entity_scheme) own"
  shows "validate_base_only_array (JArr (map enc xs)) path (entity_type_text ty) (\<lambda>_ _. []) = [] \<longleftrightarrow> (\<forall>x \<in> set xs. base_ok x)"
  using base_only_array_Nil[OF assms, of "\<lambda>_ _. []" "\<lambda>_. True"] by simp

lemma plain_arrays:
  "validate_base_only_array (JArr (map json_of_authority_rule rs)) path ''authority_rule'' (\<lambda>_ _. []) = [] \<longleftrightarrow> (\<forall>x \<in> set rs. base_ok x)"
  "validate_base_only_array (JArr (map json_of_responsibility es)) path ''responsibility_matrix_entry'' (\<lambda>_ _. []) = []
     \<longleftrightarrow> (\<forall>x \<in> set es. base_ok x)"
  "validate_base_only_array (JArr (map json_of_system ys)) path ''enterprise_system'' (\<lambda>_ _. []) = [] \<longleftrightarrow> (\<forall>x \<in> set ys. base_ok x)"
  "validate_base_only_array (JArr (map json_of_tool ts)) path ''enterprise_tool'' (\<lambda>_ _. []) = [] \<longleftrightarrow> (\<forall>x \<in> set ts. base_ok x)"
  "validate_base_only_array (JArr (map json_of_process ps)) path ''process_definition'' (\<lambda>_ _. []) = [] \<longleftrightarrow> (\<forall>x \<in> set ps. base_ok x)"
proof -
  have enc: "\<exists>own. json_of_authority_rule r = entity_object ET_authority_rule r own"
    "\<exists>own. json_of_responsibility e = entity_object ET_responsibility_matrix_entry e own"
    "\<exists>own. json_of_system y = entity_object ET_enterprise_system y own"
    "\<exists>own. json_of_tool x = entity_object ET_enterprise_tool x own"
    "\<exists>own. json_of_process p = entity_object ET_process_definition p own" for r e y x p
    unfolding json_of_authority_rule_def json_of_responsibility_def json_of_system_def json_of_tool_def json_of_process_def
    by blast+
  show "validate_base_only_array (JArr (map json_of_authority_rule rs)) path ''authority_rule'' (\<lambda>_ _. []) = [] \<longleftrightarrow> (\<forall>x \<in> set rs. base_ok x)"
    using plain_array[OF enc(1), of rs path] by simp
  show "validate_base_only_array (JArr (map json_of_responsibility es)) path ''responsibility_matrix_entry'' (\<lambda>_ _. []) = []
     \<longleftrightarrow> (\<forall>x \<in> set es. base_ok x)"
    using plain_array[OF enc(2), of es path] by simp
  show "validate_base_only_array (JArr (map json_of_system ys)) path ''enterprise_system'' (\<lambda>_ _. []) = [] \<longleftrightarrow> (\<forall>x \<in> set ys. base_ok x)"
    using plain_array[OF enc(3), of ys path] by simp
  show "validate_base_only_array (JArr (map json_of_tool ts)) path ''enterprise_tool'' (\<lambda>_ _. []) = [] \<longleftrightarrow> (\<forall>x \<in> set ts. base_ok x)"
    using plain_array[OF enc(4), of ts path] by simp
  show "validate_base_only_array (JArr (map json_of_process ps)) path ''process_definition'' (\<lambda>_ _. []) = [] \<longleftrightarrow> (\<forall>x \<in> set ps. base_ok x)"
    using plain_array[OF enc(5), of ps path] by simp
qed

definition topology_ok :: "enterprise_topology \<Rightarrow> bool" where
  "topology_ok t \<longleftrightarrow> base_ok t \<and> (\<forall>n \<in> set (tp_nodes t). node_ok n) \<and> (\<forall>x \<in> set (tp_teams t). base_ok x)
    \<and> (\<forall>u \<in> set (tp_orgUnits t). base_ok u) \<and> (\<forall>p \<in> set (tp_positions t). base_ok p \<and> non_blank (po_orgUnitId p))
    \<and> (\<forall>p \<in> set (tp_persons t). base_ok p) \<and> (\<forall>m \<in> set (tp_memberships t). base_ok m \<and> non_blank (mb_personId m))
    \<and> (\<forall>r \<in> set (tp_authorityRules t). base_ok r) \<and> (\<forall>e \<in> set (tp_responsibilities t). base_ok e)
    \<and> (\<forall>y \<in> set (tp_systems t). base_ok y) \<and> (\<forall>x \<in> set (tp_tools t). base_ok x) \<and> (\<forall>p \<in> set (tp_processes t). base_ok p)
    \<and> (\<forall>r \<in> set (tp_relations t). relation_ok r)"

lemma topology_json:
  "jget (json_of_topology t) ''nodes'' = JArr (map json_of_node (tp_nodes t))"
  "jget (json_of_topology t) ''teams'' = JArr (map json_of_team (tp_teams t))"
  "jget (json_of_topology t) ''orgUnits'' = JArr (map json_of_org_unit (tp_orgUnits t))"
  "jget (json_of_topology t) ''positions'' = JArr (map json_of_position (tp_positions t))"
  "jget (json_of_topology t) ''persons'' = JArr (map json_of_person (tp_persons t))"
  "jget (json_of_topology t) ''memberships'' = JArr (map json_of_membership (tp_memberships t))"
  "jget (json_of_topology t) ''authorityRules'' = JArr (map json_of_authority_rule (tp_authorityRules t))"
  "jget (json_of_topology t) ''responsibilities'' = JArr (map json_of_responsibility (tp_responsibilities t))"
  "jget (json_of_topology t) ''systems'' = JArr (map json_of_system (tp_systems t))"
  "jget (json_of_topology t) ''tools'' = JArr (map json_of_tool (tp_tools t))"
  "jget (json_of_topology t) ''processes'' = JArr (map json_of_process (tp_processes t))"
  "jget (json_of_topology t) ''relations'' = JArr (map json_of_relation (tp_relations t))"
  unfolding json_of_topology_def by (simp_all add: entity_object_own base_keys_def jget_member del: jget.simps)

lemma topology_has_no_catalog: "k \<in> set fixed_role_catalog_keys \<Longrightarrow> \<not> has_key (json_of_topology t) k"
  unfolding json_of_topology_def
  by (auto simp: fixed_role_catalog_keys_def entity_object_has base_keys_def has_key_member has_key_opt simp del: has_key.simps)

text \<open>The contract validator accepts a typed topology exactly when every entity has an id, a name and valid
  timestamps, node owners are positions, organisation units, persons or systems, no template requires a role
  catalog, positions and memberships name their unit and person, and every relation connects entity types
  its relation type allows; nothing else about a typed topology is rejected.\<close>

lemma validate_topology_contract_iff: "validate_enterprise_topology (json_of_topology t) = [] \<longleftrightarrow> topology_ok t"
proof -
  have base: "validate_base_entity (json_of_topology t) ''topology'' p = [] \<longleftrightarrow> base_ok t" for p
    using validate_base_object[of ET_topology t _ p] by (simp add: json_of_topology_def)
  have rec: "is_record (json_of_topology t)" by (simp add: json_of_topology_def)
  have catalog: "forbidden_key_issues (json_of_topology t) fixed_role_catalog_keys p c m = []" for p c m
    using topology_has_no_catalog by (simp add: forbidden_Nil)
  show ?thesis
    unfolding validate_enterprise_topology_def topology_ok_def
    by (simp add: rec base catalog topology_json entity_array_Nil validate_node_json validate_team_json validate_org_unit_json
        validate_relation_json position_array person_array membership_array plain_arrays)
qed

end
