(* ===== verification/Topology_References.thy ===== *)
theory Topology_References
  imports Delegation_Graph Topology_Contract
begin

text \<open>
  The first two stages of \<open>topology/validator.ts\<close> on a topology that passed the contract: the index of
  all entities with the duplicate ids it finds, and the references between entities. Each check
  returns the issues it pushes. The topology is typed, so the tests of malformed references
  (\<open>isEntityReferenceLike\<close>, \<open>isKnownEnterpriseEntityType\<close>) always pass and are not repeated here.
\<close>

section \<open>Indexes\<close>

record indexed_entity =
  ix_id :: string
  ix_entityType :: entity_type
  ix_path :: string

record entity_indexes =
  xi_byId :: "(string, indexed_entity list) jsmap"
  xi_byType :: "(entity_type, (string, indexed_entity) jsmap) jsmap"

definition indexed_collection :: "string \<Rightarrow> entity_type \<Rightarrow> string list \<Rightarrow> indexed_entity list" where
  "indexed_collection key ty ids = map (\<lambda>ik. \<lparr>ix_id = snd ik, ix_entityType = ty,
     ix_path = index_path (''$.'' @ key) (fst ik)\<rparr>) (enumerate 0 ids)"

definition topology_entities :: "enterprise_topology \<Rightarrow> indexed_entity list" where
  "topology_entities t =
    [\<lparr>ix_id = be_id t, ix_entityType = ET_topology, ix_path = ''$''\<rparr>]
    @ indexed_collection ''nodes'' ET_node (map be_id (tp_nodes t))
    @ indexed_collection ''teams'' ET_team (map be_id (tp_teams t))
    @ indexed_collection ''orgUnits'' ET_org_unit (map be_id (tp_orgUnits t))
    @ indexed_collection ''positions'' ET_position (map be_id (tp_positions t))
    @ indexed_collection ''persons'' ET_person (map be_id (tp_persons t))
    @ indexed_collection ''memberships'' ET_membership (map be_id (tp_memberships t))
    @ indexed_collection ''authorityRules'' ET_authority_rule (map be_id (tp_authorityRules t))
    @ indexed_collection ''responsibilities'' ET_responsibility_matrix_entry (map be_id (tp_responsibilities t))
    @ indexed_collection ''systems'' ET_enterprise_system (map be_id (tp_systems t))
    @ indexed_collection ''tools'' ET_enterprise_tool (map be_id (tp_tools t))
    @ indexed_collection ''processes'' ET_process_definition (map be_id (tp_processes t))
    @ indexed_collection ''relations'' ET_relation (map be_id (tp_relations t))"

definition add_indexed_entity :: "indexed_entity \<Rightarrow> entity_indexes \<times> topology_issue list \<Rightarrow> entity_indexes \<times> topology_issue list" where
  "add_indexed_entity e s =
    (let ix = fst s; existing = js_lookup (xi_byId ix) (ix_id e) [];
         new = (case existing of
             x # _ \<Rightarrow> [entity_issue (ix_path e @ ''.id'') ''duplicate_entity_id'' SV_invalid
               (''Entity id '' @ ix_id e @ '' is already used at '' @ ix_path x @ ''.'') (ix_entityType e) (ix_id e)]
           | [] \<Rightarrow> []);
         byType = js_lookup (xi_byType ix) (ix_entityType e) []
     in (\<lparr>xi_byId = AList.update (ix_id e) (existing @ [e]) (xi_byId ix),
          xi_byType = AList.update (ix_entityType e)
            (if map_of byType (ix_id e) = None then AList.update (ix_id e) e byType else byType) (xi_byType ix)\<rparr>,
         snd s @ new))"

definition build_entity_indexes :: "enterprise_topology \<Rightarrow> entity_indexes \<times> topology_issue list" where
  "build_entity_indexes t = fold add_indexed_entity (topology_entities t) (\<lparr>xi_byId = [], xi_byType = []\<rparr>, [])"

definition entity_exists :: "entity_indexes \<Rightarrow> entity_type \<Rightarrow> string \<Rightarrow> bool" where
  "entity_exists ix ty i \<longleftrightarrow> map_of (js_lookup (xi_byType ix) ty []) i \<noteq> None"

section \<open>References\<close>

record reference_owner =
  ow_entityId :: string
  ow_entityType :: entity_type
  ow_relationId :: "string option"

definition owner_from :: "entity_type \<Rightarrow> string \<Rightarrow> string option \<Rightarrow> reference_owner" where
  "owner_from ty i rel = \<lparr>ow_entityId = i, ow_entityType = ty, ow_relationId = rel\<rparr>"

definition validate_typed_reference ::
  "entity_indexes \<Rightarrow> entity_type \<Rightarrow> string \<Rightarrow> string \<Rightarrow> reference_owner \<Rightarrow> topology_issue list" where
  "validate_typed_reference ix ty i path owner =
    (if entity_exists ix ty i then []
     else [(entity_issue path ''missing_entity_reference'' SV_invalid
         (''Referenced '' @ entity_type_text ty @ '' '' @ i @ '' does not exist.'') (ow_entityType owner) (ow_entityId owner))
       \<lparr>ts_relationId := ow_relationId owner, ts_refId := Some i, ts_refType := Some ty\<rparr>])"

definition validate_optional_reference ::
  "entity_indexes \<Rightarrow> entity_type \<Rightarrow> string option \<Rightarrow> string \<Rightarrow> reference_owner \<Rightarrow> topology_issue list" where
  "validate_optional_reference ix ty i path owner =
    (case i of None \<Rightarrow> [] | Some r \<Rightarrow> validate_typed_reference ix ty r path owner)"

definition validate_entity_reference ::
  "entity_indexes \<Rightarrow> entity_ref \<Rightarrow> string \<Rightarrow> reference_owner \<Rightarrow> topology_issue list" where
  "validate_entity_reference ix r path owner =
    validate_typed_reference ix (er_entityType r) (er_id r) (path @ ''.id'') owner"

text \<open>\<open>xs.forEach((x, i) => ...)\<close>\<close>

definition each :: "(nat \<Rightarrow> 'a \<Rightarrow> 'b list) \<Rightarrow> 'a list \<Rightarrow> 'b list" where
  "each f xs = concat (map (\<lambda>ix. f (fst ix) (snd ix)) (enumerate 0 xs))"

definition validate_references ::
  "entity_indexes \<Rightarrow> entity_type \<Rightarrow> string list \<Rightarrow> string \<Rightarrow> reference_owner \<Rightarrow> topology_issue list" where
  "validate_references ix ty ids path owner = each (\<lambda>k i. validate_typed_reference ix ty i (index_path path k) owner) ids"

definition validate_node_references :: "entity_indexes \<Rightarrow> node_contract \<Rightarrow> string \<Rightarrow> topology_issue list" where
  "validate_node_references ix n path =
    (let owner = owner_from ET_node (be_id n) None in
     (case nc_owner n of None \<Rightarrow> [] | Some r \<Rightarrow> validate_entity_reference ix r (path @ ''.owner'') owner)
     @ validate_references ix ET_node (nc_children n) (path @ ''.children'') owner
     @ validate_references ix ET_enterprise_tool (nc_allowedToolIds n) (path @ ''.allowedToolIds'') owner
     @ validate_references ix ET_enterprise_system (nc_allowedSystemIds n) (path @ ''.allowedSystemIds'') owner)"

definition validate_team_references :: "entity_indexes \<Rightarrow> enterprise_team \<Rightarrow> string \<Rightarrow> topology_issue list" where
  "validate_team_references ix t path =
    (if tm_nodeIds t = [] then [entity_issue (path @ ''.nodeIds'') ''empty_team_nodes'' SV_warning ''Team has no nodes assigned.'' ET_team (be_id t)]
     else [])
    @ validate_references ix ET_node (tm_nodeIds t) (path @ ''.nodeIds'') (owner_from ET_team (be_id t) None)"

definition validate_org_unit_references :: "entity_indexes \<Rightarrow> org_unit \<Rightarrow> string \<Rightarrow> topology_issue list" where
  "validate_org_unit_references ix u path =
    (let owner = owner_from ET_org_unit (be_id u) None in
     validate_optional_reference ix ET_org_unit (un_parentOrgUnitId u) (path @ ''.parentOrgUnitId'') owner
     @ validate_references ix ET_position (un_positionIds u) (path @ ''.positionIds'') owner
     @ validate_references ix ET_person (un_personIds u) (path @ ''.personIds'') owner)"

definition validate_position_references :: "entity_indexes \<Rightarrow> position \<Rightarrow> string \<Rightarrow> topology_issue list" where
  "validate_position_references ix p path =
    (let owner = owner_from ET_position (be_id p) None in
     validate_typed_reference ix ET_org_unit (po_orgUnitId p) (path @ ''.orgUnitId'') owner
     @ validate_optional_reference ix ET_position (po_reportsToPositionId p) (path @ ''.reportsToPositionId'') owner
     @ validate_references ix ET_person (po_personIds p) (path @ ''.personIds'') owner
     @ validate_optional_reference ix ET_position (po_backupPositionId p) (path @ ''.backupPositionId'') owner)"

definition validate_person_references :: "entity_indexes \<Rightarrow> person \<Rightarrow> string \<Rightarrow> topology_issue list" where
  "validate_person_references ix p path =
    (let owner = owner_from ET_person (be_id p) None in
     validate_references ix ET_position (pe_positionIds p) (path @ ''.positionIds'') owner
     @ validate_references ix ET_org_unit (pe_orgUnitIds p) (path @ ''.orgUnitIds'') owner)"

definition validate_membership_references :: "entity_indexes \<Rightarrow> membership \<Rightarrow> string \<Rightarrow> topology_issue list" where
  "validate_membership_references ix m path =
    (let owner = owner_from ET_membership (be_id m) None in
     validate_typed_reference ix ET_person (mb_personId m) (path @ ''.personId'') owner
     @ validate_optional_reference ix ET_position (mb_positionId m) (path @ ''.positionId'') owner
     @ validate_optional_reference ix ET_org_unit (mb_orgUnitId m) (path @ ''.orgUnitId'') owner
     @ validate_optional_reference ix ET_team (mb_teamId m) (path @ ''.teamId'') owner)"

definition validate_authority_rule_references :: "entity_indexes \<Rightarrow> authority_rule \<Rightarrow> string \<Rightarrow> topology_issue list" where
  "validate_authority_rule_references ix r path =
    (let owner = owner_from ET_authority_rule (be_id r) None in
     validate_entity_reference ix (ar_subject r) (path @ ''.subject'') owner
     @ validate_entity_reference ix (ar_object r) (path @ ''.object'') owner)"

definition validate_responsibility_references :: "entity_indexes \<Rightarrow> responsibility_entry \<Rightarrow> string \<Rightarrow> topology_issue list" where
  "validate_responsibility_references ix e path =
    (let owner = owner_from ET_responsibility_matrix_entry (be_id e) None in
     validate_entity_reference ix (re_scope e) (path @ ''.scope'') owner
     @ validate_entity_reference ix (re_responsible e) (path @ ''.responsible'') owner
     @ (case re_accountable e of None \<Rightarrow> [] | Some r \<Rightarrow> validate_entity_reference ix r (path @ ''.accountable'') owner)
     @ each (\<lambda>k r. validate_entity_reference ix r (index_path (path @ ''.consulted'') k) owner) (re_consulted e)
     @ each (\<lambda>k r. validate_entity_reference ix r (index_path (path @ ''.informed'') k) owner) (re_informed e))"

definition validate_tool_references :: "entity_indexes \<Rightarrow> enterprise_tool \<Rightarrow> string \<Rightarrow> topology_issue list" where
  "validate_tool_references ix x path =
    validate_optional_reference ix ET_enterprise_system (tl_systemId x) (path @ ''.systemId'') (owner_from ET_enterprise_tool (be_id x) None)"

definition validate_process_references :: "entity_indexes \<Rightarrow> process_definition \<Rightarrow> string \<Rightarrow> topology_issue list" where
  "validate_process_references ix p path =
    (let owner = owner_from ET_process_definition (be_id p) None in
     (if pd_stepNodeIds p = [] then [entity_issue (path @ ''.stepNodeIds'') ''empty_process_steps'' SV_warning
        ''Process definition has no step nodes.'' ET_process_definition (be_id p)] else [])
     @ validate_optional_reference ix ET_node (pd_ownerNodeId p) (path @ ''.ownerNodeId'') owner
     @ validate_references ix ET_node (pd_stepNodeIds p) (path @ ''.stepNodeIds'') owner
     @ validate_optional_reference ix ET_position (pd_accountablePositionId p) (path @ ''.accountablePositionId'') owner)"

section \<open>Endpoints of relations\<close>

text \<open>\<open>TOPOLOGY_RELATION_ENDPOINT_RULES\<close> of \<open>topology/schema.ts\<close>\<close>

record endpoint_rule =
  ep_from :: "entity_type list"
  ep_to :: "entity_type list"
  ep_allowedPairs :: "(entity_type \<times> entity_type) list"

definition endpoint_pairs :: "entity_type list \<Rightarrow> entity_type list \<Rightarrow> (entity_type \<times> entity_type) list" where
  "endpoint_pairs fs ts = concat (map (\<lambda>f. map (\<lambda>t. (f, t)) ts) fs)"

definition people_or_structure :: "entity_type list" where
  "people_or_structure = [ET_node, ET_team, ET_org_unit, ET_position, ET_person]"

definition work_targets :: "entity_type list" where
  "work_targets = [ET_node, ET_process_definition, ET_enterprise_system, ET_enterprise_tool]"

definition authority_holders :: "entity_type list" where
  "authority_holders = [ET_position, ET_person, ET_org_unit]"

definition accountable_holders :: "entity_type list" where
  "accountable_holders = [ET_position, ET_person, ET_org_unit, ET_node]"

definition all_pairs_rule :: "entity_type list \<Rightarrow> entity_type list \<Rightarrow> endpoint_rule" where
  "all_pairs_rule fs ts = \<lparr>ep_from = fs, ep_to = ts, ep_allowedPairs = endpoint_pairs fs ts\<rparr>"

fun endpoint_rule_of :: "relation_type \<Rightarrow> endpoint_rule" where
  "endpoint_rule_of RT_reports_to = \<lparr>ep_from = [ET_position, ET_person], ep_to = [ET_position, ET_person],
     ep_allowedPairs = endpoint_pairs [ET_position] [ET_position] @ endpoint_pairs [ET_person] [ET_person]\<rparr>"
| "endpoint_rule_of RT_belongs_to = \<lparr>ep_from = [ET_node, ET_position, ET_person, ET_team], ep_to = [ET_team, ET_org_unit],
     ep_allowedPairs = endpoint_pairs [ET_node] [ET_team] @ endpoint_pairs [ET_position] [ET_org_unit]
       @ endpoint_pairs [ET_person] [ET_org_unit] @ endpoint_pairs [ET_team] [ET_org_unit]\<rparr>"
| "endpoint_rule_of RT_delegates_to = all_pairs_rule [ET_node] [ET_node]"
| "endpoint_rule_of RT_approves = all_pairs_rule authority_holders work_targets"
| "endpoint_rule_of RT_owns = all_pairs_rule accountable_holders work_targets"
| "endpoint_rule_of RT_collaborates_with = all_pairs_rule people_or_structure people_or_structure"
| "endpoint_rule_of RT_escalates_to = all_pairs_rule [ET_node, ET_position, ET_person] [ET_node, ET_position, ET_person]"
| "endpoint_rule_of RT_informs = all_pairs_rule people_or_structure people_or_structure"
| "endpoint_rule_of RT_uses_system = all_pairs_rule [ET_node, ET_process_definition] [ET_enterprise_system]"
| "endpoint_rule_of RT_uses_tool = all_pairs_rule [ET_node] [ET_enterprise_tool]"
| "endpoint_rule_of RT_has_access_to = all_pairs_rule [ET_node, ET_position, ET_person, ET_org_unit] [ET_enterprise_system, ET_enterprise_tool]"
| "endpoint_rule_of RT_depends_on = all_pairs_rule work_targets work_targets"
| "endpoint_rule_of RT_consults = all_pairs_rule [ET_node, ET_position, ET_person] [ET_node, ET_position, ET_person]"
| "endpoint_rule_of RT_accountable_for = all_pairs_rule accountable_holders [ET_node, ET_process_definition]"

definition relation_endpoint_allowed :: "relation_type \<Rightarrow> entity_type \<Rightarrow> entity_type \<Rightarrow> bool" where
  "relation_endpoint_allowed rt a b =
    (let r = endpoint_rule_of rt in a \<in> set (ep_from r) \<and> b \<in> set (ep_to r) \<and> (\<exists>p \<in> set (ep_allowedPairs r). fst p = a \<and> snd p = b))"

definition validate_relation_references :: "entity_indexes \<Rightarrow> enterprise_relation \<Rightarrow> string \<Rightarrow> topology_issue list" where
  "validate_relation_references ix r path =
    (let owner = owner_from ET_relation (be_id r) (Some (be_id r)) in
     validate_entity_reference ix (rel_from r) (path @ ''.from'') owner
     @ validate_entity_reference ix (rel_to r) (path @ ''.to'') owner
     @ (if relation_endpoint_allowed (rel_relationType r) (er_entityType (rel_from r)) (er_entityType (rel_to r)) then []
        else [(entity_issue (path @ ''.to.entityType'') ''invalid_relation_endpoint'' SV_invalid
           ''Relation source and target entity types are not compatible.'' ET_relation (be_id r))
           \<lparr>ts_relationId := Some (be_id r), ts_sourceEntityId := Some (er_id (rel_from r)),
            ts_targetEntityId := Some (er_id (rel_to r))\<rparr>]))"

definition each_entity :: "string \<Rightarrow> ('a \<Rightarrow> string \<Rightarrow> 'b list) \<Rightarrow> 'a list \<Rightarrow> 'b list" where
  "each_entity key f xs = each (\<lambda>k x. f x (index_path (''$.'' @ key) k)) xs"

definition validate_topology_references :: "enterprise_topology \<Rightarrow> entity_indexes \<Rightarrow> topology_issue list" where
  "validate_topology_references t ix =
    each_entity ''nodes'' (validate_node_references ix) (tp_nodes t)
    @ each_entity ''teams'' (validate_team_references ix) (tp_teams t)
    @ each_entity ''orgUnits'' (validate_org_unit_references ix) (tp_orgUnits t)
    @ each_entity ''positions'' (validate_position_references ix) (tp_positions t)
    @ each_entity ''persons'' (validate_person_references ix) (tp_persons t)
    @ each_entity ''memberships'' (validate_membership_references ix) (tp_memberships t)
    @ each_entity ''authorityRules'' (validate_authority_rule_references ix) (tp_authorityRules t)
    @ each_entity ''responsibilities'' (validate_responsibility_references ix) (tp_responsibilities t)
    @ each_entity ''tools'' (validate_tool_references ix) (tp_tools t)
    @ each_entity ''processes'' (validate_process_references ix) (tp_processes t)
    @ each_entity ''relations'' (validate_relation_references ix) (tp_relations t)"

section \<open>Delegation\<close>

definition delegation_edges :: "enterprise_topology \<Rightarrow> delegation_edge list" where
  "delegation_edges t =
    each_entity ''nodes'' (\<lambda>n path. each (\<lambda>k c. [\<lparr>de_from = be_id n, de_to = c,
        de_path = index_path (path @ ''.children'') k, de_relationId = None\<rparr>]) (nc_children n)) (tp_nodes t)
    @ each_entity ''relations'' (\<lambda>r path.
        if rel_relationType r = RT_delegates_to \<and> er_entityType (rel_from r) = ET_node \<and> er_entityType (rel_to r) = ET_node
        then [\<lparr>de_from = er_id (rel_from r), de_to = er_id (rel_to r), de_path = path, de_relationId = Some (be_id r)\<rparr>]
        else []) (tp_relations t)"

definition build_delegation_adjacency :: "enterprise_topology \<Rightarrow> adjacency" where
  "build_delegation_adjacency t = fold add_graph_edge (delegation_edges t) []"

definition validate_delegation_graph :: "host \<Rightarrow> enterprise_topology \<Rightarrow> entity_indexes \<Rightarrow> jsnum \<Rightarrow> topology_issue list" where
  "validate_delegation_graph h t ix maxDepth =
    (let adj = build_delegation_adjacency t; nodes = uniq (map be_id (tp_nodes t)) in
     detect_delegation_cycles adj nodes
     @ detect_depth_overflow h (max_zero maxDepth) adj nodes
     @ concat (map (\<lambda>(src, es). if \<not> entity_exists ix ET_node src then []
         else concat (map (\<lambda>e. if entity_exists ix ET_node (de_to e) then []
           else validate_typed_reference ix ET_node (de_to e) (de_path e) (owner_from ET_node (de_from e) (de_relationId e))) es)) adj))"

section \<open>What the stages accept\<close>

lemma clean_each:
  assumes "\<And>k x. clean (f k x) \<longleftrightarrow> P x"
  shows "clean (each f xs) \<longleftrightarrow> (\<forall>x \<in> set xs. P x)"
proof -
  have "clean (concat (map (\<lambda>ix. f (fst ix) (snd ix)) (enumerate n xs))) \<longleftrightarrow> (\<forall>x \<in> set xs. P x)" for n
    by (induction xs arbitrary: n) (auto simp: assms)
  then show ?thesis by (simp add: each_def)
qed

lemma clean_each_entity:
  "(\<And>x path. clean (f x path) \<longleftrightarrow> P x) \<Longrightarrow> clean (each_entity key f xs) \<longleftrightarrow> (\<forall>x \<in> set xs. P x)"
  unfolding each_entity_def by (rule clean_each) blast

text \<open>The ids of a type.\<close>

definition entity_ids :: "enterprise_topology \<Rightarrow> entity_type \<Rightarrow> string set" where
  "entity_ids t ty = {ix_id e | e. e \<in> set (topology_entities t) \<and> ix_entityType e = ty}"

lemma indexed_collection_map: "map ix_id (indexed_collection key ty ids) = ids"
  by (simp add: indexed_collection_def comp_def)

lemma indexed_collection_ids:
  "{ix_id e | e. e \<in> set (indexed_collection key ty ids) \<and> ix_entityType e = ty'} = (if ty' = ty then set ids else {})"
proof -
  have "\<forall>e \<in> set (indexed_collection key ty ids). ix_entityType e = ty" by (auto simp: indexed_collection_def)
  moreover have "ix_id ` set (indexed_collection key ty ids) = set ids"
    using arg_cong[OF indexed_collection_map[of key ty ids], of set] by simp
  ultimately show ?thesis by (simp, blast)
qed

lemma add_indexed_steps:
  assumes "fold add_indexed_entity es s = s'"
    and "\<And>ty i. entity_exists (fst s) ty i \<longleftrightarrow> (\<exists>e \<in> set seen. ix_entityType e = ty \<and> ix_id e = i)"
    and "\<And>i. js_lookup (xi_byId (fst s)) i [] = [] \<longleftrightarrow> i \<notin> ix_id ` set seen"
    and "clean (snd s) \<longleftrightarrow> distinct (map ix_id seen)"
  shows "(\<forall>ty i. entity_exists (fst s') ty i \<longleftrightarrow> (\<exists>e \<in> set (seen @ es). ix_entityType e = ty \<and> ix_id e = i))
    \<and> (clean (snd s') \<longleftrightarrow> distinct (map ix_id (seen @ es)))"
  using assms
proof (induction es arbitrary: s seen)
  case (Cons e es)
  let ?s = "add_indexed_entity e s"
  have "entity_exists (fst ?s) ty i \<longleftrightarrow> (\<exists>e' \<in> set (seen @ [e]). ix_entityType e' = ty \<and> ix_id e' = i)" for ty i
    using Cons.prems(2)[of ty i]
    by (auto simp: entity_exists_def add_indexed_entity_def Let_def js_lookup_def update_conv' split: option.splits)
  moreover have "js_lookup (xi_byId (fst ?s)) i [] = [] \<longleftrightarrow> i \<notin> ix_id ` set (seen @ [e])" for i
    using Cons.prems(3)[of i] by (auto simp: add_indexed_entity_def Let_def js_lookup_def update_conv' split: option.splits)
  moreover have "clean (snd ?s) \<longleftrightarrow> distinct (map ix_id (seen @ [e]))"
    using Cons.prems(3)[of "ix_id e"] Cons.prems(4)
    by (auto simp: add_indexed_entity_def Let_def severe_def split: list.splits)
  ultimately show ?case using Cons.IH[of ?s "seen @ [e]"] Cons.prems(1) by simp
qed simp

lemma build_indexes:
  "entity_exists (fst (build_entity_indexes t)) ty i \<longleftrightarrow> i \<in> entity_ids t ty"
  "clean (snd (build_entity_indexes t)) \<longleftrightarrow> distinct (map ix_id (topology_entities t))"
  using add_indexed_steps[of "topology_entities t" "(\<lparr>xi_byId = [], xi_byType = []\<rparr>, [])" _ "[]", OF refl]
  by (auto simp: build_entity_indexes_def entity_exists_def js_lookup_def entity_ids_def)

lemma entity_ids_simps:
  "entity_ids t ET_node = be_id ` set (tp_nodes t)"
  "entity_ids t ET_enterprise_tool = be_id ` set (tp_tools t)"
  "entity_ids t ET_enterprise_system = be_id ` set (tp_systems t)"
  "entity_ids t ET_org_unit = be_id ` set (tp_orgUnits t)"
  "entity_ids t ET_position = be_id ` set (tp_positions t)"
proof -
  have un: "{ix_id e | e. e \<in> set (xs @ ys) \<and> ix_entityType e = ty} =
      {ix_id e | e. e \<in> set xs \<and> ix_entityType e = ty} \<union> {ix_id e | e. e \<in> set ys \<and> ix_entityType e = ty}" for xs ys ty
    by auto
  have top: "{ix_id e | e. e \<in> set [x] \<and> ix_entityType e = ty} = (if ix_entityType x = ty then {ix_id x} else {})" for x ty
    by auto
  show "entity_ids t ET_node = be_id ` set (tp_nodes t)" "entity_ids t ET_enterprise_tool = be_id ` set (tp_tools t)"
    "entity_ids t ET_enterprise_system = be_id ` set (tp_systems t)" "entity_ids t ET_org_unit = be_id ` set (tp_orgUnits t)"
    "entity_ids t ET_position = be_id ` set (tp_positions t)"
    unfolding entity_ids_def topology_entities_def un indexed_collection_ids top by simp_all
qed

text \<open>All references a topology contains.\<close>

definition opt_pair :: "entity_type \<Rightarrow> string option \<Rightarrow> (entity_type \<times> string) list" where
  "opt_pair ty i = (case i of None \<Rightarrow> [] | Some r \<Rightarrow> [(ty, r)])"

definition ref_pair :: "entity_ref \<Rightarrow> entity_type \<times> string" where
  "ref_pair r = (er_entityType r, er_id r)"

definition opt_ref_pair :: "entity_ref option \<Rightarrow> (entity_type \<times> string) list" where
  "opt_ref_pair r = (case r of None \<Rightarrow> [] | Some v \<Rightarrow> [ref_pair v])"

definition topology_refs :: "enterprise_topology \<Rightarrow> (entity_type \<times> string) list" where
  "topology_refs t =
    concat (map (\<lambda>n. opt_ref_pair (nc_owner n) @ map (Pair ET_node) (nc_children n)
      @ map (Pair ET_enterprise_tool) (nc_allowedToolIds n) @ map (Pair ET_enterprise_system) (nc_allowedSystemIds n)) (tp_nodes t))
    @ concat (map (\<lambda>x. map (Pair ET_node) (tm_nodeIds x)) (tp_teams t))
    @ concat (map (\<lambda>u. opt_pair ET_org_unit (un_parentOrgUnitId u) @ map (Pair ET_position) (un_positionIds u)
      @ map (Pair ET_person) (un_personIds u)) (tp_orgUnits t))
    @ concat (map (\<lambda>p. [(ET_org_unit, po_orgUnitId p)] @ opt_pair ET_position (po_reportsToPositionId p)
      @ map (Pair ET_person) (po_personIds p) @ opt_pair ET_position (po_backupPositionId p)) (tp_positions t))
    @ concat (map (\<lambda>p. map (Pair ET_position) (pe_positionIds p) @ map (Pair ET_org_unit) (pe_orgUnitIds p)) (tp_persons t))
    @ concat (map (\<lambda>m. [(ET_person, mb_personId m)] @ opt_pair ET_position (mb_positionId m) @ opt_pair ET_org_unit (mb_orgUnitId m)
      @ opt_pair ET_team (mb_teamId m)) (tp_memberships t))
    @ concat (map (\<lambda>r. [ref_pair (ar_subject r), ref_pair (ar_object r)]) (tp_authorityRules t))
    @ concat (map (\<lambda>e. [ref_pair (re_scope e), ref_pair (re_responsible e)] @ opt_ref_pair (re_accountable e)
      @ map ref_pair (re_consulted e) @ map ref_pair (re_informed e)) (tp_responsibilities t))
    @ concat (map (\<lambda>x. opt_pair ET_enterprise_system (tl_systemId x)) (tp_tools t))
    @ concat (map (\<lambda>p. opt_pair ET_node (pd_ownerNodeId p) @ map (Pair ET_node) (pd_stepNodeIds p)
      @ opt_pair ET_position (pd_accountablePositionId p)) (tp_processes t))
    @ concat (map (\<lambda>r. [ref_pair (rel_from r), ref_pair (rel_to r)]) (tp_relations t))"

lemma relation_refs:
  assumes "r \<in> set (tp_relations t)"
  shows "ref_pair (rel_from r) \<in> set (topology_refs t)" "ref_pair (rel_to r) \<in> set (topology_refs t)"
proof -
  have "set (concat (map (\<lambda>r. [ref_pair (rel_from r), ref_pair (rel_to r)]) (tp_relations t))) \<subseteq> set (topology_refs t)"
    unfolding topology_refs_def set_append by (intro le_supI2 order_refl)
  then show "ref_pair (rel_from r) \<in> set (topology_refs t)" "ref_pair (rel_to r) \<in> set (topology_refs t)"
    using assms by auto
qed

lemma node_refs:
  assumes "n \<in> set (tp_nodes t)"
  shows "set (map (Pair ET_node) (nc_children n)) \<subseteq> set (topology_refs t)"
    "set (map (Pair ET_enterprise_tool) (nc_allowedToolIds n)) \<subseteq> set (topology_refs t)"
    "set (map (Pair ET_enterprise_system) (nc_allowedSystemIds n)) \<subseteq> set (topology_refs t)"
proof -
  have "set (concat (map (\<lambda>n. opt_ref_pair (nc_owner n) @ map (Pair ET_node) (nc_children n)
      @ map (Pair ET_enterprise_tool) (nc_allowedToolIds n) @ map (Pair ET_enterprise_system) (nc_allowedSystemIds n)) (tp_nodes t)))
      \<subseteq> set (topology_refs t)"
    unfolding topology_refs_def set_append by (rule Un_upper1)
  then have "set (opt_ref_pair (nc_owner n) @ map (Pair ET_node) (nc_children n)
      @ map (Pair ET_enterprise_tool) (nc_allowedToolIds n) @ map (Pair ET_enterprise_system) (nc_allowedSystemIds n))
      \<subseteq> set (topology_refs t)"
    using assms by fastforce
  then show "set (map (Pair ET_node) (nc_children n)) \<subseteq> set (topology_refs t)"
    "set (map (Pair ET_enterprise_tool) (nc_allowedToolIds n)) \<subseteq> set (topology_refs t)"
    "set (map (Pair ET_enterprise_system) (nc_allowedSystemIds n)) \<subseteq> set (topology_refs t)"
    unfolding set_append by blast+
qed

lemma clean_typed [simp]: "clean (validate_typed_reference ix ty i path owner) \<longleftrightarrow> entity_exists ix ty i"
  by (simp add: validate_typed_reference_def severe_def)

lemma clean_optional [simp]:
  "clean (validate_optional_reference ix ty i path owner) \<longleftrightarrow> (\<forall>r \<in> set (opt_pair ty i). entity_exists ix (fst r) (snd r))"
  by (simp add: validate_optional_reference_def opt_pair_def split: option.split)

lemma clean_entity_reference [simp]:
  "clean (validate_entity_reference ix r path owner) \<longleftrightarrow> entity_exists ix (fst (ref_pair r)) (snd (ref_pair r))"
  by (simp add: validate_entity_reference_def ref_pair_def)

lemma clean_references [simp]:
  "clean (validate_references ix ty ids path owner) \<longleftrightarrow> (\<forall>i \<in> set ids. entity_exists ix ty i)"
  unfolding validate_references_def by (rule clean_each) simp

lemma clean_each_reference [simp]:
  "clean (each (\<lambda>k r. validate_entity_reference ix r (index_path p k) owner) rs)
    \<longleftrightarrow> (\<forall>r \<in> set rs. entity_exists ix (fst (ref_pair r)) (snd (ref_pair r)))"
  by (rule clean_each) simp

lemma clean_opt_ref [simp]:
  "clean (case r of None \<Rightarrow> [] | Some v \<Rightarrow> validate_entity_reference ix v path owner)
    \<longleftrightarrow> (\<forall>p \<in> set (opt_ref_pair r). entity_exists ix (fst p) (snd p))"
  by (cases r) (auto simp: opt_ref_pair_def)

lemma ball_concat_map: "(\<forall>y \<in> set (concat (map f xs)). P y) \<longleftrightarrow> (\<forall>x \<in> set xs. \<forall>y \<in> set (f x). P y)"
  by auto

lemma ball_set_append: "(\<forall>y \<in> set (xs @ ys). P y) \<longleftrightarrow> (\<forall>y \<in> set xs. P y) \<and> (\<forall>y \<in> set ys. P y)"
  by auto

text \<open>The table of \<open>schema.ts\<close> and the switch of the contract agree.\<close>

lemma entity_type_text_iff:
  "entity_type_text a = ''node'' \<longleftrightarrow> a = ET_node"
  "entity_type_text a = ''team'' \<longleftrightarrow> a = ET_team"
  "entity_type_text a = ''org_unit'' \<longleftrightarrow> a = ET_org_unit"
  "entity_type_text a = ''position'' \<longleftrightarrow> a = ET_position"
  "entity_type_text a = ''person'' \<longleftrightarrow> a = ET_person"
  "entity_type_text a = ''enterprise_system'' \<longleftrightarrow> a = ET_enterprise_system"
  "entity_type_text a = ''enterprise_tool'' \<longleftrightarrow> a = ET_enterprise_tool"
  "entity_type_text a = ''process_definition'' \<longleftrightarrow> a = ET_process_definition"
  by (cases a; simp)+

lemma ex_pair: "(\<exists>p \<in> set ps. fst p = a \<and> snd p = b) \<longleftrightarrow> (a, b) \<in> set ps"
  by force

lemma endpoint_pairs_iff: "(a, b) \<in> set (endpoint_pairs fs ts) \<longleftrightarrow> a \<in> set fs \<and> b \<in> set ts"
  by (auto simp: endpoint_pairs_def)

lemma relation_endpoint_allowed_iff:
  "relation_endpoint_allowed rt a b \<longleftrightarrow> a \<in> set (ep_from (endpoint_rule_of rt)) \<and> b \<in> set (ep_to (endpoint_rule_of rt))
    \<and> (a, b) \<in> set (ep_allowedPairs (endpoint_rule_of rt))"
  by (simp add: relation_endpoint_allowed_def Let_def ex_pair)

lemma relation_endpoints_agree:
  "relation_endpoint_allowed rt a b \<longleftrightarrow> endpoint_allowed (relation_type_text rt) (entity_type_text a) (entity_type_text b)"
  unfolding relation_endpoint_allowed_iff endpoint_allowed_def
  by (cases rt; simp add: all_pairs_rule_def endpoint_pairs_iff people_or_structure_def work_targets_def
      authority_holders_def accountable_holders_def entity_type_text_iff; blast)

lemma clean_topology_references:
  assumes "\<forall>r \<in> set (tp_relations t). relation_ok r"
  shows "clean (validate_topology_references t ix) \<longleftrightarrow> (\<forall>p \<in> set (topology_refs t). entity_exists ix (fst p) (snd p))"
proof -
  have rel: "clean (each_entity ''relations'' (validate_relation_references ix) (tp_relations t)) \<longleftrightarrow>
      (\<forall>r \<in> set (tp_relations t). \<forall>p \<in> set [ref_pair (rel_from r), ref_pair (rel_to r)]. entity_exists ix (fst p) (snd p))"
  proof -
    have "clean (each_entity ''relations'' (validate_relation_references ix) (tp_relations t)) \<longleftrightarrow>
      (\<forall>r \<in> set (tp_relations t). (\<forall>p \<in> set [ref_pair (rel_from r), ref_pair (rel_to r)]. entity_exists ix (fst p) (snd p))
        \<and> relation_endpoint_allowed (rel_relationType r) (er_entityType (rel_from r)) (er_entityType (rel_to r)))"
      by (rule clean_each_entity) (simp add: validate_relation_references_def Let_def severe_def)
    then show ?thesis using assms by (simp add: relation_ok_def relation_endpoints_agree)
  qed
  show ?thesis
    unfolding validate_topology_references_def clean_simps(3) rel topology_refs_def ball_set_append ball_concat_map
    by (intro arg_cong2[where f = "(\<and>)"] clean_each_entity)
      (auto simp: validate_node_references_def validate_team_references_def validate_org_unit_references_def
        validate_position_references_def validate_person_references_def validate_membership_references_def
        validate_authority_rule_references_def validate_responsibility_references_def validate_tool_references_def
        validate_process_references_def Let_def severe_def)
qed

text \<open>The delegation relation of a topology.\<close>

definition delegates_to :: "enterprise_topology \<Rightarrow> (string \<times> string) set" where
  "delegates_to t = {(a, b). (\<exists>n \<in> set (tp_nodes t). be_id n = a \<and> b \<in> set (nc_children n))
    \<or> (\<exists>r \<in> set (tp_relations t). rel_relationType r = RT_delegates_to \<and> rel_from r = \<lparr>er_entityType = ET_node, er_id = a\<rparr>
        \<and> rel_to r = \<lparr>er_entityType = ET_node, er_id = b\<rparr>)}"

lemma edges_from_add:
  "set (edges_from (fold add_graph_edge es adj) u) = set (edges_from adj u) \<union> {e \<in> set es. de_from e = u}"
proof (induction es arbitrary: adj)
  case (Cons e es)
  have "set (edges_from (add_graph_edge e adj) u) = set (edges_from adj u) \<union> (if de_from e = u then {e} else {})"
    by (auto simp: add_graph_edge_def js_lookup_def update_conv')
  with Cons show ?case by auto
qed simp

lemma image_each:
  assumes "\<And>k x. g ` set (f k x) = F x"
  shows "g ` set (each f xs) = (\<Union>x \<in> set xs. F x)"
proof -
  have "g ` set (concat (map (\<lambda>ix. f (fst ix) (snd ix)) (enumerate n xs))) = (\<Union>x \<in> set xs. F x)" for n
    by (induction xs arbitrary: n) (auto simp: image_Un assms)
  then show ?thesis by (simp add: each_def)
qed

lemma image_each_entity:
  "(\<And>x path. g ` set (f x path) = F x) \<Longrightarrow> g ` set (each_entity key f xs) = (\<Union>x \<in> set xs. F x)"
  unfolding each_entity_def by (rule image_each) blast

lemma entity_ref_cases: "r = \<lparr>er_entityType = ty, er_id = i\<rparr> \<longleftrightarrow> er_entityType r = ty \<and> er_id r = i"
  by (cases r) simp

lemma delegation_edges_pairs: "(\<lambda>e. (de_from e, de_to e)) ` set (delegation_edges t) = delegates_to t"
proof -
  let ?g = "\<lambda>e. (de_from e, de_to e)"
  have nodes: "?g ` set (each_entity ''nodes'' (\<lambda>n path. each (\<lambda>k c. [\<lparr>de_from = be_id n, de_to = c,
        de_path = index_path (path @ ''.children'') k, de_relationId = None\<rparr>]) (nc_children n)) (tp_nodes t))
      = (\<Union>n \<in> set (tp_nodes t). \<Union>c \<in> set (nc_children n). {(be_id n, c)})"
    by (intro image_each_entity image_each) simp
  have rels: "?g ` set (each_entity ''relations'' (\<lambda>r path.
        if rel_relationType r = RT_delegates_to \<and> er_entityType (rel_from r) = ET_node \<and> er_entityType (rel_to r) = ET_node
        then [\<lparr>de_from = er_id (rel_from r), de_to = er_id (rel_to r), de_path = path, de_relationId = Some (be_id r)\<rparr>]
        else []) (tp_relations t))
      = (\<Union>r \<in> set (tp_relations t). if rel_relationType r = RT_delegates_to \<and> er_entityType (rel_from r) = ET_node
          \<and> er_entityType (rel_to r) = ET_node then {(er_id (rel_from r), er_id (rel_to r))} else {})"
    by (rule image_each_entity) simp
  show ?thesis
    unfolding delegation_edges_def set_append image_Un nodes rels delegates_to_def
    by (auto simp: entity_ref_cases split: if_splits)
qed

lemma adjacency_targets: "de_to ` set (edges_from (build_delegation_adjacency t) u) = delegates_to t `` {u}"
proof -
  have "set (edges_from (build_delegation_adjacency t) u) = {e \<in> set (delegation_edges t). de_from e = u}"
    unfolding build_delegation_adjacency_def edges_from_add by (simp add: js_lookup_def)
  then show ?thesis unfolding delegation_edges_pairs[symmetric] by (auto simp: image_iff)
qed

lemma known_edges_delegates:
  "known_edges (build_delegation_adjacency t) (uniq (map be_id (tp_nodes t))) = delegates_to t \<inter> UNIV \<times> be_id ` set (tp_nodes t)"
  using adjacency_targets[of t] by (auto simp: known_edges_def)

end
