(* ===== verification/Enterprise_Rules.thy ===== *)
theory Enterprise_Rules
  imports Topology_References Json_Text Command_Contract
begin

text \<open>
  The enterprise rules of \<open>topology/validator.ts\<close>: reporting lines, memberships, authority rules and
  approvals, permissions, data domains, processes, responsibilities and node policies. \<open>Date.parse\<close> is the
  argument \<open>date_parse\<close>.
\<close>

section \<open>Hierarchies\<close>

text \<open>
  The two recursive visits climb from an entity to its parent. \<open>parents\<close> holds the parent of every known
  entity, \<open>mk\<close> builds the issue of a cycle from the entity whose parent closes it.
\<close>

lemma climb_less:
  assumes "map_of m k = Some v" "k \<notin> X"
  shows "card (fst ` set m - insert k X) < card (fst ` set m - X)"
proof (rule psubset_card_mono)
  have "k \<in> fst ` set m" using assms(1) by (metis domI dom_map_of_conv_image_fst)
  then show "fst ` set m - insert k X \<subset> fst ` set m - X" using assms(2) by blast
qed simp

text \<open>The edges of a table of parents, to known entities.\<close>

definition climbs :: "(string, string option) jsmap \<Rightarrow> (string \<times> string) set" where
  "climbs parents = {(i, p). map_of parents i = Some (Some p) \<and> map_of parents p \<noteq> None}"

lemma climbs_functional: "(i, p) \<in> climbs parents \<Longrightarrow> (i, q) \<in> climbs parents \<Longrightarrow> p = q"
  by (simp add: climbs_def)

lemma climb_trancl:
  assumes "(i, p) \<in> climbs parents"
  shows "(i, a) \<in> (climbs parents)\<^sup>+ \<longleftrightarrow> p = a \<or> (p, a) \<in> (climbs parents)\<^sup>+"
proof
  assume "(i, a) \<in> (climbs parents)\<^sup>+"
  then obtain z where "(i, z) \<in> climbs parents" "(z, a) \<in> (climbs parents)\<^sup>*" by (meson tranclD)
  then show "p = a \<or> (p, a) \<in> (climbs parents)\<^sup>+" using climbs_functional[OF assms] by (metis rtranclD)
next
  show "p = a \<or> (p, a) \<in> (climbs parents)\<^sup>+ \<Longrightarrow> (i, a) \<in> (climbs parents)\<^sup>+" using assms by auto
qed

record visit_state =
  vs_reported :: "string list"
  vs_issues :: "topology_issue list"

function hierarchy_visit :: "(string, string option) jsmap \<Rightarrow> (string \<Rightarrow> string \<Rightarrow> string list \<Rightarrow> topology_issue)
    \<Rightarrow> string list \<Rightarrow> string \<Rightarrow> string option \<Rightarrow> visit_state \<Rightarrow> visit_state" where
  "hierarchy_visit parents mk path i None st = st"
| "hierarchy_visit parents mk path i (Some p) st =
    (case map_of parents p of
       None \<Rightarrow> st
     | Some pp \<Rightarrow>
         if p \<in> set path then
           let cycle = dropWhile (\<lambda>x. x \<noteq> p) path @ [p]; key = join ''>'' cycle in
           if key \<in> set (vs_reported st) then st
           else st\<lparr>vs_reported := vs_reported st @ [key], vs_issues := vs_issues st @ [mk i p cycle]\<rparr>
         else hierarchy_visit parents mk (path @ [p]) p pp st)"
  by pat_completeness auto
termination
proof (relation "measure (\<lambda>(parents, _, path, _, _, _). card (fst ` set parents - set path))", goal_cases)
  case (2 parents mk path i p st pp)
  then show ?case using climb_less[of parents p pp "set path"] by simp
qed simp

definition hierarchy_issue :: "(string, string) jsmap \<Rightarrow> string \<Rightarrow> string \<Rightarrow> string \<Rightarrow> entity_type
    \<Rightarrow> string \<Rightarrow> string \<Rightarrow> string list \<Rightarrow> topology_issue" where
  "hierarchy_issue paths default_path code message ty i p cycle =
    (entity_issue (js_lookup paths i default_path) code SV_invalid (message @ join '' -> '' cycle @ ''.'') ty i)
      \<lparr>ts_refId := Some p, ts_refType := Some ty\<rparr>"

text \<open>\<open>pathByOrgId\<close>: the last entity with an id decides.\<close>

definition paths_by_id :: "string \<Rightarrow> string \<Rightarrow> string list \<Rightarrow> (string, string) jsmap" where
  "paths_by_id key suffix ids = index_by snd (\<lambda>ik. index_path (''$.'' @ key) (fst ik) @ suffix) (enumerate 0 ids)"

definition unit_parents :: "enterprise_topology \<Rightarrow> (string, string option) jsmap" where
  "unit_parents t = index_by be_id un_parentOrgUnitId (tp_orgUnits t)"

definition position_managers :: "enterprise_topology \<Rightarrow> (string, string option) jsmap" where
  "position_managers t = index_by be_id po_reportsToPositionId (tp_positions t)"

definition unit_cycle_issue :: "enterprise_topology \<Rightarrow> string \<Rightarrow> string \<Rightarrow> string list \<Rightarrow> topology_issue" where
  "unit_cycle_issue t = hierarchy_issue (paths_by_id ''orgUnits'' ''.parentOrgUnitId'' (map be_id (tp_orgUnits t)))
     ''$.orgUnits'' ''org_unit_hierarchy_cycle'' ''OrgUnit hierarchy contains a cycle: '' ET_org_unit"

definition validate_org_unit_hierarchy :: "enterprise_topology \<Rightarrow> topology_issue list" where
  "validate_org_unit_hierarchy t =
    vs_issues (fold (\<lambda>u. hierarchy_visit (unit_parents t) (unit_cycle_issue t) [be_id u] (be_id u) (un_parentOrgUnitId u))
      (tp_orgUnits t) \<lparr>vs_reported = [], vs_issues = []\<rparr>)"

function ancestor_loop :: "(string, string option) jsmap \<Rightarrow> string \<Rightarrow> string list \<Rightarrow> string \<Rightarrow> bool" where
  "ancestor_loop parents ancestor visited i =
    (case map_of parents i of
       Some (Some p) \<Rightarrow> if i \<in> set visited then False else if p = ancestor then True
         else ancestor_loop parents ancestor (i # visited) p
     | _ \<Rightarrow> False)"
  by pat_completeness auto
termination
proof (relation "measure (\<lambda>(parents, _, visited, _). card (fst ` set parents - set visited))", goal_cases)
  case (2 parents ancestor visited i x p)
  then show ?case using climb_less[of parents i "Some p" "set visited"] by simp
qed simp

declare ancestor_loop.simps [simp del]

definition is_same_or_ancestor_org_unit :: "enterprise_topology \<Rightarrow> string \<Rightarrow> string \<Rightarrow> bool" where
  "is_same_or_ancestor_org_unit t ancestor u \<longleftrightarrow> ancestor = u \<or> ancestor_loop (unit_parents t) ancestor [] u"

definition position_cycle_issue :: "enterprise_topology \<Rightarrow> string \<Rightarrow> string \<Rightarrow> string list \<Rightarrow> topology_issue" where
  "position_cycle_issue t = hierarchy_issue (paths_by_id ''positions'' ''.reportsToPositionId'' (map be_id (tp_positions t)))
     ''$.positions'' ''position_reports_to_cycle'' ''Position reports_to hierarchy contains a cycle: '' ET_position"

definition reporting_scope_issues :: "enterprise_topology \<Rightarrow> position \<Rightarrow> string \<Rightarrow> topology_issue list" where
  "reporting_scope_issues t p path =
    (case po_reportsToPositionId p of
       None \<Rightarrow> []
     | Some m \<Rightarrow>
         (case map_of (index_by be_id id (tp_positions t)) m of
            None \<Rightarrow> []
          | Some manager \<Rightarrow>
              if is_same_or_ancestor_org_unit t (po_orgUnitId manager) (po_orgUnitId p) then []
              else [(entity_issue (path @ ''.reportsToPositionId'') ''position_reports_to_invalid_org_scope'' SV_warning
                ''Position reports_to target should be in the same OrgUnit or an ancestor OrgUnit.'' ET_position (be_id p))
                \<lparr>ts_refId := Some m, ts_refType := Some ET_position\<rparr>]))"

definition validate_position_reporting :: "enterprise_topology \<Rightarrow> topology_issue list" where
  "validate_position_reporting t =
    vs_issues (fold (\<lambda>ip st.
        let st' = hierarchy_visit (position_managers t) (position_cycle_issue t) [be_id (snd ip)] (be_id (snd ip))
          (po_reportsToPositionId (snd ip)) st
        in st'\<lparr>vs_issues := vs_issues st' @ reporting_scope_issues t (snd ip) (index_path ''$.positions'' (fst ip))\<rparr>)
      (enumerate 0 (tp_positions t)) \<lparr>vs_reported = [], vs_issues = []\<rparr>)"

section \<open>Memberships\<close>

record validator_options =
  vo_maxDelegationDepth :: "jsnum option"
  vo_asOf :: "timestamp option"

fun finite_value :: "jsnum \<Rightarrow> rat option" where
  "finite_value (Fin x) = Some x"
| "finite_value _ = None"

fun timestamp_to_millis :: "(string \<Rightarrow> jsnum) \<Rightarrow> timestamp \<Rightarrow> rat option" where
  "timestamp_to_millis date_parse (TNum n) = finite_value n"
| "timestamp_to_millis date_parse (TStr s) = finite_value (date_parse s)"

definition membership_from :: "(string \<Rightarrow> jsnum) \<Rightarrow> membership \<Rightarrow> rat option" where
  "membership_from date_parse m = Option.bind (mb_validFrom m) (timestamp_to_millis date_parse)"

definition membership_to :: "(string \<Rightarrow> jsnum) \<Rightarrow> membership \<Rightarrow> rat option" where
  "membership_to date_parse m = Option.bind (mb_validTo m) (timestamp_to_millis date_parse)"

definition membership_effective_at :: "(string \<Rightarrow> jsnum) \<Rightarrow> membership \<Rightarrow> rat \<Rightarrow> bool" where
  "membership_effective_at date_parse m asOf \<longleftrightarrow>
    (case membership_from date_parse m of Some f \<Rightarrow> f \<le> asOf | None \<Rightarrow> True)
    \<and> (case membership_to date_parse m of Some x \<Rightarrow> asOf \<le> x | None \<Rightarrow> True)"

fun allocation_of :: "jsnum \<Rightarrow> rat option" where
  "allocation_of (Fin x) = (if 0 < x \<and> x \<le> 100 then Some x else None)"
| "allocation_of _ = None"

record allocation =
  al_membershipId :: string
  al_path :: string
  al_percent :: rat

definition membership_issues :: "(string \<Rightarrow> jsnum) \<Rightarrow> membership \<Rightarrow> string \<Rightarrow> topology_issue list" where
  "membership_issues date_parse m path =
    (case (membership_from date_parse m, membership_to date_parse m) of
       (Some f, Some x) \<Rightarrow> if x < f then [entity_issue (path @ ''.validTo'') ''membership_validity_invalid'' SV_invalid
          ''Membership validTo must be greater than or equal to validFrom.'' ET_membership (be_id m)] else []
     | _ \<Rightarrow> [])
    @ (case mb_allocationPercent m of
         None \<Rightarrow> []
       | Some n \<Rightarrow> if allocation_of n = None then [entity_issue (path @ ''.allocationPercent'') ''membership_allocation_invalid'' SV_invalid
          ''Membership allocationPercent must be greater than 0 and less than or equal to 100.'' ET_membership (be_id m)] else [])"

text \<open>The allocation of a membership that counts.\<close>

definition counted_allocation :: "(string \<Rightarrow> jsnum) \<Rightarrow> rat option \<Rightarrow> membership \<Rightarrow> rat option" where
  "counted_allocation date_parse asOf m =
    (case Option.bind (mb_allocationPercent m) allocation_of of
       None \<Rightarrow> None
     | Some x \<Rightarrow> (case asOf of Some a \<Rightarrow> if membership_effective_at date_parse m a then Some x else None | None \<Rightarrow> Some x))"

definition allocations_by_person ::
  "(string \<Rightarrow> jsnum) \<Rightarrow> rat option \<Rightarrow> membership list \<Rightarrow> (string, allocation list) jsmap" where
  "allocations_by_person date_parse asOf ms =
    fold (\<lambda>im al. case counted_allocation date_parse asOf (snd im) of
        None \<Rightarrow> al
      | Some x \<Rightarrow> AList.update (mb_personId (snd im)) (js_lookup al (mb_personId (snd im)) []
          @ [\<lparr>al_membershipId = be_id (snd im),
              al_path = index_path ''$.memberships'' (fst im) @ ''.allocationPercent'', al_percent = x\<rparr>]) al)
      (enumerate 0 ms) []"

definition person_total :: "allocation list \<Rightarrow> rat" where
  "person_total als = foldl (\<lambda>s al. s + al_percent al) 0 als"

definition allocation_issue :: "host \<Rightarrow> string \<Rightarrow> allocation list \<Rightarrow> topology_issue list" where
  "allocation_issue h person als =
    (if person_total als \<le> 100 then []
     else [((case als of
          a # _ \<Rightarrow> entity_issue (al_path a) ''person_membership_allocation_exceeded'' SV_blocked
            (''Person '' @ person @ '' has '' @ h_num_text h (Fin (person_total als)) @ ''% allocated membership capacity.'')
            ET_membership (al_membershipId a)
        | [] \<Rightarrow> entity_issue ''$.memberships'' ''person_membership_allocation_exceeded'' SV_blocked
            (''Person '' @ person @ '' has '' @ h_num_text h (Fin (person_total als)) @ ''% allocated membership capacity.'')
            ET_person person))
        \<lparr>ts_refId := Some person, ts_refType := Some ET_person\<rparr>])"

definition validate_membership_rules ::
  "host \<Rightarrow> (string \<Rightarrow> jsnum) \<Rightarrow> validator_options \<Rightarrow> enterprise_topology \<Rightarrow> topology_issue list" where
  "validate_membership_rules h date_parse opts t =
    each_entity ''memberships'' (membership_issues date_parse) (tp_memberships t)
    @ concat (map (\<lambda>(person, als). allocation_issue h person als)
        (allocations_by_person date_parse (Option.bind (vo_asOf opts) (timestamp_to_millis date_parse)) (tp_memberships t)))"

section \<open>Authority\<close>

fun js_includes :: "string \<Rightarrow> string \<Rightarrow> bool" where
  "js_includes sub [] \<longleftrightarrow> sub = []"
| "js_includes sub (c # cs) \<longleftrightarrow> starts_with sub (c # cs) \<or> js_includes sub cs"

definition normalize_action :: "string \<Rightarrow> string option" where
  "normalize_action action = (let a = map lower_char (js_trim action) in if a = [] then None else Some a)"

definition is_approval_action :: "string \<Rightarrow> bool" where
  "is_approval_action a \<longleftrightarrow> js_includes ''approve'' a \<or> js_includes ''approval'' a"

definition ref_key :: "entity_ref \<Rightarrow> string" where
  "ref_key r = entity_type_text (er_entityType r) @ '':'' @ er_id r"

function sort_condition :: "(string \<Rightarrow> string \<Rightarrow> int) \<Rightarrow> json \<Rightarrow> json" where
  "sort_condition lc (JArr xs) = JArr (map (sort_condition lc) xs)"
| "sort_condition lc (JObj m) = JObj (map (\<lambda>kv. (fst kv, sort_condition lc (snd kv))) (js_sort (\<lambda>a b. lc (fst a) (fst b)) m))"
| "sort_condition lc JUndef = JUndef"
| "sort_condition lc JNull = JNull"
| "sort_condition lc (JBool b) = JBool b"
| "sort_condition lc (JNum n) = JNum n"
| "sort_condition lc (JStr s) = JStr s"
  by pat_completeness auto
termination
  by (relation "measure (size \<circ> snd)") (auto dest!: json_size_arr json_size_obj simp: less_Suc_eq_le)

definition stable_condition_key :: "host \<Rightarrow> json \<Rightarrow> string" where
  "stable_condition_key h v = stringify h (sort_condition (h_locale_compare h) (nullish v JNull))"

fun number_from_metadata :: "json \<Rightarrow> string \<Rightarrow> rat option" where
  "number_from_metadata (JObj m) k = (case js_lookup m k JUndef of JNum n \<Rightarrow> finite_value n | _ \<Rightarrow> None)"
| "number_from_metadata _ k = None"

fun string_from_metadata :: "json \<Rightarrow> string \<Rightarrow> string option" where
  "string_from_metadata (JObj m) k = (case js_lookup m k JUndef of JStr s \<Rightarrow> if non_blank s then Some s else None | _ \<Rightarrow> None)"
| "string_from_metadata _ k = None"

definition first_some :: "'a option list \<Rightarrow> 'a option" where
  "first_some xs = (case filter (\<lambda>x. x \<noteq> None) xs of [] \<Rightarrow> None | x # _ \<Rightarrow> x)"

definition approval_amount :: "json \<Rightarrow> rat option" where
  "approval_amount c = first_some (map (number_from_metadata c) [''amount'', ''approvalAmount'', ''maxAmount'', ''maxApprovalAmount''])"

definition max_number :: "jsnum option list \<Rightarrow> rat option" where
  "max_number xs = (case List.map_filter (\<lambda>x. Option.bind x finite_value) xs of [] \<Rightarrow> None | y # ys \<Rightarrow> Some (fold max ys y))"

definition position_limit :: "enterprise_topology \<Rightarrow> string \<Rightarrow> jsnum option" where
  "position_limit t i = Option.bind (find (\<lambda>p. be_id p = i) (tp_positions t)) po_approvalLimit"

fun approval_limit_for :: "enterprise_topology \<Rightarrow> entity_type \<Rightarrow> string \<Rightarrow> rat option" where
  "approval_limit_for t ET_position i = Option.bind (position_limit t i) finite_value"
| "approval_limit_for t ET_person i =
    (case find (\<lambda>p. be_id p = i) (tp_persons t) of
       None \<Rightarrow> None
     | Some p \<Rightarrow> max_number (map (position_limit t) (pe_positionIds p)))"
| "approval_limit_for t ET_org_unit i =
    max_number (map po_approvalLimit (filter (\<lambda>p. po_orgUnitId p = i) (tp_positions t)))"
| "approval_limit_for t _ i = None"

definition rule_issue :: "string \<Rightarrow> string \<Rightarrow> string \<Rightarrow> authority_rule \<Rightarrow> string \<Rightarrow> entity_type \<Rightarrow> topology_issue" where
  "rule_issue path code message r refId refType =
    (entity_issue path code SV_blocked message ET_authority_rule (be_id r))\<lparr>ts_refId := Some refId, ts_refType := Some refType\<rparr>"

definition validate_approval_limit ::
  "host \<Rightarrow> enterprise_topology \<Rightarrow> authority_rule \<Rightarrow> string \<Rightarrow> string \<Rightarrow> topology_issue list" where
  "validate_approval_limit h t r path action =
    (if \<not> is_approval_action action then []
     else case approval_amount (ar_condition r) of
       None \<Rightarrow> []
     | Some amount \<Rightarrow>
         (case approval_limit_for t (er_entityType (ar_subject r)) (er_id (ar_subject r)) of
            None \<Rightarrow> [rule_issue (path @ ''.condition'') ''approval_limit_missing''
              ''Approval AuthorityRule declares an amount but the subject has no approvalLimit.'' r
              (er_id (ar_subject r)) (er_entityType (ar_subject r))]
          | Some l \<Rightarrow> if amount \<le> l then []
              else [rule_issue (path @ ''.condition'') ''approval_limit_exceeded''
                (''Approval amount '' @ h_num_text h (Fin amount) @ '' exceeds subject approvalLimit '' @ h_num_text h (Fin l) @ ''.'')
                r (er_id (ar_subject r)) (er_entityType (ar_subject r))]))"

definition validate_authority_delegation ::
  "(string, authority_rule) jsmap \<Rightarrow> authority_rule \<Rightarrow> string \<Rightarrow> topology_issue list" where
  "validate_authority_delegation rules r path =
    (case string_from_metadata (ar_condition r) ''delegatedFromRuleId'' of
       None \<Rightarrow> []
     | Some src \<Rightarrow>
         if (case map_of rules src of
               None \<Rightarrow> True
             | Some s \<Rightarrow> \<not> ar_delegable s \<or> normalize_action (ar_action s) \<noteq> normalize_action (ar_action r)
                 \<or> ref_key (ar_object s) \<noteq> ref_key (ar_object r))
         then [rule_issue (path @ ''.condition.delegatedFromRuleId'') ''authority_delegation_invalid''
           ''Delegated AuthorityRule must reference a delegable source rule for the same action and object.'' r src ET_authority_rule]
         else [])"

definition authority_key :: "host \<Rightarrow> string \<Rightarrow> authority_rule \<Rightarrow> string" where
  "authority_key h action r =
    join ''|'' [ref_key (ar_subject r), action, ref_key (ar_object r), stable_condition_key h (ar_condition r)]"

definition authority_step :: "host \<Rightarrow> enterprise_topology \<Rightarrow> nat \<times> authority_rule
    \<Rightarrow> (string, authority_rule) jsmap \<times> topology_issue list \<Rightarrow> (string, authority_rule) jsmap \<times> topology_issue list" where
  "authority_step h t ir s =
    (let path = index_path ''$.authorityRules'' (fst ir); r = snd ir in
     case normalize_action (ar_action r) of
       None \<Rightarrow> (fst s, snd s @ [entity_issue (path @ ''.action'') ''invalid_authority_rule_action'' SV_invalid
         ''AuthorityRule action must be a non-empty stable action string.'' ET_authority_rule (be_id r)])
     | Some action \<Rightarrow>
         (case map_of (fst s) (authority_key h action r) of
            Some e \<Rightarrow> (fst s, snd s @
              (if ar_delegable e \<noteq> ar_delegable r \<or> ar_requiresAuditLog e \<noteq> ar_requiresAuditLog r
               then [rule_issue path ''authority_rule_conflict''
                 (''AuthorityRule conflicts with '' @ be_id e @ '' for the same subject, action, object, and condition.'') r (be_id e)
                 ET_authority_rule]
               else []))
          | None \<Rightarrow> (AList.update (authority_key h action r) r (fst s), snd s
              @ validate_approval_limit h t r path action
              @ validate_authority_delegation (index_by be_id id (tp_authorityRules t)) r path)))"

definition validate_authority_rules :: "host \<Rightarrow> enterprise_topology \<Rightarrow> topology_issue list" where
  "validate_authority_rules h t = snd (fold (authority_step h t) (enumerate 0 (tp_authorityRules t)) ([], []))"

section \<open>Approvals\<close>

definition approval_targets :: "enterprise_topology \<Rightarrow> string list" where
  "approval_targets t =
    map (\<lambda>r. ref_key (rel_to r)) (filter (\<lambda>r. rel_relationType r = RT_approves) (tp_relations t))
    @ map (\<lambda>r. ref_key (ar_object r)) (filter (\<lambda>r. case normalize_action (ar_action r) of
        Some a \<Rightarrow> is_approval_action a | None \<Rightarrow> False) (tp_authorityRules t))"

definition node_ref :: "string \<Rightarrow> entity_ref" where
  "node_ref i = \<lparr>er_entityType = ET_node, er_id = i\<rparr>"

definition tool_ref :: "string \<Rightarrow> entity_ref" where
  "tool_ref i = \<lparr>er_entityType = ET_enterprise_tool, er_id = i\<rparr>"

definition tool_requires_approval :: "tool_type \<Rightarrow> bool" where
  "tool_requires_approval ty \<longleftrightarrow> ty = TT_write \<or> ty = TT_external_action"

definition relation_issue :: "string \<Rightarrow> string \<Rightarrow> string \<Rightarrow> string \<Rightarrow> enterprise_relation \<Rightarrow> string \<Rightarrow> topology_issue" where
  "relation_issue path code message nodeId r target =
    (entity_issue path code SV_blocked message ET_node nodeId)
      \<lparr>ts_relationId := Some (be_id r), ts_sourceEntityId := Some nodeId, ts_targetEntityId := Some target\<rparr>"

definition approval_node_issues :: "enterprise_topology \<Rightarrow> node_contract \<Rightarrow> string \<Rightarrow> topology_issue list" where
  "approval_node_issues t n path =
    (if nc_nodeType n \<noteq> NT_approval_node \<or> ref_key (node_ref (be_id n)) \<in> set (approval_targets t) then []
     else [entity_issue (path @ ''.nodeType'') ''approval_authority_missing'' SV_blocked
       ''Approval node requires an approves relation or approval AuthorityRule before activation.'' ET_node (be_id n)])"

definition tool_approval_issues :: "enterprise_topology \<Rightarrow> enterprise_relation \<Rightarrow> string \<Rightarrow> topology_issue list" where
  "tool_approval_issues t r path =
    (if rel_relationType r \<noteq> RT_uses_tool \<or> er_entityType (rel_from r) \<noteq> ET_node \<or> er_entityType (rel_to r) \<noteq> ET_enterprise_tool then []
     else case map_of (index_by be_id id (tp_tools t)) (er_id (rel_to r)) of
       None \<Rightarrow> []
     | Some x \<Rightarrow>
         if \<not> tool_requires_approval (tl_toolType x) \<or> ref_key (tool_ref (be_id x)) \<in> set (approval_targets t)
           \<or> ref_key (node_ref (er_id (rel_from r))) \<in> set (approval_targets t) then []
         else [relation_issue path ''approval_authority_missing''
           ''Write or external-action tool usage requires an approval authority relation or rule.'' (er_id (rel_from r)) r (er_id (rel_to r))])"

definition validate_approval_coverage :: "enterprise_topology \<Rightarrow> topology_issue list" where
  "validate_approval_coverage t =
    each_entity ''nodes'' (approval_node_issues t) (tp_nodes t)
    @ each_entity ''relations'' (tool_approval_issues t) (tp_relations t)"

section \<open>Permissions\<close>

definition relation_pair_key :: "string \<Rightarrow> string \<Rightarrow> string" where
  "relation_pair_key a b = a @ ''->'' @ b"

definition validate_node_tool_permission :: "node_contract \<Rightarrow> string \<Rightarrow> string \<Rightarrow> enterprise_relation \<Rightarrow> topology_issue list" where
  "validate_node_tool_permission n toolId path r =
    (if toolId \<in> set (nc_allowedToolIds n) then []
     else [(relation_issue path ''tool_permission_missing''
       ''Node uses or accesses a tool that is not included in allowedToolIds.'' (be_id n) r toolId)
       \<lparr>ts_refId := Some toolId, ts_refType := Some ET_enterprise_tool\<rparr>])"

definition validate_node_system_permission :: "node_contract \<Rightarrow> string \<Rightarrow> string \<Rightarrow> enterprise_relation \<Rightarrow> topology_issue list" where
  "validate_node_system_permission n systemId path r =
    (if systemId \<in> set (nc_allowedSystemIds n) then []
     else [(relation_issue path ''system_permission_missing''
       ''Node uses or accesses a system that is not included in allowedSystemIds.'' (be_id n) r systemId)
       \<lparr>ts_refId := Some systemId, ts_refType := Some ET_enterprise_system\<rparr>])"

definition permission_issues :: "enterprise_topology \<Rightarrow> enterprise_relation \<Rightarrow> string \<Rightarrow> topology_issue list" where
  "permission_issues t r path =
    (if er_entityType (rel_from r) \<noteq> ET_node then []
     else case map_of (index_by be_id id (tp_nodes t)) (er_id (rel_from r)) of
       None \<Rightarrow> []
     | Some n \<Rightarrow>
         let rt = rel_relationType r; ty = er_entityType (rel_to r); target = er_id (rel_to r) in
         if rt = RT_uses_tool \<and> ty = ET_enterprise_tool then
           validate_node_tool_permission n target path r
           @ (case Option.bind (map_of (index_by be_id id (tp_tools t)) target) tl_systemId of
                Some y \<Rightarrow> validate_node_system_permission n y path r | None \<Rightarrow> [])
         else if rt = RT_uses_system \<and> ty = ET_enterprise_system then validate_node_system_permission n target path r
         else if rt = RT_has_access_to \<and> ty = ET_enterprise_tool then validate_node_tool_permission n target path r
         else if rt = RT_has_access_to \<and> ty = ET_enterprise_system then validate_node_system_permission n target path r
         else [])"

text \<open>The four sets of pairs the first loop collects, as one list per entity type.\<close>

definition declared_pairs :: "enterprise_topology \<Rightarrow> relation_type list \<Rightarrow> entity_type \<Rightarrow> string list" where
  "declared_pairs t rts ty =
    map (\<lambda>r. relation_pair_key (er_id (rel_from r)) (er_id (rel_to r)))
      (filter (\<lambda>r. er_entityType (rel_from r) = ET_node \<and> er_id (rel_from r) \<in> be_id ` set (tp_nodes t)
        \<and> rel_relationType r \<in> set rts \<and> er_entityType (rel_to r) = ty) (tp_relations t))"

definition declaration_issues :: "enterprise_topology \<Rightarrow> node_contract \<Rightarrow> string \<Rightarrow> topology_issue list" where
  "declaration_issues t n path =
    each (\<lambda>k i. if i \<notin> be_id ` set (tp_tools t)
        \<or> relation_pair_key (be_id n) i \<in> set (declared_pairs t [RT_uses_tool, RT_has_access_to] ET_enterprise_tool) then []
      else [(entity_issue (index_path (path @ ''.allowedToolIds'') k) ''declared_tool_relation_missing'' SV_warning
        ''Node allows a tool but has no uses_tool or has_access_to relation for it.'' ET_node (be_id n))
        \<lparr>ts_refId := Some i, ts_refType := Some ET_enterprise_tool\<rparr>]) (nc_allowedToolIds n)
    @ each (\<lambda>k i. if i \<notin> be_id ` set (tp_systems t)
        \<or> relation_pair_key (be_id n) i \<in> set (declared_pairs t [RT_uses_system, RT_has_access_to] ET_enterprise_system) then []
      else [(entity_issue (index_path (path @ ''.allowedSystemIds'') k) ''declared_system_relation_missing'' SV_warning
        ''Node allows a system but has no uses_system or has_access_to relation for it.'' ET_node (be_id n))
        \<lparr>ts_refId := Some i, ts_refType := Some ET_enterprise_system\<rparr>]) (nc_allowedSystemIds n)"

definition validate_permission_rules :: "enterprise_topology \<Rightarrow> topology_issue list" where
  "validate_permission_rules t =
    each_entity ''relations'' (permission_issues t) (tp_relations t)
    @ each_entity ''nodes'' (declaration_issues t) (tp_nodes t)"

section \<open>Data domains\<close>

fun strings_from_metadata :: "json \<Rightarrow> string \<Rightarrow> string list" where
  "strings_from_metadata (JObj m) k = (case js_lookup m k JUndef of
      JArr xs \<Rightarrow> List.map_filter (\<lambda>x. case x of JStr s \<Rightarrow> if non_blank s then Some s else None | _ \<Rightarrow> None) xs
    | _ \<Rightarrow> [])"
| "strings_from_metadata _ k = []"

definition data_domains_of_relation :: "enterprise_relation \<Rightarrow> string list" where
  "data_domains_of_relation r =
    strings_from_metadata (rel_scope r) ''dataDomainIds'' @ strings_from_metadata (rel_condition r) ''dataDomainIds''"

definition system_access :: "enterprise_topology \<Rightarrow> string \<Rightarrow> enterprise_relation list" where
  "system_access t key =
    filter (\<lambda>r. rel_relationType r = RT_has_access_to \<and> er_entityType (rel_from r) = ET_node
      \<and> er_entityType (rel_to r) = ET_enterprise_system \<and> relation_pair_key (er_id (rel_from r)) (er_id (rel_to r)) = key)
      (tp_relations t)"

text \<open>The system a relation of a node uses, directly or behind its tool.\<close>

definition used_system :: "enterprise_topology \<Rightarrow> enterprise_relation \<Rightarrow> string option" where
  "used_system t r =
    (if rel_relationType r = RT_uses_system \<and> er_entityType (rel_to r) = ET_enterprise_system then Some (er_id (rel_to r))
     else if rel_relationType r = RT_uses_tool \<and> er_entityType (rel_to r) = ET_enterprise_tool
     then Option.bind (map_of (index_by be_id id (tp_tools t)) (er_id (rel_to r))) tl_systemId
     else None)"

definition domain_issue :: "string \<Rightarrow> string list \<Rightarrow> node_contract \<Rightarrow> enterprise_system \<Rightarrow> enterprise_relation \<Rightarrow> string \<Rightarrow> topology_issue" where
  "domain_issue message named n y r path =
    (relation_issue path ''data_domain_access_missing'' (message @ join '', '' named @ ''.'') (be_id n) r (be_id y))
      \<lparr>ts_refId := (case named of d # _ \<Rightarrow> Some d | [] \<Rightarrow> None)\<rparr>"

definition data_domain_issues :: "enterprise_topology \<Rightarrow> enterprise_relation \<Rightarrow> string \<Rightarrow> topology_issue list" where
  "data_domain_issues t r path =
    (if er_entityType (rel_from r) \<noteq> ET_node then []
     else case (map_of (index_by be_id id (tp_nodes t)) (er_id (rel_from r)),
         Option.bind (used_system t r) (map_of (index_by be_id id (tp_systems t)))) of
       (Some n, Some y) \<Rightarrow>
         if sy_dataDomainIds y = [] then []
         else let access = system_access t (relation_pair_key (be_id n) (be_id y));
                  declared = uniq (concat (map data_domains_of_relation access));
                  missing = filter (\<lambda>d. d \<notin> set declared) (sy_dataDomainIds y)
           in if sy_criticality y = RL_critical \<and> access = [] then
                [(relation_issue path ''critical_system_access_missing''
                  ''Critical system usage requires an explicit has_access_to relation for the backing system.'' (be_id n) r (be_id y))
                  \<lparr>ts_refId := Some (be_id y), ts_refType := Some ET_enterprise_system\<rparr>]
              else if access = [] then []
              else if declared = [] then
                [domain_issue ''System access must declare data domains: '' (sy_dataDomainIds y) n y r path]
              else if missing = [] then []
              else [domain_issue ''System access is missing data domains: '' missing n y r path]
     | _ \<Rightarrow> [])"

definition validate_data_domain_access :: "enterprise_topology \<Rightarrow> topology_issue list" where
  "validate_data_domain_access t = each_entity ''relations'' (data_domain_issues t) (tp_relations t)"

section \<open>Processes\<close>

fun positive_finite :: "jsnum \<Rightarrow> bool" where
  "positive_finite (Fin x) \<longleftrightarrow> 0 < x"
| "positive_finite _ \<longleftrightarrow> False"

definition process_issues :: "enterprise_topology \<Rightarrow> process_definition \<Rightarrow> string \<Rightarrow> topology_issue list" where
  "process_issues t p path =
    (if pd_ownerNodeId p = None then [entity_issue (path @ ''.ownerNodeId'') ''process_owner_missing'' SV_blocked
       ''Process definition must declare an owner node before activation.'' ET_process_definition (be_id p)] else [])
    @ (if pd_stepNodeIds p \<noteq> [] \<and> pd_slaMs p = None then [entity_issue (path @ ''.slaMs'') ''process_sla_missing'' SV_warning
         ''Process definition should declare slaMs for operational analysis.'' ET_process_definition (be_id p)]
       else case pd_slaMs p of
         None \<Rightarrow> []
       | Some ms \<Rightarrow> if positive_finite ms then [] else [entity_issue (path @ ''.slaMs'') ''process_sla_invalid'' SV_invalid
           ''Process slaMs must be a positive number.'' ET_process_definition (be_id p)])
    @ each (\<lambda>k i. case map_of (index_by be_id id (tp_nodes t)) i of
         None \<Rightarrow> []
       | Some n \<Rightarrow> if nc_owner n \<noteq> None then []
           else [(entity_issue (index_path (path @ ''.stepNodeIds'') k) ''process_step_owner_missing'' SV_blocked
             ''Process step node must have an owner before activation.'' ET_process_definition (be_id p))
             \<lparr>ts_refId := Some i, ts_refType := Some ET_node\<rparr>]) (pd_stepNodeIds p)"

definition process_step_sets :: "enterprise_topology \<Rightarrow> (string, string list) jsmap" where
  "process_step_sets t = index_by be_id pd_stepNodeIds (tp_processes t)"

definition validate_process_endpoint ::
  "enterprise_topology \<Rightarrow> string \<Rightarrow> string \<Rightarrow> enterprise_relation \<Rightarrow> string \<Rightarrow> topology_issue list" where
  "validate_process_endpoint t processId nodeId r path =
    (case map_of (process_step_sets t) processId of
       None \<Rightarrow> []
     | Some steps \<Rightarrow> if nodeId \<in> set steps then []
         else [(entity_issue path ''process_transition_reference_invalid'' SV_blocked
           ''Process transition relation references a node that is not declared as a step of the process.'' ET_process_definition processId)
           \<lparr>ts_relationId := Some (be_id r), ts_sourceEntityId := Some (er_id (rel_from r)), ts_targetEntityId := Some (er_id (rel_to r)),
            ts_refId := Some nodeId, ts_refType := Some ET_node\<rparr>])"

definition transition_issues :: "enterprise_topology \<Rightarrow> enterprise_relation \<Rightarrow> string \<Rightarrow> topology_issue list" where
  "transition_issues t r path =
    (if rel_relationType r \<noteq> RT_depends_on then []
     else (if er_entityType (rel_from r) = ET_process_definition \<and> er_entityType (rel_to r) = ET_node
           then validate_process_endpoint t (er_id (rel_from r)) (er_id (rel_to r)) r path else [])
       @ (if er_entityType (rel_to r) = ET_process_definition \<and> er_entityType (rel_from r) = ET_node
          then validate_process_endpoint t (er_id (rel_to r)) (er_id (rel_from r)) r path else []))"

definition validate_process_rules :: "enterprise_topology \<Rightarrow> topology_issue list" where
  "validate_process_rules t =
    each_entity ''processes'' (process_issues t) (tp_processes t)
    @ each_entity ''relations'' (transition_issues t) (tp_relations t)"

section \<open>Responsibilities and policies\<close>

definition responsibility_scopes :: "enterprise_topology \<Rightarrow> string list" where
  "responsibility_scopes t = map (\<lambda>e. ref_key (re_scope e)) (tp_responsibilities t)"

definition accountable_issues :: "responsibility_entry \<Rightarrow> string \<Rightarrow> topology_issue list" where
  "accountable_issues e path =
    (if re_accountable e \<noteq> None then []
     else [(entity_issue (path @ ''.accountable'') ''raci_accountable_missing'' SV_warning
       ''Responsibility Matrix entry is missing an accountable owner.'' ET_responsibility_matrix_entry (be_id e))
       \<lparr>ts_refId := Some (er_id (re_scope e)), ts_refType := Some (er_entityType (re_scope e))\<rparr>])"

definition matrix_issue :: "enterprise_topology \<Rightarrow> entity_type \<Rightarrow> string \<Rightarrow> string \<Rightarrow> string \<Rightarrow> topology_issue list" where
  "matrix_issue t ty message i path =
    (if ref_key \<lparr>er_entityType = ty, er_id = i\<rparr> \<in> set (responsibility_scopes t) then []
     else [entity_issue path ''responsibility_matrix_missing'' SV_warning message ty i])"

definition validate_responsibility_coverage :: "enterprise_topology \<Rightarrow> topology_issue list" where
  "validate_responsibility_coverage t =
    each_entity ''responsibilities'' accountable_issues (tp_responsibilities t)
    @ each_entity ''nodes'' (\<lambda>n. matrix_issue t ET_node ''Node has no Responsibility Matrix entry.'' (be_id n)) (tp_nodes t)
    @ each_entity ''processes'' (\<lambda>p. matrix_issue t ET_process_definition ''Process definition has no Responsibility Matrix entry.'' (be_id p))
        (tp_processes t)"

definition node_policy_issues :: "entity_indexes \<Rightarrow> node_contract \<Rightarrow> string \<Rightarrow> topology_issue list" where
  "node_policy_issues ix n path =
    (case nc_failurePolicy n of
       None \<Rightarrow> [entity_issue (path @ ''.failurePolicy'') ''failure_policy_missing'' SV_blocked
         ''Node must define a FailurePolicy before runtime activation.'' ET_node (be_id n)]
     | Some fp \<Rightarrow> validate_references ix ET_node (fp_fallbackNodeIds fp) (path @ ''.failurePolicy.fallbackNodeIds'')
         (owner_from ET_node (be_id n) None))
    @ (case nc_recoveryPolicy n of
         None \<Rightarrow> [entity_issue (path @ ''.recoveryPolicy'') ''recovery_policy_missing'' SV_blocked
           ''Node must define a RecoveryPolicy before runtime activation.'' ET_node (be_id n)]
       | Some rp \<Rightarrow>
           if (case nc_failurePolicy n of Some fp \<Rightarrow> fp_fallbackNodeIds fp \<noteq> [] | None \<Rightarrow> False) \<and> \<not> rp_fallbackAllowed rp
           then [entity_issue (path @ ''.recoveryPolicy.fallbackAllowed'') ''invalid_recovery_policy'' SV_blocked
             ''RecoveryPolicy must allow fallback when FailurePolicy declares fallback nodes.'' ET_node (be_id n)]
           else [])"

definition validate_node_policies :: "enterprise_topology \<Rightarrow> entity_indexes \<Rightarrow> topology_issue list" where
  "validate_node_policies t ix = each_entity ''nodes'' (node_policy_issues ix) (tp_nodes t)"

definition validate_enterprise_rules ::
  "host \<Rightarrow> (string \<Rightarrow> jsnum) \<Rightarrow> validator_options \<Rightarrow> enterprise_topology \<Rightarrow> entity_indexes \<Rightarrow> topology_issue list" where
  "validate_enterprise_rules h date_parse opts t ix =
    validate_org_unit_hierarchy t @ validate_position_reporting t @ validate_membership_rules h date_parse opts t
    @ validate_authority_rules h t @ validate_approval_coverage t @ validate_permission_rules t
    @ validate_data_domain_access t @ validate_process_rules t @ validate_responsibility_coverage t
    @ validate_node_policies t ix"

end
