(* ===== verification/Topology_Validator.thy ===== *)
theory Topology_Validator
  imports Enterprise_Rules Compiler
begin

text \<open>
  \<open>validateTopology\<close> and \<open>validateEnterpriseTopologyCompatibility\<close> of \<open>topology/validator.ts\<close> on typed
  topologies: the contract of the object the topology is, then the index, the references, the delegation
  graph and the enterprise rules, and the verdict on the issues; and what an executable verdict gives
  the rest of the program.
\<close>

section \<open>Contract issues\<close>

fun is_letter :: "char \<Rightarrow> bool" where
  "is_letter c \<longleftrightarrow> (let n = of_char c :: nat in (65 \<le> n \<and> n \<le> 90) \<or> (97 \<le> n \<and> n \<le> 122))"

fun is_ascii_digit :: "char \<Rightarrow> bool" where
  "is_ascii_digit c \<longleftrightarrow> (let n = of_char c :: nat in 48 \<le> n \<and> n \<le> 57)"

text \<open>The match of \<open>/^\$\.([A-Za-z]+)\[(\d+)\]/\<close>: the collection and the index.\<close>

definition match_item_path :: "string \<Rightarrow> (string \<times> nat) option" where
  "match_item_path p =
    (if take 2 p \<noteq> ''$.'' then None
     else let key = takeWhile is_letter (drop 2 p); rest = dropWhile is_letter (drop 2 p) in
       if key = [] \<or> take 1 rest \<noteq> ''['' then None
       else let digits = takeWhile is_ascii_digit (drop 1 rest) in
         if digits = [] \<or> take 1 (dropWhile is_ascii_digit (drop 1 rest)) \<noteq> '']'' then None
         else Some (key, read_nat 0 digits))"

definition collection_entity_types :: "(string, entity_type) jsmap" where
  "collection_entity_types = [(''nodes'', ET_node), (''teams'', ET_team), (''orgUnits'', ET_org_unit),
     (''positions'', ET_position), (''persons'', ET_person), (''memberships'', ET_membership),
     (''authorityRules'', ET_authority_rule), (''responsibilities'', ET_responsibility_matrix_entry),
     (''systems'', ET_enterprise_system), (''tools'', ET_enterprise_tool), (''processes'', ET_process_definition),
     (''relations'', ET_relation)]"

fun item_at :: "json \<Rightarrow> nat \<Rightarrow> json" where
  "item_at (JArr xs) k = (if k < length xs then xs ! k else JUndef)"
| "item_at _ k = JUndef"

text \<open>\<open>inferEntityContextFromPath\<close>: the id and type of the item at a path.\<close>

definition entity_context :: "json \<Rightarrow> string \<Rightarrow> (string \<times> entity_type) option" where
  "entity_context v path =
    (case match_item_path path of
       None \<Rightarrow> None
     | Some (key, k) \<Rightarrow>
         (case (map_of collection_entity_types key, jget (item_at (jget v key) k) ''id'') of
            (Some ty, JStr i) \<Rightarrow> Some (i, ty)
          | _ \<Rightarrow> None))"

definition convert_contract_issue :: "json \<Rightarrow> validation_issue \<Rightarrow> topology_issue" where
  "convert_contract_issue v i =
    (topology_issue_of (vi_path i) (vi_code i) SV_invalid (vi_message i))
      \<lparr>ts_entityId := map_option fst (entity_context v (vi_path i)),
       ts_entityType := map_option snd (entity_context v (vi_path i)),
       ts_relationId := (case entity_context v (vi_path i) of Some (j, ET_relation) \<Rightarrow> Some j | _ \<Rightarrow> None)\<rparr>"

section \<open>Verdict\<close>

record issue_counts =
  ic_info :: nat
  ic_warning :: nat
  ic_blocked :: nat
  ic_invalid :: nat

record validation_result =
  vr_executable :: bool
  vr_issues :: "topology_issue list"
  vr_issueCounts :: issue_counts

definition count_severity :: "issue_severity \<Rightarrow> topology_issue list \<Rightarrow> nat" where
  "count_severity sv xs = length (filter (\<lambda>i. ts_severity i = sv) xs)"

text \<open>\<open>ok\<close> is the same flag as \<open>executable\<close>.\<close>

definition build_validation_result :: "topology_issue list \<Rightarrow> validation_result" where
  "build_validation_result xs =
    (let counts = \<lparr>ic_info = count_severity SV_info xs, ic_warning = count_severity SV_warning xs,
           ic_blocked = count_severity SV_blocked xs, ic_invalid = count_severity SV_invalid xs\<rparr>
     in \<lparr>vr_executable = (ic_blocked counts = 0 \<and> ic_invalid counts = 0), vr_issues = xs, vr_issueCounts = counts\<rparr>)"

definition is_executor_projection :: "enterprise_topology \<Rightarrow> bool" where
  "is_executor_projection t \<longleftrightarrow>
    (let marker = jget (be_metadata t) ''executorTopologyV2'' in
     jget marker ''schemaVersion'' = JNum (Fin 2) \<and> jget marker ''sourceOfTruth'' = JStr ''executor_topology_v2'')"

datatype rules_mode = RM_auto | RM_always

definition topology_issues :: "host \<Rightarrow> (string \<Rightarrow> jsnum) \<Rightarrow> validator_options \<Rightarrow> rules_mode \<Rightarrow> enterprise_topology \<Rightarrow> topology_issue list" where
  "topology_issues h date_parse opts mode t =
    (let (ix, duplicates) = build_entity_indexes t in
     duplicates
     @ validate_topology_references t ix
     @ validate_delegation_graph h t ix (opt_or (vo_maxDelegationDepth opts) (Fin 8))
     @ (if mode = RM_always \<or> \<not> is_executor_projection t then validate_enterprise_rules h date_parse opts t ix else []))"

definition validate_topology_internal ::
  "host \<Rightarrow> (string \<Rightarrow> jsnum) \<Rightarrow> validator_options \<Rightarrow> rules_mode \<Rightarrow> enterprise_topology \<Rightarrow> validation_result" where
  "validate_topology_internal h date_parse opts mode t =
    (let contract = validate_enterprise_topology (json_of_topology t) in
     if contract \<noteq> [] then build_validation_result (map (convert_contract_issue (json_of_topology t)) contract)
     else build_validation_result (topology_issues h date_parse opts mode t))"

definition validate_topology :: "host \<Rightarrow> (string \<Rightarrow> jsnum) \<Rightarrow> validator_options \<Rightarrow> enterprise_topology \<Rightarrow> validation_result" where
  "validate_topology h date_parse opts t = validate_topology_internal h date_parse opts RM_auto t"

definition validate_topology_compatibility ::
  "host \<Rightarrow> (string \<Rightarrow> jsnum) \<Rightarrow> validator_options \<Rightarrow> enterprise_topology \<Rightarrow> validation_result" where
  "validate_topology_compatibility h date_parse opts t = validate_topology_internal h date_parse opts RM_always t"

text \<open>\<open>Inl\<close> is \<open>TopologyValidationGateError\<close> with its issues.\<close>

definition assert_validation_executable :: "validation_result \<Rightarrow> topology_issue list + unit" where
  "assert_validation_executable r =
    (if vr_executable r then Inr () else Inl (filter (\<lambda>i. ts_severity i \<in> {SV_blocked, SV_invalid}) (vr_issues r)))"

section \<open>What an executable verdict means\<close>

lemma counts_zero: "count_severity sv xs = 0 \<longleftrightarrow> (\<forall>i \<in> set xs. ts_severity i \<noteq> sv)"
  by (auto simp: count_severity_def filter_empty_conv)

lemma verdict_clean: "vr_executable (build_validation_result xs) \<longleftrightarrow> clean xs"
  by (auto simp: build_validation_result_def counts_zero clean_def severe_def)

lemma contract_issue_blocks: "vr_executable (build_validation_result (map (convert_contract_issue v) xs)) \<longleftrightarrow> xs = []"
  by (cases xs) (simp_all add: verdict_clean convert_contract_issue_def severe_def topology_issue_of_def)

lemma internal_verdict:
  "vr_executable (validate_topology_internal h dp opts mode t) \<longleftrightarrow> topology_ok t \<and> clean (topology_issues h dp opts mode t)"
  by (simp add: validate_topology_internal_def contract_issue_blocks Let_def validate_topology_contract_iff)
    (simp add: verdict_clean)

lemma update_subset: "set (AList.update k v m) \<subseteq> insert (k, v) (set m)"
  by (induction m) auto

lemma adjacency_edges:
  "set (concat (map snd (fold add_graph_edge es adj))) \<subseteq> set (concat (map snd adj)) \<union> set es"
proof (induction es arbitrary: adj)
  case (Cons e es)
  have "set (js_lookup adj (de_from e) []) \<subseteq> set (concat (map snd adj))"
    by (cases "map_of adj (de_from e)") (auto simp: js_lookup_def dest!: map_of_SomeD)
  moreover have "set (add_graph_edge e adj) \<subseteq> insert (de_from e, js_lookup adj (de_from e) [] @ [e]) (set adj)"
    unfolding add_graph_edge_def by (rule update_subset)
  ultimately have "set (concat (map snd (add_graph_edge e adj))) \<subseteq> insert e (set (concat (map snd adj)))"
    by fastforce
  with Cons[of "add_graph_edge e adj"] show ?case by auto
qed simp

lemma delegation_targets_referenced:
  assumes "(a, b) \<in> delegates_to t"
  shows "(ET_node, b) \<in> set (topology_refs t)"
proof -
  consider (child) n where "n \<in> set (tp_nodes t)" "b \<in> set (nc_children n)"
    | (relation) r where "r \<in> set (tp_relations t)" "rel_to r = \<lparr>er_entityType = ET_node, er_id = b\<rparr>"
    using assms by (auto simp: delegates_to_def)
  then show ?thesis
  proof cases
    case child
    then show ?thesis using node_refs(1)[of n t] by auto
  next
    case relation
    then show ?thesis using relation_refs(2)[of r t] by (simp add: ref_pair_def)
  qed
qed

lemma delegation_sources_known:
  assumes "(a, b) \<in> delegates_to t" and refs: "\<forall>p \<in> set (topology_refs t). snd p \<in> entity_ids t (fst p)"
  shows "a \<in> be_id ` set (tp_nodes t)"
proof -
  consider (child) n where "n \<in> set (tp_nodes t)" "be_id n = a"
    | (relation) r where "r \<in> set (tp_relations t)" "rel_from r = \<lparr>er_entityType = ET_node, er_id = a\<rparr>"
    using assms(1) by (auto simp: delegates_to_def)
  then show ?thesis
  proof cases
    case relation
    then have "(ET_node, a) \<in> set (topology_refs t)" using relation_refs(1)[of r t] by (simp add: ref_pair_def)
    then have "a \<in> entity_ids t ET_node" using refs by fastforce
    then show ?thesis by (simp add: entity_ids_simps)
  qed auto
qed

text \<open>Targets of delegations are references, so the third part of \<open>validateDelegationGraph\<close> repeats what the
  reference stage rejects.\<close>

lemma clean_unknown_targets:
  assumes refs: "\<forall>p \<in> set (topology_refs t). entity_exists ix (fst p) (snd p)"
  shows "clean (concat (map (\<lambda>(src, es). if \<not> entity_exists ix ET_node src then []
     else concat (map (\<lambda>e. if entity_exists ix ET_node (de_to e) then []
       else validate_typed_reference ix ET_node (de_to e) (de_path e) (owner_from ET_node (de_from e) (de_relationId e))) es))
     (build_delegation_adjacency t)))"
proof -
  have "entity_exists ix ET_node (de_to e)" if e: "(src, es) \<in> set (build_delegation_adjacency t)" "e \<in> set es" for src es e
  proof -
    have "e \<in> set (delegation_edges t)"
      using adjacency_edges[of "delegation_edges t" "[]"] e by (force simp: build_delegation_adjacency_def)
    then have "(de_from e, de_to e) \<in> delegates_to t" unfolding delegation_edges_pairs[symmetric] by blast
    then have "(ET_node, de_to e) \<in> set (topology_refs t)" by (rule delegation_targets_referenced)
    then show ?thesis using refs by force
  qed
  then show ?thesis by (force simp: clean_def)
qed

definition delegation_bounded :: "jsnum \<Rightarrow> enterprise_topology \<Rightarrow> bool" where
  "delegation_bounded m t \<longleftrightarrow> (\<forall>q. simple_path (delegates_to t) q \<longrightarrow> \<not> depth_exceeds (length q - 1) (max_zero m))"

lemma depth_zero: "\<not> depth_exceeds 0 (max_zero m)"
  by (cases m) auto

lemma clean_delegation_graph:
  assumes refs: "\<forall>p \<in> set (topology_refs t). snd p \<in> entity_ids t (fst p)"
    and ix: "\<And>ty i. entity_exists ix ty i \<longleftrightarrow> i \<in> entity_ids t ty"
  shows "clean (validate_delegation_graph h t ix m) \<longleftrightarrow> acyclic (delegates_to t) \<and> delegation_bounded m t"
proof -
  let ?nodes = "uniq (map be_id (tp_nodes t))"
  have nodes: "set ?nodes = be_id ` set (tp_nodes t)" by simp
  have graph: "known_edges (build_delegation_adjacency t) ?nodes = delegates_to t"
    using refs delegation_targets_referenced[of _ _ t]
    by (force simp: known_edges_delegates entity_ids_simps)
  have "(\<forall>n \<in> set ?nodes. \<forall>q. q \<noteq> [] \<and> simple_path (delegates_to t) (n # q) \<longrightarrow> \<not> depth_exceeds (length q) (max_zero m))
      \<longleftrightarrow> delegation_bounded m t" (is "?l = ?r")
  proof
    assume l: ?l
    have "\<not> depth_exceeds (length q - 1) (max_zero m)" if q: "simple_path (delegates_to t) q" for q
    proof (cases q)
      case (Cons n q')
      show ?thesis
      proof (cases q')
        case Nil
        then show ?thesis using Cons by (simp add: depth_zero)
      next
        case (Cons n' q'')
        then have "(n, n') \<in> delegates_to t" using q \<open>q = n # q'\<close> by (auto simp: simple_path_def)
        then have "n \<in> set ?nodes" unfolding nodes using refs by (rule delegation_sources_known)
        moreover have "simple_path (delegates_to t) (n # n' # q'')" using q Cons \<open>q = n # q'\<close> by simp
        ultimately show ?thesis using l Cons \<open>q = n # q'\<close> by fastforce
      qed
    qed (simp add: depth_zero)
    then show ?r by (simp add: delegation_bounded_def)
  next
    assume ?r
    then show ?l by (auto simp: delegation_bounded_def)
  qed
  moreover have "clean (concat (map (\<lambda>(src, es). if \<not> entity_exists ix ET_node src then []
     else concat (map (\<lambda>e. if entity_exists ix ET_node (de_to e) then []
       else validate_typed_reference ix ET_node (de_to e) (de_path e) (owner_from ET_node (de_from e) (de_relationId e))) es))
     (build_delegation_adjacency t)))"
    by (rule clean_unknown_targets) (use refs ix in blast)
  ultimately show ?thesis
    unfolding validate_delegation_graph_def Let_def clean_simps(3) cycles_severe depth_severe detect_cycles_iff detect_depth_iff graph
    by blast
qed


definition structurally_sound :: "jsnum \<Rightarrow> enterprise_topology \<Rightarrow> bool" where
  "structurally_sound m t \<longleftrightarrow> topology_ok t \<and> distinct (map ix_id (topology_entities t))
    \<and> (\<forall>p \<in> set (topology_refs t). snd p \<in> entity_ids t (fst p))
    \<and> acyclic (delegates_to t) \<and> delegation_bounded m t"

definition enterprise_rules_apply :: "rules_mode \<Rightarrow> enterprise_topology \<Rightarrow> bool" where
  "enterprise_rules_apply mode t \<longleftrightarrow> mode = RM_always \<or> \<not> is_executor_projection t"

lemma verdict_iff:
  "vr_executable (validate_topology_internal h dp opts mode t) \<longleftrightarrow>
    structurally_sound (opt_or (vo_maxDelegationDepth opts) (Fin 8)) t
    \<and> (enterprise_rules_apply mode t \<longrightarrow> clean (validate_enterprise_rules h dp opts t (fst (build_entity_indexes t))))"
    (is "?l \<longleftrightarrow> ?r")
proof (cases "topology_ok t \<and> (\<forall>p \<in> set (topology_refs t). snd p \<in> entity_ids t (fst p))")
  case True
  then have rels: "\<forall>r \<in> set (tp_relations t). relation_ok r" by (simp add: topology_ok_def)
  show ?thesis
    unfolding internal_verdict topology_issues_def structurally_sound_def enterprise_rules_apply_def case_prod_beta Let_def clean_simps(3)
      clean_topology_references[OF rels] build_indexes
      clean_delegation_graph[OF conjunct2[OF True] build_indexes(1)]
    using True by auto
next
  case False
  then have "topology_ok t \<Longrightarrow> \<not> clean (validate_topology_references t (fst (build_entity_indexes t)))"
    using clean_topology_references[of t "fst (build_entity_indexes t)"] by (auto simp: build_indexes topology_ok_def)
  then show ?thesis
    using False unfolding internal_verdict topology_issues_def structurally_sound_def case_prod_beta Let_def clean_simps(3) by blast
qed

end
