(* ===== verification/Topology_Guarantees.thy ===== *)
theory Topology_Guarantees
  imports Topology_Validator
begin

text \<open>
  What a topology with the verdict executable is known to satisfy, for the code that runs it: the
  permissions, approvals and system access of its nodes, the hierarchies of its units and positions, the
  load of its persons, and the shape of its delegations.
\<close>

section \<open>Topologies of the executor model\<close>

text \<open>C11: A topology projected from the executor model, which skips the enterprise rules, gets the verdict
  executable exactly when its contract holds, all ids are distinct, every reference names an entity of the type
  it must have, the delegation relation (children and delegates_to relations) is acyclic and no simple
  delegation path is longer than the depth bound (8 unless given).\<close>

theorem executor_topology_executable_iff:
  assumes "is_executor_projection t"
  shows "vr_executable (validate_topology h dp opts t) \<longleftrightarrow>
    topology_ok t \<and> distinct (map ix_id (topology_entities t))
    \<and> (\<forall>p \<in> set (topology_refs t). snd p \<in> entity_ids t (fst p))
    \<and> acyclic (delegates_to t)
    \<and> (\<forall>q. simple_path (delegates_to t) q \<longrightarrow>
        \<not> depth_exceeds (length q - 1) (max_zero (opt_or (vo_maxDelegationDepth opts) (Fin 8))))"
  unfolding validate_topology_def verdict_iff structurally_sound_def delegation_bounded_def
  using assms by (simp add: enterprise_rules_apply_def)

section \<open>What the enterprise rules guarantee\<close>

lemma clean_each_entity_member:
  assumes "clean (each_entity key f xs)" "x \<in> set xs"
  obtains path where "clean (f x path)"
proof -
  have "clean (concat (map (\<lambda>ix. g (fst ix) (snd ix)) (enumerate n xs))) \<Longrightarrow> x \<in> set xs \<Longrightarrow> \<exists>k. clean (g k x)" for g :: "nat \<Rightarrow> 'a \<Rightarrow> topology_issue list" and n
    by (induction xs arbitrary: n) auto
  from this[of "\<lambda>k x. f x (index_path (''$.'' @ key) k)" 0] show thesis
    using assms that by (auto simp: each_entity_def each_def)
qed

lemma distinct_collections:
  assumes "distinct (map ix_id (topology_entities t))"
  shows "distinct (map be_id (tp_nodes t))" "distinct (map be_id (tp_tools t))" "distinct (map be_id (tp_systems t))"
    "distinct (map be_id (tp_orgUnits t))" "distinct (map be_id (tp_positions t))"
  using assms unfolding topology_entities_def map_append distinct_append indexed_collection_map by blast+

definition approved :: "enterprise_topology \<Rightarrow> entity_ref \<Rightarrow> bool" where
  "approved t e \<longleftrightarrow> (\<exists>r \<in> set (tp_relations t). rel_relationType r = RT_approves \<and> rel_to r = e)
    \<or> (\<exists>r \<in> set (tp_authorityRules t). ar_object r = e \<and> (\<exists>a. normalize_action (ar_action r) = Some a \<and> is_approval_action a))"

lemma ref_key_inject: "ref_key r = ref_key e \<longleftrightarrow> r = e"
  apply (cases r; cases e)
  subgoal for a i b j by (cases a; cases b) (simp_all add: ref_key_def)
  done

lemma approval_targets_iff: "ref_key e \<in> set (approval_targets t) \<longleftrightarrow> approved t e"
  by (auto simp: approval_targets_def approved_def ref_key_inject image_iff split: option.splits)

section \<open>Permissions\<close>

lemma executable_rules:
  assumes "vr_executable (validate_topology_internal h dp opts mode t)" "enterprise_rules_apply mode t"
  shows "structurally_sound (opt_or (vo_maxDelegationDepth opts) (Fin 8)) t"
    "clean (validate_org_unit_hierarchy t)" "clean (validate_position_reporting t)"
    "clean (validate_membership_rules h dp opts t)" "clean (validate_approval_coverage t)"
    "clean (validate_permission_rules t)" "clean (validate_data_domain_access t)"
    "clean (validate_node_policies t (fst (build_entity_indexes t)))"
  using assms unfolding verdict_iff validate_enterprise_rules_def clean_simps(3) by blast+

lemma permission_clean:
  assumes "clean (permission_issues t r path)" "map_of (index_by be_id id (tp_nodes t)) (er_id (rel_from r)) = Some n"
    "er_entityType (rel_from r) = ET_node"
  shows "rel_relationType r \<in> {RT_uses_tool, RT_has_access_to} \<and> er_entityType (rel_to r) = ET_enterprise_tool
      \<Longrightarrow> er_id (rel_to r) \<in> set (nc_allowedToolIds n)"
    "rel_relationType r \<in> {RT_uses_system, RT_has_access_to} \<and> er_entityType (rel_to r) = ET_enterprise_system
      \<Longrightarrow> er_id (rel_to r) \<in> set (nc_allowedSystemIds n)"
    "rel_relationType r = RT_uses_tool \<and> er_entityType (rel_to r) = ET_enterprise_tool
      \<Longrightarrow> Option.bind (map_of (index_by be_id id (tp_tools t)) (er_id (rel_to r))) tl_systemId = Some y
      \<Longrightarrow> y \<in> set (nc_allowedSystemIds n)"
  using assms
  by (auto simp: permission_issues_def Let_def validate_node_tool_permission_def validate_node_system_permission_def
      relation_issue_def severe_def split: if_splits option.splits)

lemma tool_approval_clean:
  assumes "clean (tool_approval_issues t r path)" "rel_relationType r = RT_uses_tool" "rel_from r = node_ref i"
    "rel_to r = tool_ref (be_id x)" "map_of (index_by be_id id (tp_tools t)) (be_id x) = Some x"
    "tool_requires_approval (tl_toolType x)"
  shows "approved t (tool_ref (be_id x)) \<or> approved t (node_ref i)"
  using assms
  by (auto simp: tool_approval_issues_def relation_issue_def severe_def node_ref_def tool_ref_def approval_targets_iff split: if_splits)

lemma data_domain_clean:
  assumes "clean (data_domain_issues t r path)" "rel_from r = node_ref (be_id n)"
    "map_of (index_by be_id id (tp_nodes t)) (be_id n) = Some n"
    "used_system t r = Some (be_id y)" "map_of (index_by be_id id (tp_systems t)) (be_id y) = Some y"
    "sy_dataDomainIds y \<noteq> []"
  shows "sy_criticality y = RL_critical \<Longrightarrow> system_access t (relation_pair_key (be_id n) (be_id y)) \<noteq> []"
    "system_access t (relation_pair_key (be_id n) (be_id y)) \<noteq> [] \<Longrightarrow>
      set (sy_dataDomainIds y) \<subseteq> (\<Union>a \<in> set (system_access t (relation_pair_key (be_id n) (be_id y))). set (data_domains_of_relation a))"
  using assms
  by (auto simp: data_domain_issues_def Let_def relation_issue_def domain_issue_def severe_def node_ref_def filter_empty_conv
      split: if_splits)

section \<open>Hierarchies\<close>

definition visit_consistent :: "visit_state \<Rightarrow> bool" where
  "visit_consistent st \<longleftrightarrow> vs_reported st = [] \<or> \<not> clean (vs_issues st)"

lemma hierarchy_visit_complete:
  assumes "visit_consistent st" "map_of parents i = Some par" "\<And>i p c. severe (mk i p c)"
  shows "visit_consistent (hierarchy_visit parents mk path i par st)
    \<and> (clean (vs_issues (hierarchy_visit parents mk path i par st)) \<longrightarrow> clean (vs_issues st) \<and> (i, i) \<notin> (climbs parents)\<^sup>+)"
  using assms
proof (induction parents mk path i par st rule: hierarchy_visit.induct)
  case (1 parents mk path i st)
  have "(i, i) \<notin> (climbs parents)\<^sup>+"
  proof
    assume "(i, i) \<in> (climbs parents)\<^sup>+"
    then obtain z where "(i, z) \<in> climbs parents" by (meson tranclD)
    then show False using "1.prems"(2) by (simp add: climbs_def)
  qed
  then show ?case using 1 by simp
next
  case (2 parents mk path i p st)
  show ?case
  proof (cases "map_of parents p")
    case None
    have "(i, i) \<notin> (climbs parents)\<^sup>+"
    proof
      assume "(i, i) \<in> (climbs parents)\<^sup>+"
      then obtain z where "(i, z) \<in> climbs parents" by (meson tranclD)
      then show False using "2.prems"(2) None by (simp add: climbs_def)
    qed
    then show ?thesis using 2 None by simp
  next
    case (Some pp)
    show ?thesis
    proof (cases "p \<in> set path")
      case True
      then show ?thesis using Some "2.prems"(1,3) by (auto simp: Let_def visit_consistent_def)
    next
      case False
      have edge: "(i, p) \<in> climbs parents" using "2.prems"(2) Some by (simp add: climbs_def)
      have "(i, i) \<notin> (climbs parents)\<^sup>+" if "(p, p) \<notin> (climbs parents)\<^sup>+"
      proof
        assume "(i, i) \<in> (climbs parents)\<^sup>+"
        then obtain z where z: "(i, z) \<in> climbs parents" "(z, i) \<in> (climbs parents)\<^sup>*" by (meson tranclD)
        then have "z = p" using climbs_functional edge by blast
        then show False using z edge that by (metis rtrancl_into_trancl1)
      qed
      moreover note "2.IH"[OF Some False "2.prems"(1) Some "2.prems"(3)]
      ultimately show ?thesis using Some False by auto
    qed
  qed
qed

lemma hierarchy_visit_sound:
  assumes "acyclic (climbs parents)" "successively (\<lambda>u v. (u, v) \<in> climbs parents) path" "path \<noteq> []" "last path = i"
    "map_of parents i = Some par"
  shows "hierarchy_visit parents mk path i par st = st"
  using assms
proof (induction parents mk path i par st rule: hierarchy_visit.induct)
  case (2 parents mk path i p st)
  show ?case
  proof (cases "map_of parents p")
    case (Some pp)
    then have edge: "(i, p) \<in> climbs parents" using "2.prems"(5) by (simp add: climbs_def)
    have fresh: "p \<notin> set path"
    proof
      assume "p \<in> set path"
      then have "(p, i) \<in> (climbs parents)\<^sup>*" using last_reaches[OF "2.prems"(2)] "2.prems"(4) by blast
      then have "(p, p) \<in> (climbs parents)\<^sup>+" using edge by (rule rtrancl_into_trancl1)
      then show False using "2.prems"(1) by (simp add: acyclic_def)
    qed
    have "successively (\<lambda>u v. (u, v) \<in> climbs parents) (path @ [p])"
      using "2.prems"(2-4) edge by (simp add: successively_append_iff)
    then have "hierarchy_visit parents mk (path @ [p]) p pp st = st"
      using "2.IH"[OF Some fresh "2.prems"(1)] Some by simp
    then show ?thesis using Some fresh by simp
  qed simp
qed simp

text \<open>A pass over all entities, each followed by issues of its own.\<close>

lemma hierarchy_fold:
  assumes "\<And>i p c. severe (mk i p c)" "\<And>x. x \<in> set xs \<Longrightarrow> map_of parents (key x) = Some (par x)"
    "visit_consistent st"
    "clean (vs_issues (fold (\<lambda>x st. let st' = hierarchy_visit parents mk [key x] (key x) (par x) st
       in st'\<lparr>vs_issues := vs_issues st' @ own x\<rparr>) xs st))"
  shows "clean (vs_issues st) \<and> (\<forall>x \<in> set xs. (key x, key x) \<notin> (climbs parents)\<^sup>+ \<and> clean (own x))"
  using assms(2-4)
proof (induction xs arbitrary: st)
  case (Cons x xs)
  let ?v = "hierarchy_visit parents mk [key x] (key x) (par x) st"
  let ?st = "?v\<lparr>vs_issues := vs_issues ?v @ own x\<rparr>"
  have v: "visit_consistent ?v \<and> (clean (vs_issues ?v) \<longrightarrow> clean (vs_issues st) \<and> (key x, key x) \<notin> (climbs parents)\<^sup>+)"
    using Cons.prems(1,2) assms(1) by (intro hierarchy_visit_complete) simp_all
  then have "visit_consistent ?st" by (auto simp: visit_consistent_def)
  then have "clean (vs_issues ?st) \<and> (\<forall>x \<in> set xs. (key x, key x) \<notin> (climbs parents)\<^sup>+ \<and> clean (own x))"
    using Cons.IH[of ?st] Cons.prems(1,3) by (simp add: Let_def)
  then show ?case using v by simp
qed simp

lemma climbs_acyclic:
  assumes "\<forall>i \<in> fst ` set parents. (i, i) \<notin> (climbs parents)\<^sup>+"
  shows "acyclic (climbs parents)"
  unfolding acyclic_def
proof
  fix i
  show "(i, i) \<notin> (climbs parents)\<^sup>+"
  proof
    assume "(i, i) \<in> (climbs parents)\<^sup>+"
    moreover from this obtain z where "(i, z) \<in> climbs parents" by (meson tranclD)
    then have "i \<in> fst ` set parents" by (auto simp: climbs_def dest!: map_of_SomeD intro: rev_image_eqI)
    ultimately show False using assms by blast
  qed
qed

definition unit_parent :: "enterprise_topology \<Rightarrow> (string \<times> string) set" where
  "unit_parent t = {(be_id u, p) | u p. u \<in> set (tp_orgUnits t) \<and> un_parentOrgUnitId u = Some p}"

definition reports_to :: "enterprise_topology \<Rightarrow> (string \<times> string) set" where
  "reports_to t = {(be_id x, p) | x p. x \<in> set (tp_positions t) \<and> po_reportsToPositionId x = Some p}"

text \<open>When every parent is known, the climb of the index is the parent relation itself.\<close>

lemma climbs_index:
  assumes "distinct (map key xs)" "\<And>x p. x \<in> set xs \<Longrightarrow> par x = Some p \<Longrightarrow> p \<in> key ` set xs"
  shows "climbs (index_by key par xs) = {(key x, p) | x p. x \<in> set xs \<and> par x = Some p}"
proof -
  have "map_of (index_by key par xs) i = Some (Some p) \<longleftrightarrow> (\<exists>x \<in> set xs. key x = i \<and> par x = Some p)" for i p
    using index_by_Some[of key par xs i "Some p"] index_by_distinct_Some[OF assms(1), of _ par] by auto
  then show ?thesis using assms(2) by (auto simp: climbs_def index_by_None)
qed


lemma parent_refs:
  assumes u: "u \<in> set (tp_orgUnits t)" "un_parentOrgUnitId u = Some p"
  shows "(ET_org_unit, p) \<in> set (topology_refs t)"
proof -
  let ?refs = "\<lambda>u. opt_pair ET_org_unit (un_parentOrgUnitId u) @ map (Pair ET_position) (un_positionIds u)
      @ map (Pair ET_person) (un_personIds u)"
  have "set (concat (map ?refs (tp_orgUnits t))) \<subseteq> set (topology_refs t)"
    unfolding topology_refs_def set_append by (intro le_supI2[OF le_supI2[OF le_supI1]] order_refl)
  moreover have "(ET_org_unit, p) \<in> set (?refs u)" using u(2) by (simp add: opt_pair_def)
  ultimately show ?thesis using u(1) by (meson in_set_concat_map subsetD)
qed

lemma manager_refs:
  assumes x: "x \<in> set (tp_positions t)" "po_reportsToPositionId x = Some p"
  shows "(ET_position, p) \<in> set (topology_refs t)"
proof -
  let ?refs = "\<lambda>p. [(ET_org_unit, po_orgUnitId p)] @ opt_pair ET_position (po_reportsToPositionId p)
      @ map (Pair ET_person) (po_personIds p) @ opt_pair ET_position (po_backupPositionId p)"
  have "set (concat (map ?refs (tp_positions t))) \<subseteq> set (topology_refs t)"
    unfolding topology_refs_def set_append by (intro le_supI2[OF le_supI2[OF le_supI2[OF le_supI1]]] order_refl)
  moreover have "(ET_position, p) \<in> set (?refs x)" using x(2) by (simp add: opt_pair_def)
  ultimately show ?thesis using x(1) by (meson in_set_concat_map subsetD)
qed

lemma sound_refs: "structurally_sound m t \<Longrightarrow> (ty, i) \<in> set (topology_refs t) \<Longrightarrow> i \<in> entity_ids t ty"
  unfolding structurally_sound_def by fastforce

lemma sound_climbs:
  assumes "structurally_sound m t"
  shows "climbs (unit_parents t) = unit_parent t" "climbs (position_managers t) = reports_to t"
proof -
  note d = distinct_collections[of t]
  have dist: "distinct (map ix_id (topology_entities t))" using assms by (simp add: structurally_sound_def)
  show "climbs (unit_parents t) = unit_parent t"
    unfolding unit_parents_def unit_parent_def
    by (rule climbs_index[OF d(4)[OF dist]]) (use sound_refs[OF assms] parent_refs entity_ids_simps(4) in blast)
  show "climbs (position_managers t) = reports_to t"
    unfolding position_managers_def reports_to_def
    by (rule climbs_index[OF d(5)[OF dist]]) (use sound_refs[OF assms] manager_refs entity_ids_simps(5) in blast)
qed

lemma hierarchy_issue_severe: "severe (hierarchy_issue paths default_path code message ty i p c)"
  by (simp add: hierarchy_issue_def severe_def)

lemma clean_unit_hierarchy:
  assumes "structurally_sound m t" "clean (validate_org_unit_hierarchy t)"
  shows "acyclic (unit_parent t)"
proof -
  have dist: "distinct (map be_id (tp_orgUnits t))"
    using assms(1) distinct_collections by (simp add: structurally_sound_def)
  have "clean (vs_issues (fold (\<lambda>u st. let st' = hierarchy_visit (unit_parents t) (unit_cycle_issue t) [be_id u] (be_id u)
      (un_parentOrgUnitId u) st in st'\<lparr>vs_issues := vs_issues st' @ []\<rparr>) (tp_orgUnits t) \<lparr>vs_reported = [], vs_issues = []\<rparr>))"
    using assms(2) by (simp add: validate_org_unit_hierarchy_def Let_def)
  then have "\<forall>u \<in> set (tp_orgUnits t). (be_id u, be_id u) \<notin> (climbs (unit_parents t))\<^sup>+"
    using hierarchy_fold[of "unit_cycle_issue t" "tp_orgUnits t" "unit_parents t" be_id un_parentOrgUnitId
        "\<lparr>vs_reported = [], vs_issues = []\<rparr>" "\<lambda>_. []"]
    by (simp add: unit_cycle_issue_def hierarchy_issue_severe unit_parents_def index_by_distinct_Some[OF dist] visit_consistent_def)
  then have "acyclic (climbs (unit_parents t))"
    by (intro climbs_acyclic) (simp add: unit_parents_def keys_index_by)
  then show ?thesis by (simp add: sound_climbs[OF assms(1)])
qed

lemma clean_position_reporting:
  assumes "structurally_sound m t" "clean (validate_position_reporting t)"
  shows "acyclic (reports_to t)"
proof -
  let ?ps = "enumerate 0 (tp_positions t)"
  have dist: "distinct (map be_id (tp_positions t))"
    using assms(1) distinct_collections by (simp add: structurally_sound_def)
  have snds: "snd ` set ?ps = set (tp_positions t)"
    by (simp only: set_map[symmetric] map_snd_enumerate)
  then have mem: "snd ip \<in> set (tp_positions t)" if "ip \<in> set ?ps" for ip
    using that by blast
  have "\<forall>ip \<in> set ?ps. (be_id (snd ip), be_id (snd ip)) \<notin> (climbs (position_managers t))\<^sup>+"
    using hierarchy_fold[of "position_cycle_issue t" ?ps "position_managers t" "\<lambda>ip. be_id (snd ip)" "\<lambda>ip. po_reportsToPositionId (snd ip)"
        "\<lparr>vs_reported = [], vs_issues = []\<rparr>" "\<lambda>ip. reporting_scope_issues t (snd ip) (index_path ''$.positions'' (fst ip))"] assms(2)
    by (simp add: position_cycle_issue_def hierarchy_issue_severe position_managers_def index_by_distinct_Some[OF dist] visit_consistent_def
        mem validate_position_reporting_def)
  then have "\<forall>x \<in> set (tp_positions t). (be_id x, be_id x) \<notin> (climbs (position_managers t))\<^sup>+"
    unfolding snds[symmetric] by blast
  then have "acyclic (climbs (position_managers t))"
    by (intro climbs_acyclic) (simp add: position_managers_def keys_index_by)
  then show ?thesis by (simp add: sound_climbs[OF assms(1)])
qed



text \<open>The scan for an ancestor.\<close>

lemma ancestor_loop_iff:
  assumes "acyclic (climbs parents)" "\<And>j p. map_of parents j = Some (Some p) \<Longrightarrow> map_of parents p \<noteq> None"
    "\<forall>v \<in> set visited. (v, i) \<in> (climbs parents)\<^sup>+"
  shows "ancestor_loop parents a visited i \<longleftrightarrow> (i, a) \<in> (climbs parents)\<^sup>+"
  using assms
proof (induction parents a visited i rule: ancestor_loop.induct)
  case (1 parents a visited i)
  show ?case
  proof (cases "map_of parents i")
    case None
    then have "(i, a) \<notin> (climbs parents)\<^sup>+" by (auto simp: climbs_def dest: tranclD)
    then show ?thesis using None by (simp add: ancestor_loop.simps)
  next
    case (Some parent)
    show ?thesis
    proof (cases parent)
      case None
      then have "(i, a) \<notin> (climbs parents)\<^sup>+" using Some by (auto simp: climbs_def dest: tranclD)
      then show ?thesis using Some None by (simp add: ancestor_loop.simps)
    next
      case p: (Some p)
      have edge: "(i, p) \<in> climbs parents" using Some p "1.prems"(2) by (simp add: climbs_def)
      have fresh: "i \<notin> set visited" using "1.prems"(1,3) by (auto simp: acyclic_def)
      have "\<forall>v \<in> set (i # visited). (v, p) \<in> (climbs parents)\<^sup>+" using "1.prems"(3) edge by auto
      moreover note "1.IH"[OF Some p fresh _ "1.prems"(1)] "1.prems"(2)
      ultimately have "p \<noteq> a \<Longrightarrow> ancestor_loop parents a (i # visited) p \<longleftrightarrow> (p, a) \<in> (climbs parents)\<^sup>+"
        by presburger
      then show ?thesis using Some p fresh climb_trancl[OF edge] by (auto simp: ancestor_loop.simps[of parents a visited i])
    qed
  qed
qed

text \<open>C12: In a topology with the verdict executable on which the enterprise rules ran, a node that uses or
  accesses a tool or a system has it in its allowed lists, and the system behind a used tool too; a write
  or external-action tool is used only where the tool or the node is the target of an approval; and
  where a node uses a system with data domains, a critical one has a has_access_to relation and the
  has_access_to relations, where there are any, declare all its data domains.\<close>

theorem executable_node_access:
  assumes "vr_executable (validate_topology h dp opts t)" "\<not> is_executor_projection t"
    and n: "n \<in> set (tp_nodes t)" and r: "r \<in> set (tp_relations t)" and src: "rel_from r = node_ref (be_id n)"
  shows "(rel_relationType r \<in> {RT_uses_tool, RT_has_access_to} \<and> er_entityType (rel_to r) = ET_enterprise_tool \<longrightarrow>
      er_id (rel_to r) \<in> set (nc_allowedToolIds n))
    \<and> (rel_relationType r \<in> {RT_uses_system, RT_has_access_to} \<and> er_entityType (rel_to r) = ET_enterprise_system \<longrightarrow>
      er_id (rel_to r) \<in> set (nc_allowedSystemIds n))
    \<and> (\<forall>x \<in> set (tp_tools t). rel_relationType r = RT_uses_tool \<and> rel_to r = tool_ref (be_id x) \<longrightarrow>
      (\<forall>y. tl_systemId x = Some y \<longrightarrow> y \<in> set (nc_allowedSystemIds n))
      \<and> (tool_requires_approval (tl_toolType x) \<longrightarrow> approved t (tool_ref (be_id x)) \<or> approved t (node_ref (be_id n))))
    \<and> (\<forall>y \<in> set (tp_systems t). used_system t r = Some (be_id y) \<and> sy_dataDomainIds y \<noteq> [] \<longrightarrow>
      (let access = system_access t (relation_pair_key (be_id n) (be_id y)) in
        (sy_criticality y = RL_critical \<longrightarrow> access \<noteq> [])
        \<and> (access \<noteq> [] \<longrightarrow> set (sy_dataDomainIds y) \<subseteq> (\<Union>a \<in> set access. set (data_domains_of_relation a)))))"
proof -
  have "vr_executable (validate_topology_internal h dp opts RM_auto t)" "enterprise_rules_apply RM_auto t"
    using assms by (simp_all add: validate_topology_def enterprise_rules_apply_def)
  note rules = executable_rules[OF this]
  have "distinct (map ix_id (topology_entities t))" using rules(1) by (simp add: structurally_sound_def)
  note dist = distinct_collections[OF this]
  have node: "map_of (index_by be_id id (tp_nodes t)) (er_id (rel_from r)) = Some n"
    using index_by_distinct_Some[OF dist(1) n, of id] src by (simp add: node_ref_def)
  have src_type: "er_entityType (rel_from r) = ET_node" by (simp add: src node_ref_def)
  obtain path where "clean (permission_issues t r path)"
    using rules(6) r unfolding validate_permission_rules_def clean_simps(3) by (blast elim: clean_each_entity_member)
  note permission = permission_clean[OF this node src_type]
  obtain path' where approval: "clean (tool_approval_issues t r path')"
    using rules(5) r unfolding validate_approval_coverage_def clean_simps(3) by (blast elim: clean_each_entity_member)
  obtain path'' where domains: "clean (data_domain_issues t r path'')"
    using rules(7) r unfolding validate_data_domain_access_def by (blast elim: clean_each_entity_member)
  have tool: "(\<forall>y. tl_systemId x = Some y \<longrightarrow> y \<in> set (nc_allowedSystemIds n))
      \<and> (tool_requires_approval (tl_toolType x) \<longrightarrow> approved t (tool_ref (be_id x)) \<or> approved t (node_ref (be_id n)))"
    if x: "x \<in> set (tp_tools t)" "rel_relationType r = RT_uses_tool" "rel_to r = tool_ref (be_id x)" for x
  proof -
    have "map_of (index_by be_id id (tp_tools t)) (be_id x) = Some x" using index_by_distinct_Some[OF dist(2) x(1), of id] by simp
    then show ?thesis
      using permission(3) tool_approval_clean[OF approval x(2) src x(3)] x(2,3) by (simp add: tool_ref_def)
  qed
  have "let access = system_access t (relation_pair_key (be_id n) (be_id y)) in
        (sy_criticality y = RL_critical \<longrightarrow> access \<noteq> [])
        \<and> (access \<noteq> [] \<longrightarrow> set (sy_dataDomainIds y) \<subseteq> (\<Union>a \<in> set access. set (data_domains_of_relation a)))"
    if y: "y \<in> set (tp_systems t)" "used_system t r = Some (be_id y)" "sy_dataDomainIds y \<noteq> []" for y
    using data_domain_clean[OF domains src _ y(2) _ y(3)] index_by_distinct_Some[OF dist(1) n, of id] index_by_distinct_Some[OF dist(3) y(1), of id]
    by (simp add: Let_def)
  then show ?thesis using permission(1,2) tool by blast
qed

section \<open>Allocations\<close>

text \<open>The capacity the memberships of a person claim.\<close>

definition claimed_capacity :: "(string \<Rightarrow> jsnum) \<Rightarrow> rat option \<Rightarrow> enterprise_topology \<Rightarrow> string \<Rightarrow> rat" where
  "claimed_capacity dp asOf t person =
    sum_list (List.map_filter (counted_allocation dp asOf) (filter (\<lambda>m. mb_personId m = person) (tp_memberships t)))"

lemma person_total_sum: "person_total als = sum_list (map al_percent als)"
proof -
  have "foldl (\<lambda>s al. s + al_percent al) z als = z + sum_list (map al_percent als)" for z
    by (induction als arbitrary: z) simp_all
  then show ?thesis by (simp add: person_total_def)
qed

lemma allocations_lookup:
  fixes steps :: "(nat \<times> membership) list"
  shows "map al_percent (js_lookup (fold (\<lambda>im al. case counted_allocation dp asOf (snd im) of
        None \<Rightarrow> al
      | Some x \<Rightarrow> AList.update (mb_personId (snd im)) (js_lookup al (mb_personId (snd im)) []
          @ [\<lparr>al_membershipId = be_id (snd im),
              al_path = index_path ''$.memberships'' (fst im) @ ''.allocationPercent'', al_percent = x\<rparr>]) al) steps al) person [])
    = map al_percent (js_lookup al person [])
      @ List.map_filter (counted_allocation dp asOf) (filter (\<lambda>m. mb_personId m = person) (map snd steps))"
  by (induction steps arbitrary: al) (auto simp: js_lookup_update map_filter_simps split: option.split)

lemma clean_allocations:
  assumes "clean (validate_membership_rules h dp opts t)"
  shows "claimed_capacity dp (Option.bind (vo_asOf opts) (timestamp_to_millis dp)) t person \<le> 100"
proof -
  let ?asOf = "Option.bind (vo_asOf opts) (timestamp_to_millis dp)"
  let ?al = "allocations_by_person dp ?asOf (tp_memberships t)"
  have claimed: "claimed_capacity dp ?asOf t person = person_total (js_lookup ?al person [])"
    using allocations_lookup[of dp ?asOf "enumerate 0 (tp_memberships t)" "[]" person]
    by (simp add: person_total_sum claimed_capacity_def allocations_by_person_def js_lookup_def)
  show ?thesis
  proof (cases "map_of ?al person")
    case None
    then show ?thesis unfolding claimed by (simp add: js_lookup_def person_total_def)
  next
    case (Some als)
    have "clean (allocation_issue h person als)"
      using assms map_of_SomeD[OF Some] by (fastforce simp: validate_membership_rules_def clean_def)
    then have "person_total als \<le> 100"
      by (auto simp: allocation_issue_def severe_def split: if_splits list.splits)
    then show ?thesis unfolding claimed using Some by (simp add: js_lookup_def)
  qed
qed

text \<open>C13: In a topology with the verdict executable on which the enterprise rules ran, the parent relation of
  organisation units and the reporting relation of positions are acyclic, and the loop that compares two
  units walks the parents correctly: a unit is the same as or an ancestor of another exactly when a
  chain of parents leads to it.\<close>

theorem executable_hierarchies:
  assumes "vr_executable (validate_topology h dp opts t)" "\<not> is_executor_projection t"
  shows "acyclic (unit_parent t) \<and> acyclic (reports_to t)
    \<and> (is_same_or_ancestor_org_unit t a u \<longleftrightarrow> (u, a) \<in> (unit_parent t)\<^sup>*)"
proof -
  have "vr_executable (validate_topology_internal h dp opts RM_auto t)" "enterprise_rules_apply RM_auto t"
    using assms by (simp_all add: validate_topology_def enterprise_rules_apply_def)
  note r = executable_rules[OF this]
  note sound = r(1)
  have unit: "acyclic (unit_parent t)" using clean_unit_hierarchy[OF sound r(2)] .
  have known: "map_of (unit_parents t) p \<noteq> None" if parent: "map_of (unit_parents t) j = Some (Some p)" for j p
  proof -
    obtain u where "u \<in> set (tp_orgUnits t)" "un_parentOrgUnitId u = Some p"
      using index_by_Some[OF parent[unfolded unit_parents_def]] by blast
    then have "p \<in> entity_ids t ET_org_unit" using sound_refs[OF sound] parent_refs by blast
    then show ?thesis by (simp add: unit_parents_def index_by_None entity_ids_simps)
  qed
  have "ancestor_loop (unit_parents t) a [] u \<longleftrightarrow> (u, a) \<in> (unit_parent t)\<^sup>+"
    using ancestor_loop_iff[of "unit_parents t" "[]" u a] unit known sound_climbs[OF sound] by simp
  then show ?thesis
    using unit clean_position_reporting[OF sound r(3)] by (auto simp: is_same_or_ancestor_org_unit_def rtrancl_eq_or_trancl)
qed

lemma membership_clean:
  assumes "clean (membership_issues dp m path)"
  shows "membership_from dp m = Some f \<Longrightarrow> membership_to dp m = Some x \<Longrightarrow> f \<le> x"
    "mb_allocationPercent m = Some v \<Longrightarrow> \<exists>x. v = Fin x \<and> 0 < x \<and> x \<le> 100"
proof -
  show "membership_from dp m = Some f \<Longrightarrow> membership_to dp m = Some x \<Longrightarrow> f \<le> x"
    using assms by (simp add: membership_issues_def severe_def split: if_splits)
  show "mb_allocationPercent m = Some v \<Longrightarrow> \<exists>x. v = Fin x \<and> 0 < x \<and> x \<le> 100"
    using assms by (cases v) (simp_all add: membership_issues_def severe_def split: if_splits)
qed

text \<open>C14: In a topology with the verdict executable on which the enterprise rules ran, no person is allocated more
  than 100 percent by the memberships that hold at the given time (by all of them when no time is given),
  every allocation is above 0 and at most 100, and no membership ends before it begins.\<close>

theorem executable_memberships:
  assumes "vr_executable (validate_topology h dp opts t)" "\<not> is_executor_projection t"
  shows "claimed_capacity dp (Option.bind (vo_asOf opts) (timestamp_to_millis dp)) t person \<le> 100
    \<and> (\<forall>m \<in> set (tp_memberships t).
        (\<forall>f x. membership_from dp m = Some f \<and> membership_to dp m = Some x \<longrightarrow> f \<le> x)
        \<and> (\<forall>v. mb_allocationPercent m = Some v \<longrightarrow> (\<exists>x. v = Fin x \<and> 0 < x \<and> x \<le> 100)))"
proof -
  have "vr_executable (validate_topology_internal h dp opts RM_auto t)" "enterprise_rules_apply RM_auto t"
    using assms by (simp_all add: validate_topology_def enterprise_rules_apply_def)
  note rules = executable_rules[OF this]
  have "(\<forall>f x. membership_from dp m = Some f \<and> membership_to dp m = Some x \<longrightarrow> f \<le> x)
        \<and> (\<forall>v. mb_allocationPercent m = Some v \<longrightarrow> (\<exists>x. v = Fin x \<and> 0 < x \<and> x \<le> 100))"
    if m: "m \<in> set (tp_memberships t)" for m
  proof -
    obtain path where "clean (membership_issues dp m path)"
      using rules(4) m unfolding validate_membership_rules_def clean_simps(3) by (blast elim: clean_each_entity_member)
    then show ?thesis using membership_clean by blast
  qed
  then show ?thesis using clean_allocations[OF rules(4)] by blast
qed

section \<open>Compilation\<close>

text \<open>\<open>compileTopology\<close>: the issues that block, or the snapshot.\<close>

definition compile_topology :: "host \<Rightarrow> (string \<Rightarrow> jsnum) \<Rightarrow> validator_options \<Rightarrow> string \<Rightarrow> enterprise_topology
    \<Rightarrow> topology_issue list + compiled_topology" where
  "compile_topology h date_parse opts snapshotId t =
    (let validation = validate_topology h date_parse opts t in
     if \<not> vr_executable validation then Inl (filter (\<lambda>i. ts_severity i \<in> {SV_blocked, SV_invalid}) (vr_issues validation))
     else Inr (compiled_snapshot snapshotId t))"

lemma compiled_edges:
  "delegation_rel (dg_edges (build_delegation_graph t)) \<subseteq> delegates_to t"
proof -
  let ?empty = "index_by be_id (\<lambda>_. []) (tp_nodes t) :: (string, string list) jsmap"
  let ?g0 = "\<lparr>dg_edges = ?empty, dg_parents = ?empty, dg_relationIdsByPair = []\<rparr>"
  let ?children = "\<lambda>ns g. fold (\<lambda>n g. fold (\<lambda>c g. add_delegation_edge g (be_id n) c None) (nc_children n) g) ns g"
  have children: "set (js_lookup (dg_edges (?children ns g)) a []) =
      set (js_lookup (dg_edges g) a []) \<union> {c. \<exists>n \<in> set ns. be_id n = a \<and> c \<in> set (nc_children n)}" for ns g a
  proof (induction ns arbitrary: g)
    case (Cons n ns)
    show ?case
      using Cons fold_edges[of "\<lambda>_. be_id n" "\<lambda>c. c" "\<lambda>_. None" "nc_children n" g a] by auto
  qed simp
  have base: "js_lookup ?empty a [] = []" for a by (rule js_lookup_index_const)
  have "b \<in> set (js_lookup (dg_edges (build_delegation_graph t)) a []) \<Longrightarrow> (a, b) \<in> delegates_to t" for a b
    unfolding build_delegation_graph_def Let_def fold_edges
    by (auto simp: children base delegates_to_def is_delegation_relation_def entity_ref_cases split: if_splits)
  then show ?thesis by auto
qed

lemma finite_delegates: "finite (delegates_to t)"
proof -
  have "delegates_to t = (\<lambda>e. (de_from e, de_to e)) ` set (delegation_edges t)" by (simp only: delegation_edges_pairs)
  then show ?thesis by simp
qed

lemma source_of:
  assumes "finite R" "acyclic R"
  shows "\<exists>r. (r, n) \<in> R\<^sup>* \<and> (\<forall>x. (x, r) \<notin> R)"
proof -
  have "wf R" using assms by (rule finite_acyclic_wf)
  then obtain r where "r \<in> {x. (x, n) \<in> R\<^sup>*}" "\<And>y. (y, r) \<in> R \<Longrightarrow> y \<notin> {x. (x, n) \<in> R\<^sup>*}"
    by (rule wfE_min[of R n "{x. (x, n) \<in> R\<^sup>*}"]) auto
  then show ?thesis by (metis (mono_tags) converse_rtrancl_into_rtrancl mem_Collect_eq)
qed

lemma graph_edges_distinct: "distinct (map fst (dg_edges (build_delegation_graph t)))"
proof -
  define P where "P g \<longleftrightarrow> distinct (map fst (dg_edges g))" for g :: delegation_graph
  have step: "P g \<Longrightarrow> P (add_delegation_edge g a c r)" for g a c r
    by (simp add: P_def add_delegation_edge_def push_unique_def distinct_update)
  have many: "P g \<Longrightarrow> P (fold (\<lambda>x g. add_delegation_edge g (p x) (c x) (r x)) xs g)" for g p c r and xs :: "'z list"
    by (induction xs arbitrary: g) (simp_all add: step)
  have children: "P g \<Longrightarrow> P (fold (\<lambda>n g. fold (\<lambda>c g. add_delegation_edge g (be_id n) c None) (nc_children n) g) ns g)"
    for g and ns :: "node_contract list"
    by (induction ns arbitrary: g) (simp_all add: many)
  note distinct_index_by [of be_id "\<lambda>_. [] :: string list" "tp_nodes t"]
  then have "P \<lparr>dg_edges = index_by be_id (\<lambda>_. []) (tp_nodes t), dg_parents = ps, dg_relationIdsByPair = []\<rparr>" for ps
    by (simp add: P_def)
  then have "P (build_delegation_graph t)" unfolding build_delegation_graph_def Let_def by (auto intro: many children)
  then show ?thesis by (simp add: P_def)
qed

lemma root_iff:
  "r \<in> set (dt_rootNodeIds (build_compiled_delegation_tree t (build_delegation_graph t))) \<longleftrightarrow>
    r \<in> be_id ` set (tp_nodes t) \<and> (\<forall>x. (x, r) \<notin> delegation_rel (dg_edges (build_delegation_graph t)))"
proof -
  let ?edges = "dg_edges (build_delegation_graph t)"
  have "r \<in> set (concat (map snd ?edges)) \<longleftrightarrow> (\<exists>x. (x, r) \<in> delegation_rel ?edges)"
  proof
    assume "r \<in> set (concat (map snd ?edges))"
    then obtain x cs where "(x, cs) \<in> set ?edges" "r \<in> set cs" by auto
    then have "map_of ?edges x = Some cs" using graph_edges_distinct by (intro map_of_is_SomeI)
    then have "(x, r) \<in> delegation_rel ?edges" using \<open>r \<in> set cs\<close> by (simp add: js_lookup_def)
    then show "\<exists>x. (x, r) \<in> delegation_rel ?edges" by blast
  next
    assume "\<exists>x. (x, r) \<in> delegation_rel ?edges"
    then obtain x where "r \<in> set (js_lookup ?edges x [])" by blast
    then show "r \<in> set (concat (map snd ?edges))"
      by (cases "map_of ?edges x") (auto simp: js_lookup_def dest!: map_of_SomeD intro: rev_bexI)
  qed
  then show ?thesis by (auto simp: build_compiled_delegation_tree_def Let_def)
qed

lemma exit_iff:
  "r \<in> set (dt_exitNodeIds (build_compiled_delegation_tree t (build_delegation_graph t))) \<longleftrightarrow>
    r \<in> be_id ` set (tp_nodes t) \<and> (\<forall>x. (r, x) \<notin> delegation_rel (dg_edges (build_delegation_graph t)))"
  by (auto simp: build_compiled_delegation_tree_def Let_def)

lemma compiled_shape:
  assumes sound: "structurally_sound m t" and n: "n \<in> be_id ` set (tp_nodes t)"
    and tree: "tree = build_compiled_delegation_tree t (build_delegation_graph t)"
    and E: "E = delegation_rel (dt_edges tree)"
  shows "(n, n) \<notin> E\<^sup>+" "{x. (n, x) \<in> E\<^sup>+} \<subseteq> be_id ` set (tp_nodes t)"
    "\<exists>r \<in> set (dt_rootNodeIds tree). (r, n) \<in> E\<^sup>*"
    "\<exists>x \<in> set (dt_exitNodeIds tree). (n, x) \<in> E\<^sup>*"
proof -
  have refs: "\<forall>p \<in> set (topology_refs t). snd p \<in> entity_ids t (fst p)" using sound by (simp add: structurally_sound_def)
  have graph: "E = delegation_rel (dg_edges (build_delegation_graph t))"
    by (simp add: E tree build_compiled_delegation_tree_def Let_def)
  have sub: "E \<subseteq> delegates_to t" unfolding graph by (rule compiled_edges)
  have targets: "b \<in> be_id ` set (tp_nodes t)" if "(a, b) \<in> E" for a b
    using sub that delegation_targets_referenced sound_refs[OF sound] unfolding entity_ids_simps(1)[symmetric] by blast
  have sources: "a \<in> be_id ` set (tp_nodes t)" if "(a, b) \<in> E" for a b
    using sub that delegation_sources_known[OF _ refs] by blast
  have "acyclic (delegates_to t)" using sound by (simp add: structurally_sound_def)
  then have acyc: "acyclic E" using sub by (rule acyclic_subset)
  have fin: "finite E" using finite_delegates sub by (rule rev_finite_subset)
  show "(n, n) \<notin> E\<^sup>+" using acyc by (simp add: acyclic_def)
  show "{x. (n, x) \<in> E\<^sup>+} \<subseteq> be_id ` set (tp_nodes t)" using targets by (auto dest: tranclD2)
  obtain r where r: "(r, n) \<in> E\<^sup>*" "\<forall>x. (x, r) \<notin> E" using source_of[OF fin acyc] by blast
  moreover have "r \<in> be_id ` set (tp_nodes t)" using r(1) n by (cases rule: converse_rtranclE) (auto intro: sources)
  ultimately show "\<exists>r \<in> set (dt_rootNodeIds tree). (r, n) \<in> E\<^sup>*" unfolding tree graph root_iff[symmetric] using root_iff graph by blast
  have "finite (E\<inverse>)" "acyclic (E\<inverse>)" using fin acyc by simp_all
  from source_of[OF this] obtain x where x: "(n, x) \<in> E\<^sup>*" "\<forall>y. (x, y) \<notin> E" by (auto simp: rtrancl_converse)
  moreover have "x \<in> be_id ` set (tp_nodes t)" using x(1) n by (cases rule: rtranclE) (auto intro: targets)
  ultimately show "\<exists>x \<in> set (dt_exitNodeIds tree). (n, x) \<in> E\<^sup>*" using tree graph exit_iff by blast
qed

text \<open>C15: Compiling a topology either returns the issues that block it or a snapshot whose delegation tree is
  well formed: no node is its own descendant, all descendants are nodes of the topology, and every node has a
  root above it and an exit node below it, itself included.\<close>

theorem compiled_tree_rooted:
  assumes "compile_topology h dp opts sid t = Inr s" "n \<in> be_id ` set (tp_nodes t)"
  shows "let tree = cs_parentChildTree s; below = \<lambda>v. set (fst (collect_descendants v (dt_edges tree))) in
    n \<notin> below n \<and> below n \<subseteq> be_id ` set (tp_nodes t)
    \<and> (\<exists>r \<in> set (dt_rootNodeIds tree). r = n \<or> n \<in> below r)
    \<and> (\<exists>x \<in> set (dt_exitNodeIds tree). x = n \<or> x \<in> below n)"
proof -
  have s: "s = compiled_snapshot sid t" and exec: "vr_executable (validate_topology h dp opts t)"
    using assms(1) by (simp_all add: compile_topology_def Let_def split: if_splits)
  have sound: "structurally_sound (opt_or (vo_maxDelegationDepth opts) (Fin 8)) t"
    using exec unfolding validate_topology_def verdict_iff by blast
  have tree: "cs_parentChildTree s = build_compiled_delegation_tree t (build_delegation_graph t)"
    by (simp add: s compiled_snapshot_def Let_def)
  have below: "set (fst (collect_descendants v E)) = {x. (v, x) \<in> (delegation_rel E)\<^sup>+}" for v E
    by (simp add: collect_descendants_explore bfs.explore_succs_eq)
  show ?thesis
    using compiled_shape[OF sound assms(2) tree refl] unfolding Let_def below
    by (auto simp: rtrancl_eq_or_trancl)
qed

section \<open>Samples\<close>

definition policy_node :: "string \<Rightarrow> string list \<Rightarrow> string list \<Rightarrow> string list \<Rightarrow> node_contract" where
  "policy_node i children tools systems = (sample_node i children tools systems)
     \<lparr>nc_failurePolicy := Some \<lparr>fp_failureReportRequired = True, fp_allowPartialSuccess = False, fp_fallbackNodeIds = []\<rparr>,
      nc_recoveryPolicy := Some \<lparr>rp_retryAllowed = True, rp_redelegationAllowed = False, rp_fallbackAllowed = False,
        rp_partialSuccessAllowed = False\<rparr>\<rparr>"

definition sample_unit :: "string \<Rightarrow> string option \<Rightarrow> org_unit" where
  "sample_unit i parent = \<lparr>be_id = i, be_name = i, be_displayName = None, be_status = ES_active,
     be_createdAt = TNum (Fin 0), be_updatedAt = TNum (Fin 0), be_metadata = JUndef,
     un_parentOrgUnitId = parent, un_positionIds = [], un_personIds = [], un_budget = JUndef, un_kpiIds = [],
     un_authorityScope = JUndef, un_responsibilityArea = None\<rparr>"

definition sample_position :: "string \<Rightarrow> string \<Rightarrow> string option \<Rightarrow> position" where
  "sample_position i unit manager = \<lparr>be_id = i, be_name = i, be_displayName = None, be_status = ES_active,
     be_createdAt = TNum (Fin 0), be_updatedAt = TNum (Fin 0), be_metadata = JUndef,
     po_orgUnitId = unit, po_reportsToPositionId = manager, po_personIds = [], po_approvalLimit = None,
     po_responsibilityIds = [], po_backupPositionId = None\<rparr>"

definition sample_person :: "string \<Rightarrow> person" where
  "sample_person i = \<lparr>be_id = i, be_name = i, be_displayName = None, be_status = ES_active,
     be_createdAt = TNum (Fin 0), be_updatedAt = TNum (Fin 0), be_metadata = JUndef,
     pe_positionIds = [], pe_orgUnitIds = [], pe_availability = None\<rparr>"

definition sample_membership :: "string \<Rightarrow> string \<Rightarrow> rat \<Rightarrow> membership" where
  "sample_membership i p percent = \<lparr>be_id = i, be_name = i, be_displayName = None, be_status = ES_active,
     be_createdAt = TNum (Fin 0), be_updatedAt = TNum (Fin 0), be_metadata = JUndef,
     mb_personId = p, mb_positionId = None, mb_orgUnitId = None, mb_teamId = None,
     mb_validFrom = Some (TNum (Fin 1)), mb_validTo = Some (TNum (Fin 2)), mb_allocationPercent = Some (Fin percent)\<rparr>"

definition ref_to :: "entity_type \<Rightarrow> string \<Rightarrow> entity_ref" where
  "ref_to ty i = \<lparr>er_entityType = ty, er_id = i\<rparr>"

text \<open>Node a delegates to b, uses the write tool t over the critical system y and has access to its data domain d;
  position p approves the tool.\<close>

definition enterprise_sample :: enterprise_topology where
  "enterprise_sample = sample_topology\<lparr>
     tp_nodes := [policy_node ''a'' [''b''] [''t''] [''y''], policy_node ''b'' [] [] []],
     tp_orgUnits := [sample_unit ''u'' None, sample_unit ''v'' (Some ''u'')],
     tp_positions := [sample_position ''p'' ''u'' None, sample_position ''q'' ''v'' (Some ''p'')],
     tp_persons := [sample_person ''h''],
     tp_memberships := [sample_membership ''m1'' ''h'' 60, sample_membership ''m2'' ''h'' 40],
     tp_systems := map (\<lambda>y. y\<lparr>sy_criticality := RL_critical\<rparr>) (tp_systems sample_topology),
     tp_relations := [sample_relation ''r1'' RT_uses_tool (ref_to ET_node ''a'') (ref_to ET_enterprise_tool ''t''),
       sample_relation ''r2'' RT_approves (ref_to ET_position ''p'') (ref_to ET_enterprise_tool ''t''),
       (sample_relation ''r3'' RT_has_access_to (ref_to ET_node ''a'') (ref_to ET_enterprise_system ''y''))
         \<lparr>rel_scope := JObj [(''dataDomainIds'', JArr [JStr ''d''])]\<rparr>]\<rparr>"

definition projected_sample :: enterprise_topology where
  "projected_sample = sample_topology\<lparr>be_metadata := JObj [(''executorTopologyV2'',
     JObj [(''schemaVersion'', JNum (Fin 2)), (''sourceOfTruth'', JStr ''executor_topology_v2'')])],
     tp_nodes := [sample_node ''a'' [''b''] [] [], sample_node ''b'' [] [] []], tp_relations := []\<rparr>"

lemma enterprise_sample_executable:
  "vr_executable (validate_topology h dp \<lparr>vo_maxDelegationDepth = None, vo_asOf = None\<rparr> enterprise_sample)"
  by code_simp

lemma projected_sample_executable:
  "vr_executable (validate_topology h dp \<lparr>vo_maxDelegationDepth = None, vo_asOf = None\<rparr> projected_sample)"
  by code_simp

lemma sample_modes: "is_executor_projection projected_sample" "\<not> is_executor_projection enterprise_sample"
  by code_simp+

theorem executor_topology_executable_iff_witness:
  "is_executor_projection projected_sample \<and> distinct (map ix_id (topology_entities projected_sample))
   \<and> acyclic (delegates_to projected_sample)"
  using executor_topology_executable_iff[OF sample_modes(1)] projected_sample_executable sample_modes(1) by blast

theorem executable_node_access_witness:
  "''t'' \<in> set (nc_allowedToolIds (policy_node ''a'' [''b''] [''t''] [''y''])) \<and> (approved enterprise_sample (tool_ref ''t'') \<or> approved enterprise_sample (node_ref ''a''))
   \<and> tool_requires_approval TT_write"
proof -
  let ?n = "policy_node ''a'' [''b''] [''t''] [''y'']"
  let ?r = "sample_relation ''r1'' RT_uses_tool (ref_to ET_node ''a'') (ref_to ET_enterprise_tool ''t'')"
  obtain x where x: "x \<in> set (tp_tools enterprise_sample)" "be_id x = ''t''" "tl_toolType x = TT_write"
    by (simp add: enterprise_sample_def sample_topology_def)
  have "?n \<in> set (tp_nodes enterprise_sample)" "?r \<in> set (tp_relations enterprise_sample)"
    "rel_from ?r = node_ref (be_id ?n)" "rel_relationType ?r = RT_uses_tool" "rel_to ?r = tool_ref (be_id x)"
    "be_id ?n = ''a''"
    by (simp_all add: enterprise_sample_def sample_relation_def policy_node_def sample_node_def node_ref_def tool_ref_def ref_to_def x)
  note access = executable_node_access[OF enterprise_sample_executable sample_modes(2) this(1-3)] this(4-6)
  have "tool_requires_approval (tl_toolType x)" using x(3) by (simp add: tool_requires_approval_def)
  then show ?thesis using access x by (auto simp: tool_requires_approval_def policy_node_def sample_node_def)
qed

theorem executable_hierarchies_witness:
  "acyclic (unit_parent enterprise_sample) \<and> acyclic (reports_to enterprise_sample)
   \<and> (is_same_or_ancestor_org_unit enterprise_sample ''u'' ''v'' \<longleftrightarrow> (''v'', ''u'') \<in> (unit_parent enterprise_sample)\<^sup>*)"
  using executable_hierarchies[OF enterprise_sample_executable sample_modes(2)] by blast

theorem executable_memberships_witness:
  "claimed_capacity (\<lambda>_. NaN) None enterprise_sample ''h'' \<le> 100
   \<and> claimed_capacity (\<lambda>_. NaN) None enterprise_sample ''h'' = 100"
  using executable_memberships[OF enterprise_sample_executable sample_modes(2), of "\<lambda>_. NaN" "''h''"]
  by (simp add: claimed_capacity_def enterprise_sample_def sample_membership_def counted_allocation_def map_filter_simps)

theorem compiled_tree_rooted_witness:
  "\<forall>h. \<exists>s. compile_topology h (\<lambda>_. NaN) \<lparr>vo_maxDelegationDepth = None, vo_asOf = None\<rparr> ''s'' enterprise_sample = Inr s
     \<and> ''a'' \<notin> set (fst (collect_descendants ''a'' (dt_edges (cs_parentChildTree s))))"
proof
  fix h
  obtain s where s: "compile_topology h (\<lambda>_. NaN) \<lparr>vo_maxDelegationDepth = None, vo_asOf = None\<rparr> ''s'' enterprise_sample = Inr s"
    by (simp add: compile_topology_def enterprise_sample_executable)
  have "''a'' \<in> be_id ` set (tp_nodes enterprise_sample)"
    by (simp add: enterprise_sample_def policy_node_def sample_node_def)
  then show "\<exists>s. compile_topology h (\<lambda>_. NaN) \<lparr>vo_maxDelegationDepth = None, vo_asOf = None\<rparr> ''s'' enterprise_sample = Inr s
     \<and> ''a'' \<notin> set (fst (collect_descendants ''a'' (dt_edges (cs_parentChildTree s))))"
    using compiled_tree_rooted[OF s] s by (auto simp: Let_def)
qed

end
