(* ===== verification/Orchestration_Planner.thy ===== *)
theory Orchestration_Planner
  imports Hierarchy Session_Groups "HOL-Library.List_Lexorder" "HOL-Library.Char_ord"
begin

text \<open>
  \<open>orchestration/planner.ts\<close>: the scores of the candidates, the fallback plans, and the plan that turns a
  validated execution decision into delegated tasks with their locks, dependencies, approvals and parallel
  group. The registry, which the caller loads, and the id of the plan are arguments. Records hold the
  fields the planner reads; loads and failure rates are finite numbers. The Korean texts are the values
  of a lookup \<open>tx\<close>, named after what they say.
\<close>

section \<open>Registry\<close>

datatype entry_origin = EO_db | EO_config | EO_topology

datatype model_availability = MA_available | MA_degraded | MA_unavailable

record agent_load =
  ld_activeSubSessions :: rat
  ld_maxParallelSessions :: rat
  ld_utilization :: rat

record skill_summary =
  ss_enabledSkillIds :: "string list"
  ss_enabledMcpServerIds :: "string list"
  ss_enabledToolNames :: "string list"

record registry_agent =
  ae_agentId :: string
  ae_displayName :: string
  ae_nickname :: "string option"
  ae_status :: agent_status
  ae_role :: string
  ae_specialtyTags :: "string list"
  ae_teamIds :: "string list"
  ae_delegationEnabled :: bool
  ae_source :: entry_origin
  ae_permissionProfile :: permission_profile
  ae_skillMcpSummary :: skill_summary
  ae_capabilityAvailability :: model_availability
  ae_modelAvailability :: model_availability
  ae_currentLoad :: agent_load
  ae_failureRate :: rat

datatype team_health = TH_healthy | TH_degraded | TH_invalid

fun team_health_text :: "team_health \<Rightarrow> string" where
  "team_health_text TH_healthy = ''healthy''"
| "team_health_text TH_degraded = ''degraded''"
| "team_health_text TH_invalid = ''invalid''"

record registry_team =
  te_teamId :: string
  te_displayName :: string
  te_ownerAgentId :: string
  te_leadAgentId :: "string option"
  te_activeMemberAgentIds :: "string list"
  te_coverageActiveMemberAgentIds :: "string list option"
  te_healthStatus :: "team_health option"

record registry_hierarchy =
  rh_rootAgentId :: string
  rh_directChildrenByParent :: "(string, string list) jsmap"

record excluded_candidate =
  xc_agentId :: string
  xc_reasonCodes :: "string list"

record capability_index =
  ci_directChildAgentIdsByParent :: "(string, string list) jsmap"
  ci_excludedCandidatesByParent :: "(string, excluded_candidate list) jsmap"

record membership_edge =
  me_teamId :: string
  me_agentId :: string
  me_active :: bool

record agent_registry =
  rg_agents :: "registry_agent list"
  rg_teams :: "registry_team list"
  rg_hierarchy :: "registry_hierarchy option"
  rg_capabilityIndex :: "capability_index option"
  rg_membershipEdges :: "membership_edge list"

section \<open>Input\<close>

record planner_intent =
  pn_explicitAgentId :: "string option"
  pn_explicitTeamId :: "string option"
  pn_requiredRoles :: "string list"
  pn_specialtyTags :: "string list"
  pn_requiredCapabilities :: "string list"
  pn_requiredSkillIds :: "string list"
  pn_requiredMcpServerIds :: "string list"
  pn_requiredToolNames :: "string list"
  pn_requiredRisk :: "capability_risk option"

record learning_hint =
  lh_hintId :: "string option"
  lh_suggestedAgentId :: "string option"
  lh_suggestedTeamId :: "string option"
  lh_confidence :: "jsnum option"
  lh_evidenceRefs :: "string list"

datatype execution_route = ER_self_solve | ER_direct_current_agent | ER_delegate_to_child | ER_return_to_parent
  | ER_root_nobie_direct | ER_explicit_provider | ER_explicit_provider_target | ER_boundary_failure
  | ER_nobie_direct | ER_ask_parent | ER_ask_user | ER_sub_agent | ER_yeonjang

fun execution_route_text :: "execution_route \<Rightarrow> string" where
  "execution_route_text ER_self_solve = ''self_solve''"
| "execution_route_text ER_direct_current_agent = ''direct_current_agent''"
| "execution_route_text ER_delegate_to_child = ''delegate_to_child''"
| "execution_route_text ER_return_to_parent = ''return_to_parent''"
| "execution_route_text ER_root_nobie_direct = ''root_nobie_direct''"
| "execution_route_text ER_explicit_provider = ''explicit_provider''"
| "execution_route_text ER_explicit_provider_target = ''explicit_provider_target''"
| "execution_route_text ER_boundary_failure = ''boundary_failure''"
| "execution_route_text ER_nobie_direct = ''nobie_direct''"
| "execution_route_text ER_ask_parent = ''ask_parent''"
| "execution_route_text ER_ask_user = ''ask_user''"
| "execution_route_text ER_sub_agent = ''sub_agent''"
| "execution_route_text ER_yeonjang = ''yeonjang''"

record agent_decision =
  gd_current_executor_id :: string
  gd_parent_executor_id :: "string option"
  gd_execution_route :: execution_route
  gd_selected_executor_id :: "string option"
  gd_unresolved_reason :: "string option"
  gd_reason :: string

datatype orchestration_mode = OM_single_nobie | OM_orchestration

fun orchestration_mode_text :: "orchestration_mode \<Rightarrow> string" where
  "orchestration_mode_text OM_single_nobie = ''single_nobie''"
| "orchestration_mode_text OM_orchestration = ''orchestration''"

record mode_snapshot =
  md_mode :: orchestration_mode
  md_reasonCode :: string

record lock_contract = resource_lock +
  lk_lockId :: string
  lk_reasonCode :: string

record dependency_contract = dependency_edge +
  dp_reasonCode :: string

record planner_input =
  pi_parentRunId :: string
  pi_parentRequestId :: string
  pi_userRequest :: string
  pi_modeSnapshot :: mode_snapshot
  pi_taskScopes :: "task_scope list"
  pi_intent :: planner_intent
  pi_learningHints :: "learning_hint list"
  pi_decision :: "agent_decision option"
  pi_parentAgentId :: "string option"
  pi_resourceLocks :: "lock_contract list"
  pi_resourceLocksByTaskId :: "(string, lock_contract list) jsmap"
  pi_dependencyEdges :: "dependency_contract list"
  pi_timeoutMs :: "rat option"

section \<open>Plans\<close>

datatype execution_kind = EK_direct_nobie | EK_delegated_sub_agent

datatype fallback_mode = FB_self_solve | FB_direct_current_agent | FB_return_to_parent | FB_ask_parent | FB_ask_user
  | FB_fail_with_reason | FB_root_nobie_direct | FB_explicit_provider | FB_single_nobie

record planning_trace =
  pt_score :: "int option"
  pt_fromDecision :: bool
  pt_selectedExecutorId :: "string option"
  pt_reasonCodes :: "string list"
  pt_explanation :: "string option"

record orchestration_task =
  ot_taskId :: string
  ot_executionKind :: execution_kind
  ot_scope :: task_scope
  ot_assignedAgentId :: "string option"
  ot_assignedTeamId :: "string option"
  ot_requiredCapabilities :: "string list"
  ot_resourceLockIds :: "string list"
  ot_planningTrace :: planning_trace

record candidate_score =
  sc_agentId :: string
  sc_teamIds :: "string list"
  sc_score :: int
  sc_selected :: bool
  sc_reasonCodes :: "string list"
  sc_excludedReasonCodes :: "string list"
  sc_explanation :: string
  sc_approvalRequired :: bool
  sc_approvalRisk :: "capability_risk option"

datatype fast_path = FP_direct_nobie | FP_delegation_candidate | FP_workflow_candidate

record fast_path_result =
  fr_classification :: fast_path
  fr_reasonCodes :: "string list"
  fr_latencyMs :: int
  fr_explanation :: string

datatype plan_severity = PS_info | PS_warning | PS_invalid

record planner_diagnostic =
  pg_code :: string
  pg_severity :: plan_severity
  pg_message :: string
  pg_agentId :: "string option"
  pg_teamId :: "string option"

record approval_requirement =
  aq_approvalId :: string
  aq_taskId :: string
  aq_agentId :: string
  aq_risk :: capability_risk
  aq_reasonCode :: string

record parallel_plan_group =
  pp_groupId :: string
  pp_parentRunId :: string
  pp_resourceLocks :: "lock_contract list"
  pp_concurrencyLimit :: rat

record fallback_strategy =
  fs_mode :: fallback_mode
  fs_reasonCode :: string
  fs_currentExecutorId :: "string option"
  fs_parentExecutorId :: "string option"
  fs_unresolvedReasonCode :: "string option"
  fs_unresolvedReason :: "string option"
  fs_userMessage :: "string option"

datatype planner_status = PT_planned | PT_degraded | PT_requires_team_expansion | PT_requires_workflow_recommendation

record planner_metadata =
  pm_status :: planner_status
  pm_timedOut :: bool
  pm_latencyMs :: int
  pm_fastPath :: fast_path_result
  pm_reasonCodes :: "string list"
  pm_candidateScores :: "candidate_score list"
  pm_fromDecision :: bool
  pm_selectedExecutorId :: "string option"
  pm_rejectedExecutorId :: "string option"
  pm_rejectedReasonCodes :: "string list"
  pm_fallbackMode :: "fallback_mode option"
  pm_directReasonCodes :: "string list"
  pm_fallbackReasonCodes :: "string list"

record orchestration_plan =
  op_identity :: runtime_identity
  op_planId :: string
  op_parentRunId :: string
  op_parentRequestId :: string
  op_directNobieTasks :: "orchestration_task list"
  op_delegatedTasks :: "orchestration_task list"
  op_dependencyEdges :: "dependency_contract list"
  op_resourceLocks :: "lock_contract list"
  op_parallelGroups :: "parallel_plan_group list"
  op_approvalRequirements :: "approval_requirement list"
  op_fallbackStrategy :: fallback_strategy
  op_plannerMetadata :: planner_metadata
  op_createdAt :: int

record plan_result =
  pr_plan :: orchestration_plan
  pr_candidateScores :: "candidate_score list"
  pr_diagnostics :: "planner_diagnostic list"
  pr_fastPath :: fast_path_result
  pr_timedOut :: bool
  pr_reasonCodes :: "string list"

section \<open>Scores\<close>

definition truthy :: "string option \<Rightarrow> bool" where
  "truthy s \<longleftrightarrow> s \<noteq> None \<and> s \<noteq> Some []"

definition has_routing_intent :: "planner_intent \<Rightarrow> bool" where
  "has_routing_intent i \<longleftrightarrow> truthy (pn_explicitAgentId i) \<or> truthy (pn_explicitTeamId i) \<or> pn_requiredRoles i \<noteq> []
     \<or> pn_specialtyTags i \<noteq> [] \<or> pn_requiredCapabilities i \<noteq> [] \<or> pn_requiredSkillIds i \<noteq> []
     \<or> pn_requiredMcpServerIds i \<noteq> [] \<or> pn_requiredToolNames i \<noteq> [] \<or> pn_requiredRisk i \<noteq> None"

text \<open>\<open>classifyFastPath\<close> reads the clock at \<open>k\<close> and \<open>k + 1\<close>.\<close>

definition classify_fast_path :: "host \<Rightarrow> (string \<Rightarrow> string) \<Rightarrow> nat \<Rightarrow> planner_intent \<Rightarrow> fast_path_result" where
  "classify_fast_path h tx k i =
    \<lparr>fr_classification = FP_delegation_candidate,
     fr_reasonCodes = [if has_routing_intent i then ''fast_path_structured_intent_candidate'' else ''fast_path_delegation_candidate''],
     fr_latencyMs = max 0 (h_clock h (k + 1) - h_clock h k),
     fr_explanation = tx ''fast_path''\<rparr>"

definition unique_strings :: "string list \<Rightarrow> string list" where
  "unique_strings xs = sort (uniq (filter (\<lambda>x. x \<noteq> []) (map js_trim xs)))"

definition has_all :: "string list \<Rightarrow> string list \<Rightarrow> bool" where
  "has_all haystack needles \<longleftrightarrow> list_all (\<lambda>x. x \<in> set haystack) needles"

definition count_matches :: "string list \<Rightarrow> string list \<Rightarrow> nat" where
  "count_matches haystack needles = length (filter (\<lambda>x. x \<in> set haystack) needles)"

definition default_expected_output :: expected_output where
  "default_expected_output =
    \<lparr>eo_outputId = ''answer'', eo_kind = OK_text, eo_description = ''User-facing answer or direct execution result.'',
     eo_required = True,
     eo_acceptance = \<lparr>ac_statusField = None, ac_requiredEvidenceKinds = [], ac_artifactRequired = False,
       ac_reasonCodes = [''user_request_satisfied'']\<rparr>\<rparr>"

definition default_task_scope :: "string \<Rightarrow> task_scope" where
  "default_task_scope request =
    \<lparr>sk_goal = (if js_trim request = [] then ''Process the user request.'' else js_trim request),
     sk_intentType = ''user_request'', sk_actionType = ''general'', sk_constraints = [],
     sk_expectedOutputs = [default_expected_output], sk_reasonCodes = [''default_structured_scope'']\<rparr>"

fun risk_order :: "capability_risk \<Rightarrow> nat" where
  "risk_order CR_safe = 0"
| "risk_order CR_moderate = 1"
| "risk_order CR_external = 2"
| "risk_order CR_sensitive = 3"
| "risk_order CR_dangerous = 4"

fun risk_text :: "capability_risk \<Rightarrow> string" where
  "risk_text CR_safe = ''safe''"
| "risk_text CR_moderate = ''moderate''"
| "risk_text CR_external = ''external''"
| "risk_text CR_sensitive = ''sensitive''"
| "risk_text CR_dangerous = ''dangerous''"

definition risk_allows :: "registry_agent \<Rightarrow> capability_risk \<Rightarrow> bool" where
  "risk_allows a r \<longleftrightarrow> risk_order r \<le> risk_order (pp_riskCeiling (ae_permissionProfile a))"

definition risk_needs_approval :: "registry_agent \<Rightarrow> capability_risk \<Rightarrow> bool" where
  "risk_needs_approval a r \<longleftrightarrow> risk_order (pp_approvalRequiredFrom (ae_permissionProfile a)) \<le> risk_order r"

definition effective_team_ids :: "agent_registry \<Rightarrow> registry_agent \<Rightarrow> string list" where
  "effective_team_ids rg a =
    unique_strings (ae_teamIds a
      @ map me_teamId (filter (\<lambda>e. me_active e \<and> me_agentId e = ae_agentId a) (rg_membershipEdges rg))
      @ map te_teamId (filter (\<lambda>t. te_ownerAgentId t = ae_agentId a \<or> te_leadAgentId t = Some (ae_agentId a)) (rg_teams rg)))"

definition planner_parent :: "planner_input \<Rightarrow> agent_registry \<Rightarrow> string" where
  "planner_parent i rg =
    (case pi_parentAgentId i of Some p \<Rightarrow> p
     | None \<Rightarrow> (case rg_hierarchy rg of Some t \<Rightarrow> rh_rootAgentId t | None \<Rightarrow> ''agent:nobie''))"

definition planner_children :: "agent_registry \<Rightarrow> string \<Rightarrow> string list option" where
  "planner_children rg parent =
    (case Option.bind (rg_capabilityIndex rg) (\<lambda>c. map_of (ci_directChildAgentIdsByParent c) parent) of
       Some xs \<Rightarrow> Some xs
     | None \<Rightarrow>
         (case rg_hierarchy rg of
            None \<Rightarrow> None
          | Some t \<Rightarrow>
              (case map_of (rh_directChildrenByParent t) parent of
                 Some xs \<Rightarrow> Some xs
               | None \<Rightarrow> if parent \<noteq> rh_rootAgentId t then Some [] else None)))"

definition index_excluded_reasons :: "agent_registry \<Rightarrow> string \<Rightarrow> string \<Rightarrow> string list" where
  "index_excluded_reasons rg parent i =
    (case rg_capabilityIndex rg of
       None \<Rightarrow> []
     | Some c \<Rightarrow>
         (case find (\<lambda>x. xc_agentId x = i) (js_lookup (ci_excludedCandidatesByParent c) parent []) of
            None \<Rightarrow> [] | Some x \<Rightarrow> xc_reasonCodes x))"

definition hint_issues :: "agent_registry \<Rightarrow> string list option \<Rightarrow> learning_hint \<Rightarrow> string list" where
  "hint_issues rg children x =
    (if (case lh_confidence x of Some (Fin c) \<Rightarrow> c | _ \<Rightarrow> 0) < 85 / 100 then [''learning_hint_confidence_below_auto_threshold''] else [])
    @ (if filter (\<lambda>r. js_trim r \<noteq> []) (lh_evidenceRefs x) = [] then [''learning_hint_missing_evidence''] else [])
    @ (if truthy (lh_suggestedAgentId x) \<and> the (lh_suggestedAgentId x) \<notin> ae_agentId ` set (rg_agents rg)
       then [''learning_hint_agent_not_found''] else [])
    @ (if truthy (lh_suggestedTeamId x) \<and> the (lh_suggestedTeamId x) \<notin> te_teamId ` set (rg_teams rg)
       then [''learning_hint_team_not_found''] else [])
    @ (if truthy (lh_suggestedAgentId x) \<and> (case children of None \<Rightarrow> False | Some cs \<Rightarrow> the (lh_suggestedAgentId x) \<notin> set cs)
       then [''learning_hint_agent_not_direct_child''] else [])"

definition hint_diagnostic :: "agent_registry \<Rightarrow> string list option \<Rightarrow> nat \<Rightarrow> learning_hint \<Rightarrow> planner_diagnostic" where
  "hint_diagnostic rg children k x =
    (let issues = hint_issues rg children x in
     \<lparr>pg_code = ''learning_hint_ignored'', pg_severity = (if issues \<noteq> [] then PS_invalid else PS_info),
      pg_message = ''Learning hint '' @ opt_or (lh_hintId x) (show_nat k)
        @ '' was advisory only and did not bypass structured planner validation.''
        @ (if issues \<noteq> [] then '' Issues: '' @ join '','' issues @ ''.'' else []),
      pg_agentId = (if truthy (lh_suggestedAgentId x) then lh_suggestedAgentId x else None),
      pg_teamId = (if truthy (lh_suggestedTeamId x) then lh_suggestedTeamId x else None)\<rparr>)"

definition learning_hint_diagnostics :: "agent_registry \<Rightarrow> string list option \<Rightarrow> learning_hint list \<Rightarrow> planner_diagnostic list" where
  "learning_hint_diagnostics rg children hs = map (\<lambda>(k, x). hint_diagnostic rg children k x) (List.enumerate 0 hs)"

definition agent_name :: "registry_agent \<Rightarrow> string" where
  "agent_name a = opt_or (ae_nickname a) (ae_displayName a)"

definition explanation_for_candidate :: "(string \<Rightarrow> string) \<Rightarrow> registry_agent \<Rightarrow> string list \<Rightarrow> string list \<Rightarrow> string" where
  "explanation_for_candidate tx a reasons excluded =
    agent_name a @ (case excluded of
       x # _ \<Rightarrow> tx ''candidate_subject'' @ x @ tx ''candidate_excluded''
     | [] \<Rightarrow>
         if ''explicit_agent_target'' \<in> set reasons then tx ''candidate_explicit_agent''
         else if ''explicit_team_member'' \<in> set reasons then tx ''candidate_explicit_team''
         else if ''specialty_tag_match'' \<in> set reasons then tx ''candidate_specialty''
         else tx ''candidate_available'')"

definition allowed_by_explicit_target :: "registry_agent \<Rightarrow> string list \<Rightarrow> planner_intent \<Rightarrow> bool" where
  "allowed_by_explicit_target a teamIds i =
    (if truthy (pn_explicitAgentId i) then pn_explicitAgentId i = Some (ae_agentId a)
     else if truthy (pn_explicitTeamId i) then the (pn_explicitTeamId i) \<in> set teamIds
     else True)"

definition math_round :: "rat \<Rightarrow> int" where
  "math_round x = \<lfloor>x + 1 / 2\<rfloor>"

definition capability_pool :: "registry_agent \<Rightarrow> string list" where
  "capability_pool a =
    (let s = ae_skillMcpSummary a; p = ae_permissionProfile a in
     [ae_role a] @ ss_enabledSkillIds s @ ss_enabledMcpServerIds s @ ss_enabledToolNames s
     @ [pp_profileId p, risk_text (pp_riskCeiling p)])"

definition excluded_reasons :: "agent_registry \<Rightarrow> planner_intent \<Rightarrow> string \<Rightarrow> string list option \<Rightarrow> registry_agent \<Rightarrow> string list" where
  "excluded_reasons rg i parent children a =
    (let teamIds = effective_team_ids rg a; skills = ae_skillMcpSummary a; load = ae_currentLoad a;
         risk = opt_or (pn_requiredRisk i) CR_safe in
     (if (case children of None \<Rightarrow> False | Some cs \<Rightarrow> ae_agentId a \<notin> set cs) \<and> pn_explicitAgentId i \<noteq> Some (ae_agentId a)
      then [''not_direct_child_candidate''] else [])
     @ (if \<not> allowed_by_explicit_target a teamIds i then [''not_explicit_target''] else [])
     @ (if ae_status a \<noteq> AG_enabled then [''agent_not_enabled'', ''agent_'' @ agent_status_text (ae_status a)] else [])
     @ (if \<not> ae_delegationEnabled a then [''delegation_disabled''] else [])
     @ (if ld_maxParallelSessions load \<le> ld_activeSubSessions load then [''concurrency_limit_reached''] else [])
     @ (if \<not> has_all [ae_role a] (unique_strings (pn_requiredRoles i)) then [''missing_required_role''] else [])
     @ (if \<not> has_all (ss_enabledSkillIds skills) (unique_strings (pn_requiredSkillIds i)) then [''missing_required_skill''] else [])
     @ (if \<not> has_all (ss_enabledMcpServerIds skills) (unique_strings (pn_requiredMcpServerIds i)) then [''missing_required_mcp_server''] else [])
     @ (if \<not> has_all (ss_enabledToolNames skills) (unique_strings (pn_requiredToolNames i)) then [''missing_required_tool''] else [])
     @ (if \<not> risk_allows a risk then [''risk_above_agent_ceiling''] else [])
     @ (if pp_profileId (ae_permissionProfile a) = [] then [''permission_missing''] else [])
     @ (if ae_capabilityAvailability a = MA_unavailable then [''capability_unavailable''] else [])
     @ (if ae_modelAvailability a = MA_unavailable then [''model_unavailable''] else [])
     @ (if parent \<noteq> [] then index_excluded_reasons rg parent (ae_agentId a) else [])
     @ (if \<not> has_all (capability_pool a) (unique_strings (pn_requiredCapabilities i)) then [''missing_required_capability''] else []))"

definition score_reasons :: "agent_registry \<Rightarrow> planner_intent \<Rightarrow> registry_agent \<Rightarrow> string list" where
  "score_reasons rg i a =
    (let skills = ae_skillMcpSummary a; risk = opt_or (pn_requiredRisk i) CR_safe;
         reasons =
           (if pn_explicitAgentId i = Some (ae_agentId a) then [''explicit_agent_target''] else [])
           @ (if truthy (pn_explicitTeamId i) \<and> the (pn_explicitTeamId i) \<in> set (effective_team_ids rg a) then [''explicit_team_member''] else [])
           @ (if 0 < count_matches [ae_role a] (unique_strings (pn_requiredRoles i)) then [''required_role_match''] else [])
           @ (if 0 < count_matches (ae_specialtyTags a) (unique_strings (pn_specialtyTags i)) then [''specialty_tag_match''] else [])
           @ (if 0 < count_matches (ss_enabledSkillIds skills) (unique_strings (pn_requiredSkillIds i)) then [''required_skill_match''] else [])
           @ (if 0 < count_matches (ss_enabledMcpServerIds skills) (unique_strings (pn_requiredMcpServerIds i)) then [''required_mcp_match''] else [])
           @ (if 0 < count_matches (ss_enabledToolNames skills) (unique_strings (pn_requiredToolNames i)) then [''required_tool_match''] else [])
           @ (if ae_source a = EO_topology then [''topology_executor_candidate''] else [])
           @ (if risk_needs_approval a risk \<and> risk_allows a risk then [''approval_required_for_risk''] else [])
           @ (if 0 < ld_utilization (ae_currentLoad a) then [''load_penalty_applied''] else [])
           @ (if 0 < ae_failureRate a then [''failure_rate_penalty_applied''] else [])
     in if reasons = [] then [''structured_candidate_available''] else reasons)"

definition candidate_points :: "agent_registry \<Rightarrow> planner_intent \<Rightarrow> registry_agent \<Rightarrow> int" where
  "candidate_points rg i a =
    (let skills = ae_skillMcpSummary a in
     100 + (if pn_explicitAgentId i = Some (ae_agentId a) then 1000 else 0)
     + (if truthy (pn_explicitTeamId i) \<and> the (pn_explicitTeamId i) \<in> set (effective_team_ids rg a) then 700 else 0)
     + int (count_matches [ae_role a] (unique_strings (pn_requiredRoles i))) * 35
     + int (count_matches (ae_specialtyTags a) (unique_strings (pn_specialtyTags i))) * 30
     + int (count_matches (ss_enabledSkillIds skills) (unique_strings (pn_requiredSkillIds i))) * 25
     + int (count_matches (ss_enabledMcpServerIds skills) (unique_strings (pn_requiredMcpServerIds i))) * 20
     + int (count_matches (ss_enabledToolNames skills) (unique_strings (pn_requiredToolNames i))) * 15
     + (if ae_source a = EO_topology then 15 else 0)
     - math_round (ld_utilization (ae_currentLoad a) * 60)
     - math_round (ae_failureRate a * 100))"

definition score_candidate ::
  "(string \<Rightarrow> string) \<Rightarrow> agent_registry \<Rightarrow> planner_intent \<Rightarrow> string \<Rightarrow> string list option \<Rightarrow> registry_agent \<Rightarrow> candidate_score" where
  "score_candidate tx rg i parent children a =
    (let risk = opt_or (pn_requiredRisk i) CR_safe;
         reasons = unique_strings (score_reasons rg i a);
         excluded = unique_strings (excluded_reasons rg i parent children a);
         approval = risk_needs_approval a risk \<and> risk_allows a risk
     in \<lparr>sc_agentId = ae_agentId a, sc_teamIds = effective_team_ids rg a, sc_score = candidate_points rg i a,
         sc_selected = False, sc_reasonCodes = reasons, sc_excludedReasonCodes = excluded,
         sc_explanation = explanation_for_candidate tx a reasons excluded,
         sc_approvalRequired = approval, sc_approvalRisk = (if approval then Some risk else None)\<rparr>)"

definition compare_scores :: "host \<Rightarrow> candidate_score \<Rightarrow> candidate_score \<Rightarrow> int" where
  "compare_scores h x y =
    (let d = sc_score y - sc_score x in if d \<noteq> 0 then d else h_locale_compare h (sc_agentId x) (sc_agentId y))"

text \<open>Candidates are shared objects that a plan marks: each goes with its position in the registry.\<close>

definition sorted_eligible :: "host \<Rightarrow> candidate_score list \<Rightarrow> (nat \<times> candidate_score) list" where
  "sorted_eligible h cs =
    js_sort (\<lambda>x y. compare_scores h (snd x) (snd y)) (filter (\<lambda>x. sc_excludedReasonCodes (snd x) = []) (List.enumerate 0 cs))"

definition mark_selected :: "nat set \<Rightarrow> candidate_score list \<Rightarrow> candidate_score list" where
  "mark_selected chosen cs = map (\<lambda>(k, c). if k \<in> chosen then c\<lparr>sc_selected := True\<rparr> else c) (List.enumerate 0 cs)"

section \<open>Building blocks\<close>

definition exclusive_lock_conflict :: "lock_contract list \<Rightarrow> lock_contract list \<Rightarrow> bool" where
  "exclusive_lock_conflict xs ys \<longleftrightarrow>
    (\<exists>x \<in> set xs. rk_mode x = LM_exclusive
      \<and> (\<exists>y \<in> set ys. rk_mode y = LM_exclusive \<and> rk_kind y = rk_kind x \<and> rk_target y = rk_target x))"

definition plan_identity :: "string \<Rightarrow> string \<Rightarrow> string \<Rightarrow> runtime_identity" where
  "plan_identity planId runId requestId =
    \<lparr>id_entityType = RE_session, id_entityId = planId,
     id_owner = \<lparr>os_ownerType = OW_nobie, os_ownerId = ''agent:nobie''\<rparr>,
     id_idempotencyKey = ''orchestration-plan:'' @ runId @ '':'' @ requestId,
     id_auditCorrelationId = Some (''orchestration-plan:'' @ planId),
     id_parent = Some \<lparr>pl_parentRunId = Some runId, pl_parentSessionId = None, pl_parentSubSessionId = None,
       pl_parentRequestId = Some requestId\<rparr>\<rparr>"

definition direct_task :: "string \<Rightarrow> string \<Rightarrow> string list \<Rightarrow> string \<Rightarrow> orchestration_task" where
  "direct_task planId request reasons explanation =
    \<lparr>ot_taskId = planId @ '':direct:0'', ot_executionKind = EK_direct_nobie, ot_scope = default_task_scope request,
     ot_assignedAgentId = None, ot_assignedTeamId = None, ot_requiredCapabilities = [], ot_resourceLockIds = [],
     ot_planningTrace = \<lparr>pt_score = None, pt_fromDecision = False, pt_selectedExecutorId = None,
       pt_reasonCodes = reasons, pt_explanation = (if explanation = [] then None else Some explanation)\<rparr>\<rparr>"

definition keep :: "string option \<Rightarrow> string option" where
  "keep s = (if truthy s then s else None)"

section \<open>Fallbacks\<close>

record fallback_input =
  fi_reasonCodes :: "string list"
  fi_fallbackReasonCode :: string
  fi_timedOut :: bool
  fi_status :: planner_status
  fi_fallbackMode :: "fallback_mode option"
  fi_candidateScores :: "candidate_score list"
  fi_diagnostics :: "planner_diagnostic list"
  fi_currentExecutorId :: "string option"
  fi_parentExecutorId :: "string option"
  fi_rejectedExecutorId :: "string option"
  fi_rejectedReasonCodes :: "string list"
  fi_unresolvedReasonCode :: "string option"
  fi_unresolvedReason :: "string option"
  fi_userMessage :: "string option"

definition plain_fallback :: "string list \<Rightarrow> string \<Rightarrow> string \<Rightarrow> fallback_input" where
  "plain_fallback reasons code current =
    \<lparr>fi_reasonCodes = reasons, fi_fallbackReasonCode = code, fi_timedOut = False, fi_status = PT_planned,
     fi_fallbackMode = None, fi_candidateScores = [], fi_diagnostics = [], fi_currentExecutorId = Some current,
     fi_parentExecutorId = None, fi_rejectedExecutorId = None, fi_rejectedReasonCodes = [],
     fi_unresolvedReasonCode = None, fi_unresolvedReason = None, fi_userMessage = None\<rparr>"

definition fallback_mode_of :: "fallback_input \<Rightarrow> fallback_mode" where
  "fallback_mode_of f =
    opt_or (fi_fallbackMode f)
      (if starts_with ''explicit_'' (fi_fallbackReasonCode f) then FB_ask_user else FB_direct_current_agent)"

definition direct_fallback_plan ::
  "(string \<Rightarrow> string) \<Rightarrow> planner_input \<Rightarrow> string \<Rightarrow> int \<Rightarrow> fast_path_result \<Rightarrow> fallback_input \<Rightarrow> plan_result" where
  "direct_fallback_plan tx i planId now fast f =
    \<lparr>pr_plan =
       \<lparr>op_identity = plan_identity planId (pi_parentRunId i) (pi_parentRequestId i), op_planId = planId,
        op_parentRunId = pi_parentRunId i, op_parentRequestId = pi_parentRequestId i,
        op_directNobieTasks = [direct_task planId (pi_userRequest i) (fi_reasonCodes f) (opt_or (fi_userMessage f) (tx ''direct_task''))],
        op_delegatedTasks = [], op_dependencyEdges = [], op_resourceLocks = [], op_parallelGroups = [], op_approvalRequirements = [],
        op_fallbackStrategy = \<lparr>fs_mode = fallback_mode_of f, fs_reasonCode = fi_fallbackReasonCode f,
          fs_currentExecutorId = keep (fi_currentExecutorId f), fs_parentExecutorId = keep (fi_parentExecutorId f),
          fs_unresolvedReasonCode = keep (fi_unresolvedReasonCode f), fs_unresolvedReason = keep (fi_unresolvedReason f),
          fs_userMessage = keep (fi_userMessage f)\<rparr>,
        op_plannerMetadata = \<lparr>pm_status = fi_status f, pm_timedOut = fi_timedOut f, pm_latencyMs = 0, pm_fastPath = fast,
          pm_reasonCodes = fi_reasonCodes f, pm_candidateScores = fi_candidateScores f, pm_fromDecision = False,
          pm_selectedExecutorId = None, pm_rejectedExecutorId = keep (fi_rejectedExecutorId f),
          pm_rejectedReasonCodes = fi_rejectedReasonCodes f, pm_fallbackMode = Some (fallback_mode_of f),
          pm_directReasonCodes = fi_reasonCodes f, pm_fallbackReasonCodes = [fi_fallbackReasonCode f]\<rparr>,
        op_createdAt = now\<rparr>,
     pr_candidateScores = fi_candidateScores f, pr_diagnostics = fi_diagnostics f, pr_fastPath = fast,
     pr_timedOut = fi_timedOut f, pr_reasonCodes = fi_reasonCodes f\<rparr>"

definition non_execution_plan ::
  "planner_input \<Rightarrow> string \<Rightarrow> int \<Rightarrow> fast_path_result \<Rightarrow> string list \<Rightarrow> string \<Rightarrow> planner_status \<Rightarrow> string \<Rightarrow> plan_result" where
  "non_execution_plan i planId now fast reasons code status message =
    \<lparr>pr_plan =
       \<lparr>op_identity = plan_identity planId (pi_parentRunId i) (pi_parentRequestId i), op_planId = planId,
        op_parentRunId = pi_parentRunId i, op_parentRequestId = pi_parentRequestId i,
        op_directNobieTasks = [], op_delegatedTasks = [], op_dependencyEdges = [], op_resourceLocks = [],
        op_parallelGroups = [], op_approvalRequirements = [],
        op_fallbackStrategy = \<lparr>fs_mode = FB_fail_with_reason, fs_reasonCode = code, fs_currentExecutorId = None,
          fs_parentExecutorId = None, fs_unresolvedReasonCode = None, fs_unresolvedReason = None, fs_userMessage = Some message\<rparr>,
        op_plannerMetadata = \<lparr>pm_status = status, pm_timedOut = False, pm_latencyMs = 0, pm_fastPath = fast,
          pm_reasonCodes = reasons, pm_candidateScores = [], pm_fromDecision = False, pm_selectedExecutorId = None,
          pm_rejectedExecutorId = None, pm_rejectedReasonCodes = [], pm_fallbackMode = None, pm_directReasonCodes = [],
          pm_fallbackReasonCodes = [code]\<rparr>,
        op_createdAt = now\<rparr>,
     pr_candidateScores = [], pr_diagnostics = [], pr_fastPath = fast, pr_timedOut = False, pr_reasonCodes = reasons\<rparr>"

definition selected_executor_of_decision :: "agent_decision option \<Rightarrow> string option" where
  "selected_executor_of_decision d =
    (case d of
       None \<Rightarrow> None
     | Some d \<Rightarrow>
         (case gd_selected_executor_id d of
            None \<Rightarrow> None
          | Some x \<Rightarrow>
              if js_trim x = [] then None
              else if gd_execution_route d \<in> {ER_delegate_to_child, ER_sub_agent, ER_yeonjang} then Some x else None))"

fun fallback_mode_for_route :: "execution_route \<Rightarrow> fallback_mode" where
  "fallback_mode_for_route ER_ask_user = FB_ask_user"
| "fallback_mode_for_route ER_ask_parent = FB_ask_parent"
| "fallback_mode_for_route ER_return_to_parent = FB_return_to_parent"
| "fallback_mode_for_route ER_root_nobie_direct = FB_root_nobie_direct"
| "fallback_mode_for_route ER_explicit_provider = FB_ask_user"
| "fallback_mode_for_route ER_explicit_provider_target = FB_ask_user"
| "fallback_mode_for_route ER_boundary_failure = FB_ask_user"
| "fallback_mode_for_route ER_self_solve = FB_self_solve"
| "fallback_mode_for_route _ = FB_direct_current_agent"

text \<open>The plan of a decision that does not delegate.\<close>

definition decision_fallback :: "agent_decision \<Rightarrow> candidate_score list \<Rightarrow> planner_diagnostic list \<Rightarrow> fallback_input" where
  "decision_fallback d scores diagnostics =
    (let route = gd_execution_route d; code = ''execution_decision_'' @ execution_route_text route;
         rejected_root = route = ER_root_nobie_direct \<and> gd_current_executor_id d \<noteq> ''agent:nobie''
     in (plain_fallback [''execution_decision_present'', ''execution_decision_route_'' @ execution_route_text route] code
          (gd_current_executor_id d))
       \<lparr>fi_fallbackMode := Some (if rejected_root then (if truthy (gd_parent_executor_id d) then FB_return_to_parent else FB_ask_user)
          else fallback_mode_for_route route),
        fi_candidateScores := scores, fi_diagnostics := diagnostics,
        fi_parentExecutorId := keep (gd_parent_executor_id d),
        fi_unresolvedReasonCode := Some (if rejected_root then ''root_nobie_direct_rejected_for_non_root_executor'' else code),
        fi_unresolvedReason := keep (gd_unresolved_reason d), fi_userMessage := Some (gd_reason d)\<rparr>)"

text \<open>The plan without a decision that selects an executor.\<close>

definition undecided_fallback ::
  "(string \<Rightarrow> string) \<Rightarrow> planner_intent \<Rightarrow> string \<Rightarrow> candidate_score list \<Rightarrow> planner_diagnostic list \<Rightarrow> fallback_input" where
  "undecided_fallback tx i parent scores diagnostics =
    (plain_fallback [''execution_decision_required'', ''implicit_agent_selection_disabled''] ''execution_decision_required'' parent)
      \<lparr>fi_fallbackMode := Some FB_direct_current_agent, fi_candidateScores := scores, fi_diagnostics := diagnostics,
       fi_rejectedExecutorId := (if truthy (pn_explicitAgentId i) \<or> truthy (pn_explicitTeamId i)
         then (case pn_explicitAgentId i of Some a \<Rightarrow> Some a | None \<Rightarrow> pn_explicitTeamId i) else None),
       fi_rejectedReasonCodes := (if truthy (pn_explicitAgentId i) \<or> truthy (pn_explicitTeamId i)
         then [''explicit_target_requires_execution_decision''] else []),
       fi_unresolvedReasonCode := Some ''execution_decision_missing'', fi_userMessage := Some (tx ''undecided'')\<rparr>"

section \<open>Teams\<close>

definition team_active_members :: "registry_team option \<Rightarrow> string list" where
  "team_active_members t =
    (case t of None \<Rightarrow> [] | Some t \<Rightarrow> opt_or (te_coverageActiveMemberAgentIds t) (te_activeMemberAgentIds t))"

definition team_unavailable :: "registry_team option \<Rightarrow> bool" where
  "team_unavailable t \<longleftrightarrow> t = None \<or> Option.bind t te_healthStatus = Some TH_invalid \<or> team_active_members t = []"

definition team_rejection_codes :: "registry_team option \<Rightarrow> string list" where
  "team_rejection_codes t =
    [''explicit_team_target'', ''explicit_team_target_unavailable'',
     (case t of None \<Rightarrow> ''team_not_found''
      | Some t \<Rightarrow> ''team_health_'' @ (case te_healthStatus t of None \<Rightarrow> ''unknown'' | Some x \<Rightarrow> team_health_text x))]
    @ (if team_active_members t = [] then [''no_active_team_members''] else [])"

definition team_fallback ::
  "(string \<Rightarrow> string) \<Rightarrow> registry_team option \<Rightarrow> string \<Rightarrow> string \<Rightarrow> candidate_score list \<Rightarrow> planner_diagnostic list \<Rightarrow> fallback_input" where
  "team_fallback tx t teamId parent scores diagnostics =
    (plain_fallback (team_rejection_codes t) ''explicit_team_target_unavailable'' parent)
      \<lparr>fi_candidateScores := scores, fi_diagnostics := diagnostics, fi_rejectedExecutorId := Some teamId,
       fi_rejectedReasonCodes := team_rejection_codes t, fi_unresolvedReasonCode := Some ''selected_team_rejected'',
       fi_userMessage := Some (tx ''team_unavailable'')\<rparr>"

definition team_task ::
  "(string \<Rightarrow> string) \<Rightarrow> string \<Rightarrow> planner_intent \<Rightarrow> string \<Rightarrow> registry_team \<Rightarrow> nat \<Rightarrow> task_scope \<Rightarrow> orchestration_task" where
  "team_task tx planId i teamId t k scope =
    \<lparr>ot_taskId = planId @ '':team:'' @ show_nat k, ot_executionKind = EK_delegated_sub_agent, ot_scope = scope,
     ot_assignedAgentId = None, ot_assignedTeamId = Some teamId,
     ot_requiredCapabilities = unique_strings (pn_requiredCapabilities i), ot_resourceLockIds = [],
     ot_planningTrace = \<lparr>pt_score = None, pt_fromDecision = True, pt_selectedExecutorId = None,
       pt_reasonCodes = [''explicit_team_target'', ''execution_decision_selected_executor'', ''team_execution_plan_planned'']
         @ (case te_healthStatus t of None \<Rightarrow> [] | Some x \<Rightarrow> [''team_health_'' @ team_health_text x]),
       pt_explanation = Some (te_displayName t @ tx ''team_task'')\<rparr>\<rparr>"

definition delegated_fallback :: "string \<Rightarrow> string \<Rightarrow> fallback_strategy" where
  "delegated_fallback code parent =
    \<lparr>fs_mode = FB_direct_current_agent, fs_reasonCode = code, fs_currentExecutorId = Some parent, fs_parentExecutorId = None,
     fs_unresolvedReasonCode = None, fs_unresolvedReason = None, fs_userMessage = None\<rparr>"

definition delegated_metadata ::
  "fast_path_result \<Rightarrow> int \<Rightarrow> string list \<Rightarrow> candidate_score list \<Rightarrow> string option \<Rightarrow> string \<Rightarrow> planner_metadata" where
  "delegated_metadata fast latency reasons scores selected code =
    \<lparr>pm_status = PT_planned, pm_timedOut = False, pm_latencyMs = latency, pm_fastPath = fast, pm_reasonCodes = reasons,
     pm_candidateScores = scores, pm_fromDecision = True, pm_selectedExecutorId = keep selected,
     pm_rejectedExecutorId = None, pm_rejectedReasonCodes = [], pm_fallbackMode = Some FB_direct_current_agent,
     pm_directReasonCodes = [], pm_fallbackReasonCodes = [code]\<rparr>"

definition team_plan ::
  "(string \<Rightarrow> string) \<Rightarrow> planner_input \<Rightarrow> planner_intent \<Rightarrow> string \<Rightarrow> string \<Rightarrow> registry_team \<Rightarrow> task_scope list \<Rightarrow> string
    \<Rightarrow> candidate_score list \<Rightarrow> planner_diagnostic list \<Rightarrow> fast_path_result \<Rightarrow> int \<Rightarrow> int \<Rightarrow> plan_result" where
  "team_plan tx i intent planId teamId t scopes parent scores diagnostics fast startedAt latency =
    (let scores' = map (\<lambda>c. if teamId \<in> set (sc_teamIds c) then c\<lparr>sc_selected := True\<rparr> else c) scores;
         reasons = [''structured_scoring'', ''explicit_team_target'', ''team_execution_plan_planned''];
         code = ''delegated_team_runtime_failure_direct_current_agent''
     in \<lparr>pr_plan =
          \<lparr>op_identity = plan_identity planId (pi_parentRunId i) (pi_parentRequestId i), op_planId = planId,
           op_parentRunId = pi_parentRunId i, op_parentRequestId = pi_parentRequestId i, op_directNobieTasks = [],
           op_delegatedTasks = map (\<lambda>(k, s). team_task tx planId intent teamId t k s) (List.enumerate 0 scopes),
           op_dependencyEdges = pi_dependencyEdges i, op_resourceLocks = pi_resourceLocks i, op_parallelGroups = [],
           op_approvalRequirements = [], op_fallbackStrategy = delegated_fallback code parent,
           op_plannerMetadata = delegated_metadata fast latency reasons scores'
             (selected_executor_of_decision (pi_decision i)) code,
           op_createdAt = startedAt\<rparr>,
         pr_candidateScores = scores', pr_diagnostics = diagnostics, pr_fastPath = fast, pr_timedOut = False,
         pr_reasonCodes = reasons\<rparr>)"

section \<open>Agents\<close>

definition agent_visible :: "string list option \<Rightarrow> string \<Rightarrow> bool" where
  "agent_visible children i \<longleftrightarrow> (case children of None \<Rightarrow> True | Some cs \<Rightarrow> i \<in> set cs)"

definition agent_unavailable :: "agent_registry \<Rightarrow> string list option \<Rightarrow> candidate_score list \<Rightarrow> string \<Rightarrow> bool" where
  "agent_unavailable rg children scores i \<longleftrightarrow>
    find (\<lambda>a. ae_agentId a = i) (rg_agents rg) = None \<or> \<not> agent_visible children i
    \<or> (case find (\<lambda>c. sc_agentId c = i) scores of None \<Rightarrow> True | Some c \<Rightarrow> sc_excludedReasonCodes c \<noteq> [])"

definition agent_rejection_codes :: "agent_registry \<Rightarrow> string list option \<Rightarrow> candidate_score list \<Rightarrow> string \<Rightarrow> string list" where
  "agent_rejection_codes rg children scores i =
    (let target = find (\<lambda>a. ae_agentId a = i) (rg_agents rg) in
     filter (\<lambda>r. r \<noteq> [])
      ([''explicit_agent_target'', ''explicit_agent_target_unavailable'']
       @ (if target = None then [''agent_not_found''] else [])
       @ (if target \<noteq> None \<and> \<not> agent_visible children i then [''explicit_agent_not_direct_child''] else [])
       @ (case find (\<lambda>c. sc_agentId c = i) scores of None \<Rightarrow> [] | Some c \<Rightarrow> sc_excludedReasonCodes c)))"

definition agent_fallback ::
  "(string \<Rightarrow> string) \<Rightarrow> agent_registry \<Rightarrow> string list option \<Rightarrow> string \<Rightarrow> string \<Rightarrow> candidate_score list
    \<Rightarrow> planner_diagnostic list \<Rightarrow> fallback_input" where
  "agent_fallback tx rg children agentId parent scores diagnostics =
    (let reasons = agent_rejection_codes rg children scores agentId in
     (plain_fallback reasons
       (case find (\<lambda>c. sc_agentId c = agentId) scores of
          Some c \<Rightarrow> if ''risk_above_agent_ceiling'' \<in> set (sc_excludedReasonCodes c) then ''explicit_agent_permission_denied''
            else ''explicit_agent_target_unavailable''
        | None \<Rightarrow> ''explicit_agent_target_unavailable'') parent)
       \<lparr>fi_candidateScores := scores, fi_diagnostics := diagnostics, fi_rejectedExecutorId := Some agentId,
        fi_rejectedReasonCodes := reasons, fi_unresolvedReasonCode := Some ''selected_executor_rejected'',
        fi_userMessage := Some (tx ''agent_unavailable'')\<rparr>)"

definition locks_for_task :: "planner_input \<Rightarrow> string \<Rightarrow> lock_contract list" where
  "locks_for_task i taskId = js_lookup (pi_resourceLocksByTaskId i) taskId (pi_resourceLocks i)"

definition delegated_task_id :: "string \<Rightarrow> nat \<Rightarrow> string" where
  "delegated_task_id planId k = planId @ '':delegated:'' @ show_nat k"

definition delegated_task ::
  "planner_input \<Rightarrow> planner_intent \<Rightarrow> string \<Rightarrow> nat \<Rightarrow> task_scope \<Rightarrow> candidate_score \<Rightarrow> orchestration_task" where
  "delegated_task i intent planId k scope c =
    \<lparr>ot_taskId = delegated_task_id planId k, ot_executionKind = EK_delegated_sub_agent, ot_scope = scope,
     ot_assignedAgentId = Some (sc_agentId c), ot_assignedTeamId = keep (pn_explicitTeamId intent),
     ot_requiredCapabilities = unique_strings (pn_requiredCapabilities intent),
     ot_resourceLockIds = map lk_lockId (locks_for_task i (delegated_task_id planId k)),
     ot_planningTrace = \<lparr>pt_score = Some (sc_score c), pt_fromDecision = True, pt_selectedExecutorId = Some (sc_agentId c),
       pt_reasonCodes = [''execution_decision_selected_executor'', ''planner_converted_validated_decision''] @ sc_reasonCodes c,
       pt_explanation = (if sc_explanation c = [] then None else Some (sc_explanation c))\<rparr>\<rparr>"

definition approval_of :: "string \<Rightarrow> nat \<Rightarrow> candidate_score \<Rightarrow> approval_requirement list" where
  "approval_of planId k c =
    (case sc_approvalRisk c of
       Some r \<Rightarrow> if sc_approvalRequired c then
         [\<lparr>aq_approvalId = delegated_task_id planId k @ '':approval:'' @ risk_text r, aq_taskId = delegated_task_id planId k,
           aq_agentId = sc_agentId c, aq_risk = r, aq_reasonCode = ''agent_permission_profile_requires_approval''\<rparr>] else []
     | None \<Rightarrow> [])"

text \<open>The edges of the two nested loops over tasks \<open>i < j\<close>.\<close>

definition lock_edges :: "planner_input \<Rightarrow> orchestration_task list \<Rightarrow> dependency_contract list" where
  "lock_edges i ts =
    concat (map (\<lambda>a. concat (map (\<lambda>b.
        if exclusive_lock_conflict (locks_for_task i (ot_taskId (ts ! a))) (locks_for_task i (ot_taskId (ts ! b)))
        then [\<lparr>dg_fromTaskId = ot_taskId (ts ! a), dg_toTaskId = ot_taskId (ts ! b),
          dp_reasonCode = ''exclusive_resource_lock_conflict''\<rparr>] else []) [Suc a..<length ts])) [0..<length ts])"

definition group_limit :: "agent_registry \<Rightarrow> nat \<Rightarrow> string list \<Rightarrow> rat" where
  "group_limit rg n agents =
    max 1 (fold min (map (\<lambda>i. case find (\<lambda>a. ae_agentId a = i) (rg_agents rg) of
        None \<Rightarrow> 1 | Some a \<Rightarrow> ld_maxParallelSessions (ae_currentLoad a)) agents) (of_nat n))"

definition agent_plan ::
  "planner_input \<Rightarrow> planner_intent \<Rightarrow> agent_registry \<Rightarrow> string \<Rightarrow> task_scope list \<Rightarrow> string
    \<Rightarrow> (nat \<times> candidate_score) list \<Rightarrow> candidate_score list \<Rightarrow> planner_diagnostic list \<Rightarrow> fast_path_result \<Rightarrow> int \<Rightarrow> int
    \<Rightarrow> plan_result" where
  "agent_plan i intent rg planId scopes parent eligible scores diagnostics fast startedAt latency =
    (let pick = (\<lambda>k. snd (eligible ! (k mod length eligible)));
         tasks = map (\<lambda>(k, s). delegated_task i intent planId k s (pick k)) (List.enumerate 0 scopes);
         approvals = concat (map (\<lambda>k. approval_of planId k (pick k)) [0..<length scopes]);
         edges = pi_dependencyEdges i @ lock_edges i tasks;
         agents = uniq (map (\<lambda>k. sc_agentId (pick k)) [0..<length scopes]);
         groups = (if edges = [] \<and> 1 < length tasks
           then [\<lparr>pp_groupId = planId @ '':parallel:0'', pp_parentRunId = pi_parentRunId i, pp_resourceLocks = pi_resourceLocks i,
             pp_concurrencyLimit = group_limit rg (length tasks) agents\<rparr>] else []);
         reasons = [''structured_scoring'', ''execution_decision_selected_executor'',
           if 1 < length tasks then (if groups \<noteq> [] then ''parallel_group_planned'' else ''parallel_candidate_serialized'')
           else ''single_delegated_task''];
         scores' = mark_selected (set (map fst (take (length scopes) eligible))) scores;
         code = ''delegated_executor_runtime_failure_direct_current_agent''
     in \<lparr>pr_plan =
          \<lparr>op_identity = plan_identity planId (pi_parentRunId i) (pi_parentRequestId i), op_planId = planId,
           op_parentRunId = pi_parentRunId i, op_parentRequestId = pi_parentRequestId i, op_directNobieTasks = [],
           op_delegatedTasks = tasks, op_dependencyEdges = edges, op_resourceLocks = pi_resourceLocks i,
           op_parallelGroups = groups, op_approvalRequirements = approvals,
           op_fallbackStrategy = delegated_fallback code parent,
           op_plannerMetadata = delegated_metadata fast latency reasons scores'
             (selected_executor_of_decision (pi_decision i)) code,
           op_createdAt = startedAt\<rparr>,
         pr_candidateScores = scores', pr_diagnostics = diagnostics, pr_fastPath = fast, pr_timedOut = False,
         pr_reasonCodes = reasons\<rparr>)"

section \<open>The plan\<close>

definition planning_intent :: "planner_input \<Rightarrow> planner_intent" where
  "planning_intent i =
    (case selected_executor_of_decision (pi_decision i) of
       None \<Rightarrow> pi_intent i | Some x \<Rightarrow> (pi_intent i)\<lparr>pn_explicitAgentId := Some x\<rparr>)"

definition planning_scopes :: "planner_input \<Rightarrow> task_scope list" where
  "planning_scopes i = (if pi_taskScopes i \<noteq> [] then pi_taskScopes i else [default_task_scope (pi_userRequest i)])"

definition exclusion_diagnostics :: "candidate_score list \<Rightarrow> planner_diagnostic list" where
  "exclusion_diagnostics scores = concat (map (\<lambda>c. map (\<lambda>r.
      \<lparr>pg_code = r, pg_severity = PS_warning, pg_message = sc_agentId c @ '' was excluded from planning by '' @ r @ ''.'',
       pg_agentId = Some (sc_agentId c), pg_teamId = None\<rparr>) (sc_excludedReasonCodes c)) scores)"

text \<open>Once the mode allows it and the registry is loaded in time.\<close>

definition plan_with_registry ::
  "host \<Rightarrow> (string \<Rightarrow> string) \<Rightarrow> planner_input \<Rightarrow> agent_registry \<Rightarrow> string \<Rightarrow> fast_path_result \<Rightarrow> int \<Rightarrow> int \<Rightarrow> plan_result" where
  "plan_with_registry h tx i rg planId fast startedAt latency =
    (let intent = planning_intent i; scopes = planning_scopes i; parent = planner_parent i rg;
         children = planner_children rg parent;
         scores = map (score_candidate tx rg intent parent children) (rg_agents rg);
         diagnostics = exclusion_diagnostics scores @ learning_hint_diagnostics rg children (pi_learningHints i);
         fallback = direct_fallback_plan tx i planId startedAt fast
     in case selected_executor_of_decision (pi_decision i) of
          None \<Rightarrow>
            fallback (case pi_decision i of
                Some d \<Rightarrow> decision_fallback d scores diagnostics
              | None \<Rightarrow> undecided_fallback tx intent parent scores diagnostics)
        | Some selected \<Rightarrow>
            if truthy (pn_explicitTeamId intent) then
              (let teamId = the (pn_explicitTeamId intent); team = find (\<lambda>t. te_teamId t = teamId) (rg_teams rg) in
               if team_unavailable team then fallback (team_fallback tx team teamId parent scores diagnostics)
               else team_plan tx i intent planId teamId (the team) scopes parent scores diagnostics fast startedAt latency)
            else if agent_unavailable rg children scores selected then
              fallback (agent_fallback tx rg children selected parent scores diagnostics)
            else
              (let eligible = sorted_eligible h scores in
               if eligible = [] then
                 fallback ((plain_fallback [''explicit_target_unavailable''] ''explicit_target_unavailable'' parent)
                   \<lparr>fi_candidateScores := scores, fi_diagnostics := diagnostics,
                    fi_unresolvedReasonCode := Some ''selected_executor_unavailable''\<rparr>)
               else agent_plan i intent rg planId scopes parent eligible scores diagnostics fast startedAt latency))"

text \<open>
  \<open>buildOrchestrationPlan\<close> with the registry given. The clock is read at \<open>k\<close> when it starts, twice by the
  classifier, after the registry is there, and when the plan is complete.
\<close>

definition build_orchestration_plan ::
  "host \<Rightarrow> (string \<Rightarrow> string) \<Rightarrow> nat \<Rightarrow> planner_input \<Rightarrow> agent_registry \<Rightarrow> string \<Rightarrow> plan_result" where
  "build_orchestration_plan h tx k i rg planId =
    (let startedAt = h_clock h k; fast = classify_fast_path h tx (k + 1) (planning_intent i);
         timeoutMs = max 1 (opt_or (pi_timeoutMs i) 120); m = pi_modeSnapshot i;
         current = opt_or (pi_parentAgentId i) ''agent:nobie''
     in if md_mode m \<noteq> OM_orchestration then
          direct_fallback_plan tx i planId startedAt fast
            (plain_fallback [''mode_'' @ orchestration_mode_text (md_mode m), md_reasonCode m] (md_reasonCode m) current)
        else if fr_classification fast = FP_direct_nobie then
          direct_fallback_plan tx i planId startedAt fast
            ((plain_fallback (fr_reasonCodes fast) ''direct_nobie_fast_path'' current)\<lparr>fi_userMessage := Some (fr_explanation fast)\<rparr>)
        else if fr_classification fast = FP_workflow_candidate then
          non_execution_plan i planId startedAt fast (fr_reasonCodes fast @ [''requires_workflow_recommendation''])
            ''requires_workflow_recommendation'' PT_requires_workflow_recommendation (tx ''workflow'')
        else if timeoutMs < of_int (h_clock h (k + 3) - startedAt) then
          direct_fallback_plan tx i planId startedAt fast
            ((plain_fallback [''planning_timeout''] ''planning_timeout_direct_current_agent'' (planner_parent i rg))
              \<lparr>fi_timedOut := True, fi_status := PT_degraded\<rparr>)
        else plan_with_registry h tx i rg planId fast startedAt (max 0 (h_clock h (k + 4) - startedAt)))"

end
