(* ===== verification/Planner_Properties.thy ===== *)
theory Planner_Properties
  imports Orchestration_Planner
begin

text \<open>
  What the plans of \<open>orchestration/planner.ts\<close> guarantee: who gets work, what a plan consists of, which
  tasks need an approval and which may run side by side.
\<close>

section \<open>Candidates\<close>

lemma unique_strings_Nil: "unique_strings xs = [] \<longleftrightarrow> (\<forall>x \<in> set xs. js_trim x = [])"
proof -
  have "sort ys = [] \<longleftrightarrow> ys = []" for ys :: "string list" by (metis length_0_conv length_sort)
  then show ?thesis by (auto simp: unique_strings_def filter_empty_conv)
qed

lemma js_trim_visible: "\<not> js_ws c \<Longrightarrow> js_trim (c # s) \<noteq> []"
  using non_blank_iff[of "c # s"] by (simp add: non_blank_def)

lemma all_blank_append:
  "(\<forall>x \<in> set (xs @ ys). js_trim x = []) \<longleftrightarrow> (\<forall>x \<in> set xs. js_trim x = []) \<and> (\<forall>x \<in> set ys. js_trim x = [])"
  by auto

lemma all_blank_if:
  "\<not> js_ws c \<Longrightarrow> (\<forall>x \<in> set (if b then (c # s) # rest else []). js_trim x = []) \<Longrightarrow> \<not> b"
  using js_trim_visible[of c s] by auto

text \<open>What an agent must offer for an intent.\<close>

definition can_take :: "planner_intent \<Rightarrow> registry_agent \<Rightarrow> bool" where
  "can_take i a \<longleftrightarrow> ae_status a = AG_enabled \<and> ae_delegationEnabled a
    \<and> ld_activeSubSessions (ae_currentLoad a) < ld_maxParallelSessions (ae_currentLoad a)
    \<and> has_all [ae_role a] (unique_strings (pn_requiredRoles i))
    \<and> has_all (ss_enabledSkillIds (ae_skillMcpSummary a)) (unique_strings (pn_requiredSkillIds i))
    \<and> has_all (ss_enabledMcpServerIds (ae_skillMcpSummary a)) (unique_strings (pn_requiredMcpServerIds i))
    \<and> has_all (ss_enabledToolNames (ae_skillMcpSummary a)) (unique_strings (pn_requiredToolNames i))
    \<and> has_all (capability_pool a) (unique_strings (pn_requiredCapabilities i))
    \<and> risk_allows a (opt_or (pn_requiredRisk i) CR_safe)
    \<and> pp_profileId (ae_permissionProfile a) \<noteq> []
    \<and> ae_capabilityAvailability a \<noteq> MA_unavailable \<and> ae_modelAvailability a \<noteq> MA_unavailable"

lemma not_excluded:
  assumes "sc_excludedReasonCodes (score_candidate tx rg i parent children a) = []"
  shows "can_take i a" "allowed_by_explicit_target a (effective_team_ids rg a) i"
proof -
  have "\<forall>x \<in> set (excluded_reasons rg i parent children a). js_trim x = []"
    using assms by (simp add: score_candidate_def Let_def unique_strings_Nil)
  then have blanks: "\<forall>x \<in> set (excluded_reasons rg i parent children a). js_trim x = []" .
  note rules = blanks[unfolded excluded_reasons_def Let_def all_blank_append]
  have "ae_status a = AG_enabled"
    by (rule notnotD, rule all_blank_if[OF _ rules[THEN conjunct2, THEN conjunct2, THEN conjunct1]]) (simp add: js_ws_def)
  then show "can_take i a"
    unfolding can_take_def using rules by (simp add: js_trim_visible js_ws_def not_le split: if_splits)
  show "allowed_by_explicit_target a (effective_team_ids rg a) i"
    using rules by (simp add: js_trim_visible js_ws_def split: if_splits)
qed

section \<open>Which plan is built\<close>

lemma eligible_sound:
  assumes "x \<in> set (sorted_eligible h (map (score_candidate tx rg i parent children) as))"
  obtains k a where "x = (k, score_candidate tx rg i parent children a)" "k < length as" "a = as ! k"
    "can_take i a" "allowed_by_explicit_target a (effective_team_ids rg a) i"
proof -
  let ?scores = "map (score_candidate tx rg i parent children) as"
  have "x \<in> set (List.enumerate 0 ?scores)" "sc_excludedReasonCodes (snd x) = []"
    using assms by (auto simp: sorted_eligible_def)
  then obtain k where k: "k < length as" "x = (k, score_candidate tx rg i parent children (as ! k))"
    by (auto simp: in_set_enumerate_eq)
  then have "sc_excludedReasonCodes (score_candidate tx rg i parent children (as ! k)) = []"
    using \<open>sc_excludedReasonCodes (snd x) = []\<close> by simp
  from not_excluded[OF this] show thesis using that k by blast
qed

lemma fallback_shape [simp]:
  "op_delegatedTasks (pr_plan (direct_fallback_plan tx i p n fast f)) = []"
  "op_directNobieTasks (pr_plan (direct_fallback_plan tx i p n fast f)) =
    [direct_task p (pi_userRequest i) (fi_reasonCodes f) (opt_or (fi_userMessage f) (tx ''direct_task''))]"
  "op_parallelGroups (pr_plan (direct_fallback_plan tx i p n fast f)) = []"
  "op_approvalRequirements (pr_plan (direct_fallback_plan tx i p n fast f)) = []"
  by (simp_all add: direct_fallback_plan_def)

lemma fast_path_delegation [simp]: "fr_classification (classify_fast_path h tx k i) = FP_delegation_candidate"
  by (simp add: classify_fast_path_def)

definition planner_eligible :: "host \<Rightarrow> (string \<Rightarrow> string) \<Rightarrow> planner_input \<Rightarrow> agent_registry \<Rightarrow> (nat \<times> candidate_score) list" where
  "planner_eligible h tx i rg =
    (let parent = planner_parent i rg in
     sorted_eligible h (map (score_candidate tx rg (planning_intent i) parent (planner_children rg parent)) (rg_agents rg)))"

text \<open>The three kinds of plans.\<close>

lemma plan_cases:
  obtains (fallback) f n fast where "build_orchestration_plan h tx k i rg planId = direct_fallback_plan tx i planId n fast f"
  | (team) x t scores diagnostics fast n l where
      "selected_executor_of_decision (pi_decision i) = Some x" "md_mode (pi_modeSnapshot i) = OM_orchestration"
      "truthy (pn_explicitTeamId (pi_intent i))"
      "find (\<lambda>t. te_teamId t = the (pn_explicitTeamId (pi_intent i))) (rg_teams rg) = Some t" "\<not> team_unavailable (Some t)"
      "build_orchestration_plan h tx k i rg planId =
        team_plan tx i (planning_intent i) planId (the (pn_explicitTeamId (pi_intent i))) t (planning_scopes i)
          (planner_parent i rg) scores diagnostics fast n l"
  | (agent) x scores diagnostics fast n l where
      "selected_executor_of_decision (pi_decision i) = Some x" "md_mode (pi_modeSnapshot i) = OM_orchestration"
      "\<not> truthy (pn_explicitTeamId (pi_intent i))" "agent_visible (planner_children rg (planner_parent i rg)) x"
      "planner_eligible h tx i rg \<noteq> []"
      "build_orchestration_plan h tx k i rg planId =
        agent_plan i (planning_intent i) rg planId (planning_scopes i) (planner_parent i rg) (planner_eligible h tx i rg)
          scores diagnostics fast n l"
proof -
  show thesis
  proof (cases "md_mode (pi_modeSnapshot i) = OM_orchestration \<and> selected_executor_of_decision (pi_decision i) \<noteq> None
      \<and> \<not> max 1 (opt_or (pi_timeoutMs i) 120) < of_int (h_clock h (k + 3) - h_clock h k)")
    case False
    consider (mode) "md_mode (pi_modeSnapshot i) \<noteq> OM_orchestration"
      | (late) "md_mode (pi_modeSnapshot i) = OM_orchestration"
          "max 1 (opt_or (pi_timeoutMs i) 120) < of_int (h_clock h (k + 3) - h_clock h k)"
      | (undecided) "md_mode (pi_modeSnapshot i) = OM_orchestration" "selected_executor_of_decision (pi_decision i) = None"
          "\<not> max 1 (opt_or (pi_timeoutMs i) 120) < of_int (h_clock h (k + 3) - h_clock h k)"
      using False by blast
    then show thesis
    proof cases
      case mode
      then show thesis by (intro fallback) (simp only: build_orchestration_plan_def Let_def if_True not_False_eq_True)
    next
      case late
      then show thesis by (intro fallback)
        (simp only: build_orchestration_plan_def Let_def if_True if_False fast_path_delegation simp_thms fast_path.distinct)
    next
      case undecided
      then show thesis by (intro fallback)
        (simp only: build_orchestration_plan_def plan_with_registry_def Let_def if_True if_False fast_path_delegation simp_thms
          fast_path.distinct option.case)
    qed
  next
    case True
    then obtain x where x: "selected_executor_of_decision (pi_decision i) = Some x" by blast
    have team_id: "pn_explicitTeamId (planning_intent i) = pn_explicitTeamId (pi_intent i)"
      using x by (simp add: planning_intent_def)
    have plan: "build_orchestration_plan h tx k i rg planId =
        plan_with_registry h tx i rg planId (classify_fast_path h tx (k + 1) (planning_intent i)) (h_clock h k)
          (max 0 (h_clock h (k + 4) - h_clock h k))"
      using True by (simp only: build_orchestration_plan_def Let_def if_False fast_path_delegation simp_thms fast_path.distinct)
    show thesis
    proof (cases "truthy (pn_explicitTeamId (pi_intent i))")
      case t: True
      let ?team = "find (\<lambda>t. te_teamId t = the (pn_explicitTeamId (pi_intent i))) (rg_teams rg)"
      show thesis
      proof (cases "team_unavailable ?team")
        case u: True
        show thesis using x t u team_id by (intro fallback) (simp add: plan plan_with_registry_def Let_def)
      next
        case u: False
        then obtain e where "?team = Some e" by (auto simp: team_unavailable_def)
        then show thesis using team[OF x _ t] True t u x team_id by (simp add: plan plan_with_registry_def Let_def)
      qed
    next
      case t: False
      let ?scores = "map (score_candidate tx rg (planning_intent i) (planner_parent i rg) (planner_children rg (planner_parent i rg))) (rg_agents rg)"
      show thesis
      proof (cases "agent_unavailable rg (planner_children rg (planner_parent i rg)) ?scores x \<or> planner_eligible h tx i rg = []")
        case u: True
        show thesis
        proof (cases "agent_unavailable rg (planner_children rg (planner_parent i rg)) ?scores x")
          case v: True
          show thesis using x t v team_id by (intro fallback) (simp add: plan plan_with_registry_def Let_def)
        next
          case v: False
          then show thesis using x t u team_id by (intro fallback) (simp add: plan plan_with_registry_def planner_eligible_def Let_def)
        qed
      next
        case u: False
        then have "agent_visible (planner_children rg (planner_parent i rg)) x" by (simp add: agent_unavailable_def)
        then show thesis using agent[OF x _ t] True t u x team_id
          by (simp add: plan plan_with_registry_def planner_eligible_def Let_def)
      qed
    qed
  qed
qed

lemma selected_decision:
  assumes "selected_executor_of_decision d = Some x"
  obtains e where "d = Some e" "gd_selected_executor_id e = Some x" "js_trim x \<noteq> []"
    "gd_execution_route e \<in> {ER_delegate_to_child, ER_sub_agent, ER_yeonjang}"
  using assms by (cases d) (auto simp: selected_executor_of_decision_def split: option.splits if_splits)

lemma planning_intent_fields:
  "pn_explicitTeamId (planning_intent i) = pn_explicitTeamId (pi_intent i)"
  "pn_requiredRisk (planning_intent i) = pn_requiredRisk (pi_intent i)"
  "can_take (planning_intent i) a \<longleftrightarrow> can_take (pi_intent i) a"
  by (simp_all add: planning_intent_def can_take_def split: option.split)

text \<open>With a decision every eligible candidate is the selected executor, as able as the intent asks.\<close>

lemma eligible_selected:
  assumes sel: "selected_executor_of_decision (pi_decision i) = Some x" and c: "c \<in> set (planner_eligible h tx i rg)"
  obtains a where "a \<in> set (rg_agents rg)" "ae_agentId a = x" "can_take (pi_intent i) a" "sc_agentId (snd c) = x"
    "snd c = score_candidate tx rg (planning_intent i) (planner_parent i rg) (planner_children rg (planner_parent i rg)) a"
proof -
  have "js_trim x \<noteq> []" using sel by (rule selected_decision)
  then have target: "pn_explicitAgentId (planning_intent i) = Some x" "truthy (Some x)"
    using sel by (auto simp: planning_intent_def truthy_def)
  obtain k a where a: "c = (k, score_candidate tx rg (planning_intent i) (planner_parent i rg) (planner_children rg (planner_parent i rg)) a)"
      "k < length (rg_agents rg)" "a = rg_agents rg ! k" "can_take (planning_intent i) a"
      "allowed_by_explicit_target a (effective_team_ids rg a) (planning_intent i)"
    using c unfolding planner_eligible_def Let_def by (rule eligible_sound)
  have "ae_agentId a = x" using a(5) target by (simp add: allowed_by_explicit_target_def)
  moreover have "sc_agentId (snd c) = ae_agentId a" using a(1) by (simp add: score_candidate_def Let_def)
  ultimately show thesis using that[of a] a by (simp add: planning_intent_fields)
qed

lemma agent_plan_parts:
  "op_delegatedTasks (pr_plan (agent_plan i intent rg p scopes parent E scores ds fast n l)) =
    map (\<lambda>(k, s). delegated_task i intent p k s (snd (E ! (k mod length E)))) (List.enumerate 0 scopes)"
  "op_approvalRequirements (pr_plan (agent_plan i intent rg p scopes parent E scores ds fast n l)) =
    concat (map (\<lambda>k. approval_of p k (snd (E ! (k mod length E)))) [0..<length scopes])"
  "op_directNobieTasks (pr_plan (agent_plan i intent rg p scopes parent E scores ds fast n l)) = []"
  by (simp_all add: agent_plan_def Let_def)

lemma team_plan_parts:
  "op_delegatedTasks (pr_plan (team_plan tx i intent p teamId t scopes parent scores ds fast n l)) =
    map (\<lambda>(k, s). team_task tx p intent teamId t k s) (List.enumerate 0 scopes)"
  "op_directNobieTasks (pr_plan (team_plan tx i intent p teamId t scopes parent scores ds fast n l)) = []"
  "op_parallelGroups (pr_plan (team_plan tx i intent p teamId t scopes parent scores ds fast n l)) = []"
  by (simp_all add: team_plan_def Let_def)

lemma in_enumerate: "(k, s) \<in> set (List.enumerate 0 xs) \<longleftrightarrow> k < length xs \<and> s = xs ! k"
  by (auto simp: in_set_enumerate_eq)

section \<open>Properties\<close>

text \<open>C24: A plan delegates only what a validated decision delegates: in orchestration mode, with a decision whose
  route delegates and which selects an executor. The tasks then all go to that executor, which is a visible
  child and able to take what the intent requires, or, when the intent names a team, all to that team, which
  is not invalid and has active members.\<close>

theorem delegation_follows_decision:
  assumes "t \<in> set (op_delegatedTasks (pr_plan (build_orchestration_plan h tx k i rg planId)))"
  shows "md_mode (pi_modeSnapshot i) = OM_orchestration
    \<and> (\<exists>d x. pi_decision i = Some d \<and> gd_selected_executor_id d = Some x \<and> js_trim x \<noteq> []
        \<and> gd_execution_route d \<in> {ER_delegate_to_child, ER_sub_agent, ER_yeonjang}
        \<and> (if truthy (pn_explicitTeamId (pi_intent i))
           then ot_assignedAgentId t = None \<and> ot_assignedTeamId t = pn_explicitTeamId (pi_intent i)
             \<and> (\<exists>e \<in> set (rg_teams rg). Some (te_teamId e) = pn_explicitTeamId (pi_intent i)
                 \<and> te_healthStatus e \<noteq> Some TH_invalid \<and> team_active_members (Some e) \<noteq> [])
           else ot_assignedAgentId t = Some x \<and> agent_visible (planner_children rg (planner_parent i rg)) x
             \<and> (\<exists>a \<in> set (rg_agents rg). ae_agentId a = x \<and> can_take (pi_intent i) a)))"
proof (cases rule: plan_cases[of h tx k i rg planId])
  case fallback
  then show ?thesis using assms by simp
next
  case (team x e)
  then obtain T where T: "pn_explicitTeamId (pi_intent i) = Some T" by (auto simp: truthy_def)
  have "ot_assignedAgentId t = None \<and> ot_assignedTeamId t = Some T"
    using assms T by (auto simp: team(6) team_plan_parts team_task_def)
  moreover have "e \<in> set (rg_teams rg)" "te_teamId e = T"
    using team(4) T by (auto simp: find_Some_iff)
  moreover obtain d where "pi_decision i = Some d" "gd_selected_executor_id d = Some x" "js_trim x \<noteq> []"
      "gd_execution_route d \<in> {ER_delegate_to_child, ER_sub_agent, ER_yeonjang}"
    by (rule selected_decision[OF team(1)])
  ultimately show ?thesis
    using team(2,3,5) T by (auto simp: team_unavailable_def)
next
  case (agent x)
  let ?E = "planner_eligible h tx i rg"
  obtain j s where j: "j < length (planning_scopes i)"
      "t = delegated_task i (planning_intent i) planId j s (snd (?E ! (j mod length ?E)))"
    using assms by (auto simp: agent(6) agent_plan_parts in_enumerate)
  have "?E ! (j mod length ?E) \<in> set ?E" using agent(5) by simp
  from eligible_selected[OF agent(1) this] obtain a where a: "a \<in> set (rg_agents rg)" "ae_agentId a = x"
      "can_take (pi_intent i) a" "sc_agentId (snd (?E ! (j mod length ?E))) = x" .
  have "ot_assignedAgentId t = Some x" using j(2) a(4) by (simp add: delegated_task_def)
  moreover obtain d where "pi_decision i = Some d" "gd_selected_executor_id d = Some x" "js_trim x \<noteq> []"
      "gd_execution_route d \<in> {ER_delegate_to_child, ER_sub_agent, ER_yeonjang}"
    by (rule selected_decision[OF agent(1)])
  ultimately show ?thesis using a agent(2-4) by auto
qed

lemma task_ids_distinct:
  "distinct (map (\<lambda>(k, s). front @ show_nat k) (List.enumerate 0 xs))"
proof -
  have "inj_on (\<lambda>k. front @ show_nat k) A" for A by (rule inj_onI) (simp add: show_nat_inject)
  moreover have "map (\<lambda>(k, s). front @ show_nat k) (List.enumerate 0 xs) = map (\<lambda>k. front @ show_nat k) [0..<length xs]"
    by (rule nth_equalityI) (simp_all add: nth_enumerate_eq)
  ultimately show ?thesis by (simp add: distinct_map)
qed

lemma delegated_scopes:
  assumes "op_delegatedTasks (pr_plan (build_orchestration_plan h tx k i rg planId)) \<noteq> []"
  shows "map ot_scope (op_delegatedTasks (pr_plan (build_orchestration_plan h tx k i rg planId))) = planning_scopes i"
    "op_directNobieTasks (pr_plan (build_orchestration_plan h tx k i rg planId)) = []"
    "\<exists>front. map ot_taskId (op_delegatedTasks (pr_plan (build_orchestration_plan h tx k i rg planId))) =
      map (\<lambda>(k, s). front @ show_nat k) (List.enumerate 0 (planning_scopes i))"
proof -
  let ?plan = "pr_plan (build_orchestration_plan h tx k i rg planId)"
  have "map ot_scope (op_delegatedTasks ?plan) = planning_scopes i \<and> op_directNobieTasks ?plan = []
    \<and> (\<exists>front. map ot_taskId (op_delegatedTasks ?plan) = map (\<lambda>(k, s). front @ show_nat k) (List.enumerate 0 (planning_scopes i)))"
  proof (cases rule: plan_cases[of h tx k i rg planId])
    case fallback
    then show ?thesis using assms by simp
  next
    case (team x e)
    then show ?thesis
      by (intro conjI exI[of _ "planId @ '':team:''"])
        (simp_all add: team_plan_parts team_task_def case_prod_beta comp_def)
  next
    case (agent x)
    then show ?thesis
      by (intro conjI exI[of _ "planId @ '':delegated:''"])
        (simp_all add: agent_plan_parts delegated_task_def delegated_task_id_def case_prod_beta comp_def)
  qed
  then show "map ot_scope (op_delegatedTasks ?plan) = planning_scopes i" "op_directNobieTasks ?plan = []"
    "\<exists>front. map ot_taskId (op_delegatedTasks ?plan) = map (\<lambda>(k, s). front @ show_nat k) (List.enumerate 0 (planning_scopes i))"
    by blast+
qed

lemma undelegated_plan:
  assumes "op_delegatedTasks (pr_plan (build_orchestration_plan h tx k i rg planId)) = []"
  shows "map ot_scope (op_directNobieTasks (pr_plan (build_orchestration_plan h tx k i rg planId))) = [default_task_scope (pi_userRequest i)]"
    "op_parallelGroups (pr_plan (build_orchestration_plan h tx k i rg planId)) = []"
    "op_approvalRequirements (pr_plan (build_orchestration_plan h tx k i rg planId)) = []"
proof -
  have scopes: "planning_scopes i \<noteq> []" by (simp add: planning_scopes_def)
  obtain f n fast where "build_orchestration_plan h tx k i rg planId = direct_fallback_plan tx i planId n fast f"
  proof (cases rule: plan_cases[of h tx k i rg planId])
    case (team x e)
    then show thesis using assms scopes by (simp add: team_plan_parts enumerate_eq_zip zip_eq_Nil_iff)
  next
    case (agent x)
    then show thesis using assms scopes by (simp add: agent_plan_parts enumerate_eq_zip zip_eq_Nil_iff)
  qed
  then show "map ot_scope (op_directNobieTasks (pr_plan (build_orchestration_plan h tx k i rg planId))) = [default_task_scope (pi_userRequest i)]"
    "op_parallelGroups (pr_plan (build_orchestration_plan h tx k i rg planId)) = []"
    "op_approvalRequirements (pr_plan (build_orchestration_plan h tx k i rg planId)) = []"
    by (simp_all add: direct_task_def)
qed

text \<open>C0: Every plan either delegates every scope of the request, in order and under distinct task ids, and does
  nothing itself, or delegates nothing and consists of one task for the current agent with the default scope,
  without groups and approvals.\<close>

theorem plan_partition:
  "let plan = pr_plan (build_orchestration_plan h tx k i rg planId) in
    (op_directNobieTasks plan = [] \<and> map ot_scope (op_delegatedTasks plan) = planning_scopes i
      \<and> distinct (map ot_taskId (op_delegatedTasks plan)))
    \<or> (op_delegatedTasks plan = [] \<and> map ot_scope (op_directNobieTasks plan) = [default_task_scope (pi_userRequest i)]
      \<and> op_parallelGroups plan = [] \<and> op_approvalRequirements plan = [])"
  using delegated_scopes[of h tx k i rg planId] undelegated_plan[of h tx k i rg planId] task_ids_distinct
  by (cases "op_delegatedTasks (pr_plan (build_orchestration_plan h tx k i rg planId)) = []") (auto simp: Let_def)

text \<open>C25: A task delegated to an agent comes with an approval requirement for that task, agent and risk exactly
  when the risk reaches the level from which the permission profile of the agent asks for approval; the risk
  never exceeds the ceiling of the profile.\<close>

theorem risky_tasks_need_approval:
  assumes "t \<in> set (op_delegatedTasks (pr_plan (build_orchestration_plan h tx k i rg planId)))"
    and "ot_assignedAgentId t = Some x" and "distinct (map ae_agentId (rg_agents rg))"
    and "a \<in> set (rg_agents rg)" and "ae_agentId a = x"
  shows "risk_order (opt_or (pn_requiredRisk (pi_intent i)) CR_safe) \<le> risk_order (pp_riskCeiling (ae_permissionProfile a))
    \<and> (risk_order (pp_approvalRequiredFrom (ae_permissionProfile a)) \<le> risk_order (opt_or (pn_requiredRisk (pi_intent i)) CR_safe)
      \<longleftrightarrow> (\<exists>q \<in> set (op_approvalRequirements (pr_plan (build_orchestration_plan h tx k i rg planId))).
            aq_taskId q = ot_taskId t \<and> aq_agentId q = x \<and> aq_risk q = opt_or (pn_requiredRisk (pi_intent i)) CR_safe))"
proof (cases rule: plan_cases[of h tx k i rg planId])
  case fallback
  then show ?thesis using assms(1) by simp
next
  case (team y e)
  then show ?thesis using assms(1,2) by (auto simp: team_plan_parts team_task_def)
next
  case (agent y)
  let ?E = "planner_eligible h tx i rg"
  let ?pick = "\<lambda>j. snd (?E ! (j mod length ?E))"
  let ?r = "opt_or (pn_requiredRisk (pi_intent i)) CR_safe"
  have pick: "?pick j = score_candidate tx rg (planning_intent i) (planner_parent i rg) (planner_children rg (planner_parent i rg)) a
      \<and> can_take (pi_intent i) a \<and> y = x" if j: "j < length (planning_scopes i)" and "t = delegated_task i (planning_intent i) planId j s (?pick j)" for j s
  proof -
    have "?E ! (j mod length ?E) \<in> set ?E" using agent(5) by simp
    from eligible_selected[OF agent(1) this] obtain b where b: "b \<in> set (rg_agents rg)" "ae_agentId b = y" "can_take (pi_intent i) b"
      "?pick j = score_candidate tx rg (planning_intent i) (planner_parent i rg) (planner_children rg (planner_parent i rg)) b" .
    have "x = y" using that(2) assms(2) b(2,4) by (simp add: delegated_task_def score_candidate_def Let_def)
    then have "b = a" using b(1,2) assms(3-5) by (metis distinct_map inj_onD)
    then show ?thesis using b \<open>x = y\<close> by simp
  qed
  obtain j s where j: "j < length (planning_scopes i)" "t = delegated_task i (planning_intent i) planId j s (?pick j)"
    using assms(1) by (auto simp: agent(6) agent_plan_parts in_enumerate)
  have allows: "risk_allows a ?r" using pick[OF j] by (simp add: can_take_def)
  have approval: "approval_of planId j (?pick j) = (if risk_needs_approval a ?r
      then [\<lparr>aq_approvalId = delegated_task_id planId j @ '':approval:'' @ risk_text ?r, aq_taskId = delegated_task_id planId j,
        aq_agentId = x, aq_risk = ?r, aq_reasonCode = ''agent_permission_profile_requires_approval''\<rparr>] else [])"
    using pick[OF j] allows assms(5) by (simp add: approval_of_def score_candidate_def Let_def planning_intent_fields)
  have ids: "delegated_task_id planId j' = delegated_task_id planId j \<longleftrightarrow> j' = j" for j'
    by (simp add: delegated_task_id_def show_nat_inject)
  have task: "ot_taskId t = delegated_task_id planId j" using j(2) by (simp add: delegated_task_def)
  have own: "\<forall>q \<in> set (approval_of planId j' c). aq_taskId q = delegated_task_id planId j'" for j' c
    by (auto simp: approval_of_def split: option.splits)
  have "(\<exists>q \<in> set (op_approvalRequirements (pr_plan (build_orchestration_plan h tx k i rg planId))).
            aq_taskId q = ot_taskId t \<and> aq_agentId q = x \<and> aq_risk q = ?r)
      \<longleftrightarrow> (\<exists>q \<in> set (approval_of planId j (?pick j)). aq_agentId q = x \<and> aq_risk q = ?r)" (is "?l \<longleftrightarrow> ?m")
  proof
    assume ?l
    then obtain j' q where q: "j' < length (planning_scopes i)" "q \<in> set (approval_of planId j' (?pick j'))"
        "aq_taskId q = ot_taskId t" "aq_agentId q = x" "aq_risk q = ?r"
      by (auto simp: agent(6) agent_plan_parts)
    then have "j' = j" using own ids task by metis
    then show ?m using q by blast
  next
    assume ?m
    then obtain q where "q \<in> set (approval_of planId j (?pick j))" "aq_agentId q = x" "aq_risk q = ?r" by blast
    moreover from this(1) have "q \<in> set (op_approvalRequirements (pr_plan (build_orchestration_plan h tx k i rg planId)))"
      unfolding agent(6) agent_plan_parts by (rule in_set_concat_map) (use j(1) in simp)
    moreover have "aq_taskId q = ot_taskId t" using own[of j "?pick j"] task calculation(1) by simp
    ultimately show ?l by blast
  qed
  then show ?thesis using allows approval by (auto simp: risk_allows_def risk_needs_approval_def)
qed

lemma lock_edges_Nil:
  assumes "lock_edges i ts = []" "a < b" "b < length ts"
  shows "\<not> exclusive_lock_conflict (locks_for_task i (ot_taskId (ts ! a))) (locks_for_task i (ot_taskId (ts ! b)))"
proof
  assume c: "exclusive_lock_conflict (locks_for_task i (ot_taskId (ts ! a))) (locks_for_task i (ot_taskId (ts ! b)))"
  have "a \<in> set [0..<length ts]" "b \<in> set [Suc a..<length ts]" using assms(2,3) by auto
  with assms(1) c show False unfolding lock_edges_def concat_eq_Nil_conv by fastforce
qed

lemma fold_min_le: "(fold min xs (m :: rat) \<le> m) \<and> (\<forall>x \<in> set xs. fold min xs m \<le> x)"
proof (induction xs arbitrary: m)
  case (Cons x xs)
  have "fold min xs (min x m) \<le> min x m" "\<forall>y \<in> set xs. fold min xs (min x m) \<le> y" using Cons by blast+
  then show ?case by auto
qed simp

text \<open>C26: A plan puts its tasks into a parallel group only if no dependency was given, there are at least two tasks,
  and no two of them hold exclusive locks on the same resource. The limit of the group is at least one, at
  most the number of tasks, and above one only up to the session limit of every agent that got a task.\<close>

theorem parallel_group_safe:
  assumes "g \<in> set (op_parallelGroups (pr_plan (build_orchestration_plan h tx k i rg planId)))"
  defines "tasks \<equiv> op_delegatedTasks (pr_plan (build_orchestration_plan h tx k i rg planId))"
  shows "pi_dependencyEdges i = [] \<and> 1 < length tasks
    \<and> (\<forall>a b. a < b \<and> b < length tasks \<longrightarrow>
        \<not> exclusive_lock_conflict (locks_for_task i (ot_taskId (tasks ! a))) (locks_for_task i (ot_taskId (tasks ! b))))
    \<and> 1 \<le> pp_concurrencyLimit g \<and> pp_concurrencyLimit g \<le> of_nat (length tasks)
    \<and> (\<forall>t \<in> set tasks. \<forall>x a. ot_assignedAgentId t = Some x \<and> find (\<lambda>a. ae_agentId a = x) (rg_agents rg) = Some a \<longrightarrow>
        pp_concurrencyLimit g \<le> max 1 (ld_maxParallelSessions (ae_currentLoad a)))"
proof (cases rule: plan_cases[of h tx k i rg planId])
  case fallback
  then show ?thesis using assms(1) by simp
next
  case (team y e)
  then show ?thesis using assms(1) by (simp add: team_plan_parts)
next
  case (agent y)
  let ?E = "planner_eligible h tx i rg"
  let ?agents = "uniq (map (\<lambda>k. sc_agentId (snd (?E ! (k mod length ?E)))) [0..<length (planning_scopes i)])"
  let ?limits = "map (\<lambda>i. case find (\<lambda>a. ae_agentId a = i) (rg_agents rg) of
        None \<Rightarrow> 1 | Some a \<Rightarrow> ld_maxParallelSessions (ae_currentLoad a)) ?agents"
  have tasks: "tasks = map (\<lambda>(k, s). delegated_task i (planning_intent i) planId k s (snd (?E ! (k mod length ?E))))
      (List.enumerate 0 (planning_scopes i))"
    by (simp add: tasks_def agent(6) agent_plan_parts)
  have g: "pi_dependencyEdges i = []" "lock_edges i tasks = []" "1 < length tasks"
    "pp_concurrencyLimit g = max 1 (fold min ?limits (of_nat (length tasks)))"
    using assms(1) unfolding agent(6) agent_plan_def Let_def tasks[symmetric]
    by (auto simp: group_limit_def split: if_splits)
  have limit: "pp_concurrencyLimit g \<le> max 1 (ld_maxParallelSessions (ae_currentLoad a))"
    if "t \<in> set tasks" "ot_assignedAgentId t = Some x" "find (\<lambda>a. ae_agentId a = x) (rg_agents rg) = Some a" for t x a
  proof -
    have "x \<in> set ?agents"
      using that(1,2) by (auto simp: tasks delegated_task_def in_enumerate)
    then have "ld_maxParallelSessions (ae_currentLoad a) \<in> set ?limits" using that(3) by force
    then have "fold min ?limits (of_nat (length tasks)) \<le> ld_maxParallelSessions (ae_currentLoad a)"
      using fold_min_le by blast
    then show ?thesis unfolding g(4) by (intro max.mono order_refl)
  qed
  have "pp_concurrencyLimit g \<le> of_nat (length tasks)" "1 \<le> pp_concurrencyLimit g"
    using g(3) fold_min_le[of ?limits "of_nat (length tasks)"] unfolding g(4) by auto
  then show ?thesis using g(1,3) limit lock_edges_Nil[OF g(2)] by blast
qed

section \<open>A sample\<close>

definition planner_host :: host where
  "planner_host = \<lparr>h_sha256 = (\<lambda>s. s), h_locale_compare = (\<lambda>_ _. 0), h_num_text = (\<lambda>_. ''0''), h_clock = (\<lambda>_. 0)\<rparr>"

definition planner_agent :: registry_agent where
  "planner_agent = \<lparr>ae_agentId = ''a'', ae_displayName = ''A'', ae_nickname = None, ae_status = AG_enabled, ae_role = ''writer'',
     ae_specialtyTags = [], ae_teamIds = [], ae_delegationEnabled = True, ae_source = EO_config,
     ae_permissionProfile = \<lparr>pp_profileId = ''p'', pp_riskCeiling = CR_sensitive, pp_approvalRequiredFrom = CR_moderate,
       pp_allowExternalNetwork = True, pp_allowFilesystemWrite = False, pp_allowShellExecution = False,
       pp_allowScreenControl = False, pp_allowedPaths = []\<rparr>,
     ae_skillMcpSummary = \<lparr>ss_enabledSkillIds = [], ss_enabledMcpServerIds = [], ss_enabledToolNames = []\<rparr>,
     ae_capabilityAvailability = MA_available, ae_modelAvailability = MA_available,
     ae_currentLoad = \<lparr>ld_activeSubSessions = 0, ld_maxParallelSessions = 3, ld_utilization = 0\<rparr>, ae_failureRate = 0\<rparr>"

definition planner_registry :: agent_registry where
  "planner_registry = \<lparr>rg_agents = [planner_agent], rg_teams = [],
     rg_hierarchy = Some \<lparr>rh_rootAgentId = ''agent:nobie'', rh_directChildrenByParent = [(''agent:nobie'', [''a''])]\<rparr>,
     rg_capabilityIndex = None, rg_membershipEdges = []\<rparr>"

definition planner_sample :: planner_input where
  "planner_sample = \<lparr>pi_parentRunId = ''run'', pi_parentRequestId = ''request'', pi_userRequest = ''write'',
     pi_modeSnapshot = \<lparr>md_mode = OM_orchestration, md_reasonCode = ''ready''\<rparr>,
     pi_taskScopes = [default_task_scope ''x'', default_task_scope ''y''],
     pi_intent = \<lparr>pn_explicitAgentId = None, pn_explicitTeamId = None, pn_requiredRoles = [], pn_specialtyTags = [],
       pn_requiredCapabilities = [], pn_requiredSkillIds = [], pn_requiredMcpServerIds = [], pn_requiredToolNames = [],
       pn_requiredRisk = Some CR_external\<rparr>,
     pi_learningHints = [],
     pi_decision = Some \<lparr>gd_current_executor_id = ''agent:nobie'', gd_parent_executor_id = None,
       gd_execution_route = ER_delegate_to_child, gd_selected_executor_id = Some ''a'', gd_unresolved_reason = None,
       gd_reason = ''fits''\<rparr>,
     pi_parentAgentId = None, pi_resourceLocks = [], pi_resourceLocksByTaskId = [], pi_dependencyEdges = [],
     pi_timeoutMs = None\<rparr>"

definition planner_sample_plan :: orchestration_plan where
  "planner_sample_plan = pr_plan (build_orchestration_plan planner_host (\<lambda>k. k) 0 planner_sample planner_registry ''plan'')"

lemma planner_sample_eval:
  "map ot_taskId (op_delegatedTasks planner_sample_plan) = [''plan:delegated:0'', ''plan:delegated:1'']"
  "map ot_assignedAgentId (op_delegatedTasks planner_sample_plan) = [Some ''a'', Some ''a'']"
  "length (op_parallelGroups planner_sample_plan) = 1"
  by code_simp+

lemma planner_sample_task:
  obtains t where "t \<in> set (op_delegatedTasks planner_sample_plan)" "ot_assignedAgentId t = Some ''a''"
  using planner_sample_eval(2) by (cases "op_delegatedTasks planner_sample_plan") auto

theorem delegation_follows_decision_witness:
  "\<exists>t d x. t \<in> set (op_delegatedTasks planner_sample_plan) \<and> pi_decision planner_sample = Some d
     \<and> gd_selected_executor_id d = Some x \<and> ot_assignedAgentId t = Some x"
proof -
  obtain t where t: "t \<in> set (op_delegatedTasks planner_sample_plan)" by (rule planner_sample_task)
  have "\<not> truthy (pn_explicitTeamId (pi_intent planner_sample))" by (simp add: planner_sample_def truthy_def)
  then show ?thesis using delegation_follows_decision[OF t[unfolded planner_sample_plan_def]] t by auto
qed

theorem risky_tasks_need_approval_witness:
  "\<exists>q t. t \<in> set (op_delegatedTasks planner_sample_plan) \<and> q \<in> set (op_approvalRequirements planner_sample_plan)
     \<and> aq_taskId q = ot_taskId t \<and> aq_risk q = CR_external"
proof -
  obtain t where t: "t \<in> set (op_delegatedTasks planner_sample_plan)" "ot_assignedAgentId t = Some ''a''" by (rule planner_sample_task)
  have a: "distinct (map ae_agentId (rg_agents planner_registry))" "planner_agent \<in> set (rg_agents planner_registry)"
    "ae_agentId planner_agent = ''a''" "opt_or (pn_requiredRisk (pi_intent planner_sample)) CR_safe = CR_external"
    "pp_approvalRequiredFrom (ae_permissionProfile planner_agent) = CR_moderate"
    by (simp_all add: planner_registry_def planner_agent_def planner_sample_def)
  show ?thesis
    using risky_tasks_need_approval[OF t(1)[unfolded planner_sample_plan_def] t(2) a(1-3)] t(1)
    by (auto simp: a planner_sample_plan_def)
qed

theorem parallel_group_safe_witness:
  "\<exists>g. g \<in> set (op_parallelGroups planner_sample_plan) \<and> 1 \<le> pp_concurrencyLimit g \<and> pp_concurrencyLimit g \<le> 2"
proof -
  obtain g where g: "g \<in> set (op_parallelGroups planner_sample_plan)"
    using planner_sample_eval(3) by (cases "op_parallelGroups planner_sample_plan") auto
  have "length (op_delegatedTasks planner_sample_plan) = 2"
    using planner_sample_eval(1) by (metis length_Cons length_map list.size(3) numeral_2_eq_2)
  then show ?thesis using parallel_group_safe[OF g[unfolded planner_sample_plan_def]] g by (auto simp: planner_sample_plan_def)
qed

end
