(* ===== verification/Nested_Delegation.thy ===== *)
theory Nested_Delegation
  imports Planner_Properties Enterprise_Rules
begin

text \<open>
  \<open>orchestration/nested-delegation.ts\<close>: the checks of nested commands, the depth of a sub-session, the budget
  of a nested plan, and the plan itself, which wraps the planner.
\<close>

section \<open>Numbers\<close>

definition max_safe_integer :: nat where
  "max_safe_integer = 9007199254740991"

fun normalized_positive_integer :: "jsnum option \<Rightarrow> nat \<Rightarrow> nat" where
  "normalized_positive_integer (Some (Fin x)) fallback =
    (if x = 0 then max_safe_integer else if x < 0 then fallback else nat \<lfloor>x\<rfloor>)"
| "normalized_positive_integer _ fallback = fallback"

fun normalized_depth :: "jsnum option \<Rightarrow> nat" where
  "normalized_depth (Some (Fin x)) = (if x < 0 then 0 else nat \<lfloor>x\<rfloor>)"
| "normalized_depth _ = 0"

section \<open>Commands\<close>

definition is_root_agent :: "string option \<Rightarrow> string \<Rightarrow> bool" where
  "is_root_agent a root_id \<longleftrightarrow> \<not> truthy a \<or> a = Some root_id"

definition command_parent_session :: "command_request \<Rightarrow> string option" where
  "command_parent_session c =
    (case Option.bind (id_parent (cq_identity c)) pl_parentSubSessionId of
       None \<Rightarrow> None
     | Some s \<Rightarrow> if js_trim s = [] then None else Some (js_trim s))"

definition validate_nested_command ::
  "command_request \<Rightarrow> string option \<Rightarrow> string option \<Rightarrow> string option \<Rightarrow> string list" where
  "validate_nested_command c parentAgentId rootAgentId expected =
    (let root_id = opt_or rootAgentId ''agent:nobie''; session = command_parent_session c;
         run = Option.bind (id_parent (cq_identity c)) pl_parentRunId in
     (if (\<not> is_root_agent parentAgentId root_id \<or> truthy expected) \<and> session = None then [''nested_parent_sub_session_required''] else [])
     @ (if truthy expected \<and> session \<noteq> None \<and> expected \<noteq> session then [''nested_parent_sub_session_mismatch''] else [])
     @ (if truthy run \<and> run \<noteq> Some (cq_parentRunId c) then [''nested_parent_run_mismatch''] else []))"

section \<open>Depth\<close>

record session_link =
  sl_subSessionId :: string
  sl_parentSubSessionId :: "string option"

text \<open>\<open>parents\<close> holds the truthy parent id of every session, the last one with an id deciding.\<close>

function depth_loop :: "(string, string option) jsmap \<Rightarrow> string list \<Rightarrow> string \<Rightarrow> nat \<Rightarrow> nat option" where
  "depth_loop parents seen i depth =
    (case map_of parents i of
       Some (Some p) \<Rightarrow>
         if i \<in> set seen then None
         else if map_of parents p = None then Some depth
         else depth_loop parents (i # seen) p (depth + 1)
     | _ \<Rightarrow> Some depth)"
  by pat_completeness auto
termination
proof (relation "measure (\<lambda>(parents, seen, _, _). card (fst ` set parents - set seen))", goal_cases)
  case (2 parents seen i depth x p)
  then show ?case using climb_less[of parents i "Some p" "set seen"] by simp
qed simp

declare depth_loop.simps [simp del]

definition session_parents :: "session_link list \<Rightarrow> (string, string option) jsmap" where
  "session_parents ss = index_by sl_subSessionId (\<lambda>s. keep (sl_parentSubSessionId s)) ss"

definition calculate_sub_session_depth :: "string \<Rightarrow> session_link list \<Rightarrow> nat option" where
  "calculate_sub_session_depth i ss =
    (if map_of (session_parents ss) i = None then None else depth_loop (session_parents ss) [] i 1)"

lemma cycle_stays:
  assumes "(i, i) \<in> (climbs parents)\<^sup>+" "(i, r) \<in> climbs parents ^^ n"
  shows "(r, r) \<in> (climbs parents)\<^sup>+"
  using assms(2)
proof (induction n arbitrary: r)
  case (Suc n)
  then obtain q where q: "(q, q) \<in> (climbs parents)\<^sup>+" "(q, r) \<in> climbs parents" by auto
  then obtain z where "(q, z) \<in> climbs parents" "(z, q) \<in> (climbs parents)\<^sup>*" by (meson tranclD)
  then have "(r, q) \<in> (climbs parents)\<^sup>*" using climbs_functional q(2) by metis
  then show ?case using q(2) by (rule rtrancl_into_trancl1)
qed (use assms(1) in simp)

lemma depth_loop_iff:
  assumes "\<forall>v \<in> set seen. (v, i) \<in> (climbs parents)\<^sup>+"
  shows "depth_loop parents seen i d = Some e \<longleftrightarrow>
    (\<exists>n r. e = d + n \<and> (i, r) \<in> climbs parents ^^ n \<and> r \<notin> Domain (climbs parents))"
  using assms
proof (induction parents seen i d rule: depth_loop.induct)
  case (1 parents seen i d)
  have stop: "(\<exists>n r. e = d + n \<and> (i, r) \<in> climbs parents ^^ n \<and> r \<notin> Domain (climbs parents)) \<longleftrightarrow> e = d"
    if out: "i \<notin> Domain (climbs parents)"
  proof
    assume "\<exists>n r. e = d + n \<and> (i, r) \<in> climbs parents ^^ n \<and> r \<notin> Domain (climbs parents)"
    then obtain n r where n: "e = d + n" "(i, r) \<in> climbs parents ^^ n" by blast
    then have "n = 0" using out by (cases n) (auto simp del: relpow.simps elim!: relpow_Suc_E2)
    then show "e = d" using n by simp
  next
    assume "e = d"
    then show "\<exists>n r. e = d + n \<and> (i, r) \<in> climbs parents ^^ n \<and> r \<notin> Domain (climbs parents)"
      using out by (intro exI[of _ 0] exI[of _ i]) simp
  qed
  show ?case
  proof (cases "\<exists>p. map_of parents i = Some (Some p)")
    case False
    then have "i \<notin> Domain (climbs parents)" by (auto simp: climbs_def)
    moreover have "depth_loop parents seen i d = Some d"
      using False by (subst depth_loop.simps) (auto split: option.split)
    ultimately show ?thesis using stop by auto
  next
    case True
    then obtain p where p: "map_of parents i = Some (Some p)" by blast
    show ?thesis
    proof (cases "i \<in> set seen")
      case seen: True
      then have cyc: "(i, i) \<in> (climbs parents)\<^sup>+" using "1.prems" by blast
      have "r \<in> Domain (climbs parents)" if "(i, r) \<in> climbs parents ^^ n" for n r
        using cycle_stays[OF cyc that] by (meson Domain.DomainI tranclD)
      moreover have "depth_loop parents seen i d = None" using seen p by (subst depth_loop.simps) simp
      ultimately show ?thesis by auto
    next
      case fresh: False
      show ?thesis
      proof (cases "map_of parents p = None")
        case unknown: True
        then have "i \<notin> Domain (climbs parents)" using p by (auto simp: climbs_def)
        moreover have "depth_loop parents seen i d = Some d" using fresh p unknown by (subst depth_loop.simps) simp
        ultimately show ?thesis using stop by auto
      next
        case known: False
        have edge: "(i, p) \<in> climbs parents" using p known by (simp add: climbs_def)
        have seen': "\<forall>v \<in> set (i # seen). (v, p) \<in> (climbs parents)\<^sup>+" using "1.prems" edge by auto
        have step: "depth_loop parents seen i d = depth_loop parents (i # seen) p (d + 1)"
          using fresh p known by (subst depth_loop.simps) (auto split: if_splits)
        have "(\<exists>n r. e = d + n \<and> (i, r) \<in> climbs parents ^^ n \<and> r \<notin> Domain (climbs parents)) \<longleftrightarrow>
            (\<exists>n r. e = d + 1 + n \<and> (p, r) \<in> climbs parents ^^ n \<and> r \<notin> Domain (climbs parents))" (is "?l \<longleftrightarrow> ?r")
        proof
          assume ?l
          then obtain n r where n: "e = d + n" "(i, r) \<in> climbs parents ^^ n" "r \<notin> Domain (climbs parents)" by blast
          show ?r
          proof (cases n)
            case 0
            then show ?thesis using n edge by auto
          next
            case (Suc m)
            then obtain z where "(i, z) \<in> climbs parents" "(z, r) \<in> climbs parents ^^ m" using n(2) by (meson relpow_Suc_E2)
            then have "(p, r) \<in> climbs parents ^^ m" using climbs_functional edge by metis
            then show ?thesis using n Suc by auto
          qed
        next
          assume ?r
          then obtain n r where n: "e = d + 1 + n" "(p, r) \<in> climbs parents ^^ n" "r \<notin> Domain (climbs parents)" by blast
          then have "(i, r) \<in> climbs parents ^^ Suc n" using edge by (meson relpow_Suc_I2)
          then show ?l using n by (intro exI[of _ "Suc n"] exI[of _ r]) simp
        qed
        then show ?thesis using "1.IH"[OF p refl fresh known] seen' step by auto
      qed
    qed
  qed
qed

lemma depth_loop_None:
  assumes "\<forall>v \<in> set seen. (v, i) \<in> (climbs parents)\<^sup>+" "depth_loop parents seen i d = None"
  shows "\<exists>r. (i, r) \<in> (climbs parents)\<^sup>* \<and> (r, r) \<in> (climbs parents)\<^sup>+"
  using assms
proof (induction parents seen i d rule: depth_loop.induct)
  case (1 parents seen i d)
  obtain p where p: "map_of parents i = Some (Some p)"
    using "1.prems"(2) by (subst (asm) depth_loop.simps) (auto split: option.splits)
  show ?case
  proof (cases "i \<in> set seen")
    case True
    then show ?thesis using "1.prems"(1) by blast
  next
    case False
    have known: "map_of parents p \<noteq> None" using "1.prems"(2) p False by (subst (asm) depth_loop.simps) (auto split: if_splits)
    then have edge: "(i, p) \<in> climbs parents" using p by (simp add: climbs_def)
    have "\<forall>v \<in> set (i # seen). (v, p) \<in> (climbs parents)\<^sup>+" using "1.prems"(1) edge by auto
    moreover have "depth_loop parents (i # seen) p (d + 1) = None"
      using "1.prems"(2) p False known by (subst (asm) depth_loop.simps) simp
    ultimately have "\<exists>r. (p, r) \<in> (climbs parents)\<^sup>* \<and> (r, r) \<in> (climbs parents)\<^sup>+"
      using "1.IH"[OF p refl False known] by blast
    then show ?thesis using edge by (meson converse_rtrancl_into_rtrancl)
  qed
qed

lemma cycle_has_no_end:
  assumes "(i, c) \<in> (climbs parents)\<^sup>*" "(c, c) \<in> (climbs parents)\<^sup>+" "(i, r) \<in> climbs parents ^^ n"
  shows "r \<in> Domain (climbs parents)"
  using assms
proof (induction n arbitrary: i)
  case 0
  then have "(i, c) \<in> (climbs parents)\<^sup>+" by (meson rtrancl_trancl_trancl)
  then show ?case using 0 by (auto dest: tranclD)
next
  case (Suc n)
  then obtain z where z: "(i, z) \<in> climbs parents" "(z, r) \<in> climbs parents ^^ n" by (meson relpow_Suc_E2)
  show ?case
  proof (cases "i = c")
    case True
    then obtain w where "(c, w) \<in> climbs parents" "(w, c) \<in> (climbs parents)\<^sup>*" using Suc.prems(2) by (meson tranclD)
    then have "(z, c) \<in> (climbs parents)\<^sup>*" using climbs_functional z(1) True by metis
    then show ?thesis using Suc.IH Suc.prems(2) z(2) by blast
  next
    case False
    then obtain w where "(i, w) \<in> climbs parents" "(w, c) \<in> (climbs parents)\<^sup>*"
      using Suc.prems(1) by (metis converse_rtranclE)
    then have "(z, c) \<in> (climbs parents)\<^sup>*" using climbs_functional z(1) by metis
    then show ?thesis using Suc.IH Suc.prems(2) z(2) by blast
  qed
qed

text \<open>The known parent of a known session.\<close>

definition session_parent :: "session_link list \<Rightarrow> (string \<times> string) set" where
  "session_parent ss = climbs (session_parents ss)"

text \<open>C27: The depth of a sub-session is the number of sessions on the chain of its known parents up to one
  without a known parent; it is undefined exactly for unknown sessions and for chains that run into a cycle.\<close>

theorem sub_session_depth_exact:
  "(calculate_sub_session_depth i ss = Some d \<longleftrightarrow>
      i \<in> sl_subSessionId ` set ss
      \<and> (\<exists>n r. d = Suc n \<and> (i, r) \<in> session_parent ss ^^ n \<and> r \<notin> Domain (session_parent ss)))
    \<and> (calculate_sub_session_depth i ss = None \<longleftrightarrow>
      i \<notin> sl_subSessionId ` set ss \<or> (\<exists>r. (i, r) \<in> (session_parent ss)\<^sup>* \<and> (r, r) \<in> (session_parent ss)\<^sup>+))"
proof (cases "map_of (session_parents ss) i = None")
  case True
  then show ?thesis by (simp add: calculate_sub_session_depth_def session_parents_def index_by_None)
next
  case False
  then have known: "i \<in> sl_subSessionId ` set ss" by (simp add: session_parents_def index_by_None)
  have depth: "calculate_sub_session_depth i ss = depth_loop (session_parents ss) [] i 1"
    unfolding calculate_sub_session_depth_def using False by (simp only: if_False)
  have some: "calculate_sub_session_depth i ss = Some e \<longleftrightarrow>
      (\<exists>n r. e = Suc n \<and> (i, r) \<in> session_parent ss ^^ n \<and> r \<notin> Domain (session_parent ss))" for e
    unfolding depth session_parent_def by (subst depth_loop_iff) simp_all
  have "calculate_sub_session_depth i ss = None \<longleftrightarrow> (\<exists>r. (i, r) \<in> (session_parent ss)\<^sup>* \<and> (r, r) \<in> (session_parent ss)\<^sup>+)"
  proof
    assume "calculate_sub_session_depth i ss = None"
    then show "\<exists>r. (i, r) \<in> (session_parent ss)\<^sup>* \<and> (r, r) \<in> (session_parent ss)\<^sup>+"
      unfolding depth session_parent_def by (intro depth_loop_None) simp_all
  next
    assume "\<exists>r. (i, r) \<in> (session_parent ss)\<^sup>* \<and> (r, r) \<in> (session_parent ss)\<^sup>+"
    then have "calculate_sub_session_depth i ss \<noteq> Some e" for e
      unfolding some session_parent_def using cycle_has_no_end by blast
    then show "calculate_sub_session_depth i ss = None" by (cases "calculate_sub_session_depth i ss") auto
  qed
  then show ?thesis using some known by blast
qed

definition session_sample :: "session_link list" where
  "session_sample = [\<lparr>sl_subSessionId = ''a'', sl_parentSubSessionId = None\<rparr>, \<lparr>sl_subSessionId = ''b'', sl_parentSubSessionId = Some ''a''\<rparr>,
     \<lparr>sl_subSessionId = ''c'', sl_parentSubSessionId = Some ''d''\<rparr>, \<lparr>sl_subSessionId = ''d'', sl_parentSubSessionId = Some ''c''\<rparr>]"

lemma session_sample_depths:
  "calculate_sub_session_depth ''b'' session_sample = Some 2" "calculate_sub_session_depth ''c'' session_sample = None"
  by code_simp+

theorem sub_session_depth_exact_witness:
  "(\<exists>r. (''b'', r) \<in> session_parent session_sample ^^ 1 \<and> r \<notin> Domain (session_parent session_sample))
    \<and> (\<exists>r. (''c'', r) \<in> (session_parent session_sample)\<^sup>* \<and> (r, r) \<in> (session_parent session_sample)\<^sup>+)"
proof -
  have "''c'' \<in> sl_subSessionId ` set session_sample" by (simp add: session_sample_def)
  moreover have "\<exists>n r. 2 = Suc n \<and> (''b'', r) \<in> session_parent session_sample ^^ n \<and> r \<notin> Domain (session_parent session_sample)"
    using sub_session_depth_exact[of "''b''" session_sample 2] session_sample_depths(1) by blast
  moreover have "n = 1" if "2 = Suc n" for n using that by simp
  ultimately show ?thesis using sub_session_depth_exact[of "''c''" session_sample 2] session_sample_depths(2) by blast
qed

section \<open>Budget\<close>

datatype nested_status = NS_ok | NS_shrunk | NS_blocked

record skipped_scope =
  kp_index :: nat
  kp_reasonCode :: string

record nested_budget =
  nb_status :: nested_status
  nb_selected :: "task_scope list"
  nb_skipped :: "skipped_scope list"
  nb_requestedChildren :: nat
  nb_selectedChildren :: nat
  nb_remainingBudget :: "jsnum option"
  nb_reasonCodes :: "string list"

text \<open>\<open>Math.max(0, Math.floor(n))\<close>, infinite when there is no budget; \<open>Math.min\<close> with a natural number.\<close>

fun remaining_budget :: "jsnum option \<Rightarrow> jsnum" where
  "remaining_budget None = PosInf"
| "remaining_budget (Some (Fin x)) = Fin (of_int (max 0 \<lfloor>x\<rfloor>))"
| "remaining_budget (Some NegInf) = Fin 0"
| "remaining_budget (Some n) = n"

fun min_number :: "nat \<Rightarrow> jsnum \<Rightarrow> jsnum" where
  "min_number m (Fin x) = Fin (min (of_nat m) x)"
| "min_number m PosInf = Fin (of_nat m)"
| "min_number m n = n"

fun budget_left :: "jsnum \<Rightarrow> nat \<Rightarrow> jsnum" where
  "budget_left (Fin x) n = Fin (max 0 (x - of_nat n))"
| "budget_left NegInf n = Fin 0"
| "budget_left r n = r"

definition budget_step :: "nat \<Rightarrow> jsnum \<Rightarrow> nat \<times> task_scope \<Rightarrow> task_scope list \<times> skipped_scope list
    \<Rightarrow> task_scope list \<times> skipped_scope list" where
  "budget_step maxChildren remaining ks s =
    (if reached (length (fst s)) (min_number maxChildren remaining) then
       (fst s, snd s @ [\<lparr>kp_index = fst ks, kp_reasonCode = (if reached (length (fst s)) remaining
          then ''nested_spawn_budget_exhausted'' else ''max_children_per_agent_exceeded'')\<rparr>])
     else (fst s @ [snd ks], snd s))"

definition apply_nested_spawn_budget :: "task_scope list \<Rightarrow> jsnum option \<Rightarrow> jsnum option \<Rightarrow> nested_budget" where
  "apply_nested_spawn_budget scopes maxChildrenPerAgent budget =
    (let remaining = remaining_budget budget;
         r = fold (budget_step (normalized_positive_integer maxChildrenPerAgent 10) remaining) (List.enumerate 0 scopes) ([], [])
     in \<lparr>nb_status = (if snd r = [] then NS_ok else if fst r \<noteq> [] then NS_shrunk else NS_blocked),
         nb_selected = fst r, nb_skipped = snd r, nb_requestedChildren = length scopes, nb_selectedChildren = length (fst r),
         nb_remainingBudget = (if budget = None then None else Some (budget_left remaining (length (fst r)))),
         nb_reasonCodes = uniq (map kp_reasonCode (snd r))\<rparr>)"

section \<open>The plan\<close>

record nested_input =
  ni_parentRunId :: string
  ni_parentRequestId :: string
  ni_parentAgentId :: string
  ni_userRequest :: string
  ni_modeSnapshot :: mode_snapshot
  ni_parentSubSessionId :: "string option"
  ni_parentSubSessionDepth :: "jsnum option"
  ni_taskScopes :: "task_scope list"
  ni_intent :: planner_intent
  ni_decision :: "agent_decision option"
  ni_maxDepth :: "jsnum option"
  ni_maxChildrenPerAgent :: "jsnum option"
  ni_nestedSpawnBudgetRemaining :: "jsnum option"

datatype nested_plan_status = NP_planned | NP_shrunk | NP_blocked

record nested_result =
  nr_status :: nested_plan_status
  nr_plan :: "orchestration_plan option"
  nr_parentAgentId :: string
  nr_parentSubSessionId :: "string option"
  nr_parentSubSessionDepth :: nat
  nr_childDepth :: nat
  nr_budget :: nested_budget
  nr_reasonCodes :: "string list"

definition registry_root_id :: "agent_registry \<Rightarrow> string" where
  "registry_root_id rg = (case rg_hierarchy rg of Some t \<Rightarrow> rh_rootAgentId t | None \<Rightarrow> ''agent:nobie'')"

definition attach_nested_metadata :: "orchestration_plan \<Rightarrow> string option \<Rightarrow> string list \<Rightarrow> orchestration_plan" where
  "attach_nested_metadata plan parentSubSessionId reasons =
    (let parent = opt_or (id_parent (op_identity plan)) \<lparr>pl_parentRunId = None, pl_parentSessionId = None,
           pl_parentSubSessionId = None, pl_parentRequestId = None\<rparr>;
         parent' = parent\<lparr>pl_parentRunId := Some (op_parentRunId plan), pl_parentRequestId := Some (op_parentRequestId plan),
           pl_parentSubSessionId := (if truthy parentSubSessionId then parentSubSessionId else pl_parentSubSessionId parent)\<rparr>
     in plan\<lparr>op_identity := (op_identity plan)\<lparr>id_parent := Some parent'\<rparr>,
          op_plannerMetadata := (op_plannerMetadata plan)\<lparr>pm_reasonCodes :=
            uniq (pm_reasonCodes (op_plannerMetadata plan) @ reasons @ [''nested_delegation_policy_checked''])\<rparr>\<rparr>)"

definition nested_scopes :: "nested_input \<Rightarrow> task_scope list" where
  "nested_scopes i = (if ni_taskScopes i \<noteq> [] then ni_taskScopes i else [default_task_scope (ni_userRequest i)])"

definition nested_planner_input :: "nested_input \<Rightarrow> task_scope list \<Rightarrow> planner_input" where
  "nested_planner_input i scopes =
    \<lparr>pi_parentRunId = ni_parentRunId i, pi_parentRequestId = ni_parentRequestId i, pi_userRequest = ni_userRequest i,
     pi_modeSnapshot = ni_modeSnapshot i, pi_taskScopes = scopes, pi_intent = ni_intent i, pi_learningHints = [],
     pi_decision = ni_decision i, pi_parentAgentId = Some (ni_parentAgentId i), pi_resourceLocks = [],
     pi_resourceLocksByTaskId = [], pi_dependencyEdges = [], pi_timeoutMs = None\<rparr>"

definition blocked_result :: "nested_input \<Rightarrow> nested_budget \<Rightarrow> string list \<Rightarrow> nested_result" where
  "blocked_result i budget reasons =
    \<lparr>nr_status = NP_blocked, nr_plan = None, nr_parentAgentId = ni_parentAgentId i,
     nr_parentSubSessionId = keep (ni_parentSubSessionId i),
     nr_parentSubSessionDepth = normalized_depth (ni_parentSubSessionDepth i),
     nr_childDepth = normalized_depth (ni_parentSubSessionDepth i) + 1, nr_budget = budget, nr_reasonCodes = uniq reasons\<rparr>"

definition nested_rejections :: "nested_input \<Rightarrow> agent_registry \<Rightarrow> nested_budget \<Rightarrow> string list" where
  "nested_rejections i rg budget =
    (if \<not> is_root_agent (Some (ni_parentAgentId i)) (registry_root_id rg) \<and> \<not> truthy (ni_parentSubSessionId i)
     then [''nested_parent_sub_session_required''] else [])
    @ (if normalized_positive_integer (ni_maxDepth i) 5 < normalized_depth (ni_parentSubSessionDepth i) + 1
       then [''max_depth_exceeded''] else [])
    @ (if nb_status budget = NS_blocked then nb_reasonCodes budget else [])"

definition build_nested_delegation_plan ::
  "host \<Rightarrow> (string \<Rightarrow> string) \<Rightarrow> nat \<Rightarrow> nested_input \<Rightarrow> agent_registry \<Rightarrow> string \<Rightarrow> nested_result" where
  "build_nested_delegation_plan h tx k i rg planId =
    (let budget = apply_nested_spawn_budget (nested_scopes i) (ni_maxChildrenPerAgent i) (ni_nestedSpawnBudgetRemaining i);
         rejections = nested_rejections i rg budget
     in if rejections \<noteq> [] then blocked_result i budget rejections
        else
          let planned = build_orchestration_plan h tx k (nested_planner_input i (nb_selected budget)) rg planId;
              reasons = [''nested_delegation_planned'']
                @ (if truthy (ni_parentSubSessionId i) then [''parent_sub_session_linked''] else [])
                @ (if nb_status budget = NS_shrunk then ''nested_plan_shrunk'' # nb_reasonCodes budget else []);
              plan = attach_nested_metadata (pr_plan planned) (ni_parentSubSessionId i) reasons
          in if op_delegatedTasks plan = [] then
               blocked_result i budget (''nested_delegation_no_direct_child_candidate''
                 # pm_reasonCodes (op_plannerMetadata plan) @ pm_fallbackReasonCodes (op_plannerMetadata plan))
             else
               \<lparr>nr_status = (if nb_status budget = NS_shrunk then NP_shrunk else NP_planned), nr_plan = Some plan,
                nr_parentAgentId = ni_parentAgentId i, nr_parentSubSessionId = keep (ni_parentSubSessionId i),
                nr_parentSubSessionDepth = normalized_depth (ni_parentSubSessionDepth i),
                nr_childDepth = normalized_depth (ni_parentSubSessionDepth i) + 1, nr_budget = budget,
                nr_reasonCodes = uniq (pr_reasonCodes planned @ reasons)\<rparr>)"

section \<open>What the budget leaves\<close>

text \<open>The number of scopes a plan may hold: a number that is none sets no limit at all.\<close>

fun spawn_limit :: "nat \<Rightarrow> jsnum option \<Rightarrow> nat \<Rightarrow> nat" where
  "spawn_limit m (Some (Fin b)) k = min m (nat \<lfloor>b\<rfloor>)"
| "spawn_limit m (Some NegInf) k = 0"
| "spawn_limit m (Some NaN) k = k"
| "spawn_limit m _ k = m"

lemma reached_spawn_limit:
  assumes "b \<noteq> Some NaN"
  shows "reached n (min_number m (remaining_budget b)) \<longleftrightarrow> spawn_limit m b k \<le> n"
proof (cases b)
  case (Some x)
  then show ?thesis
  proof (cases x)
    case (Fin y)
    have "of_int (max 0 \<lfloor>y\<rfloor>) = (of_nat (nat \<lfloor>y\<rfloor>) :: rat)" by (simp add: of_nat_nat max_def)
    then show ?thesis using Some Fin by (simp add: min_def max_def)
  qed (use Some assms in simp_all)
qed simp

lemma budget_fold:
  assumes "\<And>n. reached n (min_number m r) \<longleftrightarrow> L \<le> n"
  shows "fst (fold (budget_step m r) xs (sel, sk)) = sel @ map snd (take (L - length sel) xs)
    \<and> (snd (fold (budget_step m r) xs (sel, sk)) = [] \<longleftrightarrow> sk = [] \<and> (xs = [] \<or> length sel + length xs \<le> L))"
proof (induction xs arbitrary: sel sk)
  case (Cons x xs)
  show ?case
  proof (cases "L \<le> length sel")
    case True
    then show ?thesis using Cons.IH[of sel] by (simp add: budget_step_def assms)
  next
    case False
    then have "take (L - length sel) (x # xs) = x # take (L - length (sel @ [snd x])) xs" by (simp add: take_Cons')
    then show ?thesis using Cons.IH[of "sel @ [snd x]" sk] False by (auto simp: budget_step_def assms)
  qed
qed simp

lemma budget_unlimited: "fold (budget_step m NaN) xs (sel, sk) = (sel @ map snd xs, sk)"
  by (induction xs arbitrary: sel) (simp_all add: budget_step_def)

lemma budget_selected:
  fixes scopes :: "task_scope list" and mx b :: "jsnum option"
  defines "n \<equiv> spawn_limit (normalized_positive_integer mx 10) b (length scopes)"
  shows "nb_selected (apply_nested_spawn_budget scopes mx b) = take n scopes"
    "nb_status (apply_nested_spawn_budget scopes mx b) =
      (if length scopes \<le> n then NS_ok else if n = 0 then NS_blocked else NS_shrunk)"
proof -
  let ?m = "normalized_positive_integer mx 10"
  let ?f = "fold (budget_step ?m (remaining_budget b)) (List.enumerate 0 scopes) ([], [])"
  have r: "fst ?f = take n scopes \<and> (snd ?f = [] \<longleftrightarrow> length scopes \<le> n)"
  proof (cases "b = Some NaN")
    case True
    then show ?thesis by (simp add: n_def budget_unlimited)
  next
    case False
    from budget_fold[where sel = "[]" and sk = "[]" and xs = "List.enumerate 0 scopes", OF reached_spawn_limit[OF False]]
    have "fst ?f = map snd (take n (List.enumerate 0 scopes)) \<and> (snd ?f = [] \<longleftrightarrow> scopes = [] \<or> length scopes \<le> n)"
      unfolding n_def by (simp add: enumerate_eq_zip zip_eq_Nil_iff)
    then show ?thesis by (auto simp flip: take_map)
  qed
  then show "nb_selected (apply_nested_spawn_budget scopes mx b) = take n scopes"
    by (simp add: apply_nested_spawn_budget_def Let_def)
  show "nb_status (apply_nested_spawn_budget scopes mx b) =
      (if length scopes \<le> n then NS_ok else if n = 0 then NS_blocked else NS_shrunk)"
    using r by (auto simp: apply_nested_spawn_budget_def Let_def)
qed

lemma attached_plan [simp]:
  "op_delegatedTasks (attach_nested_metadata plan s rs) = op_delegatedTasks plan"
  "op_directNobieTasks (attach_nested_metadata plan s rs) = op_directNobieTasks plan"
  by (simp_all add: attach_nested_metadata_def Let_def)

text \<open>C28: A nested plan that is not blocked stays within the depth limit, comes from the root or from an agent
  with a sub-session, and delegates every scope up to the limit given by the children of an agent and the
  remaining budget, in order; it is marked as shrunk exactly when scopes were cut off.\<close>

theorem nested_delegation_bounded:
  assumes "nr_status (build_nested_delegation_plan h tx k i rg planId) \<noteq> NP_blocked"
  defines "r \<equiv> build_nested_delegation_plan h tx k i rg planId"
    and "n \<equiv> spawn_limit (normalized_positive_integer (ni_maxChildrenPerAgent i) 10) (ni_nestedSpawnBudgetRemaining i)
      (length (nested_scopes i))"
  shows "nr_childDepth r = normalized_depth (ni_parentSubSessionDepth i) + 1
    \<and> nr_childDepth r \<le> normalized_positive_integer (ni_maxDepth i) 5
    \<and> (ni_parentAgentId i \<in> {[], registry_root_id rg} \<or> truthy (ni_parentSubSessionId i))
    \<and> (nr_status r = NP_shrunk \<longleftrightarrow> n < length (nested_scopes i)) \<and> 0 < n
    \<and> (\<exists>plan. nr_plan r = Some plan \<and> op_directNobieTasks plan = []
        \<and> map ot_scope (op_delegatedTasks plan) = take n (nested_scopes i))"
proof -
  let ?b = "apply_nested_spawn_budget (nested_scopes i) (ni_maxChildrenPerAgent i) (ni_nestedSpawnBudgetRemaining i)"
  let ?p = "build_orchestration_plan h tx k (nested_planner_input i (nb_selected ?b)) rg planId"
  have selected: "nb_selected ?b = take n (nested_scopes i)"
    and status: "nb_status ?b = (if length (nested_scopes i) \<le> n then NS_ok else if n = 0 then NS_blocked else NS_shrunk)"
    unfolding n_def by (rule budget_selected)+
  have none: "nested_rejections i rg ?b = []" and work: "op_delegatedTasks (pr_plan ?p) \<noteq> []"
    using assms(1) by (auto simp: build_nested_delegation_plan_def blocked_result_def Let_def split: if_splits)
  have "nb_status ?b \<noteq> NS_blocked"
  proof
    assume s: "nb_status ?b = NS_blocked"
    have "nb_reasonCodes ?b \<noteq> []" using s by (auto simp: apply_nested_spawn_budget_def Let_def split: if_splits)
    then show False using none s by (simp add: nested_rejections_def)
  qed
  moreover have "nested_scopes i \<noteq> []" by (simp add: nested_scopes_def)
  ultimately have n: "0 < n" using status by (cases "nested_scopes i") (auto split: if_splits)
  have scopes: "planning_scopes (nested_planner_input i (nb_selected ?b)) = take n (nested_scopes i)"
    using n \<open>nested_scopes i \<noteq> []\<close> by (simp add: planning_scopes_def nested_planner_input_def selected)
  have "map ot_scope (op_delegatedTasks (pr_plan ?p)) = take n (nested_scopes i)" "op_directNobieTasks (pr_plan ?p) = []"
    using delegated_scopes[OF work] unfolding scopes by blast+
  moreover have "nr_childDepth r = normalized_depth (ni_parentSubSessionDepth i) + 1"
    by (simp add: r_def build_nested_delegation_plan_def blocked_result_def Let_def)
  moreover have "normalized_depth (ni_parentSubSessionDepth i) + 1 \<le> normalized_positive_integer (ni_maxDepth i) 5"
    "ni_parentAgentId i \<in> {[], registry_root_id rg} \<or> truthy (ni_parentSubSessionId i)"
    using none by (auto simp: nested_rejections_def is_root_agent_def truthy_def not_less split: if_splits)
  moreover have "nr_status r = (if nb_status ?b = NS_shrunk then NP_shrunk else NP_planned)"
    "\<exists>rs. nr_plan r = Some (attach_nested_metadata (pr_plan ?p) (ni_parentSubSessionId i) rs)"
    using none work by (auto simp: r_def build_nested_delegation_plan_def Let_def)
  ultimately show ?thesis using status n by auto
qed

definition nested_sample :: nested_input where
  "nested_sample = \<lparr>ni_parentRunId = ''run'', ni_parentRequestId = ''request'', ni_parentAgentId = ''agent:nobie'',
     ni_userRequest = ''write'', ni_modeSnapshot = pi_modeSnapshot planner_sample, ni_parentSubSessionId = None,
     ni_parentSubSessionDepth = Some (Fin 4), ni_taskScopes = [default_task_scope ''x'', default_task_scope ''y''],
     ni_intent = pi_intent planner_sample, ni_decision = pi_decision planner_sample, ni_maxDepth = None,
     ni_maxChildrenPerAgent = None, ni_nestedSpawnBudgetRemaining = Some (Fin (3 / 2))\<rparr>"

lemma nested_sample_eval:
  "nr_status (build_nested_delegation_plan planner_host (\<lambda>k. k) 0 nested_sample planner_registry ''plan'') = NP_shrunk"
  by code_simp

theorem nested_delegation_bounded_witness:
  "\<exists>plan. nr_plan (build_nested_delegation_plan planner_host (\<lambda>k. k) 0 nested_sample planner_registry ''plan'') = Some plan
     \<and> map ot_scope (op_delegatedTasks plan) = [default_task_scope ''x'']"
proof -
  have "take (spawn_limit (normalized_positive_integer (ni_maxChildrenPerAgent nested_sample) 10)
      (ni_nestedSpawnBudgetRemaining nested_sample) (length (nested_scopes nested_sample))) (nested_scopes nested_sample)
    = [default_task_scope ''x'']"
    by (simp add: nested_sample_def nested_scopes_def floor_divide_of_int_eq[of 3 2, simplified])
  moreover have "nr_status (build_nested_delegation_plan planner_host (\<lambda>k. k) 0 nested_sample planner_registry ''plan'') \<noteq> NP_blocked"
    by (simp add: nested_sample_eval)
  ultimately show ?thesis using nested_delegation_bounded by metis
qed

end
