(* ===== verification/Spec2Isabelle.thy ===== *)
theory Spec2Isabelle
  imports Node_Runtime_Properties Tools Aggregation Graph_Execution Queue_Backpressure Cron Serial_Queues Hierarchy Approval_Registry Session_Groups
    Topology_Guarantees Nested_Delegation
begin

text \<open>
  A model of the topology runtime, graph execution, run recovery, task queues and schedules of
  Sponzey Nobie (\<open>packages/core/src\<close>).

  The program runs work orders on a topology of nodes. A topology is compiled into a snapshot of
  indexes (\<open>topology/compiler.ts\<close>); a work order addressed to a node becomes an envelope with an
  effective permission scope, an authority decision and a sub-session command
  (\<open>topology-runtime/work-order.ts\<close>); a node run (\<open>node-runtime.ts\<close>) checks it, executes the node
  itself, delegates to its children, executes tools, aggregates and validates the outputs, reviews the
  recovery options before it fails for good, and reports. Children without a runner of their own are
  node runs again.

  Beside it, an executor graph becomes an execution plan with a task analysis and a delegation target
  per node (\<open>topology/graph-execution-plan.ts\<close>), which is simulated and turned into work orders
  (\<open>graph-execution-runner.ts\<close>); failures go through the recovery policy of the runs
  (\<open>runs/recovery-controller.ts\<close>). Jobs of a process wait in bounded queues
  (\<open>runs/queue-backpressure.ts\<close>), and schedules run when their cron expression is due
  (\<open>scheduler/cron.ts\<close>, \<open>tick-policy.ts\<close>). Agents are arranged in a hierarchy below one root
  (\<open>orchestration/hierarchy.ts\<close>); a planner turns a validated decision into tasks for them
  (\<open>orchestration/planner.ts\<close>, \<open>nested-delegation.ts\<close>), which run in groups of sub-sessions
  (\<open>sub-session-runner.ts\<close>); tool calls wait for approvals in a registry
  (\<open>runs/approval-registry.ts\<close>).

  Theories, in the order of the calls:

  \<^item> \<open>Prelude\<close>: numbers, JSON values, insertion-ordered maps, sets as lists, stable sorting, strings,
    and the host (hash, collation, clock), an argument of every definition that needs it.
  \<^item> \<open>Contracts\<close>, \<open>Contract_Validation\<close>: the types of \<open>contracts/enterprise-topology.ts\<close> as records
    and datatypes, its validators over JSON values, and the encoding of the records as JSON, so that the
    validators apply to what the runtime builds.
  \<^item> \<open>Json_Text\<close>: key ordering, stable text and sanitising of JSON values.
  \<^item> \<open>Command_Contract\<close>: command requests of \<open>contracts/sub-agent-orchestration.ts\<close> with their validator.
  \<^item> \<open>Compiler\<close>: \<open>topology/compiler.ts\<close>. The locale \<open>exploration\<close> states what a worklist search
    computes; the breadth-first loop of the compiler interprets it.
  \<^item> \<open>Topology_Contract\<close>, \<open>Delegation_Graph\<close>, \<open>Topology_References\<close>, \<open>Enterprise_Rules\<close>,
    \<open>Topology_Validator\<close>: \<open>topology/validator.ts\<close> and \<open>topology/schema.ts\<close>, stage by stage. Each stage has
    a lemma that says when it adds no blocking issue (\<open>clean\<close>): a contract for every entity, distinct ids,
    references of the right type, an acyclic and bounded delegation relation (the depth-first searches end
    because their path only holds nodes of the topology). \<open>Topology_Guarantees\<close> derives what the verdict
    gives the compiler and the runtime, and composes it with \<open>compileTopology\<close>.
  \<^item> \<open>Work_Order\<close>: \<open>work-order.ts\<close>, \<open>permission-checker.ts\<close>, \<open>authority-checker.ts\<close>,
    \<open>runtime-profile.ts\<close>. The locale \<open>scope_narrowing\<close> is the contract of the intersection functions;
    the work order's and the tool planner's interpret it. \<open>usable_tools\<close>, \<open>usable_systems\<close> and
    \<open>usable_domains\<close> say what a node of a topology can use, in terms of its contract and its relations.
  \<^item> \<open>Delegation\<close>: \<open>delegation-planner.ts\<close>, with the step relation \<open>delegates\<close> from a work order to the
    work orders planned for its children.
  \<^item> \<open>Trace\<close>, \<open>Tools\<close>, \<open>Child_Dispatch\<close>: \<open>trace.ts\<close> (creating events), \<open>tool-planner.ts\<close>,
    \<open>tool-dispatcher.ts\<close>, \<open>child-dispatcher.ts\<close>.
  \<^item> \<open>Aggregation\<close>, \<open>Recovery\<close>: \<open>aggregation.ts\<close>, \<open>validation.ts\<close>, \<open>recovery-controller.ts\<close>,
    \<open>exhaustion-checker.ts\<close>, \<open>failure-report.ts\<close>.
  \<^item> \<open>Node_Decisions\<close>, \<open>Node_Runtime\<close>, \<open>Node_Runtime_Facts\<close>, \<open>Node_Runtime_Properties\<close>:
    \<open>node-runtime.ts\<close> and \<open>reporter.ts\<close>.
  \<^item> \<open>Run_Recovery\<close>: \<open>execution-policy.ts\<close>, \<open>terminal-failure-guard.ts\<close>,
    \<open>recovery-strategy-ledger.ts\<close>, \<open>recovery-controller.ts\<close> of \<open>runs\<close>. The fingerprint is the text
    \<open>JSON.stringify\<close> produces, proved to determine the strategy.
  \<^item> \<open>Executor_Plan\<close>, \<open>Graph_Execution\<close>: \<open>executor-task-analysis.ts\<close>,
    \<open>executor-delegation-resolution.ts\<close>, \<open>graph-execution-plan.ts\<close>, \<open>graph-cancellation.ts\<close>,
    \<open>graph-execution-runner.ts\<close> of \<open>topology\<close>.
  \<^item> \<open>Queue_Backpressure\<close>: \<open>queue-backpressure.ts\<close>, with the step relation \<open>queue_run\<close> over requests
    and settlements in any order.
  \<^item> \<open>Calendar\<close>, \<open>Cron\<close>: the \<open>Date\<close> arithmetic and \<open>cron.ts\<close>, \<open>tick-policy.ts\<close>, \<open>retry.ts\<close> of
    \<open>scheduler\<close>. The searches end at the four-year limit of the code and need no fuel. Local time has one
    fixed offset. \<open>next_run_is_first\<close> and \<open>next_run_skips_short_month\<close> compare the search that jumps with a
    scan of all minutes: it is the scan, except that a jump from a day the next month lacks loses that month.
  \<^item> \<open>Serial_Queues\<close>: \<open>scheduler/queueing.ts\<close>, \<open>scheduler/delivery-queue.ts\<close> and the session queues of
    \<open>runs/run-queueing.ts\<close>. The code keeps three maps of promise chains, by schedule, delivery target and
    session; a \<open>serial_queues\<close> is any one of them, and the theorems hold of each. The step relations are
    \<open>serial_step\<close> (what the host does) and \<open>serial_reachable\<close> (with requests in between).

  \<^item> \<open>Hierarchy\<close>: \<open>orchestration/hierarchy.ts\<close> over the table \<open>agent_relationships\<close> of \<open>db/index.ts\<close>: the
    depth-first search interprets \<open>exploration\<close>, \<open>hierarchy_reachable\<close> is the relation of the tables the
    service can produce, and \<open>forest\<close> is their invariant.

  \<^item> \<open>Approval_Registry\<close>: \<open>runs/approval-registry.ts\<close> over the table \<open>approval_registry\<close>; \<open>run_ops\<close> runs
    any sequence of calls and logs what they answered. \<open>Sqlite_Order\<close> is the order of text and numbers in
    the database.

  \<^item> \<open>Session_Groups\<close>: the groups of \<open>orchestration/sub-session-runner.ts\<close>: the plan of waves (a loop with
    a termination proof), budgets, locks, and the run of a group. \<open>wave_fits\<close> says what a wave respects,
    \<open>regular_waves\<close> what a plan does, \<open>group_inv\<close> is the invariant of a run.

  \<^item> \<open>Orchestration_Planner\<close>, \<open>Planner_Properties\<close>, \<open>Nested_Delegation\<close>: \<open>orchestration/planner.ts\<close> and
    \<open>orchestration/nested-delegation.ts\<close>. \<open>plan_cases\<close> gives the three kinds of plans (for the current agent,
    for a team, for an agent); \<open>can_take\<close> is what an agent must offer; \<open>climbs\<close> (\<open>Enterprise_Rules\<close>) is the
    chain of parents, shared with the hierarchies of an enterprise. The registry is an argument.

  Conventions. Names of record fields carry the source's name after a two-letter prefix. Optional
  fields are options. Fields that hold constants (\<open>schemaVersion\<close>) or repeat another field
  (\<open>reasonCode\<close> where it always equals \<open>code\<close>) are dropped. Time is the clock's \<open>k\<close>-th reading, the
  tick \<open>k\<close> being threaded through every call that reads it. What the caller supplies (self executor,
  tool dispatcher, child runner) is a function that may return nothing, for a promise that never
  settles or rejects; a run is then \<open>None\<close>. Structured clones are the same value.

  Fuel. Only \<open>run_node\<close> takes fuel, one unit per level of delegation. \<open>normalized_max_depth M + 3\<close>
  units are enough (property \<open>run_node_returns\<close>), where \<open>M\<close> is the configured depth limit, and any
  larger amount gives the same result. Everything else about a run is proved of one level,
  \<open>run_node_with\<close>, for an arbitrary function in the place of the recursive call.

  What is not modelled: persistence (\<open>trace.ts\<close> beyond event creation, the database), the routing of
  root runs (\<open>harness.ts\<close>), the authoring side of topologies (\<open>enterprise-rules.ts\<close>, \<open>gap-analysis.ts\<close>, the editor), the timers of the
  scheduler and its use of the database, zones whose offset changes in the local search, the run loop, the model providers,
  channels, user interfaces and the desktop companion; rounding of floating-point numbers
  and the distinction between a rejected promise and one that never settles.
\<close>

end
